(* ===== verification/Prelude.thy ===== *)
theory Prelude
  imports Main "HOL-Library.Word" "HOL-Library.Product_Lexorder" "HOL-Library.Option_ord"
begin

text \<open>
  Shared vocabulary of the development: the machine integers of the Rust sources, the
  \<^verbatim>\<open>Result\<close> combinators that the \<open>?\<close> operator stands for, monotonic time, and
  the collections of rules the component theories add to.

  Conventions. \<^verbatim>\<open>u64\<close>/\<^verbatim>\<open>u32\<close> values are words, so \<open>+\<close> wraps as a release build does and
  \<open><\<close> is unsigned. \<^verbatim>\<open>usize\<close> values that count elements held in memory are naturals.
  \<^verbatim>\<open>Result<T, E>\<close> is \<open>'e + 't\<close> with \<open>Inl\<close> the error. \<^verbatim>\<open>Instant\<close> and
  \<^verbatim>\<open>Duration\<close> are naturals counting nanoseconds.
\<close>

section \<open>Machine integers\<close>

type_synonym u8 = "8 word"
type_synonym u16 = "16 word"
type_synonym u32 = "32 word"
type_synonym u64 = "64 word"
type_synonym usize = nat

definition usize_max :: nat where
  "usize_max = 2 ^ 64 - 1"

definition u32_max :: nat where
  "u32_max = 2 ^ 32 - 1"

text \<open>\<^verbatim>\<open>usize::saturating_add\<close>; \<^verbatim>\<open>saturating_sub\<close> is subtraction on naturals.\<close>

definition usize_saturating_add :: "usize \<Rightarrow> usize \<Rightarrow> usize" where
  "usize_saturating_add a b = min (a + b) usize_max"

text \<open>\<^verbatim>\<open>u64::checked_add(1)\<close>.\<close>

definition u64_checked_succ :: "u64 \<Rightarrow> u64 option" where
  "u64_checked_succ x = (if x = - 1 then None else Some (x + 1))"

lemma u64_checked_succ_Some:
  "u64_checked_succ x = Some y \<longleftrightarrow> x \<noteq> - 1 \<and> y = x + 1"
  by (auto simp: u64_checked_succ_def)

lemma unat_word_Suc: "(x :: 'a::len word) \<noteq> - 1 \<Longrightarrow> unat (x + 1) = Suc (unat x)"
  by (metis add.commute max_word_wrap unatSuc)

lemma word_less_Suc: "(x :: 'a::len word) \<noteq> - 1 \<Longrightarrow> x < x + 1"
  by (simp add: word_less_nat_alt unat_word_Suc)

lemma u64_checked_succ_less: "u64_checked_succ x = Some y \<Longrightarrow> x < y"
  by (auto simp: u64_checked_succ_Some word_less_Suc)

section \<open>Monotonic time\<close>

type_synonym instant = nat
type_synonym duration = nat

text \<open>\<^verbatim>\<open>Instant\<close> keeps its seconds in a signed 64-bit field on the supported platform.\<close>

definition nanos_per_sec :: nat where
  "nanos_per_sec = 1000000000"

definition instant_max :: instant where
  "instant_max = 2 ^ 63 * nanos_per_sec - 1"

definition duration_from_secs :: "nat \<Rightarrow> duration" where
  "duration_from_secs s = s * nanos_per_sec"

definition duration_as_secs :: "duration \<Rightarrow> nat" where
  "duration_as_secs d = d div nanos_per_sec"

definition checked_duration_since :: "instant \<Rightarrow> instant \<Rightarrow> duration option" where
  "checked_duration_since now earlier = (if earlier \<le> now then Some (now - earlier) else None)"

definition saturating_duration_since :: "instant \<Rightarrow> instant \<Rightarrow> duration" where
  "saturating_duration_since now earlier = now - earlier"

definition instant_checked_add :: "instant \<Rightarrow> duration \<Rightarrow> instant option" where
  "instant_checked_add t d = (if t + d \<le> instant_max then Some (t + d) else None)"

lemma checked_duration_since_Some [simp]:
  "checked_duration_since now t = Some d \<longleftrightarrow> t \<le> now \<and> d = now - t"
  by (auto simp: checked_duration_since_def)

lemma checked_duration_since_None [simp]:
  "checked_duration_since now t = None \<longleftrightarrow> now < t"
  by (auto simp: checked_duration_since_def)

lemma instant_checked_add_default: "t \<le> (case instant_checked_add t d of None \<Rightarrow> t | Some u \<Rightarrow> u)"
  by (simp add: instant_checked_add_def)

section \<open>Results\<close>

text \<open>\<open>and_then r f\<close> is \<open>f(r?)\<close>: the first error wins and nothing after it runs.\<close>

definition and_then :: "'e + 'a \<Rightarrow> ('a \<Rightarrow> 'e + 'b) \<Rightarrow> 'e + 'b" where
  "and_then r f = (case r of Inl e \<Rightarrow> Inl e | Inr x \<Rightarrow> f x)"

definition ok_or :: "'e \<Rightarrow> 'a option \<Rightarrow> 'e + 'a" where
  "ok_or e x = (case x of None \<Rightarrow> Inl e | Some v \<Rightarrow> Inr v)"

definition ensure :: "bool \<Rightarrow> 'e \<Rightarrow> 'e + unit" where
  "ensure b e = (if b then Inr () else Inl e)"

definition map_err :: "('e \<Rightarrow> 'f) \<Rightarrow> 'e + 'a \<Rightarrow> 'f + 'a" where
  "map_err f r = (case r of Inl e \<Rightarrow> Inl (f e) | Inr x \<Rightarrow> Inr x)"

definition is_ok :: "'e + 'a \<Rightarrow> bool" where
  "is_ok r = (case r of Inl _ \<Rightarrow> False | Inr _ \<Rightarrow> True)"

definition is_some :: "'a option \<Rightarrow> bool" where
  "is_some x = (x \<noteq> None)"

definition opt_is_some_and :: "('a \<Rightarrow> bool) \<Rightarrow> 'a option \<Rightarrow> bool" where
  "opt_is_some_and P x = (case x of None \<Rightarrow> False | Some v \<Rightarrow> P v)"

lemma and_then_Inl [simp]: "and_then (Inl e) f = Inl e"
  and and_then_Inr [simp]: "and_then (Inr x) f = f x"
  by (simp_all add: and_then_def)

lemma and_then_eq_Inr: "and_then r f = Inr y \<longleftrightarrow> (\<exists>x. r = Inr x \<and> f x = Inr y)"
  by (cases r) auto

lemma and_then_eq_Inl: "and_then r f = Inl e \<longleftrightarrow> r = Inl e \<or> (\<exists>x. r = Inr x \<and> f x = Inl e)"
  by (cases r) auto

lemma ok_or_None [simp]: "ok_or e None = Inl e"
  and ok_or_Some [simp]: "ok_or e (Some v) = Inr v"
  by (simp_all add: ok_or_def)

lemma ok_or_eq_Inr [simp]: "ok_or e x = Inr v \<longleftrightarrow> x = Some v"
  by (cases x) auto

lemma ok_or_eq_Inl [simp]: "ok_or e x = Inl e' \<longleftrightarrow> x = None \<and> e' = e"
  by (cases x) auto

lemma ensure_True [simp]: "ensure True e = Inr ()"
  and ensure_False [simp]: "ensure False e = Inl e"
  by (simp_all add: ensure_def)

lemma ensure_eq_Inr [simp]: "ensure b e = Inr u \<longleftrightarrow> b"
  by (cases b) auto

lemma ensure_eq_Inl [simp]: "ensure b e = Inl e' \<longleftrightarrow> \<not> b \<and> e' = e"
  by (cases b) auto

lemma map_err_Inl [simp]: "map_err f (Inl e) = Inl (f e)"
  and map_err_Inr [simp]: "map_err f (Inr x) = Inr x"
  by (simp_all add: map_err_def)

lemma map_err_eq_Inr [simp]: "map_err f r = Inr x \<longleftrightarrow> r = Inr x"
  by (cases r) auto

lemma map_err_eq_Inl: "map_err f r = Inl e \<longleftrightarrow> (\<exists>e'. r = Inl e' \<and> e = f e')"
  by (cases r) auto

lemma is_ok_simps [simp]: "is_ok (Inr x)" "\<not> is_ok (Inl e)"
  by (simp_all add: is_ok_def)

lemma is_some_simps [simp]: "is_some (Some x)" "\<not> is_some None"
  by (simp_all add: is_some_def)

lemma opt_is_some_and_simps [simp]:
  "opt_is_some_and P (Some x) = P x" "\<not> opt_is_some_and P None"
  by (simp_all add: opt_is_some_and_def)

lemma opt_is_some_and_iff: "opt_is_some_and P x \<longleftrightarrow> (\<exists>v. x = Some v \<and> P v)"
  by (cases x) auto

lemmas result_ok = and_then_eq_Inr

section \<open>Rule collections\<close>

text \<open>
  \<open>ids\<close>: definitions of composite identifiers' orders; \<open>wf_defs\<close>: unfoldings of the
  invariants; \<open>eval\<close>: rules that compute a model on a concrete input.
\<close>

named_theorems eval "evaluation of the model on concrete inputs"
named_theorems wf_defs "definitions of the component invariants"

declare and_then_Inl [eval] and_then_Inr [eval] ok_or_None [eval] ok_or_Some [eval]
  ensure_def [eval] map_err_Inl [eval] map_err_Inr [eval]

section \<open>Lists\<close>

text \<open>\<^verbatim>\<open>Vec::swap_remove\<close>: the last element takes the place of the removed one.\<close>

definition swap_remove :: "nat \<Rightarrow> 'a list \<Rightarrow> 'a list" where
  "swap_remove i xs =
     (if i < length xs
      then (if Suc i = length xs then butlast xs else (butlast xs)[i := last xs])
      else xs)"

text \<open>\<^verbatim>\<open>iter().position(..)\<close>.\<close>

fun position :: "('a \<Rightarrow> bool) \<Rightarrow> 'a list \<Rightarrow> nat option" where
  "position P [] = None"
| "position P (x # xs) = (if P x then Some 0 else map_option Suc (position P xs))"

lemma position_Some:
  "position P xs = Some i \<Longrightarrow> i < length xs \<and> P (xs ! i) \<and> (\<forall>j<i. \<not> P (xs ! j))"
proof (induction xs arbitrary: i)
  case (Cons x xs)
  then show ?case
    by (cases i) (auto split: if_splits simp: nth_Cons split: nat.splits)
qed simp

lemma position_None: "position P xs = None \<longleftrightarrow> (\<forall>x \<in> set xs. \<not> P x)"
  by (induction xs) auto

lemma length_swap_remove: "i < length xs \<Longrightarrow> length (swap_remove i xs) = length xs - 1"
  by (auto simp: swap_remove_def)

lemma sum_list_filter_le: "(\<Sum>x\<leftarrow>filter P xs. f x) \<le> (\<Sum>x\<leftarrow>xs. (f x :: nat))"
  by (induction xs) auto

lemma distinct_singleton: "distinct xs \<Longrightarrow> set xs = {x} \<Longrightarrow> xs = [x]"
  by (cases xs) (auto simp: subset_singleton_iff dest: equalityD1)

section \<open>Transition systems\<close>

text \<open>
  Every stateful component is driven through an operation \<open>step\<close> on commands. An invariant
  that each step keeps holds after any run; the components interpret this locale on their
  own step functions and invariants.
\<close>

locale transition_system =
  fixes step :: "'s \<Rightarrow> 'c \<Rightarrow> 's"
    and inv :: "'s \<Rightarrow> bool"
  assumes step_inv: "inv s \<Longrightarrow> inv (step s c)"
begin

lemma run_inv: "inv s \<Longrightarrow> inv (foldl step s cs)"
  by (induction cs arbitrary: s) (auto intro: step_inv)

lemma run_mono:
  assumes s: "inv s" and mono: "\<And>s c. inv s \<Longrightarrow> (f s :: 'b::preorder) \<le> f (step s c)"
  shows "f s \<le> f (foldl step s cs)"
  using s
proof (induction cs arbitrary: s)
  case (Cons c cs)
  have "f s \<le> f (step s c)" using Cons.prems by (rule mono)
  also have "\<dots> \<le> f (foldl step (step s c) cs)"
    using Cons.prems by (intro Cons.IH step_inv)
  finally show ?case by simp
qed simp

end

text \<open>
  An invariant that consumes a bounded resource (an id counter that must not wrap): \<open>inv n s\<close>
  says that \<open>s\<close> is well formed and has room for \<open>n\<close> more steps.
\<close>

locale bounded_transition_system =
  fixes step :: "'s \<Rightarrow> 'c \<Rightarrow> 's"
    and inv :: "nat \<Rightarrow> 's \<Rightarrow> bool"
  assumes step_inv: "inv (Suc n) s \<Longrightarrow> inv n (step s c)"
begin

lemma run_inv: "inv (n + length cs) s \<Longrightarrow> inv n (foldl step s cs)"
  by (induction cs arbitrary: s) (auto intro: step_inv)

end

sublocale transition_system \<subseteq> bounded: bounded_transition_system step "\<lambda>_. inv"
  by unfold_locales (rule step_inv)

end
