(* ===== verification/Protocol.thy ===== *)
theory Protocol
  imports Prelude
begin

text \<open>
  \<^verbatim>\<open>woven-protocol/src/model.rs\<close>: the numeric enums, the typed control payloads and the envelope of
  the wire protocol. A Rust string is the list of its UTF-8 bytes (\<^typ>\<open>char\<close> is a byte), so that
  \<^verbatim>\<open>len\<close> is the length of the list.
\<close>

definition PROTOCOL_VERSION :: u16 where
  "PROTOCOL_VERSION = 1"

section \<open>Numeric enums\<close>

text \<open>
  The macro \<^verbatim>\<open>numeric_enum!\<close> makes \<^verbatim>\<open>value\<close> and \<^verbatim>\<open>from_wire\<close> from one table of variants and numbers.
\<close>

definition enum_value :: "('a \<times> 'w) list \<Rightarrow> 'a \<Rightarrow> 'w" where
  "enum_value table k = the (map_of table k)"

definition enum_from_wire :: "('a \<times> 'w) list \<Rightarrow> 'w \<Rightarrow> 'a option" where
  "enum_from_wire table v = map_of (map (\<lambda>(k, n). (n, k)) table) v"

definition enum_table_ok :: "('a \<times> 'w) list \<Rightarrow> bool" where
  "enum_table_ok table \<longleftrightarrow> distinct (map fst table) \<and> distinct (map snd table)"

lemma enum_from_wire_value:
  assumes "enum_table_ok table" "k \<in> set (map fst table)"
  shows "enum_from_wire table (enum_value table k) = Some k"
proof -
  obtain n where n: "(k, n) \<in> set table" using assms(2) by auto
  then have "enum_value table k = n" using assms(1) by (simp add: enum_value_def enum_table_ok_def)
  moreover have "distinct (map fst (map (\<lambda>(k, n). (n, k)) table))"
    using assms(1) by (simp add: enum_table_ok_def comp_def case_prod_unfold)
  then have "map_of (map (\<lambda>(k, n). (n, k)) table) n = Some k"
    using n by (intro map_of_is_SomeI) force+
  ultimately show ?thesis by (simp add: enum_from_wire_def)
qed

lemma enum_value_from_wire:
  assumes "enum_table_ok table" "enum_from_wire table v = Some k"
  shows "enum_value table k = v"
proof -
  have "(v, k) \<in> set (map (\<lambda>(k, n). (n, k)) table)"
    using assms(2) unfolding enum_from_wire_def by (rule map_of_SomeD)
  then have "(k, v) \<in> set table" by auto
  then show ?thesis using assms(1) by (simp add: enum_value_def enum_table_ok_def)
qed

datatype message_kind =
    MK_Unknown | MK_Hello | MK_Capabilities | MK_Authenticate | MK_Authenticated | MK_JoinSession
  | MK_LeaveSession | MK_SubscribeSpace | MK_UnsubscribeSpace | MK_SubscriptionAccepted
  | MK_SubscriptionRejected | MK_EntityEntered | MK_EntityLeft | MK_EntityState | MK_ReliableEvent
  | MK_SnapshotRequest | MK_Snapshot | MK_SpaceTransition | MK_Ping | MK_Pong | MK_ProtocolError
  | MK_InferenceRequested | MK_InferenceAccepted | MK_InferenceProgress | MK_InferenceStreamChunk
  | MK_InferenceCompleted | MK_InferenceFailed | MK_InferenceCancelled | MK_InferenceExpired
  | MK_ToolCallProposed | MK_ToolCallAccepted | MK_ToolCallRejected | MK_ToolCallCompleted

definition message_kind_table :: "(message_kind \<times> u8) list" where
  "message_kind_table = [(MK_Unknown, 0), (MK_Hello, 1), (MK_Capabilities, 2), (MK_Authenticate, 3),
     (MK_Authenticated, 4), (MK_JoinSession, 5), (MK_LeaveSession, 6), (MK_SubscribeSpace, 7),
     (MK_UnsubscribeSpace, 8), (MK_SubscriptionAccepted, 9), (MK_SubscriptionRejected, 10),
     (MK_EntityEntered, 11), (MK_EntityLeft, 12), (MK_EntityState, 13), (MK_ReliableEvent, 14),
     (MK_SnapshotRequest, 15), (MK_Snapshot, 16), (MK_SpaceTransition, 17), (MK_Ping, 18), (MK_Pong, 19),
     (MK_ProtocolError, 20), (MK_InferenceRequested, 21), (MK_InferenceAccepted, 22),
     (MK_InferenceProgress, 23), (MK_InferenceStreamChunk, 24), (MK_InferenceCompleted, 25),
     (MK_InferenceFailed, 26), (MK_InferenceCancelled, 27), (MK_InferenceExpired, 28),
     (MK_ToolCallProposed, 29), (MK_ToolCallAccepted, 30), (MK_ToolCallRejected, 31),
     (MK_ToolCallCompleted, 32)]"

definition message_kind_value :: "message_kind \<Rightarrow> u8" where
  "message_kind_value = enum_value message_kind_table"

definition message_kind_from_wire :: "u8 \<Rightarrow> message_kind option" where
  "message_kind_from_wire = enum_from_wire message_kind_table"

datatype wire_delivery =
    PD_Unknown | PD_ReliableOrdered | PD_ReliableUnordered | PD_LatestValue | PD_UnreliableSequenced
  | PD_BestEffortEvent

definition wire_delivery_table :: "(wire_delivery \<times> u8) list" where
  "wire_delivery_table = [(PD_Unknown, 0), (PD_ReliableOrdered, 1), (PD_ReliableUnordered, 2),
     (PD_LatestValue, 3), (PD_UnreliableSequenced, 4), (PD_BestEffortEvent, 5)]"

definition is_unreliable :: "wire_delivery \<Rightarrow> bool" where
  "is_unreliable d = (case d of PD_UnreliableSequenced \<Rightarrow> True | PD_BestEffortEvent \<Rightarrow> True | _ \<Rightarrow> False)"

datatype authentication_scheme = AS_Unknown | AS_Bearer | AS_Development

definition authentication_scheme_table :: "(authentication_scheme \<times> u8) list" where
  "authentication_scheme_table = [(AS_Unknown, 0), (AS_Bearer, 1), (AS_Development, 2)]"

datatype subscription_rejection_code =
  SR_Unknown | SR_Unauthorized | SR_SpaceNotFound | SR_CapacityExceeded | SR_EpochMismatch

definition subscription_rejection_code_table :: "(subscription_rejection_code \<times> u16) list" where
  "subscription_rejection_code_table = [(SR_Unknown, 0), (SR_Unauthorized, 1), (SR_SpaceNotFound, 2),
     (SR_CapacityExceeded, 3), (SR_EpochMismatch, 4)]"

datatype entity_leave_reason =
  EL_Unknown | EL_Unsubscribed | EL_Disconnected | EL_Transitioned | EL_Removed

definition entity_leave_reason_table :: "(entity_leave_reason \<times> u8) list" where
  "entity_leave_reason_table = [(EL_Unknown, 0), (EL_Unsubscribed, 1), (EL_Disconnected, 2),
     (EL_Transitioned, 3), (EL_Removed, 4)]"

datatype protocol_error_code =
    PE_Unknown | PE_MalformedFrame | PE_UnsupportedVersion | PE_UnsupportedMessage
  | PE_AuthenticationRequired | PE_Unauthorized | PE_InvalidScope | PE_StaleEpoch | PE_SequenceRejected
  | PE_PayloadTooLarge | PE_RateLimited | PE_Internal

definition protocol_error_code_table :: "(protocol_error_code \<times> u16) list" where
  "protocol_error_code_table = [(PE_Unknown, 0), (PE_MalformedFrame, 1), (PE_UnsupportedVersion, 2),
     (PE_UnsupportedMessage, 3), (PE_AuthenticationRequired, 4), (PE_Unauthorized, 5), (PE_InvalidScope, 6),
     (PE_StaleEpoch, 7), (PE_SequenceRejected, 8), (PE_PayloadTooLarge, 9), (PE_RateLimited, 10),
     (PE_Internal, 11)]"

datatype tool_call_rejection_code = TR_Unknown | TR_Stale | TR_Unauthorized | TR_InvalidArguments | TR_PolicyDenied

definition tool_call_rejection_code_table :: "(tool_call_rejection_code \<times> u8) list" where
  "tool_call_rejection_code_table = [(TR_Unknown, 0), (TR_Stale, 1), (TR_Unauthorized, 2),
     (TR_InvalidArguments, 3), (TR_PolicyDenied, 4)]"

named_theorems enum_tables

declare message_kind_table_def [enum_tables] wire_delivery_table_def [enum_tables]
  authentication_scheme_table_def [enum_tables] subscription_rejection_code_table_def [enum_tables]
  entity_leave_reason_table_def [enum_tables] protocol_error_code_table_def [enum_tables]
  tool_call_rejection_code_table_def [enum_tables]

lemma enum_tables_ok [simp]:
  "enum_table_ok message_kind_table" "enum_table_ok wire_delivery_table"
  "enum_table_ok authentication_scheme_table" "enum_table_ok subscription_rejection_code_table"
  "enum_table_ok entity_leave_reason_table" "enum_table_ok protocol_error_code_table"
  "enum_table_ok tool_call_rejection_code_table"
  by (simp_all add: enum_table_ok_def enum_tables)

text \<open>Every variant is in its table.\<close>

lemma message_kind_table_complete [simp]: "k \<in> set (map fst message_kind_table)"
  by (cases k) (simp_all add: enum_tables)

lemma wire_delivery_table_complete [simp]: "k \<in> set (map fst wire_delivery_table)"
  by (cases k) (simp_all add: enum_tables)

lemma authentication_scheme_table_complete [simp]: "k \<in> set (map fst authentication_scheme_table)"
  by (cases k) (simp_all add: enum_tables)

lemma subscription_rejection_code_table_complete [simp]: "k \<in> set (map fst subscription_rejection_code_table)"
  by (cases k) (simp_all add: enum_tables)

lemma entity_leave_reason_table_complete [simp]: "k \<in> set (map fst entity_leave_reason_table)"
  by (cases k) (simp_all add: enum_tables)

lemma protocol_error_code_table_complete [simp]: "k \<in> set (map fst protocol_error_code_table)"
  by (cases k) (simp_all add: enum_tables)

lemma tool_call_rejection_code_table_complete [simp]: "k \<in> set (map fst tool_call_rejection_code_table)"
  by (cases k) (simp_all add: enum_tables)

section \<open>Payloads\<close>

text \<open>
  A struct with one field is that field, under the constructor of \<^verbatim>\<open>ControlPayload\<close> that wraps it.
\<close>

record hello =
  he_min_protocol_version :: u16
  he_max_protocol_version :: u16
  he_client_name :: string
  he_client_version :: string
  he_capability_bits :: u64
  he_max_frame_size :: u32
  he_max_payload_size :: u32

record capabilities =
  ca_selected_protocol_version :: u16
  ca_server_name :: string
  ca_server_version :: string
  ca_capability_bits :: u64
  ca_max_frame_size :: u32
  ca_max_payload_size :: u32

record authenticate_payload =
  au_scheme :: authentication_scheme
  au_credentials :: "u8 list"

record authenticated =
  ad_principal_id :: u64
  ad_assigned_entity_id :: "u64 option"

record subscription_accepted =
  sa_subscription_id :: u64
  sa_accepted_space_epoch :: u64

record subscription_rejected =
  sj_code :: subscription_rejection_code
  sj_reason :: string

record space_transition =
  st_from_space_id :: u64
  st_to_space_id :: u64
  st_to_space_epoch :: u64

record ping_payload =
  pi_nonce :: u64
  pi_sender_time_micros :: u64

record pong_payload =
  po_nonce :: u64
  po_sender_time_micros :: u64
  po_responder_time_micros :: u64

record protocol_error =
  pe_code :: protocol_error_code
  pe_related_message_kind :: message_kind
  pe_message :: string

record inference_requested =
  iq_capability :: string
  iq_deadline_ms :: u64
  iq_input :: "u8 list"

record inference_stream_chunk =
  ic_sequence :: u32
  ic_chunk :: "u8 list"
  ic_is_final :: bool

record tool_call_proposed =
  tp_tool_id :: string
  tp_tool_version :: u32
  tp_arguments :: "u8 list"
  tp_expected_revision :: u64

record tool_call_rejected =
  tj_code :: tool_call_rejection_code
  tj_reason :: string

record tool_call_completed =
  tc_new_revision :: u64
  tc_result :: "u8 list"

datatype control_payload =
    Hello hello
  | Capabilities capabilities
  | Authenticate authenticate_payload
  | Authenticated authenticated
  | JoinSession (js_resume_token: "u8 list")
  | LeaveSession (ls_reason: string)
  | SubscribeSpace
  | UnsubscribeSpace (us_subscription_id: u64)
  | SubscriptionAccepted subscription_accepted
  | SubscriptionRejected subscription_rejected
  | EntityEntered (en_owner_entity_id: "u64 option")
  | EntityLeft (el_reason: entity_leave_reason)
  | SnapshotRequest (sr_after_server_tick: "u64 option")
  | SpaceTransition space_transition
  | Ping ping_payload
  | Pong pong_payload
  | ProtocolErrorPayload protocol_error
  | InferenceRequested inference_requested
  | InferenceAccepted (ia_queued_position: u32)
  | InferenceProgress (ip_percent: u8)
  | InferenceStreamChunk inference_stream_chunk
  | InferenceCompleted (io_result: "u8 list")
  | InferenceFailed (if_reason: string)
  | InferenceCancelled (ix_reason: string)
  | InferenceExpired (ie_reason: string)
  | ToolCallProposed tool_call_proposed
  | ToolCallAccepted (ta_tool_id: string)
  | ToolCallRejected tool_call_rejected
  | ToolCallCompleted tool_call_completed

fun control_message_kind :: "control_payload \<Rightarrow> message_kind" where
  "control_message_kind (Hello _) = MK_Hello"
| "control_message_kind (Capabilities _) = MK_Capabilities"
| "control_message_kind (Authenticate _) = MK_Authenticate"
| "control_message_kind (Authenticated _) = MK_Authenticated"
| "control_message_kind (JoinSession _) = MK_JoinSession"
| "control_message_kind (LeaveSession _) = MK_LeaveSession"
| "control_message_kind SubscribeSpace = MK_SubscribeSpace"
| "control_message_kind (UnsubscribeSpace _) = MK_UnsubscribeSpace"
| "control_message_kind (SubscriptionAccepted _) = MK_SubscriptionAccepted"
| "control_message_kind (SubscriptionRejected _) = MK_SubscriptionRejected"
| "control_message_kind (EntityEntered _) = MK_EntityEntered"
| "control_message_kind (EntityLeft _) = MK_EntityLeft"
| "control_message_kind (SnapshotRequest _) = MK_SnapshotRequest"
| "control_message_kind (SpaceTransition _) = MK_SpaceTransition"
| "control_message_kind (Ping _) = MK_Ping"
| "control_message_kind (Pong _) = MK_Pong"
| "control_message_kind (ProtocolErrorPayload _) = MK_ProtocolError"
| "control_message_kind (InferenceRequested _) = MK_InferenceRequested"
| "control_message_kind (InferenceAccepted _) = MK_InferenceAccepted"
| "control_message_kind (InferenceProgress _) = MK_InferenceProgress"
| "control_message_kind (InferenceStreamChunk _) = MK_InferenceStreamChunk"
| "control_message_kind (InferenceCompleted _) = MK_InferenceCompleted"
| "control_message_kind (InferenceFailed _) = MK_InferenceFailed"
| "control_message_kind (InferenceCancelled _) = MK_InferenceCancelled"
| "control_message_kind (InferenceExpired _) = MK_InferenceExpired"
| "control_message_kind (ToolCallProposed _) = MK_ToolCallProposed"
| "control_message_kind (ToolCallAccepted _) = MK_ToolCallAccepted"
| "control_message_kind (ToolCallRejected _) = MK_ToolCallRejected"
| "control_message_kind (ToolCallCompleted _) = MK_ToolCallCompleted"

fun variable_len :: "control_payload \<Rightarrow> usize" where
  "variable_len (Hello v) = usize_saturating_add (length (he_client_name v)) (length (he_client_version v))"
| "variable_len (Capabilities v) = usize_saturating_add (length (ca_server_name v)) (length (ca_server_version v))"
| "variable_len (Authenticate v) = length (au_credentials v)"
| "variable_len (JoinSession v) = length v"
| "variable_len (LeaveSession v) = length v"
| "variable_len (SubscriptionRejected v) = length (sj_reason v)"
| "variable_len (ProtocolErrorPayload v) = length (pe_message v)"
| "variable_len (InferenceRequested v) = usize_saturating_add (length (iq_capability v)) (length (iq_input v))"
| "variable_len (InferenceStreamChunk v) = length (ic_chunk v)"
| "variable_len (InferenceCompleted v) = length v"
| "variable_len (InferenceFailed v) = length v"
| "variable_len (InferenceCancelled v) = length v"
| "variable_len (InferenceExpired v) = length v"
| "variable_len (ToolCallProposed v) = usize_saturating_add (length (tp_tool_id v)) (length (tp_arguments v))"
| "variable_len (ToolCallAccepted v) = length v"
| "variable_len (ToolCallRejected v) = length (tj_reason v)"
| "variable_len (ToolCallCompleted v) = length (tc_result v)"
| "variable_len (Authenticated _) = 0"
| "variable_len SubscribeSpace = 0"
| "variable_len (UnsubscribeSpace _) = 0"
| "variable_len (SubscriptionAccepted _) = 0"
| "variable_len (EntityEntered _) = 0"
| "variable_len (EntityLeft _) = 0"
| "variable_len (SnapshotRequest _) = 0"
| "variable_len (SpaceTransition _) = 0"
| "variable_len (Ping _) = 0"
| "variable_len (Pong _) = 0"
| "variable_len (InferenceAccepted _) = 0"
| "variable_len (InferenceProgress _) = 0"

section \<open>Envelopes\<close>

record opaque_payload =
  ok_type_id :: u64
  ok_bytes :: "u8 list"

datatype message_payload =
    Control control_payload
  | EntityState opaque_payload
  | ReliableEvent opaque_payload
  | SnapshotPayload opaque_payload

fun payload_message_kind :: "message_payload \<Rightarrow> message_kind" where
  "payload_message_kind (Control c) = control_message_kind c"
| "payload_message_kind (EntityState _) = MK_EntityState"
| "payload_message_kind (ReliableEvent _) = MK_ReliableEvent"
| "payload_message_kind (SnapshotPayload _) = MK_Snapshot"

fun opaque_of :: "message_payload \<Rightarrow> opaque_payload option" where
  "opaque_of (Control _) = None"
| "opaque_of (EntityState p) = Some p"
| "opaque_of (ReliableEvent p) = Some p"
| "opaque_of (SnapshotPayload p) = Some p"

record envelope =
  ev_protocol_version :: u16
  ev_delivery_class :: wire_delivery
  ev_namespace_id :: u64
  ev_session_id :: u64
  ev_space_id :: u64
  ev_channel_id :: "u64 option"
  ev_entity_id :: "u64 option"
  ev_space_epoch :: u64
  ev_server_tick :: u64
  ev_sender_sequence :: u64
  ev_correlation_id :: "u64 option"
  ev_message :: message_payload

definition envelope_new :: "wire_delivery \<Rightarrow> message_payload \<Rightarrow> envelope" where
  "envelope_new delivery message = \<lparr>ev_protocol_version = PROTOCOL_VERSION, ev_delivery_class = delivery,
     ev_namespace_id = 0, ev_session_id = 0, ev_space_id = 0, ev_channel_id = None, ev_entity_id = None,
     ev_space_epoch = 0, ev_server_tick = 0, ev_sender_sequence = 0, ev_correlation_id = None,
     ev_message = message\<rparr>"

definition envelope_control :: "wire_delivery \<Rightarrow> control_payload \<Rightarrow> envelope" where
  "envelope_control delivery payload = envelope_new delivery (Control payload)"

definition envelope_entity_state :: "wire_delivery \<Rightarrow> opaque_payload \<Rightarrow> envelope" where
  "envelope_entity_state delivery payload = envelope_new delivery (EntityState payload)"

definition envelope_reliable_event :: "wire_delivery \<Rightarrow> opaque_payload \<Rightarrow> envelope" where
  "envelope_reliable_event delivery payload = envelope_new delivery (ReliableEvent payload)"

definition envelope_snapshot :: "wire_delivery \<Rightarrow> opaque_payload \<Rightarrow> envelope" where
  "envelope_snapshot delivery payload = envelope_new delivery (SnapshotPayload payload)"

definition ev_message_kind :: "envelope \<Rightarrow> message_kind" where
  "ev_message_kind e = payload_message_kind (ev_message e)"

definition ev_payload_type_id :: "envelope \<Rightarrow> u64 option" where
  "ev_payload_type_id e = map_option ok_type_id (opaque_of (ev_message e))"

definition ev_payload_bytes :: "envelope \<Rightarrow> u8 list" where
  "ev_payload_bytes e = (case opaque_of (ev_message e) of None \<Rightarrow> [] | Some p \<Rightarrow> ok_bytes p)"

end
