(* ===== verification/Semantics.thy ===== *)
theory Semantics
  imports Protocol
begin

text \<open>
  \<^verbatim>\<open>woven-protocol/src/semantics.rs\<close>: the checks every envelope passes on its way out and on its way
  in, in the code's order, with the reason each failure reports.
\<close>

datatype codec_error =
    InvalidLimits usize usize
  | FrameTooLarge usize usize
  | PayloadTooLarge usize usize
  | TruncatedFrame usize usize
  | TrailingBytes usize usize
  | InvalidSizePrefix u32
  | InvalidFileIdentifier
  | InvalidFlatbuffer string
  | UnsupportedProtocolVersion u16
  | UnknownMessageKind u8
  | UnknownDeliveryClass u8
  | UnsupportedEnumValue string u64
  | MessageControlMismatch u8 u8
  | MissingPayloadType message_kind
  | UnexpectedDomainPayload message_kind
  | InvalidSemantics message_kind string

section \<open>Building blocks\<close>

definition invalid :: "envelope \<Rightarrow> string \<Rightarrow> codec_error + 'a" where
  "invalid e reason = Inl (InvalidSemantics (ev_message_kind e) reason)"

definition require_id :: "u64 \<Rightarrow> envelope \<Rightarrow> string \<Rightarrow> codec_error + unit" where
  "require_id v e reason = (if v = 0 then invalid e reason else Inr ())"

definition reject_zero_option :: "u64 option \<Rightarrow> envelope \<Rightarrow> string \<Rightarrow> codec_error + unit" where
  "reject_zero_option v e reason = (if v = Some 0 then invalid e reason else Inr ())"

definition reject_zero_optional_ids :: "envelope \<Rightarrow> codec_error + unit" where
  "reject_zero_optional_ids e =
     and_then (reject_zero_option (ev_channel_id e) e ''channel_id cannot be Some(0)'') (\<lambda>_.
     and_then (reject_zero_option (ev_entity_id e) e ''entity_id cannot be Some(0)'') (\<lambda>_.
     reject_zero_option (ev_correlation_id e) e ''correlation_id cannot be Some(0)''))"

text \<open>\<^verbatim>\<open>unwrap_or(0)\<close>: how an absent id travels.\<close>

definition or_zero :: "'w::zero option \<Rightarrow> 'w" where
  "or_zero v = (case v of None \<Rightarrow> 0 | Some x \<Rightarrow> x)"

section \<open>Scopes\<close>

definition require_unscoped :: "envelope \<Rightarrow> codec_error + unit" where
  "require_unscoped e =
     (if ev_namespace_id e \<noteq> 0 \<or> ev_session_id e \<noteq> 0 \<or> ev_space_id e \<noteq> 0 \<or> ev_channel_id e \<noteq> None
         \<or> ev_entity_id e \<noteq> None \<or> ev_space_epoch e \<noteq> 0
      then invalid e ''connection-level message must not carry namespace, session, space, channel, entity, or epoch scope''
      else Inr ())"

definition require_session_scope :: "envelope \<Rightarrow> codec_error + unit" where
  "require_session_scope e =
     and_then (require_id (ev_namespace_id e) e ''namespace_id must be non-zero'') (\<lambda>_.
     and_then (require_id (ev_session_id e) e ''session_id must be non-zero'') (\<lambda>_.
     if ev_space_id e \<noteq> 0 \<or> ev_channel_id e \<noteq> None \<or> ev_entity_id e \<noteq> None \<or> ev_space_epoch e \<noteq> 0
     then invalid e ''session-level message must not carry space, channel, entity, or epoch scope''
     else Inr ()))"

definition require_space_scope :: "envelope \<Rightarrow> bool \<Rightarrow> bool \<Rightarrow> codec_error + unit" where
  "require_space_scope e require_channel require_entity =
     and_then (require_id (ev_namespace_id e) e ''namespace_id must be non-zero'') (\<lambda>_.
     and_then (require_id (ev_session_id e) e ''session_id must be non-zero'') (\<lambda>_.
     and_then (require_id (ev_space_id e) e ''space_id must be non-zero'') (\<lambda>_.
     and_then (require_id (ev_space_epoch e) e ''space_epoch must be non-zero'') (\<lambda>_.
     and_then (if require_channel
         then require_id (or_zero (ev_channel_id e)) e ''channel_id must be non-zero''
         else if ev_channel_id e \<noteq> None then invalid e ''message kind must not carry channel_id''
         else Inr ()) (\<lambda>_.
     if require_entity then require_id (or_zero (ev_entity_id e)) e ''entity_id must be non-zero''
     else Inr ())))))"

definition validate_optional_scope :: "envelope \<Rightarrow> codec_error + unit" where
  "validate_optional_scope e =
     (let has_space_detail = (ev_space_id e \<noteq> 0 \<or> ev_channel_id e \<noteq> None \<or> ev_entity_id e \<noteq> None
        \<or> ev_space_epoch e \<noteq> 0) in
      if ev_namespace_id e = 0 \<and> (ev_session_id e \<noteq> 0 \<or> has_space_detail)
      then invalid e ''scoped protocol error requires namespace_id''
      else if ev_session_id e = 0 \<and> has_space_detail
      then invalid e ''space-scoped protocol error requires session_id''
      else if ev_space_id e = 0 \<and> (ev_channel_id e \<noteq> None \<or> ev_entity_id e \<noteq> None \<or> ev_space_epoch e \<noteq> 0)
      then invalid e ''space-scoped protocol error requires space_id''
      else Inr ())"

section \<open>Delivery classes\<close>

definition delivery_fits :: "message_kind \<Rightarrow> wire_delivery \<Rightarrow> bool" where
  "delivery_fits kind delivery = (case kind of
     MK_EntityState \<Rightarrow> delivery = PD_LatestValue \<or> delivery = PD_UnreliableSequenced
   | MK_ReliableEvent \<Rightarrow> delivery = PD_ReliableOrdered \<or> delivery = PD_ReliableUnordered
   | MK_Ping \<Rightarrow> delivery = PD_ReliableUnordered
   | MK_Pong \<Rightarrow> delivery = PD_ReliableUnordered
   | MK_InferenceProgress \<Rightarrow> delivery = PD_BestEffortEvent
   | MK_InferenceStreamChunk \<Rightarrow> delivery = PD_BestEffortEvent
   | MK_Unknown \<Rightarrow> False
   | _ \<Rightarrow> delivery = PD_ReliableOrdered)"

definition validate_delivery :: "envelope \<Rightarrow> codec_error + unit" where
  "validate_delivery e =
     (if delivery_fits (ev_message_kind e) (ev_delivery_class e) then Inr ()
      else invalid e ''delivery class is incompatible with the message kind'')"

section \<open>Control messages\<close>

definition validate_advertised_limits :: "envelope \<Rightarrow> u32 \<Rightarrow> u32 \<Rightarrow> string \<Rightarrow> codec_error + unit" where
  "validate_advertised_limits e max_frame_size max_payload_size message =
     (if max_frame_size = 0 \<or> max_payload_size = 0
      then invalid e (if message = ''Hello'' then ''Hello advertised limits must be non-zero''
        else ''Capabilities advertised limits must be non-zero'')
      else if max_frame_size < max_payload_size
      then invalid e (if message = ''Hello'' then ''Hello max_payload_size cannot exceed max_frame_size''
        else ''Capabilities max_payload_size cannot exceed max_frame_size'')
      else Inr ())"

definition validate_hello :: "envelope \<Rightarrow> hello \<Rightarrow> codec_error + unit" where
  "validate_hello e v =
     (if he_min_protocol_version v = 0 \<or> he_max_protocol_version v < he_min_protocol_version v
         \<or> \<not> (he_min_protocol_version v \<le> PROTOCOL_VERSION \<and> PROTOCOL_VERSION \<le> he_max_protocol_version v)
      then invalid e ''Hello version range must be non-zero, ordered, and include protocol v1''
      else validate_advertised_limits e (he_max_frame_size v) (he_max_payload_size v) ''Hello'')"

definition validate_capabilities :: "envelope \<Rightarrow> capabilities \<Rightarrow> codec_error + unit" where
  "validate_capabilities e v =
     (if ca_selected_protocol_version v \<noteq> PROTOCOL_VERSION
      then invalid e ''Capabilities selected_protocol_version must be protocol v1''
      else validate_advertised_limits e (ca_max_frame_size v) (ca_max_payload_size v) ''Capabilities'')"

definition validate_authenticate :: "envelope \<Rightarrow> authenticate_payload \<Rightarrow> codec_error + unit" where
  "validate_authenticate e v =
     (if au_scheme v = AS_Unknown then invalid e ''authentication scheme cannot be Unknown''
      else if au_credentials v = [] then invalid e ''authentication credentials cannot be empty''
      else Inr ())"

definition validate_snapshot_request :: "envelope \<Rightarrow> u64 option \<Rightarrow> codec_error + unit" where
  "validate_snapshot_request e after_server_tick =
     reject_zero_option after_server_tick e ''after_server_tick cannot be Some(0)''"

definition validate_transition :: "envelope \<Rightarrow> space_transition \<Rightarrow> codec_error + unit" where
  "validate_transition e v =
     and_then (require_space_scope e False True) (\<lambda>_.
     and_then (require_id (st_from_space_id v) e ''transition from_space_id must be non-zero'') (\<lambda>_.
     and_then (require_id (st_to_space_id v) e ''transition to_space_id must be non-zero'') (\<lambda>_.
     and_then (require_id (st_to_space_epoch v) e ''transition to_space_epoch must be non-zero'') (\<lambda>_.
     if st_from_space_id v \<noteq> ev_space_id e
     then invalid e ''transition from_space_id must match envelope space_id''
     else if st_from_space_id v = st_to_space_id v then invalid e ''transition spaces must differ''
     else Inr ()))))"

definition validate_protocol_error :: "envelope \<Rightarrow> protocol_error \<Rightarrow> codec_error + unit" where
  "validate_protocol_error e v =
     (if pe_code v = PE_Unknown then invalid e ''protocol error code cannot be Unknown''
      else if pe_related_message_kind v = MK_Unknown then invalid e ''related message kind cannot be Unknown''
      else validate_optional_scope e)"

definition validate_inference_requested :: "envelope \<Rightarrow> inference_requested \<Rightarrow> codec_error + unit" where
  "validate_inference_requested e v =
     (if iq_capability v = [] then invalid e ''inference capability cannot be empty'' else Inr ())"

definition validate_tool_call_proposed :: "envelope \<Rightarrow> tool_call_proposed \<Rightarrow> codec_error + unit" where
  "validate_tool_call_proposed e v =
     (if tp_tool_id v = [] then invalid e ''tool_id cannot be empty''
      else if tp_tool_version v = 0 then invalid e ''tool_version must be non-zero''
      else Inr ())"

definition validate_inference_control :: "envelope \<Rightarrow> control_payload \<Rightarrow> codec_error + unit" where
  "validate_inference_control e control =
     and_then (require_space_scope e False True) (\<lambda>_.
     case control of
       InferenceRequested v \<Rightarrow> validate_inference_requested e v
     | InferenceProgress percent \<Rightarrow>
         if 100 < percent then invalid e ''inference progress percent cannot exceed 100'' else Inr ()
     | InferenceFailed reason \<Rightarrow>
         if reason = [] then invalid e ''inference failure reason cannot be empty'' else Inr ()
     | ToolCallProposed v \<Rightarrow> validate_tool_call_proposed e v
     | ToolCallAccepted tool_id \<Rightarrow> if tool_id = [] then invalid e ''tool_id cannot be empty'' else Inr ()
     | ToolCallRejected v \<Rightarrow>
         if tj_code v = TR_Unknown then invalid e ''tool call rejection code cannot be Unknown'' else Inr ()
     | _ \<Rightarrow> Inr ())"

definition validate_subscription_accepted :: "envelope \<Rightarrow> subscription_accepted \<Rightarrow> codec_error + unit" where
  "validate_subscription_accepted e v =
     and_then (require_space_scope e True False) (\<lambda>_.
     and_then (require_id (sa_subscription_id v) e ''subscription_id must be non-zero'') (\<lambda>_.
     and_then (require_id (sa_accepted_space_epoch v) e ''accepted_space_epoch must be non-zero'') (\<lambda>_.
     if sa_accepted_space_epoch v \<noteq> ev_space_epoch e
     then invalid e ''accepted_space_epoch must match envelope space_epoch'' else Inr ())))"

definition validate_control :: "envelope \<Rightarrow> control_payload \<Rightarrow> codec_error + unit" where
  "validate_control e control = (case control of
     Hello v \<Rightarrow> and_then (require_unscoped e) (\<lambda>_. validate_hello e v)
   | Capabilities v \<Rightarrow> and_then (require_unscoped e) (\<lambda>_. validate_capabilities e v)
   | Authenticate v \<Rightarrow> and_then (require_unscoped e) (\<lambda>_. validate_authenticate e v)
   | Authenticated v \<Rightarrow>
       and_then (require_unscoped e) (\<lambda>_.
       and_then (require_id (ad_principal_id v) e ''authenticated principal_id must be non-zero'') (\<lambda>_.
       reject_zero_option (ad_assigned_entity_id v) e ''assigned_entity_id cannot be Some(0)''))
   | JoinSession _ \<Rightarrow> require_session_scope e
   | LeaveSession _ \<Rightarrow> require_session_scope e
   | SubscribeSpace \<Rightarrow> require_space_scope e True False
   | UnsubscribeSpace subscription_id \<Rightarrow>
       and_then (require_space_scope e True False) (\<lambda>_.
       require_id subscription_id e ''subscription_id must be non-zero'')
   | SubscriptionAccepted v \<Rightarrow> validate_subscription_accepted e v
   | SubscriptionRejected v \<Rightarrow>
       and_then (require_space_scope e True False) (\<lambda>_.
       if sj_code v = SR_Unknown then invalid e ''subscription rejection code cannot be Unknown'' else Inr ())
   | EntityEntered owner_entity_id \<Rightarrow>
       and_then (require_space_scope e False True) (\<lambda>_.
       reject_zero_option owner_entity_id e ''owner_entity_id cannot be Some(0)'')
   | EntityLeft reason \<Rightarrow>
       and_then (require_space_scope e False True) (\<lambda>_.
       if reason = EL_Unknown then invalid e ''entity leave reason cannot be Unknown'' else Inr ())
   | SnapshotRequest after_server_tick \<Rightarrow>
       and_then (require_space_scope e True False) (\<lambda>_. validate_snapshot_request e after_server_tick)
   | SpaceTransition v \<Rightarrow> validate_transition e v
   | Ping v \<Rightarrow>
       and_then (require_unscoped e) (\<lambda>_. require_id (pi_nonce v) e ''ping nonce must be non-zero'')
   | Pong v \<Rightarrow>
       and_then (require_unscoped e) (\<lambda>_. require_id (po_nonce v) e ''pong nonce must be non-zero'')
   | ProtocolErrorPayload v \<Rightarrow> validate_protocol_error e v
   | inference \<Rightarrow> validate_inference_control e inference)"

definition validate_payload_type :: "envelope \<Rightarrow> bool \<Rightarrow> opaque_payload \<Rightarrow> codec_error + unit" where
  "validate_payload_type e require_entity payload =
     and_then (require_space_scope e True require_entity) (\<lambda>_.
     require_id (ok_type_id payload) e ''payload_type_id must be non-zero'')"

definition validate_envelope :: "envelope \<Rightarrow> codec_error + unit" where
  "validate_envelope e =
     and_then (reject_zero_optional_ids e) (\<lambda>_.
     and_then (validate_delivery e) (\<lambda>_.
     case ev_message e of
       Control control \<Rightarrow> validate_control e control
     | EntityState payload \<Rightarrow> validate_payload_type e True payload
     | ReliableEvent payload \<Rightarrow> validate_payload_type e False payload
     | SnapshotPayload payload \<Rightarrow> validate_payload_type e False payload))"

section \<open>What an accepted envelope satisfies\<close>

named_theorems semantics_defs

lemmas semantics_unfold [semantics_defs] = invalid_def require_id_def reject_zero_option_def
  reject_zero_optional_ids_def require_unscoped_def require_session_scope_def require_space_scope_def
  validate_optional_scope_def validate_delivery_def validate_payload_type_def validate_envelope_def
  validate_control_def validate_advertised_limits_def validate_hello_def validate_capabilities_def
  validate_authenticate_def validate_snapshot_request_def validate_transition_def
  validate_protocol_error_def validate_inference_requested_def validate_tool_call_proposed_def
  validate_inference_control_def validate_subscription_accepted_def Let_def

lemma invalid_not_ok [simp]: "invalid e r \<noteq> Inr x"
  by (simp add: invalid_def)

lemma require_id_ok [simp]: "require_id v e r = Inr u \<longleftrightarrow> v \<noteq> 0"
  by (simp add: require_id_def)

lemma reject_zero_option_ok [simp]: "reject_zero_option v e r = Inr u \<longleftrightarrow> v \<noteq> Some 0"
  by (simp add: reject_zero_option_def)

lemma or_zero_simps [simp]: "or_zero None = 0" "or_zero (Some x) = x"
  by (simp_all add: or_zero_def)

lemma or_zero_nonzero: "or_zero v \<noteq> 0 \<longleftrightarrow> (\<exists>x. v = Some x \<and> x \<noteq> 0)"
  by (cases v) simp_all

lemma optional_ids_ok:
  "reject_zero_optional_ids e = Inr u \<longleftrightarrow>
     ev_channel_id e \<noteq> Some 0 \<and> ev_entity_id e \<noteq> Some 0 \<and> ev_correlation_id e \<noteq> Some 0"
  by (auto simp: reject_zero_optional_ids_def and_then_eq_Inr)

lemma require_unscoped_ok:
  "require_unscoped e = Inr u \<longleftrightarrow> ev_namespace_id e = 0 \<and> ev_session_id e = 0 \<and> ev_space_id e = 0
     \<and> ev_channel_id e = None \<and> ev_entity_id e = None \<and> ev_space_epoch e = 0"
  by (auto simp: require_unscoped_def)

lemma require_session_scope_ok:
  "require_session_scope e = Inr u \<longleftrightarrow> ev_namespace_id e \<noteq> 0 \<and> ev_session_id e \<noteq> 0 \<and> ev_space_id e = 0
     \<and> ev_channel_id e = None \<and> ev_entity_id e = None \<and> ev_space_epoch e = 0"
  by (auto simp: require_session_scope_def and_then_eq_Inr)

lemma require_space_scope_ok:
  "require_space_scope e c n = Inr u \<longleftrightarrow> ev_namespace_id e \<noteq> 0 \<and> ev_session_id e \<noteq> 0 \<and> ev_space_id e \<noteq> 0
     \<and> ev_space_epoch e \<noteq> 0 \<and> (if c then or_zero (ev_channel_id e) \<noteq> 0 else ev_channel_id e = None)
     \<and> (n \<longrightarrow> or_zero (ev_entity_id e) \<noteq> 0)"
  by (auto simp: require_space_scope_def and_then_eq_Inr)

lemma validate_delivery_ok:
  "validate_delivery e = Inr u \<longleftrightarrow> delivery_fits (ev_message_kind e) (ev_delivery_class e)"
  by (simp add: validate_delivery_def)

lemmas scope_ok = optional_ids_ok require_unscoped_ok require_session_scope_ok require_space_scope_ok
  validate_delivery_ok

lemma validate_envelope_ok:
  "validate_envelope e = Inr u \<longleftrightarrow>
     reject_zero_optional_ids e = Inr () \<and> validate_delivery e = Inr () \<and>
     (case ev_message e of
        Control control \<Rightarrow> validate_control e control = Inr ()
      | EntityState p \<Rightarrow> validate_payload_type e True p = Inr ()
      | ReliableEvent p \<Rightarrow> validate_payload_type e False p = Inr ()
      | SnapshotPayload p \<Rightarrow> validate_payload_type e False p = Inr ())"
  by (auto simp: validate_envelope_def and_then_eq_Inr split: message_payload.split)

lemma delivery_never_unknown: "\<not> delivery_fits kind PD_Unknown"
  by (cases kind) (simp_all add: delivery_fits_def)

text \<open>Every failure is an \<^verbatim>\<open>InvalidSemantics\<close> that names the kind of the message that failed.\<close>

definition semantic_result :: "envelope \<Rightarrow> codec_error + 'a \<Rightarrow> bool" where
  "semantic_result e r \<longleftrightarrow> (\<forall>x. r = Inl x \<longrightarrow> (\<exists>reason. x = InvalidSemantics (ev_message_kind e) reason))"

lemma semantic_result_intros [intro]:
  "semantic_result e (Inr x)"
  "semantic_result e (invalid e reason)"
  "semantic_result e r \<Longrightarrow> (\<And>x. semantic_result e (f x)) \<Longrightarrow> semantic_result e (and_then r f)"
  "semantic_result e (require_id v e reason)"
  "semantic_result e (reject_zero_option w e reason)"
  by (auto simp: semantic_result_def invalid_def and_then_eq_Inl require_id_def reject_zero_option_def
      split: if_splits)

lemma semantic_result_if [intro]:
  "(b \<Longrightarrow> semantic_result e r) \<Longrightarrow> (\<not> b \<Longrightarrow> semantic_result e s) \<Longrightarrow> semantic_result e (if b then r else s)"
  by simp

lemma semantic_result_scope [intro]:
  "semantic_result e (require_unscoped e)" "semantic_result e (require_session_scope e)"
  "semantic_result e (require_space_scope e c n)" "semantic_result e (validate_optional_scope e)"
  "semantic_result e (validate_advertised_limits e a b m)"
  unfolding require_unscoped_def require_session_scope_def require_space_scope_def validate_optional_scope_def
    validate_advertised_limits_def Let_def
  by blast+

lemma semantic_result_control [intro]: "semantic_result e (validate_control e control)"
  unfolding validate_control_def validate_inference_control_def validate_hello_def validate_capabilities_def
    validate_authenticate_def validate_snapshot_request_def validate_transition_def
    validate_protocol_error_def validate_inference_requested_def validate_tool_call_proposed_def
    validate_subscription_accepted_def
  by (cases control; simp only: control_payload.case; blast)

lemma validate_error_kind:
  assumes "validate_envelope e = Inl x"
  shows "\<exists>reason. x = InvalidSemantics (ev_message_kind e) reason"
proof -
  have "semantic_result e (validate_envelope e)"
    unfolding validate_envelope_def validate_payload_type_def reject_zero_optional_ids_def validate_delivery_def
    by (cases "ev_message e"; simp only: message_payload.case; blast)
  then show ?thesis using assms by (simp add: semantic_result_def)
qed

end
