(* ===== verification/Codec.thy ===== *)
theory Codec
  imports Semantics
begin

text \<open>
  \<^verbatim>\<open>woven-protocol/src/codec.rs\<close>. The wire tables are those of \<^verbatim>\<open>schemas/woven_v1.fbs\<close>, as the
  generated accessors show them: a scalar is a number (its default when absent), a string, vector
  or table is an option. The FlatBuffers builder and verifier are third-party code and parameters
  of the model: \<open>finish\<close> makes the size-prefixed bytes of a table, \<open>has_identifier\<close> and \<open>root\<close> read
  them. One definition per arm of \<^verbatim>\<open>encode_control\<close> and \<^verbatim>\<open>decode_control\<close>.
\<close>

section \<open>Limits\<close>

definition SIZE_PREFIX_LEN :: usize where "SIZE_PREFIX_LEN = 4"
definition MIN_ENCODED_LEN :: u32 where "MIN_ENCODED_LEN = 8"
definition MIN_FRAME_LEN :: usize where "MIN_FRAME_LEN = 12"

record codec_limits =
  cl_max_frame_len :: usize
  cl_max_payload_len :: usize

definition codec_limits_new :: "usize \<Rightarrow> usize \<Rightarrow> codec_error + codec_limits" where
  "codec_limits_new max_frame_len max_payload_len =
     (let max_representable_frame = usize_saturating_add u32_max SIZE_PREFIX_LEN in
      if max_frame_len < MIN_FRAME_LEN \<or> max_representable_frame < max_frame_len
         \<or> max_frame_len < max_payload_len
      then Inl (InvalidLimits max_frame_len max_payload_len)
      else Inr \<lparr>cl_max_frame_len = max_frame_len, cl_max_payload_len = max_payload_len\<rparr>)"

definition codec_limits_default :: codec_limits where
  "codec_limits_default = \<lparr>cl_max_frame_len = 1024 * 1024, cl_max_payload_len = 256 * 1024\<rparr>"

text \<open>A codec is its limits.\<close>

definition codec_new :: "codec_limits \<Rightarrow> codec_error + codec_limits" where
  "codec_new limits =
     and_then (codec_limits_new (cl_max_frame_len limits) (cl_max_payload_len limits)) (\<lambda>_. Inr limits)"

definition enforce_frame_limit :: "codec_limits \<Rightarrow> usize \<Rightarrow> codec_error + unit" where
  "enforce_frame_limit l actual =
     (if cl_max_frame_len l < actual then Inl (FrameTooLarge actual (cl_max_frame_len l)) else Inr ())"

definition enforce_payload_limit :: "codec_limits \<Rightarrow> usize \<Rightarrow> codec_error + unit" where
  "enforce_payload_limit l actual =
     (if cl_max_payload_len l < actual then Inl (PayloadTooLarge actual (cl_max_payload_len l)) else Inr ())"

text \<open>\<^verbatim>\<open>u32::from_le_bytes\<close> of the first four bytes.\<close>

fun le_bytes :: "u8 list \<Rightarrow> nat" where
  "le_bytes [] = 0"
| "le_bytes (b # bs) = unat b + 256 * le_bytes bs"

definition expected_frame_len :: "codec_limits \<Rightarrow> u8 list \<Rightarrow> codec_error + usize option" where
  "expected_frame_len l prefix =
     (if length prefix < SIZE_PREFIX_LEN then Inr None
      else let encoded_len = (of_nat (le_bytes (take SIZE_PREFIX_LEN prefix)) :: u32) in
        if encoded_len < MIN_ENCODED_LEN then Inl (InvalidSizePrefix encoded_len)
        else let frame_len = usize_saturating_add (unat encoded_len) SIZE_PREFIX_LEN in
          and_then (enforce_frame_limit l frame_len) (\<lambda>_. Inr (Some frame_len)))"

section \<open>Wire tables\<close>

datatype wire_control =
    W_Hello u16 u16 "string option" "string option" u64 u32 u32
  | W_Capabilities u16 "string option" "string option" u64 u32 u32
  | W_Authenticate u8 "u8 list option"
  | W_Authenticated u64 u64
  | W_JoinSession "u8 list option"
  | W_LeaveSession "string option"
  | W_SubscribeSpace u64
  | W_UnsubscribeSpace u64
  | W_SubscriptionAccepted u64 u64
  | W_SubscriptionRejected u16 "string option"
  | W_EntityEntered u64
  | W_EntityLeft u8
  | W_SnapshotRequest u64 u64
  | W_SpaceTransition u64 u64 u64
  | W_Ping u64 u64
  | W_Pong u64 u64 u64
  | W_ProtocolError u16 u8 "string option"
  | W_InferenceRequested "string option" u64 "u8 list option"
  | W_InferenceAccepted u32
  | W_InferenceProgress u8
  | W_InferenceStreamChunk u32 "u8 list option" bool
  | W_InferenceCompleted "u8 list option"
  | W_InferenceFailed "string option"
  | W_InferenceCancelled "string option"
  | W_InferenceExpired "string option"
  | W_ToolCallProposed "string option" u32 "u8 list option" u64
  | W_ToolCallAccepted "string option"
  | W_ToolCallRejected u8 "string option"
  | W_ToolCallCompleted u64 "u8 list option"

text \<open>The discriminants of the union, as the schema numbers them.\<close>

abbreviation UNION_NONE :: u8 where "UNION_NONE \<equiv> 0"
abbreviation UNION_Hello :: u8 where "UNION_Hello \<equiv> 1"
abbreviation UNION_Capabilities :: u8 where "UNION_Capabilities \<equiv> 2"
abbreviation UNION_Authenticate :: u8 where "UNION_Authenticate \<equiv> 3"
abbreviation UNION_Authenticated :: u8 where "UNION_Authenticated \<equiv> 4"
abbreviation UNION_JoinSession :: u8 where "UNION_JoinSession \<equiv> 5"
abbreviation UNION_LeaveSession :: u8 where "UNION_LeaveSession \<equiv> 6"
abbreviation UNION_SubscribeSpace :: u8 where "UNION_SubscribeSpace \<equiv> 7"
abbreviation UNION_UnsubscribeSpace :: u8 where "UNION_UnsubscribeSpace \<equiv> 8"
abbreviation UNION_SubscriptionAccepted :: u8 where "UNION_SubscriptionAccepted \<equiv> 9"
abbreviation UNION_SubscriptionRejected :: u8 where "UNION_SubscriptionRejected \<equiv> 10"
abbreviation UNION_EntityEntered :: u8 where "UNION_EntityEntered \<equiv> 11"
abbreviation UNION_EntityLeft :: u8 where "UNION_EntityLeft \<equiv> 12"
abbreviation UNION_SnapshotRequest :: u8 where "UNION_SnapshotRequest \<equiv> 13"
abbreviation UNION_SpaceTransition :: u8 where "UNION_SpaceTransition \<equiv> 14"
abbreviation UNION_Ping :: u8 where "UNION_Ping \<equiv> 15"
abbreviation UNION_Pong :: u8 where "UNION_Pong \<equiv> 16"
abbreviation UNION_ProtocolError :: u8 where "UNION_ProtocolError \<equiv> 17"
abbreviation UNION_InferenceRequested :: u8 where "UNION_InferenceRequested \<equiv> 18"
abbreviation UNION_InferenceAccepted :: u8 where "UNION_InferenceAccepted \<equiv> 19"
abbreviation UNION_InferenceProgress :: u8 where "UNION_InferenceProgress \<equiv> 20"
abbreviation UNION_InferenceStreamChunk :: u8 where "UNION_InferenceStreamChunk \<equiv> 21"
abbreviation UNION_InferenceCompleted :: u8 where "UNION_InferenceCompleted \<equiv> 22"
abbreviation UNION_InferenceFailed :: u8 where "UNION_InferenceFailed \<equiv> 23"
abbreviation UNION_InferenceCancelled :: u8 where "UNION_InferenceCancelled \<equiv> 24"
abbreviation UNION_InferenceExpired :: u8 where "UNION_InferenceExpired \<equiv> 25"
abbreviation UNION_ToolCallProposed :: u8 where "UNION_ToolCallProposed \<equiv> 26"
abbreviation UNION_ToolCallAccepted :: u8 where "UNION_ToolCallAccepted \<equiv> 27"
abbreviation UNION_ToolCallRejected :: u8 where "UNION_ToolCallRejected \<equiv> 28"
abbreviation UNION_ToolCallCompleted :: u8 where "UNION_ToolCallCompleted \<equiv> 29"

record wire_envelope =
  we_protocol_version :: u16
  we_message_kind :: u8
  we_delivery_class :: u8
  we_namespace_id :: u64
  we_session_id :: u64
  we_space_id :: u64
  we_entity_id :: u64
  we_space_epoch :: u64
  we_server_tick :: u64
  we_sender_sequence :: u64
  we_correlation_id :: u64
  we_payload_type_id :: u64
  we_payload :: "u8 list option"
  we_control_type :: u8
  we_control :: "wire_control option"
  we_channel_id :: u64

section \<open>Encoding\<close>

definition encode_hello :: "hello \<Rightarrow> u8 \<times> wire_control" where
  "encode_hello v =
     (UNION_Hello, W_Hello (he_min_protocol_version v) (he_max_protocol_version v) (Some (he_client_name v)) (Some (he_client_version v)) (he_capability_bits v) (he_max_frame_size v) (he_max_payload_size v))"

definition encode_capabilities :: "capabilities \<Rightarrow> u8 \<times> wire_control" where
  "encode_capabilities v =
     (UNION_Capabilities, W_Capabilities (ca_selected_protocol_version v) (Some (ca_server_name v)) (Some (ca_server_version v)) (ca_capability_bits v) (ca_max_frame_size v) (ca_max_payload_size v))"

definition encode_authenticate :: "authenticate_payload \<Rightarrow> u8 \<times> wire_control" where
  "encode_authenticate v =
     (UNION_Authenticate, W_Authenticate (enum_value authentication_scheme_table (au_scheme v)) (Some (au_credentials v)))"

definition encode_authenticated :: "authenticated \<Rightarrow> u8 \<times> wire_control" where
  "encode_authenticated v =
     (UNION_Authenticated, W_Authenticated (ad_principal_id v) (or_zero (ad_assigned_entity_id v)))"

definition encode_join_session :: "u8 list \<Rightarrow> u8 \<times> wire_control" where
  "encode_join_session token =
     (UNION_JoinSession, W_JoinSession (Some token))"

definition encode_leave_session :: "string \<Rightarrow> u8 \<times> wire_control" where
  "encode_leave_session reason =
     (UNION_LeaveSession, W_LeaveSession (Some reason))"

definition encode_subscribe_space :: "u64 \<Rightarrow> u8 \<times> wire_control" where
  "encode_subscribe_space channel_id =
     (UNION_SubscribeSpace, W_SubscribeSpace channel_id)"

definition encode_unsubscribe_space :: "u64 \<Rightarrow> u8 \<times> wire_control" where
  "encode_unsubscribe_space subscription =
     (UNION_UnsubscribeSpace, W_UnsubscribeSpace subscription)"

definition encode_subscription_accepted :: "subscription_accepted \<Rightarrow> u8 \<times> wire_control" where
  "encode_subscription_accepted v =
     (UNION_SubscriptionAccepted, W_SubscriptionAccepted (sa_subscription_id v) (sa_accepted_space_epoch v))"

definition encode_subscription_rejected :: "subscription_rejected \<Rightarrow> u8 \<times> wire_control" where
  "encode_subscription_rejected v =
     (UNION_SubscriptionRejected, W_SubscriptionRejected (enum_value subscription_rejection_code_table (sj_code v)) (Some (sj_reason v)))"

definition encode_entity_entered :: "u64 option \<Rightarrow> u8 \<times> wire_control" where
  "encode_entity_entered owner =
     (UNION_EntityEntered, W_EntityEntered (or_zero owner))"

definition encode_entity_left :: "entity_leave_reason \<Rightarrow> u8 \<times> wire_control" where
  "encode_entity_left reason =
     (UNION_EntityLeft, W_EntityLeft (enum_value entity_leave_reason_table reason))"

definition encode_snapshot_request :: "u64 option \<Rightarrow> u64 \<Rightarrow> u8 \<times> wire_control" where
  "encode_snapshot_request tick channel_id =
     (UNION_SnapshotRequest, W_SnapshotRequest channel_id (or_zero tick))"

definition encode_space_transition :: "space_transition \<Rightarrow> u8 \<times> wire_control" where
  "encode_space_transition v =
     (UNION_SpaceTransition, W_SpaceTransition (st_from_space_id v) (st_to_space_id v) (st_to_space_epoch v))"

definition encode_ping :: "ping_payload \<Rightarrow> u8 \<times> wire_control" where
  "encode_ping v =
     (UNION_Ping, W_Ping (pi_nonce v) (pi_sender_time_micros v))"

definition encode_pong :: "pong_payload \<Rightarrow> u8 \<times> wire_control" where
  "encode_pong v =
     (UNION_Pong, W_Pong (po_nonce v) (po_sender_time_micros v) (po_responder_time_micros v))"

definition encode_protocol_error :: "protocol_error \<Rightarrow> u8 \<times> wire_control" where
  "encode_protocol_error v =
     (UNION_ProtocolError, W_ProtocolError (enum_value protocol_error_code_table (pe_code v)) (message_kind_value (pe_related_message_kind v)) (Some (pe_message v)))"

definition encode_inference_requested :: "inference_requested \<Rightarrow> u8 \<times> wire_control" where
  "encode_inference_requested v =
     (UNION_InferenceRequested, W_InferenceRequested (Some (iq_capability v)) (iq_deadline_ms v) (Some (iq_input v)))"

definition encode_inference_accepted :: "u32 \<Rightarrow> u8 \<times> wire_control" where
  "encode_inference_accepted queued =
     (UNION_InferenceAccepted, W_InferenceAccepted queued)"

definition encode_inference_progress :: "u8 \<Rightarrow> u8 \<times> wire_control" where
  "encode_inference_progress percent =
     (UNION_InferenceProgress, W_InferenceProgress percent)"

definition encode_inference_stream_chunk :: "inference_stream_chunk \<Rightarrow> u8 \<times> wire_control" where
  "encode_inference_stream_chunk v =
     (UNION_InferenceStreamChunk, W_InferenceStreamChunk (ic_sequence v) (Some (ic_chunk v)) (ic_is_final v))"

definition encode_inference_completed :: "u8 list \<Rightarrow> u8 \<times> wire_control" where
  "encode_inference_completed outcome =
     (UNION_InferenceCompleted, W_InferenceCompleted (Some outcome))"

definition encode_inference_failed :: "string \<Rightarrow> u8 \<times> wire_control" where
  "encode_inference_failed reason =
     (UNION_InferenceFailed, W_InferenceFailed (Some reason))"

definition encode_inference_cancelled :: "string \<Rightarrow> u8 \<times> wire_control" where
  "encode_inference_cancelled reason =
     (UNION_InferenceCancelled, W_InferenceCancelled (Some reason))"

definition encode_inference_expired :: "string \<Rightarrow> u8 \<times> wire_control" where
  "encode_inference_expired reason =
     (UNION_InferenceExpired, W_InferenceExpired (Some reason))"

definition encode_tool_call_proposed :: "tool_call_proposed \<Rightarrow> u8 \<times> wire_control" where
  "encode_tool_call_proposed v =
     (UNION_ToolCallProposed, W_ToolCallProposed (Some (tp_tool_id v)) (tp_tool_version v) (Some (tp_arguments v)) (tp_expected_revision v))"

definition encode_tool_call_accepted :: "string \<Rightarrow> u8 \<times> wire_control" where
  "encode_tool_call_accepted tool =
     (UNION_ToolCallAccepted, W_ToolCallAccepted (Some tool))"

definition encode_tool_call_rejected :: "tool_call_rejected \<Rightarrow> u8 \<times> wire_control" where
  "encode_tool_call_rejected v =
     (UNION_ToolCallRejected, W_ToolCallRejected (enum_value tool_call_rejection_code_table (tj_code v)) (Some (tj_reason v)))"

definition encode_tool_call_completed :: "tool_call_completed \<Rightarrow> u8 \<times> wire_control" where
  "encode_tool_call_completed v =
     (UNION_ToolCallCompleted, W_ToolCallCompleted (tc_new_revision v) (Some (tc_result v)))"

fun encode_control :: "control_payload \<Rightarrow> u64 \<Rightarrow> u8 \<times> wire_control" where
  "encode_control (Hello v) channel_id = encode_hello v"
| "encode_control (Capabilities v) channel_id = encode_capabilities v"
| "encode_control (Authenticate v) channel_id = encode_authenticate v"
| "encode_control (Authenticated v) channel_id = encode_authenticated v"
| "encode_control (JoinSession token) channel_id = encode_join_session token"
| "encode_control (LeaveSession reason) channel_id = encode_leave_session reason"
| "encode_control SubscribeSpace channel_id = encode_subscribe_space channel_id"
| "encode_control (UnsubscribeSpace subscription) channel_id = encode_unsubscribe_space subscription"
| "encode_control (SubscriptionAccepted v) channel_id = encode_subscription_accepted v"
| "encode_control (SubscriptionRejected v) channel_id = encode_subscription_rejected v"
| "encode_control (EntityEntered owner) channel_id = encode_entity_entered owner"
| "encode_control (EntityLeft reason) channel_id = encode_entity_left reason"
| "encode_control (SnapshotRequest tick) channel_id = encode_snapshot_request tick channel_id"
| "encode_control (SpaceTransition v) channel_id = encode_space_transition v"
| "encode_control (Ping v) channel_id = encode_ping v"
| "encode_control (Pong v) channel_id = encode_pong v"
| "encode_control (ProtocolErrorPayload v) channel_id = encode_protocol_error v"
| "encode_control (InferenceRequested v) channel_id = encode_inference_requested v"
| "encode_control (InferenceAccepted queued) channel_id = encode_inference_accepted queued"
| "encode_control (InferenceProgress percent) channel_id = encode_inference_progress percent"
| "encode_control (InferenceStreamChunk v) channel_id = encode_inference_stream_chunk v"
| "encode_control (InferenceCompleted outcome) channel_id = encode_inference_completed outcome"
| "encode_control (InferenceFailed reason) channel_id = encode_inference_failed reason"
| "encode_control (InferenceCancelled reason) channel_id = encode_inference_cancelled reason"
| "encode_control (InferenceExpired reason) channel_id = encode_inference_expired reason"
| "encode_control (ToolCallProposed v) channel_id = encode_tool_call_proposed v"
| "encode_control (ToolCallAccepted tool) channel_id = encode_tool_call_accepted tool"
| "encode_control (ToolCallRejected v) channel_id = encode_tool_call_rejected v"
| "encode_control (ToolCallCompleted v) channel_id = encode_tool_call_completed v"

definition validate_outbound :: "codec_limits \<Rightarrow> envelope \<Rightarrow> codec_error + unit" where
  "validate_outbound l e =
     (if ev_protocol_version e \<noteq> PROTOCOL_VERSION then Inl (UnsupportedProtocolVersion (ev_protocol_version e))
      else if ev_delivery_class e = PD_Unknown
      then Inl (UnknownDeliveryClass (enum_value wire_delivery_table (ev_delivery_class e)))
      else and_then (validate_envelope e) (\<lambda>_.
        let opaque_limit = (\<lambda>payload.
              if ok_type_id payload = 0 then Inl (MissingPayloadType (ev_message_kind e))
              else enforce_payload_limit l (length (ok_bytes payload)))
        in case ev_message e of
          Control control \<Rightarrow> enforce_payload_limit l (variable_len control)
        | EntityState payload \<Rightarrow> opaque_limit payload
        | ReliableEvent payload \<Rightarrow> opaque_limit payload
        | SnapshotPayload payload \<Rightarrow> opaque_limit payload))"

definition encode_wire :: "envelope \<Rightarrow> wire_envelope" where
  "encode_wire e =
     (let (control_type, control) = (case ev_message e of
            Control payload \<Rightarrow>
              (case encode_control payload (or_zero (ev_channel_id e)) of (kind, table) \<Rightarrow> (kind, Some table))
          | _ \<Rightarrow> (UNION_NONE, None))
      in \<lparr>we_protocol_version = ev_protocol_version e,
          we_message_kind = message_kind_value (ev_message_kind e),
          we_delivery_class = enum_value wire_delivery_table (ev_delivery_class e),
          we_namespace_id = ev_namespace_id e, we_session_id = ev_session_id e,
          we_space_id = ev_space_id e, we_entity_id = or_zero (ev_entity_id e),
          we_space_epoch = ev_space_epoch e, we_server_tick = ev_server_tick e,
          we_sender_sequence = ev_sender_sequence e,
          we_correlation_id = or_zero (ev_correlation_id e),
          we_payload_type_id = (case opaque_of (ev_message e) of None \<Rightarrow> 0 | Some p \<Rightarrow> ok_type_id p),
          we_payload = map_option ok_bytes (opaque_of (ev_message e)),
          we_control_type = control_type, we_control = control,
          we_channel_id = or_zero (ev_channel_id e)\<rparr>)"

definition encode :: "(wire_envelope \<Rightarrow> u8 list) \<Rightarrow> codec_limits \<Rightarrow> envelope \<Rightarrow> codec_error + u8 list" where
  "encode finish l e =
     and_then (validate_outbound l e) (\<lambda>_.
     let encoded = finish (encode_wire e) in
     and_then (enforce_frame_limit l (length encoded)) (\<lambda>_. Inr encoded))"

section \<open>Decoding\<close>

definition nonzero :: "u64 \<Rightarrow> u64 option" where
  "nonzero v = (if v = 0 then None else Some v)"

definition or_empty :: "'a list option \<Rightarrow> 'a list" where
  "or_empty v = (case v of None \<Rightarrow> [] | Some xs \<Rightarrow> xs)"

definition control_mismatch :: "wire_envelope \<Rightarrow> message_kind \<Rightarrow> codec_error" where
  "control_mismatch w kind = MessageControlMismatch (message_kind_value kind) (we_control_type w)"

definition require_control :: "wire_envelope \<Rightarrow> message_kind \<Rightarrow> u8 \<Rightarrow> codec_error + unit" where
  "require_control w kind expected =
     (if we_control_type w \<noteq> expected \<or> we_control w = None then Inl (control_mismatch w kind) else Inr ())"

definition checked_control_vector :: "codec_limits \<Rightarrow> u8 list option \<Rightarrow> codec_error + u8 list" where
  "checked_control_vector l v =
     and_then (enforce_payload_limit l (case v of None \<Rightarrow> 0 | Some xs \<Rightarrow> length xs)) (\<lambda>_. Inr (or_empty v))"

definition checked_control_string :: "codec_limits \<Rightarrow> string option \<Rightarrow> codec_error + string" where
  "checked_control_string l v =
     and_then (enforce_payload_limit l (length (or_empty v))) (\<lambda>_. Inr (or_empty v))"

definition checked_control_strings :: "codec_limits \<Rightarrow> string \<Rightarrow> string \<Rightarrow> codec_error + (string \<times> string)" where
  "checked_control_strings l first second =
     and_then (enforce_payload_limit l (usize_saturating_add (length first) (length second)))
       (\<lambda>_. Inr (first, second))"

definition require_channel_mirror :: "wire_envelope \<Rightarrow> message_kind \<Rightarrow> u64 \<Rightarrow> codec_error + unit" where
  "require_channel_mirror w kind mirrored =
     (if mirrored = we_channel_id w then Inr ()
      else Inl (InvalidSemantics kind ''control channel_id must match envelope channel_id''))"

text \<open>\<^verbatim>\<open>from_wire(value).ok_or(UnsupportedEnumValue)\<close>.\<close>

definition wire_enum :: "('a \<times> 'w::len word) list \<Rightarrow> string \<Rightarrow> 'w word \<Rightarrow> codec_error + 'a" where
  "wire_enum table name v = ok_or (UnsupportedEnumValue name (ucast v)) (enum_from_wire table v)"

definition decode_hello :: "codec_limits \<Rightarrow> wire_envelope \<Rightarrow> codec_error + control_payload" where
  "decode_hello l w =
     and_then (require_control w MK_Hello UNION_Hello) (\<lambda>_.
     case we_control w of
       Some (W_Hello lowest highest name ver bits frame payload) \<Rightarrow>
         and_then (checked_control_strings l (or_empty name) (or_empty ver)) (\<lambda>(name', ver').
         Inr (Hello \<lparr>he_min_protocol_version = lowest, he_max_protocol_version = highest, he_client_name = name', he_client_version = ver',
         he_capability_bits = bits, he_max_frame_size = frame, he_max_payload_size = payload\<rparr>))
     | _ \<Rightarrow> Inl (control_mismatch w MK_Hello))"

definition decode_capabilities :: "codec_limits \<Rightarrow> wire_envelope \<Rightarrow> codec_error + control_payload" where
  "decode_capabilities l w =
     and_then (require_control w MK_Capabilities UNION_Capabilities) (\<lambda>_.
     case we_control w of
       Some (W_Capabilities selected name ver bits frame payload) \<Rightarrow>
         and_then (checked_control_strings l (or_empty name) (or_empty ver)) (\<lambda>(name', ver').
         Inr (Capabilities \<lparr>ca_selected_protocol_version = selected, ca_server_name = name', ca_server_version = ver',
         ca_capability_bits = bits, ca_max_frame_size = frame, ca_max_payload_size = payload\<rparr>))
     | _ \<Rightarrow> Inl (control_mismatch w MK_Capabilities))"

definition decode_authenticate :: "codec_limits \<Rightarrow> wire_envelope \<Rightarrow> codec_error + control_payload" where
  "decode_authenticate l w =
     and_then (require_control w MK_Authenticate UNION_Authenticate) (\<lambda>_.
     case we_control w of
       Some (W_Authenticate scheme credentials) \<Rightarrow>
         and_then (wire_enum authentication_scheme_table ''authentication scheme'' scheme) (\<lambda>scheme'.
         and_then (checked_control_vector l credentials) (\<lambda>credentials'.
         Inr (Authenticate \<lparr>au_scheme = scheme', au_credentials = credentials'\<rparr>)))
     | _ \<Rightarrow> Inl (control_mismatch w MK_Authenticate))"

definition decode_authenticated :: "codec_limits \<Rightarrow> wire_envelope \<Rightarrow> codec_error + control_payload" where
  "decode_authenticated l w =
     and_then (require_control w MK_Authenticated UNION_Authenticated) (\<lambda>_.
     case we_control w of
       Some (W_Authenticated principal_id assigned) \<Rightarrow>
         Inr (Authenticated \<lparr>ad_principal_id = principal_id, ad_assigned_entity_id = nonzero assigned\<rparr>)
     | _ \<Rightarrow> Inl (control_mismatch w MK_Authenticated))"

definition decode_join_session :: "codec_limits \<Rightarrow> wire_envelope \<Rightarrow> codec_error + control_payload" where
  "decode_join_session l w =
     and_then (require_control w MK_JoinSession UNION_JoinSession) (\<lambda>_.
     case we_control w of
       Some (W_JoinSession token) \<Rightarrow>
         and_then (checked_control_vector l token) (\<lambda>token'.
         Inr (JoinSession token'))
     | _ \<Rightarrow> Inl (control_mismatch w MK_JoinSession))"

definition decode_leave_session :: "codec_limits \<Rightarrow> wire_envelope \<Rightarrow> codec_error + control_payload" where
  "decode_leave_session l w =
     and_then (require_control w MK_LeaveSession UNION_LeaveSession) (\<lambda>_.
     case we_control w of
       Some (W_LeaveSession reason) \<Rightarrow>
         and_then (checked_control_string l reason) (\<lambda>reason'.
         Inr (LeaveSession reason'))
     | _ \<Rightarrow> Inl (control_mismatch w MK_LeaveSession))"

definition decode_subscribe_space :: "codec_limits \<Rightarrow> wire_envelope \<Rightarrow> codec_error + control_payload" where
  "decode_subscribe_space l w =
     and_then (require_control w MK_SubscribeSpace UNION_SubscribeSpace) (\<lambda>_.
     case we_control w of
       Some (W_SubscribeSpace channel) \<Rightarrow>
         and_then (require_channel_mirror w MK_SubscribeSpace channel) (\<lambda>_.
         Inr (SubscribeSpace))
     | _ \<Rightarrow> Inl (control_mismatch w MK_SubscribeSpace))"

definition decode_unsubscribe_space :: "codec_limits \<Rightarrow> wire_envelope \<Rightarrow> codec_error + control_payload" where
  "decode_unsubscribe_space l w =
     and_then (require_control w MK_UnsubscribeSpace UNION_UnsubscribeSpace) (\<lambda>_.
     case we_control w of
       Some (W_UnsubscribeSpace subscription) \<Rightarrow>
         Inr (UnsubscribeSpace subscription)
     | _ \<Rightarrow> Inl (control_mismatch w MK_UnsubscribeSpace))"

definition decode_subscription_accepted :: "codec_limits \<Rightarrow> wire_envelope \<Rightarrow> codec_error + control_payload" where
  "decode_subscription_accepted l w =
     and_then (require_control w MK_SubscriptionAccepted UNION_SubscriptionAccepted) (\<lambda>_.
     case we_control w of
       Some (W_SubscriptionAccepted subscription epoch) \<Rightarrow>
         Inr (SubscriptionAccepted \<lparr>sa_subscription_id = subscription, sa_accepted_space_epoch = epoch\<rparr>)
     | _ \<Rightarrow> Inl (control_mismatch w MK_SubscriptionAccepted))"

definition decode_subscription_rejected :: "codec_limits \<Rightarrow> wire_envelope \<Rightarrow> codec_error + control_payload" where
  "decode_subscription_rejected l w =
     and_then (require_control w MK_SubscriptionRejected UNION_SubscriptionRejected) (\<lambda>_.
     case we_control w of
       Some (W_SubscriptionRejected code reason) \<Rightarrow>
         and_then (wire_enum subscription_rejection_code_table ''subscription rejection code'' code) (\<lambda>code'.
         and_then (checked_control_string l reason) (\<lambda>reason'.
         Inr (SubscriptionRejected \<lparr>sj_code = code', sj_reason = reason'\<rparr>)))
     | _ \<Rightarrow> Inl (control_mismatch w MK_SubscriptionRejected))"

definition decode_entity_entered :: "codec_limits \<Rightarrow> wire_envelope \<Rightarrow> codec_error + control_payload" where
  "decode_entity_entered l w =
     and_then (require_control w MK_EntityEntered UNION_EntityEntered) (\<lambda>_.
     case we_control w of
       Some (W_EntityEntered owner) \<Rightarrow>
         Inr (EntityEntered (nonzero owner))
     | _ \<Rightarrow> Inl (control_mismatch w MK_EntityEntered))"

definition decode_entity_left :: "codec_limits \<Rightarrow> wire_envelope \<Rightarrow> codec_error + control_payload" where
  "decode_entity_left l w =
     and_then (require_control w MK_EntityLeft UNION_EntityLeft) (\<lambda>_.
     case we_control w of
       Some (W_EntityLeft reason) \<Rightarrow>
         and_then (wire_enum entity_leave_reason_table ''entity leave reason'' reason) (\<lambda>reason'.
         Inr (EntityLeft reason'))
     | _ \<Rightarrow> Inl (control_mismatch w MK_EntityLeft))"

definition decode_snapshot_request :: "codec_limits \<Rightarrow> wire_envelope \<Rightarrow> codec_error + control_payload" where
  "decode_snapshot_request l w =
     and_then (require_control w MK_SnapshotRequest UNION_SnapshotRequest) (\<lambda>_.
     case we_control w of
       Some (W_SnapshotRequest channel tick) \<Rightarrow>
         and_then (require_channel_mirror w MK_SnapshotRequest channel) (\<lambda>_.
         Inr (SnapshotRequest (nonzero tick)))
     | _ \<Rightarrow> Inl (control_mismatch w MK_SnapshotRequest))"

definition decode_space_transition :: "codec_limits \<Rightarrow> wire_envelope \<Rightarrow> codec_error + control_payload" where
  "decode_space_transition l w =
     and_then (require_control w MK_SpaceTransition UNION_SpaceTransition) (\<lambda>_.
     case we_control w of
       Some (W_SpaceTransition source target epoch) \<Rightarrow>
         Inr (SpaceTransition \<lparr>st_from_space_id = source, st_to_space_id = target, st_to_space_epoch = epoch\<rparr>)
     | _ \<Rightarrow> Inl (control_mismatch w MK_SpaceTransition))"

definition decode_ping :: "codec_limits \<Rightarrow> wire_envelope \<Rightarrow> codec_error + control_payload" where
  "decode_ping l w =
     and_then (require_control w MK_Ping UNION_Ping) (\<lambda>_.
     case we_control w of
       Some (W_Ping nonce sent) \<Rightarrow>
         Inr (Ping \<lparr>pi_nonce = nonce, pi_sender_time_micros = sent\<rparr>)
     | _ \<Rightarrow> Inl (control_mismatch w MK_Ping))"

definition decode_pong :: "codec_limits \<Rightarrow> wire_envelope \<Rightarrow> codec_error + control_payload" where
  "decode_pong l w =
     and_then (require_control w MK_Pong UNION_Pong) (\<lambda>_.
     case we_control w of
       Some (W_Pong nonce sent answered) \<Rightarrow>
         Inr (Pong \<lparr>po_nonce = nonce, po_sender_time_micros = sent, po_responder_time_micros = answered\<rparr>)
     | _ \<Rightarrow> Inl (control_mismatch w MK_Pong))"

definition decode_protocol_error :: "codec_limits \<Rightarrow> wire_envelope \<Rightarrow> codec_error + control_payload" where
  "decode_protocol_error l w =
     and_then (require_control w MK_ProtocolError UNION_ProtocolError) (\<lambda>_.
     case we_control w of
       Some (W_ProtocolError code related message) \<Rightarrow>
         and_then (wire_enum protocol_error_code_table ''protocol error code'' code) (\<lambda>code'.
         and_then (wire_enum message_kind_table ''related message kind'' related) (\<lambda>related'.
         and_then (checked_control_string l message) (\<lambda>message'.
         Inr (ProtocolErrorPayload \<lparr>pe_code = code', pe_related_message_kind = related', pe_message = message'\<rparr>))))
     | _ \<Rightarrow> Inl (control_mismatch w MK_ProtocolError))"

definition decode_inference_requested :: "codec_limits \<Rightarrow> wire_envelope \<Rightarrow> codec_error + control_payload" where
  "decode_inference_requested l w =
     and_then (require_control w MK_InferenceRequested UNION_InferenceRequested) (\<lambda>_.
     case we_control w of
       Some (W_InferenceRequested capability deadline input) \<Rightarrow>
         and_then (checked_control_string l capability) (\<lambda>capability'.
         and_then (checked_control_vector l input) (\<lambda>input'.
         Inr (InferenceRequested \<lparr>iq_capability = capability', iq_deadline_ms = deadline, iq_input = input'\<rparr>)))
     | _ \<Rightarrow> Inl (control_mismatch w MK_InferenceRequested))"

definition decode_inference_accepted :: "codec_limits \<Rightarrow> wire_envelope \<Rightarrow> codec_error + control_payload" where
  "decode_inference_accepted l w =
     and_then (require_control w MK_InferenceAccepted UNION_InferenceAccepted) (\<lambda>_.
     case we_control w of
       Some (W_InferenceAccepted queued) \<Rightarrow>
         Inr (InferenceAccepted queued)
     | _ \<Rightarrow> Inl (control_mismatch w MK_InferenceAccepted))"

definition decode_inference_progress :: "codec_limits \<Rightarrow> wire_envelope \<Rightarrow> codec_error + control_payload" where
  "decode_inference_progress l w =
     and_then (require_control w MK_InferenceProgress UNION_InferenceProgress) (\<lambda>_.
     case we_control w of
       Some (W_InferenceProgress percent) \<Rightarrow>
         Inr (InferenceProgress percent)
     | _ \<Rightarrow> Inl (control_mismatch w MK_InferenceProgress))"

definition decode_inference_stream_chunk :: "codec_limits \<Rightarrow> wire_envelope \<Rightarrow> codec_error + control_payload" where
  "decode_inference_stream_chunk l w =
     and_then (require_control w MK_InferenceStreamChunk UNION_InferenceStreamChunk) (\<lambda>_.
     case we_control w of
       Some (W_InferenceStreamChunk sequence chunk final) \<Rightarrow>
         and_then (checked_control_vector l chunk) (\<lambda>chunk'.
         Inr (InferenceStreamChunk \<lparr>ic_sequence = sequence, ic_chunk = chunk', ic_is_final = final\<rparr>))
     | _ \<Rightarrow> Inl (control_mismatch w MK_InferenceStreamChunk))"

definition decode_inference_completed :: "codec_limits \<Rightarrow> wire_envelope \<Rightarrow> codec_error + control_payload" where
  "decode_inference_completed l w =
     and_then (require_control w MK_InferenceCompleted UNION_InferenceCompleted) (\<lambda>_.
     case we_control w of
       Some (W_InferenceCompleted outcome) \<Rightarrow>
         and_then (checked_control_vector l outcome) (\<lambda>outcome'.
         Inr (InferenceCompleted outcome'))
     | _ \<Rightarrow> Inl (control_mismatch w MK_InferenceCompleted))"

definition decode_inference_failed :: "codec_limits \<Rightarrow> wire_envelope \<Rightarrow> codec_error + control_payload" where
  "decode_inference_failed l w =
     and_then (require_control w MK_InferenceFailed UNION_InferenceFailed) (\<lambda>_.
     case we_control w of
       Some (W_InferenceFailed reason) \<Rightarrow>
         and_then (checked_control_string l reason) (\<lambda>reason'.
         Inr (InferenceFailed reason'))
     | _ \<Rightarrow> Inl (control_mismatch w MK_InferenceFailed))"

definition decode_inference_cancelled :: "codec_limits \<Rightarrow> wire_envelope \<Rightarrow> codec_error + control_payload" where
  "decode_inference_cancelled l w =
     and_then (require_control w MK_InferenceCancelled UNION_InferenceCancelled) (\<lambda>_.
     case we_control w of
       Some (W_InferenceCancelled reason) \<Rightarrow>
         and_then (checked_control_string l reason) (\<lambda>reason'.
         Inr (InferenceCancelled reason'))
     | _ \<Rightarrow> Inl (control_mismatch w MK_InferenceCancelled))"

definition decode_inference_expired :: "codec_limits \<Rightarrow> wire_envelope \<Rightarrow> codec_error + control_payload" where
  "decode_inference_expired l w =
     and_then (require_control w MK_InferenceExpired UNION_InferenceExpired) (\<lambda>_.
     case we_control w of
       Some (W_InferenceExpired reason) \<Rightarrow>
         and_then (checked_control_string l reason) (\<lambda>reason'.
         Inr (InferenceExpired reason'))
     | _ \<Rightarrow> Inl (control_mismatch w MK_InferenceExpired))"

definition decode_tool_call_proposed :: "codec_limits \<Rightarrow> wire_envelope \<Rightarrow> codec_error + control_payload" where
  "decode_tool_call_proposed l w =
     and_then (require_control w MK_ToolCallProposed UNION_ToolCallProposed) (\<lambda>_.
     case we_control w of
       Some (W_ToolCallProposed tool ver arguments revision) \<Rightarrow>
         and_then (checked_control_string l tool) (\<lambda>tool'.
         and_then (checked_control_vector l arguments) (\<lambda>arguments'.
         Inr (ToolCallProposed \<lparr>tp_tool_id = tool', tp_tool_version = ver, tp_arguments = arguments', tp_expected_revision = revision\<rparr>)))
     | _ \<Rightarrow> Inl (control_mismatch w MK_ToolCallProposed))"

definition decode_tool_call_accepted :: "codec_limits \<Rightarrow> wire_envelope \<Rightarrow> codec_error + control_payload" where
  "decode_tool_call_accepted l w =
     and_then (require_control w MK_ToolCallAccepted UNION_ToolCallAccepted) (\<lambda>_.
     case we_control w of
       Some (W_ToolCallAccepted tool) \<Rightarrow>
         and_then (checked_control_string l tool) (\<lambda>tool'.
         Inr (ToolCallAccepted tool'))
     | _ \<Rightarrow> Inl (control_mismatch w MK_ToolCallAccepted))"

definition decode_tool_call_rejected :: "codec_limits \<Rightarrow> wire_envelope \<Rightarrow> codec_error + control_payload" where
  "decode_tool_call_rejected l w =
     and_then (require_control w MK_ToolCallRejected UNION_ToolCallRejected) (\<lambda>_.
     case we_control w of
       Some (W_ToolCallRejected code reason) \<Rightarrow>
         and_then (wire_enum tool_call_rejection_code_table ''tool call rejection code'' code) (\<lambda>code'.
         and_then (checked_control_string l reason) (\<lambda>reason'.
         Inr (ToolCallRejected \<lparr>tj_code = code', tj_reason = reason'\<rparr>)))
     | _ \<Rightarrow> Inl (control_mismatch w MK_ToolCallRejected))"

definition decode_tool_call_completed :: "codec_limits \<Rightarrow> wire_envelope \<Rightarrow> codec_error + control_payload" where
  "decode_tool_call_completed l w =
     and_then (require_control w MK_ToolCallCompleted UNION_ToolCallCompleted) (\<lambda>_.
     case we_control w of
       Some (W_ToolCallCompleted revision outcome) \<Rightarrow>
         and_then (checked_control_vector l outcome) (\<lambda>outcome'.
         Inr (ToolCallCompleted \<lparr>tc_new_revision = revision, tc_result = outcome'\<rparr>))
     | _ \<Rightarrow> Inl (control_mismatch w MK_ToolCallCompleted))"

definition decode_control :: "codec_limits \<Rightarrow> wire_envelope \<Rightarrow> message_kind \<Rightarrow> codec_error + control_payload" where
  "decode_control l w kind = (case kind of
     MK_Hello \<Rightarrow> decode_hello l w
   | MK_Capabilities \<Rightarrow> decode_capabilities l w
   | MK_Authenticate \<Rightarrow> decode_authenticate l w
   | MK_Authenticated \<Rightarrow> decode_authenticated l w
   | MK_JoinSession \<Rightarrow> decode_join_session l w
   | MK_LeaveSession \<Rightarrow> decode_leave_session l w
   | MK_SubscribeSpace \<Rightarrow> decode_subscribe_space l w
   | MK_UnsubscribeSpace \<Rightarrow> decode_unsubscribe_space l w
   | MK_SubscriptionAccepted \<Rightarrow> decode_subscription_accepted l w
   | MK_SubscriptionRejected \<Rightarrow> decode_subscription_rejected l w
   | MK_EntityEntered \<Rightarrow> decode_entity_entered l w
   | MK_EntityLeft \<Rightarrow> decode_entity_left l w
   | MK_SnapshotRequest \<Rightarrow> decode_snapshot_request l w
   | MK_SpaceTransition \<Rightarrow> decode_space_transition l w
   | MK_Ping \<Rightarrow> decode_ping l w
   | MK_Pong \<Rightarrow> decode_pong l w
   | MK_ProtocolError \<Rightarrow> decode_protocol_error l w
   | MK_InferenceRequested \<Rightarrow> decode_inference_requested l w
   | MK_InferenceAccepted \<Rightarrow> decode_inference_accepted l w
   | MK_InferenceProgress \<Rightarrow> decode_inference_progress l w
   | MK_InferenceStreamChunk \<Rightarrow> decode_inference_stream_chunk l w
   | MK_InferenceCompleted \<Rightarrow> decode_inference_completed l w
   | MK_InferenceFailed \<Rightarrow> decode_inference_failed l w
   | MK_InferenceCancelled \<Rightarrow> decode_inference_cancelled l w
   | MK_InferenceExpired \<Rightarrow> decode_inference_expired l w
   | MK_ToolCallProposed \<Rightarrow> decode_tool_call_proposed l w
   | MK_ToolCallAccepted \<Rightarrow> decode_tool_call_accepted l w
   | MK_ToolCallRejected \<Rightarrow> decode_tool_call_rejected l w
   | MK_ToolCallCompleted \<Rightarrow> decode_tool_call_completed l w
   | _ \<Rightarrow> Inl (control_mismatch w kind))"

definition decode_opaque :: "codec_limits \<Rightarrow> wire_envelope \<Rightarrow> message_kind \<Rightarrow> codec_error + message_payload" where
  "decode_opaque l w kind =
     (if we_control_type w \<noteq> UNION_NONE \<or> we_control w \<noteq> None then Inl (control_mismatch w kind)
      else if we_payload_type_id w = 0 then Inl (MissingPayloadType kind)
      else and_then (enforce_payload_limit l (case we_payload w of None \<Rightarrow> 0 | Some bs \<Rightarrow> length bs)) (\<lambda>_.
        let payload = \<lparr>ok_type_id = we_payload_type_id w, ok_bytes = or_empty (we_payload w)\<rparr> in
        case kind of
          MK_EntityState \<Rightarrow> Inr (EntityState payload)
        | MK_ReliableEvent \<Rightarrow> Inr (ReliableEvent payload)
        | MK_Snapshot \<Rightarrow> Inr (SnapshotPayload payload)
        | _ \<Rightarrow> Inl (control_mismatch w kind)))"

text \<open>\<^verbatim>\<open>from_wire(value).filter(|k| k != Unknown).ok_or(error)\<close>.\<close>

definition known :: "'e \<Rightarrow> 'a \<Rightarrow> 'a option \<Rightarrow> 'e + 'a" where
  "known error unknown v = (case v of None \<Rightarrow> Inl error | Some k \<Rightarrow> if k = unknown then Inl error else Inr k)"

definition decode_message :: "codec_limits \<Rightarrow> wire_envelope \<Rightarrow> message_kind \<Rightarrow> codec_error + message_payload" where
  "decode_message l w kind =
     (if kind = MK_EntityState \<or> kind = MK_ReliableEvent \<or> kind = MK_Snapshot then decode_opaque l w kind
      else if kind = MK_Unknown then Inl (UnknownMessageKind 0)
      else if we_payload_type_id w \<noteq> 0 \<or> we_payload w \<noteq> None then Inl (UnexpectedDomainPayload kind)
      else and_then (decode_control l w kind) (\<lambda>control. Inr (Control control)))"

definition decode_verified :: "codec_limits \<Rightarrow> wire_envelope \<Rightarrow> codec_error + envelope" where
  "decode_verified l w =
     (if we_protocol_version w \<noteq> PROTOCOL_VERSION then Inl (UnsupportedProtocolVersion (we_protocol_version w))
      else
        and_then (known (UnknownMessageKind (we_message_kind w)) MK_Unknown
          (message_kind_from_wire (we_message_kind w))) (\<lambda>kind.
        and_then (known (UnknownDeliveryClass (we_delivery_class w)) PD_Unknown
          (enum_from_wire wire_delivery_table (we_delivery_class w))) (\<lambda>delivery.
        and_then (decode_message l w kind) (\<lambda>message.
        let decoded = \<lparr>ev_protocol_version = we_protocol_version w, ev_delivery_class = delivery,
          ev_namespace_id = we_namespace_id w, ev_session_id = we_session_id w, ev_space_id = we_space_id w,
          ev_channel_id = nonzero (we_channel_id w), ev_entity_id = nonzero (we_entity_id w),
          ev_space_epoch = we_space_epoch w, ev_server_tick = we_server_tick w,
          ev_sender_sequence = we_sender_sequence w, ev_correlation_id = nonzero (we_correlation_id w),
          ev_message = message\<rparr> in
        and_then (validate_envelope decoded) (\<lambda>_. Inr decoded)))))"

definition decode ::
  "(u8 list \<Rightarrow> bool) \<Rightarrow> (u8 list \<Rightarrow> string + wire_envelope) \<Rightarrow> codec_limits \<Rightarrow> u8 list \<Rightarrow> codec_error + envelope"
where
  "decode has_identifier root l frame =
     and_then (expected_frame_len l frame) (\<lambda>expected_opt.
     and_then (ok_or (TruncatedFrame SIZE_PREFIX_LEN (length frame)) expected_opt) (\<lambda>expected.
     if length frame < expected then Inl (TruncatedFrame expected (length frame))
     else if expected < length frame then Inl (TrailingBytes expected (length frame))
     else if \<not> has_identifier frame then Inl InvalidFileIdentifier
     else and_then (map_err InvalidFlatbuffer (root frame)) (\<lambda>w. decode_verified l w)))"

end
