(* ===== verification/CodecProps.thy ===== *)
theory CodecProps
  imports Codec
begin

text \<open>
  Properties of the codec: what is sent can be read back, what is read was checked, and the framing
  agrees with the decoder.
\<close>

section \<open>Reading back a control message\<close>

text \<open>Limits a codec can be built with (\<^verbatim>\<open>CodecLimits::new\<close> and the default).\<close>

definition limits_valid :: "codec_limits \<Rightarrow> bool" where
  "limits_valid l \<longleftrightarrow> codec_new l = Inr l"

lemma limits_valid_bounds:
  assumes "limits_valid l"
  shows "MIN_FRAME_LEN \<le> cl_max_frame_len l" "cl_max_payload_len l \<le> cl_max_frame_len l"
    "cl_max_frame_len l \<le> 2 ^ 32 + 3" "cl_max_payload_len l < usize_max"
  using assms
  by (auto simp: limits_valid_def codec_new_def codec_limits_new_def Let_def usize_saturating_add_def u32_max_def
      usize_max_def SIZE_PREFIX_LEN_def split: if_splits)

lemma limits_default_valid: "limits_valid codec_limits_default"
  by (simp add: limits_valid_def codec_new_def codec_limits_new_def codec_limits_default_def Let_def
      usize_saturating_add_def u32_max_def usize_max_def SIZE_PREFIX_LEN_def MIN_FRAME_LEN_def)

lemma wire_enum_value:
  "enum_table_ok table \<Longrightarrow> k \<in> set (map fst table) \<Longrightarrow> wire_enum table name (enum_value table k) = Inr k"
  by (simp add: wire_enum_def enum_from_wire_value ok_or_def del: set_map list.set_map)

lemmas wire_enum_values [simp] =
  wire_enum_value [OF enum_tables_ok(1) message_kind_table_complete]
  wire_enum_value [OF enum_tables_ok(3) authentication_scheme_table_complete]
  wire_enum_value [OF enum_tables_ok(4) subscription_rejection_code_table_complete]
  wire_enum_value [OF enum_tables_ok(5) entity_leave_reason_table_complete]
  wire_enum_value [OF enum_tables_ok(6) protocol_error_code_table_complete]
  wire_enum_value [OF enum_tables_ok(7) tool_call_rejection_code_table_complete]

lemmas known_enum_values [simp] =
  enum_from_wire_value [OF enum_tables_ok(1) message_kind_table_complete]
  enum_from_wire_value [OF enum_tables_ok(2) wire_delivery_table_complete]

lemma nonzero_or_zero: "v \<noteq> Some 0 \<Longrightarrow> nonzero (or_zero v) = v"
  by (cases v) (simp_all add: nonzero_def)

lemma or_zero_of_nonzero [simp]: "or_zero (nonzero v) = v"
  by (simp add: nonzero_def)

lemma or_empty_Some [simp]: "or_empty (Some xs) = xs" "or_empty None = []"
  by (simp_all add: or_empty_def)

text \<open>The optional ids of a control message, none of which may be present and zero.\<close>

fun control_ids_ok :: "control_payload \<Rightarrow> bool" where
  "control_ids_ok (Authenticated v) = (ad_assigned_entity_id v \<noteq> Some 0)"
| "control_ids_ok (EntityEntered owner) = (owner \<noteq> Some 0)"
| "control_ids_ok (SnapshotRequest tick) = (tick \<noteq> Some 0)"
| "control_ids_ok _ = True"

lemma validate_control_ids: "validate_control e c = Inr u \<Longrightarrow> control_ids_ok c"
  by (cases c) (simp_all add: validate_control_def and_then_eq_Inr validate_snapshot_request_def)

lemmas encode_arms = encode_hello_def encode_capabilities_def encode_authenticate_def encode_authenticated_def
  encode_join_session_def encode_leave_session_def encode_subscribe_space_def encode_unsubscribe_space_def
  encode_subscription_accepted_def encode_subscription_rejected_def encode_entity_entered_def
  encode_entity_left_def encode_snapshot_request_def encode_space_transition_def encode_ping_def encode_pong_def
  encode_protocol_error_def encode_inference_requested_def encode_inference_accepted_def
  encode_inference_progress_def encode_inference_stream_chunk_def encode_inference_completed_def
  encode_inference_failed_def encode_inference_cancelled_def encode_inference_expired_def
  encode_tool_call_proposed_def encode_tool_call_accepted_def encode_tool_call_rejected_def
  encode_tool_call_completed_def

lemmas decode_arms = decode_hello_def decode_capabilities_def decode_authenticate_def decode_authenticated_def
  decode_join_session_def decode_leave_session_def decode_subscribe_space_def decode_unsubscribe_space_def
  decode_subscription_accepted_def decode_subscription_rejected_def decode_entity_entered_def
  decode_entity_left_def decode_snapshot_request_def decode_space_transition_def decode_ping_def decode_pong_def
  decode_protocol_error_def decode_inference_requested_def decode_inference_accepted_def
  decode_inference_progress_def decode_inference_stream_chunk_def decode_inference_completed_def
  decode_inference_failed_def decode_inference_cancelled_def decode_inference_expired_def
  decode_tool_call_proposed_def decode_tool_call_accepted_def decode_tool_call_rejected_def
  decode_tool_call_completed_def

lemmas checked_defs = checked_control_vector_def checked_control_string_def checked_control_strings_def
  enforce_payload_limit_def require_channel_mirror_def require_control_def

lemma saturating_add_le: "usize_saturating_add a b \<le> m \<Longrightarrow> m < usize_max \<Longrightarrow> a + b \<le> m"
  by (auto simp: usize_saturating_add_def min_def split: if_splits)

lemma decode_encode_control:
  assumes "limits_valid l" "variable_len c \<le> cl_max_payload_len l" "control_ids_ok c"
    and "we_control_type w = fst (encode_control c (we_channel_id w))"
    and "we_control w = Some (snd (encode_control c (we_channel_id w)))"
  shows "decode_control l w (control_message_kind c) = Inr c"
  using assms limits_valid_bounds(4) [OF assms(1)]
  by (cases c)
    (auto simp: decode_control_def encode_arms decode_arms checked_defs nonzero_or_zero message_kind_value_def
      dest: saturating_add_le)

section \<open>Round trip\<close>

lemma validate_outbound_ok:
  "validate_outbound l e = Inr u \<longleftrightarrow> ev_protocol_version e = PROTOCOL_VERSION \<and> ev_delivery_class e \<noteq> PD_Unknown
     \<and> validate_envelope e = Inr ()
     \<and> (case ev_message e of
          Control c \<Rightarrow> variable_len c \<le> cl_max_payload_len l
        | EntityState p \<Rightarrow> ok_type_id p \<noteq> 0 \<and> length (ok_bytes p) \<le> cl_max_payload_len l
        | ReliableEvent p \<Rightarrow> ok_type_id p \<noteq> 0 \<and> length (ok_bytes p) \<le> cl_max_payload_len l
        | SnapshotPayload p \<Rightarrow> ok_type_id p \<noteq> 0 \<and> length (ok_bytes p) \<le> cl_max_payload_len l)"
  by (auto simp: validate_outbound_def and_then_eq_Inr enforce_payload_limit_def Let_def
      split: message_payload.split if_splits)

lemma control_kind_known:
  "control_message_kind c \<notin> {MK_Unknown, MK_EntityState, MK_ReliableEvent, MK_Snapshot}"
  by (cases c) simp_all

lemma payload_kind_known: "payload_message_kind m \<noteq> MK_Unknown"
  using control_kind_known by (cases m) auto

lemma decode_encode_message:
  assumes "limits_valid l" "validate_outbound l e = Inr ()"
  shows "decode_message l (encode_wire e) (ev_message_kind e) = Inr (ev_message e)"
proof (cases "ev_message e")
  case (Control c)
  then have "validate_control e c = Inr ()" "variable_len c \<le> cl_max_payload_len l"
    using assms(2) by (simp_all add: validate_outbound_ok validate_envelope_ok)
  then have "decode_control l (encode_wire e) (control_message_kind c) = Inr c"
    using Control by (intro decode_encode_control [OF assms(1)])
      (auto simp: validate_control_ids encode_wire_def split: prod.split)
  then show ?thesis
    using Control control_kind_known [of c]
    by (auto simp: decode_message_def ev_message_kind_def encode_wire_def split: prod.split)
qed (use assms(2) in \<open>auto simp: decode_message_def decode_opaque_def ev_message_kind_def encode_wire_def
    validate_outbound_ok enforce_payload_limit_def\<close>)

lemma decode_encode_wire:
  assumes "limits_valid l" "validate_outbound l e = Inr ()"
  shows "decode_verified l (encode_wire e) = Inr e"
proof -
  let ?w = "encode_wire e"
  have ok: "ev_protocol_version e = PROTOCOL_VERSION" "ev_delivery_class e \<noteq> PD_Unknown"
      "validate_envelope e = Inr ()"
    using assms(2) by (simp_all add: validate_outbound_ok)
  then have ids: "ev_channel_id e \<noteq> Some 0" "ev_entity_id e \<noteq> Some 0" "ev_correlation_id e \<noteq> Some 0"
    by (simp_all add: validate_envelope_ok optional_ids_ok)
  have fields: "we_protocol_version ?w = ev_protocol_version e"
    "we_message_kind ?w = enum_value message_kind_table (ev_message_kind e)"
    "we_delivery_class ?w = enum_value wire_delivery_table (ev_delivery_class e)"
    "we_namespace_id ?w = ev_namespace_id e" "we_session_id ?w = ev_session_id e" "we_space_id ?w = ev_space_id e"
    "we_channel_id ?w = or_zero (ev_channel_id e)" "we_entity_id ?w = or_zero (ev_entity_id e)"
    "we_space_epoch ?w = ev_space_epoch e" "we_server_tick ?w = ev_server_tick e"
    "we_sender_sequence ?w = ev_sender_sequence e" "we_correlation_id ?w = or_zero (ev_correlation_id e)"
    by (simp_all add: encode_wire_def message_kind_value_def split: prod.split)
  have self: "\<lparr>ev_protocol_version = PROTOCOL_VERSION, ev_delivery_class = ev_delivery_class e,
      ev_namespace_id = ev_namespace_id e, ev_session_id = ev_session_id e, ev_space_id = ev_space_id e,
      ev_channel_id = ev_channel_id e, ev_entity_id = ev_entity_id e, ev_space_epoch = ev_space_epoch e,
      ev_server_tick = ev_server_tick e, ev_sender_sequence = ev_sender_sequence e,
      ev_correlation_id = ev_correlation_id e, ev_message = ev_message e\<rparr> = e"
    using ok(1) by (cases e) simp
  show ?thesis
    using ok ids decode_encode_message [OF assms] payload_kind_known [of "ev_message e"]
    by (simp add: decode_verified_def fields known_def message_kind_from_wire_def nonzero_or_zero
        ev_message_kind_def Let_def self)
qed

text \<open>
  What is relied on of FlatBuffers for one table: its bytes carry the identifier and the length
  prefix, fit a 32-bit length, and the verifier reads the same table back.
\<close>

definition flatbuffer_reads_back ::
  "(wire_envelope \<Rightarrow> u8 list) \<Rightarrow> (u8 list \<Rightarrow> bool) \<Rightarrow> (u8 list \<Rightarrow> string + wire_envelope) \<Rightarrow> wire_envelope \<Rightarrow> bool"
where
  "flatbuffer_reads_back finish has_identifier root w \<longleftrightarrow>
     MIN_FRAME_LEN \<le> length (finish w) \<and> length (finish w) < 2 ^ 32 + SIZE_PREFIX_LEN
     \<and> le_bytes (take SIZE_PREFIX_LEN (finish w)) + SIZE_PREFIX_LEN = length (finish w)
     \<and> has_identifier (finish w) \<and> root (finish w) = Inr w"

lemma expected_len_of_frame:
  assumes "le_bytes (take SIZE_PREFIX_LEN frame) + SIZE_PREFIX_LEN = length frame"
    "MIN_FRAME_LEN \<le> length frame" "length frame < 2 ^ 32 + SIZE_PREFIX_LEN" "length frame \<le> cl_max_frame_len l"
  shows "expected_frame_len l frame = Inr (Some (length frame))"
proof -
  let ?n = "le_bytes (take SIZE_PREFIX_LEN frame)"
  have n: "?n < 2 ^ 32" "8 \<le> ?n" using assms by (simp_all add: SIZE_PREFIX_LEN_def MIN_FRAME_LEN_def)
  then have u: "unat (of_nat ?n :: u32) = ?n" by (simp add: unat_of_nat)
  have "\<not> (of_nat ?n :: u32) < MIN_ENCODED_LEN"
    using n by (simp add: word_less_nat_alt u MIN_ENCODED_LEN_def)
  moreover have "usize_saturating_add ?n SIZE_PREFIX_LEN = length frame"
    using assms(1) n by (simp add: usize_saturating_add_def usize_max_def SIZE_PREFIX_LEN_def)
  moreover have "\<not> length frame < SIZE_PREFIX_LEN" "\<not> cl_max_frame_len l < length frame"
    using assms by (simp_all add: SIZE_PREFIX_LEN_def MIN_FRAME_LEN_def)
  ultimately show ?thesis by (simp add: expected_frame_len_def Let_def u enforce_frame_limit_def)
qed

text \<open>
  C26. Round trip. Whatever envelope the codec agrees to encode, decoding its bytes with the same
  codec yields that envelope, every field and payload included, provided the FlatBuffers library
  reads back the one table that was built.
\<close>

theorem decode_encode:
  assumes "codec_new l = Inr l" "encode finish l e = Inr bytes"
    and "flatbuffer_reads_back finish has_identifier root (encode_wire e)"
  shows "decode has_identifier root l bytes = Inr e"
proof -
  have v: "validate_outbound l e = Inr ()" and b: "bytes = finish (encode_wire e)"
    and f: "length bytes \<le> cl_max_frame_len l"
    using assms(2) by (auto simp: encode_def and_then_eq_Inr Let_def enforce_frame_limit_def split: if_splits)
  have "expected_frame_len l bytes = Inr (Some (length bytes))"
    using assms(3) f unfolding b flatbuffer_reads_back_def by (intro expected_len_of_frame) simp_all
  moreover have "decode_verified l (encode_wire e) = Inr e"
    using assms(1) v by (intro decode_encode_wire) (simp_all add: limits_valid_def)
  ultimately show ?thesis
    using assms(3) by (simp add: decode_def b flatbuffer_reads_back_def ok_or_def map_err_def)
qed

text \<open>An authentication message and a 12-byte frame that stands for its table.\<close>

definition demo_envelope :: envelope where
  "demo_envelope = envelope_control PD_ReliableOrdered
     (Authenticate \<lparr>au_scheme = AS_Bearer, au_credentials = [7, 8]\<rparr>)"

definition demo_frame :: "u8 list" where
  "demo_frame = [8, 0, 0, 0, 1, 2, 3, 4, 5, 6, 7, 8]"

lemma demo_reads_back:
  "flatbuffer_reads_back (\<lambda>_. demo_frame) (\<lambda>_. True) (\<lambda>_. Inr (encode_wire demo_envelope)) (encode_wire demo_envelope)"
  by (simp add: flatbuffer_reads_back_def demo_frame_def MIN_FRAME_LEN_def SIZE_PREFIX_LEN_def)

lemma demo_encoded: "encode (\<lambda>_. demo_frame) codec_limits_default demo_envelope = Inr demo_frame"
  by (simp add: encode_def validate_outbound_def demo_envelope_def envelope_control_def envelope_new_def
      validate_envelope_def reject_zero_optional_ids_def reject_zero_option_def validate_delivery_def
      delivery_fits_def ev_message_kind_def validate_control_def require_unscoped_def validate_authenticate_def
      enforce_payload_limit_def enforce_frame_limit_def codec_limits_default_def demo_frame_def Let_def)

lemma decode_encode_witness:
  "decode (\<lambda>_. True) (\<lambda>_. Inr (encode_wire demo_envelope)) codec_limits_default demo_frame = Inr demo_envelope"
  by (rule decode_encode [OF limits_default_valid [unfolded limits_valid_def] demo_encoded demo_reads_back])

section \<open>What decoding guarantees\<close>

text \<open>
  The payload limit as decoding applies it: to the sum of the strings of a greeting, but to each
  part of an inference request or a tool call by itself.
\<close>

fun decoded_fits :: "codec_limits \<Rightarrow> control_payload \<Rightarrow> bool" where
  "decoded_fits l (InferenceRequested v) =
     (length (iq_capability v) \<le> cl_max_payload_len l \<and> length (iq_input v) \<le> cl_max_payload_len l)"
| "decoded_fits l (ToolCallProposed v) =
     (length (tp_tool_id v) \<le> cl_max_payload_len l \<and> length (tp_arguments v) \<le> cl_max_payload_len l)"
| "decoded_fits l c = (variable_len c \<le> cl_max_payload_len l)"

text \<open>What every arm of the decoder returns.\<close>

lemma decode_control_ok:
  assumes "decode_control l w kind = Inr c"
  shows "control_message_kind c = kind \<and> decoded_fits l c"
proof (cases "we_control w")
  case None
  then show ?thesis using assms by (cases kind) (simp_all add: decode_control_def decode_arms require_control_def)
next
  case (Some t)
  then show ?thesis
    using assms
    by (cases kind; cases t; auto simp: decode_control_def decode_arms and_then_eq_Inr checked_defs or_empty_def
        split: if_splits option.splits)
qed

lemma decode_message_ok:
  assumes "decode_message l w kind = Inr m"
  shows "payload_message_kind m = kind \<and> (case m of Control c \<Rightarrow> decoded_fits l c
      | EntityState p \<Rightarrow> ok_type_id p \<noteq> 0 \<and> length (ok_bytes p) \<le> cl_max_payload_len l
      | ReliableEvent p \<Rightarrow> ok_type_id p \<noteq> 0 \<and> length (ok_bytes p) \<le> cl_max_payload_len l
      | SnapshotPayload p \<Rightarrow> ok_type_id p \<noteq> 0 \<and> length (ok_bytes p) \<le> cl_max_payload_len l)"
  using assms decode_control_ok
  by (auto simp: decode_message_def decode_opaque_def and_then_eq_Inr enforce_payload_limit_def Let_def or_empty_def
      split: if_splits message_kind.splits option.splits)

lemma expected_frame_len_Some:
  assumes "expected_frame_len l frame = Inr (Some n)"
  shows "SIZE_PREFIX_LEN \<le> length frame" "n \<le> cl_max_frame_len l" "MIN_FRAME_LEN \<le> n"
    "n = usize_saturating_add (unat (of_nat (le_bytes (take SIZE_PREFIX_LEN frame)) :: u32)) SIZE_PREFIX_LEN"
proof -
  let ?len = "of_nat (le_bytes (take SIZE_PREFIX_LEN frame)) :: u32"
  have e: "SIZE_PREFIX_LEN \<le> length frame" "\<not> ?len < MIN_ENCODED_LEN" "n \<le> cl_max_frame_len l"
    "n = usize_saturating_add (unat ?len) SIZE_PREFIX_LEN"
    using assms
    by (auto simp: expected_frame_len_def Let_def enforce_frame_limit_def and_then_eq_Inr split: if_splits)
  show "SIZE_PREFIX_LEN \<le> length frame" "n \<le> cl_max_frame_len l"
    "n = usize_saturating_add (unat ?len) SIZE_PREFIX_LEN" by (fact e)+
  have "8 \<le> unat ?len" using e(2) by (simp add: word_less_nat_alt MIN_ENCODED_LEN_def)
  then show "MIN_FRAME_LEN \<le> n"
    using e(4) by (simp add: usize_saturating_add_def usize_max_def SIZE_PREFIX_LEN_def MIN_FRAME_LEN_def)
qed

lemma expected_frame_len_prefix:
  assumes "take SIZE_PREFIX_LEN xs = take SIZE_PREFIX_LEN ys" "SIZE_PREFIX_LEN \<le> length xs" "SIZE_PREFIX_LEN \<le> length ys"
  shows "expected_frame_len l xs = expected_frame_len l ys"
  using assms by (simp add: expected_frame_len_def)

lemma decode_frame:
  assumes "decode has_identifier root l frame = Inr e"
  shows "expected_frame_len l frame = Inr (Some (length frame))"
  using assms by (auto simp: decode_def and_then_eq_Inr ok_or_def split: if_splits option.splits)

text \<open>
  C27. Nothing unchecked is decoded. Every envelope that comes out of the decoder has the protocol's
  version and passes the semantic checks, from a frame whose length is the one its prefix announces
  and within the limit, and an opaque payload is typed and within the payload limit. Unless the
  parts of a control message, within the limit each, exceed it together, the envelope could be
  encoded again.
\<close>

theorem decoded_envelopes_are_checked:
  assumes "decode has_identifier root l frame = Inr e"
  shows "ev_protocol_version e = PROTOCOL_VERSION \<and> validate_envelope e = Inr ()
    \<and> expected_frame_len l frame = Inr (Some (length frame)) \<and> length frame \<le> cl_max_frame_len l
    \<and> length (ev_payload_bytes e) \<le> cl_max_payload_len l \<and> ev_payload_type_id e \<noteq> Some 0
    \<and> (case ev_message e of Control c \<Rightarrow> decoded_fits l c \<and>
          (variable_len c \<le> cl_max_payload_len l \<longrightarrow> validate_outbound l e = Inr ())
        | _ \<Rightarrow> validate_outbound l e = Inr ())"
proof -
  note len = decode_frame [OF assms]
  obtain w where "decode_verified l w = Inr e"
    using assms by (auto simp: decode_def and_then_eq_Inr map_err_def split: if_splits sum.splits)
  then obtain kind delivery m where m: "decode_message l w kind = Inr m" "ev_message e = m"
    and d: "ev_delivery_class e = delivery" "delivery \<noteq> PD_Unknown"
    and v: "ev_protocol_version e = PROTOCOL_VERSION" "validate_envelope e = Inr ()"
    by (auto simp: decode_verified_def and_then_eq_Inr known_def Let_def split: if_splits option.splits)
  show ?thesis
    using decode_message_ok [OF m(1)] m(2) d v len expected_frame_len_Some(2) [OF len]
    by (auto simp: validate_outbound_ok ev_payload_bytes_def ev_payload_type_id_def split: message_payload.splits)
qed

lemma demo_decoded:
  "decode (\<lambda>_. True) (\<lambda>_. Inr (encode_wire demo_envelope)) codec_limits_default demo_frame = Inr demo_envelope"
proof -
  have "validate_outbound codec_limits_default demo_envelope = Inr ()"
    using demo_encoded by (simp add: encode_def and_then_eq_Inr)
  then have "decode_verified codec_limits_default (encode_wire demo_envelope) = Inr demo_envelope"
    by (rule decode_encode_wire [OF limits_default_valid])
  moreover have "expected_frame_len codec_limits_default demo_frame = Inr (Some (length demo_frame))"
    by (rule expected_len_of_frame)
      (simp_all add: demo_frame_def SIZE_PREFIX_LEN_def MIN_FRAME_LEN_def codec_limits_default_def)
  ultimately show ?thesis by (simp add: decode_def ok_or_def map_err_def)
qed

lemma decoded_envelopes_are_checked_witness:
  "validate_envelope demo_envelope = Inr () \<and> length demo_frame \<le> 1024 * 1024"
  using decoded_envelopes_are_checked [OF demo_decoded] by (simp add: codec_limits_default_def)

text \<open>
  C28. Frames delimit themselves. Of an accepted frame the first four bytes announce its length, to
  a reader that has them and whatever follows; with fewer bytes the reader is told to wait. No
  proper beginning of the frame and no extension of it is accepted.
\<close>

theorem frames_delimit_themselves:
  assumes "decode has_identifier root l frame = Inr e"
  shows "(\<forall>k<SIZE_PREFIX_LEN. expected_frame_len l (take k frame) = Inr None)
    \<and> (\<forall>rest. expected_frame_len l (take SIZE_PREFIX_LEN frame @ rest) = Inr (Some (length frame)))
    \<and> (\<forall>k<length frame. \<exists>n. decode has_identifier root l (take k frame) = Inl (TruncatedFrame n k))
    \<and> (\<forall>rest. rest \<noteq> [] \<longrightarrow> decode has_identifier root l (frame @ rest)
          = Inl (TrailingBytes (length frame) (length frame + length rest)))"
proof -
  note len = decode_frame [OF assms] and s = expected_frame_len_Some [OF decode_frame [OF assms]]
  have short: "expected_frame_len l (take k frame) = Inr None" if "k < SIZE_PREFIX_LEN" for k
    using that by (simp add: expected_frame_len_def min.strict_coboundedI2)
  have rest: "expected_frame_len l (take SIZE_PREFIX_LEN frame @ xs) = Inr (Some (length frame))" for xs
    using s(1) len by (subst expected_frame_len_prefix [where ys = frame]) simp_all
  have whole: "expected_frame_len l (frame @ xs) = Inr (Some (length frame))" for xs
    using s(1) len by (subst expected_frame_len_prefix [where ys = frame]) simp_all
  have part: "expected_frame_len l (take k frame) = Inr (Some (length frame))" if "SIZE_PREFIX_LEN \<le> k" for k
    using that s(1) len by (subst expected_frame_len_prefix [where ys = frame]) (simp_all add: min_def)
  have "\<exists>n. decode has_identifier root l (take k frame) = Inl (TruncatedFrame n k)" if "k < length frame" for k
    using that short [of k] part [of k] by (cases "k < SIZE_PREFIX_LEN") (auto simp: decode_def ok_or_def)
  then show ?thesis using short rest whole by (auto simp: decode_def ok_or_def)
qed

lemma frames_delimit_themselves_witness:
  "expected_frame_len codec_limits_default [8, 0, 0, 0] = Inr (Some 12)
   \<and> decode (\<lambda>_. True) (\<lambda>_. Inr (encode_wire demo_envelope)) codec_limits_default (demo_frame @ [0])
       = Inl (TrailingBytes 12 13)"
proof -
  have "take SIZE_PREFIX_LEN demo_frame = [8, 0, 0, 0]" "length demo_frame = 12"
    by (simp_all add: SIZE_PREFIX_LEN_def demo_frame_def)
  moreover have "take SIZE_PREFIX_LEN demo_frame @ [] = [8, 0, 0, 0]" using calculation(1) by simp
  ultimately show ?thesis using frames_delimit_themselves [OF demo_decoded] by (metis One_nat_def add.commute
      length_Cons list.distinct(1) list.size(3) numeral_plus_one plus_1_eq_Suc semiring_norm(5))
qed

end
