(* ===== verification/Btree.thy ===== *)
theory Btree
  imports Prelude
begin

text \<open>
  The ordered containers of the Rust standard library: \<^verbatim>\<open>BTreeMap\<close> and
  \<^verbatim>\<open>BTreeSet\<close>. A map is the list of its entries in strictly increasing key order,
  which is what iteration yields; the type makes the order an invariant, so two maps with the
  same lookups are equal. A set is a map to \<open>unit\<close>, as in the standard library.
\<close>

section \<open>Association lists in key order\<close>

fun al_insert :: "'k::linorder \<Rightarrow> 'v \<Rightarrow> ('k \<times> 'v) list \<Rightarrow> ('k \<times> 'v) list" where
  "al_insert k v [] = [(k, v)]"
| "al_insert k v ((k', v') # xs) =
     (if k < k' then (k, v) # (k', v') # xs
      else if k = k' then (k, v) # xs
      else (k', v') # al_insert k v xs)"

lemma set_al_insert_keys: "fst ` set (al_insert k v xs) = insert k (fst ` set xs)"
  by (induction k v xs rule: al_insert.induct) auto

lemma sorted_al_insert:
  "sorted_wrt (<) (map fst xs) \<Longrightarrow> sorted_wrt (<) (map fst (al_insert k v xs))"
proof (induction k v xs rule: al_insert.induct)
  case (2 k v k' v' xs)
  have "k' < x" if "k' < k" "x \<in> fst ` set (al_insert k v xs)" for x
    using that 2 by (auto simp: set_al_insert_keys)
  with 2 show ?case by (auto simp: not_less le_less)
qed simp

lemma map_of_al_insert: "map_of (al_insert k v xs) = (map_of xs)(k \<mapsto> v)"
  by (induction k v xs rule: al_insert.induct) auto

lemma sorted_map_filter:
  "sorted_wrt (<) (map fst xs) \<Longrightarrow> sorted_wrt (<) (map fst (filter P xs))"
  by (induction xs) auto

lemma strict_sorted_distinct: "sorted_wrt (<) (xs :: 'a::linorder list) \<Longrightarrow> distinct xs"
  by (induction xs) auto

lemma lookup_retained:
  assumes "distinct (map fst entries)"
  shows "map_of (filter keep entries) key
    = Option.bind (map_of entries key) (\<lambda>v. if keep (key, v) then Some v else None)"
  using assms
proof (induction entries)
  case (Cons a entries)
  then have "map_of entries (fst a) = None" by (simp add: map_of_eq_None_iff)
  with Cons show ?case by (cases a) (auto split: bind_split)
qed simp

lemma map_of_map_vals:
  "map_of (map (\<lambda>(k, v). (k, f k v)) xs) k = map_option (f k) (map_of xs k)"
  by (induction xs) auto

lemma sorted_map_of_unique:
  assumes "sorted_wrt (<) (map fst xs)" "sorted_wrt (<) (map fst ys)" "map_of xs = map_of ys"
  shows "xs = (ys :: ('k::linorder \<times> 'v) list)"
proof -
  have d: "distinct (map fst xs)" "distinct (map fst ys)"
    using assms(1,2) by (auto dest: strict_sorted_distinct)
  have "set xs = set ys"
    using d assms(3) by (auto simp: set_eq_iff) (metis map_of_eq_Some_iff)+
  moreover have "inj_on fst (set xs \<union> set ys)"
    using d \<open>set xs = set ys\<close> by (simp add: distinct_map)
  moreover have "sorted (map fst xs)" "sorted (map fst ys)"
    using assms(1,2) by (simp_all add: strict_sorted_iff)
  ultimately show ?thesis
    using d by (intro map_sorted_distinct_set_unique) auto
qed

section \<open>BTreeMap\<close>

typedef (overloaded) ('k::linorder, 'v) btmap =
  "{xs :: ('k \<times> 'v) list. sorted_wrt (<) (map fst xs)}"
  morphisms bt_iter Btmap
  by (rule exI [of _ "[]"]) simp

setup_lifting type_definition_btmap

lift_definition bt_new :: "('k::linorder, 'v) btmap" is "[]"
  by simp

lift_definition bt_insert :: "'k::linorder \<Rightarrow> 'v \<Rightarrow> ('k, 'v) btmap \<Rightarrow> ('k, 'v) btmap"
  is al_insert by (rule sorted_al_insert)

lift_definition bt_remove :: "'k::linorder \<Rightarrow> ('k, 'v) btmap \<Rightarrow> ('k, 'v) btmap"
  is "\<lambda>k. filter (\<lambda>e. fst e \<noteq> k)" by (rule sorted_map_filter)

lift_definition bt_retain ::
  "('k::linorder \<Rightarrow> 'v \<Rightarrow> bool) \<Rightarrow> ('k, 'v) btmap \<Rightarrow> ('k, 'v) btmap"
  is "\<lambda>P. filter (\<lambda>(k, v). P k v)" by (rule sorted_map_filter)

lift_definition bt_map ::
  "('k::linorder \<Rightarrow> 'v \<Rightarrow> 'w) \<Rightarrow> ('k, 'v) btmap \<Rightarrow> ('k, 'w) btmap"
  is "\<lambda>f. map (\<lambda>(k, v). (k, f k v))" by (simp add: comp_def case_prod_unfold)

definition bt_get :: "('k::linorder, 'v) btmap \<Rightarrow> 'k \<Rightarrow> 'v option" where
  "bt_get m k = map_of (bt_iter m) k"

definition bt_contains_key :: "('k::linorder, 'v) btmap \<Rightarrow> 'k \<Rightarrow> bool" where
  "bt_contains_key m k = (bt_get m k \<noteq> None)"

definition bt_len :: "('k::linorder, 'v) btmap \<Rightarrow> nat" where
  "bt_len m = length (bt_iter m)"

definition bt_keys :: "('k::linorder, 'v) btmap \<Rightarrow> 'k list" where
  "bt_keys m = map fst (bt_iter m)"

definition bt_values :: "('k::linorder, 'v) btmap \<Rightarrow> 'v list" where
  "bt_values m = map snd (bt_iter m)"

text \<open>\<^verbatim>\<open>get_mut\<close> followed by a write through the reference.\<close>

definition bt_modify :: "'k::linorder \<Rightarrow> ('v \<Rightarrow> 'v) \<Rightarrow> ('k, 'v) btmap \<Rightarrow> ('k, 'v) btmap" where
  "bt_modify k f m = (case bt_get m k of None \<Rightarrow> m | Some v \<Rightarrow> bt_insert k (f v) m)"

definition bt_of_list :: "('k::linorder \<times> 'v) list \<Rightarrow> ('k, 'v) btmap" where
  "bt_of_list xs = fold (\<lambda>(k, v). bt_insert k v) xs bt_new"

instantiation btmap :: (linorder, type) size
begin

definition size_btmap :: "('a, 'b) btmap \<Rightarrow> nat" where
  "size_btmap m = bt_len m"

instance ..

end

subsection \<open>Iteration\<close>

lemma bt_iter_sorted: "sorted_wrt (<) (map fst (bt_iter m))"
  using bt_iter [of m] by simp

lemma bt_iter_distinct [simp]: "distinct (map fst (bt_iter m))"
  using bt_iter_sorted by (rule strict_sorted_distinct)

lemma bt_iter_new [simp, eval]: "bt_iter bt_new = []"
  by transfer simp

lemma bt_iter_insert [eval]: "bt_iter (bt_insert k v m) = al_insert k v (bt_iter m)"
  by transfer simp

lemma bt_iter_remove [eval]: "bt_iter (bt_remove k m) = filter (\<lambda>e. fst e \<noteq> k) (bt_iter m)"
  by transfer simp

lemma bt_iter_retain [eval]: "bt_iter (bt_retain P m) = filter (\<lambda>(k, v). P k v) (bt_iter m)"
  by transfer simp

lemma bt_iter_map [eval]: "bt_iter (bt_map f m) = map (\<lambda>(k, v). (k, f k v)) (bt_iter m)"
  by transfer simp

lemmas [eval] = bt_len_def bt_keys_def bt_values_def bt_of_list_def bt_contains_key_def bt_modify_def

lemma in_bt_iter: "(k, v) \<in> set (bt_iter m) \<longleftrightarrow> bt_get m k = Some v"
  by (simp add: bt_get_def)

lemma in_bt_values: "v \<in> set (bt_values m) \<longleftrightarrow> (\<exists>k. bt_get m k = Some v)"
  by (force simp: bt_values_def in_bt_iter [symmetric])

lemma in_bt_keys: "k \<in> set (bt_keys m) \<longleftrightarrow> bt_get m k \<noteq> None"
  by (auto simp: bt_keys_def bt_get_def map_of_eq_None_iff)

lemma bt_keys_sorted: "sorted_wrt (<) (bt_keys m)"
  by (simp add: bt_keys_def bt_iter_sorted)

lemma bt_keys_distinct [simp]: "distinct (bt_keys m)"
  by (simp add: bt_keys_def)

subsection \<open>Lookup\<close>

lemma bt_get_new [simp, eval]: "bt_get bt_new k = None"
  by (simp add: bt_get_def)

lemma bt_get_insert [eval]: "bt_get (bt_insert k v m) k' = (if k' = k then Some v else bt_get m k')"
  by (simp add: bt_get_def bt_iter_insert map_of_al_insert)

lemma bt_get_insert_same [simp]: "bt_get (bt_insert k v m) k = Some v"
  and bt_get_insert_other [simp]: "k' \<noteq> k \<Longrightarrow> bt_get (bt_insert k v m) k' = bt_get m k'"
  by (simp_all add: bt_get_insert)

lemma bt_get_retain [simp, eval]:
  "bt_get (bt_retain P m) k = (case bt_get m k of None \<Rightarrow> None
     | Some v \<Rightarrow> if P k v then Some v else None)"
  by (simp add: bt_get_def bt_iter_retain lookup_retained split: option.splits)

lemma bt_get_remove [simp, eval]: "bt_get (bt_remove k m) k' = (if k' = k then None else bt_get m k')"
  by (simp add: bt_get_def bt_iter_remove lookup_retained split: option.splits)

lemma bt_get_map [simp, eval]: "bt_get (bt_map f m) k = map_option (f k) (bt_get m k)"
  by (simp add: bt_get_def bt_iter_map map_of_map_vals)

lemma bt_get_modify:
  "bt_get (bt_modify k f m) k' = (if k' = k then map_option f (bt_get m k) else bt_get m k')"
  by (simp add: bt_modify_def bt_get_insert split: option.splits)

lemma bt_get_modify_same [simp]: "bt_get (bt_modify k f m) k = map_option f (bt_get m k)"
  and bt_get_modify_other [simp]: "k' \<noteq> k \<Longrightarrow> bt_get (bt_modify k f m) k' = bt_get m k'"
  by (simp_all add: bt_get_modify)

lemma bt_eqI: "(\<And>k. bt_get m k = bt_get n k) \<Longrightarrow> m = n"
  by (metis bt_get_def bt_iter_inject bt_iter_sorted ext sorted_map_of_unique)

lemma bt_eq_iff: "m = n \<longleftrightarrow> (\<forall>k. bt_get m k = bt_get n k)"
  by (auto intro: bt_eqI)

lemma bt_contains_key_simps [simp]:
  "\<not> bt_contains_key bt_new k"
  "bt_contains_key (bt_insert k v m) k' \<longleftrightarrow> k' = k \<or> bt_contains_key m k'"
  "bt_contains_key (bt_remove k m) k' \<longleftrightarrow> k' \<noteq> k \<and> bt_contains_key m k'"
  "bt_contains_key (bt_map f m) k \<longleftrightarrow> bt_contains_key m k"
  "bt_contains_key (bt_modify k g m) k' \<longleftrightarrow> bt_contains_key m k'"
  by (auto simp: bt_contains_key_def bt_get_insert bt_get_modify)

lemma bt_insert_same: "bt_get m k = Some v \<Longrightarrow> bt_insert k v m = m"
  by (rule bt_eqI) (simp add: bt_get_insert)

lemma bt_remove_absent: "bt_get m k = None \<Longrightarrow> bt_remove k m = m"
  by (rule bt_eqI) simp

subsection \<open>Size\<close>

lemma finite_dom_bt_get [simp]: "finite (dom (bt_get m))"
  by (simp add: bt_get_def [abs_def] finite_dom_map_of)

lemma dom_bt_get: "dom (bt_get m) = set (bt_keys m)"
  by (auto simp: in_bt_keys)

lemma bt_len_card: "bt_len m = card (dom (bt_get m))"
  by (simp add: dom_bt_get distinct_card) (simp add: bt_len_def bt_keys_def)

lemma bt_len_new [simp]: "bt_len bt_new = 0"
  by (simp add: bt_len_def)

lemma bt_len_insert:
  "bt_len (bt_insert k v m) = (if bt_get m k = None then Suc (bt_len m) else bt_len m)"
proof -
  have "dom (bt_get (bt_insert k v m)) = insert k (dom (bt_get m))"
    by (auto simp: bt_get_insert split: if_splits)
  then show ?thesis
    by (auto simp: bt_len_card card_insert_if)
qed

lemma bt_len_insert_le: "bt_len (bt_insert k v m) \<le> Suc (bt_len m)"
  by (simp add: bt_len_insert)

lemma bt_len_remove:
  "bt_len (bt_remove k m) = (if bt_get m k = None then bt_len m else bt_len m - 1)"
proof -
  have "dom (bt_get (bt_remove k m)) = dom (bt_get m) - {k}"
    by (auto split: if_splits)
  then show ?thesis
    by (auto simp: bt_len_card card_Diff_singleton_if)
qed

lemma bt_len_retain_le: "bt_len (bt_retain P m) \<le> bt_len m"
  by (simp add: bt_len_def bt_iter_retain)

lemma bt_len_remove_le: "bt_len (bt_remove k m) \<le> bt_len m"
  by (simp add: bt_len_remove)

lemma bt_len_map [simp]: "bt_len (bt_map f m) = bt_len m"
  by (simp add: bt_len_def bt_iter_map)

lemma bt_len_modify [simp]: "bt_len (bt_modify k f m) = bt_len m"
  by (simp add: bt_modify_def bt_len_insert split: option.splits)

lemma bt_len_pos: "bt_get m k = Some v \<Longrightarrow> 0 < bt_len m"
  by (auto simp: bt_len_card card_gt_0_iff)

lemma bt_len_values [simp]: "length (bt_values m) = bt_len m"
  by (simp add: bt_values_def bt_len_def)

subsection \<open>Sums over the values\<close>

definition bt_sum :: "('k \<Rightarrow> 'v \<Rightarrow> nat) \<Rightarrow> ('k::linorder, 'v) btmap \<Rightarrow> nat" where
  "bt_sum f m = (\<Sum>(k, v)\<leftarrow>bt_iter m. f k v)"

lemma bt_sum_dom: "bt_sum f m = (\<Sum>k\<in>dom (bt_get m). f k (the (bt_get m k)))"
proof -
  have "bt_sum f m = (\<Sum>(k, v)\<leftarrow>bt_iter m. f k (the (bt_get m k)))"
    unfolding bt_sum_def by (rule arg_cong [where f = sum_list], rule map_cong [OF refl])
      (auto simp: in_bt_iter)
  also have "\<dots> = (\<Sum>k\<leftarrow>bt_keys m. f k (the (bt_get m k)))"
    by (simp add: bt_keys_def comp_def case_prod_unfold)
  also have "\<dots> = (\<Sum>k\<in>dom (bt_get m). f k (the (bt_get m k)))"
    by (simp add: dom_bt_get sum_list_distinct_conv_sum_set)
  finally show ?thesis .
qed

lemma bt_sum_new [simp]: "bt_sum f bt_new = 0"
  by (simp add: bt_sum_def)

lemma bt_sum_remove:
  "bt_sum f m = bt_sum f (bt_remove k m) + (case bt_get m k of None \<Rightarrow> 0 | Some v \<Rightarrow> f k v)"
proof (cases "bt_get m k")
  case None
  then show ?thesis by (simp add: bt_remove_absent)
next
  case (Some v)
  have d: "dom (bt_get (bt_remove k m)) = dom (bt_get m) - {k}"
    by (auto split: if_splits)
  have "bt_sum f (bt_remove k m) = (\<Sum>j\<in>dom (bt_get m) - {k}. f j (the (bt_get m j)))"
    unfolding bt_sum_dom d by (rule sum.cong) auto
  with Some show ?thesis
    by (simp add: bt_sum_dom sum.remove [of "dom (bt_get m)" k] domI add.commute)
qed

lemma bt_remove_insert [simp]: "bt_remove k (bt_insert k v m) = bt_remove k m"
  by (rule bt_eqI) (simp add: bt_get_insert)

lemma bt_sum_insert:
  "bt_sum f (bt_insert k v m) + (case bt_get m k of None \<Rightarrow> 0 | Some w \<Rightarrow> f k w)
     = bt_sum f m + f k v"
  using bt_sum_remove [of f "bt_insert k v m" k] bt_sum_remove [of f m k] by simp

lemma bt_sum_retain_le: "bt_sum f (bt_retain P m) \<le> bt_sum f m"
proof -
  have "(\<Sum>(k, v)\<leftarrow>filter Q xs. f k v) \<le> (\<Sum>(k, v)\<leftarrow>xs. f k v)" for Q and xs :: "('a \<times> 'b) list"
    by (induction xs) auto
  then show ?thesis by (simp add: bt_sum_def bt_iter_retain)
qed

lemma bt_sum_le_get: "bt_get m k = Some v \<Longrightarrow> f k v \<le> bt_sum f m"
  using bt_sum_remove [of f m k] by simp

lemma bt_sum_cong:
  "(\<And>k v. bt_get m k = Some v \<Longrightarrow> f k v = g k v) \<Longrightarrow> bt_sum f m = bt_sum g m"
  unfolding bt_sum_def
  by (rule arg_cong [where f = sum_list], rule map_cong [OF refl]) (auto simp: in_bt_iter)

text \<open>The number of entries that satisfy a predicate, as a sum.\<close>

definition bt_count :: "('k \<Rightarrow> 'v \<Rightarrow> bool) \<Rightarrow> ('k::linorder, 'v) btmap \<Rightarrow> nat" where
  "bt_count P m = bt_len (bt_retain P m)"

lemma bt_count_sum: "bt_count P m = bt_sum (\<lambda>k v. if P k v then 1 else 0) m"
proof -
  have "length (filter (\<lambda>(k, v). P k v) xs) = (\<Sum>(k, v)\<leftarrow>xs. if P k v then 1 else 0)" for xs
    by (induction xs) auto
  then show ?thesis
    by (simp add: bt_count_def bt_len_def bt_sum_def bt_iter_retain)
qed

lemma bt_count_filter_values:
  "bt_count (\<lambda>_ v. P v) m = length (filter P (bt_values m))"
proof -
  have "length (filter (\<lambda>(k, v). P v) xs) = length (filter P (map snd xs))" for xs :: "('a \<times> 'b) list"
    by (induction xs) auto
  then show ?thesis
    by (simp add: bt_count_def bt_len_def bt_iter_retain bt_values_def)
qed

lemma bt_count_insert:
  "bt_count P (bt_insert k v m) + (case bt_get m k of None \<Rightarrow> 0 | Some w \<Rightarrow> if P k w then 1 else 0)
     = bt_count P m + (if P k v then 1 else 0)"
  unfolding bt_count_sum by (rule bt_sum_insert)

lemma bt_count_le_len: "bt_count P m \<le> bt_len m"
  by (simp add: bt_count_def bt_len_retain_le)

section \<open>BTreeSet\<close>

type_synonym 'a btset = "('a, unit) btmap"

definition bs_contains :: "'a::linorder btset \<Rightarrow> 'a \<Rightarrow> bool" where
  "bs_contains s x = bt_contains_key s x"

definition bs_insert :: "'a::linorder \<Rightarrow> 'a btset \<Rightarrow> 'a btset" where
  "bs_insert x s = bt_insert x () s"

definition bs_remove :: "'a::linorder \<Rightarrow> 'a btset \<Rightarrow> 'a btset" where
  "bs_remove x s = bt_remove x s"

definition bs_retain :: "('a::linorder \<Rightarrow> bool) \<Rightarrow> 'a btset \<Rightarrow> 'a btset" where
  "bs_retain P s = bt_retain (\<lambda>x _. P x) s"

definition bs_of_list :: "'a::linorder list \<Rightarrow> 'a btset" where
  "bs_of_list xs = fold bs_insert xs bt_new"

lemmas [eval] = bs_contains_def bs_insert_def bs_remove_def bs_retain_def bs_of_list_def

lemma bs_contains_new [simp]: "\<not> bs_contains bt_new x"
  by (simp add: bs_contains_def)

lemma bs_contains_insert [simp]: "bs_contains (bs_insert y s) x \<longleftrightarrow> x = y \<or> bs_contains s x"
  by (simp add: bs_contains_def bs_insert_def)

lemma bs_contains_remove [simp]: "bs_contains (bs_remove y s) x \<longleftrightarrow> x \<noteq> y \<and> bs_contains s x"
  by (simp add: bs_contains_def bs_remove_def)

lemma bs_contains_retain [simp]: "bs_contains (bs_retain P s) x \<longleftrightarrow> bs_contains s x \<and> P x"
  by (auto simp: bs_contains_def bs_retain_def bt_contains_key_def split: option.splits)

lemma bs_contains_keys: "bs_contains s x \<longleftrightarrow> x \<in> set (bt_keys s)"
  by (simp add: bs_contains_def bt_contains_key_def in_bt_keys)

lemma bs_contains_fold:
  "bs_contains (fold bs_insert xs s) x \<longleftrightarrow> x \<in> set xs \<or> bs_contains s x"
  by (induction xs arbitrary: s) auto

lemma bs_contains_of_list [simp]: "bs_contains (bs_of_list xs) x \<longleftrightarrow> x \<in> set xs"
  by (simp add: bs_of_list_def bs_contains_fold)

lemma bs_eqI: "(\<And>x. bs_contains s x = bs_contains t x) \<Longrightarrow> s = t"
  by (rule bt_eqI) (metis (full_types) bs_contains_def bt_contains_key_def not_Some_eq old.unit.exhaust)

lemma bs_len_insert:
  "bt_len (bs_insert x s) = (if bs_contains s x then bt_len s else Suc (bt_len s))"
  by (simp add: bs_insert_def bt_len_insert bs_contains_def bt_contains_key_def)

lemma bs_len_remove:
  "bt_len (bs_remove x s) = (if bs_contains s x then bt_len s - 1 else bt_len s)"
  by (simp add: bs_remove_def bt_len_remove bs_contains_def bt_contains_key_def)

lemma bs_len_retain_le: "bt_len (bs_retain P s) \<le> bt_len s"
  by (simp add: bs_retain_def bt_len_retain_le)

lemma bs_len_card: "bt_len s = card {x. bs_contains s x}"
proof -
  have "{x. bs_contains s x} = dom (bt_get s)"
    by (auto simp: bs_contains_def bt_contains_key_def)
  then show ?thesis by (simp add: bt_len_card)
qed

lemma bs_len_0: "bt_len s = 0 \<longleftrightarrow> (\<forall>x. \<not> bs_contains s x)"
proof -
  have "bt_len s = 0 \<longleftrightarrow> set (bt_keys s) = {}"
    by (simp add: bt_len_def bt_keys_def)
  then show ?thesis by (auto simp: bs_contains_keys)
qed

end
