(* ===== verification/Ids.thy ===== *)
theory Ids
  imports Btree
begin

text \<open>
  The identifiers of \<^verbatim>\<open>woven-core/src/ids.rs\<close>. The nine \<^verbatim>\<open>define_id!\<close> newtypes are
  transparent wrappers of \<^verbatim>\<open>u64\<close> with the derived order, so they are words here; the
  composite keys are datatypes with the derived lexicographic order, given by the tuple of
  their fields in declaration order.
\<close>

section \<open>Newtypes over u64\<close>

type_synonym namespace_id = u64
type_synonym session_id = u64
type_synonym space_id = u64
type_synonym entity_id = u64
type_synonym connection_id = u64
type_synonym principal_id = u64
type_synonym channel_id = u64
type_synonym space_epoch = u64
type_synonym node_id = u64

section \<open>SessionKey\<close>

datatype session_key = SessionKey (sk_namespace: namespace_id) (sk_session: session_id)

definition session_key_tuple :: "session_key \<Rightarrow> u64 \<times> u64" where
  "session_key_tuple k = (sk_namespace k, sk_session k)"

lemma session_key_tuple_inj: "session_key_tuple a = session_key_tuple b \<longleftrightarrow> a = b"
  by (cases a; cases b) (simp add: session_key_tuple_def)

instantiation session_key :: linorder
begin

definition less_eq_session_key :: "session_key \<Rightarrow> session_key \<Rightarrow> bool" where
  "less_eq_session_key a b = (session_key_tuple a \<le> session_key_tuple b)"

definition less_session_key :: "session_key \<Rightarrow> session_key \<Rightarrow> bool" where
  "less_session_key a b = (session_key_tuple a < session_key_tuple b)"

instance
  by intro_classes
    (auto simp only: less_eq_session_key_def less_session_key_def session_key_tuple_inj [symmetric])

end

section \<open>SpaceKey\<close>

datatype space_key = SpaceKey (spk_session: session_key) (spk_space: space_id)

definition space_key_tuple :: "space_key \<Rightarrow> session_key \<times> u64" where
  "space_key_tuple k = (spk_session k, spk_space k)"

lemma space_key_tuple_inj: "space_key_tuple a = space_key_tuple b \<longleftrightarrow> a = b"
  by (cases a; cases b) (simp add: space_key_tuple_def)

instantiation space_key :: linorder
begin

definition less_eq_space_key :: "space_key \<Rightarrow> space_key \<Rightarrow> bool" where
  "less_eq_space_key a b = (space_key_tuple a \<le> space_key_tuple b)"

definition less_space_key :: "space_key \<Rightarrow> space_key \<Rightarrow> bool" where
  "less_space_key a b = (space_key_tuple a < space_key_tuple b)"

instance
  by intro_classes
    (auto simp only: less_eq_space_key_def less_space_key_def space_key_tuple_inj [symmetric])

end

lemmas [eval] = less_eq_session_key_def less_session_key_def session_key_tuple_def
  less_eq_space_key_def less_space_key_def space_key_tuple_def

end
