(* ===== verification/F64.thy ===== *)
theory F64
  imports Prelude
begin

unbundle bit_operations_syntax

text \<open>
  The binary64 arithmetic of the Rust primitive \<^verbatim>\<open>f64\<close>, as far as the spatial routing of
  \<^verbatim>\<open>woven-core\<close> uses it. A value is its 64 bits. Every finite value is an integer multiple
  of \<open>2 ^ -1074\<close>; \<open>f64_fix\<close> is that multiple (and an over-large stand-in for the
  infinities), so that comparison is comparison of integers and every operation is an exact
  ratio of integers rounded once, to nearest with ties to even.
\<close>

type_synonym f64 = "64 word"

section \<open>Classification\<close>

definition f64_neg :: "f64 \<Rightarrow> bool" where
  "f64_neg x = bit x 63"

definition f64_magnitude :: "f64 \<Rightarrow> nat" where
  "f64_magnitude x = unat x mod 2 ^ 63"

definition f64_exponent :: "f64 \<Rightarrow> nat" where
  "f64_exponent x = f64_magnitude x div 2 ^ 52"

definition f64_mantissa :: "f64 \<Rightarrow> nat" where
  "f64_mantissa x = f64_magnitude x mod 2 ^ 52"

definition f64_is_finite :: "f64 \<Rightarrow> bool" where
  "f64_is_finite x = (f64_exponent x \<noteq> 2047)"

definition f64_is_nan :: "f64 \<Rightarrow> bool" where
  "f64_is_nan x = (f64_exponent x = 2047 \<and> f64_mantissa x \<noteq> 0)"

definition f64_is_inf :: "f64 \<Rightarrow> bool" where
  "f64_is_inf x = (f64_exponent x = 2047 \<and> f64_mantissa x = 0)"

definition f64_fix_magnitude :: "f64 \<Rightarrow> nat" where
  "f64_fix_magnitude x =
     (if f64_exponent x = 0 then f64_mantissa x
      else (2 ^ 52 + f64_mantissa x) * 2 ^ (f64_exponent x - 1))"

definition f64_fix :: "f64 \<Rightarrow> int" where
  "f64_fix x = (if f64_neg x then - int (f64_fix_magnitude x) else int (f64_fix_magnitude x))"

definition f64_nan :: f64 where
  "f64_nan = 0x7FF8000000000000"

definition f64_signed :: "bool \<Rightarrow> nat \<Rightarrow> f64" where
  "f64_signed neg m = (if neg then 2 ^ 63 + of_nat m else of_nat m)"

definition f64_inf_magnitude :: nat where
  "f64_inf_magnitude = 2047 * 2 ^ 52"

section \<open>Comparison\<close>

definition f64_le :: "f64 \<Rightarrow> f64 \<Rightarrow> bool" where
  "f64_le x y = (\<not> f64_is_nan x \<and> \<not> f64_is_nan y \<and> f64_fix x \<le> f64_fix y)"

definition f64_lt :: "f64 \<Rightarrow> f64 \<Rightarrow> bool" where
  "f64_lt x y = (\<not> f64_is_nan x \<and> \<not> f64_is_nan y \<and> f64_fix x < f64_fix y)"

text \<open>\<^verbatim>\<open>f64::max\<close> ignores a NaN argument.\<close>

definition f64_max :: "f64 \<Rightarrow> f64 \<Rightarrow> f64" where
  "f64_max x y = (if f64_is_nan x then y else if f64_is_nan y then x
     else if f64_lt x y then y else x)"

definition f64_abs :: "f64 \<Rightarrow> f64" where
  "f64_abs x = f64_signed False (f64_magnitude x)"

section \<open>Rounding\<close>

fun bitlen :: "nat \<Rightarrow> nat" where
  "bitlen n = (if n = 0 then 0 else Suc (bitlen (n div 2)))"

declare bitlen.simps [simp del]

text \<open>
  The bits of the magnitude nearest to \<open>n / d\<close> units of \<open>2 ^ -1074\<close>. With \<open>s\<close>
  the excess over 53 significant bits, \<open>s * 2 ^ 52 + q\<close> carries out of the mantissa into the
  exponent by itself, for subnormal results and after rounding up alike.
\<close>

definition f64_round_magnitude :: "nat \<Rightarrow> nat \<Rightarrow> nat" where
  "f64_round_magnitude n d =
     (let s = bitlen (n div d) - 53;
          D = d * 2 ^ s;
          q = n div D;
          r = n mod D;
          q' = (if D < 2 * r \<or> (2 * r = D \<and> odd q) then q + 1 else q)
      in min (s * 2 ^ 52 + q') f64_inf_magnitude)"

definition f64_round :: "bool \<Rightarrow> nat \<Rightarrow> nat \<Rightarrow> f64" where
  "f64_round neg n d = f64_signed neg (f64_round_magnitude n d)"

definition f64_of_fix :: "bool \<Rightarrow> int \<Rightarrow> f64" where
  "f64_of_fix zero_neg k = f64_round (k < 0 \<or> (k = 0 \<and> zero_neg)) (nat \<bar>k\<bar>) 1"

definition f64_unit :: nat where
  "f64_unit = 2 ^ 1074"

section \<open>Arithmetic\<close>

definition f64_negate :: "f64 \<Rightarrow> f64" where
  "f64_negate x = f64_signed (\<not> f64_neg x) (f64_magnitude x)"

definition f64_add :: "f64 \<Rightarrow> f64 \<Rightarrow> f64" where
  "f64_add x y =
     (if f64_is_nan x \<or> f64_is_nan y then f64_nan
      else if f64_is_inf x then (if f64_is_inf y \<and> f64_neg x \<noteq> f64_neg y then f64_nan else x)
      else if f64_is_inf y then y
      else f64_of_fix (f64_neg x \<and> f64_neg y) (f64_fix x + f64_fix y))"

definition f64_sub :: "f64 \<Rightarrow> f64 \<Rightarrow> f64" where
  "f64_sub x y = (if f64_is_nan y then f64_nan else f64_add x (f64_negate y))"

definition f64_mul :: "f64 \<Rightarrow> f64 \<Rightarrow> f64" where
  "f64_mul x y =
     (let neg = (f64_neg x \<noteq> f64_neg y) in
      if f64_is_nan x \<or> f64_is_nan y then f64_nan
      else if f64_is_inf x \<or> f64_is_inf y then
        (if f64_fix x = 0 \<or> f64_fix y = 0 then f64_nan else f64_signed neg f64_inf_magnitude)
      else f64_round neg (f64_fix_magnitude x * f64_fix_magnitude y) f64_unit)"

definition f64_div :: "f64 \<Rightarrow> f64 \<Rightarrow> f64" where
  "f64_div x y =
     (let neg = (f64_neg x \<noteq> f64_neg y) in
      if f64_is_nan x \<or> f64_is_nan y then f64_nan
      else if f64_is_inf x then (if f64_is_inf y then f64_nan else f64_signed neg f64_inf_magnitude)
      else if f64_is_inf y then f64_signed neg 0
      else if f64_fix y = 0 then
        (if f64_fix x = 0 then f64_nan else f64_signed neg f64_inf_magnitude)
      else f64_round neg (f64_fix_magnitude x * f64_unit) (f64_fix_magnitude y))"

text \<open>\<^verbatim>\<open>floor\<close>: a finite value that is already integral (zeros included) is returned as it is.\<close>

definition f64_floor :: "f64 \<Rightarrow> f64" where
  "f64_floor x =
     (if \<not> f64_is_finite x \<or> f64_fix x mod int f64_unit = 0 then x
      else f64_of_fix False ((f64_fix x div int f64_unit) * int f64_unit))"

section \<open>Conversions\<close>

definition i64_min :: int where
  "i64_min = - (2 ^ 63)"

definition i64_max :: int where
  "i64_max = 2 ^ 63 - 1"

definition f64_of_int :: "int \<Rightarrow> f64" where
  "f64_of_int i = f64_of_fix False (i * int f64_unit)"

text \<open>\<^verbatim>\<open>as i64\<close>: truncation towards zero, saturating at the bounds, zero for NaN.\<close>

definition f64_to_i64 :: "f64 \<Rightarrow> int" where
  "f64_to_i64 x =
     (if f64_is_nan x then 0
      else let t = sgn (f64_fix x) * (\<bar>f64_fix x\<bar> div int f64_unit)
           in max i64_min (min i64_max t))"

section \<open>Facts\<close>

lemma f64_le_refl: "\<not> f64_is_nan x \<Longrightarrow> f64_le x x"
  by (simp add: f64_le_def)

lemma f64_le_trans: "f64_le x y \<Longrightarrow> f64_le y z \<Longrightarrow> f64_le x z"
  by (auto simp: f64_le_def)

lemma f64_finite_not_nan: "f64_is_finite x \<Longrightarrow> \<not> f64_is_nan x"
  by (simp add: f64_is_finite_def f64_is_nan_def)

lemma f64_to_i64_range: "i64_min \<le> f64_to_i64 x \<and> f64_to_i64 x \<le> i64_max"
  by (auto simp: f64_to_i64_def i64_min_def i64_max_def Let_def)

end
