(* ===== verification/Model.thy ===== *)
theory Model
  imports Ids F64
begin

text \<open>
  The data model of \<^verbatim>\<open>woven-core/src/model.rs\<close>: delivery and persistence classes,
  coordinate frames and positions, space descriptors with their validation, coalescing keys,
  outbound messages and the snapshot views. Constructors that the source distinguishes by their
  enum carry a prefix (\<open>CF_\<close> for \<^verbatim>\<open>CoordinateFrame\<close>, \<open>EP_\<close> for
  \<^verbatim>\<open>EntityPosition\<close>); record fields carry the initials of their struct.
\<close>

section \<open>Delivery and persistence\<close>

datatype delivery_class =
    ReliableOrdered | ReliableUnordered | LatestValue | UnreliableSequenced | BestEffortEvent

fun is_critical :: "delivery_class \<Rightarrow> bool" where
  "is_critical ReliableOrdered = True"
| "is_critical ReliableUnordered = True"
| "is_critical _ = False"

fun is_replaceable :: "delivery_class \<Rightarrow> bool" where
  "is_replaceable LatestValue = True"
| "is_replaceable UnreliableSequenced = True"
| "is_replaceable _ = False"

lemma critical_not_replaceable: "is_critical d \<Longrightarrow> \<not> is_replaceable d"
  by (cases d) auto

datatype persistence_class = Ephemeral | Stateful | Durable

section \<open>Frames and positions\<close>

datatype coordinate_frame = CF_Logical | CF_Cartesian2D f64 | CF_Cartesian3D f64

datatype entity_position = EP_Cartesian2D f64 f64 | EP_Cartesian3D f64 f64 f64

datatype position_validation_error = LogicalFrame | DimensionMismatch | NonFiniteCoordinate

fun ep_is_finite :: "entity_position \<Rightarrow> bool" where
  "ep_is_finite (EP_Cartesian2D x y) = (f64_is_finite x \<and> f64_is_finite y)"
| "ep_is_finite (EP_Cartesian3D x y z) = (f64_is_finite x \<and> f64_is_finite y \<and> f64_is_finite z)"

fun dimensions_match :: "entity_position \<Rightarrow> coordinate_frame \<Rightarrow> bool" where
  "dimensions_match (EP_Cartesian2D _ _) (CF_Cartesian2D _) = True"
| "dimensions_match (EP_Cartesian3D _ _ _) (CF_Cartesian3D _) = True"
| "dimensions_match _ _ = False"

definition validate_for_frame ::
  "entity_position \<Rightarrow> coordinate_frame \<Rightarrow> position_validation_error + unit" where
  "validate_for_frame p frame =
     (if frame = CF_Logical then Inl LogicalFrame
      else if \<not> dimensions_match p frame then Inl DimensionMismatch
      else if ep_is_finite p then Inr ()
      else Inl NonFiniteCoordinate)"

lemma validate_for_frame_ok:
  "validate_for_frame p frame = Inr u \<longleftrightarrow> dimensions_match p frame \<and> ep_is_finite p"
  by (cases p; cases frame) (auto simp: validate_for_frame_def)

section \<open>Space descriptors\<close>

record parent_anchor =
  pa_parent_space :: space_id
  pa_anchor_entity :: entity_id

datatype routing_policy =
    BroadcastAll
  | SpatialGrid2D f64 f64 bool \<comment> \<open>cell size, interest radius, exact distance\<close>
  | SpatialGrid3D f64 f64 bool
  | TopicOnly

record space_descriptor =
  sd_id :: space_id
  sd_local_frame :: coordinate_frame
  sd_parent :: "parent_anchor option"
  sd_epoch :: space_epoch
  sd_routing :: routing_policy

datatype space_validation_error =
    ZeroSpaceId | ZeroEpoch | ZeroParentSpaceId | ZeroAnchorEntityId | SelfParent
  | InvalidScale | RoutingDimensionMismatch

definition validate_positive_finite :: "f64 \<Rightarrow> space_validation_error + unit" where
  "validate_positive_finite value =
     (if f64_is_finite value \<and> f64_lt 0 value then Inr () else Inl InvalidScale)"

definition sd_validate_ids :: "space_descriptor \<Rightarrow> space_validation_error + unit" where
  "sd_validate_ids d =
     (if sd_id d = 0 then Inl ZeroSpaceId
      else if sd_epoch d = 0 then Inl ZeroEpoch
      else case sd_parent d of
        None \<Rightarrow> Inr ()
      | Some parent \<Rightarrow>
          if pa_parent_space parent = 0 then Inl ZeroParentSpaceId
          else if pa_anchor_entity parent = 0 then Inl ZeroAnchorEntityId
          else if pa_parent_space parent = sd_id d then Inl SelfParent
          else Inr ())"

fun validate_frame_scale :: "coordinate_frame \<Rightarrow> space_validation_error + unit" where
  "validate_frame_scale CF_Logical = Inr ()"
| "validate_frame_scale (CF_Cartesian2D meters_per_unit) = validate_positive_finite meters_per_unit"
| "validate_frame_scale (CF_Cartesian3D meters_per_unit) = validate_positive_finite meters_per_unit"

fun is_2d :: "coordinate_frame \<Rightarrow> bool" where
  "is_2d (CF_Cartesian2D _) = True"
| "is_2d _ = False"

fun is_3d :: "coordinate_frame \<Rightarrow> bool" where
  "is_3d (CF_Cartesian3D _) = True"
| "is_3d _ = False"

fun validate_routing :: "coordinate_frame \<Rightarrow> routing_policy \<Rightarrow> space_validation_error + unit" where
  "validate_routing frame BroadcastAll = Inr ()"
| "validate_routing frame TopicOnly = Inr ()"
| "validate_routing frame (SpatialGrid2D cell_size interest_radius _) =
     (if \<not> is_2d frame then Inl RoutingDimensionMismatch
      else and_then (validate_positive_finite cell_size)
        (\<lambda>_. validate_positive_finite interest_radius))"
| "validate_routing frame (SpatialGrid3D cell_size interest_radius _) =
     (if \<not> is_3d frame then Inl RoutingDimensionMismatch
      else and_then (validate_positive_finite cell_size)
        (\<lambda>_. validate_positive_finite interest_radius))"

definition sd_validate :: "space_descriptor \<Rightarrow> space_validation_error + unit" where
  "sd_validate d =
     and_then (sd_validate_ids d) (\<lambda>_.
     and_then (validate_frame_scale (sd_local_frame d)) (\<lambda>_.
     validate_routing (sd_local_frame d) (sd_routing d)))"

text \<open>What an accepted descriptor guarantees to routing.\<close>

definition routing_ok :: "space_descriptor \<Rightarrow> bool" where
  "routing_ok d = (case sd_routing d of
     SpatialGrid2D c r _ \<Rightarrow> is_2d (sd_local_frame d) \<and> f64_is_finite c \<and> f64_lt 0 c
       \<and> f64_is_finite r \<and> f64_lt 0 r
   | SpatialGrid3D c r _ \<Rightarrow> is_3d (sd_local_frame d) \<and> f64_is_finite c \<and> f64_lt 0 c
       \<and> f64_is_finite r \<and> f64_lt 0 r
   | _ \<Rightarrow> True)"

lemma validate_positive_finite_ok:
  "validate_positive_finite v = Inr u \<longleftrightarrow> f64_is_finite v \<and> f64_lt 0 v"
  by (simp add: validate_positive_finite_def)

lemma sd_validate_ok:
  assumes "sd_validate d = Inr u"
  shows "sd_id d \<noteq> 0" "sd_epoch d \<noteq> 0" "routing_ok d"
    "\<And>p. sd_parent d = Some p \<Longrightarrow> pa_parent_space p \<noteq> sd_id d"
  using assms
  by (auto simp: sd_validate_def sd_validate_ids_def routing_ok_def result_ok
      validate_positive_finite_ok split: if_splits option.splits routing_policy.splits)

section \<open>Coalescing keys\<close>

datatype coalesce_key =
  CoalesceKey (ck_channel: channel_id) (ck_entity: "entity_id option") (ck_component: u64)

definition coalesce_key_tuple :: "coalesce_key \<Rightarrow> u64 \<times> u64 option \<times> u64" where
  "coalesce_key_tuple k = (ck_channel k, ck_entity k, ck_component k)"

lemma coalesce_key_tuple_inj: "coalesce_key_tuple a = coalesce_key_tuple b \<longleftrightarrow> a = b"
  by (cases a; cases b) (simp add: coalesce_key_tuple_def)

instantiation coalesce_key :: linorder
begin

definition less_eq_coalesce_key :: "coalesce_key \<Rightarrow> coalesce_key \<Rightarrow> bool" where
  "less_eq_coalesce_key a b = (coalesce_key_tuple a \<le> coalesce_key_tuple b)"

definition less_coalesce_key :: "coalesce_key \<Rightarrow> coalesce_key \<Rightarrow> bool" where
  "less_coalesce_key a b = (coalesce_key_tuple a < coalesce_key_tuple b)"

instance
  by intro_classes
    (auto simp only: less_eq_coalesce_key_def less_coalesce_key_def coalesce_key_tuple_inj [symmetric])

end

datatype scoped_coalesce_key =
  ScopedCoalesceKey (sck_namespace: namespace_id) (sck_session: session_id)
    (sck_space: space_id) (sck_space_epoch: space_epoch) (sck_application: coalesce_key)

definition scoped_coalesce_key_tuple ::
  "scoped_coalesce_key \<Rightarrow> u64 \<times> u64 \<times> u64 \<times> u64 \<times> coalesce_key" where
  "scoped_coalesce_key_tuple k =
     (sck_namespace k, sck_session k, sck_space k, sck_space_epoch k, sck_application k)"

lemma scoped_coalesce_key_tuple_inj:
  "scoped_coalesce_key_tuple a = scoped_coalesce_key_tuple b \<longleftrightarrow> a = b"
  by (cases a; cases b) (simp add: scoped_coalesce_key_tuple_def)

instantiation scoped_coalesce_key :: linorder
begin

definition less_eq_scoped_coalesce_key :: "scoped_coalesce_key \<Rightarrow> scoped_coalesce_key \<Rightarrow> bool" where
  "less_eq_scoped_coalesce_key a b = (scoped_coalesce_key_tuple a \<le> scoped_coalesce_key_tuple b)"

definition less_scoped_coalesce_key :: "scoped_coalesce_key \<Rightarrow> scoped_coalesce_key \<Rightarrow> bool" where
  "less_scoped_coalesce_key a b = (scoped_coalesce_key_tuple a < scoped_coalesce_key_tuple b)"

instance
  by intro_classes
    (auto simp only: less_eq_scoped_coalesce_key_def less_scoped_coalesce_key_def
      scoped_coalesce_key_tuple_inj [symmetric])

end

lemmas [eval] = less_eq_coalesce_key_def less_coalesce_key_def coalesce_key_tuple_def
  less_eq_scoped_coalesce_key_def less_scoped_coalesce_key_def scoped_coalesce_key_tuple_def

section \<open>Outbound messages\<close>

type_synonym payload = "u8 list"

record outbound_message =
  om_namespace :: namespace_id
  om_session :: session_id
  om_space :: space_id
  om_space_epoch :: space_epoch
  om_entity :: "entity_id option"
  om_channel :: channel_id
  om_sequence :: u64
  om_delivery :: delivery_class
  om_persistence :: persistence_class
  om_coalesce_key :: "coalesce_key option"
  om_payload :: payload

definition om_scoped_coalesce_key :: "outbound_message \<Rightarrow> scoped_coalesce_key option" where
  "om_scoped_coalesce_key m = map_option
     (ScopedCoalesceKey (om_namespace m) (om_session m) (om_space m) (om_space_epoch m))
     (om_coalesce_key m)"

section \<open>Snapshots\<close>

record entity_snapshot =
  es_id :: entity_id
  es_owner_connection :: connection_id
  es_owner_principal :: principal_id
  es_space :: space_id
  es_space_epoch :: space_epoch

record state_snapshot =
  ss_space :: space_id
  ss_space_epoch :: space_epoch
  ss_entity :: "entity_id option"
  ss_channel :: channel_id
  ss_component :: u64
  ss_sequence :: u64
  ss_payload :: payload

text \<open>A \<^verbatim>\<open>SpaceSnapshot\<close> is its descriptor.\<close>

record session_snapshot =
  sn_key :: session_key
  sn_member_count :: usize
  sn_subscription_count :: usize
  sn_state_bytes :: usize
  sn_spaces :: "space_descriptor list"
  sn_entities :: "entity_snapshot list"
  sn_state :: "state_snapshot list"

end
