(* ===== verification/Auth.thy ===== *)
theory Auth
  imports Ids "HOL-Library.List_Lexorder" "HOL-Library.Char_ord"
begin

text \<open>
  Authentication and grants, \<^verbatim>\<open>woven-core/src/auth.rs\<close>: access grants, the per-principal
  grant tables, and the development authenticator. The \<^verbatim>\<open>Authenticator\<close> trait is a function
  from credentials to a result, which the core takes as an argument; its contract is the locale
  \<open>authenticator\<close>, interpreted here on the development authenticator.
\<close>

section \<open>Credentials and grants\<close>

record credentials =
  cr_token :: string

datatype access_grant = Grant_Read | Grant_Write | Grant_ReadWrite

fun permits_read :: "access_grant \<Rightarrow> bool" where
  "permits_read Grant_Read = True"
| "permits_read Grant_ReadWrite = True"
| "permits_read Grant_Write = False"

fun permits_write :: "access_grant \<Rightarrow> bool" where
  "permits_write Grant_Write = True"
| "permits_write Grant_ReadWrite = True"
| "permits_write Grant_Read = False"

datatype channel_scope = ChannelScope (cs_session: session_key) (cs_channel: channel_id)

definition channel_scope_tuple :: "channel_scope \<Rightarrow> session_key \<times> u64" where
  "channel_scope_tuple k = (cs_session k, cs_channel k)"

lemma channel_scope_tuple_inj: "channel_scope_tuple a = channel_scope_tuple b \<longleftrightarrow> a = b"
  by (cases a; cases b) (simp add: channel_scope_tuple_def)

instantiation channel_scope :: linorder
begin

definition less_eq_channel_scope :: "channel_scope \<Rightarrow> channel_scope \<Rightarrow> bool" where
  "less_eq_channel_scope a b = (channel_scope_tuple a \<le> channel_scope_tuple b)"

definition less_channel_scope :: "channel_scope \<Rightarrow> channel_scope \<Rightarrow> bool" where
  "less_channel_scope a b = (channel_scope_tuple a < channel_scope_tuple b)"

instance
  by intro_classes
    (auto simp only: less_eq_channel_scope_def less_channel_scope_def channel_scope_tuple_inj [symmetric])

end

lemmas [eval] = less_eq_channel_scope_def less_channel_scope_def channel_scope_tuple_def

record authorization_grants =
  ag_namespaces :: "(namespace_id, access_grant) btmap"
  ag_sessions :: "(session_key, access_grant) btmap"
  ag_spaces :: "(space_key, access_grant) btmap"
  ag_channels :: "(channel_scope, access_grant) btmap"

definition grants_new :: authorization_grants where
  "grants_new = \<lparr>ag_namespaces = bt_new, ag_sessions = bt_new, ag_spaces = bt_new,
     ag_channels = bt_new\<rparr>"

definition grant_namespace ::
  "namespace_id \<Rightarrow> access_grant \<Rightarrow> authorization_grants \<Rightarrow> authorization_grants" where
  "grant_namespace n a g = g\<lparr>ag_namespaces := bt_insert n a (ag_namespaces g)\<rparr>"

definition grant_session ::
  "session_key \<Rightarrow> access_grant \<Rightarrow> authorization_grants \<Rightarrow> authorization_grants" where
  "grant_session s a g = g\<lparr>ag_sessions := bt_insert s a (ag_sessions g)\<rparr>"

definition grant_space ::
  "space_key \<Rightarrow> access_grant \<Rightarrow> authorization_grants \<Rightarrow> authorization_grants" where
  "grant_space s a g = g\<lparr>ag_spaces := bt_insert s a (ag_spaces g)\<rparr>"

definition grant_channel ::
  "channel_scope \<Rightarrow> access_grant \<Rightarrow> authorization_grants \<Rightarrow> authorization_grants" where
  "grant_channel c a g = g\<lparr>ag_channels := bt_insert c a (ag_channels g)\<rparr>"

definition can_read_namespace :: "authorization_grants \<Rightarrow> namespace_id \<Rightarrow> bool" where
  "can_read_namespace g n = opt_is_some_and permits_read (bt_get (ag_namespaces g) n)"

definition can_write_namespace :: "authorization_grants \<Rightarrow> namespace_id \<Rightarrow> bool" where
  "can_write_namespace g n = opt_is_some_and permits_write (bt_get (ag_namespaces g) n)"

definition can_read_session :: "authorization_grants \<Rightarrow> session_key \<Rightarrow> bool" where
  "can_read_session g s = opt_is_some_and permits_read (bt_get (ag_sessions g) s)"

definition can_write_session :: "authorization_grants \<Rightarrow> session_key \<Rightarrow> bool" where
  "can_write_session g s = opt_is_some_and permits_write (bt_get (ag_sessions g) s)"

definition can_read_space :: "authorization_grants \<Rightarrow> space_key \<Rightarrow> bool" where
  "can_read_space g s = opt_is_some_and permits_read (bt_get (ag_spaces g) s)"

definition can_write_space :: "authorization_grants \<Rightarrow> space_key \<Rightarrow> bool" where
  "can_write_space g s = opt_is_some_and permits_write (bt_get (ag_spaces g) s)"

definition can_read_channel :: "authorization_grants \<Rightarrow> channel_scope \<Rightarrow> bool" where
  "can_read_channel g c = opt_is_some_and permits_read (bt_get (ag_channels g) c)"

definition can_write_channel :: "authorization_grants \<Rightarrow> channel_scope \<Rightarrow> bool" where
  "can_write_channel g c = opt_is_some_and permits_write (bt_get (ag_channels g) c)"

lemmas grant_defs = grants_new_def grant_namespace_def grant_session_def grant_space_def
  grant_channel_def can_read_namespace_def can_write_namespace_def can_read_session_def
  can_write_session_def can_read_space_def can_write_space_def can_read_channel_def
  can_write_channel_def

declare grant_defs [eval]

text \<open>The eight questions a grant table answers, to state what a grant changes.\<close>

datatype grant_query =
    Q_Namespace namespace_id | Q_Session session_key | Q_Space space_key | Q_Channel channel_scope

fun may_read :: "authorization_grants \<Rightarrow> grant_query \<Rightarrow> bool" where
  "may_read g (Q_Namespace n) = can_read_namespace g n"
| "may_read g (Q_Session s) = can_read_session g s"
| "may_read g (Q_Space s) = can_read_space g s"
| "may_read g (Q_Channel c) = can_read_channel g c"

fun may_write :: "authorization_grants \<Rightarrow> grant_query \<Rightarrow> bool" where
  "may_write g (Q_Namespace n) = can_write_namespace g n"
| "may_write g (Q_Session s) = can_write_session g s"
| "may_write g (Q_Space s) = can_write_space g s"
| "may_write g (Q_Channel c) = can_write_channel g c"

fun grant_on :: "grant_query \<Rightarrow> access_grant \<Rightarrow> authorization_grants \<Rightarrow> authorization_grants" where
  "grant_on (Q_Namespace n) a g = grant_namespace n a g"
| "grant_on (Q_Session s) a g = grant_session s a g"
| "grant_on (Q_Space s) a g = grant_space s a g"
| "grant_on (Q_Channel c) a g = grant_channel c a g"

section \<open>Principals\<close>

record authenticated_principal =
  ap_principal_id :: principal_id
  ap_grants :: authorization_grants

datatype auth_error = InvalidCredentials

type_synonym authenticator_fn = "credentials \<Rightarrow> auth_error + authenticated_principal"

section \<open>The development authenticator\<close>

datatype dev_authenticator_error = ZeroCapacity | CapacityReached

record dev_authenticator =
  da_max_identities :: usize
  da_identities :: "(string, authenticated_principal) btmap"

definition da_default_max_identities :: usize where
  "da_default_max_identities = 64"

definition da_new :: dev_authenticator where
  "da_new = \<lparr>da_max_identities = da_default_max_identities, da_identities = bt_new\<rparr>"

definition da_with_capacity :: "usize \<Rightarrow> dev_authenticator_error + dev_authenticator" where
  "da_with_capacity n =
     (if n = 0 then Inl ZeroCapacity
      else Inr \<lparr>da_max_identities = n, da_identities = bt_new\<rparr>)"

text \<open>The result pairs the replaced principal with the new state.\<close>

definition da_insert ::
  "string \<Rightarrow> authenticated_principal \<Rightarrow> dev_authenticator
   \<Rightarrow> dev_authenticator_error + (authenticated_principal option \<times> dev_authenticator)" where
  "da_insert token p a =
     (if \<not> bt_contains_key (da_identities a) token
         \<and> bt_len (da_identities a) = da_max_identities a
      then Inl CapacityReached
      else Inr (bt_get (da_identities a) token,
                a\<lparr>da_identities := bt_insert token p (da_identities a)\<rparr>))"

definition da_authenticate :: "dev_authenticator \<Rightarrow> authenticator_fn" where
  "da_authenticate a c = ok_or InvalidCredentials (bt_get (da_identities a) (cr_token c))"

definition da_wf :: "dev_authenticator \<Rightarrow> bool" where
  "da_wf a \<longleftrightarrow> 0 < da_max_identities a \<and> bt_len (da_identities a) \<le> da_max_identities a"

section \<open>Contract\<close>

text \<open>
  What callers rely on: registering a token makes exactly that token authenticate as the given
  principal, and the registry stays within its bound.
\<close>

locale authenticator =
  fixes auth :: "'a \<Rightarrow> authenticator_fn"
    and insert :: "string \<Rightarrow> authenticated_principal \<Rightarrow> 'a \<Rightarrow> 'e + ('r \<times> 'a)"
    and wf :: "'a \<Rightarrow> bool"
    and identities :: "'a \<Rightarrow> string set"
    and bound :: "'a \<Rightarrow> nat"
  assumes auth_insert: "insert t p a = Inr (old, a') \<Longrightarrow>
      auth a' c = (if cr_token c = t then Inr p else auth a c)"
    and wf_insert: "wf a \<Longrightarrow> insert t p a = Inr (old, a') \<Longrightarrow> wf a' \<and> bound a' = bound a"
    and wf_bound: "wf a \<Longrightarrow> finite (identities a) \<and> card (identities a) \<le> bound a"
    and auth_identities: "(\<exists>p. auth a c = Inr p) \<longleftrightarrow> cr_token c \<in> identities a"
begin

fun insert_all :: "(string \<times> authenticated_principal) list \<Rightarrow> 'a \<Rightarrow> 'e + 'a" where
  "insert_all [] a = Inr a"
| "insert_all ((t, p) # xs) a = and_then (insert t p a) (\<lambda>(_, a'). insert_all xs a')"

lemma insert_all_auth:
  assumes "insert_all xs a = Inr a'" "auth a' c = Inr p"
  shows "auth a c = Inr p \<or> (cr_token c, p) \<in> set xs"
  using assms
proof (induction xs arbitrary: a)
  case (Cons x xs)
  obtain t q where x: "x = (t, q)" by force
  with Cons.prems(1) obtain old b where b: "insert t q a = Inr (old, b)" "insert_all xs b = Inr a'"
    by (auto simp: result_ok)
  from Cons.IH [OF b(2) Cons.prems(2)] auth_insert [OF b(1)] x
  show ?case by (auto split: if_splits)
qed simp

lemma insert_all_wf:
  assumes "insert_all xs a = Inr a'" "wf a"
  shows "wf a' \<and> card (identities a') \<le> bound a"
  using assms
proof (induction xs arbitrary: a)
  case (Cons x xs)
  obtain t q where x: "x = (t, q)" by force
  with Cons.prems(1) obtain old b where b: "insert t q a = Inr (old, b)" "insert_all xs b = Inr a'"
    by (auto simp: result_ok)
  from Cons.IH [OF b(2)] wf_insert [OF Cons.prems(2) b(1)] show ?case by simp
qed (simp add: wf_bound)

end

interpretation dev: authenticator da_authenticate da_insert da_wf
  "\<lambda>a. dom (bt_get (da_identities a))" da_max_identities
proof (unfold_locales, goal_cases)
  case (1 t p a old a' c)
  then show ?case by (auto simp: da_insert_def da_authenticate_def split: if_splits)
next
  case (2 a t p old a')
  then show ?case
    by (auto simp: da_insert_def da_wf_def bt_len_insert bt_contains_key_def split: if_splits)
next
  case (3 a)
  then show ?case by (simp add: da_wf_def bt_len_card [symmetric])
next
  case (4 a c)
  then show ?case by (auto simp: da_authenticate_def)
qed

definition da_insert_all ::
  "(string \<times> authenticated_principal) list \<Rightarrow> dev_authenticator
   \<Rightarrow> dev_authenticator_error + dev_authenticator" where
  "da_insert_all = dev.insert_all"

end
