(* ===== verification/Authority.thy ===== *)
theory Authority
  imports Model Auth
begin

text \<open>
  Channel authority, \<^verbatim>\<open>woven-core/src/authority.rs\<close>. The \<^verbatim>\<open>AuthorityPolicy\<close> trait
  object of a channel is a function from the context and the proposed message to an outcome;
  \<open>relay_owned_evaluate\<close> is the policy the crate ships. An embedding may supply any other
  function, so nothing is assumed about it.
\<close>

record authority_context =
  ac_connection :: connection_id
  ac_principal :: principal_id
  ac_is_session_member :: bool
  ac_is_space_subscriber :: bool
  ac_entity_owner :: "connection_id option"

record proposed_message =
  pm_space :: space_id
  pm_space_epoch :: space_epoch
  pm_entity :: "entity_id option"
  pm_channel :: channel_id
  pm_sequence :: u64
  pm_delivery :: delivery_class
  pm_persistence :: persistence_class
  pm_coalesce_key :: "coalesce_key option"
  pm_payload :: payload

record authority_transform =
  at_coalesce_key :: "coalesce_key option"
  at_payload :: payload

record authority_emission =
  ae_space :: space_id
  ae_space_epoch :: space_epoch
  ae_entity :: "entity_id option"
  ae_channel :: channel_id
  ae_sequence :: u64
  ae_delivery :: delivery_class
  ae_persistence :: persistence_class
  ae_coalesce_key :: "coalesce_key option"
  ae_payload :: payload

datatype authority_rejection =
    AR_AuthenticationRequired | AR_SessionMembershipRequired | AR_SpaceSubscriptionRequired
  | AR_EntityRequired | AR_EntityNotOwned | AR_PolicyDenied

datatype authority_outcome =
    AO_Accept
  | AO_Reject authority_rejection
  | AO_Transform authority_transform
  | AO_Emit "authority_emission list"

type_synonym authority_policy = "authority_context \<Rightarrow> proposed_message \<Rightarrow> authority_outcome"

definition relay_owned_evaluate :: authority_policy where
  "relay_owned_evaluate context proposed =
     (if \<not> ac_is_session_member context then AO_Reject AR_SessionMembershipRequired
      else if \<not> ac_is_space_subscriber context then AO_Reject AR_SpaceSubscriptionRequired
      else if pm_entity proposed = None then AO_Reject AR_EntityRequired
      else if ac_entity_owner context \<noteq> Some (ac_connection context) then AO_Reject AR_EntityNotOwned
      else AO_Accept)"

record channel_definition =
  cd_id :: channel_id
  cd_delivery :: delivery_class
  cd_persistence :: persistence_class
  cd_max_payload_bytes :: usize
  cd_authority :: authority_policy

definition channel_relay_owned ::
  "channel_id \<Rightarrow> delivery_class \<Rightarrow> persistence_class \<Rightarrow> usize \<Rightarrow> channel_definition" where
  "channel_relay_owned cid delivery persistence max_payload =
     \<lparr>cd_id = cid, cd_delivery = delivery, cd_persistence = persistence,
      cd_max_payload_bytes = max_payload, cd_authority = relay_owned_evaluate\<rparr>"

definition channel_new ::
  "channel_id \<Rightarrow> delivery_class \<Rightarrow> persistence_class \<Rightarrow> usize \<Rightarrow> channel_definition" where
  "channel_new = channel_relay_owned"

definition channel_with_authority ::
  "channel_id \<Rightarrow> delivery_class \<Rightarrow> persistence_class \<Rightarrow> usize \<Rightarrow> authority_policy
   \<Rightarrow> channel_definition" where
  "channel_with_authority cid delivery persistence max_payload authority =
     \<lparr>cd_id = cid, cd_delivery = delivery, cd_persistence = persistence,
      cd_max_payload_bytes = max_payload, cd_authority = authority\<rparr>"

text \<open>The relay policy never rewrites a message, and accepts exactly the owner's own.\<close>

lemma relay_owned_accept:
  "relay_owned_evaluate c p = AO_Accept \<longleftrightarrow>
     ac_is_session_member c \<and> ac_is_space_subscriber c \<and> pm_entity p \<noteq> None
     \<and> ac_entity_owner c = Some (ac_connection c)"
  by (auto simp: relay_owned_evaluate_def)

lemma relay_owned_cases:
  "relay_owned_evaluate c p = AO_Accept \<or> (\<exists>r. relay_owned_evaluate c p = AO_Reject r)"
  by (auto simp: relay_owned_evaluate_def)

end
