(* ===== verification/Queue.thy ===== *)
theory Queue
  imports Model
begin

text \<open>
  The bounded outbound queue of a connection, \<^verbatim>\<open>woven-core/src/queue.rs\<close>: a FIFO of
  critical messages, a coalescing map of latest values with its arrival order, and a FIFO of
  best-effort messages, under per-class and total capacities. A mutating method returns its
  result with the new queue. The \<open>expect\<close> of \<^verbatim>\<open>push_latest\<close> is the error value
  \<open>QueueSyncPanic\<close>; \<open>oq_push_no_panic\<close> shows it is never produced.
\<close>

section \<open>Configuration\<close>

record outbound_queue_config =
  qc_total_capacity :: usize
  qc_critical_capacity :: usize
  qc_latest_capacity :: usize
  qc_best_effort_capacity :: usize

definition qc_default :: outbound_queue_config where
  "qc_default = \<lparr>qc_total_capacity = 512, qc_critical_capacity = 256,
     qc_latest_capacity = 512, qc_best_effort_capacity = 128\<rparr>"

datatype queue_config_error =
    ZeroTotalCapacity | ZeroCriticalCapacity | ClassCapacityExceedsTotal

definition qc_validate :: "outbound_queue_config \<Rightarrow> queue_config_error + outbound_queue_config" where
  "qc_validate c =
     (if qc_total_capacity c = 0 then Inl ZeroTotalCapacity
      else if qc_critical_capacity c = 0 then Inl ZeroCriticalCapacity
      else if qc_total_capacity c < qc_critical_capacity c
           \<or> qc_total_capacity c < qc_latest_capacity c
           \<or> qc_total_capacity c < qc_best_effort_capacity c
      then Inl ClassCapacityExceedsTotal
      else Inr c)"

section \<open>The queue\<close>

datatype queue_error = MissingCoalesceKey | QueueSyncPanic

datatype queue_eviction = Eviction_Latest scoped_coalesce_key | Eviction_BestEffort

datatype queue_push =
    Queued
  | QueuedCriticalAfterEviction queue_eviction
  | ReplacedLatest
  | EvictedLatest scoped_coalesce_key
  | EvictedBestEffortForLatest
  | DroppedLatest
  | DroppedBestEffort
  | CriticalCapacityExhausted

record outbound_queue =
  oq_config :: outbound_queue_config
  oq_critical :: "outbound_message list"
  oq_latest_order :: "scoped_coalesce_key list"
  oq_latest :: "(scoped_coalesce_key, outbound_message) btmap"
  oq_best_effort :: "outbound_message list"
  oq_critical_capacity_exhausted :: bool

definition oq_new :: "outbound_queue_config \<Rightarrow> queue_config_error + outbound_queue" where
  "oq_new config = and_then (qc_validate config) (\<lambda>config.
     Inr \<lparr>oq_config = config, oq_critical = [], oq_latest_order = [], oq_latest = bt_new,
          oq_best_effort = [], oq_critical_capacity_exhausted = False\<rparr>)"

definition oq_len :: "outbound_queue \<Rightarrow> usize" where
  "oq_len q = length (oq_critical q) + bt_len (oq_latest q) + length (oq_best_effort q)"

definition oq_is_empty :: "outbound_queue \<Rightarrow> bool" where
  "oq_is_empty q = (oq_len q = 0)"

definition oq_capacity :: "outbound_queue \<Rightarrow> usize" where
  "oq_capacity q = qc_total_capacity (oq_config q)"

definition oq_is_slow_consumer :: "outbound_queue \<Rightarrow> bool" where
  "oq_is_slow_consumer q = oq_critical_capacity_exhausted q"

definition oq_evict_oldest_latest ::
  "outbound_queue \<Rightarrow> scoped_coalesce_key option \<times> outbound_queue" where
  "oq_evict_oldest_latest q = (case oq_latest_order q of
     [] \<Rightarrow> (None, q)
   | key # order \<Rightarrow>
       (Some key, q\<lparr>oq_latest_order := order, oq_latest := bt_remove key (oq_latest q)\<rparr>))"

definition oq_pop_best_effort :: "outbound_queue \<Rightarrow> outbound_message option \<times> outbound_queue" where
  "oq_pop_best_effort q = (case oq_best_effort q of
     [] \<Rightarrow> (None, q)
   | m # ms \<Rightarrow> (Some m, q\<lparr>oq_best_effort := ms\<rparr>))"

definition oq_evict_for_critical ::
  "outbound_queue \<Rightarrow> queue_eviction option \<times> outbound_queue" where
  "oq_evict_for_critical q =
     (if oq_len q = qc_total_capacity (oq_config q)
      then case oq_evict_oldest_latest q of
          (Some key, q') \<Rightarrow> (Some (Eviction_Latest key), q')
        | (None, q') \<Rightarrow>
            (case oq_pop_best_effort q' of
               (Some _, q'') \<Rightarrow> (Some Eviction_BestEffort, q'')
             | (None, q'') \<Rightarrow> (None, q''))
      else (None, q))"

definition oq_push_critical :: "outbound_message \<Rightarrow> outbound_queue \<Rightarrow> queue_push \<times> outbound_queue" where
  "oq_push_critical m q =
     (if length (oq_critical q) = qc_critical_capacity (oq_config q)
      then (CriticalCapacityExhausted, q\<lparr>oq_critical_capacity_exhausted := True\<rparr>)
      else case oq_evict_for_critical q of (eviction, q') \<Rightarrow>
        (case eviction of None \<Rightarrow> Queued | Some e \<Rightarrow> QueuedCriticalAfterEviction e,
         q'\<lparr>oq_critical := oq_critical q' @ [m]\<rparr>))"

definition oq_insert_latest ::
  "scoped_coalesce_key \<Rightarrow> outbound_message \<Rightarrow> outbound_queue \<Rightarrow> outbound_queue" where
  "oq_insert_latest key m q =
     q\<lparr>oq_latest_order := oq_latest_order q @ [key],
       oq_latest := bt_insert key m (oq_latest q)\<rparr>"

definition oq_replace_latest ::
  "scoped_coalesce_key \<Rightarrow> outbound_message \<Rightarrow> outbound_queue \<Rightarrow> outbound_queue" where
  "oq_replace_latest key m q =
     q\<lparr>oq_latest := bt_insert key m (oq_latest q),
       oq_latest_order := filter (\<lambda>ordered. ordered \<noteq> key) (oq_latest_order q) @ [key]\<rparr>"

definition oq_push_latest_keyed ::
  "scoped_coalesce_key \<Rightarrow> outbound_message \<Rightarrow> outbound_queue
   \<Rightarrow> (queue_error + queue_push) \<times> outbound_queue" where
  "oq_push_latest_keyed key m q =
     (if bt_contains_key (oq_latest q) key then (Inr ReplacedLatest, oq_replace_latest key m q)
      else if qc_latest_capacity (oq_config q) = 0 then (Inr DroppedLatest, q)
      else if bt_len (oq_latest q) = qc_latest_capacity (oq_config q) then
        (case oq_evict_oldest_latest q of
           (None, q') \<Rightarrow> (Inl QueueSyncPanic, q')
         | (Some evicted, q') \<Rightarrow> (Inr (EvictedLatest evicted), oq_insert_latest key m q'))
      else if oq_len q = qc_total_capacity (oq_config q) then
        (case oq_evict_oldest_latest q of
           (Some evicted, q') \<Rightarrow> (Inr (EvictedLatest evicted), oq_insert_latest key m q')
         | (None, q') \<Rightarrow>
             (case oq_pop_best_effort q' of
                (Some _, q'') \<Rightarrow> (Inr EvictedBestEffortForLatest, oq_insert_latest key m q'')
              | (None, q'') \<Rightarrow> (Inr DroppedLatest, q'')))
      else (Inr Queued, oq_insert_latest key m q))"

definition oq_push_latest ::
  "outbound_message \<Rightarrow> outbound_queue \<Rightarrow> (queue_error + queue_push) \<times> outbound_queue" where
  "oq_push_latest m q = (case om_scoped_coalesce_key m of
     None \<Rightarrow> (Inl MissingCoalesceKey, q)
   | Some key \<Rightarrow> oq_push_latest_keyed key m q)"

definition oq_push_best_effort ::
  "outbound_message \<Rightarrow> outbound_queue \<Rightarrow> queue_push \<times> outbound_queue" where
  "oq_push_best_effort m q =
     (if length (oq_best_effort q) = qc_best_effort_capacity (oq_config q)
         \<or> oq_len q = qc_total_capacity (oq_config q)
      then (DroppedBestEffort, q)
      else (Queued, q\<lparr>oq_best_effort := oq_best_effort q @ [m]\<rparr>))"

definition oq_push ::
  "outbound_message \<Rightarrow> outbound_queue \<Rightarrow> (queue_error + queue_push) \<times> outbound_queue" where
  "oq_push m q =
     (if is_critical (om_delivery m) then (case oq_push_critical m q of (r, q') \<Rightarrow> (Inr r, q'))
      else if is_replaceable (om_delivery m) then oq_push_latest m q
      else (case oq_push_best_effort m q of (r, q') \<Rightarrow> (Inr r, q')))"

definition oq_pop :: "outbound_queue \<Rightarrow> outbound_message option \<times> outbound_queue" where
  "oq_pop q = (case oq_critical q of
     m # ms \<Rightarrow> (Some m, q\<lparr>oq_critical := ms\<rparr>)
   | [] \<Rightarrow> (case oq_latest_order q of
       key # order \<Rightarrow>
         (bt_get (oq_latest q) key,
          q\<lparr>oq_latest_order := order, oq_latest := bt_remove key (oq_latest q)\<rparr>)
     | [] \<Rightarrow> oq_pop_best_effort q))"

definition oq_purge ::
  "(outbound_message \<Rightarrow> bool) \<Rightarrow> outbound_queue \<Rightarrow> usize \<times> outbound_queue" where
  "oq_purge should_remove q =
     (let latest = bt_retain (\<lambda>_ m. \<not> should_remove m) (oq_latest q);
          q' = q\<lparr>oq_critical := filter (\<lambda>m. \<not> should_remove m) (oq_critical q),
                 oq_best_effort := filter (\<lambda>m. \<not> should_remove m) (oq_best_effort q),
                 oq_latest := latest,
                 oq_latest_order := filter (bt_contains_key latest) (oq_latest_order q)\<rparr>
      in (oq_len q - oq_len q', q'))"

definition oq_pending :: "outbound_queue \<Rightarrow> nat" where
  "oq_pending q = length (oq_critical q) + length (oq_latest_order q) + length (oq_best_effort q)"

lemma oq_pop_pending: "oq_pop q = (Some m, q') \<Longrightarrow> oq_pending q' < oq_pending q"
  by (auto simp: oq_pop_def oq_pop_best_effort_def oq_pending_def split: list.splits)

function oq_drain :: "outbound_queue \<Rightarrow> outbound_message list \<times> outbound_queue" where
  "oq_drain q = (case oq_pop q of
     (None, q') \<Rightarrow> ([], q')
   | (Some m, q') \<Rightarrow> (case oq_drain q' of (ms, q'') \<Rightarrow> (m # ms, q'')))"
  by pat_completeness auto
termination oq_drain
  by (relation "measure oq_pending") (auto simp: oq_pop_pending dest: sym)

declare oq_drain.simps [simp del]

lemmas oq_defs = oq_len_def oq_capacity_def oq_evict_oldest_latest_def oq_pop_best_effort_def
  oq_evict_for_critical_def oq_push_critical_def oq_insert_latest_def oq_replace_latest_def
  oq_push_latest_keyed_def oq_push_latest_def oq_push_best_effort_def oq_push_def

declare oq_defs [eval] oq_pop_def [eval] oq_new_def [eval] qc_validate_def [eval]
  om_scoped_coalesce_key_def [eval] oq_purge_def [eval]

section \<open>Invariant\<close>

definition oq_wf :: "outbound_queue \<Rightarrow> bool" where
  "oq_wf q \<longleftrightarrow>
     is_ok (qc_validate (oq_config q))
   \<and> distinct (oq_latest_order q)
   \<and> (\<forall>k. k \<in> set (oq_latest_order q) \<longleftrightarrow> bt_get (oq_latest q) k \<noteq> None)
   \<and> (\<forall>k m. bt_get (oq_latest q) k = Some m \<longrightarrow>
        om_scoped_coalesce_key m = Some k \<and> is_replaceable (om_delivery m))
   \<and> (\<forall>m\<in>set (oq_critical q). is_critical (om_delivery m))
   \<and> (\<forall>m\<in>set (oq_best_effort q). om_delivery m = BestEffortEvent)
   \<and> length (oq_critical q) \<le> qc_critical_capacity (oq_config q)
   \<and> bt_len (oq_latest q) \<le> qc_latest_capacity (oq_config q)
   \<and> length (oq_best_effort q) \<le> qc_best_effort_capacity (oq_config q)
   \<and> oq_len q \<le> qc_total_capacity (oq_config q)"

lemma oq_wf_order:
  "oq_wf q \<Longrightarrow> k \<in> set (oq_latest_order q) \<longleftrightarrow> bt_get (oq_latest q) k \<noteq> None"
  unfolding oq_wf_def by blast

lemma oq_wf_latest:
  "oq_wf q \<Longrightarrow> bt_get (oq_latest q) k = Some m \<Longrightarrow>
     om_scoped_coalesce_key m = Some k \<and> is_replaceable (om_delivery m)"
  unfolding oq_wf_def by blast

text \<open>The messages in the order in which \<open>oq_pop\<close> hands them out.\<close>

definition oq_latest_view :: "outbound_queue \<Rightarrow> outbound_message list" where
  "oq_latest_view q = map (\<lambda>k. the (bt_get (oq_latest q) k)) (oq_latest_order q)"

definition oq_view :: "outbound_queue \<Rightarrow> outbound_message list" where
  "oq_view q = oq_critical q @ oq_latest_view q @ oq_best_effort q"

lemma qc_validate_ok:
  "is_ok (qc_validate c) \<longleftrightarrow> 0 < qc_critical_capacity c
     \<and> qc_critical_capacity c \<le> qc_total_capacity c \<and> qc_latest_capacity c \<le> qc_total_capacity c
     \<and> qc_best_effort_capacity c \<le> qc_total_capacity c"
  by (auto simp: qc_validate_def not_less)

lemma qc_validate_same: "qc_validate c = Inr c' \<Longrightarrow> c' = c"
  by (auto simp: qc_validate_def split: if_splits)

lemma oq_wf_order_len: "oq_wf q \<Longrightarrow> length (oq_latest_order q) = bt_len (oq_latest q)"
proof -
  assume wf: "oq_wf q"
  then have "set (oq_latest_order q) = set (bt_keys (oq_latest q))"
    by (auto simp: oq_wf_def in_bt_keys)
  moreover have "distinct (oq_latest_order q)" using wf by (simp add: oq_wf_def)
  ultimately have "length (oq_latest_order q) = length (bt_keys (oq_latest q))"
    by (metis bt_keys_distinct distinct_card)
  then show ?thesis by (simp add: bt_keys_def bt_len_def)
qed

lemma oq_view_length: "oq_wf q \<Longrightarrow> length (oq_view q) = oq_len q"
  by (simp add: oq_view_def oq_latest_view_def oq_len_def oq_wf_order_len)

lemma oq_wf_bounded: "oq_wf q \<Longrightarrow> length (oq_view q) \<le> oq_capacity q"
  by (simp add: oq_view_length) (simp add: oq_wf_def oq_capacity_def)

lemma oq_new_wf:
  assumes "oq_new c = Inr q"
  shows "oq_wf q \<and> oq_view q = [] \<and> \<not> oq_is_slow_consumer q \<and> oq_config q = c"
proof -
  from assms have c: "qc_validate c = Inr c"
    and q: "q = \<lparr>oq_config = c, oq_critical = [], oq_latest_order = [], oq_latest = bt_new,
      oq_best_effort = [], oq_critical_capacity_exhausted = False\<rparr>"
    by (auto simp: oq_new_def result_ok dest: qc_validate_same)
  show ?thesis
    by (simp add: q c oq_wf_def oq_view_def oq_latest_view_def oq_is_slow_consumer_def oq_len_def)
qed

lemma oq_evict_wf:
  assumes wf: "oq_wf q" and e: "oq_evict_oldest_latest q = (r, q')"
  shows "oq_wf q'" "oq_critical q' = oq_critical q" "oq_best_effort q' = oq_best_effort q"
    "oq_config q' = oq_config q"
    "oq_critical_capacity_exhausted q' = oq_critical_capacity_exhausted q"
    "r = None \<Longrightarrow> q' = q \<and> oq_latest_order q = []"
    "r \<noteq> None \<Longrightarrow> oq_len q' < oq_len q \<and> bt_len (oq_latest q') < bt_len (oq_latest q)"
    "\<And>k. bt_get (oq_latest q') k = bt_get (oq_latest q) k \<or> bt_get (oq_latest q') k = None"
    "oq_latest_view q' = (if r = None then oq_latest_view q else tl (oq_latest_view q))"
proof -
  consider "oq_latest_order q = []" "r = None" "q' = q"
    | k ks where "oq_latest_order q = k # ks" "r = Some k"
        "q' = q\<lparr>oq_latest_order := ks, oq_latest := bt_remove k (oq_latest q)\<rparr>"
    using e by (auto simp: oq_evict_oldest_latest_def split: list.splits)
  then have "oq_wf q' \<and> oq_critical q' = oq_critical q \<and> oq_best_effort q' = oq_best_effort q
    \<and> oq_config q' = oq_config q
    \<and> oq_critical_capacity_exhausted q' = oq_critical_capacity_exhausted q
    \<and> (r = None \<longrightarrow> q' = q \<and> oq_latest_order q = [])
    \<and> (r \<noteq> None \<longrightarrow> oq_len q' < oq_len q \<and> bt_len (oq_latest q') < bt_len (oq_latest q))
    \<and> (\<forall>k. bt_get (oq_latest q') k = bt_get (oq_latest q) k \<or> bt_get (oq_latest q') k = None)
    \<and> oq_latest_view q' = (if r = None then oq_latest_view q else tl (oq_latest_view q))"
  proof cases
    case 1
    with wf show ?thesis by simp
  next
    case 2
    then have "bt_get (oq_latest q) k \<noteq> None" "k \<notin> set ks"
      using wf by (auto simp: oq_wf_def)
    then have len: "bt_len (bt_remove k (oq_latest q)) < bt_len (oq_latest q)"
      by (auto simp: bt_len_remove bt_len_pos)
    have view: "map (\<lambda>x. the (bt_get (bt_remove k (oq_latest q)) x)) ks
      = map (\<lambda>x. the (bt_get (oq_latest q) x)) ks"
      using \<open>k \<notin> set ks\<close> by auto
    have "oq_wf q'"
      using wf 2 len \<open>k \<notin> set ks\<close> unfolding oq_wf_def oq_len_def
      by (simp split: if_splits) (metis less_imp_le_nat order_trans)
    then show ?thesis
      using 2 len view by (simp add: oq_len_def oq_latest_view_def)
  qed
  then show "oq_wf q'" "oq_critical q' = oq_critical q" "oq_best_effort q' = oq_best_effort q"
    "oq_config q' = oq_config q"
    "oq_critical_capacity_exhausted q' = oq_critical_capacity_exhausted q"
    "r = None \<Longrightarrow> q' = q \<and> oq_latest_order q = []"
    "r \<noteq> None \<Longrightarrow> oq_len q' < oq_len q \<and> bt_len (oq_latest q') < bt_len (oq_latest q)"
    "\<And>k. bt_get (oq_latest q') k = bt_get (oq_latest q) k \<or> bt_get (oq_latest q') k = None"
    "oq_latest_view q' = (if r = None then oq_latest_view q else tl (oq_latest_view q))"
    by auto
qed

lemma oq_pop_best_effort_wf:
  assumes wf: "oq_wf q" and e: "oq_pop_best_effort q = (r, q')"
  shows "oq_wf q'" "oq_critical q' = oq_critical q" "oq_latest_order q' = oq_latest_order q"
    "oq_latest q' = oq_latest q" "oq_config q' = oq_config q"
    "oq_critical_capacity_exhausted q' = oq_critical_capacity_exhausted q"
    "r = None \<Longrightarrow> q' = q \<and> oq_best_effort q = []"
    "r \<noteq> None \<Longrightarrow> oq_len q' < oq_len q"
    "set (oq_best_effort q') \<subseteq> set (oq_best_effort q)"
  using assms
  by (auto simp: oq_pop_best_effort_def oq_wf_def oq_len_def split: list.splits)

lemma oq_insert_latest_wf:
  assumes wf: "oq_wf q" and new: "\<not> bt_contains_key (oq_latest q) key"
    and key: "om_scoped_coalesce_key m = Some key" and rep: "is_replaceable (om_delivery m)"
    and cap: "bt_len (oq_latest q) < qc_latest_capacity (oq_config q)"
    and total: "oq_len q < qc_total_capacity (oq_config q)"
  shows "oq_wf (oq_insert_latest key m q)"
    and "oq_latest_view (oq_insert_latest key m q) = oq_latest_view q @ [m]"
proof -
  have none: "bt_get (oq_latest q) key = None" and notin: "key \<notin> set (oq_latest_order q)"
    using wf new by (auto simp: oq_wf_def bt_contains_key_def)
  show "oq_wf (oq_insert_latest key m q)"
    using assms none notin
    by (simp add: oq_wf_def oq_insert_latest_def oq_len_def bt_get_insert bt_len_insert)
  show "oq_latest_view (oq_insert_latest key m q) = oq_latest_view q @ [m]"
    using notin by (auto simp: oq_latest_view_def oq_insert_latest_def bt_get_insert)
qed

lemma oq_replace_latest_wf:
  assumes wf: "oq_wf q" and old: "bt_contains_key (oq_latest q) key"
    and key: "om_scoped_coalesce_key m = Some key" and rep: "is_replaceable (om_delivery m)"
  shows "oq_wf (oq_replace_latest key m q)"
    and "oq_latest_view (oq_replace_latest key m q)
      = filter (\<lambda>m'. om_scoped_coalesce_key m' \<noteq> Some key) (oq_latest_view q) @ [m]"
proof -
  have some: "bt_get (oq_latest q) key \<noteq> None"
    using old by (simp add: bt_contains_key_def)
  show "oq_wf (oq_replace_latest key m q)"
    using assms some
    by (auto simp: oq_wf_def oq_replace_latest_def oq_len_def bt_get_insert bt_len_insert)
  have "om_scoped_coalesce_key (the (bt_get (oq_latest q) k)) = Some k"
    if "k \<in> set (oq_latest_order q)" for k
    using wf that by (force simp: oq_wf_def)
  then have "map (\<lambda>k. the (bt_get (oq_latest q) k)) (filter (\<lambda>k. k \<noteq> key) (oq_latest_order q))
    = filter (\<lambda>m'. om_scoped_coalesce_key m' \<noteq> Some key)
        (map (\<lambda>k. the (bt_get (oq_latest q) k)) (oq_latest_order q))"
    by (auto simp: filter_map comp_def intro!: arg_cong [where f = "map _"] filter_cong)
  moreover have "map (\<lambda>k. the (bt_get (bt_insert key m (oq_latest q)) k))
      (filter (\<lambda>k. k \<noteq> key) (oq_latest_order q))
    = map (\<lambda>k. the (bt_get (oq_latest q) k)) (filter (\<lambda>k. k \<noteq> key) (oq_latest_order q))"
    by (auto simp: bt_get_insert)
  ultimately show "oq_latest_view (oq_replace_latest key m q)
      = filter (\<lambda>m'. om_scoped_coalesce_key m' \<noteq> Some key) (oq_latest_view q) @ [m]"
    by (simp add: oq_latest_view_def oq_replace_latest_def)
qed

lemma oq_wf_capacities:
  assumes "oq_wf q"
  shows "0 < qc_critical_capacity (oq_config q)"
    "qc_critical_capacity (oq_config q) \<le> qc_total_capacity (oq_config q)"
  using assms by (auto simp: oq_wf_def qc_validate_ok)

text \<open>Making room for a critical message succeeds whenever the critical class has room.\<close>

lemma oq_evict_for_critical_wf:
  assumes wf: "oq_wf q" and e: "oq_evict_for_critical q = (r, q')"
    and room: "length (oq_critical q) < qc_critical_capacity (oq_config q)"
  shows "oq_wf q' \<and> oq_critical q' = oq_critical q \<and> oq_config q' = oq_config q
    \<and> oq_critical_capacity_exhausted q' = oq_critical_capacity_exhausted q
    \<and> oq_len q' < qc_total_capacity (oq_config q)
    \<and> set (oq_view q') \<subseteq> set (oq_view q)"
proof (cases "oq_len q = qc_total_capacity (oq_config q)")
  case False
  with wf e show ?thesis by (auto simp: oq_evict_for_critical_def oq_wf_def)
next
  case True
  obtain r1 q1 where e1: "oq_evict_oldest_latest q = (r1, q1)" by force
  note w1 = oq_evict_wf [OF wf e1]
  show ?thesis
  proof (cases r1)
    case (Some key)
    have "set (oq_latest_view q1) \<subseteq> set (oq_latest_view q)"
      unfolding w1(9) by (auto dest: list.set_sel(2) split: if_splits)
        (metis list.set_sel(2) tl_Nil)
    with Some True e e1 w1 show ?thesis
      by (auto simp: oq_evict_for_critical_def oq_view_def)
  next
    case None
    obtain r2 q2 where e2: "oq_pop_best_effort q1 = (r2, q2)" by force
    note w2 = oq_pop_best_effort_wf [OF w1(1) e2]
    have q1: "q1 = q" "oq_latest_order q = []" using None w1(6) by auto
    have "bt_len (oq_latest q) = 0" using oq_wf_order_len [OF wf] q1 by simp
    with True room oq_wf_capacities(2) [OF wf] have "oq_best_effort q \<noteq> []"
      by (auto simp: oq_len_def)
    then have "r2 \<noteq> None" using w2(7) q1 by auto
    then show ?thesis
      using None True e e1 e2 w2 q1
      by (auto simp: oq_evict_for_critical_def oq_view_def oq_latest_view_def split: option.splits)
  qed
qed

lemma oq_push_critical_wf:
  assumes wf: "oq_wf q" and c: "is_critical (om_delivery m)" and p: "oq_push_critical m q = (r, q')"
  shows "oq_wf q' \<and> oq_config q' = oq_config q \<and> set (oq_view q') \<subseteq> insert m (set (oq_view q))
    \<and> oq_critical q' = (if r = CriticalCapacityExhausted then oq_critical q else oq_critical q @ [m])
    \<and> oq_critical_capacity_exhausted q'
      = (r = CriticalCapacityExhausted \<or> oq_critical_capacity_exhausted q)
    \<and> (r = CriticalCapacityExhausted
      \<longleftrightarrow> length (oq_critical q) = qc_critical_capacity (oq_config q))"
proof (cases "length (oq_critical q) = qc_critical_capacity (oq_config q)")
  case True
  with p wf show ?thesis
    by (auto simp: oq_push_critical_def oq_wf_def oq_len_def oq_view_def oq_latest_view_def)
next
  case False
  obtain ev q1 where e: "oq_evict_for_critical q = (ev, q1)" by force
  have room: "length (oq_critical q) < qc_critical_capacity (oq_config q)"
    using False wf by (auto simp: oq_wf_def)
  note w = oq_evict_for_critical_wf [OF wf e room]
  have r: "r = (case ev of None \<Rightarrow> Queued | Some e \<Rightarrow> QueuedCriticalAfterEviction e)"
    and q': "q' = q1\<lparr>oq_critical := oq_critical q1 @ [m]\<rparr>"
    using p False e by (auto simp: oq_push_critical_def)
  have rne: "r \<noteq> CriticalCapacityExhausted" by (simp add: r split: option.splits)
  have "oq_wf q'"
    using w room c by (auto simp: q' oq_wf_def oq_len_def)
  moreover have "set (oq_view q') \<subseteq> insert m (set (oq_view q))"
    using w by (auto simp: q' oq_view_def oq_latest_view_def)
  ultimately show ?thesis using w rne False by (simp add: q')
qed

lemma oq_push_latest_keyed_wf:
  assumes wf: "oq_wf q" and key: "om_scoped_coalesce_key m = Some key"
    and rep: "is_replaceable (om_delivery m)" and p: "oq_push_latest_keyed key m q = (r, q')"
  shows "oq_wf q' \<and> oq_config q' = oq_config q \<and> set (oq_view q') \<subseteq> insert m (set (oq_view q))
    \<and> oq_critical q' = oq_critical q
    \<and> oq_critical_capacity_exhausted q' = oq_critical_capacity_exhausted q
    \<and> is_ok r \<and> (m \<in> set (oq_latest_view q') \<or> r = Inr DroppedLatest \<and> q' = q)"
proof -
  let ?cap = "qc_latest_capacity (oq_config q)"
  have inserted: "oq_wf (oq_insert_latest key m q1)
      \<and> set (oq_view (oq_insert_latest key m q1)) \<subseteq> insert m (set (oq_view q))
      \<and> m \<in> set (oq_latest_view (oq_insert_latest key m q1))"
    if "oq_wf q1" "bt_get (oq_latest q1) key = None" "bt_len (oq_latest q1) < ?cap"
      "oq_len q1 < qc_total_capacity (oq_config q)" "oq_config q1 = oq_config q"
      "set (oq_view q1) \<subseteq> set (oq_view q)" for q1
    using oq_insert_latest_wf [OF that(1) _ key rep] that
    by (auto simp: bt_contains_key_def oq_view_def oq_insert_latest_def)
  consider
      (replace) "bt_contains_key (oq_latest q) key" "r = Inr ReplacedLatest"
        "q' = oq_replace_latest key m q"
    | (zero) "r = Inr DroppedLatest" "q' = q"
    | (other) "\<not> bt_contains_key (oq_latest q) key" "?cap \<noteq> 0"
    using p by (auto simp: oq_push_latest_keyed_def split: if_splits)
  then show ?thesis
  proof cases
    case replace
    with oq_replace_latest_wf [OF wf replace(1) key rep] show ?thesis
      by (auto simp: oq_view_def oq_replace_latest_def)
  next
    case zero
    with wf show ?thesis by (auto simp: oq_view_def)
  next
    case other
    then have none: "bt_get (oq_latest q) key = None" by (simp add: bt_contains_key_def)
    obtain ev q1 where e1: "oq_evict_oldest_latest q = (ev, q1)" by force
    note w1 = oq_evict_wf [OF wf e1]
    have none1: "bt_get (oq_latest q1) key = None" using w1(8) [of key] none by auto
    have view1: "set (oq_view q1) \<subseteq> set (oq_view q)"
      using w1(2,3,9) by (auto simp: oq_view_def dest: list.set_sel(2) split: if_splits)
        (metis list.set_sel(2) tl_Nil)
    have le: "bt_len (oq_latest q) \<le> ?cap" "oq_len q \<le> qc_total_capacity (oq_config q)"
      using wf by (auto simp: oq_wf_def)
    show ?thesis
    proof (cases "bt_len (oq_latest q) = ?cap \<or> oq_len q = qc_total_capacity (oq_config q)")
      case False
      then have "r = Inr Queued" "q' = oq_insert_latest key m q"
        using p other by (auto simp: oq_push_latest_keyed_def)
      with inserted [OF wf none _ _ refl subset_refl] False le show ?thesis
        by (simp add: oq_insert_latest_def)
    next
      case full: True
      show ?thesis
      proof (cases ev)
        case (Some evicted)
        then have rq: "r = Inr (EvictedLatest evicted)" "q' = oq_insert_latest key m q1"
          using p other full e1 by (auto simp: oq_push_latest_keyed_def split: if_splits)
        with inserted [OF w1(1) none1 _ _ w1(4) view1] w1(2,4,5,7) le Some show ?thesis
          by (simp add: oq_insert_latest_def)
      next
        case None
        then have q1: "q1 = q" "oq_latest_order q = []" using w1(6) by auto
        then have "bt_len (oq_latest q) = 0" using oq_wf_order_len [OF wf] by simp
        then have nf: "bt_len (oq_latest q) \<noteq> ?cap" using other by auto
        obtain b q2 where e2: "oq_pop_best_effort q1 = (b, q2)" by force
        note w2 = oq_pop_best_effort_wf [OF w1(1) e2]
        show ?thesis
        proof (cases b)
          case None
          then have "r = Inr DroppedLatest" "q' = q"
            using p other full nf e1 e2 \<open>ev = None\<close> w2(7) q1
            by (auto simp: oq_push_latest_keyed_def)
          with wf show ?thesis by (auto simp: oq_view_def)
        next
          case (Some x)
          have rq: "r = Inr EvictedBestEffortForLatest" "q' = oq_insert_latest key m q2"
            using p other full nf e1 e2 \<open>ev = None\<close> Some by (auto simp: oq_push_latest_keyed_def)
          have "set (oq_view q2) \<subseteq> set (oq_view q)"
            using w2 q1 by (auto simp: oq_view_def oq_latest_view_def)
          with inserted [OF w2(1) _ _ _ _ this] rq w2 q1 none le nf Some show ?thesis
            by (simp add: oq_insert_latest_def)
        qed
      qed
    qed
  qed
qed

lemma oq_push_best_effort_wf:
  assumes wf: "oq_wf q" and d: "om_delivery m = BestEffortEvent"
    and p: "oq_push_best_effort m q = (r, q')"
  shows "oq_wf q' \<and> oq_config q' = oq_config q
    \<and> oq_view q' = (if r = DroppedBestEffort then oq_view q else oq_view q @ [m])
    \<and> oq_critical q' = oq_critical q
    \<and> oq_critical_capacity_exhausted q' = oq_critical_capacity_exhausted q"
  using assms
  by (auto simp: oq_push_best_effort_def oq_wf_def oq_len_def oq_view_def oq_latest_view_def
      split: if_splits)

text \<open>One statement for a push of any class.\<close>

lemma delivery_best_effort: "\<not> is_critical d \<Longrightarrow> \<not> is_replaceable d \<Longrightarrow> d = BestEffortEvent"
  by (cases d) auto

lemma oq_push_wf:
  assumes wf: "oq_wf q" and p: "oq_push m q = (r, q')"
  shows "oq_wf q' \<and> oq_config q' = oq_config q \<and> set (oq_view q') \<subseteq> insert m (set (oq_view q))
    \<and> oq_critical q' = (if is_critical (om_delivery m) \<and> r \<noteq> Inr CriticalCapacityExhausted
        then oq_critical q @ [m] else oq_critical q)
    \<and> oq_critical_capacity_exhausted q'
        = (is_critical (om_delivery m) \<and> r = Inr CriticalCapacityExhausted
           \<or> oq_critical_capacity_exhausted q)
    \<and> (is_ok r \<or> r = Inl MissingCoalesceKey \<and> q' = q \<and> is_replaceable (om_delivery m)
         \<and> om_coalesce_key m = None)"
proof -
  consider (crit) "is_critical (om_delivery m)" | (rep) "is_replaceable (om_delivery m)"
    | (best) "om_delivery m = BestEffortEvent"
    using delivery_best_effort by blast
  then show ?thesis
  proof cases
    case crit
    obtain r1 where "oq_push_critical m q = (r1, q')" "r = Inr r1"
      using p crit by (auto simp: oq_push_def split: prod.splits)
    with oq_push_critical_wf [OF wf crit, of r1 q'] crit show ?thesis by simp
  next
    case rep
    then have nc: "\<not> is_critical (om_delivery m)" using critical_not_replaceable by blast
    show ?thesis
    proof (cases "om_scoped_coalesce_key m")
      case None
      then have "r = Inl MissingCoalesceKey" "q' = q"
        using p rep nc by (auto simp: oq_push_def oq_push_latest_def)
      with None wf rep nc show ?thesis by (auto simp: om_scoped_coalesce_key_def)
    next
      case (Some key)
      then have "oq_push_latest_keyed key m q = (r, q')"
        using p rep nc by (simp add: oq_push_def oq_push_latest_def)
      from oq_push_latest_keyed_wf [OF wf Some rep this] nc show ?thesis by auto
    qed
  next
    case best
    then obtain r1 where "oq_push_best_effort m q = (r1, q')" "r = Inr r1"
      using p by (auto simp: oq_push_def split: prod.splits)
    with oq_push_best_effort_wf [OF wf best, of r1 q'] best show ?thesis
      by (auto split: if_splits)
  qed
qed

lemma oq_critical_view: "oq_wf q \<Longrightarrow> filter (is_critical \<circ> om_delivery) (oq_view q) = oq_critical q"
proof -
  assume wf: "oq_wf q"
  have "\<not> is_critical (om_delivery m)" if "m \<in> set (oq_latest_view q)" for m
    using that wf critical_not_replaceable by (force simp: oq_latest_view_def oq_wf_def)
  moreover have "\<not> is_critical (om_delivery m)" if "m \<in> set (oq_best_effort q)" for m
    using that wf by (auto simp: oq_wf_def)
  ultimately show ?thesis
    using wf by (auto simp: oq_view_def oq_wf_def filter_id_conv filter_empty_conv)
qed

subsection \<open>Removal\<close>

lemma oq_pop_wf:
  assumes wf: "oq_wf q" and p: "oq_pop q = (r, q')"
  shows "oq_wf q' \<and> oq_config q' = oq_config q
    \<and> oq_view q = (case r of None \<Rightarrow> [] | Some m \<Rightarrow> m # oq_view q')
    \<and> (r = None \<longrightarrow> q' = q)
    \<and> oq_critical_capacity_exhausted q' = oq_critical_capacity_exhausted q"
proof (cases "oq_critical q")
  case (Cons m ms)
  with p have "r = Some m" "q' = q\<lparr>oq_critical := ms\<rparr>" by (auto simp: oq_pop_def)
  with wf Cons show ?thesis
    by (auto simp: oq_wf_def oq_len_def oq_view_def oq_latest_view_def)
next
  case Nil
  show ?thesis
  proof (cases "oq_latest_order q")
    case (Cons key order)
    obtain r1 where e: "oq_evict_oldest_latest q = (Some key, q')" and r: "r = bt_get (oq_latest q) key"
      using p Nil Cons by (auto simp: oq_pop_def oq_evict_oldest_latest_def)
    obtain m where m: "r = Some m" using oq_wf_order [OF wf, of key] Cons r by auto
    note w = oq_evict_wf [OF wf e]
    have "oq_latest_view q = m # oq_latest_view q'"
      using w(9) Cons m r by (simp add: oq_latest_view_def)
    with w m Nil show ?thesis by (simp add: oq_view_def)
  next
    case latest: Nil
    then have e: "oq_pop_best_effort q = (r, q')" using p Nil by (simp add: oq_pop_def)
    note w = oq_pop_best_effort_wf [OF wf e]
    have "oq_best_effort q = (case r of None \<Rightarrow> [] | Some m \<Rightarrow> m # oq_best_effort q')"
      using e by (auto simp: oq_pop_best_effort_def split: list.splits)
    with w Nil latest show ?thesis
      by (auto simp: oq_view_def oq_latest_view_def split: option.splits)
  qed
qed

lemma oq_drain_wf:
  "oq_wf q \<Longrightarrow> oq_drain q = (ms, q') \<Longrightarrow>
     oq_wf q' \<and> oq_config q' = oq_config q \<and> ms = oq_view q \<and> oq_view q' = []
     \<and> oq_critical_capacity_exhausted q' = oq_critical_capacity_exhausted q"
proof (induction q arbitrary: ms q' rule: oq_drain.induct)
  case (1 q)
  obtain r q1 where p: "oq_pop q = (r, q1)" by force
  note w = oq_pop_wf [OF "1.prems"(1) p]
  show ?case
  proof (cases r)
    case None
    with p "1.prems"(2) have "ms = []" "q' = q1" by (auto simp: oq_drain.simps [of q])
    with None w show ?thesis by auto
  next
    case (Some m)
    obtain ms1 q2 where d: "oq_drain q1 = (ms1, q2)" by force
    with Some p "1.prems"(2) have "ms = m # ms1" "q' = q2" by (auto simp: oq_drain.simps [of q])
    with "1.IH" [OF p [symmetric] Some _ d] w Some show ?thesis by simp
  qed
qed

lemma oq_purge_wf:
  assumes wf: "oq_wf q" and p: "oq_purge P q = (n, q')"
  shows "oq_wf q' \<and> oq_config q' = oq_config q
    \<and> oq_view q' = filter (\<lambda>m. \<not> P m) (oq_view q) \<and> n = length (filter P (oq_view q))
    \<and> oq_critical_capacity_exhausted q' = oq_critical_capacity_exhausted q"
proof -
  let ?latest = "bt_retain (\<lambda>_ m. \<not> P m) (oq_latest q)"
  have q': "q' = q\<lparr>oq_critical := filter (\<lambda>m. \<not> P m) (oq_critical q),
      oq_best_effort := filter (\<lambda>m. \<not> P m) (oq_best_effort q), oq_latest := ?latest,
      oq_latest_order := filter (bt_contains_key ?latest) (oq_latest_order q)\<rparr>"
    and n: "n = oq_len q - oq_len q'"
    using p by (auto simp: oq_purge_def Let_def)
  have keep: "bt_contains_key ?latest k \<longleftrightarrow> (\<exists>m. bt_get (oq_latest q) k = Some m \<and> \<not> P m)" for k
    by (auto simp: bt_contains_key_def split: option.splits)
  have bounds: "length (oq_critical q') \<le> length (oq_critical q)"
    "length (oq_best_effort q') \<le> length (oq_best_effort q)"
    "bt_len (oq_latest q') \<le> bt_len (oq_latest q)"
    by (simp_all add: q' bt_len_retain_le)
  moreover from bounds have "oq_len q' \<le> oq_len q" by (simp add: oq_len_def)
  moreover have "oq_config q' = oq_config q" by (simp add: q')
  moreover have "set (oq_critical q') \<subseteq> set (oq_critical q)"
    "set (oq_best_effort q') \<subseteq> set (oq_best_effort q)" by (auto simp: q')
  moreover have "distinct (oq_latest_order q')
    \<and> (\<forall>k. k \<in> set (oq_latest_order q') \<longleftrightarrow> bt_get (oq_latest q') k \<noteq> None)
    \<and> (\<forall>k m. bt_get (oq_latest q') k = Some m \<longrightarrow> bt_get (oq_latest q) k = Some m)"
    using wf by (auto simp: q' keep oq_wf_def split: option.splits if_splits)
  ultimately have wf': "oq_wf q'"
    using wf unfolding oq_wf_def by (auto intro: order_trans) (metis option.inject)+
  have "oq_latest_view q' = filter (\<lambda>m. \<not> P m) (oq_latest_view q)"
  proof -
    have some: "\<exists>m. bt_get (oq_latest q) k = Some m" if "k \<in> set (oq_latest_order q)" for k
      using wf that by (auto simp: oq_wf_def)
    have "filter (bt_contains_key ?latest) (oq_latest_order q)
        = filter (\<lambda>k. \<not> P (the (bt_get (oq_latest q) k))) (oq_latest_order q)"
      using some by (intro filter_cong) (auto simp: keep dest!: some)
    moreover have "map (\<lambda>k. the (bt_get ?latest k)) (filter (bt_contains_key ?latest) (oq_latest_order q))
        = map (\<lambda>k. the (bt_get (oq_latest q) k)) (filter (bt_contains_key ?latest) (oq_latest_order q))"
      by (auto simp: keep)
    ultimately show ?thesis
      by (simp add: oq_latest_view_def q' filter_map comp_def)
  qed
  then have view: "oq_view q' = filter (\<lambda>m. \<not> P m) (oq_view q)"
    by (simp add: oq_view_def q')
  have "n = length (oq_view q) - length (filter (\<lambda>m. \<not> P m) (oq_view q))"
    using n wf wf' view by (simp add: oq_view_length [symmetric])
  also have "\<dots> = length (filter P (oq_view q))"
    using sum_length_filter_compl [of P "oq_view q"] by simp
  finally show ?thesis using wf' view by (simp add: q')
qed

section \<open>Contract\<close>

text \<open>
  What the core relies on when it fans messages out: a push keeps the queue well formed and
  bounded, adds nothing but the message, and either appends a critical message to those already
  waiting or marks the queue's consumer as slow; other pushes leave critical messages alone.
\<close>

locale delivery_queue =
  fixes push :: "'m \<Rightarrow> 'q \<Rightarrow> 'r \<times> 'q"
    and drain :: "'q \<Rightarrow> 'm list \<times> 'q"
    and view :: "'q \<Rightarrow> 'm list"
    and wf :: "'q \<Rightarrow> bool"
    and cap :: "'q \<Rightarrow> nat"
    and slow :: "'q \<Rightarrow> bool"
    and crit :: "'m \<Rightarrow> bool"
  assumes push_wf: "wf q \<Longrightarrow> push m q = (r, q') \<Longrightarrow> wf q' \<and> cap q' = cap q"
    and push_view: "wf q \<Longrightarrow> push m q = (r, q') \<Longrightarrow> set (view q') \<subseteq> insert m (set (view q))"
    and push_critical: "wf q \<Longrightarrow> push m q = (r, q') \<Longrightarrow> \<not> slow q' \<Longrightarrow>
      filter crit (view q') = filter crit (view q) @ (if crit m then [m] else [])"
    and push_slow: "wf q \<Longrightarrow> push m q = (r, q') \<Longrightarrow> slow q \<Longrightarrow> slow q'"
    and view_cap: "wf q \<Longrightarrow> length (view q) \<le> cap q"
    and drain_view: "wf q \<Longrightarrow> drain q = (ms, q') \<Longrightarrow>
      ms = view q \<and> wf q' \<and> view q' = [] \<and> slow q' = slow q"
begin

definition push_all :: "'m list \<Rightarrow> 'q \<Rightarrow> 'q" where
  "push_all ms q = foldl (\<lambda>q m. snd (push m q)) q ms"

lemma push_all_wf: "wf q \<Longrightarrow> wf (push_all ms q) \<and> cap (push_all ms q) = cap q"
proof (induction ms arbitrary: q)
  case (Cons m ms)
  then show ?case
    using push_wf [OF Cons.prems, of m "fst (push m q)" "snd (push m q)"]
    by (simp add: push_all_def)
qed (simp add: push_all_def)

lemma push_all_slow: "wf q \<Longrightarrow> slow q \<Longrightarrow> slow (push_all ms q)"
proof (induction ms arbitrary: q)
  case (Cons m ms)
  then show ?case
    using push_slow [OF Cons.prems(1), of m "fst (push m q)" "snd (push m q)"]
      push_wf [OF Cons.prems(1), of m "fst (push m q)" "snd (push m q)"]
    by (simp add: push_all_def)
qed (simp add: push_all_def)

lemma push_all_critical:
  "wf q \<Longrightarrow> \<not> slow (push_all ms q) \<Longrightarrow>
     filter crit (view (push_all ms q)) = filter crit (view q) @ filter crit ms"
proof (induction ms arbitrary: q)
  case (Cons m ms)
  obtain r q1 where p: "push m q = (r, q1)" by force
  have eq: "push_all (m # ms) q = push_all ms q1" by (simp add: push_all_def p)
  have wf1: "wf q1" using push_wf [OF Cons.prems(1) p] by simp
  have ns: "\<not> slow (push_all ms q1)" using Cons.prems(2) eq by simp
  then have "\<not> slow q1" using push_all_slow [OF wf1] by blast
  then show ?case
    using Cons.IH [OF wf1 ns] push_critical [OF Cons.prems(1) p] by (simp add: eq)
qed (simp add: push_all_def)

lemma drain_bounded:
  assumes "wf q" "drain (push_all ms q) = (out, q')"
  shows "length out \<le> cap q"
  using drain_view [OF _ assms(2)] view_cap push_all_wf [OF assms(1)] by metis

end

interpretation oq: delivery_queue oq_push oq_drain oq_view oq_wf oq_capacity oq_is_slow_consumer
  "is_critical \<circ> om_delivery"
proof (unfold_locales, goal_cases)
  case (1 q m r q')
  with oq_push_wf [OF 1] show ?case by (simp add: oq_capacity_def)
next
  case (2 q m r q')
  with oq_push_wf [OF 2] show ?case by simp
next
  case (3 q m r q')
  have "filter (is_critical \<circ> om_delivery) (oq_view q') = oq_critical q'"
    "filter (is_critical \<circ> om_delivery) (oq_view q) = oq_critical q"
    using oq_push_wf [OF 3(1,2)] 3(1) by (simp_all add: oq_critical_view)
  with oq_push_wf [OF 3(1,2)] 3(3) show ?case by (auto simp: oq_is_slow_consumer_def)
next
  case (4 q m r q')
  with oq_push_wf [OF 4(1,2)] show ?case by (simp add: oq_is_slow_consumer_def)
next
  case (5 q)
  then show ?case by (rule oq_wf_bounded)
next
  case (6 q ms q')
  with oq_drain_wf [OF 6] show ?case by (simp add: oq_is_slow_consumer_def)
qed

definition oq_push_all :: "outbound_message list \<Rightarrow> outbound_queue \<Rightarrow> outbound_queue" where
  "oq_push_all ms q = foldl (\<lambda>q m. snd (oq_push m q)) q ms"

lemma oq_push_all_eq: "oq_push_all = oq.push_all"
  by (simp add: fun_eq_iff oq_push_all_def oq.push_all_def)

section \<open>Coalescing\<close>

text \<open>At most one waiting replaceable message per scoped key.\<close>

lemma oq_latest_view_distinct:
  assumes wf: "oq_wf q"
  shows "distinct (map om_scoped_coalesce_key (oq_latest_view q))"
proof -
  have "map om_scoped_coalesce_key (oq_latest_view q) = map Some (oq_latest_order q)"
    unfolding oq_latest_view_def list.map_comp comp_def
    by (rule map_cong [OF refl]) (use oq_wf_order [OF wf] oq_wf_latest [OF wf] in fastforce)
  then show ?thesis using wf by (simp add: distinct_map oq_wf_def)
qed

text \<open>
  The outcome of pushing a replaceable message: it is waiting under its key, and it is the
  only one, unless the class has no capacity or the queue is full of critical messages.
\<close>

lemma oq_push_latest_outcome:
  assumes wf: "oq_wf q" and rep: "is_replaceable (om_delivery m)"
    and key: "om_scoped_coalesce_key m = Some key" and p: "oq_push m q = (r, q')"
  shows "bt_get (oq_latest q') key = Some m \<or> r = Inr DroppedLatest \<and> q' = q"
proof -
  have "\<not> is_critical (om_delivery m)" using rep critical_not_replaceable by blast
  then have pk: "oq_push_latest_keyed key m q = (r, q')"
    using p rep key by (simp add: oq_push_def oq_push_latest_def)
  note w = oq_push_latest_keyed_wf [OF wf key rep pk]
  show ?thesis
  proof (cases "m \<in> set (oq_latest_view q')")
    case True
    then obtain k where k: "k \<in> set (oq_latest_order q')" "m = the (bt_get (oq_latest q') k)"
      by (auto simp: oq_latest_view_def)
    then have "bt_get (oq_latest q') k = Some m" using oq_wf_order w by fastforce
    moreover from this have "k = key" using oq_wf_latest w key by fastforce
    ultimately show ?thesis by simp
  next
    case False
    with w show ?thesis by blast
  qed
qed

section \<open>Properties\<close>

text \<open>
  C17. Critical messages are delivered in order and without loss, or the consumer is flagged:
  pushing any sequence of messages of any class and then draining yields, among the critical
  messages, those that waited before followed by those pushed, in order.
\<close>

theorem critical_delivery_in_order:
  assumes "oq_wf q" and "oq_drain (oq_push_all ms q) = (out, q')" and "\<not> oq_is_slow_consumer q'"
  shows "filter (is_critical \<circ> om_delivery) out
    = filter (is_critical \<circ> om_delivery) (oq_view q) @ filter (is_critical \<circ> om_delivery) ms"
  using oq.push_all_critical [OF assms(1)] oq.push_all_wf [OF assms(1)]
    oq.drain_view [OF _ assms(2)] assms(3)
  by (simp add: oq_push_all_eq)

text \<open>
  C24. The queue never exceeds its configured total: from a fresh queue, whatever is pushed,
  at most \<open>total_capacity\<close> messages come out of a drain, and the drain empties the queue.
\<close>

theorem queue_bounded:
  assumes "oq_new c = Inr q" and "oq_drain (oq_push_all ms q) = (out, q')"
  shows "length out \<le> qc_total_capacity c \<and> oq_is_empty q'"
proof -
  have q: "oq_wf q" "oq_config q = c" using oq_new_wf [OF assms(1)] by auto
  have "oq_wf q'" "oq_view q' = []"
    using oq.drain_view [OF _ assms(2)] oq.push_all_wf [OF q(1)] by (auto simp: oq_push_all_eq)
  then have "oq_len q' = 0" using oq_view_length by fastforce
  then show ?thesis
    using oq.drain_bounded [OF q(1)] assms(2) q(2)
    by (simp add: oq_push_all_eq oq_is_empty_def oq_capacity_def)
qed

text \<open>
  C23. Coalescing: after a replaceable message is accepted, exactly one message waits under its
  scoped key, and it is the new one; it can only be dropped when the queue is left untouched.
\<close>

theorem latest_value_wins:
  assumes "oq_wf q" and "is_replaceable (om_delivery m)"
    and "om_scoped_coalesce_key m = Some key" and "oq_push m q = (r, q')"
  shows "(r = Inr DroppedLatest \<and> q' = q)
    \<or> filter (\<lambda>x. om_scoped_coalesce_key x = Some key) (oq_latest_view q') = [m]"
  using oq_push_latest_outcome [OF assms]
proof
  assume g: "bt_get (oq_latest q') key = Some m"
  have wf: "oq_wf q'" using oq_push_wf [OF assms(1,4)] by simp
  have mem: "m \<in> set (oq_latest_view q')"
    using g oq_wf_order [OF wf, of key] by (force simp: oq_latest_view_def image_iff)
  have inj: "inj_on om_scoped_coalesce_key (set (oq_latest_view q'))"
    and d: "distinct (oq_latest_view q')"
    using oq_latest_view_distinct [OF wf] by (simp_all add: distinct_map)
  have only: "x = m" if "x \<in> set (oq_latest_view q')" "om_scoped_coalesce_key x = Some key" for x
    by (rule inj_onD [OF inj]) (use that mem assms(3) in simp_all)
  have "set (filter (\<lambda>x. om_scoped_coalesce_key x = Some key) (oq_latest_view q')) = {m}"
    using mem assms(3) by (auto dest: only)
  moreover from d have "distinct (filter (\<lambda>x. om_scoped_coalesce_key x = Some key) (oq_latest_view q'))"
    by simp
  ultimately show ?thesis by (simp add: distinct_singleton)
qed auto

text \<open>
  No push panics or refuses a message that carries its key: the synchronisation the
  \<open>expect\<close> in \<open>push_latest\<close> relies on holds in every well-formed queue, and the only
  error is a replaceable message without a coalescing key.
\<close>

theorem oq_push_no_panic:
  assumes "oq_wf q" and "oq_push m q = (r, q')"
  shows "r \<noteq> Inl QueueSyncPanic \<and> oq_wf q'
    \<and> (r = Inl MissingCoalesceKey \<longrightarrow> is_replaceable (om_delivery m) \<and> om_coalesce_key m = None \<and> q' = q)"
  using oq_push_wf [OF assms] by auto

text \<open>
  A purge removes exactly the messages that satisfy the predicate, keeps the delivery order
  of the rest, and reports how many it removed.
\<close>

theorem purge_exact:
  assumes "oq_wf q" and "oq_purge P q = (n, q')"
  shows "oq_view q' = filter (\<lambda>m. \<not> P m) (oq_view q) \<and> n = length (filter P (oq_view q))
    \<and> oq_wf q'"
  using oq_purge_wf [OF assms] by simp

section \<open>Witnesses\<close>

definition demo_queue_config :: outbound_queue_config where
  "demo_queue_config = \<lparr>qc_total_capacity = 3, qc_critical_capacity = 2,
     qc_latest_capacity = 1, qc_best_effort_capacity = 1\<rparr>"

definition demo_queue :: outbound_queue where
  "demo_queue = \<lparr>oq_config = demo_queue_config, oq_critical = [], oq_latest_order = [],
     oq_latest = bt_new, oq_best_effort = [], oq_critical_capacity_exhausted = False\<rparr>"

definition demo_message :: "delivery_class \<Rightarrow> u64 \<Rightarrow> outbound_message" where
  "demo_message delivery sequence = \<lparr>om_namespace = 1, om_session = 2, om_space = 3, om_space_epoch = 1,
     om_entity = None, om_channel = 4, om_sequence = sequence, om_delivery = delivery,
     om_persistence = Ephemeral, om_coalesce_key = Some (CoalesceKey 4 None 0), om_payload = [7]\<rparr>"

lemmas demo_queue_defs = demo_queue_def demo_queue_config_def demo_message_def

lemma demo_queue_new: "oq_new demo_queue_config = Inr demo_queue"
  by (simp add: oq_new_def qc_validate_def demo_queue_defs)

lemma demo_queue_wf: "oq_wf demo_queue"
  using oq_new_wf [OF demo_queue_new] by simp

lemmas oq_eval = oq_push_all_def oq_push_def oq_push_critical_def oq_evict_for_critical_def
  oq_push_latest_def oq_push_latest_keyed_def oq_evict_oldest_latest_def oq_replace_latest_def
  oq_insert_latest_def oq_push_best_effort_def oq_pop_best_effort_def oq_len_def oq_view_def
  oq_latest_view_def om_scoped_coalesce_key_def oq_purge_def oq_is_slow_consumer_def

lemma critical_delivery_in_order_witness:
  "\<exists>out q'. oq_drain (oq_push_all
      [demo_message LatestValue 1, demo_message ReliableOrdered 2, demo_message ReliableOrdered 3] demo_queue)
      = (out, q')
    \<and> filter (is_critical \<circ> om_delivery) out = [demo_message ReliableOrdered 2, demo_message ReliableOrdered 3]"
proof -
  let ?ms = "[demo_message LatestValue 1, demo_message ReliableOrdered 2, demo_message ReliableOrdered 3]"
  obtain out q' where d: "oq_drain (oq_push_all ?ms demo_queue) = (out, q')" by force
  have "\<not> oq_is_slow_consumer (oq_push_all ?ms demo_queue)"
    by (simp add: oq_eval demo_queue_defs eval)
  then have "\<not> oq_is_slow_consumer q'"
    using oq.drain_view [OF _ d] oq.push_all_wf [OF demo_queue_wf] by (simp add: oq_push_all_eq)
  from critical_delivery_in_order [OF demo_queue_wf d this] d show ?thesis
    by (simp add: oq_view_def oq_latest_view_def demo_queue_defs)
qed

lemma queue_bounded_witness:
  "length (fst (oq_drain (oq_push_all (replicate 9 (demo_message ReliableOrdered 2)) demo_queue))) \<le> 3"
  using queue_bounded [OF demo_queue_new, of "replicate 9 (demo_message ReliableOrdered 2)"]
  by (cases "oq_drain (oq_push_all (replicate 9 (demo_message ReliableOrdered 2)) demo_queue)")
    (simp add: demo_queue_config_def)

lemma latest_value_wins_witness:
  "\<exists>r q'. oq_push (demo_message LatestValue 2) (snd (oq_push (demo_message LatestValue 1) demo_queue)) = (r, q')
    \<and> filter (\<lambda>x. om_scoped_coalesce_key x = Some (ScopedCoalesceKey 1 2 3 1 (CoalesceKey 4 None 0)))
        (oq_latest_view q') = [demo_message LatestValue 2]"
proof -
  let ?q = "snd (oq_push (demo_message LatestValue 1) demo_queue)"
  have wf: "oq_wf ?q" using oq_push_wf [OF demo_queue_wf, of "demo_message LatestValue 1"]
    by (cases "oq_push (demo_message LatestValue 1) demo_queue") simp
  obtain r q' where p: "oq_push (demo_message LatestValue 2) ?q = (r, q')" by force
  then have "r = Inr ReplacedLatest"
    by (auto simp: oq_eval demo_queue_defs eval)
  then show ?thesis
    using latest_value_wins [OF wf _ _ p] p by (auto simp: demo_message_def om_scoped_coalesce_key_def)
qed

lemma oq_push_no_panic_witness:
  "fst (oq_push ((demo_message LatestValue 1)\<lparr>om_coalesce_key := None\<rparr>) demo_queue) \<noteq> Inl QueueSyncPanic"
  using oq_push_no_panic [OF demo_queue_wf, of "(demo_message LatestValue 1)\<lparr>om_coalesce_key := None\<rparr>"]
  by (cases "oq_push ((demo_message LatestValue 1)\<lparr>om_coalesce_key := None\<rparr>) demo_queue") simp

lemma purge_exact_witness:
  "fst (oq_purge (\<lambda>m. om_sequence m = 2) (oq_push_all [demo_message ReliableOrdered 1,
     demo_message ReliableOrdered 2] demo_queue)) = 1"
proof -
  let ?q = "oq_push_all [demo_message ReliableOrdered 1, demo_message ReliableOrdered 2] demo_queue"
  obtain n q' where p: "oq_purge (\<lambda>m. om_sequence m = 2) ?q = (n, q')" by force
  have "oq_view ?q = [demo_message ReliableOrdered 1, demo_message ReliableOrdered 2]"
    by (simp add: oq_eval demo_queue_defs eval)
  with purge_exact [OF _ p] oq.push_all_wf [OF demo_queue_wf] p show ?thesis
    by (simp add: oq_push_all_eq demo_message_def)
qed

end
