(* ===== verification/Journal.thy ===== *)
theory Journal
  imports Model
begin

text \<open>
  The durable-message outbox, \<^verbatim>\<open>woven-core/src/journal.rs\<close>: a bounded FIFO of records
  that a deployment drains into its sink. \<^verbatim>\<open>JournalSink\<close> implementations are outside the
  core (the shipped one does nothing) and are not modelled.
\<close>

record journal_record =
  jr_message :: outbound_message

datatype journal_outbox_error = JournalFull

record journal_outbox =
  jo_capacity :: usize
  jo_records :: "journal_record list"

definition jo_new :: "usize \<Rightarrow> journal_outbox" where
  "jo_new capacity = \<lparr>jo_capacity = capacity, jo_records = []\<rparr>"

definition jo_push :: "journal_record \<Rightarrow> journal_outbox \<Rightarrow> journal_outbox_error + journal_outbox" where
  "jo_push r j =
     (if length (jo_records j) = jo_capacity j then Inl JournalFull
      else Inr (j\<lparr>jo_records := jo_records j @ [r]\<rparr>))"

definition jo_pop :: "journal_outbox \<Rightarrow> journal_record option \<times> journal_outbox" where
  "jo_pop j = (case jo_records j of [] \<Rightarrow> (None, j) | r # rs \<Rightarrow> (Some r, j\<lparr>jo_records := rs\<rparr>))"

definition jo_len :: "journal_outbox \<Rightarrow> usize" where
  "jo_len j = length (jo_records j)"

definition jo_is_empty :: "journal_outbox \<Rightarrow> bool" where
  "jo_is_empty j = (jo_records j = [])"

definition jo_remaining_capacity :: "journal_outbox \<Rightarrow> usize" where
  "jo_remaining_capacity j = jo_capacity j - length (jo_records j)"

definition jo_wf :: "journal_outbox \<Rightarrow> bool" where
  "jo_wf j \<longleftrightarrow> length (jo_records j) \<le> jo_capacity j"

declare jo_new_def [eval] jo_push_def [eval] jo_pop_def [eval] jo_remaining_capacity_def [eval]

section \<open>Bounded FIFO contract\<close>

text \<open>
  The interface of the bounded queues that refuse rather than evict: a push either appends or
  fails on a full queue, a pop takes the oldest item.
\<close>

locale bounded_fifo =
  fixes push :: "'a \<Rightarrow> 'q \<Rightarrow> 'e + 'q"
    and pop :: "'q \<Rightarrow> 'a option \<times> 'q"
    and items :: "'q \<Rightarrow> 'a list"
    and cap :: "'q \<Rightarrow> nat"
    and wf :: "'q \<Rightarrow> bool"
  assumes push_ok: "wf q \<Longrightarrow> length (items q) < cap q \<Longrightarrow>
      \<exists>q'. push x q = Inr q' \<and> items q' = items q @ [x] \<and> cap q' = cap q \<and> wf q'"
    and push_full: "wf q \<Longrightarrow> \<not> length (items q) < cap q \<Longrightarrow> \<exists>e. push x q = Inl e"
    and pop_items: "wf q \<Longrightarrow> pop q = (r, q') \<Longrightarrow>
      items q = (case r of None \<Rightarrow> [] | Some x \<Rightarrow> x # items q') \<and> cap q' = cap q \<and> wf q'"
    and wf_items: "wf q \<Longrightarrow> length (items q) \<le> cap q"
begin

fun push_list :: "'a list \<Rightarrow> 'q \<Rightarrow> 'e + 'q" where
  "push_list [] q = Inr q"
| "push_list (x # xs) q = and_then (push x q) (push_list xs)"

lemma push_list_ok:
  "wf q \<Longrightarrow> length xs \<le> cap q - length (items q) \<Longrightarrow>
   \<exists>q'. push_list xs q = Inr q' \<and> items q' = items q @ xs \<and> cap q' = cap q \<and> wf q'"
proof (induction xs arbitrary: q)
  case (Cons x xs)
  then have "length (items q) < cap q" using wf_items [of q] by auto
  with Cons.prems(1) obtain q1
    where q1: "push x q = Inr q1" "items q1 = items q @ [x]" "cap q1 = cap q" "wf q1"
    using push_ok by blast
  with Cons.IH [of q1] Cons.prems(2) show ?case by auto
qed simp

lemma push_list_items:
  "wf q \<Longrightarrow> push_list xs q = Inr q' \<Longrightarrow> items q' = items q @ xs \<and> cap q' = cap q \<and> wf q'"
proof (induction xs arbitrary: q)
  case (Cons x xs)
  from Cons.prems(2) obtain q1 where q1: "push x q = Inr q1" "push_list xs q1 = Inr q'"
    by (auto simp: result_ok)
  have "items q1 = items q @ [x] \<and> cap q1 = cap q \<and> wf q1"
  proof (cases "length (items q) < cap q")
    case True
    with push_ok [OF Cons.prems(1) True, of x] q1(1) show ?thesis by auto
  next
    case False
    with push_full [OF Cons.prems(1) False, of x] q1(1) show ?thesis by auto
  qed
  with Cons.IH [OF _ q1(2)] show ?case by simp
qed simp

end

interpretation jo: bounded_fifo jo_push jo_pop jo_records jo_capacity jo_wf
  by unfold_locales (auto simp: jo_push_def jo_pop_def jo_wf_def split: list.splits)

end
