(* ===== verification/Usage.thy ===== *)
theory Usage
  imports Ids
begin

text \<open>
  Usage telemetry, \<^verbatim>\<open>woven-core/src/usage.rs\<close>: the per-session counters, the bounded
  in-memory sink, the spooling sink around another sink, and the window aggregator.

  The 26 atomics of \<^verbatim>\<open>UsageCounters\<close> are the fields of one \<open>usage_metrics\<close> record,
  which is also what a snapshot returns; every method is one atomic step. Counters wrap at 64 bits
  as \<^verbatim>\<open>fetch_add\<close> does. Sinks are state-passing functions; the one that
  writes to a file and the contract they share are in the theory \<^verbatim>\<open>UsageSinks\<close>.
\<close>

section \<open>Metadata, metrics, windows\<close>

text \<open>\<^verbatim>\<open>AdmissionMetadata\<close> is declared in \<^verbatim>\<open>admission.rs\<close> and used by both modules.\<close>

record admission_metadata =
  am_node_id :: node_id
  am_session :: session_key

record usage_metrics =
  join_attempts :: u64
  immediate_admissions :: u64
  queued_joins :: u64
  queue_full_rejections :: u64
  paused_rejections :: u64
  auth_rejections :: u64
  reconnect_reservations :: u64
  successful_resumes :: u64
  promoted_players :: u64
  expired_tickets :: u64
  cancelled_tickets :: u64
  abandoned_offers :: u64
  events_received :: u64
  events_delivered :: u64
  events_dropped :: u64
  bytes_received :: u64
  bytes_delivered :: u64
  persistence_reads :: u64
  persistence_writes :: u64
  inference_requests :: u64
  capacity_allocations :: u64
  active_ccu :: u32
  peak_ccu :: u32
  queue_depth :: u32
  peak_queue_depth :: u32
  connection_seconds :: u64

definition metrics_default :: usage_metrics where
  "metrics_default =
     \<lparr>join_attempts = 0, immediate_admissions = 0, queued_joins = 0, queue_full_rejections = 0,
      paused_rejections = 0, auth_rejections = 0, reconnect_reservations = 0,
      successful_resumes = 0, promoted_players = 0, expired_tickets = 0, cancelled_tickets = 0,
      abandoned_offers = 0, events_received = 0, events_delivered = 0, events_dropped = 0,
      bytes_received = 0, bytes_delivered = 0, persistence_reads = 0, persistence_writes = 0,
      inference_requests = 0, capacity_allocations = 0, active_ccu = 0, peak_ccu = 0,
      queue_depth = 0, peak_queue_depth = 0, connection_seconds = 0\<rparr>"

type_synonym system_time = nat

record usage_window =
  uw_schema_version :: u16
  uw_node_id :: node_id
  uw_session :: session_key
  uw_window_start :: system_time
  uw_window_end :: system_time
  uw_sequence :: u64
  uw_capacity_revision :: u64
  uw_allocated_ccu :: u32
  uw_metrics :: usage_metrics

definition usage_schema_version :: u16 where
  "usage_schema_version = 1"

definition default_usage_window :: duration where
  "default_usage_window = duration_from_secs 60"

definition default_spool_capacity :: usize where
  "default_spool_capacity = 1024"

text \<open>Decimal formatting of an unsigned integer.\<close>

fun show_nat :: "nat \<Rightarrow> string" where
  "show_nat n = (if n < 10 then [char_of (48 + n)]
     else show_nat (n div 10) @ [char_of (48 + n mod 10)])"

declare show_nat.simps [simp del]

definition idempotency_id :: "usage_window \<Rightarrow> string" where
  "idempotency_id w = ''swu:'' @ show_nat (unat (uw_schema_version w)) @ '':''
     @ show_nat (unat (uw_node_id w)) @ '':''
     @ show_nat (unat (sk_namespace (uw_session w))) @ '':''
     @ show_nat (unat (sk_session (uw_session w))) @ '':''
     @ show_nat (unat (uw_sequence w))"

section \<open>Counters\<close>

type_synonym connection_handle = u64

record active_connection =
  con_handle :: connection_handle
  con_principal :: principal_id
  con_started :: instant

record usage_counters =
  uc_metadata :: admission_metadata
  uc_next_handle :: u64
  uc_metrics :: usage_metrics
  uc_active :: "active_connection list"

definition uc_new :: "admission_metadata \<Rightarrow> usage_counters" where
  "uc_new metadata = \<lparr>uc_metadata = metadata, uc_next_handle = 1, uc_metrics = metrics_default,
     uc_active = []\<rparr>"

definition start_connection ::
  "principal_id \<Rightarrow> instant \<Rightarrow> usage_counters \<Rightarrow> connection_handle \<times> usage_counters" where
  "start_connection p now c =
     (let handle = uc_next_handle c in
      (handle, c\<lparr>uc_next_handle := uc_next_handle c + 1,
        uc_active := uc_active c @ [\<lparr>con_handle = handle, con_principal = p,
                                     con_started = now\<rparr>]\<rparr>))"

definition elapsed_seconds :: "instant \<Rightarrow> instant \<Rightarrow> nat" where
  "elapsed_seconds now started = duration_as_secs (saturating_duration_since now started)"

definition end_connection ::
  "connection_handle \<Rightarrow> instant \<Rightarrow> usage_counters \<Rightarrow> usage_counters" where
  "end_connection handle now c =
     (case position (\<lambda>conn. con_handle conn = handle) (uc_active c) of
        None \<Rightarrow> c
      | Some index \<Rightarrow>
          c\<lparr>uc_active := swap_remove index (uc_active c),
            uc_metrics := (uc_metrics c)\<lparr>connection_seconds := connection_seconds (uc_metrics c)
              + of_nat (elapsed_seconds now (con_started (uc_active c ! index)))\<rparr>\<rparr>)"

definition uc_update :: "(usage_metrics \<Rightarrow> usage_metrics) \<Rightarrow> usage_counters \<Rightarrow> usage_counters" where
  "uc_update f c = c\<lparr>uc_metrics := f (uc_metrics c)\<rparr>"

definition increment_join_attempts :: "usage_counters \<Rightarrow> usage_counters" where
  "increment_join_attempts = uc_update (join_attempts_update (\<lambda>x. x + 1))"

definition increment_immediate_admissions :: "usage_counters \<Rightarrow> usage_counters" where
  "increment_immediate_admissions = uc_update (immediate_admissions_update (\<lambda>x. x + 1))"

definition increment_queued_joins :: "usage_counters \<Rightarrow> usage_counters" where
  "increment_queued_joins = uc_update (queued_joins_update (\<lambda>x. x + 1))"

definition increment_queue_full_rejections :: "usage_counters \<Rightarrow> usage_counters" where
  "increment_queue_full_rejections = uc_update (queue_full_rejections_update (\<lambda>x. x + 1))"

definition increment_paused_rejections :: "usage_counters \<Rightarrow> usage_counters" where
  "increment_paused_rejections = uc_update (paused_rejections_update (\<lambda>x. x + 1))"

definition increment_auth_rejections :: "usage_counters \<Rightarrow> usage_counters" where
  "increment_auth_rejections = uc_update (auth_rejections_update (\<lambda>x. x + 1))"

definition increment_reconnect_reservations :: "usage_counters \<Rightarrow> usage_counters" where
  "increment_reconnect_reservations = uc_update (reconnect_reservations_update (\<lambda>x. x + 1))"

definition increment_successful_resumes :: "usage_counters \<Rightarrow> usage_counters" where
  "increment_successful_resumes = uc_update (successful_resumes_update (\<lambda>x. x + 1))"

definition increment_promoted_players :: "usage_counters \<Rightarrow> usage_counters" where
  "increment_promoted_players = uc_update (promoted_players_update (\<lambda>x. x + 1))"

definition increment_expired_tickets_by :: "u32 \<Rightarrow> usage_counters \<Rightarrow> usage_counters" where
  "increment_expired_tickets_by n = uc_update (expired_tickets_update (\<lambda>x. x + ucast n))"

definition increment_cancelled_tickets :: "usage_counters \<Rightarrow> usage_counters" where
  "increment_cancelled_tickets = uc_update (cancelled_tickets_update (\<lambda>x. x + 1))"

definition increment_abandoned_offers_by :: "u32 \<Rightarrow> usage_counters \<Rightarrow> usage_counters" where
  "increment_abandoned_offers_by n = uc_update (abandoned_offers_update (\<lambda>x. x + ucast n))"

definition increment_capacity_allocations :: "usage_counters \<Rightarrow> usage_counters" where
  "increment_capacity_allocations = uc_update (capacity_allocations_update (\<lambda>x. x + 1))"

definition record_events_received :: "u64 \<Rightarrow> usage_counters \<Rightarrow> usage_counters" where
  "record_events_received n = uc_update (events_received_update (\<lambda>x. x + n))"

definition record_events_delivered :: "u64 \<Rightarrow> usage_counters \<Rightarrow> usage_counters" where
  "record_events_delivered n = uc_update (events_delivered_update (\<lambda>x. x + n))"

definition record_events_dropped :: "u64 \<Rightarrow> usage_counters \<Rightarrow> usage_counters" where
  "record_events_dropped n = uc_update (events_dropped_update (\<lambda>x. x + n))"

definition record_bytes_received :: "u64 \<Rightarrow> usage_counters \<Rightarrow> usage_counters" where
  "record_bytes_received n = uc_update (bytes_received_update (\<lambda>x. x + n))"

definition record_bytes_delivered :: "u64 \<Rightarrow> usage_counters \<Rightarrow> usage_counters" where
  "record_bytes_delivered n = uc_update (bytes_delivered_update (\<lambda>x. x + n))"

definition record_persistence_read :: "usage_counters \<Rightarrow> usage_counters" where
  "record_persistence_read = uc_update (persistence_reads_update (\<lambda>x. x + 1))"

definition record_persistence_write :: "usage_counters \<Rightarrow> usage_counters" where
  "record_persistence_write = uc_update (persistence_writes_update (\<lambda>x. x + 1))"

definition record_inference_request :: "usage_counters \<Rightarrow> usage_counters" where
  "record_inference_request = uc_update (inference_requests_update (\<lambda>x. x + 1))"

definition set_active_ccu :: "u32 \<Rightarrow> usage_counters \<Rightarrow> usage_counters" where
  "set_active_ccu v = uc_update (\<lambda>m. m\<lparr>active_ccu := v, peak_ccu := max (peak_ccu m) v\<rparr>)"

definition set_queue_depth :: "usize \<Rightarrow> usage_counters \<Rightarrow> usage_counters" where
  "set_queue_depth n = uc_update (\<lambda>m. let bounded = of_nat (min n u32_max) in
     m\<lparr>queue_depth := bounded, peak_queue_depth := max (peak_queue_depth m) bounded\<rparr>)"

definition snapshot_and_reset :: "instant \<Rightarrow> usage_counters \<Rightarrow> usage_metrics \<times> usage_counters" where
  "snapshot_and_reset window_end c =
     (let m = uc_metrics c;
          seconds = connection_seconds m
            + of_nat (\<Sum>conn\<leftarrow>uc_active c. elapsed_seconds window_end (con_started conn))
      in (m\<lparr>connection_seconds := seconds\<rparr>,
          c\<lparr>uc_metrics := metrics_default\<lparr>active_ccu := active_ccu m, queue_depth := queue_depth m\<rparr>,
            uc_active := map (\<lambda>conn. conn\<lparr>con_started := window_end\<rparr>) (uc_active c)\<rparr>))"

lemmas uc_defs = uc_update_def increment_join_attempts_def increment_immediate_admissions_def
  increment_queued_joins_def increment_queue_full_rejections_def increment_paused_rejections_def
  increment_auth_rejections_def increment_reconnect_reservations_def
  increment_successful_resumes_def increment_promoted_players_def increment_expired_tickets_by_def
  increment_cancelled_tickets_def increment_abandoned_offers_by_def
  increment_capacity_allocations_def set_active_ccu_def set_queue_depth_def

declare uc_defs [eval] start_connection_def [eval] end_connection_def [eval] uc_new_def [eval]
  metrics_default_def [eval]

section \<open>Sinks\<close>

record usage_sink_error =
  se_message :: string
  se_retryable :: bool

text \<open>A sink is its \<^verbatim>\<open>append\<close>: from the sink's state and a window to a result and a state.\<close>

type_synonym 's usage_sink = "'s \<Rightarrow> usage_window \<Rightarrow> (usage_sink_error + unit) \<times> 's"

record memory_usage_sink =
  ms_capacity :: usize
  ms_windows :: "usage_window list"

definition ms_new :: "usize \<Rightarrow> memory_usage_sink" where
  "ms_new capacity = \<lparr>ms_capacity = capacity, ms_windows = []\<rparr>"

definition ms_drain :: "memory_usage_sink \<Rightarrow> usage_window list \<times> memory_usage_sink" where
  "ms_drain s = (ms_windows s, s\<lparr>ms_windows := []\<rparr>)"

definition ms_append :: "memory_usage_sink usage_sink" where
  "ms_append s w =
     (let kept = (if length (ms_windows s) = ms_capacity s then tl (ms_windows s) else ms_windows s)
      in (Inr (), s\<lparr>ms_windows := kept @ [w]\<rparr>))"

definition noop_append :: "unit usage_sink" where
  "noop_append s w = (Inr (), s)"

datatype sink_health = Healthy | Degraded

record 's spooling_sink =
  sp_inner :: 's
  sp_capacity :: usize
  sp_spool :: "usage_window list"
  sp_health :: sink_health
  sp_dropped_windows :: u64

definition sp_new :: "'s \<Rightarrow> usize \<Rightarrow> 's spooling_sink" where
  "sp_new inner capacity = \<lparr>sp_inner = inner, sp_capacity = capacity, sp_spool = [],
     sp_health = Healthy, sp_dropped_windows = 0\<rparr>"

definition push_to_spool :: "usage_window \<Rightarrow> 's spooling_sink \<Rightarrow> 's spooling_sink" where
  "push_to_spool w s =
     (let s' = (if length (sp_spool s) = sp_capacity s
                then s\<lparr>sp_spool := tl (sp_spool s),
                       sp_dropped_windows := sp_dropped_windows s + 1, sp_health := Degraded\<rparr>
                else s)
      in s'\<lparr>sp_spool := sp_spool s' @ [w]\<rparr>)"

text \<open>The loop that drains the spool into the inner sink; \<open>Inl\<close> is the early return.\<close>

fun sp_drain_spool ::
  "'s usage_sink \<Rightarrow> usage_window list \<Rightarrow> usage_window \<Rightarrow> 's spooling_sink
   \<Rightarrow> (usage_sink_error + unit) \<times> 's spooling_sink" where
  "sp_drain_spool sink [] window s = (Inr (), s\<lparr>sp_spool := []\<rparr>)"
| "sp_drain_spool sink (pending # spool) window s =
     (case sink (sp_inner s) pending of
        (Inr _, inner) \<Rightarrow> sp_drain_spool sink spool window (s\<lparr>sp_inner := inner\<rparr>)
      | (Inl error, inner) \<Rightarrow>
          if se_retryable error
          then (Inl error, push_to_spool window (s\<lparr>sp_inner := inner, sp_spool := spool\<rparr>))
          else sp_drain_spool sink spool window (s\<lparr>sp_inner := inner, sp_health := Degraded\<rparr>))"

definition sp_append :: "'s usage_sink \<Rightarrow> 's spooling_sink usage_sink" where
  "sp_append sink s window =
     (case sp_drain_spool sink (sp_spool s) window s of
        (Inl error, s') \<Rightarrow> (Inl error, s')
      | (Inr _, s') \<Rightarrow>
          (case sink (sp_inner s') window of
             (Inr _, inner) \<Rightarrow> (Inr (), s'\<lparr>sp_inner := inner, sp_health := Healthy\<rparr>)
           | (Inl error, inner) \<Rightarrow>
               if se_retryable error
               then (Inl error, push_to_spool window (s'\<lparr>sp_inner := inner\<rparr>))
               else (Inl error, s'\<lparr>sp_inner := inner\<rparr>)))"

section \<open>Aggregator\<close>

text \<open>
  \<^verbatim>\<open>Arc<UsageCounters>\<close> handles are references into a store of counters, shared with the
  admission controllers; \<^verbatim>\<open>Arc::ptr_eq\<close> is equality of references. \<open>None\<close> is the panic
  of the division by a window shorter than one second, or of an overflowing duration product.
\<close>

type_synonym counters_ref = nat
type_synonym counters_store = "(counters_ref, usage_counters) btmap"

record usage_aggregator =
  ua_node_id :: node_id
  ua_window_duration :: duration
  ua_base_instant :: instant
  ua_base_time :: system_time
  ua_finalized_windows :: u64
  ua_next_sequence :: u64
  ua_counters :: "counters_ref list"
  ua_pending :: "usage_window list"

definition ua_with_base ::
  "node_id \<Rightarrow> duration \<Rightarrow> instant \<Rightarrow> system_time \<Rightarrow> usage_aggregator" where
  "ua_with_base node window base_instant base_time =
     \<lparr>ua_node_id = node, ua_window_duration = window, ua_base_instant = base_instant,
      ua_base_time = base_time, ua_finalized_windows = 0, ua_next_sequence = 1,
      ua_counters = [], ua_pending = []\<rparr>"

definition ua_register :: "counters_ref \<Rightarrow> usage_aggregator \<Rightarrow> usage_aggregator" where
  "ua_register r a = (if r \<in> set (ua_counters a) then a else a\<lparr>ua_counters := ua_counters a @ [r]\<rparr>)"

definition duration_max :: duration where
  "duration_max = 2 ^ 64 * nanos_per_sec - 1"

definition window_end_instant :: "usage_aggregator \<Rightarrow> instant \<Rightarrow> u64 \<Rightarrow> instant" where
  "window_end_instant a now index =
     (case instant_checked_add (ua_base_instant a)
             (ua_window_duration a * unat (ucast (index + 1) :: u32)) of
        None \<Rightarrow> now | Some t \<Rightarrow> t)"

definition window_end_time :: "usage_aggregator \<Rightarrow> system_time \<Rightarrow> u64 \<Rightarrow> system_time" where
  "window_end_time a system_now index =
     (case instant_checked_add (ua_base_time a)
             (ua_window_duration a * unat (ucast (index + 1) :: u32)) of
        None \<Rightarrow> system_now | Some t \<Rightarrow> t)"

definition window_start_time :: "usage_aggregator \<Rightarrow> system_time \<Rightarrow> system_time" where
  "window_start_time a window_end =
     (if ua_window_duration a \<le> window_end then window_end - ua_window_duration a
      else ua_base_time a)"

fun finalize_counters ::
  "usage_aggregator \<Rightarrow> instant \<Rightarrow> system_time \<Rightarrow> u64 \<Rightarrow> counters_ref list
   \<Rightarrow> counters_store \<Rightarrow> usage_window list \<times> counters_store" where
  "finalize_counters a end_instant end_time sequence [] store = ([], store)"
| "finalize_counters a end_instant end_time sequence (r # rs) store =
     (case bt_get store r of
        None \<Rightarrow> finalize_counters a end_instant end_time sequence rs store
      | Some c \<Rightarrow>
          (case snapshot_and_reset end_instant c of (metrics, c') \<Rightarrow>
            (case finalize_counters a end_instant end_time sequence rs (bt_insert r c' store) of
              (windows, store') \<Rightarrow>
                (\<lparr>uw_schema_version = usage_schema_version, uw_node_id = ua_node_id a,
                  uw_session = am_session (uc_metadata c),
                  uw_window_start = window_start_time a end_time, uw_window_end = end_time,
                  uw_sequence = sequence, uw_capacity_revision = 0, uw_allocated_ccu = 0,
                  uw_metrics = metrics\<rparr> # windows, store'))))"

fun finalize_windows ::
  "nat \<Rightarrow> u64 \<Rightarrow> instant \<Rightarrow> system_time \<Rightarrow> usage_aggregator \<Rightarrow> counters_store
   \<Rightarrow> (usage_window list \<times> usage_aggregator \<times> counters_store) option" where
  "finalize_windows 0 index now system_now a store = Some ([], a, store)"
| "finalize_windows (Suc n) index now system_now a store =
     (if duration_max < ua_window_duration a * unat (ucast (index + 1) :: u32) then None
      else
        (case finalize_counters a (window_end_instant a now index)
                (window_end_time a system_now index) (ua_next_sequence a) (ua_counters a) store of
          (windows, store') \<Rightarrow>
            map_option (\<lambda>(rest, a', store''). (windows @ rest, a', store''))
              (finalize_windows n (index + 1) now system_now
                (a\<lparr>ua_next_sequence := ua_next_sequence a + 1\<rparr>) store')))"

definition push_pending :: "usage_window list \<Rightarrow> usage_window \<Rightarrow> usage_window list" where
  "push_pending pending w =
     (if length pending = default_spool_capacity then tl pending else pending) @ [w]"

definition ua_tick_at ::
  "instant \<Rightarrow> system_time \<Rightarrow> usage_aggregator \<Rightarrow> counters_store
   \<Rightarrow> (usage_window list \<times> usage_aggregator \<times> counters_store) option" where
  "ua_tick_at now system_now a store =
     (if ua_window_duration a = 0 then Some ([], a, store)
      else if duration_as_secs (ua_window_duration a) = 0 then None
      else
        let elapsed = saturating_duration_since now (ua_base_instant a);
            windows_elapsed = duration_as_secs elapsed div duration_as_secs (ua_window_duration a);
            previously = ua_finalized_windows a;
            new_windows = windows_elapsed - unat previously
        in if new_windows = 0 then Some ([], a, store)
           else
             map_option (\<lambda>(windows, a', store').
                 (windows, a'\<lparr>ua_pending := foldl push_pending (ua_pending a') windows\<rparr>, store'))
               (finalize_windows new_windows previously now system_now
                 (a\<lparr>ua_finalized_windows := previously + of_nat new_windows\<rparr>) store))"

definition ua_drain_pending :: "usage_aggregator \<Rightarrow> usage_window list \<times> usage_aggregator" where
  "ua_drain_pending a = (ua_pending a, a\<lparr>ua_pending := []\<rparr>)"

end
