(* ===== verification/Admission.thy ===== *)
theory Admission
  imports Usage "HOL-Library.List_Lexorder" "HOL-Library.Char_ord"
begin

text \<open>
  Capacity admission for one session, \<^verbatim>\<open>woven-core/src/admission.rs\<close>: active leases,
  reconnect reservations, and the ticket queue with its offers. Every public method is a function
  returning its result with the new controller; \<^verbatim>\<open>occupied\<close> is computed in 32-bit
  arithmetic as the code does, and the invariant shows that it never wraps.
\<close>

section \<open>Data\<close>

definition count32 :: "usize \<Rightarrow> u32" where
  "count32 value = of_nat (min value u32_max)"

type_synonym idempotency_key = string

definition idempotency_key_max_len :: nat where
  "idempotency_key_max_len = 256"

definition idempotency_key_new :: "string \<Rightarrow> idempotency_key option" where
  "idempotency_key_new key = (if length key > idempotency_key_max_len then None else Some key)"

record queue_policy =
  qp_enabled :: bool
  qp_max_depth :: usize
  qp_ticket_ttl :: duration
  qp_offer_ttl :: duration
  qp_heartbeat_timeout :: duration
  qp_reconnect_grace :: duration

definition qp_default :: queue_policy where
  "qp_default = \<lparr>qp_enabled = True, qp_max_depth = 1024,
     qp_ticket_ttl = duration_from_secs (15 * 60), qp_offer_ttl = duration_from_secs 30,
     qp_heartbeat_timeout = duration_from_secs 30, qp_reconnect_grace = duration_from_secs 20\<rparr>"

record capacity_update =
  cu_allocated_ccu :: u32
  cu_revision :: u64

datatype rejection_reason =
    ServerPaused | QueueFull | QueueDisabled | AlreadyQueued | InvalidIdempotencyKey

type_synonym queue_ticket_id = u64
type_synonym resume_token = u64

record queue_ticket =
  qt_id :: queue_ticket_id
  qt_session :: session_key
  qt_principal :: principal_id
  qt_idempotency_key :: idempotency_key

record admission_lease =
  al_id :: u64
  al_session :: session_key
  al_principal :: principal_id
  al_resume_token :: resume_token

datatype join_decision =
    Admitted admission_lease | JoinQueued queue_ticket | Paused | Rejected rejection_reason

datatype queue_status =
    Status_Waiting usize | Status_Offered | Status_Admitted | Status_Expired | Status_Cancelled
  | Status_Missing

datatype cancel_result =
    Cancel_Cancelled | Cancel_Missing | Cancel_AlreadyAdmitted | Cancel_AlreadyExpired
  | Cancel_AlreadyOffered

datatype claim_error =
    Claim_NotOffered | Claim_Missing | Claim_Expired | Claim_Cancelled | Claim_AlreadyAdmitted

datatype release_reason = Intentional | Unexpected

record admission_snapshot =
  as_allocated_ccu :: u32
  as_active_ccu :: u32
  as_reconnect_reservations :: u32
  as_offered_slots :: u32
  as_available_slots :: u32
  as_queue_depth :: usize
  as_pending_target :: "u32 option"
  as_capacity_revision :: u64

datatype ticket_state = TS_Waiting | TS_Offered instant | TS_Expired | TS_Cancelled | TS_Admitted

record ticket_entry =
  te_ticket :: queue_ticket
  te_created :: instant
  te_last_heartbeat :: instant
  te_state :: ticket_state

record reservation =
  rv_principal :: principal_id
  rv_expires :: instant

record active_lease =
  ac_lease_principal :: principal_id
  ac_lease_started :: instant
  ac_lease_usage_handle :: connection_handle

record admission_controller =
  ad_metadata :: admission_metadata
  ad_policy :: queue_policy
  ad_allocated_ccu :: u32
  ad_pending_target :: "u32 option"
  ad_revision :: u64
  ad_next_ticket :: u64
  ad_next_lease :: u64
  ad_active :: "(u64, active_lease) btmap"
  ad_reservations :: "(u64, reservation) btmap"
  ad_tickets :: "(queue_ticket_id, ticket_entry) btmap"
  ad_waiting :: "queue_ticket_id list"
  ad_idempotency_index :: "(idempotency_key, queue_ticket_id) btmap"
  ad_counters :: usage_counters

record join_request =
  jq_principal :: principal_id
  jq_idempotency_key :: "idempotency_key option"

definition join_request_new :: "principal_id \<Rightarrow> idempotency_key \<Rightarrow> join_request" where
  "join_request_new p key = \<lparr>jq_principal = p, jq_idempotency_key = Some key\<rparr>"

section \<open>Observations\<close>

definition ad_new ::
  "admission_metadata \<Rightarrow> queue_policy \<Rightarrow> capacity_update \<Rightarrow> usage_counters \<Rightarrow> admission_controller" where
  "ad_new metadata policy capacity counters =
     \<lparr>ad_metadata = metadata, ad_policy = policy, ad_allocated_ccu = cu_allocated_ccu capacity,
      ad_pending_target = None, ad_revision = cu_revision capacity, ad_next_ticket = 1,
      ad_next_lease = 1, ad_active = bt_new, ad_reservations = bt_new, ad_tickets = bt_new,
      ad_waiting = [], ad_idempotency_index = bt_new, ad_counters = counters\<rparr>"

fun ts_is_waiting :: "ticket_state \<Rightarrow> bool" where
  "ts_is_waiting TS_Waiting = True"
| "ts_is_waiting _ = False"

fun ts_is_offered :: "ticket_state \<Rightarrow> bool" where
  "ts_is_offered (TS_Offered _) = True"
| "ts_is_offered _ = False"

definition ts_is_live :: "ticket_state \<Rightarrow> bool" where
  "ts_is_live s = (ts_is_waiting s \<or> ts_is_offered s)"

definition ad_offered_count :: "admission_controller \<Rightarrow> usize" where
  "ad_offered_count c = length (filter (\<lambda>e. ts_is_offered (te_state e)) (bt_values (ad_tickets c)))"

definition ad_occupied :: "admission_controller \<Rightarrow> u32" where
  "ad_occupied c = count32 (bt_len (ad_active c)) + count32 (bt_len (ad_reservations c))
     + count32 (ad_offered_count c)"

definition ad_has_queued_principal :: "admission_controller \<Rightarrow> principal_id \<Rightarrow> bool" where
  "ad_has_queued_principal c p =
     list_ex (\<lambda>e. qt_principal (te_ticket e) = p \<and> ts_is_live (te_state e)) (bt_values (ad_tickets c))"

definition ad_ticket_waiting :: "admission_controller \<Rightarrow> queue_ticket_id \<Rightarrow> bool" where
  "ad_ticket_waiting c tid = opt_is_some_and (\<lambda>e. ts_is_waiting (te_state e)) (bt_get (ad_tickets c) tid)"

definition ad_queue_depth :: "admission_controller \<Rightarrow> usize" where
  "ad_queue_depth c = length (filter (ad_ticket_waiting c) (ad_waiting c))"

definition ad_status :: "admission_controller \<Rightarrow> queue_ticket_id \<Rightarrow> queue_status" where
  "ad_status c tid = (case bt_get (ad_tickets c) tid of
     None \<Rightarrow> Status_Missing
   | Some entry \<Rightarrow>
       (case te_state entry of
          TS_Waiting \<Rightarrow>
            Status_Waiting (case position (\<lambda>candidate. candidate = tid)
                (filter (ad_ticket_waiting c) (ad_waiting c)) of None \<Rightarrow> 0 | Some p \<Rightarrow> p + 1)
        | TS_Offered _ \<Rightarrow> Status_Offered
        | TS_Admitted \<Rightarrow> Status_Admitted
        | TS_Expired \<Rightarrow> Status_Expired
        | TS_Cancelled \<Rightarrow> Status_Cancelled))"

definition ad_admission_limit :: "admission_controller \<Rightarrow> u32" where
  "ad_admission_limit c = (case ad_pending_target c of None \<Rightarrow> ad_allocated_ccu c | Some t \<Rightarrow> t)"

definition ad_snapshot :: "admission_controller \<Rightarrow> admission_snapshot" where
  "ad_snapshot c =
     (let occupied = ad_occupied c;
          available = (if occupied \<le> ad_allocated_ccu c then ad_allocated_ccu c - occupied else 0)
      in \<lparr>as_allocated_ccu = ad_allocated_ccu c, as_active_ccu = count32 (bt_len (ad_active c)),
          as_reconnect_reservations = count32 (bt_len (ad_reservations c)),
          as_offered_slots = count32 (ad_offered_count c), as_available_slots = available,
          as_queue_depth = ad_queue_depth c, as_pending_target = ad_pending_target c,
          as_capacity_revision = ad_revision c\<rparr>)"

definition ad_has_ticket :: "admission_controller \<Rightarrow> queue_ticket_id \<Rightarrow> bool" where
  "ad_has_ticket c tid = bt_contains_key (ad_tickets c) tid"

definition ad_has_active_lease :: "admission_controller \<Rightarrow> admission_lease \<Rightarrow> bool" where
  "ad_has_active_lease c lease =
     (al_session lease = am_session (ad_metadata c)
      \<and> opt_is_some_and (\<lambda>a. ac_lease_principal a = al_principal lease)
          (bt_get (ad_active c) (al_id lease)))"

section \<open>Internal steps\<close>

definition ad_count :: "(usage_counters \<Rightarrow> usage_counters) \<Rightarrow> admission_controller \<Rightarrow> admission_controller" where
  "ad_count f c = c\<lparr>ad_counters := f (ad_counters c)\<rparr>"

text \<open>Registering an active lease under an id, shared by \<^verbatim>\<open>admit\<close> and \<^verbatim>\<open>resume_at\<close>.\<close>

definition ad_activate ::
  "u64 \<Rightarrow> principal_id \<Rightarrow> instant \<Rightarrow> admission_controller \<Rightarrow> admission_lease \<times> admission_controller" where
  "ad_activate lid p now c =
     (case start_connection p now (ad_counters c) of (handle, counters) \<Rightarrow>
       let c' = c\<lparr>ad_counters := counters,
                  ad_active := bt_insert lid \<lparr>ac_lease_principal = p, ac_lease_started = now,
                                              ac_lease_usage_handle = handle\<rparr> (ad_active c)\<rparr>
       in (\<lparr>al_id = lid, al_session = am_session (ad_metadata c), al_principal = p,
            al_resume_token = lid\<rparr>,
           ad_count (set_active_ccu (count32 (bt_len (ad_active c')))) c'))"

definition ad_admit ::
  "principal_id \<Rightarrow> instant \<Rightarrow> admission_controller \<Rightarrow> admission_lease \<times> admission_controller" where
  "ad_admit p now c = ad_activate (ad_next_lease c) p now (c\<lparr>ad_next_lease := ad_next_lease c + 1\<rparr>)"

definition ad_enqueue ::
  "idempotency_key \<Rightarrow> principal_id \<Rightarrow> instant \<Rightarrow> admission_controller
   \<Rightarrow> queue_ticket \<times> admission_controller" where
  "ad_enqueue key p now c =
     (let tid = ad_next_ticket c;
          ticket = \<lparr>qt_id = tid, qt_session = am_session (ad_metadata c), qt_principal = p,
                    qt_idempotency_key = key\<rparr>
      in (ticket,
          c\<lparr>ad_next_ticket := ad_next_ticket c + 1,
            ad_tickets := bt_insert tid \<lparr>te_ticket = ticket, te_created = now,
              te_last_heartbeat = now, te_state = TS_Waiting\<rparr> (ad_tickets c),
            ad_idempotency_index := bt_insert key tid (ad_idempotency_index c),
            ad_waiting := ad_waiting c @ [tid]\<rparr>))"

definition ad_apply_pending :: "admission_controller \<Rightarrow> admission_controller" where
  "ad_apply_pending c = (case ad_pending_target c of
     Some target \<Rightarrow>
       if ad_occupied c \<le> target then c\<lparr>ad_allocated_ccu := target, ad_pending_target := None\<rparr> else c
   | None \<Rightarrow> c)"

definition deadline :: "instant \<Rightarrow> duration \<Rightarrow> instant" where
  "deadline now d = (case instant_checked_add now d of None \<Rightarrow> now | Some t \<Rightarrow> t)"

definition te_offer :: "instant \<Rightarrow> ticket_entry \<Rightarrow> ticket_entry" where
  "te_offer expires e = (if ts_is_waiting (te_state e) then e\<lparr>te_state := TS_Offered expires\<rparr> else e)"

text \<open>
  The loop of \<^verbatim>\<open>promote_at\<close>: every round that continues removes the head of the waiting
  queue, so the recursion is on that list.
\<close>

fun ad_promote_loop ::
  "instant \<Rightarrow> queue_ticket_id list \<Rightarrow> admission_controller \<Rightarrow> admission_controller" where
  "ad_promote_loop now waiting c =
     (if 0 < ad_admission_limit c \<and> ad_occupied c < ad_admission_limit c
      then (case waiting of
          [] \<Rightarrow> c\<lparr>ad_waiting := []\<rparr>
        | tid # rest \<Rightarrow>
            ad_promote_loop now rest
              (c\<lparr>ad_tickets := bt_modify tid (te_offer (deadline now (qp_offer_ttl (ad_policy c))))
                   (ad_tickets c)\<rparr>))
      else c\<lparr>ad_waiting := waiting\<rparr>)"

declare ad_promote_loop.simps [simp del]

definition ad_promote_at :: "instant \<Rightarrow> admission_controller \<Rightarrow> admission_controller" where
  "ad_promote_at now c =
     (let c' = ad_promote_loop now (ad_waiting c) c
      in ad_count (set_queue_depth (ad_queue_depth c')) c')"

definition te_timed_out :: "queue_policy \<Rightarrow> instant \<Rightarrow> ticket_entry \<Rightarrow> bool" where
  "te_timed_out policy now e =
     (ts_is_waiting (te_state e)
      \<and> (qp_ticket_ttl policy \<le> saturating_duration_since now (te_created e)
         \<or> qp_heartbeat_timeout policy \<le> saturating_duration_since now (te_last_heartbeat e)))"

definition te_abandoned :: "instant \<Rightarrow> ticket_entry \<Rightarrow> bool" where
  "te_abandoned now e = (case te_state e of TS_Offered expires \<Rightarrow> expires \<le> now | _ \<Rightarrow> False)"

definition te_expire :: "queue_policy \<Rightarrow> instant \<Rightarrow> ticket_entry \<Rightarrow> ticket_entry" where
  "te_expire policy now e =
     (if te_timed_out policy now e \<or> te_abandoned now e then e\<lparr>te_state := TS_Expired\<rparr> else e)"

definition ad_expire_reservations :: "instant \<Rightarrow> admission_controller \<Rightarrow> admission_controller" where
  "ad_expire_reservations now c =
     (let kept = bt_retain (\<lambda>_ r. now < rv_expires r) (ad_reservations c);
          n = bt_len (ad_reservations c) - bt_len kept;
          c' = c\<lparr>ad_reservations := kept\<rparr>
      in if n > 0 then ad_count (increment_expired_tickets_by (of_nat n)) c' else c')"

definition ad_expire_tickets :: "instant \<Rightarrow> admission_controller \<Rightarrow> admission_controller" where
  "ad_expire_tickets now c =
     (let entries = bt_values (ad_tickets c);
          timed_out = length (filter (te_timed_out (ad_policy c) now) entries);
          abandoned = length (filter (te_abandoned now) entries);
          gone = filter (\<lambda>e. te_timed_out (ad_policy c) now e \<or> te_abandoned now e) entries;
          c1 = c\<lparr>ad_tickets := bt_map (\<lambda>_. te_expire (ad_policy c) now) (ad_tickets c),
                 ad_idempotency_index :=
                   foldl (\<lambda>ix e. bt_remove (qt_idempotency_key (te_ticket e)) ix)
                     (ad_idempotency_index c) gone\<rparr>;
          c2 = (if timed_out > 0 then ad_count (increment_expired_tickets_by (of_nat timed_out)) c1 else c1);
          c3 = (if abandoned > 0 then ad_count (increment_abandoned_offers_by (of_nat abandoned)) c2 else c2)
      in c3\<lparr>ad_waiting := filter (ad_ticket_waiting c3) (ad_waiting c3)\<rparr>)"

definition ad_expire_at :: "instant \<Rightarrow> admission_controller \<Rightarrow> admission_controller" where
  "ad_expire_at now c =
     (let c1 = ad_expire_tickets now (ad_expire_reservations now c);
          c2 = ad_count (set_queue_depth (ad_queue_depth c1)) c1
      in ad_promote_at now (ad_apply_pending c2))"

section \<open>Operations\<close>

definition ad_live_ticket :: "admission_controller \<Rightarrow> idempotency_key \<Rightarrow> queue_ticket option" where
  "ad_live_ticket c key = (case bt_get (ad_idempotency_index c) key of
     None \<Rightarrow> None
   | Some tid \<Rightarrow> (case bt_get (ad_tickets c) tid of
       None \<Rightarrow> None
     | Some entry \<Rightarrow> if ts_is_live (te_state entry) then Some (te_ticket entry) else None))"

definition ad_request_new ::
  "principal_id \<Rightarrow> idempotency_key \<Rightarrow> instant \<Rightarrow> admission_controller
   \<Rightarrow> join_decision \<times> admission_controller" where
  "ad_request_new p key now c =
     (if ad_has_queued_principal c p
      then (Rejected AlreadyQueued, ad_count increment_queue_full_rejections c)
      else if ad_occupied c < ad_admission_limit c
      then (case ad_admit p now (ad_count increment_immediate_admissions c) of
              (lease, c') \<Rightarrow> (Admitted lease, c'))
      else if \<not> qp_enabled (ad_policy c)
      then (Rejected QueueDisabled, ad_count increment_queue_full_rejections c)
      else if qp_max_depth (ad_policy c) \<le> ad_queue_depth c
      then (Rejected QueueFull, ad_count increment_queue_full_rejections c)
      else (case ad_enqueue key p now
                   (ad_count (set_queue_depth (ad_queue_depth c + 1)) (ad_count increment_queued_joins c)) of
              (ticket, c') \<Rightarrow> (JoinQueued ticket, c')))"

definition ad_request_join_at ::
  "join_request \<Rightarrow> instant \<Rightarrow> admission_controller \<Rightarrow> join_decision \<times> admission_controller" where
  "ad_request_join_at request now c0 =
     (let c = ad_expire_at now (ad_count increment_join_attempts c0) in
      case jq_idempotency_key request of
        None \<Rightarrow> (Rejected InvalidIdempotencyKey, ad_count increment_auth_rejections c)
      | Some key \<Rightarrow>
          if ad_admission_limit c = 0 then (Paused, ad_count increment_paused_rejections c)
          else (case ad_live_ticket c key of
              Some ticket \<Rightarrow> (JoinQueued ticket, c)
            | None \<Rightarrow> ad_request_new (jq_principal request) key now c))"

definition ad_queue_status_at ::
  "queue_ticket_id \<Rightarrow> instant \<Rightarrow> admission_controller \<Rightarrow> queue_status \<times> admission_controller" where
  "ad_queue_status_at tid now c0 = (let c = ad_expire_at now c0 in (ad_status c tid, c))"

definition ad_heartbeat_at ::
  "queue_ticket_id \<Rightarrow> instant \<Rightarrow> admission_controller \<Rightarrow> queue_status \<times> admission_controller" where
  "ad_heartbeat_at tid now c0 =
     (let c = ad_expire_at now c0;
          c' = c\<lparr>ad_tickets := bt_modify tid
                  (\<lambda>e. if ts_is_waiting (te_state e) then e\<lparr>te_last_heartbeat := now\<rparr> else e)
                  (ad_tickets c)\<rparr>
      in (ad_status c' tid, c'))"

definition ad_cancel_at ::
  "queue_ticket_id \<Rightarrow> instant \<Rightarrow> admission_controller \<Rightarrow> cancel_result \<times> admission_controller" where
  "ad_cancel_at tid now c0 =
     (let c = ad_expire_at now c0 in
      case bt_get (ad_tickets c) tid of
        None \<Rightarrow> (Cancel_Missing, c)
      | Some entry \<Rightarrow>
          if ts_is_live (te_state entry) then
            (Cancel_Cancelled,
             ad_promote_at now (ad_count increment_cancelled_tickets
               (c\<lparr>ad_tickets := bt_insert tid (entry\<lparr>te_state := TS_Cancelled\<rparr>) (ad_tickets c),
                  ad_idempotency_index :=
                    bt_remove (qt_idempotency_key (te_ticket entry)) (ad_idempotency_index c),
                  ad_waiting := filter (\<lambda>candidate. candidate \<noteq> tid) (ad_waiting c)\<rparr>)))
          else if te_state entry = TS_Admitted then (Cancel_AlreadyAdmitted, c)
          else (Cancel_AlreadyExpired, c))"

definition ad_claim_offer_at ::
  "queue_ticket_id \<Rightarrow> instant \<Rightarrow> admission_controller
   \<Rightarrow> (claim_error + admission_lease) \<times> admission_controller" where
  "ad_claim_offer_at tid now c0 =
     (let c = ad_expire_at now c0 in
      case bt_get (ad_tickets c) tid of
        None \<Rightarrow> (Inl Claim_Missing, c)
      | Some entry \<Rightarrow>
          (case te_state entry of
             TS_Offered _ \<Rightarrow>
               (let c' = c\<lparr>ad_tickets := bt_insert tid (entry\<lparr>te_state := TS_Admitted\<rparr>) (ad_tickets c),
                           ad_idempotency_index :=
                             bt_remove (qt_idempotency_key (te_ticket entry)) (ad_idempotency_index c)\<rparr>
                in case ad_admit (qt_principal (te_ticket entry)) now
                          (ad_count increment_promoted_players c') of
                     (lease, c'') \<Rightarrow> (Inr lease, c''))
           | TS_Waiting \<Rightarrow> (Inl Claim_NotOffered, c)
           | TS_Expired \<Rightarrow> (Inl Claim_Expired, c)
           | TS_Cancelled \<Rightarrow> (Inl Claim_Cancelled, c)
           | TS_Admitted \<Rightarrow> (Inl Claim_AlreadyAdmitted, c)))"

definition ad_release_at ::
  "admission_lease \<Rightarrow> release_reason \<Rightarrow> instant \<Rightarrow> admission_controller \<Rightarrow> admission_controller" where
  "ad_release_at lease reason now c =
     (if al_session lease \<noteq> am_session (ad_metadata c) then c
      else case bt_get (ad_active c) (al_id lease) of
          None \<Rightarrow> c
        | Some removed \<Rightarrow>
            if ac_lease_principal removed \<noteq> al_principal lease then c
            else
              let c1 = c\<lparr>ad_active := bt_remove (al_id lease) (ad_active c)\<rparr>;
                  c2 = ad_count (end_connection (ac_lease_usage_handle removed) now) c1;
                  c3 = ad_count (set_active_ccu (count32 (bt_len (ad_active c2)))) c2;
                  c4 = (if reason = Unexpected
                        then ad_count increment_reconnect_reservations
                          (c3\<lparr>ad_reservations := bt_insert (al_id lease)
                             \<lparr>rv_principal = al_principal lease,
                              rv_expires = deadline now (qp_reconnect_grace (ad_policy c3))\<rparr>
                             (ad_reservations c3)\<rparr>)
                        else c3)
              in ad_promote_at now (ad_apply_pending c4))"

definition ad_resume_at ::
  "resume_token \<Rightarrow> principal_id \<Rightarrow> instant \<Rightarrow> admission_controller
   \<Rightarrow> admission_lease option \<times> admission_controller" where
  "ad_resume_at token p now c0 =
     (let c = ad_expire_at now c0 in
      case bt_get (ad_reservations c) token of
        None \<Rightarrow> (None, c)
      | Some reservation \<Rightarrow>
          if rv_principal reservation \<noteq> p then (None, c)
          else (case ad_activate token p now
                       (ad_count increment_successful_resumes
                         (c\<lparr>ad_reservations := bt_remove token (ad_reservations c)\<rparr>)) of
                  (lease, c') \<Rightarrow> (Some lease, c')))"

definition ad_apply_capacity_at ::
  "capacity_update \<Rightarrow> instant \<Rightarrow> admission_controller \<Rightarrow> admission_snapshot \<times> admission_controller" where
  "ad_apply_capacity_at update now c =
     (if cu_revision update \<le> ad_revision c then (ad_snapshot c, c)
      else
        let c1 = ad_count increment_capacity_allocations (c\<lparr>ad_revision := cu_revision update\<rparr>);
            c2 = (if cu_allocated_ccu update < ad_occupied c1
                  then c1\<lparr>ad_pending_target := Some (cu_allocated_ccu update)\<rparr>
                  else ad_promote_at now
                         (c1\<lparr>ad_allocated_ccu := cu_allocated_ccu update, ad_pending_target := None\<rparr>))
        in (ad_snapshot c2, c2))"

section \<open>Capacity\<close>

text \<open>The occupied slots as a mathematical number.\<close>

definition ad_total :: "admission_controller \<Rightarrow> nat" where
  "ad_total c = bt_len (ad_active c) + bt_len (ad_reservations c) + ad_offered_count c"

definition ad_capacity_inv :: "admission_controller \<Rightarrow> bool" where
  "ad_capacity_inv c \<longleftrightarrow> ad_total c \<le> unat (ad_allocated_ccu c)
     \<and> (\<forall>t. ad_pending_target c = Some t \<longrightarrow> t \<le> ad_allocated_ccu c)"

definition ad_limit :: "admission_controller \<Rightarrow> nat" where
  "ad_limit c = unat (ad_admission_limit c)"

lemma ad_count_simps [simp]:
  "ad_metadata (ad_count f c) = ad_metadata c" "ad_policy (ad_count f c) = ad_policy c"
  "ad_allocated_ccu (ad_count f c) = ad_allocated_ccu c"
  "ad_pending_target (ad_count f c) = ad_pending_target c"
  "ad_revision (ad_count f c) = ad_revision c" "ad_next_ticket (ad_count f c) = ad_next_ticket c"
  "ad_next_lease (ad_count f c) = ad_next_lease c" "ad_active (ad_count f c) = ad_active c"
  "ad_reservations (ad_count f c) = ad_reservations c" "ad_tickets (ad_count f c) = ad_tickets c"
  "ad_waiting (ad_count f c) = ad_waiting c"
  "ad_idempotency_index (ad_count f c) = ad_idempotency_index c"
  by (simp_all add: ad_count_def)

lemma ad_offered_count_alt:
  "ad_offered_count c = bt_count (\<lambda>_ e. ts_is_offered (te_state e)) (ad_tickets c)"
  by (simp add: ad_offered_count_def bt_count_filter_values)

text \<open>Observations depend on the tickets, leases, reservations and limits only.\<close>

lemma ad_total_frame [simp]:
  "ad_total (ad_waiting_update f c) = ad_total c"
  "ad_total (ad_counters_update g c) = ad_total c"
  "ad_total (ad_pending_target_update h c) = ad_total c"
  "ad_total (ad_allocated_ccu_update i c) = ad_total c"
  "ad_total (ad_revision_update j c) = ad_total c"
  "ad_total (ad_next_ticket_update k c) = ad_total c"
  "ad_total (ad_next_lease_update l c) = ad_total c"
  "ad_total (ad_idempotency_index_update m c) = ad_total c"
  by (simp_all add: ad_total_def ad_offered_count_def)

lemma ad_occupied_frame [simp]:
  "ad_occupied (ad_waiting_update f c) = ad_occupied c"
  "ad_occupied (ad_counters_update g c) = ad_occupied c"
  "ad_occupied (ad_pending_target_update h c) = ad_occupied c"
  "ad_occupied (ad_allocated_ccu_update i c) = ad_occupied c"
  "ad_occupied (ad_revision_update j c) = ad_occupied c"
  by (simp_all add: ad_occupied_def ad_offered_count_def)

lemma ad_ticket_waiting_frame [simp]:
  "ad_ticket_waiting (ad_waiting_update f c) = ad_ticket_waiting c"
  "ad_ticket_waiting (ad_counters_update g c) = ad_ticket_waiting c"
  "ad_ticket_waiting (ad_pending_target_update h c) = ad_ticket_waiting c"
  "ad_ticket_waiting (ad_allocated_ccu_update i c) = ad_ticket_waiting c"
  "ad_ticket_waiting (ad_revision_update j c) = ad_ticket_waiting c"
  "ad_ticket_waiting (ad_active_update k c) = ad_ticket_waiting c"
  "ad_ticket_waiting (ad_reservations_update l c) = ad_ticket_waiting c"
  by (simp_all add: ad_ticket_waiting_def fun_eq_iff)

lemma ad_limit_frame [simp]:
  "ad_limit (ad_waiting_update f c) = ad_limit c"
  "ad_limit (ad_counters_update g c) = ad_limit c"
  "ad_limit (ad_tickets_update h c) = ad_limit c"
  "ad_limit (ad_active_update i c) = ad_limit c"
  "ad_limit (ad_reservations_update j c) = ad_limit c"
  "ad_limit (ad_next_lease_update k c) = ad_limit c"
  "ad_limit (ad_next_ticket_update l c) = ad_limit c"
  "ad_limit (ad_idempotency_index_update m c) = ad_limit c"
  by (simp_all add: ad_limit_def ad_admission_limit_def split: option.split)

lemma ad_count_observations [simp]:
  "ad_total (ad_count f c) = ad_total c" "ad_occupied (ad_count f c) = ad_occupied c"
  "ad_ticket_waiting (ad_count f c) = ad_ticket_waiting c"
  "ad_limit (ad_count f c) = ad_limit c" "ad_admission_limit (ad_count f c) = ad_admission_limit c"
  by (simp_all add: ad_count_def ad_admission_limit_def split: option.split)

lemma ad_capacity_inv_count [simp]: "ad_capacity_inv (ad_count f c) = ad_capacity_inv c"
  by (simp add: ad_capacity_inv_def)

lemma unat_u32_le: "unat (x :: u32) \<le> u32_max"
proof -
  have "unat x < 2 ^ LENGTH(32)" by (rule unsigned_less)
  then show ?thesis by (simp add: u32_max_def)
qed

lemma unat_count32: "n \<le> u32_max \<Longrightarrow> unat (count32 n) = n"
  by (simp add: count32_def u32_max_def unat_of_nat)

lemma ad_occupied_total: "ad_total c \<le> u32_max \<Longrightarrow> unat (ad_occupied c) = ad_total c"
proof -
  assume le: "ad_total c \<le> u32_max"
  let ?a = "bt_len (ad_active c)" and ?r = "bt_len (ad_reservations c)" and ?o = "ad_offered_count c"
  have b: "?a + ?r + ?o < 2 ^ 32" using le by (simp add: ad_total_def u32_max_def)
  have eq: "ad_occupied c = of_nat (?a + ?r + ?o)"
    using b by (simp add: ad_occupied_def count32_def u32_max_def)
  then show ?thesis
    using b unfolding eq by (subst unat_of_nat) (simp add: ad_total_def)
qed

lemma ad_capacity_occupied: "ad_capacity_inv c \<Longrightarrow> unat (ad_occupied c) = ad_total c"
  by (rule ad_occupied_total) (auto simp: ad_capacity_inv_def intro: order_trans unat_u32_le)

lemma ad_capacity_limit: "ad_capacity_inv c \<Longrightarrow> ad_limit c \<le> unat (ad_allocated_ccu c)"
  by (auto simp: ad_capacity_inv_def ad_limit_def ad_admission_limit_def word_le_nat_alt
      split: option.splits)

lemma ad_below_limit:
  "ad_capacity_inv c \<Longrightarrow> ad_occupied c < ad_admission_limit c \<longleftrightarrow> ad_total c < ad_limit c"
  by (simp add: word_less_nat_alt ad_capacity_occupied ad_limit_def)

text \<open>Offering one ticket takes at most one slot.\<close>

lemma bt_count_modify:
  "bt_count P (bt_modify k f m) \<le> bt_count P m + 1"
  using bt_count_insert [of P k "f (the (bt_get m k))" m]
  by (auto simp: bt_modify_def split: option.splits if_splits)

lemma ad_offer_total:
  "ad_total (c\<lparr>ad_tickets := bt_modify tid f (ad_tickets c)\<rparr>) \<le> ad_total c + 1"
  using bt_count_modify [of "\<lambda>_ e. ts_is_offered (te_state e)" tid f "ad_tickets c"]
  by (simp add: ad_total_def ad_offered_count_alt)

definition te_offer_all ::
  "instant \<Rightarrow> queue_ticket_id list \<Rightarrow> (queue_ticket_id, ticket_entry) btmap
   \<Rightarrow> (queue_ticket_id, ticket_entry) btmap" where
  "te_offer_all expires tids t = foldl (\<lambda>t tid. bt_modify tid (te_offer expires) t) t tids"

lemma ad_promote_loop_spec:
  assumes "ad_capacity_inv c"
  shows "\<exists>k\<le>length w. ad_promote_loop now w c
      = c\<lparr>ad_tickets := te_offer_all (deadline now (qp_offer_ttl (ad_policy c))) (take k w) (ad_tickets c),
          ad_waiting := drop k w\<rparr>
    \<and> ad_capacity_inv (ad_promote_loop now w c)
    \<and> (k = length w \<or> ad_limit c \<le> ad_total (ad_promote_loop now w c))"
  using assms
proof (induction now w c rule: ad_promote_loop.induct)
  case (1 now w c)
  note unfold = ad_promote_loop.simps [of now w c]
  show ?case
  proof (cases "0 < ad_admission_limit c \<and> ad_occupied c < ad_admission_limit c")
    case False
    then have "ad_limit c \<le> ad_total c"
      using ad_below_limit [OF "1.prems"(1)] by (auto simp: not_less word_less_nat_alt ad_limit_def)
    moreover have "ad_promote_loop now w c = c\<lparr>ad_waiting := w\<rparr>"
      using False by (auto simp: unfold)
    ultimately show ?thesis
      using "1.prems"(1) by (auto simp: ad_capacity_inv_def te_offer_all_def intro!: exI [of _ 0])
  next
    case True
    show ?thesis
    proof (cases w)
      case Nil
      then have "ad_promote_loop now w c = c\<lparr>ad_waiting := []\<rparr>"
        unfolding unfold using True Nil by simp
      with Nil "1.prems"(1) show ?thesis by (simp add: ad_capacity_inv_def te_offer_all_def)
    next
      case (Cons tid rest)
      let ?c1 = "c\<lparr>ad_tickets := bt_modify tid (te_offer (deadline now (qp_offer_ttl (ad_policy c))))
                   (ad_tickets c)\<rparr>"
      have "ad_total c < unat (ad_allocated_ccu c)"
        using True ad_below_limit [OF "1.prems"(1)] ad_capacity_limit [OF "1.prems"(1)] by linarith
      then have inv1: "ad_capacity_inv ?c1"
        using "1.prems"(1) ad_offer_total
          [of tid "te_offer (deadline now (qp_offer_ttl (ad_policy c)))" c]
        by (auto simp: ad_capacity_inv_def)
      have eq: "ad_promote_loop now w c = ad_promote_loop now rest ?c1"
        unfolding unfold using True Cons by simp
      from "1.IH" [OF True Cons inv1] obtain k where k: "k \<le> length rest"
        "ad_promote_loop now rest ?c1
          = ?c1\<lparr>ad_tickets := te_offer_all (deadline now (qp_offer_ttl (ad_policy ?c1))) (take k rest)
              (ad_tickets ?c1), ad_waiting := drop k rest\<rparr>"
        "ad_capacity_inv (ad_promote_loop now rest ?c1)"
        "k = length rest \<or> ad_limit ?c1 \<le> ad_total (ad_promote_loop now rest ?c1)"
        by blast
      show ?thesis
        unfolding eq
        by (rule exI [of _ "Suc k"]) (use k in \<open>auto simp: Cons te_offer_all_def\<close>)
    qed
  qed
qed

lemma ad_promote_capacity: "ad_capacity_inv c \<Longrightarrow> ad_capacity_inv (ad_promote_at now c)"
  using ad_promote_loop_spec [of c "ad_waiting c" now] by (auto simp: ad_promote_at_def Let_def)

lemma ad_apply_pending_capacity: "ad_capacity_inv c \<Longrightarrow> ad_capacity_inv (ad_apply_pending c)"
proof (cases "ad_pending_target c")
  case (Some t)
  assume inv: "ad_capacity_inv c"
  have "ad_total c \<le> unat t" if "ad_occupied c \<le> t"
    using that ad_capacity_occupied [OF inv] by (simp add: word_le_nat_alt)
  with inv Some show ?thesis
    by (auto simp: ad_apply_pending_def ad_capacity_inv_def)
qed (simp add: ad_apply_pending_def)

lemma ad_expire_reservations_capacity:
  "ad_capacity_inv c \<Longrightarrow> ad_capacity_inv (ad_expire_reservations now c)"
  using bt_len_retain_le [of "\<lambda>_ r. now < rv_expires r" "ad_reservations c"]
  by (auto simp: ad_expire_reservations_def ad_capacity_inv_def ad_total_def ad_offered_count_def Let_def)

lemma te_expire_offered: "ts_is_offered (te_state (te_expire policy now e)) \<Longrightarrow> ts_is_offered (te_state e)"
  by (simp add: te_expire_def split: if_splits)

lemma bt_count_map_le:
  assumes "\<And>k v. P k (f k v) \<Longrightarrow> P k v"
  shows "bt_count P (bt_map f m) \<le> bt_count P m"
proof -
  have "length (filter (\<lambda>(k, v). P k v) (map (\<lambda>(k, v). (k, f k v)) xs))
      \<le> length (filter (\<lambda>(k, v). P k v) xs)" for xs
    by (induction xs) (auto dest: assms)
  then show ?thesis by (simp add: bt_count_def bt_len_def bt_iter_retain bt_iter_map)
qed

lemma ad_expire_tickets_fields:
  "ad_active (ad_expire_tickets now c) = ad_active c"
  "ad_reservations (ad_expire_tickets now c) = ad_reservations c"
  "ad_allocated_ccu (ad_expire_tickets now c) = ad_allocated_ccu c"
  "ad_pending_target (ad_expire_tickets now c) = ad_pending_target c"
  "ad_metadata (ad_expire_tickets now c) = ad_metadata c"
  "ad_policy (ad_expire_tickets now c) = ad_policy c"
  "ad_revision (ad_expire_tickets now c) = ad_revision c"
  "ad_next_ticket (ad_expire_tickets now c) = ad_next_ticket c"
  "ad_next_lease (ad_expire_tickets now c) = ad_next_lease c"
  "ad_tickets (ad_expire_tickets now c) = bt_map (\<lambda>_. te_expire (ad_policy c) now) (ad_tickets c)"
  "ad_idempotency_index (ad_expire_tickets now c) =
     foldl (\<lambda>ix e. bt_remove (qt_idempotency_key (te_ticket e)) ix) (ad_idempotency_index c)
       (filter (\<lambda>e. te_timed_out (ad_policy c) now e \<or> te_abandoned now e) (bt_values (ad_tickets c)))"
  "ad_waiting (ad_expire_tickets now c) =
     filter (ad_ticket_waiting (ad_expire_tickets now c)) (ad_waiting c)"
  by (simp_all add: ad_expire_tickets_def Let_def ad_ticket_waiting_def)

lemma ad_expire_tickets_capacity:
  assumes "ad_capacity_inv c"
  shows "ad_capacity_inv (ad_expire_tickets now c)"
proof -
  have "ad_offered_count (ad_expire_tickets now c) \<le> ad_offered_count c"
    unfolding ad_offered_count_alt ad_expire_tickets_fields
    by (rule bt_count_map_le) (rule te_expire_offered)
  with assms show ?thesis
    by (simp add: ad_capacity_inv_def ad_total_def ad_expire_tickets_fields)
qed

lemma ad_expire_capacity: "ad_capacity_inv c \<Longrightarrow> ad_capacity_inv (ad_expire_at now c)"
  by (simp add: ad_expire_at_def Let_def ad_promote_capacity ad_apply_pending_capacity
      ad_expire_tickets_capacity ad_expire_reservations_capacity)

lemma ad_activate_fields:
  assumes "ad_activate lid p now c = (lease, c')"
  shows "ad_active c' = bt_insert lid \<lparr>ac_lease_principal = p, ac_lease_started = now,
      ac_lease_usage_handle = uc_next_handle (ad_counters c)\<rparr> (ad_active c)"
    "c' = c\<lparr>ad_active := ad_active c', ad_counters := ad_counters c'\<rparr>"
    "lease = \<lparr>al_id = lid, al_session = am_session (ad_metadata c), al_principal = p,
      al_resume_token = lid\<rparr>"
  using assms by (auto simp: ad_activate_def start_connection_def Let_def ad_count_def)

text \<open>Every operation of the controller as a command.\<close>

datatype ad_command =
    AC_Join join_request instant
  | AC_Status queue_ticket_id instant
  | AC_Heartbeat queue_ticket_id instant
  | AC_Cancel queue_ticket_id instant
  | AC_Claim queue_ticket_id instant
  | AC_Release admission_lease release_reason instant
  | AC_Resume resume_token principal_id instant
  | AC_Capacity capacity_update instant

fun ad_step :: "admission_controller \<Rightarrow> ad_command \<Rightarrow> admission_controller" where
  "ad_step c (AC_Join r now) = snd (ad_request_join_at r now c)"
| "ad_step c (AC_Status tid now) = snd (ad_queue_status_at tid now c)"
| "ad_step c (AC_Heartbeat tid now) = snd (ad_heartbeat_at tid now c)"
| "ad_step c (AC_Cancel tid now) = snd (ad_cancel_at tid now c)"
| "ad_step c (AC_Claim tid now) = snd (ad_claim_offer_at tid now c)"
| "ad_step c (AC_Release l r now) = ad_release_at l r now c"
| "ad_step c (AC_Resume t p now) = snd (ad_resume_at t p now c)"
| "ad_step c (AC_Capacity u now) = snd (ad_apply_capacity_at u now c)"

lemma ad_activate_capacity:
  assumes "ad_activate lid p now c = (lease, c')"
  shows "ad_total c' \<le> ad_total c + 1" "ad_allocated_ccu c' = ad_allocated_ccu c"
    "ad_pending_target c' = ad_pending_target c" "ad_waiting c' = ad_waiting c"
    "ad_tickets c' = ad_tickets c" "ad_reservations c' = ad_reservations c"
proof -
  obtain a u where c': "c' = c\<lparr>ad_active := a, ad_counters := u\<rparr>"
    using ad_activate_fields(2) [OF assms] by blast
  have "bt_len (ad_active c') \<le> bt_len (ad_active c) + 1"
    using bt_len_insert_le by (simp add: ad_activate_fields(1) [OF assms])
  then show "ad_total c' \<le> ad_total c + 1"
    by (simp add: ad_total_def c' ad_offered_count_def)
  show "ad_allocated_ccu c' = ad_allocated_ccu c"
    "ad_pending_target c' = ad_pending_target c" "ad_waiting c' = ad_waiting c"
    "ad_tickets c' = ad_tickets c" "ad_reservations c' = ad_reservations c"
    by (simp_all add: c')
qed

lemma ad_admit_capacity:
  assumes "ad_admit p now c = (lease, c')" "ad_total c < unat (ad_allocated_ccu c)"
    and "ad_capacity_inv c"
  shows "ad_capacity_inv c'"
  using ad_activate_capacity [OF assms(1) [unfolded ad_admit_def]] assms(2,3)
  by (simp add: ad_capacity_inv_def)

lemma ad_request_new_capacity:
  assumes inv: "ad_capacity_inv c"
  shows "ad_capacity_inv (snd (ad_request_new p key now c))"
proof -
  have room: "ad_total c < unat (ad_allocated_ccu c)" if "ad_occupied c < ad_admission_limit c"
    using that ad_below_limit [OF inv] ad_capacity_limit [OF inv] by simp
  have admit: "ad_capacity_inv (snd (ad_admit p now (ad_count increment_immediate_admissions c)))"
    if "ad_occupied c < ad_admission_limit c"
    using ad_admit_capacity [of p now "ad_count increment_immediate_admissions c"] room [OF that] inv
    by (cases "ad_admit p now (ad_count increment_immediate_admissions c)") simp
  have enq: "ad_capacity_inv (snd (ad_enqueue key p now d))" if "ad_capacity_inv d" for d
  proof -
    let ?e = "\<lparr>te_ticket = fst (ad_enqueue key p now d), te_created = now, te_last_heartbeat = now,
      te_state = TS_Waiting\<rparr>"
    have "bt_count (\<lambda>_ e. ts_is_offered (te_state e)) (bt_insert (ad_next_ticket d) ?e (ad_tickets d))
        \<le> ad_offered_count d"
      using bt_count_insert [of "\<lambda>_ e. ts_is_offered (te_state e)" "ad_next_ticket d" ?e "ad_tickets d"]
      by (simp add: ad_offered_count_alt)
    with that show ?thesis
      by (simp add: ad_enqueue_def Let_def ad_capacity_inv_def ad_total_def ad_offered_count_alt)
  qed
  show ?thesis
    using admit enq inv by (simp add: ad_request_new_def split_beta)
qed

lemma ad_claim_total:
  assumes "bt_get (ad_tickets c) tid = Some e" "ts_is_offered (te_state e)"
  shows "ad_total (c\<lparr>ad_tickets := bt_insert tid (e\<lparr>te_state := TS_Admitted\<rparr>) (ad_tickets c)\<rparr>) + 1
    = ad_total c"
  using bt_count_insert [of "\<lambda>_ e. ts_is_offered (te_state e)" tid "e\<lparr>te_state := TS_Admitted\<rparr>" "ad_tickets c"]
    assms
  by (simp add: ad_total_def ad_offered_count_alt)

lemma ad_claim_capacity:
  assumes inv: "ad_capacity_inv c"
  shows "ad_capacity_inv (snd (ad_claim_offer_at tid now c))"
proof -
  let ?c = "ad_expire_at now c"
  have inv1: "ad_capacity_inv ?c" using inv by (rule ad_expire_capacity)
  show ?thesis
  proof (cases "\<exists>e. bt_get (ad_tickets ?c) tid = Some e \<and> ts_is_offered (te_state e)")
    case False
    then show ?thesis
      using inv1 by (auto simp: ad_claim_offer_at_def Let_def split: option.splits ticket_state.splits)
  next
    case True
    then obtain e where e: "bt_get (ad_tickets ?c) tid = Some e" "ts_is_offered (te_state e)" by blast
    let ?d = "ad_count increment_promoted_players
      (?c\<lparr>ad_tickets := bt_insert tid (e\<lparr>te_state := TS_Admitted\<rparr>) (ad_tickets ?c),
          ad_idempotency_index :=
            bt_remove (qt_idempotency_key (te_ticket e)) (ad_idempotency_index ?c)\<rparr>)"
    have "ad_total ?d + 1 = ad_total ?c" using ad_claim_total [OF e] by simp
    then have "ad_total ?d < unat (ad_allocated_ccu ?d)" "ad_capacity_inv ?d"
      using inv1 by (auto simp: ad_capacity_inv_def)
    then have "ad_capacity_inv (snd (ad_admit (qt_principal (te_ticket e)) now ?d))"
      using ad_admit_capacity by (metis prod.collapse)
    moreover obtain x where "te_state e = TS_Offered x" using e(2) by (cases "te_state e") auto
    ultimately show ?thesis
      using e by (auto simp: ad_claim_offer_at_def Let_def split: prod.splits)
  qed
qed

lemma ad_cancel_capacity:
  assumes inv: "ad_capacity_inv c"
  shows "ad_capacity_inv (snd (ad_cancel_at tid now c))"
proof -
  let ?c = "ad_expire_at now c"
  have inv1: "ad_capacity_inv ?c" using inv by (rule ad_expire_capacity)
  have "ad_capacity_inv (?c\<lparr>ad_tickets := bt_insert tid (e\<lparr>te_state := TS_Cancelled\<rparr>) (ad_tickets ?c),
      ad_idempotency_index := ix, ad_waiting := w\<rparr>)"
    if "bt_get (ad_tickets ?c) tid = Some e" for e ix w
    using bt_count_insert [of "\<lambda>_ e. ts_is_offered (te_state e)" tid "e\<lparr>te_state := TS_Cancelled\<rparr>"
        "ad_tickets ?c"] inv1 that
    by (simp add: ad_capacity_inv_def ad_total_def ad_offered_count_alt split: if_splits)
  then show ?thesis
    using inv1 by (auto simp: ad_cancel_at_def Let_def ad_promote_capacity split: option.splits)
qed

definition ad_release_state ::
  "admission_lease \<Rightarrow> release_reason \<Rightarrow> instant \<Rightarrow> active_lease \<Rightarrow> admission_controller
   \<Rightarrow> admission_controller" where
  "ad_release_state lease reason now removed c =
     (let c1 = c\<lparr>ad_active := bt_remove (al_id lease) (ad_active c)\<rparr>;
          c2 = ad_count (end_connection (ac_lease_usage_handle removed) now) c1;
          c3 = ad_count (set_active_ccu (count32 (bt_len (ad_active c2)))) c2
      in if reason = Unexpected
         then ad_count increment_reconnect_reservations
           (c3\<lparr>ad_reservations := bt_insert (al_id lease)
              \<lparr>rv_principal = al_principal lease,
               rv_expires = deadline now (qp_reconnect_grace (ad_policy c3))\<rparr>
              (ad_reservations c3)\<rparr>)
         else c3)"

lemma ad_release_at_eq:
  "ad_release_at lease reason now c =
     (if ad_has_active_lease c lease
      then ad_promote_at now (ad_apply_pending
        (ad_release_state lease reason now (the (bt_get (ad_active c) (al_id lease))) c))
      else c)"
  by (auto simp: ad_release_at_def ad_has_active_lease_def ad_release_state_def Let_def
      split: option.splits)

lemma ad_release_state_fields:
  "ad_allocated_ccu (ad_release_state lease reason now removed c) = ad_allocated_ccu c"
  "ad_pending_target (ad_release_state lease reason now removed c) = ad_pending_target c"
  "ad_tickets (ad_release_state lease reason now removed c) = ad_tickets c"
  "ad_waiting (ad_release_state lease reason now removed c) = ad_waiting c"
  "ad_metadata (ad_release_state lease reason now removed c) = ad_metadata c"
  "ad_policy (ad_release_state lease reason now removed c) = ad_policy c"
  "ad_next_ticket (ad_release_state lease reason now removed c) = ad_next_ticket c"
  "ad_next_lease (ad_release_state lease reason now removed c) = ad_next_lease c"
  "ad_idempotency_index (ad_release_state lease reason now removed c) = ad_idempotency_index c"
  "ad_active (ad_release_state lease reason now removed c) = bt_remove (al_id lease) (ad_active c)"
  by (simp_all add: ad_release_state_def Let_def)

lemma ad_release_state_capacity:
  assumes inv: "ad_capacity_inv c" and l: "ad_has_active_lease c lease"
  shows "ad_capacity_inv (ad_release_state lease reason now removed c)"
proof -
  let ?r = "\<lparr>rv_principal = al_principal lease,
      rv_expires = deadline now (qp_reconnect_grace (ad_policy c))\<rparr>"
  obtain a where a: "bt_get (ad_active c) (al_id lease) = Some a"
    using l by (auto simp: ad_has_active_lease_def opt_is_some_and_iff)
  have "bt_len (bt_insert (al_id lease) ?r (ad_reservations c)) \<le> bt_len (ad_reservations c) + 1"
    using bt_len_insert_le by simp
  moreover have "bt_len (bt_remove (al_id lease) (ad_active c)) + 1 = bt_len (ad_active c)"
    using bt_len_pos [OF a] by (simp add: bt_len_remove a)
  moreover have "bt_len (ad_active c) + bt_len (ad_reservations c) + ad_offered_count c
      \<le> unat (ad_allocated_ccu c)"
    using inv by (simp add: ad_capacity_inv_def ad_total_def)
  ultimately have "ad_total (ad_release_state lease reason now removed c) \<le> unat (ad_allocated_ccu c)"
    by (simp add: ad_release_state_def Let_def ad_total_def ad_offered_count_def)
  then show ?thesis
    using inv by (simp add: ad_capacity_inv_def ad_release_state_fields)
qed

lemma ad_release_capacity:
  "ad_capacity_inv c \<Longrightarrow> ad_capacity_inv (ad_release_at lease reason now c)"
  by (simp add: ad_release_at_eq ad_promote_capacity ad_apply_pending_capacity
      ad_release_state_capacity)

lemma ad_resume_capacity:
  assumes inv: "ad_capacity_inv c"
  shows "ad_capacity_inv (snd (ad_resume_at token p now c))"
proof -
  let ?c = "ad_expire_at now c"
  have inv1: "ad_capacity_inv ?c" using inv by (rule ad_expire_capacity)
  let ?d = "ad_count increment_successful_resumes
    (?c\<lparr>ad_reservations := bt_remove token (ad_reservations ?c)\<rparr>)"
  have "ad_capacity_inv (snd (ad_activate token p now ?d))"
    if "bt_get (ad_reservations ?c) token = Some r" for r
  proof -
    have "ad_total ?d + 1 = ad_total ?c"
      using that bt_len_pos [OF that] by (simp add: ad_total_def bt_len_remove ad_offered_count_def)
    moreover have "ad_allocated_ccu ?d = ad_allocated_ccu ?c" "ad_pending_target ?d = ad_pending_target ?c"
      by simp_all
    ultimately show ?thesis
      using ad_activate_capacity [of token p now ?d] inv1
      by (cases "ad_activate token p now ?d") (simp add: ad_capacity_inv_def)
  qed
  then show ?thesis
    using inv1 by (auto simp: ad_resume_at_def Let_def split: option.splits prod.splits)
qed

lemma ad_apply_capacity_capacity:
  assumes inv: "ad_capacity_inv c"
  shows "ad_capacity_inv (snd (ad_apply_capacity_at u now c))"
proof -
  have occ: "unat (ad_occupied c) = ad_total c" using inv by (rule ad_capacity_occupied)
  have "cu_allocated_ccu u \<le> ad_allocated_ccu c" if "cu_allocated_ccu u < ad_occupied c"
    using that occ inv by (simp add: word_less_nat_alt word_le_nat_alt ad_capacity_inv_def)
  moreover have "ad_total c \<le> unat (cu_allocated_ccu u)" if "\<not> cu_allocated_ccu u < ad_occupied c"
    using that occ by (simp add: word_less_nat_alt)
  ultimately have pend: "cu_allocated_ccu u < ad_occupied c \<Longrightarrow>
      ad_capacity_inv (c\<lparr>ad_revision := cu_revision u, ad_pending_target := Some (cu_allocated_ccu u)\<rparr>)"
    and grow: "\<not> cu_allocated_ccu u < ad_occupied c \<Longrightarrow>
      ad_capacity_inv (c\<lparr>ad_revision := cu_revision u, ad_allocated_ccu := cu_allocated_ccu u,
        ad_pending_target := None\<rparr>)"
    using inv by (auto simp: ad_capacity_inv_def)
  have counted: "ad_count f (c\<lparr>ad_revision := r\<rparr>)\<lparr>ad_pending_target := t\<rparr>
      = ad_count f (c\<lparr>ad_revision := r, ad_pending_target := t\<rparr>)"
    "ad_count f (c\<lparr>ad_revision := r\<rparr>)\<lparr>ad_allocated_ccu := x, ad_pending_target := t\<rparr>
      = ad_count f (c\<lparr>ad_revision := r, ad_allocated_ccu := x, ad_pending_target := t\<rparr>)" for f r t x
    by (simp_all add: ad_count_def)
  show ?thesis
    using inv pend grow
    by (simp add: ad_apply_capacity_at_def Let_def counted ad_promote_capacity)
qed

lemma ad_step_capacity: "ad_capacity_inv c \<Longrightarrow> ad_capacity_inv (ad_step c cmd)"
proof (cases cmd)
  case (AC_Join r now)
  assume "ad_capacity_inv c"
  then have "ad_capacity_inv (ad_expire_at now (ad_count increment_join_attempts c))"
    by (simp add: ad_expire_capacity)
  then show ?thesis
    by (auto simp: AC_Join ad_request_join_at_def Let_def ad_request_new_capacity split: option.splits)
next
  case (AC_Heartbeat tid now)
  assume "ad_capacity_inv c"
  then have inv: "ad_capacity_inv (ad_expire_at now c)" by (rule ad_expire_capacity)
  let ?f = "\<lambda>e :: ticket_entry. if ts_is_waiting (te_state e) then e\<lparr>te_last_heartbeat := now\<rparr> else e"
  have "bt_count (\<lambda>_ e. ts_is_offered (te_state e)) (bt_modify tid ?f t)
      = bt_count (\<lambda>_ e. ts_is_offered (te_state e)) t" for t
    using bt_count_insert [of "\<lambda>_ e. ts_is_offered (te_state e)" tid "?f (the (bt_get t tid))" t]
    by (auto simp: bt_modify_def split: option.splits if_splits)
  with inv show ?thesis
    by (simp add: AC_Heartbeat ad_heartbeat_at_def Let_def ad_capacity_inv_def ad_total_def
        ad_offered_count_alt)
qed (simp_all add: ad_queue_status_at_def Let_def ad_expire_capacity ad_cancel_capacity
    ad_claim_capacity ad_release_capacity ad_resume_capacity ad_apply_capacity_capacity)

interpretation ad_capacity: transition_system ad_step ad_capacity_inv
  by unfold_locales (rule ad_step_capacity)

lemma ad_new_capacity: "ad_capacity_inv (ad_new metadata policy capacity counters)"
  by (simp add: ad_new_def ad_capacity_inv_def ad_total_def ad_offered_count_def bt_values_def)

end
