(* ===== verification/AdmissionQueue.thy ===== *)
theory AdmissionQueue
  imports Admission
begin

text \<open>
  The invariants of the admission controller beyond its capacity: the ticket queue and its
  idempotency index, the lease ids, and work conservation, kept by every command as long as the
  two 64-bit id counters have room. The properties of admission control rest on them.
\<close>

section \<open>The ticket queue\<close>

definition ad_live :: "admission_controller \<Rightarrow> queue_ticket_id \<Rightarrow> ticket_entry \<Rightarrow> bool" where
  "ad_live c tid e \<longleftrightarrow> bt_get (ad_tickets c) tid = Some e \<and> ts_is_live (te_state e)"

text \<open>
  The waiting list holds exactly the waiting tickets, oldest (smallest id) first and at most
  \<open>max_depth\<close> of them; the idempotency index is exactly the live tickets, so two live tickets
  never share a key; a principal has at most one live ticket.
\<close>

definition ad_queue_inv :: "admission_controller \<Rightarrow> bool" where
  "ad_queue_inv c \<longleftrightarrow>
     sorted_wrt (<) (ad_waiting c)
   \<and> (\<forall>tid. tid \<in> set (ad_waiting c) \<longleftrightarrow> ad_ticket_waiting c tid)
   \<and> length (ad_waiting c) \<le> qp_max_depth (ad_policy c)
   \<and> (\<forall>tid e. bt_get (ad_tickets c) tid = Some e \<longrightarrow>
        qt_id (te_ticket e) = tid \<and> tid < ad_next_ticket c
        \<and> qt_session (te_ticket e) = am_session (ad_metadata c))
   \<and> (\<forall>key tid. bt_get (ad_idempotency_index c) key = Some tid
        \<longleftrightarrow> (\<exists>e. ad_live c tid e \<and> qt_idempotency_key (te_ticket e) = key))
   \<and> (\<forall>tid e tid' e'. ad_live c tid e \<longrightarrow> ad_live c tid' e'
        \<longrightarrow> qt_principal (te_ticket e) = qt_principal (te_ticket e') \<longrightarrow> tid = tid')"

text \<open>Lease ids in use are distinct and were issued before.\<close>

definition ad_lease_inv :: "admission_controller \<Rightarrow> bool" where
  "ad_lease_inv c \<longleftrightarrow>
     (\<forall>lid. bt_get (ad_active c) lid \<noteq> None \<longrightarrow> lid < ad_next_lease c)
   \<and> (\<forall>lid. bt_get (ad_reservations c) lid \<noteq> None \<longrightarrow>
        lid < ad_next_lease c \<and> bt_get (ad_active c) lid = None)"

text \<open>No slot stays free while somebody waits.\<close>

definition ad_work_conserving :: "admission_controller \<Rightarrow> bool" where
  "ad_work_conserving c \<longleftrightarrow> ad_limit c \<le> ad_total c \<or> ad_waiting c = []"

lemma ad_queue_invD:
  assumes "ad_queue_inv c"
  shows "sorted_wrt (<) (ad_waiting c)"
    "\<And>tid. tid \<in> set (ad_waiting c) \<longleftrightarrow> ad_ticket_waiting c tid"
    "length (ad_waiting c) \<le> qp_max_depth (ad_policy c)"
    "\<And>tid e. bt_get (ad_tickets c) tid = Some e \<Longrightarrow> qt_id (te_ticket e) = tid \<and> tid < ad_next_ticket c
        \<and> qt_session (te_ticket e) = am_session (ad_metadata c)"
    "\<And>key tid. bt_get (ad_idempotency_index c) key = Some tid
        \<longleftrightarrow> (\<exists>e. ad_live c tid e \<and> qt_idempotency_key (te_ticket e) = key)"
    "\<And>tid e tid' e'. ad_live c tid e \<Longrightarrow> ad_live c tid' e'
        \<Longrightarrow> qt_principal (te_ticket e) = qt_principal (te_ticket e') \<Longrightarrow> tid = tid'"
  using assms unfolding ad_queue_inv_def by blast+

lemma ad_queue_inv_frame:
  assumes "ad_queue_inv c" "ad_waiting c' = ad_waiting c" "ad_tickets c' = ad_tickets c"
    "ad_policy c' = ad_policy c" "ad_metadata c' = ad_metadata c"
    "ad_next_ticket c' = ad_next_ticket c" "ad_idempotency_index c' = ad_idempotency_index c"
  shows "ad_queue_inv c'"
proof -
  have "ad_live c' = ad_live c" "ad_ticket_waiting c' = ad_ticket_waiting c"
    using assms(3) by (simp_all add: ad_live_def ad_ticket_waiting_def fun_eq_iff)
  with assms show ?thesis by (simp add: ad_queue_inv_def)
qed

text \<open>Tickets may lose liveness but neither change owner nor come back.\<close>

lemma ad_queue_inv_shrink:
  assumes inv: "ad_queue_inv c"
    and t: "\<And>tid e'. bt_get (ad_tickets c') tid = Some e' \<Longrightarrow>
      \<exists>e. bt_get (ad_tickets c) tid = Some e \<and> te_ticket e' = te_ticket e
        \<and> (ts_is_live (te_state e') \<longrightarrow> ts_is_live (te_state e))"
    and ix: "\<And>key tid. bt_get (ad_idempotency_index c') key = Some tid
      \<longleftrightarrow> bt_get (ad_idempotency_index c) key = Some tid \<and> (\<exists>e'. ad_live c' tid e')"
    and w: "sorted_wrt (<) (ad_waiting c')" "length (ad_waiting c') \<le> length (ad_waiting c)"
      "\<And>tid. tid \<in> set (ad_waiting c') \<longleftrightarrow> ad_ticket_waiting c' tid"
    and same: "ad_policy c' = ad_policy c" "ad_metadata c' = ad_metadata c"
      "ad_next_ticket c' = ad_next_ticket c"
  shows "ad_queue_inv c'"
proof -
  note d = ad_queue_invD [OF inv]
  have live: "\<exists>e. ad_live c tid e \<and> te_ticket e' = te_ticket e" if "ad_live c' tid e'" for tid e'
    using that t by (fastforce simp: ad_live_def)
  have "bt_get (ad_idempotency_index c') key = Some tid
      \<longleftrightarrow> (\<exists>e. ad_live c' tid e \<and> qt_idempotency_key (te_ticket e) = key)" for key tid
    unfolding ix d(5)
  proof
    assume "(\<exists>e. ad_live c tid e \<and> qt_idempotency_key (te_ticket e) = key) \<and> (\<exists>e'. ad_live c' tid e')"
    then obtain e e' where e: "ad_live c tid e" "qt_idempotency_key (te_ticket e) = key" "ad_live c' tid e'"
      by blast
    moreover from this live obtain e2 where "ad_live c tid e2" "te_ticket e' = te_ticket e2" by blast
    ultimately show "\<exists>e. ad_live c' tid e \<and> qt_idempotency_key (te_ticket e) = key"
      by (auto simp: ad_live_def)
  qed (use live in force)
  moreover have "qt_id (te_ticket e) = tid \<and> tid < ad_next_ticket c'
      \<and> qt_session (te_ticket e) = am_session (ad_metadata c')"
    if "bt_get (ad_tickets c') tid = Some e" for tid e
    using t [OF that] d(4) same by metis
  moreover have "tid = tid'" if "ad_live c' tid e" "ad_live c' tid' e'"
    "qt_principal (te_ticket e) = qt_principal (te_ticket e')" for tid e tid' e'
    using live [OF that(1)] live [OF that(2)] that(3) d(6) by metis
  moreover have "length (ad_waiting c') \<le> qp_max_depth (ad_policy c')"
    using w(2) d(3) same(1) by simp
  ultimately show ?thesis unfolding ad_queue_inv_def using w(1,3) by blast
qed

lemma bt_get_fold_remove:
  "bt_get (foldl (\<lambda>ix e. bt_remove (f e) ix) ix es) k = (if k \<in> f ` set es then None else bt_get ix k)"
  by (induction es arbitrary: ix) auto

lemma te_expire_cases:
  "te_ticket (te_expire policy now e) = te_ticket e"
  "ts_is_live (te_state (te_expire policy now e))
     \<longleftrightarrow> ts_is_live (te_state e) \<and> \<not> te_timed_out policy now e \<and> \<not> te_abandoned now e"
  "ts_is_waiting (te_state (te_expire policy now e))
     \<longleftrightarrow> ts_is_waiting (te_state e) \<and> \<not> te_timed_out policy now e"
  "te_timed_out policy now e \<or> te_abandoned now e \<Longrightarrow> ts_is_live (te_state e)"
  by (cases "te_state e"; auto simp: te_expire_def ts_is_live_def te_timed_out_def te_abandoned_def)+

lemma ad_expire_tickets_queue:
  assumes inv: "ad_queue_inv c"
  shows "ad_queue_inv (ad_expire_tickets now c)"
proof (rule ad_queue_inv_shrink [OF inv])
  let ?c' = "ad_expire_tickets now c"
  note d = ad_queue_invD [OF inv] and f = ad_expire_tickets_fields [of now c]
  let ?gone = "\<lambda>e. te_timed_out (ad_policy c) now e \<or> te_abandoned now e"
  show "\<exists>e. bt_get (ad_tickets c) tid = Some e \<and> te_ticket e' = te_ticket e
      \<and> (ts_is_live (te_state e') \<longrightarrow> ts_is_live (te_state e))"
    if "bt_get (ad_tickets ?c') tid = Some e'" for tid e'
    using that by (auto simp: f te_expire_cases)
  have live': "(\<exists>e'. ad_live ?c' tid e') \<longleftrightarrow> (\<exists>e. ad_live c tid e \<and> \<not> ?gone e)" for tid
    by (auto simp: ad_live_def f te_expire_cases)
  show "bt_get (ad_idempotency_index ?c') key = Some tid
      \<longleftrightarrow> bt_get (ad_idempotency_index c) key = Some tid \<and> (\<exists>e'. ad_live ?c' tid e')" for key tid
  proof (cases "bt_get (ad_idempotency_index c) key = Some tid")
    case False
    then show ?thesis by (auto simp: f bt_get_fold_remove)
  next
    case True
    then obtain e where e: "ad_live c tid e" "qt_idempotency_key (te_ticket e) = key"
      using d(5) by blast
    have "key \<in> (\<lambda>e. qt_idempotency_key (te_ticket e)) ` set (filter ?gone (bt_values (ad_tickets c)))
        \<longleftrightarrow> ?gone e" (is "?in \<longleftrightarrow> _")
    proof
      assume ?in
      then obtain t2 e2 where e2: "bt_get (ad_tickets c) t2 = Some e2" "?gone e2"
        "key = qt_idempotency_key (te_ticket e2)"
        by (auto simp: in_bt_values)
      then have "ad_live c t2 e2" by (auto simp: ad_live_def te_expire_cases(4))
      with e2(3) have "bt_get (ad_idempotency_index c) key = Some t2" using d(5) by blast
      with True have "t2 = tid" by simp
      with e2 e(1) show "?gone e" by (simp add: ad_live_def)
    next
      assume "?gone e"
      with e show ?in by (auto simp: in_bt_values ad_live_def intro!: image_eqI [of _ _ e])
    qed
    moreover have "(\<exists>e'. ad_live ?c' tid e') \<longleftrightarrow> \<not> ?gone e"
      unfolding live' using e(1) by (auto simp: ad_live_def)
    ultimately show ?thesis using True by (simp add: f bt_get_fold_remove)
  qed
  show "sorted_wrt (<) (ad_waiting ?c')"
    using d(1) by (simp add: f(12) sorted_wrt_filter)
  show "length (ad_waiting ?c') \<le> length (ad_waiting c)"
    by (simp add: f(12))
  have "ad_ticket_waiting c tid" if "ad_ticket_waiting ?c' tid" for tid
    using that by (auto simp: ad_ticket_waiting_def f opt_is_some_and_iff te_expire_cases)
  then show "tid \<in> set (ad_waiting ?c') \<longleftrightarrow> ad_ticket_waiting ?c' tid" for tid
    using d(2) by (auto simp: f(12))
qed (simp_all add: ad_expire_tickets_fields)

lemma te_offer_cases:
  "te_ticket (te_offer x e) = te_ticket e" "te_offer x (te_offer x e) = te_offer x e"
  "ts_is_live (te_state (te_offer x e)) = ts_is_live (te_state e)"
  "\<not> ts_is_waiting (te_state (te_offer x e))"
  by (cases "te_state e"; simp add: te_offer_def ts_is_live_def)+

lemma bt_get_offer_all:
  "bt_get (te_offer_all x tids t) tid
     = (if tid \<in> set tids then map_option (te_offer x) (bt_get t tid) else bt_get t tid)"
  by (induction tids arbitrary: t)
    (auto simp: te_offer_all_def bt_get_modify option.map_comp comp_def te_offer_cases)

lemma ad_promote_queue:
  assumes inv: "ad_queue_inv c" and cap: "ad_capacity_inv c"
  shows "ad_queue_inv (ad_promote_at now c) \<and> ad_work_conserving (ad_promote_at now c)"
proof -
  note d = ad_queue_invD [OF inv]
  let ?x = "deadline now (qp_offer_ttl (ad_policy c))"
  obtain k where k: "k \<le> length (ad_waiting c)" and
    eq: "ad_promote_loop now (ad_waiting c) c = c\<lparr>ad_tickets := te_offer_all ?x
        (take k (ad_waiting c)) (ad_tickets c), ad_waiting := drop k (ad_waiting c)\<rparr>" and
    wc: "k = length (ad_waiting c) \<or> ad_limit c \<le> ad_total (ad_promote_loop now (ad_waiting c) c)"
    using ad_promote_loop_spec [OF cap, of "ad_waiting c" now] by blast
  let ?c' = "c\<lparr>ad_tickets := te_offer_all ?x (take k (ad_waiting c)) (ad_tickets c),
      ad_waiting := drop k (ad_waiting c)\<rparr>"
  have dist: "distinct (ad_waiting c)" using d(1) by (rule strict_sorted_distinct)
  have get: "bt_get (ad_tickets ?c') tid = (if tid \<in> set (take k (ad_waiting c))
      then map_option (te_offer ?x) (bt_get (ad_tickets c) tid) else bt_get (ad_tickets c) tid)" for tid
    by (simp add: bt_get_offer_all)
  have "ad_queue_inv ?c'"
  proof (rule ad_queue_inv_shrink [OF inv])
    show "\<exists>e. bt_get (ad_tickets c) tid = Some e \<and> te_ticket e' = te_ticket e
        \<and> (ts_is_live (te_state e') \<longrightarrow> ts_is_live (te_state e))"
      if "bt_get (ad_tickets ?c') tid = Some e'" for tid e'
      using that unfolding get by (auto simp: te_offer_cases split: if_splits)
    have live: "(\<exists>e. ad_live ?c' tid e) \<longleftrightarrow> (\<exists>e. ad_live c tid e)" for tid
      unfolding ad_live_def get by (auto simp: te_offer_cases)
    show "bt_get (ad_idempotency_index ?c') key = Some tid
        \<longleftrightarrow> bt_get (ad_idempotency_index c) key = Some tid \<and> (\<exists>e'. ad_live ?c' tid e')" for key tid
      unfolding live using d(5) by (auto simp del: split_paired_Ex)
    show "sorted_wrt (<) (ad_waiting ?c')" using d(1) by (simp add: sorted_wrt_drop)
    have disj: "set (take k (ad_waiting c)) \<inter> set (drop k (ad_waiting c)) = {}"
      using dist by (rule set_take_disj_set_drop_if_distinct) simp
    have union: "set (ad_waiting c) = set (take k (ad_waiting c)) \<union> set (drop k (ad_waiting c))"
      by (metis append_take_drop_id set_append)
    have "ad_ticket_waiting ?c' tid \<longleftrightarrow> ad_ticket_waiting c tid \<and> tid \<notin> set (take k (ad_waiting c))" for tid
      unfolding ad_ticket_waiting_def get by (auto simp: opt_is_some_and_iff te_offer_cases)
    then show "tid \<in> set (ad_waiting ?c') \<longleftrightarrow> ad_ticket_waiting ?c' tid" for tid
      using disj union d(2) [of tid] by auto
  qed simp_all
  moreover have "ad_work_conserving ?c'"
    using wc unfolding eq by (auto simp: ad_work_conserving_def)
  ultimately show ?thesis
    unfolding ad_promote_at_def Let_def eq
    by (auto simp: ad_work_conserving_def elim: ad_queue_inv_frame)
qed

lemma ad_apply_pending_fields [simp]:
  "ad_waiting (ad_apply_pending c) = ad_waiting c" "ad_tickets (ad_apply_pending c) = ad_tickets c"
  "ad_policy (ad_apply_pending c) = ad_policy c" "ad_metadata (ad_apply_pending c) = ad_metadata c"
  "ad_next_ticket (ad_apply_pending c) = ad_next_ticket c"
  "ad_next_lease (ad_apply_pending c) = ad_next_lease c"
  "ad_active (ad_apply_pending c) = ad_active c"
  "ad_reservations (ad_apply_pending c) = ad_reservations c"
  "ad_idempotency_index (ad_apply_pending c) = ad_idempotency_index c"
  by (simp_all add: ad_apply_pending_def split: option.splits)

lemma ad_expire_reservations_fields [simp]:
  "ad_waiting (ad_expire_reservations now c) = ad_waiting c"
  "ad_tickets (ad_expire_reservations now c) = ad_tickets c"
  "ad_policy (ad_expire_reservations now c) = ad_policy c"
  "ad_metadata (ad_expire_reservations now c) = ad_metadata c"
  "ad_next_ticket (ad_expire_reservations now c) = ad_next_ticket c"
  "ad_next_lease (ad_expire_reservations now c) = ad_next_lease c"
  "ad_active (ad_expire_reservations now c) = ad_active c"
  "ad_reservations (ad_expire_reservations now c)
     = bt_retain (\<lambda>_ r. now < rv_expires r) (ad_reservations c)"
  "ad_idempotency_index (ad_expire_reservations now c) = ad_idempotency_index c"
  by (simp_all add: ad_expire_reservations_def Let_def)

lemma ad_promote_fields [simp]:
  assumes "ad_capacity_inv c"
  shows "ad_policy (ad_promote_at now c) = ad_policy c"
    "ad_metadata (ad_promote_at now c) = ad_metadata c"
    "ad_next_ticket (ad_promote_at now c) = ad_next_ticket c"
    "ad_next_lease (ad_promote_at now c) = ad_next_lease c"
    "ad_active (ad_promote_at now c) = ad_active c"
    "ad_reservations (ad_promote_at now c) = ad_reservations c"
    "ad_idempotency_index (ad_promote_at now c) = ad_idempotency_index c"
proof -
  obtain t w where "ad_promote_loop now (ad_waiting c) c = c\<lparr>ad_tickets := t, ad_waiting := w\<rparr>"
    using ad_promote_loop_spec [OF assms, of "ad_waiting c" now] by blast
  then show "ad_policy (ad_promote_at now c) = ad_policy c"
    "ad_metadata (ad_promote_at now c) = ad_metadata c"
    "ad_next_ticket (ad_promote_at now c) = ad_next_ticket c"
    "ad_next_lease (ad_promote_at now c) = ad_next_lease c"
    "ad_active (ad_promote_at now c) = ad_active c"
    "ad_reservations (ad_promote_at now c) = ad_reservations c"
    "ad_idempotency_index (ad_promote_at now c) = ad_idempotency_index c"
    by (simp_all add: ad_promote_at_def Let_def)
qed

section \<open>Every command keeps the controller sound\<close>

definition ad_sound :: "admission_controller \<Rightarrow> bool" where
  "ad_sound c \<longleftrightarrow> ad_capacity_inv c \<and> ad_queue_inv c \<and> ad_lease_inv c"

text \<open>Room for \<open>n\<close> more tickets and leases before an id counter would wrap.\<close>

definition ad_room :: "nat \<Rightarrow> admission_controller \<Rightarrow> bool" where
  "ad_room n c \<longleftrightarrow> unat (ad_next_ticket c) + n < 2 ^ 64 \<and> unat (ad_next_lease c) + n < 2 ^ 64"

definition ad_inv :: "nat \<Rightarrow> admission_controller \<Rightarrow> bool" where
  "ad_inv n c \<longleftrightarrow> ad_sound c \<and> ad_work_conserving c \<and> ad_room n c"

lemma ad_soundD:
  "ad_sound c \<Longrightarrow> ad_capacity_inv c" "ad_sound c \<Longrightarrow> ad_queue_inv c" "ad_sound c \<Longrightarrow> ad_lease_inv c"
  by (simp_all add: ad_sound_def)

lemma ad_invD:
  "ad_inv n c \<Longrightarrow> ad_sound c" "ad_inv n c \<Longrightarrow> ad_work_conserving c" "ad_inv n c \<Longrightarrow> ad_room n c"
  by (simp_all add: ad_inv_def)

lemma ad_lease_inv_frame:
  assumes "ad_lease_inv c" "ad_active c' = ad_active c" "ad_next_lease c' = ad_next_lease c"
    "\<And>lid r. bt_get (ad_reservations c') lid = Some r \<Longrightarrow> bt_get (ad_reservations c) lid = Some r"
  shows "ad_lease_inv c'"
  using assms unfolding ad_lease_inv_def by (metis not_None_eq)

lemma ad_promote_sound:
  assumes "ad_sound c"
  shows "ad_sound (ad_promote_at now c)" "ad_work_conserving (ad_promote_at now c)"
  using ad_promote_queue [of c now] ad_promote_capacity [of c now] assms
  by (auto simp: ad_sound_def elim: ad_lease_inv_frame)

lemma ad_apply_pending_sound: "ad_sound c \<Longrightarrow> ad_sound (ad_apply_pending c)"
  using ad_apply_pending_capacity [of c]
  by (auto simp: ad_sound_def elim: ad_lease_inv_frame ad_queue_inv_frame)

lemma ad_count_sound [simp]: "ad_sound (ad_count f c) = ad_sound c"
  using ad_queue_inv_frame [of c "ad_count f c"] ad_queue_inv_frame [of "ad_count f c" c]
    ad_lease_inv_frame [of c "ad_count f c"] ad_lease_inv_frame [of "ad_count f c" c]
  by (auto simp: ad_sound_def)

lemma ad_count_room [simp]:
  "ad_room n (ad_count f c) = ad_room n c" "ad_work_conserving (ad_count f c) = ad_work_conserving c"
  by (simp_all add: ad_room_def ad_work_conserving_def)

lemma ad_expire_pass_sound:
  assumes "ad_sound c"
  shows "ad_sound (ad_apply_pending (ad_count f (ad_expire_tickets now (ad_expire_reservations now c))))"
proof -
  let ?r = "ad_expire_reservations now c"
  have "ad_queue_inv ?r" using ad_soundD(2) [OF assms] by (rule ad_queue_inv_frame) simp_all
  moreover have "ad_lease_inv ?r"
    using ad_soundD(3) [OF assms] by (rule ad_lease_inv_frame) (auto split: if_splits option.splits)
  then have "ad_lease_inv (ad_expire_tickets now ?r)"
    by (rule ad_lease_inv_frame) (simp_all add: ad_expire_tickets_fields)
  ultimately have "ad_sound (ad_expire_tickets now ?r)"
    using ad_soundD(1) [OF assms]
    by (simp add: ad_sound_def ad_expire_tickets_queue ad_expire_tickets_capacity
        ad_expire_reservations_capacity)
  then show ?thesis by (simp add: ad_apply_pending_sound)
qed

lemma ad_expire_sound:
  assumes "ad_sound c"
  shows "ad_sound (ad_expire_at now c)" "ad_work_conserving (ad_expire_at now c)"
  using ad_expire_pass_sound [OF assms] by (simp_all add: ad_expire_at_def Let_def ad_promote_sound)

lemma ad_expire_fields:
  assumes "ad_sound c"
  shows "ad_policy (ad_expire_at now c) = ad_policy c"
    "ad_metadata (ad_expire_at now c) = ad_metadata c"
    "ad_next_ticket (ad_expire_at now c) = ad_next_ticket c"
    "ad_next_lease (ad_expire_at now c) = ad_next_lease c"
    "ad_active (ad_expire_at now c) = ad_active c"
    "ad_reservations (ad_expire_at now c) = bt_retain (\<lambda>_ r. now < rv_expires r) (ad_reservations c)"
proof -
  let ?c = "ad_apply_pending (ad_count (set_queue_depth (ad_queue_depth
    (ad_expire_tickets now (ad_expire_reservations now c)))) (ad_expire_tickets now (ad_expire_reservations now c)))"
  have "ad_capacity_inv ?c"
    using ad_soundD(1) [OF assms]
    by (simp add: ad_apply_pending_capacity ad_expire_tickets_capacity ad_expire_reservations_capacity)
  then show "ad_policy (ad_expire_at now c) = ad_policy c"
    "ad_metadata (ad_expire_at now c) = ad_metadata c"
    "ad_next_ticket (ad_expire_at now c) = ad_next_ticket c"
    "ad_next_lease (ad_expire_at now c) = ad_next_lease c"
    "ad_active (ad_expire_at now c) = ad_active c"
    "ad_reservations (ad_expire_at now c) = bt_retain (\<lambda>_ r. now < rv_expires r) (ad_reservations c)"
    by (simp_all add: ad_expire_at_def Let_def ad_expire_tickets_fields)
qed

lemma ad_expire_inv:
  assumes "ad_inv n c" shows "ad_inv n (ad_expire_at now c)"
  using ad_expire_sound [OF ad_invD(1) [OF assms]] ad_expire_fields [OF ad_invD(1) [OF assms]] assms
  by (simp add: ad_inv_def ad_room_def)

lemma ad_activate_sound:
  assumes act: "ad_activate lid p now c = (lease, c')"
    and s: "ad_sound c" and room: "ad_total c < unat (ad_allocated_ccu c)"
    and fresh: "bt_get (ad_active c) lid = None" "bt_get (ad_reservations c) lid = None"
      "lid < ad_next_lease c"
  shows "ad_sound c'" "ad_total c' = ad_total c + 1" "ad_limit c' = ad_limit c"
    "ad_waiting c' = ad_waiting c" "ad_next_lease c' = ad_next_lease c"
    "ad_next_ticket c' = ad_next_ticket c"
proof -
  note a = ad_activate_fields(1) [OF act]
  obtain u v where c': "c' = c\<lparr>ad_active := u, ad_counters := v\<rparr>"
    using ad_activate_fields(2) [OF act] by blast
  have "ad_capacity_inv c'"
    using ad_activate_capacity [OF act] ad_soundD(1) [OF s] room by (simp add: ad_capacity_inv_def)
  moreover have "ad_queue_inv c'" using ad_soundD(2) [OF s] by (rule ad_queue_inv_frame) (simp_all add: c')
  moreover have "ad_lease_inv c'"
    using ad_soundD(3) [OF s] fresh a unfolding ad_lease_inv_def
    by (auto simp: c' bt_get_insert split: if_splits)
  ultimately show "ad_sound c'" by (simp add: ad_sound_def)
  have "bt_len (ad_active c') = bt_len (ad_active c) + 1"
    using fresh(1) by (simp add: a bt_len_insert)
  then show "ad_total c' = ad_total c + 1" by (simp add: ad_total_def c' ad_offered_count_def)
  show "ad_limit c' = ad_limit c" "ad_waiting c' = ad_waiting c" "ad_next_lease c' = ad_next_lease c"
    "ad_next_ticket c' = ad_next_ticket c"
    by (simp_all add: c')
qed

lemma ad_room_Suc:
  assumes "ad_room (Suc n) c"
  shows "unat (ad_next_ticket c + 1) = Suc (unat (ad_next_ticket c))"
    "unat (ad_next_lease c + 1) = Suc (unat (ad_next_lease c))"
    "ad_next_ticket c < ad_next_ticket c + 1" "ad_next_lease c < ad_next_lease c + 1"
proof -
  have "unat (- 1 :: u64) = 2 ^ 64 - 1" by (simp add: unsigned_minus_1_eq_mask mask_eq_exp_minus_1)
  then have "ad_next_ticket c \<noteq> - 1" "ad_next_lease c \<noteq> - 1"
    using assms by (auto simp: ad_room_def)
  then show "unat (ad_next_ticket c + 1) = Suc (unat (ad_next_ticket c))"
    "unat (ad_next_lease c + 1) = Suc (unat (ad_next_lease c))"
    "ad_next_ticket c < ad_next_ticket c + 1" "ad_next_lease c < ad_next_lease c + 1"
    by (simp_all add: unat_word_Suc word_less_Suc)
qed

lemma ad_admit_sound:
  assumes adm: "ad_admit p now c = (lease, c')"
    and s: "ad_sound c" and free: "ad_total c < unat (ad_allocated_ccu c)"
    and room: "ad_room (Suc n) c"
  shows "ad_sound c'" "ad_total c' = ad_total c + 1" "ad_limit c' = ad_limit c"
    "ad_waiting c' = ad_waiting c" "ad_room n c'"
    "ad_next_lease c' = ad_next_lease c + 1" "al_id lease = ad_next_lease c" "al_principal lease = p"
proof -
  let ?d = "c\<lparr>ad_next_lease := ad_next_lease c + 1\<rparr>"
  note suc = ad_room_Suc [OF room]
  have act: "ad_activate (ad_next_lease c) p now ?d = (lease, c')"
    using adm by (simp add: ad_admit_def)
  have fresh: "bt_get (ad_active c) lid = None \<and> bt_get (ad_reservations c) lid = None"
    if "\<not> lid < ad_next_lease c" for lid
    using ad_soundD(3) [OF s] that unfolding ad_lease_inv_def by blast
  have "ad_lease_inv ?d"
    using ad_soundD(3) [OF s] suc(4) unfolding ad_lease_inv_def by (auto intro: less_trans)
  moreover have "ad_queue_inv ?d"
    using ad_soundD(2) [OF s] by (rule ad_queue_inv_frame) simp_all
  ultimately have sd: "ad_sound ?d"
    using ad_soundD(1) [OF s] by (simp add: ad_sound_def ad_capacity_inv_def)
  have f: "ad_total ?d < unat (ad_allocated_ccu ?d)" "bt_get (ad_active ?d) (ad_next_lease c) = None"
    "bt_get (ad_reservations ?d) (ad_next_lease c) = None" "ad_next_lease c < ad_next_lease ?d"
    using free fresh [of "ad_next_lease c"] suc(4) by simp_all
  note * = ad_activate_sound [OF act sd f]
  show "ad_sound c'" by (rule *(1))
  show "ad_total c' = ad_total c + 1" "ad_limit c' = ad_limit c" "ad_waiting c' = ad_waiting c"
    "ad_next_lease c' = ad_next_lease c + 1"
    using *(2-5) by simp_all
  show "ad_room n c'"
    using *(5,6) suc room by (simp add: ad_room_def)
  show "al_id lease = ad_next_lease c" "al_principal lease = p"
    using ad_activate_fields(3) [OF act] by simp_all
qed

text \<open>Under the invariant the depth is the length of the waiting list.\<close>

lemma ad_queue_depth_waiting: "ad_queue_inv c \<Longrightarrow> ad_queue_depth c = length (ad_waiting c)"
  by (simp add: ad_queue_depth_def ad_queue_inv_def)

lemma ad_enqueue_queue:
  assumes inv: "ad_queue_inv c" and room: "ad_room (Suc n) c"
    and depth: "ad_queue_depth c < qp_max_depth (ad_policy c)"
    and who: "\<not> ad_has_queued_principal c p" and key: "bt_get (ad_idempotency_index c) key = None"
  shows "ad_queue_inv (snd (ad_enqueue key p now c))"
proof -
  note d = ad_queue_invD [OF inv] and suc = ad_room_Suc [OF room]
  let ?t = "ad_next_ticket c"
  let ?e = "\<lparr>te_ticket = fst (ad_enqueue key p now c), te_created = now, te_last_heartbeat = now,
      te_state = TS_Waiting\<rparr>"
  let ?c = "snd (ad_enqueue key p now c)"
  have f: "ad_tickets ?c = bt_insert ?t ?e (ad_tickets c)" "ad_waiting ?c = ad_waiting c @ [?t]"
    "ad_idempotency_index ?c = bt_insert key ?t (ad_idempotency_index c)"
    "ad_next_ticket ?c = ?t + 1" "ad_policy ?c = ad_policy c" "ad_metadata ?c = ad_metadata c"
    by (simp_all add: ad_enqueue_def Let_def)
  have e: "te_ticket ?e = \<lparr>qt_id = ?t, qt_session = am_session (ad_metadata c), qt_principal = p,
      qt_idempotency_key = key\<rparr>"
    by (simp add: ad_enqueue_def Let_def)
  have new: "bt_get (ad_tickets c) ?t = None" using d(4) [of ?t] by fastforce
  have old: "tid < ?t" if "tid \<in> set (ad_waiting c)" for tid
    using that d(2,4) unfolding ad_ticket_waiting_def opt_is_some_and_iff by blast
  have waiting: "ad_ticket_waiting ?c tid \<longleftrightarrow> tid = ?t \<or> ad_ticket_waiting c tid" for tid
    by (simp add: ad_ticket_waiting_def f(1) bt_get_insert)
  have live: "ad_live ?c tid e \<longleftrightarrow> tid = ?t \<and> e = ?e \<or> tid \<noteq> ?t \<and> ad_live c tid e" for tid e
    by (auto simp: ad_live_def f(1) ts_is_live_def bt_get_insert)
  have noone: "qt_principal (te_ticket e) \<noteq> p" if "ad_live c tid e" for tid e
    using who that by (auto simp: ad_has_queued_principal_def list_ex_iff in_bt_values ad_live_def)
  show ?thesis
    unfolding ad_queue_inv_def
  proof (intro conjI allI impI)
    show "sorted_wrt (<) (ad_waiting ?c)" using d(1) old by (simp add: f(2) sorted_wrt_append)
    show "tid \<in> set (ad_waiting ?c) \<longleftrightarrow> ad_ticket_waiting ?c tid" for tid
      using d(2) by (auto simp: f(2) waiting)
    show "length (ad_waiting ?c) \<le> qp_max_depth (ad_policy ?c)"
      using depth by (simp add: f(2,5) ad_queue_depth_waiting [OF inv])
    show "qt_id (te_ticket x) = tid" "tid < ad_next_ticket ?c"
      "qt_session (te_ticket x) = am_session (ad_metadata ?c)"
      if "bt_get (ad_tickets ?c) tid = Some x" for tid x
      using that d(4) [of tid x] suc(3) e by (auto simp: f bt_get_insert split: if_splits)
    show "bt_get (ad_idempotency_index ?c) k = Some tid
        \<longleftrightarrow> (\<exists>x. ad_live ?c tid x \<and> qt_idempotency_key (te_ticket x) = k)" for k tid
    proof -
      have "\<not> ad_live c ?t x" for x using new by (simp add: ad_live_def)
      moreover have "\<not> (ad_live c tid x \<and> qt_idempotency_key (te_ticket x) = key)" for tid x
        using key d(5) by (metis option.distinct(1))
      ultimately show ?thesis
        using d(5) [of k tid] e by (auto simp: f(3) live bt_get_insert)
    qed
    show "tid = tid'" if "ad_live ?c tid x" "ad_live ?c tid' y"
      "qt_principal (te_ticket x) = qt_principal (te_ticket y)" for tid x tid' y
      using that d(6) noone e unfolding live by (metis queue_ticket.select_convs(3))
  qed
qed

lemma ad_room_Suc_imp: "ad_room (Suc n) c \<Longrightarrow> ad_room n c"
  by (simp add: ad_room_def)

lemma ad_enqueue_inv:
  assumes s: "ad_sound c" and room: "ad_room (Suc n) c" and full: "ad_limit c \<le> ad_total c"
    and "ad_queue_depth c < qp_max_depth (ad_policy c)"
    and "\<not> ad_has_queued_principal c p" "bt_get (ad_idempotency_index c) key = None"
  shows "ad_inv n (snd (ad_enqueue key p now c))"
proof -
  let ?c = "snd (ad_enqueue key p now c)"
  let ?e = "\<lparr>te_ticket = fst (ad_enqueue key p now c), te_created = now, te_last_heartbeat = now,
      te_state = TS_Waiting\<rparr>"
  have f: "ad_tickets ?c = bt_insert (ad_next_ticket c) ?e (ad_tickets c)"
    "ad_active ?c = ad_active c" "ad_reservations ?c = ad_reservations c"
    "ad_next_lease ?c = ad_next_lease c" "ad_next_ticket ?c = ad_next_ticket c + 1"
    "ad_allocated_ccu ?c = ad_allocated_ccu c" "ad_pending_target ?c = ad_pending_target c"
    "ad_limit ?c = ad_limit c"
    by (simp_all add: ad_enqueue_def Let_def)
  have new: "bt_get (ad_tickets c) (ad_next_ticket c) = None"
    using ad_queue_invD(4) [OF ad_soundD(2) [OF s], of "ad_next_ticket c"] by fastforce
  have total: "ad_total ?c = ad_total c"
    using bt_count_insert [of "\<lambda>_ e. ts_is_offered (te_state e)" "ad_next_ticket c" ?e "ad_tickets c"] new
    by (simp add: ad_total_def ad_offered_count_alt f)
  have "ad_lease_inv ?c" using ad_soundD(3) [OF s] by (rule ad_lease_inv_frame) (simp_all add: f)
  moreover have "ad_capacity_inv ?c"
    using ad_soundD(1) [OF s] by (simp add: ad_capacity_inv_def total f)
  moreover have "ad_queue_inv ?c" using assms(4-6) ad_enqueue_queue [OF ad_soundD(2) [OF s] room] by simp
  ultimately show ?thesis
    using full room ad_room_Suc(1) [OF room]
    by (simp add: ad_inv_def ad_sound_def ad_work_conserving_def total f ad_room_def)
qed

lemma ad_live_ticket_None:
  assumes "ad_queue_inv c" "ad_live_ticket c key = None"
  shows "bt_get (ad_idempotency_index c) key = None"
proof (rule ccontr)
  assume "bt_get (ad_idempotency_index c) key \<noteq> None"
  then obtain tid where tid: "bt_get (ad_idempotency_index c) key = Some tid" by blast
  then obtain e where "ad_live c tid e" using ad_queue_invD(5) [OF assms(1)] by blast
  then have "ad_live_ticket c key = Some (te_ticket e)"
    using tid by (simp add: ad_live_ticket_def ad_live_def)
  with assms(2) show False by simp
qed

lemma ad_has_queued_principal_count [simp]:
  "ad_has_queued_principal (ad_count f c) = ad_has_queued_principal c"
  "ad_queue_depth (ad_count f c) = ad_queue_depth c"
  by (simp_all add: ad_has_queued_principal_def ad_queue_depth_def fun_eq_iff)

lemma ad_count_inv [simp]: "ad_inv n (ad_count f c) = ad_inv n c"
  by (simp add: ad_inv_def)

lemma ad_work_conserving_after_admit:
  "ad_work_conserving c \<Longrightarrow> ad_limit c' = ad_limit c \<Longrightarrow> ad_waiting c' = ad_waiting c
    \<Longrightarrow> ad_total c \<le> ad_total c' \<Longrightarrow> ad_work_conserving c'"
  by (auto simp: ad_work_conserving_def)

lemma ad_request_new_inv:
  assumes inv: "ad_inv (Suc n) c" and key: "bt_get (ad_idempotency_index c) key = None"
  shows "ad_inv n (snd (ad_request_new p key now c))"
proof -
  note s = ad_invD(1) [OF inv] and wc = ad_invD(2) [OF inv] and room = ad_invD(3) [OF inv]
  have stay: "ad_inv n c" using inv by (simp add: ad_inv_def ad_room_Suc_imp)
  have below: "ad_occupied c < ad_admission_limit c \<longleftrightarrow> ad_total c < ad_limit c"
    using ad_soundD(1) [OF s] by (rule ad_below_limit)
  have admit: "ad_inv n (snd (ad_admit p now (ad_count increment_immediate_admissions c)))"
    if lt: "ad_occupied c < ad_admission_limit c"
  proof -
    let ?d = "ad_count increment_immediate_admissions c"
    obtain lease c' where a: "ad_admit p now ?d = (lease, c')" by (cases "ad_admit p now ?d")
    have "ad_total ?d < unat (ad_allocated_ccu ?d)"
      using lt below ad_capacity_limit [OF ad_soundD(1) [OF s]] by simp
    from ad_admit_sound [OF a _ this, of n] s room wc show ?thesis
      using ad_work_conserving_after_admit [of c c'] by (simp add: a ad_inv_def)
  qed
  show ?thesis
    using stay admit ad_enqueue_inv [of "ad_count (set_queue_depth (ad_queue_depth c + 1))
        (ad_count increment_queued_joins c)" n p key now] key s room below
    by (simp add: ad_request_new_def split_beta)
qed

lemma ad_join_inv:
  assumes inv: "ad_inv (Suc n) c"
  shows "ad_inv n (snd (ad_request_join_at request now c))"
proof -
  let ?c = "ad_expire_at now (ad_count increment_join_attempts c)"
  have inv1: "ad_inv (Suc n) ?c" by (rule ad_expire_inv) (simp add: inv)
  then have stay: "ad_inv n ?c" by (simp add: ad_inv_def ad_room_Suc_imp)
  have "ad_inv n (snd (ad_request_new p key now ?c))" if "ad_live_ticket ?c key = None" for p key
    using inv1 by (rule ad_request_new_inv)
      (rule ad_live_ticket_None [OF ad_soundD(2) [OF ad_invD(1) [OF inv1]] that])
  with stay show ?thesis by (simp add: ad_request_join_at_def Let_def split: option.split)
qed

text \<open>Ending a live ticket drops it from the waiting list and from the index.\<close>

lemma ad_end_ticket_queue:
  assumes inv: "ad_queue_inv c" and e: "ad_live c tid e" and dead: "\<not> ts_is_live st"
  shows "ad_queue_inv (c\<lparr>ad_tickets := bt_insert tid (e\<lparr>te_state := st\<rparr>) (ad_tickets c),
      ad_idempotency_index := bt_remove (qt_idempotency_key (te_ticket e)) (ad_idempotency_index c),
      ad_waiting := filter (\<lambda>candidate. candidate \<noteq> tid) (ad_waiting c)\<rparr>)" (is "ad_queue_inv ?c")
proof (rule ad_queue_inv_shrink [OF inv])
  note d = ad_queue_invD [OF inv]
  have et: "bt_get (ad_tickets c) tid = Some e" "ts_is_live (te_state e)" using e by (simp_all add: ad_live_def)
  show "\<exists>x. bt_get (ad_tickets c) t = Some x \<and> te_ticket x' = te_ticket x
      \<and> (ts_is_live (te_state x') \<longrightarrow> ts_is_live (te_state x))"
    if "bt_get (ad_tickets ?c) t = Some x'" for t x'
    using that et by (auto simp: bt_get_insert split: if_splits)
  have live: "ad_live ?c t x \<longleftrightarrow> t \<noteq> tid \<and> ad_live c t x" for t x
    using dead by (auto simp: ad_live_def bt_get_insert)
  have mine: "bt_get (ad_idempotency_index c) (qt_idempotency_key (te_ticket e)) = Some tid"
    using e d(5) by blast
  show "bt_get (ad_idempotency_index ?c) key = Some t
      \<longleftrightarrow> bt_get (ad_idempotency_index c) key = Some t \<and> (\<exists>x. ad_live ?c t x)" for key t
  proof (cases "bt_get (ad_idempotency_index c) key = Some t")
    case True
    then obtain x where x: "ad_live c t x" "qt_idempotency_key (te_ticket x) = key"
      using d(5) by blast
    have "key = qt_idempotency_key (te_ticket e) \<longleftrightarrow> t = tid"
      using mine True x e by (auto simp: ad_live_def)
    then show ?thesis using True x(1) by (auto simp: live)
  qed auto
  show "sorted_wrt (<) (ad_waiting ?c)" using d(1) by (simp add: sorted_wrt_filter)
  have "ts_is_waiting st \<Longrightarrow> False" using dead by (simp add: ts_is_live_def)
  then have "ad_ticket_waiting ?c t \<longleftrightarrow> t \<noteq> tid \<and> ad_ticket_waiting c t" for t
    by (auto simp: ad_ticket_waiting_def bt_get_insert)
  then show "t \<in> set (ad_waiting ?c) \<longleftrightarrow> ad_ticket_waiting ?c t" for t
    using d(2) by auto
qed simp_all

lemma ad_end_ticket_sound:
  assumes s: "ad_sound c" and e: "ad_live c tid e" and dead: "\<not> ts_is_live st"
  shows "ad_sound (c\<lparr>ad_tickets := bt_insert tid (e\<lparr>te_state := st\<rparr>) (ad_tickets c),
      ad_idempotency_index := bt_remove (qt_idempotency_key (te_ticket e)) (ad_idempotency_index c),
      ad_waiting := filter (\<lambda>candidate. candidate \<noteq> tid) (ad_waiting c)\<rparr>)" (is "ad_sound ?c")
proof -
  have "ad_lease_inv ?c" using ad_soundD(3) [OF s] by (rule ad_lease_inv_frame) simp_all
  moreover have "ad_capacity_inv ?c"
    using ad_soundD(1) [OF s] dead e
      bt_count_insert [of "\<lambda>_ e. ts_is_offered (te_state e)" tid "e\<lparr>te_state := st\<rparr>" "ad_tickets c"]
    by (simp add: ad_capacity_inv_def ad_total_def ad_offered_count_alt ad_live_def ts_is_live_def
        split: if_splits)
  ultimately show ?thesis
    using ad_end_ticket_queue [OF ad_soundD(2) [OF s] e dead] by (simp add: ad_sound_def)
qed

lemma ad_promote_inv: "ad_sound c \<Longrightarrow> ad_room n c \<Longrightarrow> ad_inv n (ad_promote_at now c)"
  using ad_promote_sound [of c now] ad_promote_fields [OF ad_soundD(1)]
  by (simp add: ad_inv_def ad_room_def)

lemma ad_cancel_inv:
  assumes inv: "ad_inv n c"
  shows "ad_inv n (snd (ad_cancel_at tid now c))"
proof -
  let ?c = "ad_expire_at now c"
  have inv1: "ad_inv n ?c" using inv by (rule ad_expire_inv)
  have "ad_inv n (ad_promote_at now (ad_count increment_cancelled_tickets
      (?c\<lparr>ad_tickets := bt_insert tid (e\<lparr>te_state := TS_Cancelled\<rparr>) (ad_tickets ?c),
        ad_idempotency_index := bt_remove (qt_idempotency_key (te_ticket e)) (ad_idempotency_index ?c),
        ad_waiting := filter (\<lambda>candidate. candidate \<noteq> tid) (ad_waiting ?c)\<rparr>)))"
    if "bt_get (ad_tickets ?c) tid = Some e" "ts_is_live (te_state e)" for e
    by (rule ad_promote_inv)
      (use that inv1 ad_end_ticket_sound [of ?c tid e TS_Cancelled] in
        \<open>simp_all add: ad_live_def ts_is_live_def ad_inv_def ad_room_def\<close>)
  with inv1 show ?thesis
    by (simp add: ad_cancel_at_def Let_def split: option.split)
qed

lemma ad_claim_inv:
  assumes inv: "ad_inv (Suc n) c"
  shows "ad_inv n (snd (ad_claim_offer_at tid now c))"
proof -
  let ?c = "ad_expire_at now c"
  have inv1: "ad_inv (Suc n) ?c" using inv by (rule ad_expire_inv)
  then have stay: "ad_inv n ?c" by (simp add: ad_inv_def ad_room_Suc_imp)
  show ?thesis
  proof (cases "\<exists>e. bt_get (ad_tickets ?c) tid = Some e \<and> ts_is_offered (te_state e)")
    case False
    then show ?thesis
      using stay by (auto simp: ad_claim_offer_at_def Let_def split: option.splits ticket_state.splits)
  next
    case True
    then obtain e where e: "bt_get (ad_tickets ?c) tid = Some e" "ts_is_offered (te_state e)" by blast
    then have l: "ad_live ?c tid e" by (simp add: ad_live_def ts_is_live_def)
    obtain x where x: "te_state e = TS_Offered x" using e(2) by (cases "te_state e") auto
    have "tid \<notin> set (ad_waiting ?c)"
      using ad_queue_invD(2) [OF ad_soundD(2) [OF ad_invD(1) [OF inv1]]] e x
      by (simp add: ad_ticket_waiting_def)
    then have w: "filter (\<lambda>candidate. candidate \<noteq> tid) (ad_waiting ?c) = ad_waiting ?c"
      by (auto simp: filter_id_conv)
    let ?t = "bt_insert tid (e\<lparr>te_state := TS_Admitted\<rparr>) (ad_tickets ?c)"
    let ?d = "ad_count increment_promoted_players
      (?c\<lparr>ad_tickets := ?t,
          ad_idempotency_index :=
            bt_remove (qt_idempotency_key (te_ticket e)) (ad_idempotency_index ?c)\<rparr>)"
    have "ad_sound (?c\<lparr>ad_tickets := ?t,
        ad_idempotency_index := bt_remove (qt_idempotency_key (te_ticket e)) (ad_idempotency_index ?c),
        ad_waiting := ad_waiting ?c\<rparr>)"
      using ad_end_ticket_sound [OF ad_invD(1) [OF inv1] l, of TS_Admitted] unfolding w
      by (simp add: ts_is_live_def)
    then have sd: "ad_sound ?d" by simp
    have total: "ad_total ?d + 1 = ad_total ?c" using ad_claim_total [OF e] by simp
    then have free: "ad_total ?d < unat (ad_allocated_ccu ?d)"
      using ad_soundD(1) [OF ad_invD(1) [OF inv1]] by (simp add: ad_capacity_inv_def)
    have room: "ad_room (Suc n) ?d" using ad_invD(3) [OF inv1] by (simp add: ad_room_def)
    obtain lease c' where a: "ad_admit (qt_principal (te_ticket e)) now ?d = (lease, c')"
      by (cases "ad_admit (qt_principal (te_ticket e)) now ?d")
    note * = ad_admit_sound [OF a sd free room]
    have "ad_work_conserving c'"
      by (rule ad_work_conserving_after_admit [OF ad_invD(2) [OF inv1]])
        (use *(2-4) total in simp_all)
    then have "ad_inv n c'" using * by (simp add: ad_inv_def)
    then show ?thesis using e(1) x a by (simp add: ad_claim_offer_at_def Let_def)
  qed
qed

lemma ad_release_sound:
  assumes s: "ad_sound c" and l: "ad_has_active_lease c lease"
  shows "ad_sound (ad_release_state lease reason now removed c)" (is "ad_sound ?c")
proof -
  obtain a where a: "bt_get (ad_active c) (al_id lease) = Some a"
    using l by (auto simp: ad_has_active_lease_def opt_is_some_and_iff)
  have "ad_lease_inv ?c"
    using ad_soundD(3) [OF s] a unfolding ad_lease_inv_def
    by (auto simp: ad_release_state_fields ad_release_state_def Let_def bt_get_insert split: if_splits)
  moreover have "ad_queue_inv ?c"
    using ad_soundD(2) [OF s] by (rule ad_queue_inv_frame) (simp_all add: ad_release_state_fields)
  ultimately show ?thesis
    using ad_release_state_capacity [OF ad_soundD(1) [OF s] l] by (simp add: ad_sound_def)
qed

lemma ad_release_inv:
  assumes inv: "ad_inv n c"
  shows "ad_inv n (ad_release_at lease reason now c)"
proof (cases "ad_has_active_lease c lease")
  case True
  let ?c = "ad_release_state lease reason now (the (bt_get (ad_active c) (al_id lease))) c"
  have "ad_sound (ad_apply_pending ?c)"
    by (rule ad_apply_pending_sound) (rule ad_release_sound [OF ad_invD(1) [OF inv] True])
  moreover have "ad_room n (ad_apply_pending ?c)"
    using ad_invD(3) [OF inv] by (simp add: ad_room_def ad_release_state_fields)
  ultimately have "ad_inv n (ad_promote_at now (ad_apply_pending ?c))" by (rule ad_promote_inv)
  with True show ?thesis by (simp add: ad_release_at_eq)
qed (use inv in \<open>simp add: ad_release_at_eq\<close>)

lemma ad_resume_inv:
  assumes inv: "ad_inv n c"
  shows "ad_inv n (snd (ad_resume_at token p now c))"
proof -
  let ?c = "ad_expire_at now c"
  have inv1: "ad_inv n ?c" using inv by (rule ad_expire_inv)
  note s = ad_invD(1) [OF inv1]
  let ?d = "ad_count increment_successful_resumes
    (?c\<lparr>ad_reservations := bt_remove token (ad_reservations ?c)\<rparr>)"
  have "ad_inv n (snd (ad_activate token p now ?d))"
    if r: "bt_get (ad_reservations ?c) token = Some r" for r
  proof -
    have total: "ad_total ?d + 1 = ad_total ?c"
      using r bt_len_pos [OF r] by (simp add: ad_total_def bt_len_remove ad_offered_count_def)
    have "ad_lease_inv ?d"
      using ad_soundD(3) [OF s] by (rule ad_lease_inv_frame) (simp_all split: if_splits)
    moreover have "ad_queue_inv ?d" using ad_soundD(2) [OF s] by (rule ad_queue_inv_frame) simp_all
    moreover have "ad_capacity_inv ?d"
      using ad_soundD(1) [OF s] total by (simp add: ad_capacity_inv_def)
    ultimately have sd: "ad_sound ?d" by (simp add: ad_sound_def)
    have free: "ad_total ?d < unat (ad_allocated_ccu ?d)"
      using ad_soundD(1) [OF s] total by (simp add: ad_capacity_inv_def)
    have fresh: "bt_get (ad_active ?d) token = None" "bt_get (ad_reservations ?d) token = None"
      "token < ad_next_lease ?d"
      using ad_soundD(3) [OF s] r unfolding ad_lease_inv_def by simp_all
    obtain lease c' where a: "ad_activate token p now ?d = (lease, c')"
      by (cases "ad_activate token p now ?d")
    note * = ad_activate_sound [OF a sd free fresh]
    have "ad_work_conserving c'"
      by (rule ad_work_conserving_after_admit [OF ad_invD(2) [OF inv1]])
        (use *(2-4) total in simp_all)
    then show ?thesis using * ad_invD(3) [OF inv1] a by (simp add: ad_inv_def ad_room_def)
  qed
  then show ?thesis
    using inv1 by (auto simp: ad_resume_at_def Let_def split: option.splits prod.splits)
qed

lemma ad_sound_limits:
  assumes s: "ad_sound c" and cap: "ad_capacity_inv d"
    and same: "ad_tickets d = ad_tickets c" "ad_waiting d = ad_waiting c"
    "ad_policy d = ad_policy c" "ad_metadata d = ad_metadata c" "ad_next_ticket d = ad_next_ticket c"
    "ad_idempotency_index d = ad_idempotency_index c" "ad_active d = ad_active c"
    "ad_next_lease d = ad_next_lease c" "ad_reservations d = ad_reservations c"
  shows "ad_sound d"
  using ad_queue_inv_frame [OF ad_soundD(2) [OF s], of d] ad_lease_inv_frame [OF ad_soundD(3) [OF s], of d]
    cap same by (simp add: ad_sound_def)

lemma ad_grow_sound:
  assumes s: "ad_sound c" and fits: "\<not> cu_allocated_ccu u < ad_occupied c"
  shows "ad_sound (ad_count f (c\<lparr>ad_revision := r\<rparr>)
    \<lparr>ad_allocated_ccu := cu_allocated_ccu u, ad_pending_target := None\<rparr>)"
proof (rule ad_sound_limits [OF s])
  have "ad_total c \<le> unat (cu_allocated_ccu u)"
    using fits ad_capacity_occupied [OF ad_soundD(1) [OF s]] by (simp add: word_less_nat_alt)
  then show "ad_capacity_inv (ad_count f (c\<lparr>ad_revision := r\<rparr>)
    \<lparr>ad_allocated_ccu := cu_allocated_ccu u, ad_pending_target := None\<rparr>)"
    by (simp add: ad_capacity_inv_def)
qed simp_all

lemma ad_apply_capacity_inv:
  assumes inv: "ad_inv n c"
  shows "ad_inv n (snd (ad_apply_capacity_at u now c))"
proof (cases "cu_revision u \<le> ad_revision c")
  case True
  then show ?thesis using inv by (simp add: ad_apply_capacity_at_def)
next
  case new: False
  note s = ad_invD(1) [OF inv]
  let ?c1 = "ad_count increment_capacity_allocations (c\<lparr>ad_revision := cu_revision u\<rparr>)"
  show ?thesis
  proof (cases "cu_allocated_ccu u < ad_occupied c")
    case True
    let ?d = "?c1\<lparr>ad_pending_target := Some (cu_allocated_ccu u)\<rparr>"
    have "ad_capacity_inv ?d"
      using ad_apply_capacity_capacity [OF ad_soundD(1) [OF s], of u now] new True
      by (simp add: ad_apply_capacity_at_def Let_def)
    then have "ad_sound ?d" using s by (intro ad_sound_limits [of c ?d]) simp_all
    moreover have "ad_limit ?d \<le> ad_total ?d"
      using True ad_capacity_occupied [OF ad_soundD(1) [OF s]]
      by (simp add: ad_limit_def ad_admission_limit_def word_less_nat_alt)
    ultimately show ?thesis
      using new True ad_invD(3) [OF inv]
      by (simp add: ad_apply_capacity_at_def Let_def ad_inv_def ad_work_conserving_def ad_room_def)
  next
    case False
    let ?d = "?c1\<lparr>ad_allocated_ccu := cu_allocated_ccu u, ad_pending_target := None\<rparr>"
    have "ad_inv n (ad_promote_at now ?d)"
      using ad_invD(3) [OF inv] ad_grow_sound [OF s False]
      by (intro ad_promote_inv) (simp_all add: ad_room_def)
    with new False show ?thesis by (simp add: ad_apply_capacity_at_def Let_def)
  qed
qed

lemma ad_live_ex:
  "(\<exists>e. ad_live c tid e) \<longleftrightarrow> opt_is_some_and (\<lambda>e. ts_is_live (te_state e)) (bt_get (ad_tickets c) tid)"
  by (simp add: ad_live_def opt_is_some_and_iff)

text \<open>A heartbeat changes one timestamp; everything the invariant reads stays.\<close>

lemma ad_heartbeat_inv:
  assumes inv: "ad_inv n c"
  shows "ad_inv n (snd (ad_heartbeat_at tid now c))"
proof -
  let ?c = "ad_expire_at now c"
  have inv1: "ad_inv n ?c" using inv by (rule ad_expire_inv)
  note s = ad_invD(1) [OF inv1]
  let ?f = "\<lambda>e :: ticket_entry. if ts_is_waiting (te_state e) then e\<lparr>te_last_heartbeat := now\<rparr> else e"
  let ?d = "?c\<lparr>ad_tickets := bt_modify tid ?f (ad_tickets ?c)\<rparr>"
  have f: "te_ticket (?f e) = te_ticket e" "te_state (?f e) = te_state e" for e by simp_all
  have get: "bt_get (ad_tickets ?d) t = Some e' \<Longrightarrow> \<exists>e. bt_get (ad_tickets ?c) t = Some e
      \<and> te_ticket e' = te_ticket e \<and> te_state e' = te_state e" for t e'
    using f by (auto simp: bt_get_modify split: if_splits)
  have waiting: "ad_ticket_waiting ?d t = ad_ticket_waiting ?c t" for t
    by (cases "bt_get (ad_tickets ?c) t") (auto simp: ad_ticket_waiting_def bt_get_modify split: if_splits)
  have "ad_queue_inv ?d"
  proof (rule ad_queue_inv_shrink [OF ad_soundD(2) [OF s]])
    have "(\<exists>e'. ad_live ?d t e') = (\<exists>e. ad_live ?c t e)" for t
      by (cases "bt_get (ad_tickets ?c) t") (auto simp: ad_live_ex bt_get_modify split: if_splits)
    then show "(bt_get (ad_idempotency_index ?d) key = Some t)
        = (bt_get (ad_idempotency_index ?c) key = Some t \<and> (\<exists>e'. ad_live ?d t e'))" for key t
      using ad_queue_invD(5) [OF ad_soundD(2) [OF s], of key t] by auto
    show "t \<in> set (ad_waiting ?d) \<longleftrightarrow> ad_ticket_waiting ?d t" for t
      unfolding waiting using ad_queue_invD(2) [OF ad_soundD(2) [OF s]] by simp
    show "\<exists>e. bt_get (ad_tickets ?c) t = Some e \<and> te_ticket e' = te_ticket e
        \<and> (ts_is_live (te_state e') \<longrightarrow> ts_is_live (te_state e))"
      if "bt_get (ad_tickets ?d) t = Some e'" for t e'
      using get [OF that] by auto
  qed (use ad_queue_invD(1) [OF ad_soundD(2) [OF s]] in simp_all)
  moreover have "ad_lease_inv ?d" using ad_soundD(3) [OF s] by (rule ad_lease_inv_frame) simp_all
  moreover have total: "ad_total ?d = ad_total ?c"
    using bt_count_insert [of "\<lambda>_ e. ts_is_offered (te_state e)" tid "?f (the (bt_get (ad_tickets ?c) tid))"
        "ad_tickets ?c"]
    by (auto simp: bt_modify_def ad_total_def ad_offered_count_alt split: option.splits if_splits)
  ultimately have "ad_inv n ?d"
    using inv1 by (simp add: ad_inv_def ad_sound_def ad_capacity_inv_def ad_work_conserving_def ad_room_def)
  then show ?thesis by (simp add: ad_heartbeat_at_def Let_def)
qed

lemma ad_step_inv: "ad_inv (Suc n) c \<Longrightarrow> ad_inv n (ad_step c cmd)"
proof (cases cmd)
  case (AC_Status tid now)
  assume "ad_inv (Suc n) c"
  then have "ad_inv n c" by (simp add: ad_inv_def ad_room_Suc_imp)
  then show ?thesis by (simp add: AC_Status ad_queue_status_at_def Let_def ad_expire_inv)
qed (simp_all add: ad_join_inv ad_claim_inv ad_cancel_inv ad_release_inv ad_resume_inv
    ad_apply_capacity_inv ad_heartbeat_inv ad_inv_def [of n c] ad_inv_def [of "Suc n" c] ad_room_Suc_imp)

interpretation ad_queue: bounded_transition_system ad_step ad_inv
  by unfold_locales (rule ad_step_inv)

lemma ad_new_inv:
  assumes "n < 2 ^ 64 - 1"
  shows "ad_inv n (ad_new metadata policy capacity counters)"
proof -
  have "ad_queue_inv (ad_new metadata policy capacity counters)"
    by (simp add: ad_queue_inv_def ad_new_def ad_live_def ad_ticket_waiting_def)
  moreover have "ad_lease_inv (ad_new metadata policy capacity counters)"
    by (simp add: ad_lease_inv_def ad_new_def)
  ultimately show ?thesis
    using assms ad_new_capacity by (simp add: ad_inv_def ad_sound_def ad_work_conserving_def ad_room_def)
      (simp add: ad_new_def)
qed

end
