(* ===== verification/AdmissionProps.thy ===== *)
theory AdmissionProps
  imports AdmissionQueue
begin

text \<open>
  What the admission controller promises: capacity is never exceeded, the waiting queue is first
  come first served and never idles a slot, retries are idempotent, an offer is claimed once, a
  dropped connection can be resumed within its grace, and the limit in force is that of the
  newest revision received.
\<close>

section \<open>First come, first served\<close>

definition ad_ticket_offered :: "admission_controller \<Rightarrow> queue_ticket_id \<Rightarrow> bool" where
  "ad_ticket_offered c tid = opt_is_some_and (\<lambda>e. ts_is_offered (te_state e)) (bt_get (ad_tickets c) tid)"

text \<open>
  \<open>ad_no_overtaking c c'\<close>: from \<open>c\<close> to \<open>c'\<close> no known ticket starts waiting anew, an offer goes
  to a ticket that was waiting, and none of them is offered before an older one that still waits.
\<close>

definition ad_no_overtaking :: "admission_controller \<Rightarrow> admission_controller \<Rightarrow> bool" where
  "ad_no_overtaking c c' \<longleftrightarrow>
     (\<forall>t. bt_get (ad_tickets c) t \<noteq> None \<longrightarrow> bt_get (ad_tickets c') t \<noteq> None
        \<and> (ad_ticket_waiting c' t \<longrightarrow> ad_ticket_waiting c t)
        \<and> (ad_ticket_offered c' t \<longrightarrow> ad_ticket_waiting c t \<or> ad_ticket_offered c t))
   \<and> (\<forall>t1 t2. t1 < t2 \<longrightarrow> ad_ticket_waiting c t1 \<longrightarrow> ad_ticket_waiting c t2
        \<longrightarrow> ad_ticket_offered c' t2 \<longrightarrow> \<not> ad_ticket_waiting c' t1)"

lemma ad_known:
  "ad_ticket_waiting c t \<Longrightarrow> bt_get (ad_tickets c) t \<noteq> None"
  "ad_ticket_offered c t \<Longrightarrow> bt_get (ad_tickets c) t \<noteq> None"
  by (auto simp: ad_ticket_waiting_def ad_ticket_offered_def opt_is_some_and_iff)

lemma ad_no_overtaking_trans:
  assumes "ad_no_overtaking c d" "ad_no_overtaking d e"
  shows "ad_no_overtaking c e"
proof -
  have 1: "bt_get (ad_tickets d) t \<noteq> None" "ad_ticket_waiting d t \<Longrightarrow> ad_ticket_waiting c t"
    "ad_ticket_offered d t \<Longrightarrow> ad_ticket_waiting c t \<or> ad_ticket_offered c t"
    if "bt_get (ad_tickets c) t \<noteq> None" for t
    using assms(1) that unfolding ad_no_overtaking_def by blast+
  have 2: "bt_get (ad_tickets e) t \<noteq> None" "ad_ticket_waiting e t \<Longrightarrow> ad_ticket_waiting d t"
    "ad_ticket_offered e t \<Longrightarrow> ad_ticket_waiting d t \<or> ad_ticket_offered d t"
    if "bt_get (ad_tickets d) t \<noteq> None" for t
    using assms(2) that unfolding ad_no_overtaking_def by blast+
  have "\<not> ad_ticket_waiting e t1" if t: "t1 < t2" "ad_ticket_waiting c t1" "ad_ticket_waiting c t2"
    "ad_ticket_offered e t2" for t1 t2
  proof
    assume w: "ad_ticket_waiting e t1"
    have "ad_ticket_waiting d t1" using w 1(1) 2(2) ad_known t by blast
    moreover have "ad_ticket_waiting d t2 \<or> ad_ticket_offered d t2" using 1(1) 2(3) ad_known t by blast
    ultimately show False
      using assms t w unfolding ad_no_overtaking_def by blast
  qed
  then show ?thesis using 1 2 unfolding ad_no_overtaking_def by blast
qed

lemma ad_no_overtaking_same:
  assumes "\<And>t. bt_get (ad_tickets c) t \<noteq> None \<Longrightarrow> bt_get (ad_tickets c') t \<noteq> None"
    "\<And>t. bt_get (ad_tickets c) t \<noteq> None \<Longrightarrow> ad_ticket_waiting c' t \<Longrightarrow> ad_ticket_waiting c t"
    "\<And>t. bt_get (ad_tickets c) t \<noteq> None \<Longrightarrow> ad_ticket_offered c' t \<Longrightarrow> ad_ticket_offered c t"
  shows "ad_no_overtaking c c'"
proof -
  have "\<not> (ad_ticket_waiting c t \<and> ad_ticket_offered c t)" for t
    by (cases "bt_get (ad_tickets c) t") (auto simp: ad_ticket_waiting_def ad_ticket_offered_def
        elim: ts_is_waiting.elims ts_is_offered.elims)
  then show ?thesis unfolding ad_no_overtaking_def using assms ad_known by blast
qed

lemma ad_no_overtaking_frame: "ad_tickets c' = ad_tickets c \<Longrightarrow> ad_no_overtaking c c'"
  by (rule ad_no_overtaking_same) (simp_all add: ad_ticket_waiting_def ad_ticket_offered_def)

lemma ad_no_overtaking_cong:
  "ad_tickets c' = ad_tickets c \<Longrightarrow> ad_tickets d' = ad_tickets d \<Longrightarrow>
    ad_no_overtaking c' d' = ad_no_overtaking c d"
  by (simp add: ad_no_overtaking_def ad_ticket_waiting_def ad_ticket_offered_def)

lemma te_offer_offered: "ts_is_offered (te_state (te_offer x e)) = ts_is_live (te_state e)"
  by (cases "te_state e") (simp_all add: te_offer_def ts_is_live_def)

lemma ad_no_overtaking_promote:
  assumes s: "ad_sound c"
  shows "ad_no_overtaking c (ad_promote_at now c)"
proof -
  let ?x = "deadline now (qp_offer_ttl (ad_policy c))"
  note d = ad_queue_invD [OF ad_soundD(2) [OF s]]
  obtain k where k: "k \<le> length (ad_waiting c)" and
    eq: "ad_promote_loop now (ad_waiting c) c = c\<lparr>ad_tickets := te_offer_all ?x
        (take k (ad_waiting c)) (ad_tickets c), ad_waiting := drop k (ad_waiting c)\<rparr>"
    using ad_promote_loop_spec [OF ad_soundD(1) [OF s], of "ad_waiting c" now] by blast
  let ?c = "ad_promote_at now c"
  have t: "ad_tickets ?c = te_offer_all ?x (take k (ad_waiting c)) (ad_tickets c)"
    by (simp add: ad_promote_at_def Let_def eq)
  have w: "ad_ticket_waiting ?c t \<longleftrightarrow> ad_ticket_waiting c t \<and> t \<notin> set (take k (ad_waiting c))" for t
    by (auto simp: ad_ticket_waiting_def t bt_get_offer_all opt_is_some_and_iff te_offer_cases)
  have o: "ad_ticket_offered ?c t \<longleftrightarrow> ad_ticket_offered c t \<or> t \<in> set (take k (ad_waiting c))" for t
  proof -
    have "ad_ticket_waiting c t" if "t \<in> set (take k (ad_waiting c))"
      using that d(2) in_set_takeD by metis
    then show ?thesis
      by (cases "bt_get (ad_tickets c) t")
        (auto simp: ad_ticket_offered_def ad_ticket_waiting_def t bt_get_offer_all te_offer_offered
          ts_is_live_def split: if_splits)
  qed
  have prefix: "t1 \<in> set (take k (ad_waiting c))"
    if "t1 < t2" "t1 \<in> set (ad_waiting c)" "t2 \<in> set (take k (ad_waiting c))" for t1 t2
  proof (rule ccontr)
    assume "t1 \<notin> set (take k (ad_waiting c))"
    then have "t1 \<in> set (drop k (ad_waiting c))"
      using that(2) by (metis Un_iff append_take_drop_id set_append)
    then have "t2 < t1"
      using that(3) d(1) by (metis append_take_drop_id sorted_wrt_append)
    with that(1) show False by simp
  qed
  have excl: "\<not> (ad_ticket_waiting c t \<and> ad_ticket_offered c t)" for t
    by (cases "bt_get (ad_tickets c) t") (auto simp: ad_ticket_waiting_def ad_ticket_offered_def
        elim: ts_is_waiting.elims ts_is_offered.elims)
  show ?thesis
    unfolding ad_no_overtaking_def
  proof (intro conjI allI impI)
    show "bt_get (ad_tickets ?c) tid \<noteq> None" if "bt_get (ad_tickets c) tid \<noteq> None" for tid
      using that by (simp add: t bt_get_offer_all)
    show "ad_ticket_waiting c t \<or> ad_ticket_offered c t" if "ad_ticket_offered ?c t" for t
      using that d(2) in_set_takeD unfolding o by metis
  qed (use w o excl prefix d(2) in blast)+
qed

lemma ad_no_overtaking_expire:
  assumes s: "ad_sound c"
  shows "ad_no_overtaking c (ad_expire_at now c)"
proof -
  let ?r = "ad_expire_tickets now (ad_expire_reservations now c)"
  let ?a = "ad_apply_pending (ad_count (set_queue_depth (ad_queue_depth ?r)) ?r)"
  have "ad_no_overtaking c ?r"
    by (rule ad_no_overtaking_same)
      (auto simp: ad_ticket_waiting_def ad_ticket_offered_def ad_expire_tickets_fields
        opt_is_some_and_iff te_expire_cases te_expire_offered)
  then have 1: "ad_no_overtaking c ?a"
    by (subst ad_no_overtaking_cong [of _ _ _ ?r]) simp_all
  have "ad_sound ?a" using s by (rule ad_expire_pass_sound)
  then have "ad_no_overtaking ?a (ad_promote_at now ?a)" by (rule ad_no_overtaking_promote)
  with 1 show ?thesis
    unfolding ad_expire_at_def Let_def by (rule ad_no_overtaking_trans)
qed

text \<open>What follows the expiry pass either keeps the old tickets, adds a new one, or ends one.\<close>

lemma ad_no_overtaking_insert:
  assumes "ad_tickets c' = bt_insert tid e (ad_tickets c)"
    and "bt_get (ad_tickets c) tid = None \<or> \<not> ts_is_live (te_state e)"
  shows "ad_no_overtaking c c'"
  by (rule ad_no_overtaking_same)
    (use assms in \<open>auto simp: ad_ticket_waiting_def ad_ticket_offered_def bt_get_insert ts_is_live_def
      split: if_splits\<close>)

lemma ad_activate_tickets [simp]: "ad_tickets (snd (ad_activate lid p now c)) = ad_tickets c"
  using ad_activate_capacity(5) [of lid p now c] by (metis prod.collapse)

lemma ad_admit_tickets [simp]: "ad_tickets (snd (ad_admit p now c)) = ad_tickets c"
  by (simp add: ad_admit_def)

lemma ad_enqueue_tickets:
  "\<exists>e. ad_tickets (snd (ad_enqueue key p now c)) = bt_insert (ad_next_ticket c) e (ad_tickets c)"
  by (auto simp: ad_enqueue_def Let_def)

lemma ad_request_new_no_overtaking:
  assumes "ad_queue_inv c"
  shows "ad_no_overtaking c (snd (ad_request_new p key now c))"
proof -
  have new: "bt_get (ad_tickets c) (ad_next_ticket c) = None"
    using ad_queue_invD(4) [OF assms, of "ad_next_ticket c"] by fastforce
  have "ad_no_overtaking c (snd (ad_enqueue key p now (ad_count f (ad_count g c))))" for f g
    using ad_enqueue_tickets [of key p now "ad_count f (ad_count g c)"] new
    by (auto intro: ad_no_overtaking_insert)
  then show ?thesis
    by (simp add: ad_request_new_def split_beta ad_no_overtaking_frame)
qed

lemma ad_step_no_overtaking:
  assumes s: "ad_sound c"
  shows "ad_no_overtaking c (ad_step c cmd)"
proof -
  have exp: "ad_no_overtaking c d"
    if "ad_no_overtaking (ad_expire_at now c) d" for now d
    using ad_no_overtaking_expire [OF s] that by (rule ad_no_overtaking_trans)
  note es = ad_expire_sound(1) [OF s]
  show ?thesis
  proof (cases cmd)
    case (AC_Join r now)
    let ?b = "ad_count increment_join_attempts c"
    let ?c = "ad_expire_at now ?b"
    have s0: "ad_sound ?b" using s by simp
    have "ad_no_overtaking ?b ?c" using s0 by (rule ad_no_overtaking_expire)
    then have 1: "ad_no_overtaking c ?c" by (subst ad_no_overtaking_cong [of _ ?b _ ?c]) simp_all
    have "ad_no_overtaking ?c (snd (ad_request_new p key now ?c))" for p key
      using ad_soundD(2) [OF ad_expire_sound(1) [OF s0]] by (rule ad_request_new_no_overtaking)
    then have "ad_no_overtaking ?c (snd (ad_request_join_at r now c))"
      by (simp add: ad_request_join_at_def Let_def ad_no_overtaking_frame split: option.split)
    with 1 show ?thesis unfolding AC_Join ad_step.simps by (rule ad_no_overtaking_trans)
  next
    case (AC_Status tid now)
    then show ?thesis by (simp add: ad_queue_status_at_def Let_def ad_no_overtaking_expire [OF s])
  next
    case (AC_Heartbeat tid now)
    have "ad_no_overtaking (ad_expire_at now c) (snd (ad_heartbeat_at tid now c))"
      by (rule ad_no_overtaking_same)
        (auto simp: ad_heartbeat_at_def Let_def ad_ticket_waiting_def ad_ticket_offered_def
          bt_get_modify split: if_splits)
    then show ?thesis unfolding AC_Heartbeat ad_step.simps by (rule exp)
  next
    case (AC_Cancel tid now)
    let ?c = "ad_expire_at now c"
    have "ad_no_overtaking ?c (ad_promote_at now (ad_count increment_cancelled_tickets
      (?c\<lparr>ad_tickets := bt_insert tid (e\<lparr>te_state := TS_Cancelled\<rparr>) (ad_tickets ?c),
        ad_idempotency_index := bt_remove (qt_idempotency_key (te_ticket e)) (ad_idempotency_index ?c),
        ad_waiting := filter (\<lambda>candidate. candidate \<noteq> tid) (ad_waiting ?c)\<rparr>)))"
      if "bt_get (ad_tickets ?c) tid = Some e" "ts_is_live (te_state e)" for e
      by (rule ad_no_overtaking_trans [OF ad_no_overtaking_insert
          [where tid = tid and e = "e\<lparr>te_state := TS_Cancelled\<rparr>"] ad_no_overtaking_promote])
        (use that es [of now] ad_end_ticket_sound [of ?c tid e TS_Cancelled] in
          \<open>simp_all add: ts_is_live_def ad_live_def\<close>)
    then have "ad_no_overtaking ?c (snd (ad_cancel_at tid now c))"
      by (simp add: ad_cancel_at_def Let_def ad_no_overtaking_frame split: option.split)
    then show ?thesis unfolding AC_Cancel ad_step.simps by (rule exp)
  next
    case (AC_Claim tid now)
    have "ad_no_overtaking (ad_expire_at now c) (snd (ad_claim_offer_at tid now c))"
      by (auto simp: ad_claim_offer_at_def Let_def split_beta ts_is_live_def
          intro: ad_no_overtaking_frame ad_no_overtaking_insert split: option.split ticket_state.split)
    then show ?thesis unfolding AC_Claim ad_step.simps by (rule exp)
  next
    case (AC_Release l r now)
    show ?thesis
    proof (cases "ad_has_active_lease c l")
      case True
      let ?c = "ad_release_state l r now (the (bt_get (ad_active c) (al_id l))) c"
      obtain a where a: "bt_get (ad_active c) (al_id l) = Some a"
        using True by (auto simp: ad_has_active_lease_def opt_is_some_and_iff)
      have "ad_sound (ad_apply_pending ?c)"
        using ad_release_sound [OF s True] by (intro ad_apply_pending_sound)
      then have "ad_no_overtaking c (ad_promote_at now (ad_apply_pending ?c))"
        by (intro ad_no_overtaking_trans [OF ad_no_overtaking_frame ad_no_overtaking_promote])
          (simp_all add: ad_release_state_fields)
      then show ?thesis using True by (simp add: AC_Release ad_release_at_eq)
    qed (simp add: AC_Release ad_release_at_eq ad_no_overtaking_frame)
  next
    case (AC_Resume t p now)
    have "ad_no_overtaking (ad_expire_at now c) (snd (ad_resume_at t p now c))"
      by (rule ad_no_overtaking_frame)
        (simp add: ad_resume_at_def Let_def split_beta split: option.split)
    then show ?thesis unfolding AC_Resume ad_step.simps by (rule exp)
  next
    case (AC_Capacity u now)
    let ?c1 = "ad_count increment_capacity_allocations (c\<lparr>ad_revision := cu_revision u\<rparr>)"
    let ?d = "?c1\<lparr>ad_allocated_ccu := cu_allocated_ccu u, ad_pending_target := None\<rparr>"
    have "ad_no_overtaking c (ad_promote_at now ?d)" if "\<not> cu_allocated_ccu u < ad_occupied c"
      by (rule ad_no_overtaking_trans [OF ad_no_overtaking_frame ad_no_overtaking_promote])
        (use ad_grow_sound [OF s that] in simp_all)
    then show ?thesis
      by (simp add: AC_Capacity ad_apply_capacity_at_def Let_def ad_no_overtaking_frame)
  qed
qed

lemma ad_run_no_overtaking:
  "ad_inv (n + length cs) c \<Longrightarrow> ad_no_overtaking c (foldl ad_step c cs)"
proof (induction cs arbitrary: c)
  case (Cons cmd cs)
  have "ad_inv (n + length cs) (ad_step c cmd)"
    using Cons.prems by (intro ad_queue.step_inv) simp
  then have "ad_no_overtaking (ad_step c cmd) (foldl ad_step (ad_step c cmd) cs)" by (rule Cons.IH)
  moreover have "ad_no_overtaking c (ad_step c cmd)"
    using ad_invD(1) [OF Cons.prems] by (rule ad_step_no_overtaking)
  ultimately show ?case by (simp add: ad_no_overtaking_trans)
qed (simp add: ad_no_overtaking_frame)

section \<open>The limit in force\<close>

text \<open>The abstract capacity contract: the newest revision received decides the limit.\<close>

definition ad_contract :: "admission_controller \<Rightarrow> u64 \<times> u32" where
  "ad_contract c = (ad_revision c, ad_admission_limit c)"

fun contract_step :: "u64 \<times> u32 \<Rightarrow> ad_command \<Rightarrow> u64 \<times> u32" where
  "contract_step (revision, lim) (AC_Capacity u now) =
     (if cu_revision u \<le> revision then (revision, lim) else (cu_revision u, cu_allocated_ccu u))"
| "contract_step a _ = a"

lemma ad_contract_frame:
  "ad_contract (ad_count f c) = ad_contract c"
  "ad_contract (ad_waiting_update g c) = ad_contract c"
  "ad_contract (ad_tickets_update h c) = ad_contract c"
  "ad_contract (ad_active_update i c) = ad_contract c"
  "ad_contract (ad_reservations_update j c) = ad_contract c"
  "ad_contract (ad_idempotency_index_update k c) = ad_contract c"
  "ad_contract (ad_next_lease_update l c) = ad_contract c"
  "ad_contract (ad_next_ticket_update m c) = ad_contract c"
  "ad_contract (ad_counters_update n c) = ad_contract c"
  "ad_contract (ad_apply_pending c) = ad_contract c"
  by (simp_all add: ad_contract_def ad_admission_limit_def ad_count_def ad_apply_pending_def
      split: option.split)

lemma ad_contract_promote:
  assumes "ad_capacity_inv c"
  shows "ad_contract (ad_promote_at now c) = ad_contract c"
proof -
  obtain t w where "ad_promote_loop now (ad_waiting c) c = c\<lparr>ad_tickets := t, ad_waiting := w\<rparr>"
    using ad_promote_loop_spec [OF assms, of "ad_waiting c" now] by blast
  then show ?thesis by (simp add: ad_promote_at_def Let_def ad_contract_frame)
qed

lemma ad_contract_expire_tickets: "ad_contract (ad_expire_tickets now c) = ad_contract c"
  by (simp add: ad_contract_def ad_admission_limit_def ad_expire_tickets_fields split: option.split)

lemma ad_contract_expire_reservations: "ad_contract (ad_expire_reservations now c) = ad_contract c"
  by (simp add: ad_expire_reservations_def Let_def ad_contract_frame)

lemma ad_contract_expire:
  assumes "ad_capacity_inv c"
  shows "ad_contract (ad_expire_at now c) = ad_contract c"
proof -
  let ?r = "ad_expire_tickets now (ad_expire_reservations now c)"
  have "ad_capacity_inv ?r"
    using assms by (simp add: ad_expire_tickets_capacity ad_expire_reservations_capacity)
  then have "ad_capacity_inv (ad_apply_pending (ad_count f ?r))" for f
    by (simp add: ad_apply_pending_capacity)
  then show ?thesis
    by (simp add: ad_expire_at_def Let_def ad_contract_promote ad_contract_frame
        ad_contract_expire_tickets ad_contract_expire_reservations)
qed

lemma ad_contract_activate [simp]: "ad_contract (snd (ad_activate lid p now c)) = ad_contract c"
proof -
  have "\<exists>u v. snd (ad_activate lid p now c) = c\<lparr>ad_active := u, ad_counters := v\<rparr>"
    using ad_activate_fields(2) [of lid p now c] by (metis prod.collapse)
  then show ?thesis by (auto simp: ad_contract_frame)
qed

lemma ad_contract_request_new: "ad_contract (snd (ad_request_new p key now c)) = ad_contract c"
  by (simp add: ad_request_new_def ad_admit_def ad_enqueue_def Let_def split_beta ad_contract_frame)

lemma ad_step_contract:
  assumes cap: "ad_capacity_inv c"
  shows "ad_contract (ad_step c cmd) = contract_step (ad_contract c) cmd"
proof (cases cmd)
  case (AC_Join r now)
  have "ad_contract (ad_expire_at now (ad_count increment_join_attempts c)) = ad_contract c"
    using cap by (simp add: ad_contract_expire ad_contract_frame)
  then show ?thesis
    by (simp add: AC_Join ad_request_join_at_def Let_def ad_contract_request_new ad_contract_frame
        split: option.split)
next
  case (AC_Cancel tid now)
  let ?c = "ad_expire_at now c"
  have "ad_capacity_inv (?c\<lparr>ad_tickets := bt_insert tid (e\<lparr>te_state := TS_Cancelled\<rparr>) (ad_tickets ?c),
      ad_idempotency_index := ix, ad_waiting := w\<rparr>)"
    if "bt_get (ad_tickets ?c) tid = Some e" for e ix w
    using bt_count_insert [of "\<lambda>_ e. ts_is_offered (te_state e)" tid "e\<lparr>te_state := TS_Cancelled\<rparr>"
        "ad_tickets ?c"] ad_expire_capacity [OF cap, of now] that
    by (simp add: ad_capacity_inv_def ad_total_def ad_offered_count_alt split: if_splits)
  then show ?thesis
    using cap by (auto simp: AC_Cancel ad_cancel_at_def Let_def ad_contract_expire ad_contract_promote
        ad_contract_frame split: option.split)
next
  case (AC_Claim tid now)
  then show ?thesis
    using cap by (auto simp: ad_claim_offer_at_def ad_admit_def Let_def ad_contract_expire
        ad_contract_frame split_beta split: option.split ticket_state.split)
next
  case (AC_Release l r now)
  then show ?thesis
    using cap ad_release_state_capacity [OF cap, of l]
    by (auto simp: ad_release_at_eq ad_contract_promote ad_apply_pending_capacity ad_contract_frame
        ad_release_state_def Let_def)
next
  case (AC_Resume t p now)
  then show ?thesis
    using cap by (auto simp: ad_resume_at_def Let_def ad_contract_expire ad_contract_frame
        split_beta split: option.split)
next
  case (AC_Capacity u now)
  have occ: "unat (ad_occupied c) = ad_total c" using cap by (rule ad_capacity_occupied)
  let ?d = "ad_count increment_capacity_allocations (c\<lparr>ad_revision := cu_revision u\<rparr>)
    \<lparr>ad_allocated_ccu := cu_allocated_ccu u, ad_pending_target := None\<rparr>"
  have "ad_capacity_inv ?d" if "\<not> cu_allocated_ccu u < ad_occupied c"
    using that occ by (simp add: ad_capacity_inv_def word_less_nat_alt)
  then show ?thesis
    by (simp add: AC_Capacity ad_apply_capacity_at_def Let_def ad_contract_promote)
      (simp add: ad_contract_def ad_admission_limit_def)
qed (use cap in \<open>simp_all add: ad_queue_status_at_def ad_heartbeat_at_def Let_def ad_contract_expire
    ad_contract_frame\<close>)

section \<open>Properties\<close>

text \<open>
  C4. Capacity is never exceeded: after any sequence of commands on a new controller, the active
  leases, reconnect reservations and outstanding offers together fit the allocated capacity, and
  the 32-bit sum the code computes is that number exactly (it never wraps).
\<close>

theorem admission_capacity_never_exceeded:
  "let c = foldl ad_step (ad_new metadata policy capacity counters) cs in
     bt_len (ad_active c) + bt_len (ad_reservations c) + ad_offered_count c
       \<le> unat (ad_allocated_ccu c)
     \<and> unat (ad_occupied c) = bt_len (ad_active c) + bt_len (ad_reservations c) + ad_offered_count c"
proof -
  have inv: "ad_capacity_inv (foldl ad_step (ad_new metadata policy capacity counters) cs)"
    by (rule ad_capacity.run_inv) (rule ad_new_capacity)
  then show ?thesis
    using ad_capacity_occupied [OF inv] by (simp add: Let_def ad_capacity_inv_def ad_total_def)
qed

text \<open>
  C16. The waiting queue is first come, first served and never idles a slot. In any run shorter
  than the 64-bit id space: the queue holds exactly the waiting tickets in order of issue and at
  most \<open>max_depth\<close> of them, nobody waits while a slot is free, and from any point of the run to
  any later point no ticket is offered a slot before an older ticket that still waits.
\<close>

theorem admission_first_come_first_served:
  assumes "length (cs @ ds) < 2 ^ 64 - 1"
  shows "let c = foldl ad_step (ad_new metadata policy capacity counters) cs;
             d = foldl ad_step c ds in
     sorted_wrt (<) (ad_waiting d) \<and> set (ad_waiting d) = {t. ad_ticket_waiting d t}
     \<and> length (ad_waiting d) \<le> qp_max_depth (ad_policy d)
     \<and> (ad_waiting d = [] \<or> \<not> ad_occupied d < ad_admission_limit d)
     \<and> (\<forall>t1 t2. t1 < t2 \<longrightarrow> ad_ticket_waiting c t1 \<longrightarrow> ad_ticket_waiting c t2
          \<longrightarrow> ad_ticket_offered d t2 \<longrightarrow> \<not> ad_ticket_waiting d t1)"
proof -
  define c where "c = foldl ad_step (ad_new metadata policy capacity counters) cs"
  define d where "d = foldl ad_step c ds"
  have "ad_inv (length (cs @ ds)) (ad_new metadata policy capacity counters)"
    using assms by (rule ad_new_inv)
  then have c: "ad_inv (0 + length ds) c"
    unfolding c_def by (intro ad_queue.run_inv) (simp add: add.commute)
  then have d: "ad_inv 0 d" unfolding d_def by (rule ad_queue.run_inv)
  note q = ad_queue_invD [OF ad_soundD(2) [OF ad_invD(1) [OF d]]]
  have "ad_no_overtaking c d" unfolding d_def using c by (rule ad_run_no_overtaking)
  moreover have "ad_waiting d = [] \<or> \<not> ad_occupied d < ad_admission_limit d"
    using ad_invD(2) [OF d] ad_below_limit [OF ad_soundD(1) [OF ad_invD(1) [OF d]]]
    by (auto simp: ad_work_conserving_def)
  ultimately show ?thesis
    using q(1-3) unfolding c_def [symmetric] d_def [symmetric] Let_def ad_no_overtaking_def by blast
qed

text \<open>
  C18. The limit in force is the one of the newest revision: whatever else happens in between,
  the pair of revision and admission limit evolves like the abstract contract in which a capacity
  update replaces the pair exactly when its revision is larger, and nothing else changes it.
\<close>

theorem admission_limit_follows_newest_revision:
  "ad_contract (foldl ad_step (ad_new metadata policy capacity counters) cs)
     = foldl contract_step (cu_revision capacity, cu_allocated_ccu capacity) cs"
proof -
  have "ad_contract (foldl ad_step c cs) = foldl contract_step (ad_contract c) cs"
    if "ad_capacity_inv c" for c
    using that by (induction cs arbitrary: c) (simp_all add: ad_step_contract ad_step_capacity)
  from this [OF ad_new_capacity] show ?thesis
    by (simp add: ad_contract_def ad_new_def ad_admission_limit_def)
qed

lemma ad_promote_get:
  assumes "ad_capacity_inv c" "bt_get (ad_tickets c) tid = Some e"
  shows "\<exists>e'. bt_get (ad_tickets (ad_promote_at now c)) tid = Some e'
    \<and> (e' = e \<or> (\<exists>x. e' = te_offer x e))"
proof -
  obtain x k w where "ad_promote_loop now (ad_waiting c) c
      = c\<lparr>ad_tickets := te_offer_all x k (ad_tickets c), ad_waiting := w\<rparr>"
    using ad_promote_loop_spec [OF assms(1), of "ad_waiting c" now] by blast
  then show ?thesis
    using assms(2) by (auto simp: ad_promote_at_def Let_def bt_get_offer_all)
qed

lemma ad_expire_get:
  assumes "ad_capacity_inv c" "bt_get (ad_tickets c) tid = Some e"
  shows "\<exists>e'. bt_get (ad_tickets (ad_expire_at now c)) tid = Some e'
    \<and> (e' = te_expire (ad_policy c) now e \<or> (\<exists>x. e' = te_offer x (te_expire (ad_policy c) now e)))"
proof -
  let ?r = "ad_expire_tickets now (ad_expire_reservations now c)"
  have "ad_capacity_inv ?r"
    using assms(1) by (simp add: ad_expire_tickets_capacity ad_expire_reservations_capacity)
  then have cap: "ad_capacity_inv (ad_apply_pending (ad_count (set_queue_depth (ad_queue_depth ?r)) ?r))"
    by (simp add: ad_apply_pending_capacity)
  show ?thesis
    unfolding ad_expire_at_def Let_def
    by (rule ad_promote_get [OF cap]) (simp add: ad_expire_tickets_fields assms(2))
qed

lemma te_expire_same:
  "\<not> te_timed_out policy now e \<Longrightarrow> \<not> te_abandoned now e \<Longrightarrow> te_expire policy now e = e"
  by (simp add: te_expire_def)

lemma te_dead_same:
  assumes "\<not> ts_is_live (te_state e)"
  shows "te_expire policy now e = e" "te_offer x e = e"
  using assms te_expire_cases(4) [of policy now e]
  by (auto simp: te_expire_def te_offer_def ts_is_live_def)

lemma ad_promote_dead:
  assumes "ad_capacity_inv c" "bt_get (ad_tickets c) tid = Some e" "\<not> ts_is_live (te_state e)"
  shows "bt_get (ad_tickets (ad_promote_at now c)) tid = Some e"
  using ad_promote_get [OF assms(1,2), of now] te_dead_same(2) [OF assms(3)] by auto

lemma ad_expire_dead:
  assumes "ad_sound c" "bt_get (ad_tickets c) tid = Some e" "\<not> ts_is_live (te_state e)"
  shows "bt_get (ad_tickets (ad_expire_at now c)) tid = Some e"
  using ad_expire_get [OF ad_soundD(1) [OF assms(1)] assms(2), of now] te_dead_same [OF assms(3)] by auto

lemma ad_request_new_dead:
  assumes "ad_queue_inv c" "bt_get (ad_tickets c) tid = Some e"
  shows "bt_get (ad_tickets (snd (ad_request_new p key now c))) tid = Some e"
proof -
  have "tid \<noteq> ad_next_ticket c"
    using ad_queue_invD(4) [OF assms] by auto
  then have "bt_get (ad_tickets (snd (ad_enqueue key p now (ad_count f (ad_count g c))))) tid = Some e" for f g
    using ad_enqueue_tickets [of key p now "ad_count f (ad_count g c)"] assms(2)
    by (auto simp: bt_get_insert)
  then show ?thesis using assms(2) by (simp add: ad_request_new_def split_beta)
qed

text \<open>An admitted ticket stays admitted: no command touches its entry again.\<close>

lemma ad_step_admitted:
  assumes s: "ad_sound c" and e: "bt_get (ad_tickets c) tid = Some e" "te_state e = TS_Admitted"
  shows "bt_get (ad_tickets (ad_step c cmd)) tid = Some e"
proof -
  have dead: "\<not> ts_is_live (te_state e)" using e(2) by (simp add: ts_is_live_def)
  note exp = ad_expire_dead [OF s e(1) dead]
  note prom = ad_promote_dead [OF _ _ dead]
  show ?thesis
  proof (cases cmd)
    case (AC_Join r now)
    let ?b = "ad_count increment_join_attempts c"
    have b: "ad_sound ?b" using s by simp
    have "bt_get (ad_tickets (ad_expire_at now ?b)) tid = Some e"
      using ad_expire_dead [OF b _ dead] e(1) by simp
    then have "bt_get (ad_tickets (snd (ad_request_join_at r now c))) tid = Some e"
      using ad_request_new_dead [OF ad_soundD(2) [OF ad_expire_sound(1) [OF b]]]
      by (simp add: ad_request_join_at_def Let_def split: option.split)
    then show ?thesis by (simp add: AC_Join)
  next
    case (AC_Cancel x now)
    let ?c = "ad_expire_at now c"
    note s1 = ad_expire_sound(1) [OF s, of now]
    show ?thesis
    proof (cases "\<exists>y. bt_get (ad_tickets ?c) x = Some y \<and> ts_is_live (te_state y)")
      case True
      then obtain y where y: "bt_get (ad_tickets ?c) x = Some y" "ts_is_live (te_state y)" by blast
      then have x: "x \<noteq> tid" using exp [of now] dead by auto
      let ?d = "?c\<lparr>ad_tickets := bt_insert x (y\<lparr>te_state := TS_Cancelled\<rparr>) (ad_tickets ?c),
          ad_idempotency_index := bt_remove (qt_idempotency_key (te_ticket y)) (ad_idempotency_index ?c),
          ad_waiting := filter (\<lambda>candidate. candidate \<noteq> x) (ad_waiting ?c)\<rparr>"
      have "ad_sound ?d"
        using ad_end_ticket_sound [OF s1, of x y TS_Cancelled] y by (simp add: ad_live_def ts_is_live_def)
      then have "ad_capacity_inv (ad_count increment_cancelled_tickets ?d)"
        by (intro ad_soundD(1)) simp
      from prom [OF this, where tid = tid and now = now] show ?thesis
        using y x exp [of now] by (simp add: AC_Cancel ad_cancel_at_def Let_def bt_get_insert)
    qed (use exp [of now] in \<open>auto simp: AC_Cancel ad_cancel_at_def Let_def split: option.split\<close>)
  next
    case (AC_Claim x now)
    show ?thesis
      using exp [of now] e(2)
      by (auto simp: AC_Claim ad_claim_offer_at_def Let_def split_beta bt_get_insert
          split: option.split ticket_state.split)
  next
    case (AC_Release l r now)
    show ?thesis
    proof (cases "ad_has_active_lease c l")
      case True
      let ?c = "ad_release_state l r now (the (bt_get (ad_active c) (al_id l))) c"
      have "ad_capacity_inv (ad_apply_pending ?c)"
        using ad_soundD(1) [OF ad_apply_pending_sound [OF ad_release_sound [OF s True]]] .
      from prom [OF this, where tid = tid and now = now] show ?thesis
        using e(1) True by (simp add: AC_Release ad_release_at_eq ad_release_state_fields)
    qed (use e(1) in \<open>simp add: AC_Release ad_release_at_eq\<close>)
  next
    case (AC_Resume t p now)
    show ?thesis
      using exp [of now]
      by (simp add: AC_Resume ad_resume_at_def Let_def split_beta split: option.split)
  next
    case (AC_Capacity u now)
    let ?d = "ad_count increment_capacity_allocations (c\<lparr>ad_revision := cu_revision u\<rparr>)
      \<lparr>ad_allocated_ccu := cu_allocated_ccu u, ad_pending_target := None\<rparr>"
    have "bt_get (ad_tickets (ad_promote_at now ?d)) tid = Some e" if "\<not> cu_allocated_ccu u < ad_occupied c"
      using prom [OF ad_soundD(1) [OF ad_grow_sound [OF s that]], where tid = tid and now = now] e(1) by simp
    then show ?thesis using e(1) by (simp add: AC_Capacity ad_apply_capacity_at_def Let_def)
  next
    case (AC_Heartbeat x now)
    show ?thesis
      using exp [of now] e(2) by (auto simp: AC_Heartbeat ad_heartbeat_at_def Let_def bt_get_modify)
  qed (use exp in \<open>simp add: ad_queue_status_at_def Let_def\<close>)
qed

text \<open>An active lease stays active until a release names its id, session and principal.\<close>

fun ad_releases :: "admission_lease \<Rightarrow> ad_command \<Rightarrow> bool" where
  "ad_releases lease (AC_Release l r now) =
     (al_id l = al_id lease \<and> al_session l = al_session lease \<and> al_principal l = al_principal lease)"
| "ad_releases lease _ = False"

definition ad_grants_kept :: "admission_controller \<Rightarrow> admission_controller \<Rightarrow> bool" where
  "ad_grants_kept c c' \<longleftrightarrow> ad_metadata c' = ad_metadata c
     \<and> (\<forall>l a. bt_get (ad_active c) l = Some a \<longrightarrow> bt_get (ad_active c') l = Some a)"

lemma ad_grants_kept_frame:
  "ad_active c' = ad_active c \<Longrightarrow> ad_metadata c' = ad_metadata c \<Longrightarrow> ad_grants_kept c c'"
  by (simp add: ad_grants_kept_def)

lemma ad_activate_kept:
  assumes "bt_get (ad_active c) lid = None"
  shows "ad_grants_kept c (snd (ad_activate lid p now c))"
proof -
  obtain lease d where d: "ad_activate lid p now c = (lease, d)" by (cases "ad_activate lid p now c")
  obtain u v where "d = c\<lparr>ad_active := u, ad_counters := v\<rparr>" using ad_activate_fields(2) [OF d] by blast
  then have "ad_metadata d = ad_metadata c" by simp
  then show ?thesis
    using assms by (auto simp: d ad_grants_kept_def ad_activate_fields(1) [OF d] bt_get_insert)
qed

lemma ad_next_lease_fresh: "ad_sound c \<Longrightarrow> bt_get (ad_active c) (ad_next_lease c) = None"
  using ad_soundD(3) [of c] unfolding ad_lease_inv_def by force

lemma ad_admit_kept:
  assumes "bt_get (ad_active c) (ad_next_lease c) = None"
  shows "ad_grants_kept c (snd (ad_admit p now c))"
  using ad_activate_kept [of "c\<lparr>ad_next_lease := ad_next_lease c + 1\<rparr>" "ad_next_lease c" p now] assms
  by (simp add: ad_admit_def ad_grants_kept_def)

lemma ad_step_lease:
  assumes s: "ad_sound c" and l: "ad_has_active_lease c lease" and r: "\<not> ad_releases lease cmd"
  shows "ad_has_active_lease (ad_step c cmd) lease"
proof -
  have kept: "ad_has_active_lease d lease" if "ad_grants_kept c d" for d
    using l that by (auto simp: ad_grants_kept_def ad_has_active_lease_def opt_is_some_and_iff)
  have exp: "ad_grants_kept c d" if "ad_grants_kept (ad_expire_at now c) d" for now d
    using that by (simp add: ad_grants_kept_def ad_expire_fields [OF s])
  have prom: "ad_grants_kept c (ad_promote_at now d)"
    if "ad_sound d" "ad_active d = ad_active c" "ad_metadata d = ad_metadata c" for now d
    using that by (simp add: ad_grants_kept_def ad_promote_fields [OF ad_soundD(1)])
  show ?thesis
  proof (cases cmd)
    case (AC_Join q now)
    let ?b = "ad_count increment_join_attempts c"
    let ?c = "ad_expire_at now ?b"
    have b: "ad_sound ?b" using s by simp
    note fresh = ad_next_lease_fresh [OF ad_expire_sound(1) [OF b, of now]]
    have "ad_grants_kept ?c (snd (ad_request_new p key now ?c))" for p key
      using ad_admit_kept [of "ad_count increment_immediate_admissions ?c" p now] fresh
      by (simp add: ad_request_new_def split_beta ad_enqueue_def Let_def ad_grants_kept_def)
    then have "ad_grants_kept c (snd (ad_request_join_at q now c))"
      by (simp add: ad_request_join_at_def Let_def ad_grants_kept_def ad_expire_fields [OF b]
          split: option.split)
    then show ?thesis by (simp add: AC_Join kept)
  next
    case (AC_Cancel x now)
    let ?c = "ad_expire_at now c"
    note s1 = ad_expire_sound(1) [OF s, of now]
    have "ad_grants_kept c (snd (ad_cancel_at x now c))"
    proof (cases "\<exists>y. bt_get (ad_tickets ?c) x = Some y \<and> ts_is_live (te_state y)")
      case True
      then obtain y where y: "bt_get (ad_tickets ?c) x = Some y" "ts_is_live (te_state y)" by blast
      show ?thesis
        using y prom [of "ad_count increment_cancelled_tickets (?c\<lparr>ad_tickets := bt_insert x
            (y\<lparr>te_state := TS_Cancelled\<rparr>) (ad_tickets ?c),
            ad_idempotency_index := bt_remove (qt_idempotency_key (te_ticket y)) (ad_idempotency_index ?c),
            ad_waiting := filter (\<lambda>candidate. candidate \<noteq> x) (ad_waiting ?c)\<rparr>)" now]
          ad_end_ticket_sound [OF s1, of x y TS_Cancelled] ad_expire_fields [OF s, of now]
        by (simp add: ad_cancel_at_def Let_def ad_live_def ts_is_live_def)
    qed (auto simp: ad_cancel_at_def Let_def ad_grants_kept_def ad_expire_fields [OF s] split: option.split)
    then show ?thesis by (simp add: AC_Cancel kept)
  next
    case (AC_Claim x now)
    let ?c = "ad_expire_at now c"
    note fresh = ad_next_lease_fresh [OF ad_expire_sound(1) [OF s, of now]]
    have "ad_grants_kept ?c (snd (ad_admit p now (ad_count f (?c\<lparr>ad_tickets := t,
        ad_idempotency_index := ix\<rparr>))))" for p f t ix
      using ad_admit_kept [of "ad_count f (?c\<lparr>ad_tickets := t, ad_idempotency_index := ix\<rparr>)" p now] fresh
      by (simp add: ad_grants_kept_def)
    then have "ad_grants_kept ?c (snd (ad_claim_offer_at x now c))"
      by (auto simp: ad_claim_offer_at_def Let_def split_beta ad_grants_kept_frame
          split: option.split ticket_state.split)
    then show ?thesis by (simp add: AC_Claim kept exp)
  next
    case (AC_Release q why now)
    show ?thesis
    proof (cases "ad_has_active_lease c q")
      case True
      let ?d = "ad_apply_pending (ad_release_state q why now (the (bt_get (ad_active c) (al_id q))) c)"
      have "ad_sound ?d" using ad_release_sound [OF s True] by (rule ad_apply_pending_sound)
      moreover have "al_id q \<noteq> al_id lease"
        using True l r by (auto simp: AC_Release ad_has_active_lease_def opt_is_some_and_iff)
      ultimately have "ad_has_active_lease (ad_promote_at now ?d) lease"
        using l by (simp add: ad_has_active_lease_def ad_promote_fields [OF ad_soundD(1)]
            ad_release_state_fields)
      then show ?thesis using True by (simp add: AC_Release ad_release_at_eq)
    qed (use l in \<open>simp add: AC_Release ad_release_at_eq\<close>)
  next
    case (AC_Resume t p now)
    let ?c = "ad_expire_at now c"
    have "bt_get (ad_active ?c) t = None" if "bt_get (ad_reservations ?c) t = Some y" for y
      using ad_soundD(3) [OF ad_expire_sound(1) [OF s, of now]] that unfolding ad_lease_inv_def by blast
    then have "ad_grants_kept ?c (snd (ad_activate t p now (ad_count f (?c\<lparr>ad_reservations := u\<rparr>))))"
      if "bt_get (ad_reservations ?c) t = Some y" for y f u
      using ad_activate_kept [of "ad_count f (?c\<lparr>ad_reservations := u\<rparr>)" t p now] that
      by (simp add: ad_grants_kept_def)
    then have "ad_grants_kept ?c (snd (ad_resume_at t p now c))"
      by (auto simp: ad_resume_at_def Let_def split_beta ad_grants_kept_frame split: option.split)
    then show ?thesis by (simp add: AC_Resume kept exp)
  next
    case (AC_Capacity u now)
    let ?d = "ad_count increment_capacity_allocations (c\<lparr>ad_revision := cu_revision u\<rparr>)
      \<lparr>ad_allocated_ccu := cu_allocated_ccu u, ad_pending_target := None\<rparr>"
    have "ad_grants_kept c (ad_promote_at now ?d)" if "\<not> cu_allocated_ccu u < ad_occupied c"
      using prom [OF ad_grow_sound [OF s that]] by simp
    then have "ad_grants_kept c (snd (ad_apply_capacity_at u now c))"
      by (simp add: ad_apply_capacity_at_def Let_def ad_grants_kept_frame)
    then show ?thesis by (simp add: AC_Capacity kept)
  qed (use s in \<open>simp_all add: ad_queue_status_at_def ad_heartbeat_at_def Let_def kept
      ad_grants_kept_frame ad_expire_fields\<close>)
qed

lemma ad_run_admitted:
  "ad_inv (n + length cmds) c \<Longrightarrow> bt_get (ad_tickets c) tid = Some e \<Longrightarrow> te_state e = TS_Admitted \<Longrightarrow>
    bt_get (ad_tickets (foldl ad_step c cmds)) tid = Some e"
proof (induction cmds arbitrary: c)
  case (Cons cmd cmds)
  have "ad_inv (n + length cmds) (ad_step c cmd)"
    using Cons.prems(1) by (intro ad_queue.step_inv) simp
  moreover have "bt_get (ad_tickets (ad_step c cmd)) tid = Some e"
    using Cons.prems(2,3) by (rule ad_step_admitted [OF ad_invD(1) [OF Cons.prems(1)]])
  ultimately show ?case using Cons.IH Cons.prems(3) by simp
qed simp

lemma ad_run_lease:
  "ad_inv (n + length cmds) c \<Longrightarrow> ad_has_active_lease c lease \<Longrightarrow>
    \<forall>cmd\<in>set cmds. \<not> ad_releases lease cmd \<Longrightarrow> ad_has_active_lease (foldl ad_step c cmds) lease"
proof (induction cmds arbitrary: c)
  case (Cons cmd cmds)
  have "ad_inv (n + length cmds) (ad_step c cmd)"
    using Cons.prems(1) by (intro ad_queue.step_inv) simp
  moreover have "ad_has_active_lease (ad_step c cmd) lease"
    using Cons.prems(2,3) by (intro ad_step_lease [OF ad_invD(1) [OF Cons.prems(1)]]) simp_all
  ultimately show ?case using Cons.IH Cons.prems(3) by simp
qed simp

text \<open>
  C21. Retrying a join is idempotent: while a ticket is live (neither timed out nor abandoned), any
  further join with its idempotency key issues no ticket, admits nobody and leaves that ticket live.
  It is answered with that very ticket while the admission limit is not zero, and with
  \<open>Paused\<close> while the limit is zero.
\<close>

theorem admission_retry_returns_same_ticket:
  assumes inv: "ad_sound c"
    and e: "bt_get (ad_tickets c) tid = Some e" "ts_is_live (te_state e)"
    and fresh: "\<not> te_timed_out (ad_policy c) now e" "\<not> te_abandoned now e"
  shows "\<exists>c'. ad_request_join_at (join_request_new p (qt_idempotency_key (te_ticket e))) now c
        = (if ad_admission_limit c = 0 then Paused else JoinQueued (te_ticket e), c')
      \<and> ad_next_ticket c' = ad_next_ticket c \<and> ad_active c' = ad_active c
      \<and> (\<exists>e'. bt_get (ad_tickets c') tid = Some e' \<and> te_ticket e' = te_ticket e
            \<and> ts_is_live (te_state e'))"
proof -
  let ?b = "ad_count increment_join_attempts c"
  let ?c = "ad_expire_at now ?b"
  have s: "ad_sound ?b" using inv by simp
  note s' = ad_expire_sound(1) [OF s, of now]
  obtain e' where live: "bt_get (ad_tickets ?c) tid = Some e'" "te_ticket e' = te_ticket e"
    "ts_is_live (te_state e')"
    using ad_expire_get [OF ad_soundD(1) [OF s], of tid e now] e fresh
    by (auto simp: te_expire_same te_offer_cases)
  then have e': "ad_live ?c tid e'" "te_ticket e' = te_ticket e" by (simp_all add: ad_live_def)
  then have "bt_get (ad_idempotency_index ?c) (qt_idempotency_key (te_ticket e)) = Some tid"
    using ad_queue_invD(5) [OF ad_soundD(2) [OF s']] by metis
  then have "ad_live_ticket ?c (qt_idempotency_key (te_ticket e)) = Some (te_ticket e)"
    using e' by (simp add: ad_live_ticket_def ad_live_def)
  moreover have "ad_contract ?c = ad_contract c"
    using ad_contract_expire [OF ad_soundD(1) [OF s]] by (simp add: ad_contract_frame)
  then have "ad_admission_limit ?c = ad_admission_limit c" by (simp add: ad_contract_def)
  ultimately show ?thesis
    using ad_expire_fields(3,5) [OF s] live
    by (simp add: ad_request_join_at_def join_request_new_def Let_def)
qed

text \<open>
  C20. An offer is claimed exactly once: claiming an unexpired offer yields a new lease for the
  ticket's principal. After any further commands (as many as the 64-bit id space has room for)
  every later claim of that ticket, at any time, is refused as already admitted, and the lease is
  still active unless one of those commands released it.
\<close>

theorem admission_offer_claimed_once:
  assumes inv: "ad_inv (Suc (length cmds)) c"
    and e: "bt_get (ad_tickets c) tid = Some e" "te_state e = TS_Offered expires" "now < expires"
  shows "\<exists>lease c'. ad_claim_offer_at tid now c = (Inr lease, c')
      \<and> al_principal lease = qt_principal (te_ticket e)
      \<and> bt_get (ad_active c) (al_id lease) = None \<and> ad_has_active_lease c' lease
      \<and> (\<forall>now'. fst (ad_claim_offer_at tid now' (foldl ad_step c' cmds)) = Inl Claim_AlreadyAdmitted)
      \<and> ((\<forall>cmd\<in>set cmds. \<not> ad_releases lease cmd)
          \<longrightarrow> ad_has_active_lease (foldl ad_step c' cmds) lease)"
proof -
  note s = ad_invD(1) [OF inv]
  let ?c = "ad_expire_at now c"
  have "te_expire (ad_policy c) now e = e" "te_offer x e = e" for x
    using e by (simp_all add: te_expire_def te_timed_out_def te_abandoned_def te_offer_def)
  then have e': "bt_get (ad_tickets ?c) tid = Some e"
    using ad_expire_get [OF ad_soundD(1) [OF s] e(1), of now] by auto
  let ?d = "ad_count increment_promoted_players
    (?c\<lparr>ad_tickets := bt_insert tid (e\<lparr>te_state := TS_Admitted\<rparr>) (ad_tickets ?c),
      ad_idempotency_index := bt_remove (qt_idempotency_key (te_ticket e)) (ad_idempotency_index ?c)\<rparr>)"
  obtain lease c' where a: "ad_admit (qt_principal (te_ticket e)) now ?d = (lease, c')"
    by (cases "ad_admit (qt_principal (te_ticket e)) now ?d")
  then have act: "ad_activate (ad_next_lease ?d) (qt_principal (te_ticket e)) now
      (?d\<lparr>ad_next_lease := ad_next_lease ?d + 1\<rparr>) = (lease, c')"
    by (simp add: ad_admit_def)
  have claim: "ad_claim_offer_at tid now c = (Inr lease, c')"
    using e' e(2) a by (simp add: ad_claim_offer_at_def Let_def)
  have lease: "lease = \<lparr>al_id = ad_next_lease c, al_session = am_session (ad_metadata c),
      al_principal = qt_principal (te_ticket e), al_resume_token = ad_next_lease c\<rparr>"
    using ad_activate_fields(3) [OF act] ad_expire_fields [OF s] by simp
  obtain u v where c': "c' = ?d\<lparr>ad_next_lease := ad_next_lease ?d + 1, ad_active := u, ad_counters := v\<rparr>"
    using ad_activate_fields(2) [OF act] by (metis (no_types))
  have "bt_get (ad_active c') (ad_next_lease c) = Some \<lparr>ac_lease_principal = qt_principal (te_ticket e),
      ac_lease_started = now, ac_lease_usage_handle = uc_next_handle (ad_counters ?d)\<rparr>"
    using ad_activate_fields(1) [OF act] ad_expire_fields [OF s] by (simp add: ad_count_def)
  moreover have "ad_metadata c' = ad_metadata c" using ad_expire_fields [OF s] by (simp add: c')
  ultimately have active: "ad_has_active_lease c' lease"
    by (simp add: ad_has_active_lease_def lease)
  have inv': "ad_inv (0 + length cmds) c'" using ad_claim_inv [of "length cmds" c tid now] inv claim by simp
  have "bt_get (ad_tickets c') tid = Some (e\<lparr>te_state := TS_Admitted\<rparr>)" by (simp add: c')
  then have "bt_get (ad_tickets (foldl ad_step c' cmds)) tid = Some (e\<lparr>te_state := TS_Admitted\<rparr>)"
    by (intro ad_run_admitted [OF inv']) simp_all
  then have "bt_get (ad_tickets (ad_expire_at now' (foldl ad_step c' cmds))) tid
      = Some (e\<lparr>te_state := TS_Admitted\<rparr>)" for now'
    by (intro ad_expire_dead [OF ad_invD(1) [OF ad_queue.run_inv [OF inv']]]) (simp_all add: ts_is_live_def)
  then have "fst (ad_claim_offer_at tid now' (foldl ad_step c' cmds)) = Inl Claim_AlreadyAdmitted" for now'
    by (simp add: ad_claim_offer_at_def Let_def)
  moreover have "bt_get (ad_active c) (al_id lease) = None"
    using ad_next_lease_fresh [OF s] by (simp add: lease)
  ultimately show ?thesis using claim lease active ad_run_lease [OF inv' active] by auto
qed

text \<open>
  C19. A dropped connection can be resumed within its grace: after an unexpected release the lease
  id is reserved for its principal until the grace ends; that principal gets an active lease with
  the same id back, another principal or a late one gets nothing. The resume is the next command
  after the release, and the end of the grace does not overflow the clock.
\<close>

theorem admission_resume_within_grace:
  assumes inv: "ad_sound c" and lease: "ad_has_active_lease c lease"
    and clock: "now + qp_reconnect_grace (ad_policy c) \<le> instant_max"
  shows "let grace_end = now + qp_reconnect_grace (ad_policy c);
             released = ad_release_at lease Unexpected now c
         in \<not> ad_has_active_lease released lease
          \<and> (\<forall>now'. now' < grace_end \<longrightarrow> (\<exists>lease' c'.
               ad_resume_at (al_id lease) (al_principal lease) now' released = (Some lease', c')
               \<and> al_id lease' = al_id lease \<and> al_principal lease' = al_principal lease
               \<and> ad_has_active_lease c' lease'))
          \<and> (\<forall>now' q. q \<noteq> al_principal lease \<longrightarrow>
               fst (ad_resume_at (al_id lease) q now' released) = None)
          \<and> (\<forall>now' q. grace_end \<le> now' \<longrightarrow> fst (ad_resume_at (al_id lease) q now' released) = None)"
proof -
  let ?g = "now + qp_reconnect_grace (ad_policy c)"
  let ?r = "ad_release_at lease Unexpected now c"
  let ?d = "ad_release_state lease Unexpected now (the (bt_get (ad_active c) (al_id lease))) c"
  have r: "?r = ad_promote_at now (ad_apply_pending ?d)"
    using lease by (simp add: ad_release_at_eq)
  have cap: "ad_capacity_inv (ad_apply_pending ?d)"
    using ad_release_state_capacity [OF ad_soundD(1) [OF inv] lease]
    by (rule ad_apply_pending_capacity)
  have "deadline now (qp_reconnect_grace (ad_policy c)) = ?g"
    using clock by (simp add: deadline_def instant_checked_add_def)
  then have res: "bt_get (ad_reservations ?r) (al_id lease)
      = Some \<lparr>rv_principal = al_principal lease, rv_expires = ?g\<rparr>"
    unfolding r ad_promote_fields [OF cap] by (simp add: ad_release_state_def Let_def)
  have gone: "bt_get (ad_active ?r) (al_id lease) = None"
    unfolding r ad_promote_fields [OF cap] by (simp add: ad_release_state_fields)
  have s: "ad_sound ?r"
    unfolding r by (intro ad_promote_sound ad_apply_pending_sound ad_release_sound [OF inv lease])
  have kept: "bt_get (ad_reservations (ad_expire_at now' ?r)) (al_id lease)
      = (if now' < ?g then Some \<lparr>rv_principal = al_principal lease, rv_expires = ?g\<rparr> else None)" for now'
    by (simp add: ad_expire_fields [OF s] res)
  have back_: "\<exists>lease' c'. ad_resume_at (al_id lease) (al_principal lease) now' ?r = (Some lease', c')
      \<and> al_id lease' = al_id lease \<and> al_principal lease' = al_principal lease
      \<and> ad_has_active_lease c' lease'" if "now' < ?g" for now'
  proof -
    let ?e = "ad_expire_at now' ?r"
    let ?b = "ad_count increment_successful_resumes
      (?e\<lparr>ad_reservations := bt_remove (al_id lease) (ad_reservations ?e)\<rparr>)"
    obtain lease' c' where act: "ad_activate (al_id lease) (al_principal lease) now' ?b = (lease', c')"
      by (cases "ad_activate (al_id lease) (al_principal lease) now' ?b")
    then have "ad_resume_at (al_id lease) (al_principal lease) now' ?r = (Some lease', c')"
      using that by (simp add: ad_resume_at_def Let_def kept)
    moreover obtain u v where "c' = ?b\<lparr>ad_active := u, ad_counters := v\<rparr>"
      using ad_activate_fields(2) [OF act] by blast
    ultimately show ?thesis
      using ad_activate_fields(1,3) [OF act] by (auto simp: ad_has_active_lease_def)
  qed
  show ?thesis
    using gone back_ kept by (auto simp: Let_def ad_has_active_lease_def ad_resume_at_def)
qed

section \<open>Witnesses\<close>

text \<open>A small controller: one slot, one ticket in a given state or one active lease.\<close>

definition demo_policy :: queue_policy where
  "demo_policy = \<lparr>qp_enabled = True, qp_max_depth = 2, qp_ticket_ttl = 900, qp_offer_ttl = 30,
     qp_heartbeat_timeout = 60, qp_reconnect_grace = 20\<rparr>"

definition demo_metadata :: admission_metadata where
  "demo_metadata = \<lparr>am_node_id = 1, am_session = SessionKey 1 2\<rparr>"

definition demo_controller :: admission_controller where
  "demo_controller = ad_new demo_metadata demo_policy \<lparr>cu_allocated_ccu = 1, cu_revision = 1\<rparr>
     (uc_new demo_metadata)"

definition demo_entry :: "ticket_state \<Rightarrow> ticket_entry" where
  "demo_entry st = \<lparr>te_ticket = \<lparr>qt_id = 1, qt_session = SessionKey 1 2, qt_principal = 7,
     qt_idempotency_key = ''k''\<rparr>, te_created = 5, te_last_heartbeat = 5, te_state = st\<rparr>"

definition demo_ticket :: "ticket_state \<Rightarrow> admission_controller" where
  "demo_ticket st = demo_controller\<lparr>ad_next_ticket := 2, ad_tickets := bt_insert 1 (demo_entry st) bt_new,
     ad_waiting := (if ts_is_waiting st then [1] else []),
     ad_idempotency_index := bt_insert ''k'' 1 bt_new\<rparr>"

definition demo_active :: admission_controller where
  "demo_active = demo_controller\<lparr>ad_next_lease := 2, ad_active := bt_insert 1
     \<lparr>ac_lease_principal = 7, ac_lease_started = 5, ac_lease_usage_handle = 1\<rparr> bt_new\<rparr>"

lemmas demo_defs = demo_ticket_def demo_active_def demo_controller_def demo_entry_def demo_policy_def
  demo_metadata_def ad_new_def

lemma demo_ticket_sound: "ts_is_live st \<Longrightarrow> ad_sound (demo_ticket st)"
  by (auto simp: demo_defs ad_sound_def ad_capacity_inv_def ad_total_def ad_offered_count_def
      bt_values_def bt_iter_insert ad_queue_inv_def ad_live_def ad_ticket_waiting_def bt_get_insert
      ad_lease_inv_def ts_is_live_def split: if_splits)

lemma demo_active_sound: "ad_sound demo_active"
  by (auto simp: demo_defs ad_sound_def ad_capacity_inv_def ad_total_def ad_offered_count_def
      bt_len_def bt_iter_insert ad_queue_inv_def ad_live_def ad_ticket_waiting_def bt_get_insert
      ad_lease_inv_def bt_values_def split: if_splits)

lemma admission_first_come_first_served_witness:
  "let c = foldl ad_step demo_controller [AC_Join (join_request_new 7 ''k'') 1];
       d = foldl ad_step c [AC_Join (join_request_new 8 ''l'') 2] in
     sorted_wrt (<) (ad_waiting d) \<and> set (ad_waiting d) = {t. ad_ticket_waiting d t}
     \<and> length (ad_waiting d) \<le> qp_max_depth (ad_policy d)"
  using admission_first_come_first_served
    [of "[AC_Join (join_request_new 7 ''k'') 1]" "[AC_Join (join_request_new 8 ''l'') 2]"
      demo_metadata demo_policy "\<lparr>cu_allocated_ccu = 1, cu_revision = 1\<rparr>" "uc_new demo_metadata"]
  by (simp add: Let_def demo_controller_def)

lemma demo_paused_sound: "ad_sound (demo_ticket TS_Waiting\<lparr>ad_allocated_ccu := 0\<rparr>)"
proof (rule ad_sound_limits)
  show "ad_sound (demo_ticket TS_Waiting)" by (rule demo_ticket_sound) (simp add: ts_is_live_def)
  show "ad_capacity_inv (demo_ticket TS_Waiting\<lparr>ad_allocated_ccu := 0\<rparr>)"
    by (simp add: demo_defs ad_capacity_inv_def ad_total_def ad_offered_count_def bt_values_def bt_iter_insert)
qed simp_all

lemma admission_retry_returns_same_ticket_witness:
  "(\<exists>c'. ad_request_join_at (join_request_new 9 ''k'') 6 (demo_ticket TS_Waiting)
     = (JoinQueued (te_ticket (demo_entry TS_Waiting)), c') \<and> ad_next_ticket c' = 2)
   \<and> (\<exists>c'. ad_request_join_at (join_request_new 9 ''k'') 6 (demo_ticket TS_Waiting\<lparr>ad_allocated_ccu := 0\<rparr>)
     = (Paused, c') \<and> ad_next_ticket c' = 2)"
proof -
  have e: "bt_get (ad_tickets (demo_ticket TS_Waiting)) 1 = Some (demo_entry TS_Waiting)"
    "bt_get (ad_tickets (demo_ticket TS_Waiting\<lparr>ad_allocated_ccu := 0\<rparr>)) 1 = Some (demo_entry TS_Waiting)"
    by (simp_all add: demo_ticket_def)
  have f: "ts_is_live (te_state (demo_entry TS_Waiting))"
    "\<not> te_timed_out (ad_policy (demo_ticket TS_Waiting)) 6 (demo_entry TS_Waiting)"
    "\<not> te_timed_out (ad_policy (demo_ticket TS_Waiting\<lparr>ad_allocated_ccu := 0\<rparr>)) 6 (demo_entry TS_Waiting)"
    "\<not> te_abandoned 6 (demo_entry TS_Waiting)"
    by (simp_all add: demo_defs ts_is_live_def te_timed_out_def te_abandoned_def
        saturating_duration_since_def)
  have g: "qt_idempotency_key (te_ticket (demo_entry TS_Waiting)) = ''k''"
    "ad_admission_limit (demo_ticket TS_Waiting) = 1"
    "ad_admission_limit (demo_ticket TS_Waiting\<lparr>ad_allocated_ccu := 0\<rparr>) = 0"
    "ad_next_ticket (demo_ticket TS_Waiting) = 2" "ad_next_ticket (demo_ticket TS_Waiting\<lparr>ad_allocated_ccu := 0\<rparr>) = 2"
    by (simp_all add: demo_defs ad_admission_limit_def)
  have "ad_sound (demo_ticket TS_Waiting)" by (rule demo_ticket_sound) (simp add: ts_is_live_def)
  from admission_retry_returns_same_ticket [OF this e(1) f(1,2,4), of 9]
    admission_retry_returns_same_ticket [OF demo_paused_sound e(2) f(1,3,4), of 9]
  show ?thesis unfolding g by auto
qed

lemma admission_offer_claimed_once_witness:
  "\<exists>lease c'. ad_claim_offer_at 1 10 (demo_ticket (TS_Offered 35)) = (Inr lease, c')
     \<and> al_principal lease = 7
     \<and> fst (ad_claim_offer_at 1 90 (foldl ad_step c' [AC_Status 1 20, AC_Claim 1 50]))
         = Inl Claim_AlreadyAdmitted
     \<and> ad_has_active_lease (foldl ad_step c' [AC_Status 1 20, AC_Claim 1 50]) lease"
proof -
  have "ad_inv 3 (demo_ticket (TS_Offered 35))"
    using demo_ticket_sound [of "TS_Offered 35"]
    by (simp add: ad_inv_def ts_is_live_def)
      (simp add: ad_work_conserving_def ad_room_def demo_defs)
  then have i: "ad_inv (Suc (length [AC_Status 1 20, AC_Claim 1 50])) (demo_ticket (TS_Offered 35))"
    by (simp add: numeral_3_eq_3)
  have "bt_get (ad_tickets (demo_ticket (TS_Offered 35))) 1 = Some (demo_entry (TS_Offered 35))"
    by (simp add: demo_ticket_def)
  from admission_offer_claimed_once [OF i this, of 35 10]
  show ?thesis by (fastforce simp: demo_entry_def simp del: foldl.simps ad_step.simps)
qed

lemma admission_resume_within_grace_witness:
  "\<exists>lease c'. ad_resume_at 1 7 25 (ad_release_at \<lparr>al_id = 1, al_session = SessionKey 1 2,
      al_principal = 7, al_resume_token = 1\<rparr> Unexpected 10 demo_active) = (Some lease, c')
    \<and> al_id lease = 1"
proof -
  let ?l = "\<lparr>al_id = 1, al_session = SessionKey 1 2, al_principal = 7, al_resume_token = 1\<rparr>"
  have g: "10 + qp_reconnect_grace (ad_policy demo_active) = 30" by (simp add: demo_defs)
  have l: "ad_has_active_lease demo_active ?l" by (simp add: ad_has_active_lease_def demo_defs)
  have "10 + qp_reconnect_grace (ad_policy demo_active) \<le> instant_max"
    by (simp add: g instant_max_def nanos_per_sec_def)
  note * = admission_resume_within_grace [OF demo_active_sound l this, unfolded Let_def g]
  note ** = * [THEN conjunct2, THEN conjunct1, THEN spec, of 25]
  have "(25 :: nat) < 30" by simp
  then show ?thesis using ** by auto
qed

end
