(* ===== verification/Spatial.thy ===== *)
theory Spatial
  imports Model
begin

text \<open>
  The spatial part of \<^verbatim>\<open>woven-core/src/core.rs\<close>: grid cells, the cell of a position, and the
  two proximity tests of routing. Cell coordinates are integers within the range of
  \<^verbatim>\<open>i64\<close> (\<open>grid_coordinate_range\<close>); floating point is the binary64 model of \<open>F64\<close>.
\<close>

datatype spatial_cell = SC_2D int int | SC_3D int int int

fun spatial_cell_tuple :: "spatial_cell \<Rightarrow> nat \<times> int \<times> int \<times> int" where
  "spatial_cell_tuple (SC_2D x y) = (0, x, y, 0)"
| "spatial_cell_tuple (SC_3D x y z) = (1, x, y, z)"

lemma spatial_cell_tuple_inj: "spatial_cell_tuple a = spatial_cell_tuple b \<longleftrightarrow> a = b"
  by (cases a; cases b) simp_all

instantiation spatial_cell :: linorder
begin

definition less_eq_spatial_cell :: "spatial_cell \<Rightarrow> spatial_cell \<Rightarrow> bool" where
  "less_eq_spatial_cell a b = (spatial_cell_tuple a \<le> spatial_cell_tuple b)"

definition less_spatial_cell :: "spatial_cell \<Rightarrow> spatial_cell \<Rightarrow> bool" where
  "less_spatial_cell a b = (spatial_cell_tuple a < spatial_cell_tuple b)"

instance
  by intro_classes
    (auto simp only: less_eq_spatial_cell_def less_spatial_cell_def spatial_cell_tuple_inj [symmetric])

end

datatype spatial_cell_key =
  SpatialCellKey (sc_space: space_id) (sc_space_epoch: space_epoch) (sc_cell: spatial_cell)

definition spatial_cell_key_tuple :: "spatial_cell_key \<Rightarrow> u64 \<times> u64 \<times> spatial_cell" where
  "spatial_cell_key_tuple k = (sc_space k, sc_space_epoch k, sc_cell k)"

lemma spatial_cell_key_tuple_inj: "spatial_cell_key_tuple a = spatial_cell_key_tuple b \<longleftrightarrow> a = b"
  by (cases a; cases b) (simp add: spatial_cell_key_tuple_def)

instantiation spatial_cell_key :: linorder
begin

definition less_eq_spatial_cell_key :: "spatial_cell_key \<Rightarrow> spatial_cell_key \<Rightarrow> bool" where
  "less_eq_spatial_cell_key a b = (spatial_cell_key_tuple a \<le> spatial_cell_key_tuple b)"

definition less_spatial_cell_key :: "spatial_cell_key \<Rightarrow> spatial_cell_key \<Rightarrow> bool" where
  "less_spatial_cell_key a b = (spatial_cell_key_tuple a < spatial_cell_key_tuple b)"

instance
  by intro_classes
    (auto simp only: less_eq_spatial_cell_key_def less_spatial_cell_key_def
      spatial_cell_key_tuple_inj [symmetric])

end

section \<open>The cell of a position\<close>

text \<open>The two ways \<^verbatim>\<open>spatial_cell_for\<close> fails; the core wraps them in its error type.\<close>

datatype cell_error = CellOutOfRange | CellDimensionMismatch

definition grid_coordinate :: "f64 \<Rightarrow> f64 \<Rightarrow> cell_error + int" where
  "grid_coordinate value cell_size =
     (let coordinate = f64_floor (f64_div value cell_size) in
      if \<not> f64_is_finite coordinate \<or> f64_lt coordinate (f64_of_int i64_min)
         \<or> f64_le (f64_of_int i64_max) coordinate
      then Inl CellOutOfRange
      else Inr (f64_to_i64 coordinate))"

fun spatial_cell_in ::
  "entity_position \<Rightarrow> routing_policy \<Rightarrow> cell_error + spatial_cell option" where
  "spatial_cell_in (EP_Cartesian2D x y) (SpatialGrid2D cell_size _ _) =
     and_then (grid_coordinate x cell_size) (\<lambda>cx.
     and_then (grid_coordinate y cell_size) (\<lambda>cy. Inr (Some (SC_2D cx cy))))"
| "spatial_cell_in (EP_Cartesian3D x y z) (SpatialGrid3D cell_size _ _) =
     and_then (grid_coordinate x cell_size) (\<lambda>cx.
     and_then (grid_coordinate y cell_size) (\<lambda>cy.
     and_then (grid_coordinate z cell_size) (\<lambda>cz. Inr (Some (SC_3D cx cy cz)))))"
| "spatial_cell_in _ BroadcastAll = Inr None"
| "spatial_cell_in _ TopicOnly = Inr None"
| "spatial_cell_in _ _ = Inl CellDimensionMismatch"

definition spatial_cell_for ::
  "entity_position \<Rightarrow> space_descriptor \<Rightarrow> space_epoch \<Rightarrow> cell_error + spatial_cell_key option" where
  "spatial_cell_for pos descriptor epoch =
     and_then (spatial_cell_in pos (sd_routing descriptor)) (\<lambda>cell.
       Inr (map_option (SpatialCellKey (sd_id descriptor) epoch) cell))"

lemma grid_coordinate_range:
  "grid_coordinate v c = Inr i \<Longrightarrow> i64_min \<le> i \<and> i \<le> i64_max"
  using f64_to_i64_range by (auto simp: grid_coordinate_def Let_def split: if_splits)

text \<open>A position that fits its frame always fits the routing of an accepted descriptor.\<close>

lemma spatial_cell_no_mismatch:
  assumes "routing_ok d" "validate_for_frame p (sd_local_frame d) = Inr u"
  shows "spatial_cell_for p d epoch \<noteq> Inl CellDimensionMismatch"
  using assms
  by (cases p; cases "sd_routing d"; cases "sd_local_frame d")
    (auto simp: spatial_cell_for_def and_then_eq_Inl grid_coordinate_def validate_for_frame_ok
      routing_ok_def Let_def split: if_splits)

lemma spatial_cell_for_key:
  "spatial_cell_for p d epoch = Inr (Some k) \<Longrightarrow> sc_space k = sd_id d \<and> sc_space_epoch k = epoch"
  by (auto simp: spatial_cell_for_def result_ok)

section \<open>Proximity\<close>

definition abs_diff_f64 :: "int \<Rightarrow> int \<Rightarrow> f64" where
  "abs_diff_f64 a b = f64_of_int \<bar>a - b\<bar>"

fun cells_are_near :: "spatial_cell \<Rightarrow> spatial_cell \<Rightarrow> f64 \<Rightarrow> bool" where
  "cells_are_near (SC_2D sx sy) (SC_2D cx cy) radius_in_cells =
     (f64_le (abs_diff_f64 sx cx) radius_in_cells \<and> f64_le (abs_diff_f64 sy cy) radius_in_cells)"
| "cells_are_near (SC_3D sx sy sz) (SC_3D cx cy cz) radius_in_cells =
     (f64_le (abs_diff_f64 sx cx) radius_in_cells \<and> f64_le (abs_diff_f64 sy cy) radius_in_cells
      \<and> f64_le (abs_diff_f64 sz cz) radius_in_cells)"
| "cells_are_near _ _ _ = False"

fun position_difference :: "entity_position \<Rightarrow> entity_position \<Rightarrow> f64 list option" where
  "position_difference (EP_Cartesian2D sx sy) (EP_Cartesian2D cx cy) =
     Some [f64_sub sx cx, f64_sub sy cy]"
| "position_difference (EP_Cartesian3D sx sy sz) (EP_Cartesian3D cx cy cz) =
     Some [f64_sub sx cx, f64_sub sy cy, f64_sub sz cz]"
| "position_difference _ _ = None"

text \<open>\<^verbatim>\<open>powi(2)\<close> is one multiplication.\<close>

definition f64_square :: "f64 \<Rightarrow> f64" where
  "f64_square x = f64_mul x x"

definition squared_distance_within :: "entity_position \<Rightarrow> entity_position \<Rightarrow> f64 \<Rightarrow> bool" where
  "squared_distance_within source candidate radius =
     (case position_difference source candidate of
        None \<Rightarrow> False
      | Some components \<Rightarrow>
          let scale = foldl (\<lambda>largest component. f64_max largest (f64_abs component)) radius components
          in if \<not> f64_is_finite scale then False
             else f64_le
               (foldl f64_add 0 (map (\<lambda>component. f64_square (f64_div component scale)) components))
               (f64_square (f64_div radius scale)))"

text \<open>Proximity of cells is symmetric, and a cell is near itself.\<close>

lemma cells_are_near_sym: "cells_are_near a b r = cells_are_near b a r"
  by (cases a; cases b) (auto simp: abs_diff_f64_def abs_minus_commute)

lemma cells_are_near_dimension:
  "cells_are_near a b r \<Longrightarrow> (\<exists>x y u v. a = SC_2D x y \<and> b = SC_2D u v)
     \<or> (\<exists>x y z u v w. a = SC_3D x y z \<and> b = SC_3D u v w)"
  by (cases a; cases b) auto

lemma f64_zero_int: "f64_of_int 0 = 0"
  by (simp add: f64_of_int_def f64_of_fix_def f64_round_def f64_round_magnitude_def Let_def
      f64_signed_def bitlen.simps)

lemma cells_are_near_refl: "f64_le 0 r \<Longrightarrow> cells_are_near a a r"
  by (cases a) (simp_all add: abs_diff_f64_def f64_zero_int)

end
