(* ===== verification/CoreState.thy ===== *)
theory CoreState
  imports Spatial Queue Journal Authority Admission
begin

text \<open>
  The state of \<^verbatim>\<open>WovenCore\<close> (\<^verbatim>\<open>woven-core/src/core.rs\<close>): its configuration and
  errors, the per-connection state with the publish rate limiter, the per-session state with the
  entity cell index, and the checks that every operation starts with. An operation on the core is a
  function from the core to its \<^verbatim>\<open>Result\<close> and the new core: what was changed before an
  error stays changed, as in the source.
\<close>

section \<open>Configuration and errors\<close>

record publish_rate_limit =
  pr_max_publishes :: usize
  pr_window :: duration

definition pr_default :: publish_rate_limit where
  "pr_default = \<lparr>pr_max_publishes = 256, pr_window = duration_from_secs 1\<rparr>"

record core_config =
  cc_outbound_queue :: outbound_queue_config
  cc_publish_rate_limit :: publish_rate_limit
  cc_max_connections :: usize
  cc_max_sessions :: usize
  cc_max_channels :: usize
  cc_max_memberships_per_connection :: usize
  cc_max_subscriptions_per_connection :: usize
  cc_max_owned_entities_per_connection :: usize
  cc_max_payload_bytes :: usize
  cc_max_spaces_per_session :: usize
  cc_max_space_epoch_tombstones_per_session :: usize
  cc_max_entities_per_session :: usize
  cc_max_state_entries_per_session :: usize
  cc_max_state_bytes_per_session :: usize
  cc_max_sequence_keys_per_session :: usize
  cc_max_authority_emissions :: usize
  cc_journal_outbox_capacity :: usize

definition cc_default :: core_config where
  "cc_default = \<lparr>cc_outbound_queue = qc_default, cc_publish_rate_limit = pr_default,
     cc_max_connections = 4096, cc_max_sessions = 1024, cc_max_channels = 1024,
     cc_max_memberships_per_connection = 32, cc_max_subscriptions_per_connection = 128,
     cc_max_owned_entities_per_connection = 256, cc_max_payload_bytes = 64 * 1024,
     cc_max_spaces_per_session = 1024, cc_max_space_epoch_tombstones_per_session = 4096,
     cc_max_entities_per_session = 16384, cc_max_state_entries_per_session = 65536,
     cc_max_state_bytes_per_session = 64 * 1024 * 1024, cc_max_sequence_keys_per_session = 131072,
     cc_max_authority_emissions = 16, cc_journal_outbox_capacity = 1024\<rparr>"

datatype id_kind =
    K_Namespace | K_Session | K_Space | K_Entity | K_Connection | K_Principal | K_Channel | K_SpaceEpoch

datatype core_error =
    CE_InvalidConfiguration
  | CE_InvalidQueueConfig queue_config_error
  | CE_ReservedZeroId id_kind
  | CE_AuthenticationFailed auth_error
  | CE_AuthenticationRequired
  | CE_AlreadyAuthenticated
  | CE_UnknownConnection connection_id
  | CE_ConnectionLimitReached
  | CE_NamespaceReadAccessDenied namespace_id
  | CE_NamespaceWriteAccessDenied namespace_id
  | CE_SessionReadAccessDenied session_key
  | CE_SessionWriteAccessDenied session_key
  | CE_SpaceReadAccessDenied space_key
  | CE_SpaceWriteAccessDenied space_key
  | CE_ChannelWriteAccessDenied channel_scope
  | CE_UnknownChannel channel_id
  | CE_ChannelAlreadyRegistered channel_id
  | CE_ChannelLimitReached
  | CE_InvalidChannelLimit channel_id
  | CE_ChannelPolicyMismatch channel_id delivery_class delivery_class persistence_class persistence_class
  | CE_SessionNotFound session_key
  | CE_SessionAlreadyProvisioned session_key
  | CE_SessionLimitReached
  | CE_SessionMembershipRequired session_key
  | CE_MembershipLimitReached
  | CE_SpaceNotFound space_key
  | CE_SpaceAlreadyExists space_key
  | CE_SpaceLimitReached
  | CE_SpaceIdHistoryLimitReached
  | CE_InvalidSpace space_validation_error
  | CE_ParentSpaceNotFound space_id
  | CE_ParentAnchorNotFound entity_id
  | CE_ParentAnchorInWrongSpace entity_id space_id
  | CE_EpochDidNotAdvance space_epoch space_epoch
  | CE_SpaceEpochMismatch space_epoch space_epoch
  | CE_SubscriptionRequired space_key
  | CE_SubscriptionLimitReached
  | CE_EntityLimitReached
  | CE_OwnedEntityLimitReached
  | CE_EntityNotFound entity_id
  | CE_EntityNotOwned entity_id
  | CE_EntitySpaceMismatch entity_id
  | CE_InvalidEntityPosition position_validation_error
  | CE_SpatialCellOutOfRange
  | CE_StateEntryLimitReached
  | CE_StateByteLimitReached
  | CE_SequenceKeyLimitReached
  | CE_PayloadTooLarge usize usize
  | CE_MissingCoalesceKey
  | CE_InvalidCoalesceKey
  | CE_StaleSequence u64 u64
  | CE_PublishRateLimited duration
  | CE_RateLimitClockRegressed
  | CE_AuthorityRejected authority_rejection
  | CE_AuthorityEmissionLimitExceeded
  | CE_JournalOutboxSaturated
  | CE_IdExhausted
  | CE_AdmissionAlreadyConfigured session_key
  | CE_AdmissionLeaseRequired session_key
  | CE_InvalidAdmissionLease session_key
  | CE_Queue queue_error

definition pr_validate :: "publish_rate_limit \<Rightarrow> core_error + publish_rate_limit" where
  "pr_validate p = (if pr_max_publishes p = 0 \<or> pr_window p = 0 then Inl CE_InvalidConfiguration else Inr p)"

definition cc_validate :: "core_config \<Rightarrow> core_error + core_config" where
  "cc_validate c =
     and_then (map_err CE_InvalidQueueConfig (qc_validate (cc_outbound_queue c))) (\<lambda>_.
     and_then (pr_validate (cc_publish_rate_limit c)) (\<lambda>_.
     if cc_max_connections c = 0 \<or> cc_max_sessions c = 0 \<or> cc_max_channels c = 0
        \<or> cc_max_memberships_per_connection c = 0 \<or> cc_max_subscriptions_per_connection c = 0
        \<or> cc_max_owned_entities_per_connection c = 0 \<or> cc_max_payload_bytes c = 0
        \<or> cc_max_spaces_per_session c = 0 \<or> cc_max_space_epoch_tombstones_per_session c = 0
        \<or> cc_max_entities_per_session c = 0 \<or> cc_max_state_entries_per_session c = 0
        \<or> cc_max_state_bytes_per_session c = 0 \<or> cc_max_sequence_keys_per_session c = 0
        \<or> cc_max_authority_emissions c = 0
        \<or> cc_max_space_epoch_tombstones_per_session c < cc_max_spaces_per_session c
     then Inl CE_InvalidConfiguration else Inr c))"

section \<open>Requests and outcomes\<close>

record publish_request =
  pq_connection :: connection_id
  pq_session :: session_key
  pq_space :: space_id
  pq_space_epoch :: space_epoch
  pq_entity :: "entity_id option"
  pq_channel :: channel_id
  pq_sequence :: u64
  pq_delivery :: delivery_class
  pq_persistence :: persistence_class
  pq_coalesce_key :: "coalesce_key option"
  pq_payload :: payload

record queue_activity =
  qa_queued :: usize
  qa_critical_evictions :: usize
  qa_replaced_latest :: usize
  qa_evicted_latest :: usize
  qa_dropped_latest :: usize
  qa_dropped_best_effort :: usize
  qa_critical_capacity_exhausted :: usize

definition qa_default :: queue_activity where
  "qa_default = \<lparr>qa_queued = 0, qa_critical_evictions = 0, qa_replaced_latest = 0,
     qa_evicted_latest = 0, qa_dropped_latest = 0, qa_dropped_best_effort = 0,
     qa_critical_capacity_exhausted = 0\<rparr>"

record publish_outcome =
  po_authorized_messages :: usize
  po_recipient_attempts :: usize
  po_queues :: queue_activity
  po_disconnected_slow_consumers :: "connection_id list"

record removed_entity =
  re_entity :: entity_id
  re_session :: session_key
  re_space :: space_id
  re_space_epoch :: space_epoch

record entity_transition_request =
  tq_connection :: connection_id
  tq_session :: session_key
  tq_entity :: entity_id
  tq_source_space :: space_id
  tq_source_epoch :: space_epoch
  tq_destination_space :: space_id
  tq_destination_epoch :: space_epoch

record entity_transition =
  et_entity :: entity_id
  et_session :: session_key
  et_source_space :: space_id
  et_source_epoch :: space_epoch
  et_destination_space :: space_id
  et_destination_epoch :: space_epoch

record cleanup_summary =
  cs_memberships_removed :: usize
  cs_subscriptions_removed :: usize
  cs_entities_removed :: usize
  cs_spaces_removed :: usize
  cs_queued_messages_discarded :: usize
  cs_removed_entities :: "removed_entity list"

definition cs_default :: cleanup_summary where
  "cs_default = \<lparr>cs_memberships_removed = 0, cs_subscriptions_removed = 0, cs_entities_removed = 0,
     cs_spaces_removed = 0, cs_queued_messages_discarded = 0, cs_removed_entities = []\<rparr>"

definition cs_add :: "cleanup_summary \<Rightarrow> cleanup_summary \<Rightarrow> cleanup_summary" where
  "cs_add a b = \<lparr>cs_memberships_removed = cs_memberships_removed a + cs_memberships_removed b,
     cs_subscriptions_removed = cs_subscriptions_removed a + cs_subscriptions_removed b,
     cs_entities_removed = cs_entities_removed a + cs_entities_removed b,
     cs_spaces_removed = cs_spaces_removed a + cs_spaces_removed b,
     cs_queued_messages_discarded = cs_queued_messages_discarded a + cs_queued_messages_discarded b,
     cs_removed_entities = cs_removed_entities a @ cs_removed_entities b\<rparr>"

section \<open>Connections\<close>

record rate_limiter =
  rl_window_started :: "instant option"
  rl_publishes :: usize

definition rl_default :: rate_limiter where
  "rl_default = \<lparr>rl_window_started = None, rl_publishes = 0\<rparr>"

definition rl_admit ::
  "publish_rate_limit \<Rightarrow> instant \<Rightarrow> rate_limiter \<Rightarrow> (core_error + unit) \<times> rate_limiter" where
  "rl_admit policy now l = (case rl_window_started l of
     None \<Rightarrow> (Inr (), l\<lparr>rl_window_started := Some now, rl_publishes := 1\<rparr>)
   | Some started \<Rightarrow>
       (case checked_duration_since now started of
          None \<Rightarrow> (Inl CE_RateLimitClockRegressed, l)
        | Some elapsed \<Rightarrow>
            if pr_window policy \<le> elapsed
            then (Inr (), l\<lparr>rl_window_started := Some now, rl_publishes := 1\<rparr>)
            else if rl_publishes l = pr_max_publishes policy
            then (Inl (CE_PublishRateLimited (pr_window policy - elapsed)), l)
            else (Inr (), l\<lparr>rl_publishes := rl_publishes l + 1\<rparr>)))"

record connection_state =
  cn_authenticated :: "authenticated_principal option"
  cn_memberships :: "session_key btset"
  cn_subscriptions :: "space_key btset"
  cn_owned_entities :: usize
  cn_rate_limiter :: rate_limiter
  cn_outbound :: outbound_queue

section \<open>Sessions\<close>

record entity_record =
  er_id :: entity_id
  er_owner_connection :: connection_id
  er_owner_principal :: principal_id
  er_space :: space_id
  er_space_epoch :: space_epoch
  er_position :: "entity_position option"

datatype sequence_key =
  SequenceKey (sqk_connection: connection_id) (sqk_space: space_id) (sqk_space_epoch: space_epoch) (sqk_entity: "entity_id option") (sqk_channel: channel_id) (sqk_component: u64)

definition sequence_key_tuple :: "sequence_key \<Rightarrow> u64 \<times> u64 \<times> u64 \<times> u64 option \<times> u64 \<times> u64" where
  "sequence_key_tuple k = (sqk_connection k, sqk_space k, sqk_space_epoch k, sqk_entity k, sqk_channel k, sqk_component k)"

lemma sequence_key_tuple_inj: "sequence_key_tuple a = sequence_key_tuple b \<longleftrightarrow> a = b"
  by (cases a; cases b) (simp add: sequence_key_tuple_def)

instantiation sequence_key :: linorder
begin

definition less_eq_sequence_key :: "sequence_key \<Rightarrow> sequence_key \<Rightarrow> bool" where
  "less_eq_sequence_key a b = (sequence_key_tuple a \<le> sequence_key_tuple b)"

definition less_sequence_key :: "sequence_key \<Rightarrow> sequence_key \<Rightarrow> bool" where
  "less_sequence_key a b = (sequence_key_tuple a < sequence_key_tuple b)"

instance
  by intro_classes
    (auto simp only: less_eq_sequence_key_def less_sequence_key_def sequence_key_tuple_inj [symmetric])

end

datatype state_key =
  StateKey (stk_space: space_id) (stk_space_epoch: space_epoch) (stk_entity: "entity_id option") (stk_channel: channel_id) (stk_component: u64)

definition state_key_tuple :: "state_key \<Rightarrow> u64 \<times> u64 \<times> u64 option \<times> u64 \<times> u64" where
  "state_key_tuple k = (stk_space k, stk_space_epoch k, stk_entity k, stk_channel k, stk_component k)"

lemma state_key_tuple_inj: "state_key_tuple a = state_key_tuple b \<longleftrightarrow> a = b"
  by (cases a; cases b) (simp add: state_key_tuple_def)

instantiation state_key :: linorder
begin

definition less_eq_state_key :: "state_key \<Rightarrow> state_key \<Rightarrow> bool" where
  "less_eq_state_key a b = (state_key_tuple a \<le> state_key_tuple b)"

definition less_state_key :: "state_key \<Rightarrow> state_key \<Rightarrow> bool" where
  "less_state_key a b = (state_key_tuple a < state_key_tuple b)"

instance
  by intro_classes
    (auto simp only: less_eq_state_key_def less_state_key_def state_key_tuple_inj [symmetric])

end

record state_record =
  sr_sequence :: u64
  sr_payload :: payload

record session_state =
  sn_members :: "connection_id btset"
  sn_space_map :: "(space_id, space_descriptor) btmap"
  sn_tombstones :: "(space_id, space_epoch) btmap"
  sn_subscribers :: "(space_id, connection_id btset) btmap"
  sn_entity_map :: "(entity_id, entity_record) btmap"
  sn_entity_cells :: "(entity_id, spatial_cell_key) btmap"
  sn_cell_entities :: "(spatial_cell_key, entity_id btset) btmap"
  sn_sequences :: "(sequence_key, u64) btmap"
  sn_state_map :: "(state_key, state_record) btmap"
  sn_bytes :: usize

definition session_new :: session_state where
  "session_new = \<lparr>sn_members = bt_new, sn_space_map = bt_new, sn_tombstones = bt_new,
     sn_subscribers = bt_new, sn_entity_map = bt_new, sn_entity_cells = bt_new,
     sn_cell_entities = bt_new, sn_sequences = bt_new, sn_state_map = bt_new, sn_bytes = 0\<rparr>"

definition state_total :: "(state_key, state_record) btmap \<Rightarrow> usize" where
  "state_total m = sum_list (map (\<lambda>r. length (sr_payload r)) (bt_values m))"

definition recompute_state_bytes :: "session_state \<Rightarrow> session_state" where
  "recompute_state_bytes s = s\<lparr>sn_bytes := state_total (sn_state_map s)\<rparr>"

definition remove_entity_from_cell :: "entity_id \<Rightarrow> session_state \<Rightarrow> session_state" where
  "remove_entity_from_cell entity s = (case bt_get (sn_entity_cells s) entity of
     None \<Rightarrow> s
   | Some cell \<Rightarrow>
       let s1 = s\<lparr>sn_entity_cells := bt_remove entity (sn_entity_cells s)\<rparr>;
           s2 = s1\<lparr>sn_cell_entities := bt_modify cell (bs_remove entity) (sn_cell_entities s1)\<rparr>
       in if opt_is_some_and (\<lambda>es. bt_len es = 0) (bt_get (sn_cell_entities s2) cell)
          then s2\<lparr>sn_cell_entities := bt_remove cell (sn_cell_entities s2)\<rparr>
          else s2)"

definition insert_entity_into_cell :: "entity_id \<Rightarrow> spatial_cell_key \<Rightarrow> session_state \<Rightarrow> session_state" where
  "insert_entity_into_cell entity cell s =
     s\<lparr>sn_entity_cells := bt_insert entity cell (sn_entity_cells s),
       sn_cell_entities := bt_insert cell
         (bs_insert entity (case bt_get (sn_cell_entities s) cell of None \<Rightarrow> bt_new | Some es \<Rightarrow> es))
         (sn_cell_entities s)\<rparr>"

section \<open>Authorized messages\<close>

record authorized_message =
  am_space :: space_id
  am_space_epoch :: space_epoch
  am_entity :: "entity_id option"
  am_channel :: channel_id
  am_sequence :: u64
  am_delivery :: delivery_class
  am_persistence :: persistence_class
  am_coalesce_key :: "coalesce_key option"
  am_payload :: payload

definition am_from_request :: "publish_request \<Rightarrow> authorized_message" where
  "am_from_request r = \<lparr>am_space = pq_space r, am_space_epoch = pq_space_epoch r,
     am_entity = pq_entity r, am_channel = pq_channel r, am_sequence = pq_sequence r,
     am_delivery = pq_delivery r, am_persistence = pq_persistence r,
     am_coalesce_key = pq_coalesce_key r, am_payload = pq_payload r\<rparr>"

definition am_from_emission :: "authority_emission \<Rightarrow> authorized_message" where
  "am_from_emission e = \<lparr>am_space = ae_space e, am_space_epoch = ae_space_epoch e,
     am_entity = ae_entity e, am_channel = ae_channel e, am_sequence = ae_sequence e,
     am_delivery = ae_delivery e, am_persistence = ae_persistence e,
     am_coalesce_key = ae_coalesce_key e, am_payload = ae_payload e\<rparr>"

definition am_to_outbound :: "session_key \<Rightarrow> authorized_message \<Rightarrow> outbound_message" where
  "am_to_outbound session m = \<lparr>om_namespace = sk_namespace session, om_session = sk_session session,
     om_space = am_space m, om_space_epoch = am_space_epoch m, om_entity = am_entity m,
     om_channel = am_channel m, om_sequence = am_sequence m, om_delivery = am_delivery m,
     om_persistence = am_persistence m, om_coalesce_key = am_coalesce_key m,
     om_payload = am_payload m\<rparr>"

section \<open>The core\<close>

text \<open>A map key pairing a connection with a session, ordered as the Rust tuple.\<close>

type_synonym admission_key = "connection_id \<times> session_key"

record core =
  co_authenticator :: authenticator_fn
  co_config :: core_config
  co_next_connection_id :: u64
  co_next_entity_id :: u64
  co_connections :: "(connection_id, connection_state) btmap"
  co_sessions :: "(session_key, session_state) btmap"
  co_channels :: "(channel_id, channel_definition) btmap"
  co_admissions :: "(session_key, admission_controller) btmap"
  co_pending_admissions :: "(admission_key, admission_lease) btmap"
  co_admission_leases :: "(admission_key, admission_lease) btmap"
  co_journal_outbox :: journal_outbox

definition core_new :: "authenticator_fn \<Rightarrow> core_config \<Rightarrow> core_error + core" where
  "core_new auth_fn config = and_then (cc_validate config) (\<lambda>config.
     Inr \<lparr>co_authenticator = auth_fn, co_config = config, co_next_connection_id = 1,
       co_next_entity_id = 1, co_connections = bt_new, co_sessions = bt_new, co_channels = bt_new,
       co_admissions = bt_new, co_pending_admissions = bt_new, co_admission_leases = bt_new,
       co_journal_outbox = jo_new (cc_journal_outbox_capacity config)\<rparr>)"

type_synonym 'a core_op = "core \<Rightarrow> (core_error + 'a) \<times> core"

text \<open>\<open>checked r f\<close> runs the checks \<open>r\<close>, which change nothing, and then \<open>f\<close>.\<close>

definition checked :: "core_error + 'a \<Rightarrow> ('a \<Rightarrow> 'b core_op) \<Rightarrow> 'b core_op" where
  "checked r f c = (case r of Inl e \<Rightarrow> (Inl e, c) | Inr x \<Rightarrow> f x c)"

lemma checked_simps [simp]:
  "checked (Inl e) f c = (Inl e, c)" "checked (Inr x) f c = f x c"
  by (simp_all add: checked_def)

lemma checked_ok: "checked r f c = (Inr y, c') \<longleftrightarrow> (\<exists>x. r = Inr x \<and> f x c = (Inr y, c'))"
  by (cases r) simp_all

lemma checked_err: "checked r f c = (Inl e, c') \<longleftrightarrow>
    r = Inl e \<and> c' = c \<or> (\<exists>x. r = Inr x \<and> f x c = (Inl e, c'))"
  by (cases r) auto

definition map_connection ::
  "connection_id \<Rightarrow> (connection_state \<Rightarrow> connection_state) \<Rightarrow> core \<Rightarrow> core" where
  "map_connection cid f c = c\<lparr>co_connections := bt_modify cid f (co_connections c)\<rparr>"

definition map_session :: "session_key \<Rightarrow> (session_state \<Rightarrow> session_state) \<Rightarrow> core \<Rightarrow> core" where
  "map_session key f c = c\<lparr>co_sessions := bt_modify key f (co_sessions c)\<rparr>"

definition get_connection :: "core \<Rightarrow> connection_id \<Rightarrow> core_error + connection_state" where
  "get_connection c cid = ok_or (CE_UnknownConnection cid) (bt_get (co_connections c) cid)"

definition get_session :: "core \<Rightarrow> session_key \<Rightarrow> core_error + session_state" where
  "get_session c key = ok_or (CE_SessionNotFound key) (bt_get (co_sessions c) key)"

section \<open>Checks\<close>

definition require_nonzero :: "u64 \<Rightarrow> id_kind \<Rightarrow> core_error + unit" where
  "require_nonzero value kind = (if value = 0 then Inl (CE_ReservedZeroId kind) else Inr ())"

definition validate_session_key :: "session_key \<Rightarrow> core_error + unit" where
  "validate_session_key key =
     and_then (require_nonzero (sk_namespace key) K_Namespace) (\<lambda>_.
     require_nonzero (sk_session key) K_Session)"

definition validate_space_key :: "space_key \<Rightarrow> core_error + unit" where
  "validate_space_key key =
     and_then (validate_session_key (spk_session key)) (\<lambda>_. require_nonzero (spk_space key) K_Space)"

definition validate_connection_id :: "connection_id \<Rightarrow> core_error + unit" where
  "validate_connection_id connection = require_nonzero connection K_Connection"

definition validate_optional_ids ::
  "entity_id option \<Rightarrow> coalesce_key option \<Rightarrow> core_error + unit" where
  "validate_optional_ids entity coalesce =
     and_then (case entity of None \<Rightarrow> Inr () | Some e \<Rightarrow> require_nonzero e K_Entity) (\<lambda>_.
     case coalesce of
       None \<Rightarrow> Inr ()
     | Some key \<Rightarrow>
         and_then (require_nonzero (ck_channel key) K_Channel) (\<lambda>_.
         case ck_entity key of None \<Rightarrow> Inr () | Some e \<Rightarrow> require_nonzero e K_Entity))"

definition validate_publish_request_ids :: "publish_request \<Rightarrow> core_error + unit" where
  "validate_publish_request_ids r =
     and_then (validate_session_key (pq_session r)) (\<lambda>_.
     and_then (require_nonzero (pq_space r) K_Space) (\<lambda>_.
     and_then (require_nonzero (pq_space_epoch r) K_SpaceEpoch) (\<lambda>_.
     and_then (require_nonzero (pq_channel r) K_Channel) (\<lambda>_.
     validate_optional_ids (pq_entity r) (pq_coalesce_key r)))))"

definition validate_authorized_message_ids :: "authorized_message \<Rightarrow> core_error + unit" where
  "validate_authorized_message_ids m =
     and_then (require_nonzero (am_space m) K_Space) (\<lambda>_.
     and_then (require_nonzero (am_space_epoch m) K_SpaceEpoch) (\<lambda>_.
     and_then (require_nonzero (am_channel m) K_Channel) (\<lambda>_.
     validate_optional_ids (am_entity m) (am_coalesce_key m))))"

definition require_namespace_read :: "authenticated_principal \<Rightarrow> namespace_id \<Rightarrow> core_error + unit" where
  "require_namespace_read p n =
     ensure (can_read_namespace (ap_grants p) n) (CE_NamespaceReadAccessDenied n)"

definition require_namespace_write :: "authenticated_principal \<Rightarrow> namespace_id \<Rightarrow> core_error + unit" where
  "require_namespace_write p n =
     ensure (can_write_namespace (ap_grants p) n) (CE_NamespaceWriteAccessDenied n)"

definition require_session_read :: "authenticated_principal \<Rightarrow> session_key \<Rightarrow> core_error + unit" where
  "require_session_read p s = ensure (can_read_session (ap_grants p) s) (CE_SessionReadAccessDenied s)"

definition require_session_write :: "authenticated_principal \<Rightarrow> session_key \<Rightarrow> core_error + unit" where
  "require_session_write p s = ensure (can_write_session (ap_grants p) s) (CE_SessionWriteAccessDenied s)"

definition require_space_read :: "authenticated_principal \<Rightarrow> space_key \<Rightarrow> core_error + unit" where
  "require_space_read p s = ensure (can_read_space (ap_grants p) s) (CE_SpaceReadAccessDenied s)"

definition require_space_write :: "authenticated_principal \<Rightarrow> space_key \<Rightarrow> core_error + unit" where
  "require_space_write p s = ensure (can_write_space (ap_grants p) s) (CE_SpaceWriteAccessDenied s)"

definition can_receive ::
  "authenticated_principal \<Rightarrow> session_key \<Rightarrow> space_id \<Rightarrow> channel_id \<Rightarrow> bool" where
  "can_receive p session space channel =
     (can_read_namespace (ap_grants p) (sk_namespace session)
      \<and> can_read_session (ap_grants p) session
      \<and> can_read_space (ap_grants p) (SpaceKey session space)
      \<and> can_read_channel (ap_grants p) (ChannelScope session channel))"

definition core_authenticated_principal :: "core \<Rightarrow> connection_id \<Rightarrow> core_error + authenticated_principal" where
  "core_authenticated_principal c cid =
     and_then (get_connection c cid) (\<lambda>state. ok_or CE_AuthenticationRequired (cn_authenticated state))"

definition require_membership :: "core \<Rightarrow> connection_id \<Rightarrow> session_key \<Rightarrow> core_error + unit" where
  "require_membership c cid session =
     and_then (get_connection c cid) (\<lambda>state.
       ensure (bs_contains (cn_memberships state) session) (CE_SessionMembershipRequired session))"

definition require_subscription :: "core \<Rightarrow> connection_id \<Rightarrow> space_key \<Rightarrow> core_error + unit" where
  "require_subscription c cid space =
     and_then (get_connection c cid) (\<lambda>state.
       ensure (bs_contains (cn_subscriptions state) space) (CE_SubscriptionRequired space))"

lemma require_nonzero_ok [simp]: "require_nonzero v k = Inr u \<longleftrightarrow> v \<noteq> 0"
  by (simp add: require_nonzero_def)

lemma validate_connection_id_ok [simp]: "validate_connection_id cid = Inr u \<longleftrightarrow> cid \<noteq> 0"
  by (simp add: validate_connection_id_def)

lemma get_connection_ok [simp]: "get_connection c cid = Inr s \<longleftrightarrow> bt_get (co_connections c) cid = Some s"
  by (simp add: get_connection_def)

lemma get_session_ok [simp]: "get_session c key = Inr s \<longleftrightarrow> bt_get (co_sessions c) key = Some s"
  by (simp add: get_session_def)

lemma core_authenticated_principal_ok:
  "core_authenticated_principal c cid = Inr p
     \<longleftrightarrow> (\<exists>s. bt_get (co_connections c) cid = Some s \<and> cn_authenticated s = Some p)"
  by (simp add: core_authenticated_principal_def result_ok)

lemma require_membership_ok:
  "require_membership c cid key = Inr u
     \<longleftrightarrow> (\<exists>s. bt_get (co_connections c) cid = Some s \<and> bs_contains (cn_memberships s) key)"
  by (simp add: require_membership_def result_ok)

lemma require_subscription_ok:
  "require_subscription c cid key = Inr u
     \<longleftrightarrow> (\<exists>s. bt_get (co_connections c) cid = Some s \<and> bs_contains (cn_subscriptions s) key)"
  by (simp add: require_subscription_def result_ok)

lemmas require_defs = require_namespace_read_def require_namespace_write_def require_session_read_def
  require_session_write_def require_space_read_def require_space_write_def

end
