(* ===== verification/CoreCleanup.thy ===== *)
theory CoreCleanup
  imports CoreState
begin

text \<open>
  Removal and cleanup in \<^verbatim>\<open>woven-core/src/core.rs\<close>: the fixpoint that collects the spaces
  anchored to removed entities and the entities of removed spaces, their removal from the session
  and from every connection, detaching a connection from a session, and losing a transport.
\<close>

section \<open>The anchored closure\<close>

definition anchored_to :: "entity_id btset \<Rightarrow> space_id btset \<Rightarrow> space_descriptor \<Rightarrow> bool" where
  "anchored_to entities spaces d = opt_is_some_and (\<lambda>parent.
     bs_contains entities (pa_anchor_entity parent) \<or> bs_contains spaces (pa_parent_space parent))
     (sd_parent d)"

text \<open>One pass over the spaces, which sees the spaces marked earlier in the same pass.\<close>

definition mark_spaces :: "session_state \<Rightarrow> entity_id btset \<Rightarrow> space_id btset \<Rightarrow> space_id btset" where
  "mark_spaces s entities spaces =
     foldl (\<lambda>spaces d. if anchored_to entities spaces d then bs_insert (sd_id d) spaces else spaces)
       spaces (bt_values (sn_space_map s))"

definition mark_entities :: "session_state \<Rightarrow> space_id btset \<Rightarrow> entity_id btset \<Rightarrow> entity_id btset" where
  "mark_entities s spaces entities =
     foldl (\<lambda>entities e. if bs_contains spaces (er_space e) then bs_insert (er_id e) entities else entities)
       entities (bt_values (sn_entity_map s))"

definition unmarked :: "session_state \<Rightarrow> entity_id btset \<Rightarrow> space_id btset \<Rightarrow> nat" where
  "unmarked s entities spaces =
     length (filter (\<lambda>d. \<not> bs_contains spaces (sd_id d)) (bt_values (sn_space_map s)))
   + length (filter (\<lambda>e. \<not> bs_contains entities (er_id e)) (bt_values (sn_entity_map s)))"

text \<open>Facts about such marking loops in general.\<close>

definition marking :: "('b btset \<Rightarrow> 'a \<Rightarrow> bool) \<Rightarrow> ('a \<Rightarrow> 'b::linorder) \<Rightarrow> 'b btset \<Rightarrow> 'a list \<Rightarrow> 'b btset" where
  "marking P f = foldl (\<lambda>m x. if P m x then bs_insert (f x) m else m)"

lemma marking_simps:
  "marking P f m [] = m"
  "marking P f m (x # xs) = marking P f (if P m x then bs_insert (f x) m else m) xs"
  by (simp_all add: marking_def)

lemma marking_mono: "bs_contains m y \<Longrightarrow> bs_contains (marking P f m xs) y"
  by (induction xs arbitrary: m) (simp_all add: marking_simps)

lemma marking_new:
  "bs_contains (marking P f m xs) y \<Longrightarrow> bs_contains m y \<or> (\<exists>x\<in>set xs. y = f x)"
  by (induction xs arbitrary: m) (force simp: marking_simps split: if_splits)+

lemma marking_len: "bt_len m \<le> bt_len (marking P f m xs)"
proof (induction xs arbitrary: m)
  case (Cons x xs)
  have "bt_len m \<le> bt_len (if P m x then bs_insert (f x) m else m)"
    by (simp add: bs_len_insert)
  also have "\<dots> \<le> bt_len (marking P f m (x # xs))"
    unfolding marking_simps by (rule Cons.IH)
  finally show ?case .
qed (simp add: marking_simps)

lemma marking_same_len: "bt_len (marking P f m xs) = bt_len m \<Longrightarrow> marking P f m xs = m"
proof (induction xs arbitrary: m)
  case (Cons x xs)
  let ?m = "if P m x then bs_insert (f x) m else m"
  have "bt_len m \<le> bt_len ?m" "bt_len ?m \<le> bt_len (marking P f ?m xs)"
    by (simp add: bs_len_insert) (rule marking_len)
  then have len: "bt_len ?m = bt_len m" "marking P f ?m xs = ?m"
    using Cons by (simp_all add: marking_simps)
  have "?m = m"
  proof (cases "P m x \<and> \<not> bs_contains m (f x)")
    case True
    then show ?thesis using len(1) by (simp add: bs_len_insert)
  next
    case False
    then show ?thesis by (auto intro: bs_eqI)
  qed
  with len(2) show ?case by (simp add: marking_simps)
qed (simp add: marking_simps)

text \<open>A marking that leaves its set alone marks nothing: no element satisfies the predicate.\<close>

lemma marking_fixed:
  "marking P f m xs = m \<Longrightarrow> x \<in> set xs \<Longrightarrow> P m x \<Longrightarrow> bs_contains m (f x)"
proof (induction xs)
  case (Cons y ys)
  let ?m = "if P m y then bs_insert (f y) m else m"
  have *: "bs_contains m z" if "bs_contains ?m z" for z
    using marking_mono [OF that, of P f ys] Cons.prems(1) by (simp add: marking_simps)
  have "P m y \<Longrightarrow> bs_contains m (f y)" using * [of "f y"] by simp
  moreover from this have "?m = m" by (intro bs_eqI) auto
  ultimately show ?case using Cons by (auto simp: marking_simps)
qed simp

lemma mark_spaces_marking:
  "mark_spaces s entities spaces = marking (anchored_to entities) sd_id spaces (bt_values (sn_space_map s))"
  by (simp add: mark_spaces_def marking_def)

lemma mark_entities_marking:
  "mark_entities s spaces entities
     = marking (\<lambda>_ e. bs_contains spaces (er_space e)) er_id entities (bt_values (sn_entity_map s))"
  by (simp add: mark_entities_def marking_def)

lemma length_filter_imp:
  "(\<And>x. x \<in> set xs \<Longrightarrow> P x \<Longrightarrow> Q x) \<Longrightarrow> length (filter P xs) \<le> length (filter Q xs)"
  by (induction xs) auto

lemma length_filter_imp_less:
  assumes "\<And>x. x \<in> set xs \<Longrightarrow> P x \<Longrightarrow> Q x" "y \<in> set xs" "Q y" "\<not> P y"
  shows "length (filter P xs) < length (filter Q xs)"
proof -
  have "length (filter P xs) = length (filter P (filter Q xs))"
    using assms(1) by (simp add: conj_absorb) (metis (mono_tags, lifting) filter_cong)
  also have "\<dots> < length (filter Q xs)"
    using assms by (intro length_filter_less) auto
  finally show ?thesis .
qed

lemma marking_unmarked:
  shows "length (filter (\<lambda>x. \<not> bs_contains (marking P f m xs) (f x)) xs)
      \<le> length (filter (\<lambda>x. \<not> bs_contains m (f x)) xs)"
    and "marking P f m xs \<noteq> m \<Longrightarrow>
      length (filter (\<lambda>x. \<not> bs_contains (marking P f m xs) (f x)) xs)
      < length (filter (\<lambda>x. \<not> bs_contains m (f x)) xs)"
proof -
  show "length (filter (\<lambda>x. \<not> bs_contains (marking P f m xs) (f x)) xs)
      \<le> length (filter (\<lambda>x. \<not> bs_contains m (f x)) xs)"
    by (rule length_filter_imp) (auto dest: marking_mono)
  assume "marking P f m xs \<noteq> m"
  then obtain y where y: "bs_contains (marking P f m xs) y" "\<not> bs_contains m y"
    using marking_mono bs_eqI by metis
  with marking_new obtain x where "x \<in> set xs" "y = f x" by metis
  with y show "length (filter (\<lambda>x. \<not> bs_contains (marking P f m xs) (f x)) xs)
      < length (filter (\<lambda>x. \<not> bs_contains m (f x)) xs)"
    by (intro length_filter_imp_less [of _ _ _ x]) (auto dest: marking_mono)
qed

text \<open>
  The loop: passes until neither set grows. Each pass that grows one leaves fewer unmarked spaces
  and entities, so the loop ends.
\<close>

function close_removed ::
  "session_state \<Rightarrow> entity_id btset \<Rightarrow> space_id btset \<Rightarrow> entity_id btset \<times> space_id btset" where
  "close_removed s entities spaces =
     (let spaces' = mark_spaces s entities spaces;
          entities' = mark_entities s spaces' entities
      in if bt_len spaces = bt_len spaces' \<and> bt_len entities = bt_len entities'
         then (entities', spaces')
         else close_removed s entities' spaces')"
  by pat_completeness auto

lemma unmarked_decreases:
  assumes "spaces' = mark_spaces s entities spaces" "entities' = mark_entities s spaces' entities"
    and "\<not> (bt_len spaces = bt_len spaces' \<and> bt_len entities = bt_len entities')"
  shows "unmarked s entities' spaces' < unmarked s entities spaces"
proof -
  have grown: "spaces' \<noteq> spaces \<or> entities' \<noteq> entities" using assms(3) by auto
  have sp: "spaces' = marking (anchored_to entities) sd_id spaces (bt_values (sn_space_map s))"
    and en: "entities' = marking (\<lambda>_ e. bs_contains spaces' (er_space e)) er_id entities
      (bt_values (sn_entity_map s))"
    by (simp_all add: assms(1,2) mark_spaces_marking mark_entities_marking)
  let ?S = "\<lambda>m. length (filter (\<lambda>d. \<not> bs_contains m (sd_id d)) (bt_values (sn_space_map s)))"
  let ?E = "\<lambda>m. length (filter (\<lambda>e. \<not> bs_contains m (er_id e)) (bt_values (sn_entity_map s)))"
  have "?S spaces' \<le> ?S spaces" "spaces' \<noteq> spaces \<Longrightarrow> ?S spaces' < ?S spaces"
    unfolding sp by (fact marking_unmarked)+
  moreover have "?E entities' \<le> ?E entities" "entities' \<noteq> entities \<Longrightarrow> ?E entities' < ?E entities"
    unfolding en by (fact marking_unmarked)+
  ultimately show ?thesis
    using grown unfolding unmarked_def by linarith
qed

termination close_removed
  by (relation "measure (\<lambda>(s, entities, spaces). unmarked s entities spaces)")
    (auto intro: unmarked_decreases simp del: bt_len_values)

declare close_removed.simps [simp del]

text \<open>What the closure means: the least sets containing the start that are closed under anchoring.\<close>

inductive gone_space :: "session_state \<Rightarrow> entity_id btset \<Rightarrow> space_id \<Rightarrow> bool"
  and gone_entity :: "session_state \<Rightarrow> entity_id btset \<Rightarrow> entity_id \<Rightarrow> bool"
  for s :: session_state and start :: "entity_id btset" where
  start: "bs_contains start e \<Longrightarrow> gone_entity s start e"
| by_anchor: "d \<in> set (bt_values (sn_space_map s)) \<Longrightarrow> sd_parent d = Some p
    \<Longrightarrow> gone_entity s start (pa_anchor_entity p) \<Longrightarrow> gone_space s start (sd_id d)"
| by_parent: "d \<in> set (bt_values (sn_space_map s)) \<Longrightarrow> sd_parent d = Some p
    \<Longrightarrow> gone_space s start (pa_parent_space p) \<Longrightarrow> gone_space s start (sd_id d)"
| by_space: "r \<in> set (bt_values (sn_entity_map s)) \<Longrightarrow> gone_space s start (er_space r)
    \<Longrightarrow> gone_entity s start (er_id r)"

lemma marking_sound:
  assumes "\<And>y. bs_contains m y \<Longrightarrow> Q y"
    and "\<And>m x. x \<in> set xs \<Longrightarrow> P m x \<Longrightarrow> (\<And>y. bs_contains m y \<Longrightarrow> Q y) \<Longrightarrow> Q (f x)"
  shows "bs_contains (marking P f m xs) y \<Longrightarrow> Q y"
  using assms
proof (induction xs arbitrary: m)
  case (Cons x xs)
  let ?m = "if P m x then bs_insert (f x) m else m"
  have "Q y" if "bs_contains ?m y" for y
    using that Cons.prems(2) Cons.prems(3) [of x m] by (auto split: if_splits)
  then show ?case
    using Cons.IH [of ?m] Cons.prems by (auto simp: marking_simps simp del: bs_contains_insert)
qed (simp add: marking_simps)

lemma anchored_to_gone:
  assumes "d \<in> set (bt_values (sn_space_map s))" "anchored_to entities spaces d"
    and "\<And>e. bs_contains entities e \<Longrightarrow> gone_entity s start e"
    and "\<And>x. bs_contains spaces x \<Longrightarrow> gone_space s start x"
  shows "gone_space s start (sd_id d)"
  using assms by (auto simp: anchored_to_def opt_is_some_and_iff intro: by_anchor by_parent)

lemma close_removed_unfold:
  assumes "spaces' = mark_spaces s entities spaces" "entities' = mark_entities s spaces' entities"
  shows "close_removed s entities spaces =
    (if bt_len spaces = bt_len spaces' \<and> bt_len entities = bt_len entities'
     then (entities', spaces') else close_removed s entities' spaces')"
  unfolding assms by (subst close_removed.simps) (simp only: Let_def)

lemma close_removed_fixed:
  assumes "close_removed s entities spaces = (E, S)"
  shows "mark_spaces s E S = S \<and> mark_entities s S E = E
    \<and> (\<forall>e. bs_contains entities e \<longrightarrow> bs_contains E e)"
  using assms
proof (induction s entities spaces rule: close_removed.induct)
  case (1 s entities spaces)
  define spaces' where "spaces' = mark_spaces s entities spaces"
  define entities' where "entities' = mark_entities s spaces' entities"
  note u = close_removed_unfold [OF spaces'_def entities'_def]
  have grow: "bs_contains entities e \<Longrightarrow> bs_contains entities' e" for e
    unfolding entities'_def mark_entities_marking by (rule marking_mono)
  show ?case
  proof (cases "bt_len spaces = bt_len spaces' \<and> bt_len entities = bt_len entities'")
    case True
    then have same: "spaces' = spaces" "entities' = entities"
      unfolding entities'_def spaces'_def mark_spaces_marking mark_entities_marking
      by (metis marking_same_len)+
    moreover have "E = entities'" "S = spaces'"
      using "1.prems" True unfolding u by simp_all
    ultimately show ?thesis using spaces'_def entities'_def by simp
  next
    case False
    then have "close_removed s entities' spaces' = (E, S)"
      using "1.prems" unfolding u by (simp only: if_False)
    with "1.IH" [OF spaces'_def entities'_def False] grow show ?thesis by simp
  qed
qed

lemma close_removed_sound:
  assumes "close_removed s entities spaces = (E, S)"
    and "\<And>e. bs_contains entities e \<Longrightarrow> gone_entity s start e"
    and "\<And>x. bs_contains spaces x \<Longrightarrow> gone_space s start x"
  shows "(\<forall>e. bs_contains E e \<longrightarrow> gone_entity s start e) \<and> (\<forall>x. bs_contains S x \<longrightarrow> gone_space s start x)"
  using assms
proof (induction s entities spaces rule: close_removed.induct)
  case (1 s entities spaces)
  define spaces' where "spaces' = mark_spaces s entities spaces"
  define entities' where "entities' = mark_entities s spaces' entities"
  note u = close_removed_unfold [OF spaces'_def entities'_def]
  have sp: "gone_space s start x" if "bs_contains spaces' x" for x
    using that unfolding spaces'_def mark_spaces_marking
    by (rule marking_sound [rotated 2]) (use "1.prems" anchored_to_gone in blast)+
  have en: "gone_entity s start e" if "bs_contains entities' e" for e
    using that unfolding entities'_def mark_entities_marking
    by (rule marking_sound [rotated 2]) (use "1.prems" sp by_space in blast)+
  show ?case
  proof (cases "bt_len spaces = bt_len spaces' \<and> bt_len entities = bt_len entities'")
    case True
    then have "E = entities'" "S = spaces'" using "1.prems"(1) unfolding u by simp_all
    then show ?thesis using en sp by simp
  next
    case False
    then have "close_removed s entities' spaces' = (E, S)"
      using "1.prems"(1) unfolding u by (simp only: if_False)
    with "1.IH" [OF spaces'_def entities'_def False _ en sp] show ?thesis by simp
  qed
qed

text \<open>The loop computes exactly that closure.\<close>

lemma close_removed_exact:
  assumes "close_removed s start bt_new = (E, S)"
  shows "bs_contains S x \<longleftrightarrow> gone_space s start x" "bs_contains E e \<longleftrightarrow> gone_entity s start e"
proof -
  note fixed = close_removed_fixed [OF assms]
  have space: "bs_contains S (sd_id d)" if "d \<in> set (bt_values (sn_space_map s))" "anchored_to E S d" for d
    using fixed that unfolding mark_spaces_marking by (blast intro: marking_fixed)
  have entity: "bs_contains E (er_id r)" if "r \<in> set (bt_values (sn_entity_map s))"
    "bs_contains S (er_space r)" for r
    using fixed that marking_fixed [of "\<lambda>_ e. bs_contains S (er_space e)" er_id E _ r]
    unfolding mark_entities_marking by blast
  have "(gone_space s start x \<longrightarrow> bs_contains S x) \<and> (gone_entity s start e \<longrightarrow> bs_contains E e)" for x e
    by (induction rule: gone_space_gone_entity.induct)
      (use fixed space entity in \<open>auto simp: anchored_to_def\<close>)
  moreover have "(\<forall>e. bs_contains E e \<longrightarrow> gone_entity s start e)
      \<and> (\<forall>x. bs_contains S x \<longrightarrow> gone_space s start x)"
    by (rule close_removed_sound [OF assms]) (auto intro: gone_space_gone_entity.start)
  ultimately show "bs_contains S x \<longleftrightarrow> gone_space s start x" "bs_contains E e \<longleftrightarrow> gone_entity s start e"
    by blast+
qed

section \<open>Removing what the closure found\<close>

definition entity_removed :: "entity_id btset \<Rightarrow> entity_id option \<Rightarrow> bool" where
  "entity_removed entities e = opt_is_some_and (bs_contains entities) e"

definition count_owners :: "entity_record list \<Rightarrow> (connection_id, nat) btmap" where
  "count_owners es = foldl (\<lambda>owners e. bt_insert (er_owner_connection e)
     ((case bt_get owners (er_owner_connection e) of None \<Rightarrow> 0 | Some n \<Rightarrow> n) + 1) owners) bt_new es"

text \<open>Removing the collected spaces: a tombstone each, and the subscriptions they had.\<close>

fun remove_spaces :: "space_id list \<Rightarrow> session_state \<Rightarrow> usize \<times> session_state" where
  "remove_spaces [] s = (0, s)"
| "remove_spaces (space # spaces) s =
     (let s1 = (case bt_get (sn_space_map s) space of
            None \<Rightarrow> s
          | Some d \<Rightarrow> s\<lparr>sn_space_map := bt_remove space (sn_space_map s),
                         sn_tombstones := bt_insert (sd_id d) (sd_epoch d) (sn_tombstones s)\<rparr>);
          dropped = (case bt_get (sn_subscribers s1) space of None \<Rightarrow> 0 | Some subs \<Rightarrow> bt_len subs);
          s2 = s1\<lparr>sn_subscribers := bt_remove space (sn_subscribers s1)\<rparr>
      in case remove_spaces spaces s2 of (n, s3) \<Rightarrow> (dropped + n, s3))"

definition removed_from_session ::
  "session_key \<Rightarrow> entity_id btset \<Rightarrow> space_id btset \<Rightarrow> session_state \<Rightarrow> cleanup_summary \<times> session_state" where
  "removed_from_session key entities spaces s =
     (let removed = map (\<lambda>e. \<lparr>re_entity = er_id e, re_session = key, re_space = er_space e,
              re_space_epoch = er_space_epoch e\<rparr>)
            (filter (\<lambda>e. bs_contains entities (er_id e)) (bt_values (sn_entity_map s)));
          s1 = foldl (\<lambda>s e. remove_entity_from_cell e s) s (bt_keys entities);
          s2 = s1\<lparr>sn_entity_map := bt_retain (\<lambda>e _. \<not> bs_contains entities e) (sn_entity_map s1)\<rparr>
      in case remove_spaces (bt_keys spaces) s2 of
           (dropped, s3) \<Rightarrow>
             let s4 = recompute_state_bytes (s3\<lparr>sn_state_map := bt_retain (\<lambda>k _.
                   \<not> bs_contains spaces (stk_space k) \<and> \<not> entity_removed entities (stk_entity k))
                   (sn_state_map s3)\<rparr>)
             in (cs_default\<lparr>cs_removed_entities := removed, cs_entities_removed := length removed,
                   cs_subscriptions_removed := dropped, cs_spaces_removed := bt_len spaces\<rparr>,
                 s4\<lparr>sn_sequences := bt_retain (\<lambda>k _.
                   \<not> bs_contains spaces (sqk_space k) \<and> \<not> entity_removed entities (sqk_entity k))
                   (sn_sequences s4)\<rparr>))"

definition message_of_session :: "session_key \<Rightarrow> outbound_message \<Rightarrow> bool" where
  "message_of_session key m = (om_namespace m = sk_namespace key \<and> om_session m = sk_session key)"

text \<open>Purging one predicate from the queue of every connection counts what was discarded.\<close>

definition purge_connection ::
  "(outbound_message \<Rightarrow> bool) \<Rightarrow> connection_state \<Rightarrow> connection_state" where
  "purge_connection P cn = cn\<lparr>cn_outbound := snd (oq_purge P (cn_outbound cn))\<rparr>"

definition purged_count ::
  "(outbound_message \<Rightarrow> bool) \<Rightarrow> (connection_id, connection_state) btmap \<Rightarrow> usize" where
  "purged_count P conns = sum_list (map (\<lambda>cn. fst (oq_purge P (cn_outbound cn))) (bt_values conns))"

definition release_owned ::
  "(connection_id, nat) btmap \<Rightarrow> (connection_id, connection_state) btmap
   \<Rightarrow> (connection_id, connection_state) btmap" where
  "release_owned owners conns = foldl (\<lambda>conns (owner, count).
     bt_modify owner (\<lambda>cn. cn\<lparr>cn_owned_entities := cn_owned_entities cn - count\<rparr>) conns)
     conns (bt_iter owners)"

definition message_removed ::
  "session_key \<Rightarrow> entity_id btset \<Rightarrow> space_id btset \<Rightarrow> outbound_message \<Rightarrow> bool" where
  "message_removed key entities spaces m =
     (message_of_session key m
      \<and> (bs_contains spaces (om_space m) \<or> entity_removed entities (om_entity m)))"

definition remove_entities_and_anchored_spaces ::
  "session_key \<Rightarrow> entity_id btset \<Rightarrow> core \<Rightarrow> cleanup_summary \<times> core" where
  "remove_entities_and_anchored_spaces key start c =
     (case (case bt_get (co_sessions c) key of
              None \<Rightarrow> (start, bt_new) | Some s \<Rightarrow> close_removed s start bt_new) of
        (entities, spaces) \<Rightarrow>
          let owners = (case bt_get (co_sessions c) key of
                None \<Rightarrow> bt_new
              | Some s \<Rightarrow> count_owners (filter (\<lambda>e. bs_contains entities (er_id e))
                            (bt_values (sn_entity_map s))));
              (summary, sessions) = (case bt_get (co_sessions c) key of
                None \<Rightarrow> (cs_default, co_sessions c)
              | Some s \<Rightarrow> (case removed_from_session key entities spaces s of
                  (summary, s') \<Rightarrow> (summary, bt_insert key s' (co_sessions c))));
              conns1 = release_owned owners (co_connections c);
              conns2 = bt_map (\<lambda>_ cn. cn\<lparr>cn_subscriptions := bs_retain
                  (\<lambda>sp. spk_session sp \<noteq> key \<or> \<not> bs_contains spaces (spk_space sp))
                  (cn_subscriptions cn)\<rparr>) conns1;
              P = message_removed key entities spaces
          in (summary\<lparr>cs_queued_messages_discarded := purged_count P conns2\<rparr>,
              c\<lparr>co_sessions := sessions, co_connections := bt_map (\<lambda>_. purge_connection P) conns2\<rparr>))"

section \<open>Detaching and losing connections\<close>

definition owned_in_session :: "core \<Rightarrow> connection_id \<Rightarrow> session_key \<Rightarrow> entity_id btset" where
  "owned_in_session c cid key = (case bt_get (co_sessions c) key of
     None \<Rightarrow> bt_new
   | Some s \<Rightarrow> bs_of_list (map er_id
       (filter (\<lambda>e. er_owner_connection e = cid) (bt_values (sn_entity_map s)))))"

definition detach_session_state ::
  "connection_id \<Rightarrow> cleanup_summary \<Rightarrow> session_state \<Rightarrow> cleanup_summary \<times> session_state" where
  "detach_session_state cid summary s =
     (summary\<lparr>cs_memberships_removed := cs_memberships_removed summary
          + (if bs_contains (sn_members s) cid then 1 else 0),
        cs_subscriptions_removed := cs_subscriptions_removed summary
          + length (filter (\<lambda>subs. bs_contains subs cid) (bt_values (sn_subscribers s)))\<rparr>,
      s\<lparr>sn_members := bs_remove cid (sn_members s),
        sn_subscribers := bt_map (\<lambda>_. bs_remove cid) (sn_subscribers s),
        sn_sequences := bt_retain (\<lambda>k _. sqk_connection k \<noteq> cid) (sn_sequences s)\<rparr>)"

definition detach_connection_state ::
  "session_key \<Rightarrow> cleanup_summary \<Rightarrow> connection_state \<Rightarrow> cleanup_summary \<times> connection_state" where
  "detach_connection_state key summary cn =
     (case oq_purge (message_of_session key) (cn_outbound cn) of
        (n, outbound) \<Rightarrow>
          (summary\<lparr>cs_queued_messages_discarded := cs_queued_messages_discarded summary + n\<rparr>,
           cn\<lparr>cn_memberships := bs_remove key (cn_memberships cn),
              cn_subscriptions := bs_retain (\<lambda>sp. spk_session sp \<noteq> key) (cn_subscriptions cn),
              cn_outbound := outbound\<rparr>))"

definition detach_connection_from_session ::
  "connection_id \<Rightarrow> session_key \<Rightarrow> core \<Rightarrow> cleanup_summary \<times> core" where
  "detach_connection_from_session cid key c0 =
     (case remove_entities_and_anchored_spaces key (owned_in_session c0 cid key) c0 of
        (summary0, c) \<Rightarrow>
          (case (case bt_get (co_sessions c) key of
                   None \<Rightarrow> (summary0, c)
                 | Some s \<Rightarrow> (case detach_session_state cid summary0 s of
                     (summary, s') \<Rightarrow> (summary, c\<lparr>co_sessions := bt_insert key s' (co_sessions c)\<rparr>))) of
             (summary1, c1) \<Rightarrow>
               (case bt_get (co_connections c1) cid of
                  None \<Rightarrow> (summary1, c1)
                | Some cn \<Rightarrow> (case detach_connection_state key summary1 cn of
                    (summary, cn') \<Rightarrow>
                      (summary, c1\<lparr>co_connections := bt_insert cid cn' (co_connections c1)\<rparr>)))))"

text \<open>
  A release reads the clock. \<open>clock\<close> gives the reading of \<^verbatim>\<open>Instant::now()\<close> for the
  release of a connection's lease of a session for a reason; within one operation each such
  triple is released at most once.
\<close>

type_synonym release_clock = "connection_id \<Rightarrow> session_key \<Rightarrow> release_reason \<Rightarrow> instant"

definition release_session_admission ::
  "release_clock \<Rightarrow> connection_id \<Rightarrow> session_key \<Rightarrow> release_reason \<Rightarrow> core \<Rightarrow> core" where
  "release_session_admission clock cid key reason c =
     (case bt_get (co_admission_leases c) (cid, key) of
        None \<Rightarrow> c
      | Some lease \<Rightarrow>
          c\<lparr>co_admission_leases := bt_remove (cid, key) (co_admission_leases c),
            co_admissions := bt_modify key (ad_release_at lease reason (clock cid key reason))
              (co_admissions c)\<rparr>)"

definition release_pending_admission ::
  "release_clock \<Rightarrow> connection_id \<Rightarrow> session_key \<Rightarrow> core \<Rightarrow> core" where
  "release_pending_admission clock cid key c =
     (case bt_get (co_pending_admissions c) (cid, key) of
        None \<Rightarrow> c
      | Some lease \<Rightarrow>
          c\<lparr>co_pending_admissions := bt_remove (cid, key) (co_pending_admissions c),
            co_admissions := bt_modify key (ad_release_at lease Intentional (clock cid key Intentional))
              (co_admissions c)\<rparr>)"

fun leave_sessions ::
  "release_clock \<Rightarrow> connection_id \<Rightarrow> session_key list \<Rightarrow> cleanup_summary \<Rightarrow> core \<Rightarrow> cleanup_summary \<times> core"
where
  "leave_sessions clock cid [] summary c = (summary, c)"
| "leave_sessions clock cid (key # keys) summary c =
     (case detach_connection_from_session cid key (release_session_admission clock cid key Unexpected c) of
        (s, c') \<Rightarrow> leave_sessions clock cid keys (cs_add summary s) c')"

definition pending_sessions_of :: "connection_id \<Rightarrow> core \<Rightarrow> session_key list" where
  "pending_sessions_of cid c = map snd (filter (\<lambda>k. fst k = cid) (bt_keys (co_pending_admissions c)))"

definition transport_lost :: "release_clock \<Rightarrow> connection_id \<Rightarrow> cleanup_summary core_op" where
  "transport_lost clock cid =
     checked (validate_connection_id cid) (\<lambda>_ c.
     checked (get_connection c cid) (\<lambda>state c.
       (case leave_sessions clock cid (bt_keys (cn_memberships state)) cs_default c of
          (summary, c1) \<Rightarrow>
            let c2 = foldl (\<lambda>c key. release_pending_admission clock cid key c) c1
                  (pending_sessions_of cid c1)
            in checked (get_connection c2 cid) (\<lambda>state c.
                (Inr (summary\<lparr>cs_queued_messages_discarded :=
                     cs_queued_messages_discarded summary + oq_len (cn_outbound state)\<rparr>),
                 c\<lparr>co_connections := bt_remove cid (co_connections c)\<rparr>)) c2)) c)"

definition leave_session :: "release_clock \<Rightarrow> connection_id \<Rightarrow> session_key \<Rightarrow> cleanup_summary core_op" where
  "leave_session clock cid key c0 =
     checked (and_then (validate_connection_id cid) (\<lambda>_.
       and_then (validate_session_key key) (\<lambda>_. require_membership c0 cid key)))
       (\<lambda>_ c. case detach_connection_from_session cid key
                 (release_session_admission clock cid key Intentional c) of
           (summary, c') \<Rightarrow> (Inr summary, c')) c0"

end
