(* ===== verification/CoreOps.thy ===== *)
theory CoreOps
  imports CoreCleanup
begin

text \<open>
  The operations of \<^verbatim>\<open>WovenCore\<close> other than publishing: provisioning and admission,
  spaces and their epochs, connections, sessions and subscriptions, entities, and the read-only
  views. Each is a function of the core to its \<^verbatim>\<open>Result\<close> and the new core.
\<close>

section \<open>Provisioning\<close>

definition register_channel :: "channel_definition \<Rightarrow> unit core_op" where
  "register_channel channel c0 =
     checked (and_then (require_nonzero (cd_id channel) K_Channel) (\<lambda>_.
       if cd_max_payload_bytes channel = 0 then Inl (CE_InvalidChannelLimit (cd_id channel))
       else if bt_contains_key (co_channels c0) (cd_id channel)
       then Inl (CE_ChannelAlreadyRegistered (cd_id channel))
       else if bt_len (co_channels c0) = cc_max_channels (co_config c0) then Inl CE_ChannelLimitReached
       else Inr ()))
     (\<lambda>_ c. (Inr (), c\<lparr>co_channels := bt_insert (cd_id channel) channel (co_channels c)\<rparr>)) c0"

definition provision_session :: "session_key \<Rightarrow> unit core_op" where
  "provision_session key c0 =
     checked (and_then (validate_session_key key) (\<lambda>_.
       if bt_contains_key (co_sessions c0) key then Inl (CE_SessionAlreadyProvisioned key)
       else if bt_len (co_sessions c0) = cc_max_sessions (co_config c0) then Inl CE_SessionLimitReached
       else Inr ()))
     (\<lambda>_ c. (Inr (), c\<lparr>co_sessions := bt_insert key session_new (co_sessions c)\<rparr>)) c0"

definition configure_session_admission ::
  "session_key \<Rightarrow> admission_metadata \<Rightarrow> queue_policy \<Rightarrow> capacity_update \<Rightarrow> unit core_op" where
  "configure_session_admission key metadata policy capacity c0 =
     checked (and_then (validate_session_key key) (\<lambda>_.
       if \<not> bt_contains_key (co_sessions c0) key then Inl (CE_SessionNotFound key)
       else if am_session metadata \<noteq> key then Inl (CE_InvalidAdmissionLease key)
       else if bt_contains_key (co_admissions c0) key then Inl (CE_AdmissionAlreadyConfigured key)
       else Inr ()))
     (\<lambda>_ c. (Inr (), c\<lparr>co_admissions :=
        bt_insert key (ad_new metadata policy capacity (uc_new metadata)) (co_admissions c)\<rparr>)) c0"

definition apply_session_capacity_at ::
  "session_key \<Rightarrow> capacity_update \<Rightarrow> instant \<Rightarrow> admission_snapshot core_op" where
  "apply_session_capacity_at key update now c0 =
     checked (validate_session_key key) (\<lambda>_ c.
       case bt_get (co_admissions c) key of
         None \<Rightarrow> (Inl (CE_AdmissionLeaseRequired key), c)
       | Some controller \<Rightarrow> (case ad_apply_capacity_at update now controller of
           (snapshot, controller') \<Rightarrow>
             (Inr snapshot, c\<lparr>co_admissions := bt_insert key controller' (co_admissions c)\<rparr>))) c0"

definition request_session_admission_at ::
  "connection_id \<Rightarrow> session_key \<Rightarrow> idempotency_key \<Rightarrow> instant \<Rightarrow> join_decision core_op" where
  "request_session_admission_at cid key idempotency now c0 =
     checked (and_then (validate_connection_id cid) (\<lambda>_.
       and_then (validate_session_key key) (\<lambda>_.
       and_then (core_authenticated_principal c0 cid) (\<lambda>principal.
       and_then (require_namespace_read principal (sk_namespace key)) (\<lambda>_.
       and_then (require_session_read principal key) (\<lambda>_.
       and_then (ok_or (CE_AdmissionLeaseRequired key) (bt_get (co_admissions c0) key)) (\<lambda>controller.
       Inr (principal, controller))))))))
     (\<lambda>(principal, controller) c.
       case ad_request_join_at (join_request_new (ap_principal_id principal) idempotency) now controller of
         (decision, controller') \<Rightarrow>
           let c1 = c\<lparr>co_admissions := bt_insert key controller' (co_admissions c)\<rparr>
           in (Inr decision,
               case decision of
                 Admitted lease \<Rightarrow>
                   c1\<lparr>co_pending_admissions := bt_insert (cid, key) lease (co_pending_admissions c1)\<rparr>
               | _ \<Rightarrow> c1)) c0"

section \<open>Spaces\<close>

definition validate_parent_anchor :: "session_state \<Rightarrow> parent_anchor \<Rightarrow> core_error + unit" where
  "validate_parent_anchor s parent =
     (if \<not> bt_contains_key (sn_space_map s) (pa_parent_space parent)
      then Inl (CE_ParentSpaceNotFound (pa_parent_space parent))
      else and_then (ok_or (CE_ParentAnchorNotFound (pa_anchor_entity parent))
                       (bt_get (sn_entity_map s) (pa_anchor_entity parent))) (\<lambda>anchor.
        if er_space anchor \<noteq> pa_parent_space parent
        then Inl (CE_ParentAnchorInWrongSpace (pa_anchor_entity parent) (pa_parent_space parent))
        else Inr ()))"

definition install_space_checks ::
  "core_config \<Rightarrow> session_key \<Rightarrow> space_descriptor \<Rightarrow> session_state \<Rightarrow> core_error + unit" where
  "install_space_checks config key d s =
     (if bt_contains_key (sn_space_map s) (sd_id d) then Inl (CE_SpaceAlreadyExists (SpaceKey key (sd_id d)))
      else if bt_len (sn_space_map s) = cc_max_spaces_per_session config then Inl CE_SpaceLimitReached
      else and_then
        (case bt_get (sn_tombstones s) (sd_id d) of
           Some previous_epoch \<Rightarrow>
             if sd_epoch d \<le> previous_epoch then Inl (CE_EpochDidNotAdvance previous_epoch (sd_epoch d))
             else Inr ()
         | None \<Rightarrow>
             if bt_len (sn_space_map s) + bt_len (sn_tombstones s)
                = cc_max_space_epoch_tombstones_per_session config
             then Inl CE_SpaceIdHistoryLimitReached else Inr ())
        (\<lambda>_. case sd_parent d of None \<Rightarrow> Inr () | Some parent \<Rightarrow> validate_parent_anchor s parent))"

definition install_space :: "session_key \<Rightarrow> space_descriptor \<Rightarrow> unit core_op" where
  "install_space key d c0 =
     checked (and_then (validate_session_key key) (\<lambda>_.
       and_then (map_err CE_InvalidSpace (sd_validate d)) (\<lambda>_.
       and_then (get_session c0 key) (install_space_checks (co_config c0) key d))))
     (\<lambda>_ c. (Inr (), map_session key (\<lambda>s. s\<lparr>
        sn_tombstones := bt_remove (sd_id d) (sn_tombstones s),
        sn_subscribers := bt_insert (sd_id d) bt_new (sn_subscribers s),
        sn_space_map := bt_insert (sd_id d) d (sn_space_map s)\<rparr>) c)) c0"

definition entities_in_space :: "session_state \<Rightarrow> space_id \<Rightarrow> entity_id btset" where
  "entities_in_space s space =
     bs_of_list (map er_id (filter (\<lambda>e. er_space e = space) (bt_values (sn_entity_map s))))"

definition purge_all_connections ::
  "(outbound_message \<Rightarrow> bool) \<Rightarrow> core \<Rightarrow> usize \<times> core" where
  "purge_all_connections P c =
     (purged_count P (co_connections c),
      c\<lparr>co_connections := bt_map (\<lambda>_. purge_connection P) (co_connections c)\<rparr>)"

definition advance_session_epoch :: "space_id \<Rightarrow> space_epoch \<Rightarrow> session_state \<Rightarrow> session_state" where
  "advance_session_epoch space proposed s =
     (let s1 = recompute_state_bytes (s\<lparr>
            sn_space_map := bt_modify space (\<lambda>d. d\<lparr>sd_epoch := proposed\<rparr>) (sn_space_map s),
            sn_state_map := bt_retain (\<lambda>k _. stk_space k \<noteq> space) (sn_state_map s)\<rparr>)
      in s1\<lparr>sn_sequences := bt_retain (\<lambda>k _. sqk_space k \<noteq> space) (sn_sequences s1)\<rparr>)"

definition advance_space_epoch ::
  "session_key \<Rightarrow> space_id \<Rightarrow> space_epoch \<Rightarrow> cleanup_summary core_op" where
  "advance_space_epoch key space proposed c0 =
     checked (and_then (validate_session_key key) (\<lambda>_.
       and_then (require_nonzero space K_Space) (\<lambda>_.
       and_then (require_nonzero proposed K_SpaceEpoch) (\<lambda>_.
       and_then (get_session c0 key) (\<lambda>s.
       and_then (ok_or (CE_SpaceNotFound (SpaceKey key space)) (bt_get (sn_space_map s) space)) (\<lambda>d.
       if proposed \<le> sd_epoch d then Inl (CE_EpochDidNotAdvance (sd_epoch d) proposed)
       else Inr (entities_in_space s space)))))))
     (\<lambda>entities c.
       case remove_entities_and_anchored_spaces key entities c of (summary, c1) \<Rightarrow>
       case purge_all_connections (\<lambda>m. message_of_session key m \<and> om_space m = space) c1 of
         (discarded, c2) \<Rightarrow>
           checked (and_then (get_session c2 key) (\<lambda>s.
               ok_or (CE_SpaceNotFound (SpaceKey key space)) (bt_get (sn_space_map s) space)))
             (\<lambda>_ c. (Inr (summary\<lparr>cs_queued_messages_discarded :=
                   cs_queued_messages_discarded summary + discarded\<rparr>),
                map_session key (advance_session_epoch space proposed) c)) c2) c0"

section \<open>Connections\<close>

definition connection_new :: "outbound_queue \<Rightarrow> connection_state" where
  "connection_new outbound = \<lparr>cn_authenticated = None, cn_memberships = bt_new,
     cn_subscriptions = bt_new, cn_owned_entities = 0, cn_rate_limiter = rl_default,
     cn_outbound = outbound\<rparr>"

definition transport_connected :: "connection_id core_op" where
  "transport_connected c0 =
     (if bt_len (co_connections c0) = cc_max_connections (co_config c0)
      then (Inl CE_ConnectionLimitReached, c0)
      else
        let cid = co_next_connection_id c0 in
        checked (ok_or CE_IdExhausted (u64_checked_succ (co_next_connection_id c0))) (\<lambda>next c.
          let c1 = c\<lparr>co_next_connection_id := next\<rparr> in
          checked (map_err CE_InvalidQueueConfig (oq_new (cc_outbound_queue (co_config c1))))
            (\<lambda>outbound c. (Inr cid,
               c\<lparr>co_connections := bt_insert cid (connection_new outbound) (co_connections c)\<rparr>)) c1) c0)"

definition authenticate :: "connection_id \<Rightarrow> credentials \<Rightarrow> principal_id core_op" where
  "authenticate cid credentials c0 =
     checked (and_then (validate_connection_id cid) (\<lambda>_.
       and_then (get_connection c0 cid) (\<lambda>state.
       and_then (ensure (cn_authenticated state = None) CE_AlreadyAuthenticated) (\<lambda>_.
       and_then (map_err CE_AuthenticationFailed (co_authenticator c0 credentials)) (\<lambda>p.
       and_then (require_nonzero (ap_principal_id p) K_Principal) (\<lambda>_. Inr p))))))
     (\<lambda>p c. (Inr (ap_principal_id p),
        map_connection cid (\<lambda>cn. cn\<lparr>cn_authenticated := Some p\<rparr>) c)) c0"

section \<open>Sessions\<close>

definition join_session_unchecked_admission :: "connection_id \<Rightarrow> session_key \<Rightarrow> unit core_op" where
  "join_session_unchecked_admission cid key c0 =
     checked (and_then (validate_connection_id cid) (\<lambda>_.
       and_then (validate_session_key key) (\<lambda>_.
       and_then (core_authenticated_principal c0 cid) (\<lambda>principal.
       and_then (require_namespace_read principal (sk_namespace key)) (\<lambda>_.
       and_then (require_session_read principal key) (\<lambda>_.
       and_then (ensure (bt_contains_key (co_sessions c0) key) (CE_SessionNotFound key)) (\<lambda>_.
       get_connection c0 cid)))))))
     (\<lambda>state c.
       if bs_contains (cn_memberships state) key then (Inr (), c)
       else if bt_len (cn_memberships state) = cc_max_memberships_per_connection (co_config c)
       then (Inl CE_MembershipLimitReached, c)
       else (Inr (),
         map_session key (\<lambda>s. s\<lparr>sn_members := bs_insert cid (sn_members s)\<rparr>)
           (map_connection cid (\<lambda>cn. cn\<lparr>cn_memberships := bs_insert key (cn_memberships cn)\<rparr>) c))) c0"

definition join_session :: "connection_id \<Rightarrow> session_key \<Rightarrow> unit core_op" where
  "join_session cid key c =
     (if bt_contains_key (co_admissions c) key then (Inl (CE_AdmissionLeaseRequired key), c)
      else join_session_unchecked_admission cid key c)"

definition join_session_with_admission ::
  "connection_id \<Rightarrow> session_key \<Rightarrow> admission_lease \<Rightarrow> unit core_op" where
  "join_session_with_admission cid key lease c0 =
     checked (and_then (validate_connection_id cid) (\<lambda>_.
       and_then (validate_session_key key) (\<lambda>_.
       and_then (core_authenticated_principal c0 cid) (\<lambda>principal.
       ensure (al_session lease = key \<and> al_principal lease = ap_principal_id principal)
         (CE_InvalidAdmissionLease key)))))
     (\<lambda>_ c.
       case bt_get (co_admission_leases c) (cid, key) of
         Some bound \<Rightarrow> (if bound = lease then Inr () else Inl (CE_InvalidAdmissionLease key), c)
       | None \<Rightarrow>
           if bt_get (co_pending_admissions c) (cid, key) \<noteq> Some lease
           then (Inl (CE_InvalidAdmissionLease key), c)
           else checked (and_then (ok_or (CE_AdmissionLeaseRequired key) (bt_get (co_admissions c) key))
               (\<lambda>controller.
                 if \<not> ad_has_active_lease controller lease
                    \<or> list_ex (\<lambda>bound. bound = lease) (bt_values (co_admission_leases c))
                 then Inl (CE_InvalidAdmissionLease key) else Inr ()))
             (\<lambda>_ c.
               case join_session_unchecked_admission cid key c of
                 (Inl e, c1) \<Rightarrow> (Inl e, c1)
               | (Inr _, c1) \<Rightarrow> (Inr (),
                   c1\<lparr>co_pending_admissions := bt_remove (cid, key) (co_pending_admissions c1),
                      co_admission_leases := bt_insert (cid, key) lease (co_admission_leases c1)\<rparr>)) c) c0"

definition subscribe :: "connection_id \<Rightarrow> space_key \<Rightarrow> unit core_op" where
  "subscribe cid key c0 =
     checked (and_then (validate_connection_id cid) (\<lambda>_.
       and_then (validate_space_key key) (\<lambda>_.
       and_then (core_authenticated_principal c0 cid) (\<lambda>principal.
       and_then (require_namespace_read principal (sk_namespace (spk_session key))) (\<lambda>_.
       and_then (require_session_read principal (spk_session key)) (\<lambda>_.
       and_then (require_space_read principal key) (\<lambda>_.
       and_then (require_membership c0 cid (spk_session key)) (\<lambda>_.
       get_connection c0 cid))))))))
     (\<lambda>state c.
       if bs_contains (cn_subscriptions state) key then (Inr (), c)
       else checked (and_then (ensure (bt_len (cn_subscriptions state)
                \<noteq> cc_max_subscriptions_per_connection (co_config c)) CE_SubscriptionLimitReached) (\<lambda>_.
              and_then (get_session c (spk_session key)) (\<lambda>s.
              ensure (bt_contains_key (sn_space_map s) (spk_space key)) (CE_SpaceNotFound key))))
         (\<lambda>_ c.
           let c1 = map_connection cid (\<lambda>cn. cn\<lparr>cn_subscriptions := bs_insert key (cn_subscriptions cn)\<rparr>) c
           in checked (and_then (get_session c1 (spk_session key)) (\<lambda>s.
                 ok_or (CE_SpaceNotFound key) (bt_get (sn_subscribers s) (spk_space key))))
               (\<lambda>_ c. (Inr (), map_session (spk_session key) (\<lambda>s. s\<lparr>sn_subscribers :=
                  bt_modify (spk_space key) (bs_insert cid) (sn_subscribers s)\<rparr>) c)) c1) c) c0"

definition unsubscribe :: "connection_id \<Rightarrow> space_key \<Rightarrow> cleanup_summary core_op" where
  "unsubscribe cid key c0 =
     checked (and_then (validate_connection_id cid) (\<lambda>_.
       and_then (validate_space_key key) (\<lambda>_.
       and_then (core_authenticated_principal c0 cid) (\<lambda>_. get_connection c0 cid))))
     (\<lambda>state c.
       if \<not> bs_contains (cn_subscriptions state) key then (Inr cs_default, c)
       else case oq_purge (\<lambda>m. message_of_session (spk_session key) m \<and> om_space m = spk_space key)
              (cn_outbound state) of
         (n, outbound) \<Rightarrow>
           (Inr (cs_default\<lparr>cs_subscriptions_removed := 1, cs_queued_messages_discarded := n\<rparr>),
            map_session (spk_session key) (\<lambda>s. s\<lparr>sn_subscribers :=
                bt_modify (spk_space key) (bs_remove cid) (sn_subscribers s)\<rparr>)
              (map_connection cid (\<lambda>cn. cn\<lparr>cn_subscriptions := bs_remove key (cn_subscriptions cn),
                 cn_outbound := outbound\<rparr>) c))) c0"

section \<open>Entities\<close>

definition spawn_entity_checks ::
  "connection_id \<Rightarrow> space_key \<Rightarrow> space_epoch \<Rightarrow> core \<Rightarrow> core_error + authenticated_principal" where
  "spawn_entity_checks cid key epoch c =
     and_then (validate_connection_id cid) (\<lambda>_.
     and_then (validate_space_key key) (\<lambda>_.
     and_then (require_nonzero epoch K_SpaceEpoch) (\<lambda>_.
     and_then (core_authenticated_principal c cid) (\<lambda>principal.
     and_then (require_namespace_write principal (sk_namespace (spk_session key))) (\<lambda>_.
     and_then (require_session_write principal (spk_session key)) (\<lambda>_.
     and_then (require_space_write principal key) (\<lambda>_.
     and_then (require_membership c cid (spk_session key)) (\<lambda>_.
     and_then (require_subscription c cid key) (\<lambda>_.
     and_then (get_connection c cid) (\<lambda>state.
     and_then (ensure (cn_owned_entities state \<noteq> cc_max_owned_entities_per_connection (co_config c))
        CE_OwnedEntityLimitReached) (\<lambda>_.
     and_then (get_session c (spk_session key)) (\<lambda>s.
     and_then (ok_or (CE_SpaceNotFound key) (bt_get (sn_space_map s) (spk_space key))) (\<lambda>d.
     and_then (ensure (sd_epoch d = epoch) (CE_SpaceEpochMismatch (sd_epoch d) epoch)) (\<lambda>_.
     and_then (ensure (bt_len (sn_entity_map s) \<noteq> cc_max_entities_per_session (co_config c))
        CE_EntityLimitReached) (\<lambda>_.
     Inr principal)))))))))))))))"

definition spawn_entity :: "connection_id \<Rightarrow> space_key \<Rightarrow> space_epoch \<Rightarrow> entity_id core_op" where
  "spawn_entity cid key epoch c0 =
     checked (spawn_entity_checks cid key epoch c0) (\<lambda>principal c.
       let eid = co_next_entity_id c in
       checked (ok_or CE_IdExhausted (u64_checked_succ (co_next_entity_id c))) (\<lambda>next c.
         (Inr eid,
          map_connection cid (\<lambda>cn. cn\<lparr>cn_owned_entities := cn_owned_entities cn + 1\<rparr>)
            (map_session (spk_session key) (\<lambda>s. s\<lparr>sn_entity_map := bt_insert eid
               \<lparr>er_id = eid, er_owner_connection = cid, er_owner_principal = ap_principal_id principal,
                er_space = spk_space key, er_space_epoch = epoch, er_position = None\<rparr>
               (sn_entity_map s)\<rparr>)
              (c\<lparr>co_next_entity_id := next\<rparr>)))) c) c0"

fun cell_error_to_core :: "cell_error \<Rightarrow> core_error" where
  "cell_error_to_core CellOutOfRange = CE_SpatialCellOutOfRange"
| "cell_error_to_core CellDimensionMismatch = CE_InvalidEntityPosition DimensionMismatch"

definition place_entity ::
  "entity_id \<Rightarrow> spatial_cell_key option \<Rightarrow> entity_position \<Rightarrow> session_state \<Rightarrow> session_state" where
  "place_entity entity cell pos s =
     (let s1 = (if bt_get (sn_entity_cells s) entity \<noteq> cell
                then case cell of
                    None \<Rightarrow> remove_entity_from_cell entity s
                  | Some k \<Rightarrow> insert_entity_into_cell entity k (remove_entity_from_cell entity s)
                else s)
      in s1\<lparr>sn_entity_map := bt_modify entity (\<lambda>e. e\<lparr>er_position := Some pos\<rparr>) (sn_entity_map s1)\<rparr>)"

definition update_entity_position_checks ::
  "connection_id \<Rightarrow> session_key \<Rightarrow> entity_id \<Rightarrow> entity_position \<Rightarrow> core
   \<Rightarrow> core_error + spatial_cell_key option" where
  "update_entity_position_checks cid key entity pos c =
     and_then (validate_connection_id cid) (\<lambda>_.
     and_then (validate_session_key key) (\<lambda>_.
     and_then (require_nonzero entity K_Entity) (\<lambda>_.
     and_then (core_authenticated_principal c cid) (\<lambda>principal.
     and_then (require_namespace_write principal (sk_namespace key)) (\<lambda>_.
     and_then (require_session_write principal key) (\<lambda>_.
     and_then (require_membership c cid key) (\<lambda>_.
     and_then (get_session c key) (\<lambda>s.
     and_then (ok_or (CE_EntityNotFound entity) (bt_get (sn_entity_map s) entity)) (\<lambda>r.
     and_then (ensure (er_owner_connection r = cid) (CE_EntityNotOwned entity)) (\<lambda>_.
     and_then (require_space_write principal (SpaceKey key (er_space r))) (\<lambda>_.
     and_then (require_subscription c cid (SpaceKey key (er_space r))) (\<lambda>_.
     and_then (ok_or (CE_SpaceNotFound (SpaceKey key (er_space r)))
        (bt_get (sn_space_map s) (er_space r))) (\<lambda>d.
     and_then (map_err CE_InvalidEntityPosition (validate_for_frame pos (sd_local_frame d))) (\<lambda>_.
     map_err cell_error_to_core (spatial_cell_for pos d (er_space_epoch r))))))))))))))))"

definition update_entity_position ::
  "connection_id \<Rightarrow> session_key \<Rightarrow> entity_id \<Rightarrow> entity_position \<Rightarrow> unit core_op" where
  "update_entity_position cid key entity pos c0 =
     checked (update_entity_position_checks cid key entity pos c0)
       (\<lambda>cell c. (Inr (), map_session key (place_entity entity cell pos) c)) c0"

definition remove_entity :: "connection_id \<Rightarrow> session_key \<Rightarrow> entity_id \<Rightarrow> cleanup_summary core_op" where
  "remove_entity cid key entity c0 =
     checked (and_then (validate_connection_id cid) (\<lambda>_.
       and_then (validate_session_key key) (\<lambda>_.
       and_then (require_nonzero entity K_Entity) (\<lambda>_.
       and_then (core_authenticated_principal c0 cid) (\<lambda>_.
       and_then (require_membership c0 cid key) (\<lambda>_.
       and_then (ok_or (CE_EntityNotFound entity) (case bt_get (co_sessions c0) key of
           None \<Rightarrow> None | Some s \<Rightarrow> bt_get (sn_entity_map s) entity)) (\<lambda>r.
       ensure (er_owner_connection r = cid) (CE_EntityNotOwned entity))))))))
     (\<lambda>_ c. case remove_entities_and_anchored_spaces key (bs_of_list [entity]) c of
         (summary, c') \<Rightarrow> (Inr summary, c')) c0"

definition transition_checks :: "entity_transition_request \<Rightarrow> core \<Rightarrow> core_error + unit" where
  "transition_checks r c =
     and_then (validate_connection_id (tq_connection r)) (\<lambda>_.
     and_then (validate_session_key (tq_session r)) (\<lambda>_.
     and_then (require_nonzero (tq_entity r) K_Entity) (\<lambda>_.
     and_then (require_nonzero (tq_source_space r) K_Space) (\<lambda>_.
     and_then (require_nonzero (tq_source_epoch r) K_SpaceEpoch) (\<lambda>_.
     and_then (require_nonzero (tq_destination_space r) K_Space) (\<lambda>_.
     and_then (require_nonzero (tq_destination_epoch r) K_SpaceEpoch) (\<lambda>_.
     and_then (core_authenticated_principal c (tq_connection r)) (\<lambda>principal.
     and_then (require_namespace_write principal (sk_namespace (tq_session r))) (\<lambda>_.
     and_then (require_session_write principal (tq_session r)) (\<lambda>_.
     let source = SpaceKey (tq_session r) (tq_source_space r);
         destination = SpaceKey (tq_session r) (tq_destination_space r) in
     and_then (require_space_write principal source) (\<lambda>_.
     and_then (require_space_write principal destination) (\<lambda>_.
     and_then (require_membership c (tq_connection r) (tq_session r)) (\<lambda>_.
     and_then (require_subscription c (tq_connection r) source) (\<lambda>_.
     and_then (require_subscription c (tq_connection r) destination) (\<lambda>_.
     and_then (get_session c (tq_session r)) (\<lambda>s.
     and_then (ok_or (CE_SpaceNotFound source) (bt_get (sn_space_map s) (tq_source_space r))) (\<lambda>sd.
     and_then (ensure (sd_epoch sd = tq_source_epoch r)
        (CE_SpaceEpochMismatch (sd_epoch sd) (tq_source_epoch r))) (\<lambda>_.
     and_then (ok_or (CE_SpaceNotFound destination)
        (bt_get (sn_space_map s) (tq_destination_space r))) (\<lambda>dd.
     and_then (ensure (sd_epoch dd = tq_destination_epoch r)
        (CE_SpaceEpochMismatch (sd_epoch dd) (tq_destination_epoch r))) (\<lambda>_.
     and_then (ok_or (CE_EntityNotFound (tq_entity r)) (bt_get (sn_entity_map s) (tq_entity r))) (\<lambda>e.
     and_then (ensure (er_owner_connection e = tq_connection r) (CE_EntityNotOwned (tq_entity r))) (\<lambda>_.
     ensure (er_space e = tq_source_space r \<and> er_space_epoch e = tq_source_epoch r)
        (CE_EntitySpaceMismatch (tq_entity r))))))))))))))))))))))))"

definition keeps_key ::
  "entity_transition_request \<Rightarrow> space_id \<Rightarrow> space_epoch \<Rightarrow> entity_id option \<Rightarrow> bool" where
  "keeps_key r space epoch entity =
     (space \<noteq> tq_source_space r \<or> epoch \<noteq> tq_source_epoch r \<or> entity \<noteq> Some (tq_entity r))"

definition transition_session :: "entity_transition_request \<Rightarrow> session_state \<Rightarrow> session_state" where
  "transition_session r s0 =
     (let s = remove_entity_from_cell (tq_entity r) s0;
          s1 = s\<lparr>sn_entity_map := bt_modify (tq_entity r) (\<lambda>e. e\<lparr>er_space := tq_destination_space r,
                    er_space_epoch := tq_destination_epoch r, er_position := None\<rparr>) (sn_entity_map s),
                 sn_state_map := bt_retain (\<lambda>k _.
                    keeps_key r (stk_space k) (stk_space_epoch k) (stk_entity k)) (sn_state_map s)\<rparr>;
          s2 = recompute_state_bytes s1
      in s2\<lparr>sn_sequences := bt_retain (\<lambda>k _.
                keeps_key r (sqk_space k) (sqk_space_epoch k) (sqk_entity k)) (sn_sequences s2)\<rparr>)"

definition transition_of :: "entity_transition_request \<Rightarrow> entity_transition" where
  "transition_of r = \<lparr>et_entity = tq_entity r, et_session = tq_session r,
     et_source_space = tq_source_space r, et_source_epoch = tq_source_epoch r,
     et_destination_space = tq_destination_space r, et_destination_epoch = tq_destination_epoch r\<rparr>"

definition transition_entity :: "entity_transition_request \<Rightarrow> entity_transition core_op" where
  "transition_entity r c0 =
     checked (transition_checks r c0) (\<lambda>_ c.
       if tq_source_space r = tq_destination_space r \<and> tq_source_epoch r = tq_destination_epoch r
       then (Inr (transition_of r), c)
       else (Inr (transition_of r),
         snd (purge_all_connections (\<lambda>m. message_of_session (tq_session r) m
                \<and> om_space m = tq_source_space r \<and> om_space_epoch m = tq_source_epoch r
                \<and> om_entity m = Some (tq_entity r))
              (map_session (tq_session r) (transition_session r) c)))) c0"

section \<open>Views and queues\<close>

definition visible_spaces ::
  "authenticated_principal \<Rightarrow> session_key \<Rightarrow> connection_state \<Rightarrow> session_state \<Rightarrow> space_id btset" where
  "visible_spaces p key cn s = bs_of_list (map spk_space
     (filter (\<lambda>sp. spk_session sp = key \<and> can_read_space (ap_grants p) sp
        \<and> bt_contains_key (sn_space_map s) (spk_space sp)) (bt_keys (cn_subscriptions cn))))"

definition visible_descriptor :: "space_id btset \<Rightarrow> space_descriptor \<Rightarrow> space_descriptor" where
  "visible_descriptor visible d =
     (if opt_is_some_and (\<lambda>parent. \<not> bs_contains visible (pa_parent_space parent)) (sd_parent d)
      then d\<lparr>sd_parent := None\<rparr> else d)"

definition snapshot_of ::
  "authenticated_principal \<Rightarrow> session_key \<Rightarrow> connection_state \<Rightarrow> session_state \<Rightarrow> session_snapshot" where
  "snapshot_of p key cn s =
     (let visible = visible_spaces p key cn s;
          state = map (\<lambda>(k, r). \<lparr>ss_space = stk_space k, ss_space_epoch = stk_space_epoch k,
                ss_entity = stk_entity k, ss_channel = stk_channel k, ss_component = stk_component k,
                ss_sequence = sr_sequence r, ss_payload = sr_payload r\<rparr>)
            (filter (\<lambda>(k, r). bs_contains visible (stk_space k)
               \<and> can_read_channel (ap_grants p) (ChannelScope key (stk_channel k)))
              (bt_iter (sn_state_map s)))
      in \<lparr>sn_key = key, sn_member_count = bt_len (sn_members s),
          sn_subscription_count = sum_list (map bt_len
            (List.map_filter (bt_get (sn_subscribers s)) (bt_keys visible))),
          sn_state_bytes = sum_list (map (\<lambda>r. length (ss_payload r)) state),
          sn_spaces = map (visible_descriptor visible)
            (List.map_filter (bt_get (sn_space_map s)) (bt_keys visible)),
          sn_entities = map (\<lambda>e. \<lparr>es_id = er_id e, es_owner_connection = er_owner_connection e,
              es_owner_principal = er_owner_principal e, es_space = er_space e,
              es_space_epoch = er_space_epoch e\<rparr>)
            (filter (\<lambda>e. bs_contains visible (er_space e)) (bt_values (sn_entity_map s))),
          sn_state = state\<rparr>)"

definition core_snapshot :: "core \<Rightarrow> connection_id \<Rightarrow> session_key \<Rightarrow> core_error + session_snapshot" where
  "core_snapshot c cid key =
     and_then (validate_connection_id cid) (\<lambda>_.
     and_then (validate_session_key key) (\<lambda>_.
     and_then (core_authenticated_principal c cid) (\<lambda>principal.
     and_then (require_namespace_read principal (sk_namespace key)) (\<lambda>_.
     and_then (require_session_read principal key) (\<lambda>_.
     and_then (require_membership c cid key) (\<lambda>_.
     and_then (get_connection c cid) (\<lambda>cn.
     and_then (get_session c key) (\<lambda>s. Inr (snapshot_of principal key cn s)))))))))"

definition drain_outbound :: "connection_id \<Rightarrow> outbound_message list core_op" where
  "drain_outbound cid c0 =
     checked (and_then (validate_connection_id cid) (\<lambda>_. get_connection c0 cid)) (\<lambda>state c.
       case oq_drain (cn_outbound state) of (messages, outbound) \<Rightarrow>
         (Inr messages, map_connection cid (\<lambda>cn. cn\<lparr>cn_outbound := outbound\<rparr>) c)) c0"

definition pop_journal_record :: "core \<Rightarrow> journal_record option \<times> core" where
  "pop_journal_record c = (case jo_pop (co_journal_outbox c) of
     (r, j) \<Rightarrow> (r, c\<lparr>co_journal_outbox := j\<rparr>))"

definition journal_outbox_len :: "core \<Rightarrow> usize" where
  "journal_outbox_len c = jo_len (co_journal_outbox c)"

definition connection_count :: "core \<Rightarrow> usize" where
  "connection_count c = bt_len (co_connections c)"

definition session_count :: "core \<Rightarrow> usize" where
  "session_count c = bt_len (co_sessions c)"

definition is_connected :: "core \<Rightarrow> connection_id \<Rightarrow> bool" where
  "is_connected c cid = bt_contains_key (co_connections c) cid"

definition subscription_count :: "core \<Rightarrow> connection_id \<Rightarrow> usize option" where
  "subscription_count c cid = map_option (bt_len \<circ> cn_subscriptions) (bt_get (co_connections c) cid)"

definition owned_entity_count :: "core \<Rightarrow> connection_id \<Rightarrow> usize option" where
  "owned_entity_count c cid = map_option cn_owned_entities (bt_get (co_connections c) cid)"

definition sequence_key_count :: "core \<Rightarrow> session_key \<Rightarrow> usize option" where
  "sequence_key_count c key = map_option (bt_len \<circ> sn_sequences) (bt_get (co_sessions c) key)"

definition space_epoch_tombstone_count :: "core \<Rightarrow> session_key \<Rightarrow> usize option" where
  "space_epoch_tombstone_count c key = map_option (bt_len \<circ> sn_tombstones) (bt_get (co_sessions c) key)"

end
