(* ===== verification/CorePublish.thy ===== *)
theory CorePublish
  imports CoreOps
begin

text \<open>
  Publishing in \<^verbatim>\<open>woven-core/src/core.rs\<close>: admission by the rate limiter, the checks of the
  proposed message, the verdict of the channel's authority, the checks of what it authorised, the
  durable and stateful effects, and the fan-out to the recipients chosen by routing.
\<close>

section \<open>Checks of a message\<close>

definition validate_channel_policy ::
  "channel_definition \<Rightarrow> delivery_class \<Rightarrow> persistence_class \<Rightarrow> core_error + unit" where
  "validate_channel_policy channel delivery persistence =
     ensure (cd_delivery channel = delivery \<and> cd_persistence channel = persistence)
       (CE_ChannelPolicyMismatch (cd_id channel) (cd_delivery channel) delivery
          (cd_persistence channel) persistence)"

definition validate_coalesce_key :: "authorized_message \<Rightarrow> core_error + unit" where
  "validate_coalesce_key m =
     (if is_replaceable (am_delivery m)
      then and_then (ok_or CE_MissingCoalesceKey (am_coalesce_key m)) (\<lambda>key.
        if ck_channel key \<noteq> am_channel m \<or> ck_entity key \<noteq> am_entity m
        then Inl CE_InvalidCoalesceKey else Inr ())
      else if opt_is_some_and (\<lambda>key. ck_channel key \<noteq> am_channel m \<or> ck_entity key \<noteq> am_entity m)
             (am_coalesce_key m)
      then Inl CE_InvalidCoalesceKey else Inr ())"

definition message_component :: "authorized_message \<Rightarrow> u64" where
  "message_component m = (case am_coalesce_key m of None \<Rightarrow> 0 | Some key \<Rightarrow> ck_component key)"

definition message_sequence_key :: "connection_id \<Rightarrow> authorized_message \<Rightarrow> sequence_key" where
  "message_sequence_key cid m = SequenceKey cid (am_space m) (am_space_epoch m) (am_entity m)
     (am_channel m) (message_component m)"

definition message_state_key :: "authorized_message \<Rightarrow> state_key" where
  "message_state_key m = StateKey (am_space m) (am_space_epoch m) (am_entity m) (am_channel m)
     (message_component m)"

type_synonym planned = "(sequence_key, u64) btmap"

text \<open>The later of the stored and the planned sequence number (\<^verbatim>\<open>chain(..).max()\<close>).\<close>

definition last_sequence :: "session_state \<Rightarrow> planned option \<Rightarrow> sequence_key \<Rightarrow> u64 option" where
  "last_sequence s planned key = max (bt_get (sn_sequences s) key)
     (case planned of None \<Rightarrow> None | Some values \<Rightarrow> bt_get values key)"

definition validate_message_entity ::
  "session_state \<Rightarrow> authorized_message \<Rightarrow> core_error + unit" where
  "validate_message_entity s m = (case am_entity m of
     None \<Rightarrow> Inr ()
   | Some eid \<Rightarrow>
       and_then (ok_or (CE_EntityNotFound eid) (bt_get (sn_entity_map s) eid)) (\<lambda>e.
       if er_space e \<noteq> am_space m \<or> er_space_epoch e \<noteq> am_space_epoch m
       then Inl (CE_EntitySpaceMismatch eid) else Inr ()))"

definition validate_message ::
  "core \<Rightarrow> connection_id \<Rightarrow> session_key \<Rightarrow> authorized_message \<Rightarrow> planned option \<Rightarrow> core_error + unit" where
  "validate_message c cid key m planned =
     and_then (validate_authorized_message_ids m) (\<lambda>_.
     and_then (ok_or (CE_UnknownChannel (am_channel m)) (bt_get (co_channels c) (am_channel m))) (\<lambda>channel.
     and_then (validate_channel_policy channel (am_delivery m) (am_persistence m)) (\<lambda>_.
     let payload_limit = min (cc_max_payload_bytes (co_config c)) (cd_max_payload_bytes channel) in
     and_then (ensure (length (am_payload m) \<le> payload_limit)
        (CE_PayloadTooLarge (length (am_payload m)) payload_limit)) (\<lambda>_.
     and_then (validate_coalesce_key m) (\<lambda>_.
     and_then (get_session c key) (\<lambda>s.
     and_then (ok_or (CE_SpaceNotFound (SpaceKey key (am_space m))) (bt_get (sn_space_map s) (am_space m))) (\<lambda>d.
     and_then (ensure (sd_epoch d = am_space_epoch m)
        (CE_SpaceEpochMismatch (sd_epoch d) (am_space_epoch m))) (\<lambda>_.
     and_then (validate_message_entity s m) (\<lambda>_.
     case last_sequence s planned (message_sequence_key cid m) of
       Some newest \<Rightarrow> if am_sequence m \<le> newest then Inl (CE_StaleSequence (am_sequence m) newest) else Inr ()
     | None \<Rightarrow> Inr ())))))))))"

definition validate_sequence_capacity :: "core \<Rightarrow> session_key \<Rightarrow> planned \<Rightarrow> core_error + unit" where
  "validate_sequence_capacity c key planned =
     and_then (get_session c key) (\<lambda>s.
       let new_keys = length (filter (\<lambda>k. \<not> bt_contains_key (sn_sequences s) k) (bt_keys planned)) in
       ensure (usize_saturating_add (bt_len (sn_sequences s)) new_keys
                 \<le> cc_max_sequence_keys_per_session (co_config c))
         CE_SequenceKeyLimitReached)"

text \<open>The entries and bytes the state would have with the stateful messages applied in order.\<close>

fun project_state ::
  "session_state \<Rightarrow> authorized_message list \<Rightarrow> (state_key, usize) btmap \<Rightarrow> usize \<times> usize \<Rightarrow> usize \<times> usize"
where
  "project_state s [] projected acc = acc"
| "project_state s (m # ms) projected (entries, bytes) =
     (let key = message_state_key m;
          previous = (case bt_get projected key of
              Some len \<Rightarrow> Some len
            | None \<Rightarrow> map_option (\<lambda>r. length (sr_payload r)) (bt_get (sn_state_map s) key));
          (entries1, bytes1) = (case previous of
              Some len \<Rightarrow> (entries, bytes - len)
            | None \<Rightarrow> (entries + 1, bytes))
      in project_state s ms (bt_insert key (length (am_payload m)) projected)
           (entries1, usize_saturating_add bytes1 (length (am_payload m))))"

definition stateful :: "authorized_message list \<Rightarrow> authorized_message list" where
  "stateful = filter (\<lambda>m. am_persistence m = Stateful)"

definition validate_state_capacity ::
  "core \<Rightarrow> session_key \<Rightarrow> authorized_message list \<Rightarrow> core_error + unit" where
  "validate_state_capacity c key messages =
     and_then (get_session c key) (\<lambda>s.
       case project_state s (stateful messages) bt_new (bt_len (sn_state_map s), sn_bytes s) of
         (entries, bytes) \<Rightarrow>
           if cc_max_state_entries_per_session (co_config c) < entries then Inl CE_StateEntryLimitReached
           else if cc_max_state_bytes_per_session (co_config c) < bytes then Inl CE_StateByteLimitReached
           else Inr ())"

section \<open>Routing\<close>

definition subscribers_of :: "session_state \<Rightarrow> space_id \<Rightarrow> connection_id btset" where
  "subscribers_of s space = (case bt_get (sn_subscribers s) space of None \<Rightarrow> bt_new | Some subs \<Rightarrow> subs)"

definition candidate_in_range ::
  "session_state \<Rightarrow> entity_position \<Rightarrow> f64 \<Rightarrow> bool \<Rightarrow> entity_id \<Rightarrow> entity_record option" where
  "candidate_in_range s source interest_radius exact_distance eid =
     (case bt_get (sn_entity_map s) eid of
        None \<Rightarrow> None
      | Some candidate \<Rightarrow> (case er_position candidate of
            None \<Rightarrow> None
          | Some pos \<Rightarrow>
              if exact_distance \<and> \<not> squared_distance_within source pos interest_radius then None
              else Some candidate))"

definition spatial_recipients ::
  "session_state \<Rightarrow> outbound_message \<Rightarrow> connection_id btset \<Rightarrow> f64 \<Rightarrow> f64 \<Rightarrow> bool \<Rightarrow> connection_id btset" where
  "spatial_recipients s m subscribers cell_size interest_radius exact_distance =
     (case om_entity m of None \<Rightarrow> bt_new | Some source_entity \<Rightarrow>
     (case bt_get (sn_entity_map s) source_entity of None \<Rightarrow> bt_new | Some source \<Rightarrow>
     (case er_position source of None \<Rightarrow> bt_new | Some source_position \<Rightarrow>
     (case bt_get (sn_entity_cells s) source_entity of None \<Rightarrow> bt_new | Some source_cell \<Rightarrow>
       if sc_space source_cell \<noteq> om_space m \<or> sc_space_epoch source_cell \<noteq> om_space_epoch m then bt_new
       else
         let radius_in_cells = f64_div interest_radius cell_size;
             near = filter (\<lambda>(cell, _). sc_space cell = om_space m \<and> sc_space_epoch cell = om_space_epoch m
                 \<and> cells_are_near (sc_cell source_cell) (sc_cell cell) radius_in_cells)
               (bt_iter (sn_cell_entities s));
             candidates = List.map_filter (candidate_in_range s source_position interest_radius exact_distance)
               (concat (map (\<lambda>(_, entities). bt_keys entities) near))
         in bs_of_list (filter (bs_contains subscribers) (map er_owner_connection candidates))))))"

definition routing_recipients :: "session_state \<Rightarrow> outbound_message \<Rightarrow> connection_id btset" where
  "routing_recipients s m =
     (let subscribers = subscribers_of s (om_space m) in
      case bt_get (sn_space_map s) (om_space m) of
        None \<Rightarrow> bt_new
      | Some d \<Rightarrow>
          if is_critical (om_delivery m) then subscribers
          else (case sd_routing d of
              BroadcastAll \<Rightarrow> subscribers
            | TopicOnly \<Rightarrow> subscribers
            | SpatialGrid2D cell_size interest_radius exact_distance \<Rightarrow>
                spatial_recipients s m subscribers cell_size interest_radius exact_distance
            | SpatialGrid3D cell_size interest_radius exact_distance \<Rightarrow>
                spatial_recipients s m subscribers cell_size interest_radius exact_distance))"

section \<open>Authorisation\<close>

definition publish_access :: "core \<Rightarrow> publish_request \<Rightarrow> core_error + authenticated_principal" where
  "publish_access c r =
     and_then (validate_publish_request_ids r) (\<lambda>_.
     and_then (core_authenticated_principal c (pq_connection r)) (\<lambda>principal.
     and_then (require_namespace_write principal (sk_namespace (pq_session r))) (\<lambda>_.
     and_then (require_session_write principal (pq_session r)) (\<lambda>_.
     let target = SpaceKey (pq_session r) (pq_space r);
         scope = ChannelScope (pq_session r) (pq_channel r) in
     and_then (require_space_write principal target) (\<lambda>_.
     and_then (ensure (can_write_channel (ap_grants principal) scope) (CE_ChannelWriteAccessDenied scope)) (\<lambda>_.
     and_then (require_membership c (pq_connection r) (pq_session r)) (\<lambda>_.
     and_then (require_subscription c (pq_connection r) target) (\<lambda>_.
     Inr principal))))))))"

definition proposed_of :: "publish_request \<Rightarrow> proposed_message" where
  "proposed_of r = \<lparr>pm_space = pq_space r, pm_space_epoch = pq_space_epoch r, pm_entity = pq_entity r,
     pm_channel = pq_channel r, pm_sequence = pq_sequence r, pm_delivery = pq_delivery r,
     pm_persistence = pq_persistence r, pm_coalesce_key = pq_coalesce_key r, pm_payload = pq_payload r\<rparr>"

definition context_of ::
  "publish_request \<Rightarrow> authenticated_principal \<Rightarrow> session_state \<Rightarrow> authority_context" where
  "context_of r p s = \<lparr>ac_connection = pq_connection r, ac_principal = ap_principal_id p,
     ac_is_session_member = True, ac_is_space_subscriber = True,
     ac_entity_owner = (case pq_entity r of None \<Rightarrow> None | Some e \<Rightarrow>
       map_option er_owner_connection (bt_get (sn_entity_map s) e))\<rparr>"

text \<open>The verdict turned into messages, with the sequence number an emitting policy consumes.\<close>

fun authority_messages ::
  "core_config \<Rightarrow> connection_id \<Rightarrow> authorized_message \<Rightarrow> authority_outcome
   \<Rightarrow> core_error + (authorized_message list \<times> planned)" where
  "authority_messages config cid proposed AO_Accept = Inr ([proposed], bt_new)"
| "authority_messages config cid proposed (AO_Reject reason) = Inl (CE_AuthorityRejected reason)"
| "authority_messages config cid proposed (AO_Transform t) =
     Inr ([proposed\<lparr>am_coalesce_key := at_coalesce_key t, am_payload := at_payload t\<rparr>], bt_new)"
| "authority_messages config cid proposed (AO_Emit emissions) =
     (if cc_max_authority_emissions config < length emissions then Inl CE_AuthorityEmissionLimitExceeded
      else Inr (map am_from_emission emissions,
        bt_insert (message_sequence_key cid proposed) (am_sequence proposed) bt_new))"

fun plan_messages ::
  "core \<Rightarrow> connection_id \<Rightarrow> session_key \<Rightarrow> authorized_message list \<Rightarrow> planned \<Rightarrow> core_error + planned" where
  "plan_messages c cid key [] planned = Inr planned"
| "plan_messages c cid key (m # ms) planned =
     and_then (validate_message c cid key m (Some planned)) (\<lambda>_.
     plan_messages c cid key ms (bt_insert (message_sequence_key cid m) (am_sequence m) planned))"

definition durable_messages :: "outbound_message list \<Rightarrow> outbound_message list" where
  "durable_messages = filter (\<lambda>m. om_persistence m = Durable)"

definition authorize_publish ::
  "core \<Rightarrow> publish_request \<Rightarrow> core_error + (authorized_message list \<times> planned)" where
  "authorize_publish c r =
     and_then (publish_access c r) (\<lambda>principal.
     and_then (ok_or (CE_UnknownChannel (pq_channel r)) (bt_get (co_channels c) (pq_channel r))) (\<lambda>channel.
     and_then (validate_channel_policy channel (pq_delivery r) (pq_persistence r)) (\<lambda>_.
     and_then (get_session c (pq_session r)) (\<lambda>s.
     let proposed = am_from_request r in
     and_then (validate_message c (pq_connection r) (pq_session r) proposed None) (\<lambda>_.
     and_then (authority_messages (co_config c) (pq_connection r) proposed
        (cd_authority channel (context_of r principal s) (proposed_of r))) (\<lambda>(messages, planned0).
     and_then (plan_messages c (pq_connection r) (pq_session r) messages planned0) (\<lambda>planned.
     and_then (validate_sequence_capacity c (pq_session r) planned) (\<lambda>_.
     and_then (validate_state_capacity c (pq_session r) messages) (\<lambda>_.
     if jo_remaining_capacity (co_journal_outbox c)
          < length (filter (\<lambda>m. am_persistence m = Durable) messages)
     then Inl CE_JournalOutboxSaturated
     else Inr (messages, planned))))))))))"

section \<open>Effects\<close>

fun journal_all :: "outbound_message list \<Rightarrow> unit core_op" where
  "journal_all [] c = (Inr (), c)"
| "journal_all (m # ms) c =
     (case jo_push \<lparr>jr_message = m\<rparr> (co_journal_outbox c) of
        Inl _ \<Rightarrow> (Inl CE_JournalOutboxSaturated, c)
      | Inr j \<Rightarrow> journal_all ms (c\<lparr>co_journal_outbox := j\<rparr>))"

definition store_state :: "session_state \<Rightarrow> authorized_message \<Rightarrow> session_state" where
  "store_state s m =
     (let key = message_state_key m;
          bytes = (case bt_get (sn_state_map s) key of
              None \<Rightarrow> sn_bytes s | Some previous \<Rightarrow> sn_bytes s - length (sr_payload previous))
      in s\<lparr>sn_state_map := bt_insert key \<lparr>sr_sequence = am_sequence m, sr_payload = am_payload m\<rparr>
             (sn_state_map s),
           sn_bytes := bytes + length (am_payload m)\<rparr>)"

definition commit_session :: "planned \<Rightarrow> authorized_message list \<Rightarrow> session_state \<Rightarrow> session_state" where
  "commit_session planned messages s =
     foldl store_state
       (s\<lparr>sn_sequences := foldl (\<lambda>m (k, v). bt_insert k v m) (sn_sequences s) (bt_iter planned)\<rparr>)
       (stateful messages)"

definition record_queue_result :: "queue_activity \<Rightarrow> queue_push \<Rightarrow> queue_activity" where
  "record_queue_result a r = (case r of
     Queued \<Rightarrow> a\<lparr>qa_queued := qa_queued a + 1\<rparr>
   | QueuedCriticalAfterEviction eviction \<Rightarrow>
       (let a1 = a\<lparr>qa_queued := qa_queued a + 1, qa_critical_evictions := qa_critical_evictions a + 1\<rparr>
        in case eviction of
             Eviction_Latest _ \<Rightarrow> a1\<lparr>qa_evicted_latest := qa_evicted_latest a1 + 1\<rparr>
           | Eviction_BestEffort \<Rightarrow> a1\<lparr>qa_dropped_best_effort := qa_dropped_best_effort a1 + 1\<rparr>)
   | ReplacedLatest \<Rightarrow> a\<lparr>qa_replaced_latest := qa_replaced_latest a + 1\<rparr>
   | EvictedLatest _ \<Rightarrow> a\<lparr>qa_evicted_latest := qa_evicted_latest a + 1\<rparr>
   | EvictedBestEffortForLatest \<Rightarrow> a\<lparr>qa_dropped_best_effort := qa_dropped_best_effort a + 1\<rparr>
   | DroppedBestEffort \<Rightarrow> a\<lparr>qa_dropped_best_effort := qa_dropped_best_effort a + 1\<rparr>
   | DroppedLatest \<Rightarrow> a\<lparr>qa_dropped_latest := qa_dropped_latest a + 1\<rparr>
   | CriticalCapacityExhausted \<Rightarrow>
       a\<lparr>qa_critical_capacity_exhausted := qa_critical_capacity_exhausted a + 1\<rparr>)"

text \<open>The recipient that would take a message: connected, authenticated, with every read grant.\<close>

definition receiving_connection ::
  "core \<Rightarrow> session_key \<Rightarrow> outbound_message \<Rightarrow> connection_id \<Rightarrow> connection_state option" where
  "receiving_connection c key m cid = (case bt_get (co_connections c) cid of
     None \<Rightarrow> None
   | Some cn \<Rightarrow> (case cn_authenticated cn of
       None \<Rightarrow> None
     | Some p \<Rightarrow> if can_receive p key (om_space m) (om_channel m) then Some cn else None))"

fun deliver_to ::
  "session_key \<Rightarrow> outbound_message \<Rightarrow> connection_id list \<Rightarrow> publish_outcome \<times> connection_id btset
   \<Rightarrow> (publish_outcome \<times> connection_id btset) core_op" where
  "deliver_to key m [] acc c = (Inr acc, c)"
| "deliver_to key m (cid # cids) (outcome, disconnected) c =
     (if bs_contains disconnected cid then deliver_to key m cids (outcome, disconnected) c
      else (case receiving_connection c key m cid of
          None \<Rightarrow> deliver_to key m cids (outcome, disconnected) c
        | Some cn \<Rightarrow>
            (let outcome1 = outcome\<lparr>po_recipient_attempts := po_recipient_attempts outcome + 1\<rparr> in
             case oq_push m (cn_outbound cn) of
               (Inl e, outbound) \<Rightarrow>
                 (Inl (CE_Queue e), map_connection cid (\<lambda>cn. cn\<lparr>cn_outbound := outbound\<rparr>) c)
             | (Inr result, outbound) \<Rightarrow>
                 deliver_to key m cids
                   (outcome1\<lparr>po_queues := record_queue_result (po_queues outcome1) result\<rparr>,
                    if result = CriticalCapacityExhausted then bs_insert cid disconnected else disconnected)
                   (map_connection cid (\<lambda>cn. cn\<lparr>cn_outbound := outbound\<rparr>) c))))"

definition recipients_of :: "core \<Rightarrow> session_key \<Rightarrow> outbound_message \<Rightarrow> connection_id list" where
  "recipients_of c key m = (case bt_get (co_sessions c) key of
     None \<Rightarrow> [] | Some s \<Rightarrow> bt_keys (routing_recipients s m))"

fun deliver_all ::
  "session_key \<Rightarrow> outbound_message list \<Rightarrow> publish_outcome \<times> connection_id btset
   \<Rightarrow> (publish_outcome \<times> connection_id btset) core_op" where
  "deliver_all key [] acc c = (Inr acc, c)"
| "deliver_all key (m # ms) acc c =
     (case deliver_to key m (recipients_of c key m) acc c of
        (Inl e, c') \<Rightarrow> (Inl e, c')
      | (Inr acc', c') \<Rightarrow> deliver_all key ms acc' c')"

fun disconnect_slow ::
  "release_clock \<Rightarrow> connection_id list \<Rightarrow> publish_outcome \<Rightarrow> publish_outcome core_op" where
  "disconnect_slow clock [] outcome c = (Inr outcome, c)"
| "disconnect_slow clock (cid # cids) outcome c =
     (if bt_contains_key (co_connections c) cid
      then (case transport_lost clock cid c of
          (Inl e, c') \<Rightarrow> (Inl e, c')
        | (Inr _, c') \<Rightarrow> disconnect_slow clock cids
            (outcome\<lparr>po_disconnected_slow_consumers := po_disconnected_slow_consumers outcome @ [cid]\<rparr>) c')
      else disconnect_slow clock cids outcome c)"

definition commit_publish ::
  "release_clock \<Rightarrow> session_key \<Rightarrow> authorized_message list \<Rightarrow> planned \<Rightarrow> publish_outcome core_op" where
  "commit_publish clock key messages planned c =
     (let outbound = map (am_to_outbound key) messages in
      case journal_all (durable_messages outbound) c of
        (Inl e, c1) \<Rightarrow> (Inl e, c1)
      | (Inr _, c1) \<Rightarrow>
          checked (get_session c1 key) (\<lambda>_ c2.
            case deliver_all key outbound
                   (\<lparr>po_authorized_messages = length messages, po_recipient_attempts = 0,
                     po_queues = qa_default, po_disconnected_slow_consumers = []\<rparr>, bt_new)
                   (map_session key (commit_session planned messages) c2) of
              (Inl e, c3) \<Rightarrow> (Inl e, c3)
            | (Inr (outcome, disconnected), c3) \<Rightarrow>
                disconnect_slow clock (bt_keys disconnected) outcome c3) c1)"

definition publish_at :: "release_clock \<Rightarrow> publish_request \<Rightarrow> instant \<Rightarrow> publish_outcome core_op" where
  "publish_at clock r now c0 =
     checked (and_then (validate_connection_id (pq_connection r)) (\<lambda>_. get_connection c0 (pq_connection r)))
       (\<lambda>state c.
         case rl_admit (cc_publish_rate_limit (co_config c)) now (cn_rate_limiter state) of
           (admitted, limiter) \<Rightarrow>
             let c1 = map_connection (pq_connection r) (\<lambda>cn. cn\<lparr>cn_rate_limiter := limiter\<rparr>) c in
             checked (and_then admitted (\<lambda>_. authorize_publish c1 r)) (\<lambda>(messages, planned).
               commit_publish clock (pq_session r) messages planned) c1) c0"

end
