(* ===== verification/SessionInv.thy ===== *)
theory SessionInv
  imports CorePublish
begin

text \<open>
  The invariant of one session and its preservation by every function that changes a session:
  spaces and tombstones, entities and the cell index, parent anchors, sequence and state keys,
  the byte count of the state, and the configured limits.
\<close>

section \<open>Parts of the invariant\<close>

text \<open>Every space is filed under its id, was accepted by validation, and has no tombstone.\<close>

definition spaces_wf :: "session_state \<Rightarrow> bool" where
  "spaces_wf s \<longleftrightarrow>
     (\<forall>sp d. bt_get (sn_space_map s) sp = Some d \<longrightarrow>
        sd_id d = sp \<and> sd_validate d = Inr () \<and> bt_get (sn_tombstones s) sp = None)
   \<and> (\<forall>sp. bt_contains_key (sn_subscribers s) sp \<longleftrightarrow> bt_contains_key (sn_space_map s) sp)"

definition current_space :: "session_state \<Rightarrow> space_id \<Rightarrow> space_epoch \<Rightarrow> bool" where
  "current_space s sp epoch \<longleftrightarrow> (\<exists>d. bt_get (sn_space_map s) sp = Some d \<and> sd_epoch d = epoch)"

text \<open>Every entity lives in an existing space at its current epoch.\<close>

definition entities_wf :: "u64 \<Rightarrow> session_state \<Rightarrow> bool" where
  "entities_wf nxt s \<longleftrightarrow>
     (\<forall>e r. bt_get (sn_entity_map s) e = Some r \<longrightarrow>
        er_id r = e \<and> e \<noteq> 0 \<and> e < nxt \<and> current_space s (er_space r) (er_space_epoch r))"

text \<open>The two directions of the cell index agree, hold positioned entities in their own space only, and no cell is empty.\<close>

definition cells_wf :: "session_state \<Rightarrow> bool" where
  "cells_wf s \<longleftrightarrow>
     (\<forall>e k. bt_get (sn_entity_cells s) e = Some k
        \<longleftrightarrow> (\<exists>es. bt_get (sn_cell_entities s) k = Some es \<and> bs_contains es e))
   \<and> (\<forall>k es. bt_get (sn_cell_entities s) k = Some es \<longrightarrow> (\<exists>e. bs_contains es e))
   \<and> (\<forall>e k. bt_get (sn_entity_cells s) e = Some k \<longrightarrow>
        (\<exists>r. bt_get (sn_entity_map s) e = Some r \<and> er_position r \<noteq> None
          \<and> sc_space k = er_space r \<and> sc_space_epoch k = er_space_epoch r))"

text \<open>The parent space and the anchor entity of every space exist.\<close>

definition parents_wf :: "session_state \<Rightarrow> bool" where
  "parents_wf s \<longleftrightarrow>
     (\<forall>sp d p. bt_get (sn_space_map s) sp = Some d \<longrightarrow> sd_parent d = Some p \<longrightarrow>
        bt_contains_key (sn_space_map s) (pa_parent_space p)
        \<and> bt_contains_key (sn_entity_map s) (pa_anchor_entity p))"

text \<open>What a sequence or state key may refer to: a current space, and an entity of that space.\<close>

definition live_scope :: "session_state \<Rightarrow> space_id \<Rightarrow> space_epoch \<Rightarrow> entity_id option \<Rightarrow> bool" where
  "live_scope s sp epoch entity \<longleftrightarrow> current_space s sp epoch
     \<and> (\<forall>e. entity = Some e \<longrightarrow> (\<exists>r. bt_get (sn_entity_map s) e = Some r \<and> er_space r = sp))"

definition keys_wf :: "session_state \<Rightarrow> bool" where
  "keys_wf s \<longleftrightarrow>
     (\<forall>k v. bt_get (sn_sequences s) k = Some v \<longrightarrow>
        live_scope s (sqk_space k) (sqk_space_epoch k) (sqk_entity k))
   \<and> (\<forall>k r. bt_get (sn_state_map s) k = Some r \<longrightarrow>
        live_scope s (stk_space k) (stk_space_epoch k) (stk_entity k))"

definition limits_wf :: "core_config \<Rightarrow> session_state \<Rightarrow> bool" where
  "limits_wf config s \<longleftrightarrow>
     sn_bytes s = state_total (sn_state_map s)
   \<and> sn_bytes s \<le> cc_max_state_bytes_per_session config
   \<and> bt_len (sn_state_map s) \<le> cc_max_state_entries_per_session config
   \<and> bt_len (sn_sequences s) \<le> cc_max_sequence_keys_per_session config
   \<and> bt_len (sn_entity_map s) \<le> cc_max_entities_per_session config
   \<and> bt_len (sn_space_map s) \<le> cc_max_spaces_per_session config
   \<and> bt_len (sn_space_map s) + bt_len (sn_tombstones s)
       \<le> cc_max_space_epoch_tombstones_per_session config"

definition session_wf :: "core_config \<Rightarrow> u64 \<Rightarrow> session_state \<Rightarrow> bool" where
  "session_wf config nxt s \<longleftrightarrow> spaces_wf s \<and> entities_wf nxt s \<and> cells_wf s \<and> parents_wf s
     \<and> keys_wf s \<and> limits_wf config s"

declare spaces_wf_def [wf_defs] entities_wf_def [wf_defs] cells_wf_def [wf_defs]
  parents_wf_def [wf_defs] keys_wf_def [wf_defs] limits_wf_def [wf_defs] session_wf_def [wf_defs]

lemma session_wfD:
  assumes "session_wf config nxt s"
  shows "spaces_wf s" "entities_wf nxt s" "cells_wf s" "parents_wf s" "keys_wf s" "limits_wf config s"
  using assms by (simp_all add: session_wf_def)

lemma session_wf_mono: "session_wf config nxt s \<Longrightarrow> nxt \<le> nxt' \<Longrightarrow> session_wf config nxt' s"
  by (auto simp: session_wf_def entities_wf_def intro: less_le_trans)

section \<open>Bytes\<close>

lemma state_total_sum: "state_total m = bt_sum (\<lambda>_ r. length (sr_payload r)) m"
  by (simp add: state_total_def bt_sum_def bt_values_def comp_def case_prod_unfold)

lemma state_total_new [simp]: "state_total bt_new = 0"
  by (simp add: state_total_sum)

lemma state_total_retain_le: "state_total (bt_retain P m) \<le> state_total m"
  by (simp add: state_total_sum bt_sum_retain_le)

lemma state_total_insert:
  "state_total (bt_insert k r m) + (case bt_get m k of None \<Rightarrow> 0 | Some p \<Rightarrow> length (sr_payload p))
     = state_total m + length (sr_payload r)"
  using bt_sum_insert [of "\<lambda>_ r. length (sr_payload r)" k r m]
  by (simp add: state_total_sum split: option.splits)

section \<open>New sessions, members, subscribers\<close>

lemma session_new_wf: "session_wf config nxt session_new"
  by (simp add: wf_defs session_new_def bt_contains_key_def)

section \<open>The cell index\<close>

definition index_wf ::
  "(entity_id, spatial_cell_key) btmap \<Rightarrow> (spatial_cell_key, entity_id btset) btmap \<Rightarrow> bool" where
  "index_wf ec ce \<longleftrightarrow>
     (\<forall>e k. bt_get ec e = Some k \<longleftrightarrow> (\<exists>es. bt_get ce k = Some es \<and> bs_contains es e))
   \<and> (\<forall>k es. bt_get ce k = Some es \<longrightarrow> (\<exists>e. bs_contains es e))"

lemma cells_wf_index:
  "cells_wf s \<longleftrightarrow> index_wf (sn_entity_cells s) (sn_cell_entities s)
     \<and> (\<forall>e k. bt_get (sn_entity_cells s) e = Some k \<longrightarrow>
        (\<exists>r. bt_get (sn_entity_map s) e = Some r \<and> er_position r \<noteq> None
          \<and> sc_space k = er_space r \<and> sc_space_epoch k = er_space_epoch r))"
  by (simp add: cells_wf_def index_wf_def)

lemma remove_entity_from_cell_frame:
  "\<exists>ec ce. remove_entity_from_cell e s = s\<lparr>sn_entity_cells := ec, sn_cell_entities := ce\<rparr>"
proof (cases "bt_get (sn_entity_cells s) e")
  case None
  then show ?thesis
    by (intro exI [of _ "sn_entity_cells s"] exI [of _ "sn_cell_entities s"])
      (simp add: remove_entity_from_cell_def)
next
  case (Some k)
  then show ?thesis by (auto simp: remove_entity_from_cell_def Let_def)
qed

lemma remove_entity_from_cell_fields [simp]:
  "sn_members (remove_entity_from_cell e s) = sn_members s"
  "sn_space_map (remove_entity_from_cell e s) = sn_space_map s"
  "sn_tombstones (remove_entity_from_cell e s) = sn_tombstones s"
  "sn_subscribers (remove_entity_from_cell e s) = sn_subscribers s"
  "sn_entity_map (remove_entity_from_cell e s) = sn_entity_map s"
  "sn_sequences (remove_entity_from_cell e s) = sn_sequences s"
  "sn_state_map (remove_entity_from_cell e s) = sn_state_map s"
  "sn_bytes (remove_entity_from_cell e s) = sn_bytes s"
  "sn_entity_cells (remove_entity_from_cell e s) = bt_remove e (sn_entity_cells s)"
proof -
  obtain ec ce where eq: "remove_entity_from_cell e s = s\<lparr>sn_entity_cells := ec, sn_cell_entities := ce\<rparr>"
    using remove_entity_from_cell_frame by blast
  show "sn_members (remove_entity_from_cell e s) = sn_members s"
    "sn_space_map (remove_entity_from_cell e s) = sn_space_map s"
    "sn_tombstones (remove_entity_from_cell e s) = sn_tombstones s"
    "sn_subscribers (remove_entity_from_cell e s) = sn_subscribers s"
    "sn_entity_map (remove_entity_from_cell e s) = sn_entity_map s"
    "sn_sequences (remove_entity_from_cell e s) = sn_sequences s"
    "sn_state_map (remove_entity_from_cell e s) = sn_state_map s"
    "sn_bytes (remove_entity_from_cell e s) = sn_bytes s"
    by (simp_all add: eq)
  show "sn_entity_cells (remove_entity_from_cell e s) = bt_remove e (sn_entity_cells s)"
    by (cases "bt_get (sn_entity_cells s) e")
      (simp_all add: remove_entity_from_cell_def Let_def bt_remove_absent)
qed

lemma bs_empty_iff: "bt_len es = 0 \<longleftrightarrow> \<not> (\<exists>x. bs_contains es x)"
  using bs_len_0 by auto

lemma remove_entity_from_cell_cells:
  assumes "bt_get (sn_entity_cells s) e = Some k"
  shows "bt_get (sn_cell_entities (remove_entity_from_cell e s)) k'
    = (if k' = k then (case bt_get (sn_cell_entities s) k of None \<Rightarrow> None
         | Some es \<Rightarrow> if bt_len (bs_remove e es) = 0 then None else Some (bs_remove e es))
       else bt_get (sn_cell_entities s) k')"
  using assms
  by (cases "bt_get (sn_cell_entities s) k") (auto simp: remove_entity_from_cell_def Let_def bt_get_modify)

lemma index_wf_remove:
  assumes inv: "index_wf (sn_entity_cells s) (sn_cell_entities s)"
  shows "index_wf (sn_entity_cells (remove_entity_from_cell e s)) (sn_cell_entities (remove_entity_from_cell e s))"
proof (cases "bt_get (sn_entity_cells s) e")
  case None
  then show ?thesis using inv by (simp add: remove_entity_from_cell_def)
next
  case (Some k)
  have i1: "bt_get (sn_entity_cells s) x = Some c
      \<longleftrightarrow> (\<exists>es. bt_get (sn_cell_entities s) c = Some es \<and> bs_contains es x)" for x c
    using inv unfolding index_wf_def by blast
  obtain es where es: "bt_get (sn_cell_entities s) k = Some es" "bs_contains es e"
    using i1 Some by blast
  note get = remove_entity_from_cell_cells [OF Some]
  have only: "\<not> bs_contains fs e" if "bt_get (sn_cell_entities s) c = Some fs" "c \<noteq> k" for c fs
    using i1 [of e c] Some that by auto
  show ?thesis
    unfolding index_wf_def remove_entity_from_cell_fields
  proof (intro conjI allI impI)
    fix x c
    show "bt_get (bt_remove e (sn_entity_cells s)) x = Some c
        \<longleftrightarrow> (\<exists>fs. bt_get (sn_cell_entities (remove_entity_from_cell e s)) c = Some fs \<and> bs_contains fs x)"
      using i1 [of x c] es only by (auto simp: get bs_empty_iff split: if_splits)
  next
    fix c fs
    assume "bt_get (sn_cell_entities (remove_entity_from_cell e s)) c = Some fs"
    then show "\<exists>x. bs_contains fs x"
      using inv es(1) unfolding index_wf_def
      by (auto simp: get bs_empty_iff split: if_splits)
  qed
qed

lemma insert_entity_into_cell_fields [simp]:
  "sn_members (insert_entity_into_cell e k s) = sn_members s"
  "sn_space_map (insert_entity_into_cell e k s) = sn_space_map s"
  "sn_tombstones (insert_entity_into_cell e k s) = sn_tombstones s"
  "sn_subscribers (insert_entity_into_cell e k s) = sn_subscribers s"
  "sn_entity_map (insert_entity_into_cell e k s) = sn_entity_map s"
  "sn_sequences (insert_entity_into_cell e k s) = sn_sequences s"
  "sn_state_map (insert_entity_into_cell e k s) = sn_state_map s"
  "sn_bytes (insert_entity_into_cell e k s) = sn_bytes s"
  "sn_entity_cells (insert_entity_into_cell e k s) = bt_insert e k (sn_entity_cells s)"
  by (simp_all add: insert_entity_into_cell_def)

lemma index_wf_insert:
  assumes inv: "index_wf (sn_entity_cells s) (sn_cell_entities s)"
    and new: "bt_get (sn_entity_cells s) e = None"
  shows "index_wf (sn_entity_cells (insert_entity_into_cell e k s)) (sn_cell_entities (insert_entity_into_cell e k s))"
proof -
  have i1: "bt_get (sn_entity_cells s) x = Some c
      \<longleftrightarrow> (\<exists>es. bt_get (sn_cell_entities s) c = Some es \<and> bs_contains es x)" for x c
    using inv unfolding index_wf_def by blast
  have i2: "bt_get (sn_cell_entities s) c = Some es \<Longrightarrow> \<exists>x. bs_contains es x" for c es
    using inv unfolding index_wf_def by blast
  have absent: "\<not> bs_contains es e" if "bt_get (sn_cell_entities s) c = Some es" for c es
    using i1 [of e c] new that by auto
  show ?thesis
    unfolding index_wf_def insert_entity_into_cell_fields
    using i1 i2 absent
    by (auto simp: insert_entity_into_cell_def bt_get_insert split: option.splits if_splits)
qed

section \<open>Members, subscribers, keys\<close>

lemma session_wf_members [simp]:
  "session_wf config nxt (s\<lparr>sn_members := m\<rparr>) = session_wf config nxt s"
  by (simp add: wf_defs live_scope_def current_space_def)

lemma session_wf_subscribers:
  assumes "session_wf config nxt s" "\<And>sp. bt_contains_key subs sp = bt_contains_key (sn_subscribers s) sp"
  shows "session_wf config nxt (s\<lparr>sn_subscribers := subs\<rparr>)"
  using assms by (simp add: wf_defs live_scope_def current_space_def)

lemma session_wf_retain_sequences:
  assumes wf: "session_wf config nxt s"
  shows "session_wf config nxt (s\<lparr>sn_sequences := bt_retain P (sn_sequences s)\<rparr>)"
proof -
  have "bt_len (bt_retain P (sn_sequences s)) \<le> cc_max_sequence_keys_per_session config"
    using wf bt_len_retain_le [of P "sn_sequences s"] by (simp add: session_wf_def limits_wf_def)
  moreover have "bt_get (sn_sequences s) k = Some v" if "bt_get (bt_retain P (sn_sequences s)) k = Some v" for k v
    using that by (auto split: option.splits if_splits)
  ultimately show ?thesis
    using wf unfolding wf_defs live_scope_def current_space_def by (simp split del: if_split)
      (metis (no_types, lifting))
qed

lemma session_wf_detach:
  assumes "session_wf config nxt s"
  shows "session_wf config nxt (snd (detach_session_state cid summary s))"
proof -
  have "session_wf config nxt (s\<lparr>sn_sequences := bt_retain (\<lambda>k _. sqk_connection k \<noteq> cid) (sn_sequences s)\<rparr>)"
    using assms by (rule session_wf_retain_sequences)
  then have "session_wf config nxt (s\<lparr>sn_sequences := bt_retain (\<lambda>k _. sqk_connection k \<noteq> cid) (sn_sequences s),
      sn_subscribers := bt_map (\<lambda>_. bs_remove cid) (sn_subscribers s)\<rparr>)"
    by (rule session_wf_subscribers) simp
  moreover have "snd (detach_session_state cid summary s)
    = (s\<lparr>sn_sequences := bt_retain (\<lambda>k _. sqk_connection k \<noteq> cid) (sn_sequences s),
      sn_subscribers := bt_map (\<lambda>_. bs_remove cid) (sn_subscribers s)\<rparr>)
      \<lparr>sn_members := bs_remove cid (sn_members s)\<rparr>"
    by (simp add: detach_session_state_def)
  ultimately show ?thesis by (simp only: session_wf_members)
qed

section \<open>Entities\<close>

lemma session_wf_spawn:
  assumes wf: "session_wf config nxt s" and sp: "current_space s sp epoch"
    and nz: "nxt \<noteq> 0" and lt: "nxt < nxt'"
    and room: "bt_len (sn_entity_map s) < cc_max_entities_per_session config"
  shows "session_wf config nxt' (s\<lparr>sn_entity_map := bt_insert nxt \<lparr>er_id = nxt,
    er_owner_connection = cid, er_owner_principal = pid, er_space = sp, er_space_epoch = epoch,
    er_position = None\<rparr> (sn_entity_map s)\<rparr>)" (is "session_wf _ _ ?s")
proof -
  note w = session_wfD [OF wf]
  have fresh: "bt_get (sn_entity_map s) nxt = None"
    using w(2) unfolding entities_wf_def by (cases "bt_get (sn_entity_map s) nxt") auto
  have "entities_wf nxt' ?s"
    using w(2) sp nz lt unfolding entities_wf_def current_space_def
    by (auto simp: bt_get_insert intro: less_trans)
  moreover have "cells_wf ?s"
    using w(3) fresh unfolding cells_wf_index by (fastforce simp: bt_get_insert)
  moreover have "parents_wf ?s" using w(4) unfolding parents_wf_def by (auto simp: bt_get_insert)
  moreover have "keys_wf ?s"
    using w(5) fresh unfolding keys_wf_def live_scope_def current_space_def
    by (fastforce simp: bt_get_insert)
  moreover have "limits_wf config ?s"
    using w(6) room fresh by (simp add: limits_wf_def bt_len_insert)
  moreover have "spaces_wf ?s" using w(1) by (simp add: spaces_wf_def)
  ultimately show ?thesis by (simp add: session_wf_def)
qed

lemma place_entity_index:
  assumes inv: "index_wf (sn_entity_cells s) (sn_cell_entities s)"
  shows "index_wf (sn_entity_cells (place_entity e cell pos s)) (sn_cell_entities (place_entity e cell pos s))"
    and "bt_get (sn_entity_cells (place_entity e cell pos s)) e' =
      (if e' = e then cell else bt_get (sn_entity_cells s) e')"
    and "sn_entity_map (place_entity e cell pos s)
      = bt_modify e (\<lambda>r. r\<lparr>er_position := Some pos\<rparr>) (sn_entity_map s)"
  using inv index_wf_insert [OF index_wf_remove [OF inv]] index_wf_remove [OF inv]
  by (simp_all add: place_entity_def Let_def bt_get_insert split: option.split)

lemma place_entity_fields [simp]:
  "sn_members (place_entity e cell pos s) = sn_members s"
  "sn_space_map (place_entity e cell pos s) = sn_space_map s"
  "sn_tombstones (place_entity e cell pos s) = sn_tombstones s"
  "sn_subscribers (place_entity e cell pos s) = sn_subscribers s"
  "sn_sequences (place_entity e cell pos s) = sn_sequences s"
  "sn_state_map (place_entity e cell pos s) = sn_state_map s"
  "sn_bytes (place_entity e cell pos s) = sn_bytes s"
  by (simp_all add: place_entity_def Let_def split: option.split)

lemma session_wf_place:
  assumes wf: "session_wf config nxt s" and r: "bt_get (sn_entity_map s) e = Some r"
    and cell: "\<And>k. cell = Some k \<Longrightarrow> sc_space k = er_space r \<and> sc_space_epoch k = er_space_epoch r"
  shows "session_wf config nxt (place_entity e cell pos s)"
proof -
  note w = session_wfD [OF wf]
  have inv: "index_wf (sn_entity_cells s) (sn_cell_entities s)" using w(3) by (simp add: cells_wf_index)
  note p = place_entity_index [OF inv, of e cell pos]
  have get: "bt_get (sn_entity_map (place_entity e cell pos s)) x
      = (if x = e then Some (r\<lparr>er_position := Some pos\<rparr>) else bt_get (sn_entity_map s) x)" for x
    using r by (simp add: p(3) bt_get_modify)
  have "entities_wf nxt (place_entity e cell pos s)"
    using w(2) r unfolding entities_wf_def current_space_def by (auto simp: get)
  moreover have "cells_wf (place_entity e cell pos s)"
    unfolding cells_wf_index
    using p(1,2) w(3) cell unfolding cells_wf_index by (auto simp: get)
  moreover have "parents_wf (place_entity e cell pos s)"
    using w(4) unfolding parents_wf_def by (auto simp: p(3))
  moreover have "live_scope (place_entity e cell pos s) sp epoch entity"
    if "live_scope s sp epoch entity" for sp epoch entity
    using that r unfolding live_scope_def current_space_def by (auto simp: get)
  then have "keys_wf (place_entity e cell pos s)" using w(5) unfolding keys_wf_def by simp
  moreover have "limits_wf config (place_entity e cell pos s)"
    using w(6) by (simp add: limits_wf_def p(3))
  moreover have "spaces_wf (place_entity e cell pos s)" using w(1) by (simp add: spaces_wf_def)
  ultimately show ?thesis by (simp add: session_wf_def)
qed

lemma bt_len_retain_bound: "bt_len m \<le> n \<Longrightarrow> bt_len (bt_retain P m) \<le> n"
  using bt_len_retain_le [of P m] by simp

lemma recompute_fields [simp]:
  "sn_members (recompute_state_bytes s) = sn_members s"
  "sn_space_map (recompute_state_bytes s) = sn_space_map s"
  "sn_tombstones (recompute_state_bytes s) = sn_tombstones s"
  "sn_subscribers (recompute_state_bytes s) = sn_subscribers s"
  "sn_entity_map (recompute_state_bytes s) = sn_entity_map s"
  "sn_entity_cells (recompute_state_bytes s) = sn_entity_cells s"
  "sn_cell_entities (recompute_state_bytes s) = sn_cell_entities s"
  "sn_sequences (recompute_state_bytes s) = sn_sequences s"
  "sn_state_map (recompute_state_bytes s) = sn_state_map s"
  "sn_bytes (recompute_state_bytes s) = state_total (sn_state_map s)"
  by (simp_all add: recompute_state_bytes_def)

text \<open>Retaining state entries keeps the byte bound, since the bytes are recomputed.\<close>

lemma limits_wf_shrink:
  assumes "limits_wf config s"
    and "sn_bytes s' = state_total (sn_state_map s')" "sn_state_map s' = bt_retain P (sn_state_map s)"
    and "sn_sequences s' = bt_retain Q (sn_sequences s)"
    and "bt_len (sn_entity_map s') \<le> bt_len (sn_entity_map s)"
    and "bt_len (sn_space_map s') \<le> bt_len (sn_space_map s)"
    and "bt_len (sn_space_map s') + bt_len (sn_tombstones s')
      \<le> bt_len (sn_space_map s) + bt_len (sn_tombstones s)"
  shows "limits_wf config s'"
  using assms state_total_retain_le [of P "sn_state_map s"] bt_len_retain_le [of P "sn_state_map s"]
    bt_len_retain_le [of Q "sn_sequences s"]
  by (simp add: limits_wf_def)

lemma keys_wf_retain:
  assumes "keys_wf s"
    and "sn_state_map s' = bt_retain (\<lambda>k _. P (stk_space k) (stk_space_epoch k) (stk_entity k)) (sn_state_map s)"
    and "sn_sequences s' = bt_retain (\<lambda>k _. P (sqk_space k) (sqk_space_epoch k) (sqk_entity k)) (sn_sequences s)"
    and "\<And>sp epoch entity. live_scope s sp epoch entity \<Longrightarrow> P sp epoch entity \<Longrightarrow> live_scope s' sp epoch entity"
  shows "keys_wf s'"
  using assms(1,4) unfolding keys_wf_def assms(2,3)
  by (auto split: option.splits if_splits)

section \<open>Transitions\<close>

lemma transition_session_fields:
  "sn_members (transition_session r s) = sn_members s"
  "sn_space_map (transition_session r s) = sn_space_map s"
  "sn_tombstones (transition_session r s) = sn_tombstones s"
  "sn_subscribers (transition_session r s) = sn_subscribers s"
  "sn_entity_map (transition_session r s) = bt_modify (tq_entity r) (\<lambda>e. e\<lparr>er_space := tq_destination_space r,
      er_space_epoch := tq_destination_epoch r, er_position := None\<rparr>) (sn_entity_map s)"
  "sn_entity_cells (transition_session r s) = bt_remove (tq_entity r) (sn_entity_cells s)"
  "sn_cell_entities (transition_session r s)
     = sn_cell_entities (remove_entity_from_cell (tq_entity r) s)"
  "sn_sequences (transition_session r s) = bt_retain (\<lambda>k _.
      keeps_key r (sqk_space k) (sqk_space_epoch k) (sqk_entity k)) (sn_sequences s)"
  "sn_state_map (transition_session r s) = bt_retain (\<lambda>k _.
      keeps_key r (stk_space k) (stk_space_epoch k) (stk_entity k)) (sn_state_map s)"
  "sn_bytes (transition_session r s) = state_total (sn_state_map (transition_session r s))"
  by (simp_all add: transition_session_def Let_def)

lemma session_wf_transition:
  assumes wf: "session_wf config nxt s"
    and e: "bt_get (sn_entity_map s) (tq_entity r) = Some e"
    and src: "er_space e = tq_source_space r" "er_space_epoch e = tq_source_epoch r"
    and dst: "current_space s (tq_destination_space r) (tq_destination_epoch r)"
  shows "session_wf config nxt (transition_session r s)" (is "session_wf _ _ ?s")
proof -
  note w = session_wfD [OF wf] and f = transition_session_fields [of r s]
  have inv: "index_wf (sn_entity_cells s) (sn_cell_entities s)" using w(3) by (simp add: cells_wf_index)
  have cur: "current_space ?s sp epoch = current_space s sp epoch" for sp epoch
    by (simp add: current_space_def f)
  have "entities_wf nxt ?s"
    using w(2) dst e unfolding entities_wf_def cur f(5) by (auto simp: bt_get_modify split: if_splits)
  moreover have "index_wf (sn_entity_cells ?s) (sn_cell_entities ?s)"
    using index_wf_remove [OF inv, of "tq_entity r"] by (simp add: f)
  then have "cells_wf ?s"
    using w(3) unfolding cells_wf_index f(5,6) by (auto simp: bt_get_modify split: if_splits)
  moreover have "parents_wf ?s" using w(4) unfolding parents_wf_def by (auto simp: f)
  moreover have "keys_wf ?s"
  proof (rule keys_wf_retain [OF w(5) f(9,8)])
    fix sp epoch entity
    assume l: "live_scope s sp epoch entity" "keeps_key r sp epoch entity"
    then have "epoch = tq_source_epoch r" if "sp = tq_source_space r"
      using that w(2) e src unfolding live_scope_def current_space_def entities_wf_def by fastforce
    then show "live_scope ?s sp epoch entity"
      using l e src unfolding live_scope_def cur f(5)
      by (auto simp: bt_get_modify keeps_key_def)
  qed
  moreover have "limits_wf config ?s"
    by (rule limits_wf_shrink [OF w(6) f(10,9,8)]) (simp_all add: f)
  moreover have "spaces_wf ?s" using w(1) by (simp add: spaces_wf_def f)
  ultimately show ?thesis by (simp add: session_wf_def)
qed

section \<open>Installing a space\<close>

lemma session_wf_install:
  assumes wf: "session_wf config nxt s" and ok: "sd_validate d = Inr ()"
    and checks: "install_space_checks config key d s = Inr ()"
  shows "session_wf config nxt (s\<lparr>sn_tombstones := bt_remove (sd_id d) (sn_tombstones s),
    sn_subscribers := bt_insert (sd_id d) bt_new (sn_subscribers s),
    sn_space_map := bt_insert (sd_id d) d (sn_space_map s)\<rparr>)" (is "session_wf _ _ ?s")
proof -
  note w = session_wfD [OF wf]
  have new: "bt_get (sn_space_map s) (sd_id d) = None"
    and room: "bt_len (sn_space_map s) \<noteq> cc_max_spaces_per_session config"
    and tomb: "bt_get (sn_tombstones s) (sd_id d) = None \<Longrightarrow> bt_len (sn_space_map s) + bt_len (sn_tombstones s)
      \<noteq> cc_max_space_epoch_tombstones_per_session config"
    and anchor: "\<And>p. sd_parent d = Some p \<Longrightarrow> bt_contains_key (sn_space_map s) (pa_parent_space p)
      \<and> bt_contains_key (sn_entity_map s) (pa_anchor_entity p)"
    using checks by (auto simp: install_space_checks_def bt_contains_key_def result_ok
        validate_parent_anchor_def split: if_splits option.splits)
  have cur: "current_space ?s sp epoch \<longleftrightarrow> (if sp = sd_id d then epoch = sd_epoch d else current_space s sp epoch)"
    for sp epoch by (auto simp: current_space_def bt_get_insert)
  have old: "sp \<noteq> sd_id d" if "current_space s sp epoch" for sp epoch
    using that new by (auto simp: current_space_def)
  have live: "live_scope ?s sp epoch entity" if "live_scope s sp epoch entity" for sp epoch entity
    using that old unfolding live_scope_def cur by auto
  have "entities_wf nxt ?s"
    using w(2) old unfolding entities_wf_def cur by auto
  moreover have "cells_wf ?s" using w(3) by (simp add: cells_wf_def)
  moreover have "parents_wf ?s"
    using w(4) anchor unfolding parents_wf_def by (auto simp: bt_get_insert split: if_splits)
  moreover have "keys_wf ?s" using w(5) live unfolding keys_wf_def by simp
  moreover have "bt_len (sn_space_map ?s) + bt_len (sn_tombstones ?s)
      \<le> cc_max_space_epoch_tombstones_per_session config"
  proof (cases "bt_get (sn_tombstones s) (sd_id d)")
    case None
    then show ?thesis using w(6) tomb new by (simp add: limits_wf_def bt_len_insert bt_len_remove)
  next
    case (Some t)
    then show ?thesis
      using w(6) new bt_len_pos [OF Some] by (simp add: limits_wf_def bt_len_insert bt_len_remove)
  qed
  then have "limits_wf config ?s" using w(6) new room by (simp add: limits_wf_def bt_len_insert)
  moreover have "spaces_wf ?s" using w(1) ok unfolding spaces_wf_def by (auto simp: bt_get_insert)
  ultimately show ?thesis by (simp add: session_wf_def)
qed

section \<open>Removing entities and spaces\<close>

lemma remove_cells_fields:
  "sn_members (foldl (\<lambda>s e. remove_entity_from_cell e s) s es) = sn_members s"
  "sn_space_map (foldl (\<lambda>s e. remove_entity_from_cell e s) s es) = sn_space_map s"
  "sn_tombstones (foldl (\<lambda>s e. remove_entity_from_cell e s) s es) = sn_tombstones s"
  "sn_subscribers (foldl (\<lambda>s e. remove_entity_from_cell e s) s es) = sn_subscribers s"
  "sn_entity_map (foldl (\<lambda>s e. remove_entity_from_cell e s) s es) = sn_entity_map s"
  "sn_sequences (foldl (\<lambda>s e. remove_entity_from_cell e s) s es) = sn_sequences s"
  "sn_state_map (foldl (\<lambda>s e. remove_entity_from_cell e s) s es) = sn_state_map s"
  "bt_get (sn_entity_cells (foldl (\<lambda>s e. remove_entity_from_cell e s) s es)) x
     = (if x \<in> set es then None else bt_get (sn_entity_cells s) x)"
  by (induction es arbitrary: s) auto

lemma remove_cells_index:
  "index_wf (sn_entity_cells s) (sn_cell_entities s) \<Longrightarrow>
     index_wf (sn_entity_cells (foldl (\<lambda>s e. remove_entity_from_cell e s) s es))
       (sn_cell_entities (foldl (\<lambda>s e. remove_entity_from_cell e s) s es))"
proof (induction es arbitrary: s)
  case (Cons e es)
  show ?case unfolding foldl_Cons by (rule Cons.IH) (rule index_wf_remove [OF Cons.prems])
qed simp

lemma remove_spaces_fields:
  "sn_members (snd (remove_spaces xs s)) = sn_members s"
  "sn_entity_map (snd (remove_spaces xs s)) = sn_entity_map s"
  "sn_entity_cells (snd (remove_spaces xs s)) = sn_entity_cells s"
  "sn_cell_entities (snd (remove_spaces xs s)) = sn_cell_entities s"
  "sn_sequences (snd (remove_spaces xs s)) = sn_sequences s"
  "sn_state_map (snd (remove_spaces xs s)) = sn_state_map s"
  "bt_get (sn_space_map (snd (remove_spaces xs s))) x
     = (if x \<in> set xs then None else bt_get (sn_space_map s) x)"
  "bt_get (sn_subscribers (snd (remove_spaces xs s))) x
     = (if x \<in> set xs then None else bt_get (sn_subscribers s) x)"
  by (induction xs arbitrary: s) (auto simp: Let_def split_beta split: option.split)

lemma remove_spaces_tombstones:
  assumes "\<And>sp d. bt_get (sn_space_map s) sp = Some d \<Longrightarrow> sd_id d = sp"
  shows "bt_get (sn_tombstones (snd (remove_spaces xs s))) x
    = (if x \<in> set xs \<and> bt_get (sn_space_map s) x \<noteq> None
       then Some (sd_epoch (the (bt_get (sn_space_map s) x))) else bt_get (sn_tombstones s) x)"
  using assms
proof (induction xs arbitrary: s)
  case (Cons y ys)
  let ?s1 = "case bt_get (sn_space_map s) y of None \<Rightarrow> s
    | Some d \<Rightarrow> s\<lparr>sn_space_map := bt_remove y (sn_space_map s),
        sn_tombstones := bt_insert (sd_id d) (sd_epoch d) (sn_tombstones s)\<rparr>"
  let ?s2 = "?s1\<lparr>sn_subscribers := bt_remove y (sn_subscribers ?s1)\<rparr>"
  have ids: "sd_id d = sp" if "bt_get (sn_space_map ?s2) sp = Some d" for sp d
    using that Cons.prems by (auto split: option.splits if_splits)
  have eq: "snd (remove_spaces (y # ys) s) = snd (remove_spaces ys ?s2)"
    by (simp add: Let_def split_beta)
  have ih: "bt_get (sn_tombstones (snd (remove_spaces ys ?s2))) x
    = (if x \<in> set ys \<and> bt_get (sn_space_map ?s2) x \<noteq> None
       then Some (sd_epoch (the (bt_get (sn_space_map ?s2) x))) else bt_get (sn_tombstones ?s2) x)"
    by (rule Cons.IH [OF ids])
  show ?case
    unfolding eq ih using Cons.prems by (auto simp: bt_get_insert split: option.split)
qed simp

lemma remove_spaces_lens:
  "bt_len (sn_space_map (snd (remove_spaces xs s))) \<le> bt_len (sn_space_map s)
   \<and> bt_len (sn_space_map (snd (remove_spaces xs s))) + bt_len (sn_tombstones (snd (remove_spaces xs s)))
      \<le> bt_len (sn_space_map s) + bt_len (sn_tombstones s)"
proof (induction xs arbitrary: s)
  case (Cons y ys)
  let ?s1 = "case bt_get (sn_space_map s) y of None \<Rightarrow> s
    | Some d \<Rightarrow> s\<lparr>sn_space_map := bt_remove y (sn_space_map s),
        sn_tombstones := bt_insert (sd_id d) (sd_epoch d) (sn_tombstones s)\<rparr>"
  let ?s2 = "?s1\<lparr>sn_subscribers := bt_remove y (sn_subscribers ?s1)\<rparr>"
  have eq: "snd (remove_spaces (y # ys) s) = snd (remove_spaces ys ?s2)"
    by (simp add: Let_def split_beta)
  have "bt_len (sn_space_map ?s2) \<le> bt_len (sn_space_map s)
    \<and> bt_len (sn_space_map ?s2) + bt_len (sn_tombstones ?s2) \<le> bt_len (sn_space_map s) + bt_len (sn_tombstones s)"
  proof (cases "bt_get (sn_space_map s) y")
    case (Some d)
    then show ?thesis
      using bt_len_pos [OF Some] bt_len_insert_le [of "sd_id d" "sd_epoch d" "sn_tombstones s"]
      by (simp add: bt_len_remove)
  qed simp
  then show ?case using Cons.IH [of ?s2] unfolding eq by linarith
qed simp

definition scope_kept :: "entity_id btset \<Rightarrow> space_id btset \<Rightarrow> space_id \<Rightarrow> space_epoch \<Rightarrow> entity_id option \<Rightarrow> bool" where
  "scope_kept E S sp epoch entity \<longleftrightarrow> \<not> bs_contains S sp \<and> \<not> entity_removed E entity"

lemma removed_from_session_fields:
  "sn_members (snd (removed_from_session key E S s)) = sn_members s"
  "bt_get (sn_space_map (snd (removed_from_session key E S s))) sp
     = (if bs_contains S sp then None else bt_get (sn_space_map s) sp)"
  "bt_get (sn_subscribers (snd (removed_from_session key E S s))) sp
     = (if bs_contains S sp then None else bt_get (sn_subscribers s) sp)"
  "sn_entity_map (snd (removed_from_session key E S s))
     = bt_retain (\<lambda>e _. \<not> bs_contains E e) (sn_entity_map s)"
  "bt_get (sn_entity_cells (snd (removed_from_session key E S s))) e
     = (if bs_contains E e then None else bt_get (sn_entity_cells s) e)"
  "sn_state_map (snd (removed_from_session key E S s))
     = bt_retain (\<lambda>k _. scope_kept E S (stk_space k) (stk_space_epoch k) (stk_entity k)) (sn_state_map s)"
  "sn_sequences (snd (removed_from_session key E S s))
     = bt_retain (\<lambda>k _. scope_kept E S (sqk_space k) (sqk_space_epoch k) (sqk_entity k)) (sn_sequences s)"
  "sn_bytes (snd (removed_from_session key E S s))
     = state_total (sn_state_map (snd (removed_from_session key E S s)))"
  by (simp_all add: removed_from_session_def Let_def split_beta remove_cells_fields remove_spaces_fields
      bs_contains_keys scope_kept_def)

lemma removed_from_session_lens:
  "bt_len (sn_space_map (snd (removed_from_session key E S s))) \<le> bt_len (sn_space_map s)"
  "bt_len (sn_space_map (snd (removed_from_session key E S s)))
     + bt_len (sn_tombstones (snd (removed_from_session key E S s)))
     \<le> bt_len (sn_space_map s) + bt_len (sn_tombstones s)"
  using remove_spaces_lens [of "bt_keys S" "foldl (\<lambda>s e. remove_entity_from_cell e s) s (bt_keys E)
      \<lparr>sn_entity_map := bt_retain (\<lambda>e _. \<not> bs_contains E e)
        (sn_entity_map (foldl (\<lambda>s e. remove_entity_from_cell e s) s (bt_keys E)))\<rparr>"]
  by (simp_all add: removed_from_session_def Let_def split_beta remove_cells_fields)

lemma removed_from_session_index:
  assumes "index_wf (sn_entity_cells s) (sn_cell_entities s)"
  shows "index_wf (sn_entity_cells (snd (removed_from_session key E S s)))
    (sn_cell_entities (snd (removed_from_session key E S s)))"
  using remove_cells_index [OF assms, of "bt_keys E"]
  by (simp add: removed_from_session_def Let_def split_beta remove_spaces_fields)

lemma removed_from_session_tombstones:
  assumes "\<And>sp d. bt_get (sn_space_map s) sp = Some d \<Longrightarrow> sd_id d = sp"
  shows "bt_get (sn_tombstones (snd (removed_from_session key E S s))) sp
    = (if bs_contains S sp \<and> bt_get (sn_space_map s) sp \<noteq> None
       then Some (sd_epoch (the (bt_get (sn_space_map s) sp))) else bt_get (sn_tombstones s) sp)"
proof -
  let ?t = "foldl (\<lambda>s e. remove_entity_from_cell e s) s (bt_keys E)\<lparr>sn_entity_map :=
      bt_retain (\<lambda>e _. \<not> bs_contains E e)
        (sn_entity_map (foldl (\<lambda>s e. remove_entity_from_cell e s) s (bt_keys E)))\<rparr>"
  have "bt_get (sn_space_map ?t) sp = Some d \<Longrightarrow> sd_id d = sp" for sp d
    using assms by (simp add: remove_cells_fields)
  from remove_spaces_tombstones [where s = ?t and xs = "bt_keys S" and x = sp, OF this] show ?thesis
    by (auto simp: removed_from_session_def Let_def split_beta remove_cells_fields bs_contains_keys)
qed

lemma session_wf_removed:
  assumes wf: "session_wf config nxt s" and close: "close_removed s start bt_new = (E, S)"
  shows "session_wf config nxt (snd (removed_from_session key E S s))" (is "session_wf _ _ ?s")
proof -
  note w = session_wfD [OF wf] and f = removed_from_session_fields [of key E S s]
  note exact = close_removed_exact [OF close]
  have ids: "sd_id d = sp" if "bt_get (sn_space_map s) sp = Some d" for sp d
    using w(1) that unfolding spaces_wf_def by blast
  have eid: "er_id r = e" if "bt_get (sn_entity_map s) e = Some r" for e r
    using w(2) that unfolding entities_wf_def by blast
  have inhabitant: "bs_contains E e" if "bt_get (sn_entity_map s) e = Some r" "bs_contains S (er_space r)" for e r
    using that by_space [of r s start] eid [OF that(1)] by (auto simp: exact in_bt_values)
  have anchored: "bs_contains S sp" if "bt_get (sn_space_map s) sp = Some d" "sd_parent d = Some p"
    "bs_contains E (pa_anchor_entity p) \<or> bs_contains S (pa_parent_space p)" for sp d p
    using that by_anchor [of d s p start] by_parent [of d s p start] ids [OF that(1)]
    by (auto simp: exact in_bt_values)
  have cur: "current_space ?s sp epoch \<longleftrightarrow> \<not> bs_contains S sp \<and> current_space s sp epoch" for sp epoch
    by (auto simp: current_space_def f)
  have "entities_wf nxt ?s"
    using w(2) inhabitant unfolding entities_wf_def cur f(4)
    by (auto split: option.splits if_splits)
  moreover have "cells_wf ?s"
    using w(3) removed_from_session_index [of s key E S] unfolding cells_wf_index f(4)
    by (force simp: f(5) split: if_splits)
  moreover have "parents_wf ?s"
    using w(4) anchored unfolding parents_wf_def f(4)
    by (fastforce simp: f(2) bt_contains_key_def split: if_splits option.split)
  moreover have "keys_wf ?s"
  proof (rule keys_wf_retain [OF w(5) f(6,7)])
    fix sp epoch entity
    assume "live_scope s sp epoch entity" "scope_kept E S sp epoch entity"
    then show "live_scope ?s sp epoch entity"
      unfolding live_scope_def scope_kept_def cur f(4) by (auto simp: entity_removed_def)
  qed
  moreover have "limits_wf config ?s"
    by (rule limits_wf_shrink [OF w(6) f(8,6,7)]) (simp_all add: f(4) bt_len_retain_le removed_from_session_lens)
  moreover have "spaces_wf ?s"
    using w(1) unfolding spaces_wf_def
    by (auto simp: f(2,3) removed_from_session_tombstones [OF ids] bt_contains_key_def)
  ultimately show ?thesis by (simp add: session_wf_def)
qed

section \<open>Advancing an epoch\<close>

lemma sd_validate_epoch:
  assumes "sd_validate d = Inr ()" "p \<noteq> 0"
  shows "sd_validate (d\<lparr>sd_epoch := p\<rparr>) = Inr ()"
  using assms by (auto simp: sd_validate_def sd_validate_ids_def result_ok split: if_splits option.splits)

lemma session_wf_advance:
  assumes wf: "session_wf config nxt s" and sp: "bt_get (sn_space_map s) sp = Some d" and p: "p \<noteq> 0"
    and empty: "\<And>e r. bt_get (sn_entity_map s) e = Some r \<Longrightarrow> er_space r \<noteq> sp"
  shows "session_wf config nxt (advance_session_epoch sp p s)" (is "session_wf _ _ ?s")
proof -
  note w = session_wfD [OF wf]
  have f: "sn_space_map ?s = bt_modify sp (\<lambda>d. d\<lparr>sd_epoch := p\<rparr>) (sn_space_map s)"
    "sn_tombstones ?s = sn_tombstones s" "sn_subscribers ?s = sn_subscribers s"
    "sn_entity_map ?s = sn_entity_map s" "sn_entity_cells ?s = sn_entity_cells s"
    "sn_cell_entities ?s = sn_cell_entities s"
    "sn_state_map ?s = bt_retain (\<lambda>k _. stk_space k \<noteq> sp) (sn_state_map s)"
    "sn_sequences ?s = bt_retain (\<lambda>k _. sqk_space k \<noteq> sp) (sn_sequences s)"
    "sn_bytes ?s = state_total (sn_state_map ?s)"
    by (simp_all add: advance_session_epoch_def Let_def)
  have cur: "current_space ?s x epoch = current_space s x epoch" if "x \<noteq> sp" for x epoch
    using that by (simp add: current_space_def f bt_get_modify)
  have "entities_wf nxt ?s"
    using w(2) empty cur unfolding entities_wf_def f(4) by blast
  moreover have "cells_wf ?s" using w(3) by (simp add: cells_wf_def f)
  moreover have "parents_wf ?s"
    using w(4) sp unfolding parents_wf_def f(1,4) by (auto simp: bt_get_modify split: if_splits)
  moreover have "keys_wf ?s"
    by (rule keys_wf_retain [where P = "\<lambda>x _ _. x \<noteq> sp", OF w(5) f(7,8)])
      (use cur in \<open>auto simp: live_scope_def f\<close>)
  moreover have "limits_wf config ?s"
    by (rule limits_wf_shrink [OF w(6) f(9,7,8)]) (simp_all add: f)
  moreover have "spaces_wf ?s"
    using w(1) sp p unfolding spaces_wf_def f(1-3)
    by (auto simp: bt_get_modify sd_validate_epoch split: if_splits)
  ultimately show ?thesis by (simp add: session_wf_def)
qed

section \<open>Committing a publish\<close>

text \<open>The projected sizes are the sizes the commit reaches, as long as nothing saturates.\<close>

lemma store_state_fields [simp]:
  "sn_members (store_state s m) = sn_members s" "sn_space_map (store_state s m) = sn_space_map s"
  "sn_tombstones (store_state s m) = sn_tombstones s"
  "sn_subscribers (store_state s m) = sn_subscribers s"
  "sn_entity_map (store_state s m) = sn_entity_map s"
  "sn_entity_cells (store_state s m) = sn_entity_cells s"
  "sn_cell_entities (store_state s m) = sn_cell_entities s"
  "sn_sequences (store_state s m) = sn_sequences s"
  "sn_state_map (store_state s m) = bt_insert (message_state_key m)
     \<lparr>sr_sequence = am_sequence m, sr_payload = am_payload m\<rparr> (sn_state_map s)"
  by (simp_all add: store_state_def Let_def)

lemma store_state_bytes:
  assumes "sn_bytes s = state_total (sn_state_map s)"
  shows "sn_bytes (store_state s m) = state_total (sn_state_map (store_state s m))"
    and "sn_bytes (store_state s m) \<le> sn_bytes s + length (am_payload m)"
proof -
  let ?r = "\<lparr>sr_sequence = am_sequence m, sr_payload = am_payload m\<rparr>"
  have "state_total (bt_insert (message_state_key m) ?r (sn_state_map s))
      + (case bt_get (sn_state_map s) (message_state_key m) of None \<Rightarrow> 0 | Some p \<Rightarrow> length (sr_payload p))
      = sn_bytes s + length (am_payload m)"
    using state_total_insert [of "message_state_key m" ?r "sn_state_map s"] assms by simp
  moreover have "length (sr_payload p) \<le> sn_bytes s"
    if "bt_get (sn_state_map s) (message_state_key m) = Some p" for p
    using bt_sum_le_get [OF that, of "\<lambda>_ r. length (sr_payload r)"] assms by (simp add: state_total_sum)
  ultimately show "sn_bytes (store_state s m) = state_total (sn_state_map (store_state s m))"
    "sn_bytes (store_state s m) \<le> sn_bytes s + length (am_payload m)"
    by (auto simp: store_state_def Let_def split: option.splits)
qed

lemma project_state_store:
  assumes "\<And>k. (case bt_get projected k of Some len \<Rightarrow> Some len
        | None \<Rightarrow> map_option (\<lambda>r. length (sr_payload r)) (bt_get (sn_state_map s0) k))
      = map_option (\<lambda>r. length (sr_payload r)) (bt_get (sn_state_map s) k)"
    and "sn_bytes s = state_total (sn_state_map s)"
    and "sn_bytes s + (\<Sum>m\<leftarrow>ms. length (am_payload m)) \<le> usize_max"
  shows "project_state s0 ms projected (bt_len (sn_state_map s), sn_bytes s)
    = (bt_len (sn_state_map (foldl store_state s ms)), sn_bytes (foldl store_state s ms))"
  using assms
proof (induction ms arbitrary: projected s)
  case (Cons m ms)
  let ?k = "message_state_key m"
  let ?s = "store_state s m"
  let ?p = "bt_insert ?k (length (am_payload m)) projected"
  note b = store_state_bytes [OF Cons.prems(2), of m]
  have ih: "project_state s0 ms ?p (bt_len (sn_state_map ?s), sn_bytes ?s)
    = (bt_len (sn_state_map (foldl store_state ?s ms)), sn_bytes (foldl store_state ?s ms))"
  proof (rule Cons.IH)
    show "(case bt_get ?p k of Some len \<Rightarrow> Some len
        | None \<Rightarrow> map_option (\<lambda>r. length (sr_payload r)) (bt_get (sn_state_map s0) k))
      = map_option (\<lambda>r. length (sr_payload r)) (bt_get (sn_state_map ?s) k)" for k
      using Cons.prems(1) [of k] by (simp add: bt_get_insert)
    show "sn_bytes ?s = state_total (sn_state_map ?s)" by (rule b(1))
    show "sn_bytes ?s + (\<Sum>m\<leftarrow>ms. length (am_payload m)) \<le> usize_max"
      using b(2) Cons.prems(3) by simp
  qed
  have "sn_bytes ?s = usize_saturating_add (case bt_get (sn_state_map s) ?k of
      Some r \<Rightarrow> sn_bytes s - length (sr_payload r) | None \<Rightarrow> sn_bytes s) (length (am_payload m))"
    using Cons.prems(3) by (auto simp: store_state_def Let_def usize_saturating_add_def split: option.split)
  then show ?case
    using Cons.prems(1) [of ?k] ih
    by (cases "bt_get (sn_state_map s) ?k") (simp_all add: Let_def bt_len_insert)
qed simp

lemma store_all_fields:
  "sn_members (foldl store_state s ms) = sn_members s"
  "sn_space_map (foldl store_state s ms) = sn_space_map s"
  "sn_tombstones (foldl store_state s ms) = sn_tombstones s"
  "sn_subscribers (foldl store_state s ms) = sn_subscribers s"
  "sn_entity_map (foldl store_state s ms) = sn_entity_map s"
  "sn_entity_cells (foldl store_state s ms) = sn_entity_cells s"
  "sn_cell_entities (foldl store_state s ms) = sn_cell_entities s"
  "sn_sequences (foldl store_state s ms) = sn_sequences s"
  "sn_bytes s = state_total (sn_state_map s) \<Longrightarrow>
     sn_bytes (foldl store_state s ms) = state_total (sn_state_map (foldl store_state s ms))"
  by (induction ms arbitrary: s) (simp_all add: store_state_bytes(1) [simplified])

lemma store_all_keys:
  "bt_get (sn_state_map (foldl store_state s ms)) k = Some r \<Longrightarrow>
     bt_get (sn_state_map s) k = Some r \<or> (\<exists>m\<in>set ms. k = message_state_key m)"
  by (induction ms arbitrary: s) (fastforce simp: bt_get_insert split: if_splits)+

lemma insert_planned:
  "bt_get (foldl (\<lambda>m (k, v). bt_insert k v m) m xs) k
     = (case map_of (rev xs) k of Some v \<Rightarrow> Some v | None \<Rightarrow> bt_get m k)"
  by (induction xs arbitrary: m)
    (auto simp: bt_get_insert map_add_def split: option.splits)

definition commit_sequences :: "planned \<Rightarrow> (sequence_key, u64) btmap \<Rightarrow> (sequence_key, u64) btmap" where
  "commit_sequences planned m = foldl (\<lambda>m (k, v). bt_insert k v m) m (bt_iter planned)"

lemma commit_sequences_get [simp]:
  "bt_get (commit_sequences planned m) k
     = (case bt_get planned k of Some v \<Rightarrow> Some v | None \<Rightarrow> bt_get m k)"
proof -
  have "distinct (map fst xs) \<Longrightarrow> map_of (rev xs) = map_of xs" for xs :: "(sequence_key \<times> u64) list"
    by (rule map_of_inject_set [THEN iffD2]) (simp_all add: rev_map [symmetric])
  then have "map_of (rev (bt_iter planned)) = map_of (bt_iter planned)" by simp
  then show ?thesis by (simp add: commit_sequences_def insert_planned bt_get_def [of planned])
qed

lemma commit_sequences_len:
  "bt_len (commit_sequences planned m)
     = bt_len m + length (filter (\<lambda>k. \<not> bt_contains_key m k) (bt_keys planned))"
proof -
  have "dom (bt_get (commit_sequences planned m))
      = dom (bt_get m) \<union> set (filter (\<lambda>k. \<not> bt_contains_key m k) (bt_keys planned))"
    by (auto simp: in_bt_keys bt_contains_key_def split: option.splits)
  moreover have "dom (bt_get m) \<inter> set (filter (\<lambda>k. \<not> bt_contains_key m k) (bt_keys planned)) = {}"
    by (auto simp: bt_contains_key_def)
  moreover have "card (set (filter (\<lambda>k. \<not> bt_contains_key m k) (bt_keys planned)))
      = length (filter (\<lambda>k. \<not> bt_contains_key m k) (bt_keys planned))"
    by (rule distinct_card) simp
  ultimately show ?thesis
    by (simp add: bt_len_card card_Un_disjoint del: set_filter)
qed

lemma commit_session_alt:
  "commit_session planned messages s
     = foldl store_state (s\<lparr>sn_sequences := commit_sequences planned (sn_sequences s)\<rparr>) (stateful messages)"
  by (simp add: commit_session_def commit_sequences_def)

lemma session_wf_commit:
  assumes wf: "session_wf config nxt s"
    and planned: "\<And>k v. bt_get planned k = Some v \<Longrightarrow>
      live_scope s (sqk_space k) (sqk_space_epoch k) (sqk_entity k)"
    and messages: "\<And>m. m \<in> set messages \<Longrightarrow> live_scope s (am_space m) (am_space_epoch m) (am_entity m)"
    and seqs: "bt_len (sn_sequences s)
      + length (filter (\<lambda>k. \<not> bt_contains_key (sn_sequences s) k) (bt_keys planned))
      \<le> cc_max_sequence_keys_per_session config"
    and state: "project_state s (stateful messages) bt_new (bt_len (sn_state_map s), sn_bytes s) = (n, b)"
      "n \<le> cc_max_state_entries_per_session config" "b \<le> cc_max_state_bytes_per_session config"
    and fit: "sn_bytes s + (\<Sum>m\<leftarrow>stateful messages. length (am_payload m)) \<le> usize_max"
  shows "session_wf config nxt (commit_session planned messages s)" (is "session_wf _ _ ?s")
proof -
  note w = session_wfD [OF wf]
  let ?s1 = "s\<lparr>sn_sequences := commit_sequences planned (sn_sequences s)\<rparr>"
  note f = store_all_fields [of ?s1 "stateful messages", folded commit_session_alt]
  have total: "sn_bytes s = state_total (sn_state_map s)" using w(6) by (simp add: limits_wf_def)
  have "project_state s (stateful messages) bt_new (bt_len (sn_state_map ?s1), sn_bytes ?s1)
      = (bt_len (sn_state_map ?s), sn_bytes ?s)"
    unfolding commit_session_alt by (rule project_state_store) (use total fit in simp_all)
  then have sizes: "bt_len (sn_state_map ?s) = n" "sn_bytes ?s = b" using state(1) by simp_all
  have bytes: "sn_bytes ?s = state_total (sn_state_map ?s)" by (rule f(9)) (simp add: total)
  have cur: "current_space ?s = current_space s" by (simp add: current_space_def fun_eq_iff f)
  then have live: "live_scope ?s = live_scope s" by (simp add: live_scope_def fun_eq_iff f)
  have "keys_wf ?s"
    unfolding keys_wf_def live f(8)
  proof (intro conjI allI impI)
    fix k v
    assume "bt_get (sn_sequences ?s1) k = Some v"
    then show "live_scope s (sqk_space k) (sqk_space_epoch k) (sqk_entity k)"
      using planned [of k] w(5) unfolding keys_wf_def by (auto split: option.splits)
  next
    fix k r
    assume "bt_get (sn_state_map ?s) k = Some r"
    then have "bt_get (sn_state_map s) k = Some r \<or> (\<exists>m\<in>set (stateful messages). k = message_state_key m)"
      using store_all_keys [of ?s1 "stateful messages" k r] by (simp add: commit_session_alt)
    then show "live_scope s (stk_space k) (stk_space_epoch k) (stk_entity k)"
      using w(5) messages unfolding keys_wf_def by (auto simp: stateful_def message_state_key_def)
  qed
  moreover have "limits_wf config ?s"
    using w(6) seqs state(2,3) sizes bytes by (simp add: limits_wf_def f commit_sequences_len)
  moreover have "spaces_wf ?s" using w(1) by (simp add: spaces_wf_def f)
  moreover have "entities_wf nxt ?s" using w(2) by (simp add: entities_wf_def cur f)
  moreover have "cells_wf ?s" using w(3) by (simp add: cells_wf_def f)
  moreover have "parents_wf ?s" using w(4) by (simp add: parents_wf_def f)
  ultimately show ?thesis by (simp add: session_wf_def)
qed

end
