(* ===== verification/CoreInv.thy ===== *)
theory CoreInv
  imports SessionInv AdmissionQueue
begin

text \<open>
  The invariant of the whole core: every session and connection is well formed, memberships and
  subscriptions agree between the two sides that record them, entities and sequence keys belong
  to members, ownership quotas are exact, and every queued message is one its connection is
  subscribed to, entitled to read, and whose space, epoch and entity are still live.
\<close>

section \<open>Links between connections and sessions\<close>

definition conn_member :: "core \<Rightarrow> connection_id \<Rightarrow> session_key \<Rightarrow> bool" where
  "conn_member c cid key \<longleftrightarrow>
     (\<exists>cn. bt_get (co_connections c) cid = Some cn \<and> bs_contains (cn_memberships cn) key)"

definition session_member :: "core \<Rightarrow> connection_id \<Rightarrow> session_key \<Rightarrow> bool" where
  "session_member c cid key \<longleftrightarrow>
     (\<exists>s. bt_get (co_sessions c) key = Some s \<and> bs_contains (sn_members s) cid)"

definition conn_subscribed :: "core \<Rightarrow> connection_id \<Rightarrow> session_key \<Rightarrow> space_id \<Rightarrow> bool" where
  "conn_subscribed c cid key sp \<longleftrightarrow>
     (\<exists>cn. bt_get (co_connections c) cid = Some cn \<and> bs_contains (cn_subscriptions cn) (SpaceKey key sp))"

definition subscribes :: "session_state \<Rightarrow> connection_id \<Rightarrow> space_id \<Rightarrow> bool" where
  "subscribes s cid sp \<longleftrightarrow> (\<exists>subs. bt_get (sn_subscribers s) sp = Some subs \<and> bs_contains subs cid)"

definition session_subscribed :: "core \<Rightarrow> connection_id \<Rightarrow> session_key \<Rightarrow> space_id \<Rightarrow> bool" where
  "session_subscribed c cid key sp \<longleftrightarrow>
     (\<exists>s. bt_get (co_sessions c) key = Some s \<and> subscribes s cid sp)"

definition links_wf :: "core \<Rightarrow> bool" where
  "links_wf c \<longleftrightarrow>
     (\<forall>cid key. conn_member c cid key \<longleftrightarrow> session_member c cid key)
   \<and> (\<forall>cid key sp. conn_subscribed c cid key sp \<longleftrightarrow> session_subscribed c cid key sp)
   \<and> (\<forall>cid key sp. conn_subscribed c cid key sp \<longrightarrow> conn_member c cid key)"

text \<open>Entities and replay sequences of a session belong to its members.\<close>

definition belongs_wf :: "session_state \<Rightarrow> bool" where
  "belongs_wf s \<longleftrightarrow>
     (\<forall>e r. bt_get (sn_entity_map s) e = Some r \<longrightarrow> bs_contains (sn_members s) (er_owner_connection r))
   \<and> (\<forall>k v. bt_get (sn_sequences s) k = Some v \<longrightarrow> bs_contains (sn_members s) (sqk_connection k))"

definition sessions_wf :: "core \<Rightarrow> bool" where
  "sessions_wf c \<longleftrightarrow> (\<forall>key s. bt_get (co_sessions c) key = Some s \<longrightarrow>
     session_wf (co_config c) (co_next_entity_id c) s \<and> belongs_wf s)"

section \<open>Connections\<close>

definition connection_wf :: "core_config \<Rightarrow> u64 \<Rightarrow> connection_id \<Rightarrow> connection_state \<Rightarrow> bool" where
  "connection_wf config nxt cid cn \<longleftrightarrow>
     cid \<noteq> 0 \<and> cid < nxt \<and> oq_wf (cn_outbound cn)
   \<and> oq_config (cn_outbound cn) = cc_outbound_queue config
   \<and> rl_publishes (cn_rate_limiter cn) \<le> pr_max_publishes (cc_publish_rate_limit config)
   \<and> bt_len (cn_memberships cn) \<le> cc_max_memberships_per_connection config
   \<and> bt_len (cn_subscriptions cn) \<le> cc_max_subscriptions_per_connection config
   \<and> cn_owned_entities cn \<le> cc_max_owned_entities_per_connection config"

definition connections_wf :: "core \<Rightarrow> bool" where
  "connections_wf c \<longleftrightarrow> (\<forall>cid cn. bt_get (co_connections c) cid = Some cn \<longrightarrow>
     connection_wf (co_config c) (co_next_connection_id c) cid cn)"

definition session_of :: "outbound_message \<Rightarrow> session_key" where
  "session_of m = SessionKey (om_namespace m) (om_session m)"

lemma message_of_session_iff: "message_of_session key m \<longleftrightarrow> session_of m = key"
  by (cases key) (auto simp: message_of_session_def session_of_def)

text \<open>What a connection may hold in its queue.\<close>

definition entitled :: "connection_state \<Rightarrow> outbound_message \<Rightarrow> bool" where
  "entitled cn m \<longleftrightarrow> bs_contains (cn_subscriptions cn) (SpaceKey (session_of m) (om_space m))
     \<and> (\<exists>p. cn_authenticated cn = Some p \<and> can_receive p (session_of m) (om_space m) (om_channel m))"

definition live_message :: "core \<Rightarrow> outbound_message \<Rightarrow> bool" where
  "live_message c m \<longleftrightarrow> (\<exists>s. bt_get (co_sessions c) (session_of m) = Some s
     \<and> live_scope s (om_space m) (om_space_epoch m) (om_entity m))"

definition queued :: "connection_state \<Rightarrow> outbound_message set" where
  "queued cn = set (oq_view (cn_outbound cn))"

definition queues_wf :: "core \<Rightarrow> bool" where
  "queues_wf c \<longleftrightarrow> (\<forall>cid cn m. bt_get (co_connections c) cid = Some cn \<longrightarrow> m \<in> queued cn \<longrightarrow>
     entitled cn m \<and> live_message c m)"

section \<open>Ownership\<close>

definition owned_in :: "connection_id \<Rightarrow> session_state \<Rightarrow> nat" where
  "owned_in cid s = bt_count (\<lambda>_ r. er_owner_connection r = cid) (sn_entity_map s)"

definition owned_total :: "core \<Rightarrow> connection_id \<Rightarrow> nat" where
  "owned_total c cid = bt_sum (\<lambda>_. owned_in cid) (co_sessions c)"

definition quotas_wf :: "core \<Rightarrow> bool" where
  "quotas_wf c \<longleftrightarrow> (\<forall>cid cn. bt_get (co_connections c) cid = Some cn \<longrightarrow>
     cn_owned_entities cn = owned_total c cid)"

section \<open>Admission\<close>

definition admissions_wf :: "core \<Rightarrow> bool" where
  "admissions_wf c \<longleftrightarrow>
     (\<forall>key a. bt_get (co_admissions c) key = Some a \<longrightarrow>
        ad_capacity_inv a \<and> am_session (ad_metadata a) = key \<and> bt_contains_key (co_sessions c) key)
   \<and> (\<forall>cid key l. bt_get (co_admission_leases c) (cid, key) = Some l \<longrightarrow>
        conn_member c cid key \<and> al_session l = key)
   \<and> (\<forall>cid key l. bt_get (co_pending_admissions c) (cid, key) = Some l \<longrightarrow>
        bt_contains_key (co_connections c) cid \<and> al_session l = key)
   \<and> (\<forall>k1 k2 l. bt_get (co_admission_leases c) k1 = Some l \<longrightarrow>
        bt_get (co_admission_leases c) k2 = Some l \<longrightarrow> k1 = k2)"

section \<open>The invariant\<close>

text \<open>
  The configuration is one \<^verbatim>\<open>WovenCore::new\<close> accepts, and its limits leave room in 64 bits for the
  sums the capacity checks form, so that their saturation never hides an excess.
\<close>

definition config_ok :: "core_config \<Rightarrow> bool" where
  "config_ok config \<longleftrightarrow> cc_validate config = Inr config
     \<and> cc_max_sequence_keys_per_session config < usize_max
     \<and> cc_max_state_bytes_per_session config
         + Suc (cc_max_authority_emissions config) * cc_max_payload_bytes config \<le> usize_max"

definition store_wf :: "core \<Rightarrow> bool" where
  "store_wf c \<longleftrightarrow> config_ok (co_config c) \<and> co_next_entity_id c \<noteq> 0 \<and> co_next_connection_id c \<noteq> 0
     \<and> bt_len (co_connections c) \<le> cc_max_connections (co_config c)
     \<and> bt_len (co_sessions c) \<le> cc_max_sessions (co_config c)
     \<and> bt_len (co_channels c) \<le> cc_max_channels (co_config c)
     \<and> jo_wf (co_journal_outbox c)"

definition core_wf :: "core \<Rightarrow> bool" where
  "core_wf c \<longleftrightarrow> store_wf c \<and> connections_wf c \<and> sessions_wf c \<and> links_wf c \<and> queues_wf c
     \<and> quotas_wf c \<and> admissions_wf c"

lemma core_wfD:
  assumes "core_wf c"
  shows "store_wf c" "connections_wf c" "sessions_wf c" "links_wf c" "queues_wf c" "quotas_wf c"
    "admissions_wf c"
  using assms by (simp_all add: core_wf_def)

lemmas core_wf_parts = connections_wf_def sessions_wf_def links_wf_def queues_wf_def quotas_wf_def
  admissions_wf_def store_wf_def

lemmas link_defs = conn_member_def session_member_def conn_subscribed_def session_subscribed_def

lemma links_wf_cong:
  assumes "conn_member c' = conn_member c" "conn_subscribed c' = conn_subscribed c"
    "session_member c' = session_member c" "session_subscribed c' = session_subscribed c"
  shows "links_wf c' = links_wf c"
  by (simp only: links_wf_def assms)

lemma core_connection:
  assumes "core_wf c" "bt_get (co_connections c) cid = Some cn"
  shows "connection_wf (co_config c) (co_next_connection_id c) cid cn"
    "m \<in> queued cn \<Longrightarrow> entitled cn m \<and> live_message c m"
    "cn_owned_entities cn = owned_total c cid"
    "bs_contains (cn_memberships cn) key \<longleftrightarrow> session_member c cid key"
    "bs_contains (cn_subscriptions cn) (SpaceKey key sp) \<longleftrightarrow> session_subscribed c cid key sp"
    "bs_contains (cn_subscriptions cn) (SpaceKey key sp) \<Longrightarrow> bs_contains (cn_memberships cn) key"
proof -
  note w = core_wfD [OF assms(1)]
  show "connection_wf (co_config c) (co_next_connection_id c) cid cn"
    "m \<in> queued cn \<Longrightarrow> entitled cn m \<and> live_message c m"
    "cn_owned_entities cn = owned_total c cid"
    using w assms(2) unfolding connections_wf_def queues_wf_def quotas_wf_def by blast+
  show "bs_contains (cn_memberships cn) key \<longleftrightarrow> session_member c cid key"
    "bs_contains (cn_subscriptions cn) (SpaceKey key sp) \<longleftrightarrow> session_subscribed c cid key sp"
    "bs_contains (cn_subscriptions cn) (SpaceKey key sp) \<Longrightarrow> bs_contains (cn_memberships cn) key"
    using w(4) assms(2) unfolding links_wf_def conn_member_def conn_subscribed_def
    by (metis option.inject)+
qed

lemma core_session:
  assumes "core_wf c" "bt_get (co_sessions c) key = Some s"
  shows "session_wf (co_config c) (co_next_entity_id c) s" "belongs_wf s"
    "bs_contains (sn_members s) cid \<longleftrightarrow> conn_member c cid key"
    "subscribes s cid sp \<longleftrightarrow> conn_subscribed c cid key sp"
proof -
  note w = core_wfD [OF assms(1)]
  show "session_wf (co_config c) (co_next_entity_id c) s" "belongs_wf s"
    using w(3) assms(2) unfolding sessions_wf_def by blast+
  show "bs_contains (sn_members s) cid \<longleftrightarrow> conn_member c cid key"
    "subscribes s cid sp \<longleftrightarrow> conn_subscribed c cid key sp"
    using w(4) assms(2) unfolding links_wf_def session_member_def session_subscribed_def
    by (metis option.inject)+
qed

section \<open>A new core\<close>

lemma core_new_wf:
  assumes "core_new auth_fn config = Inr c" "config_ok config"
  shows "core_wf c"
  using assms
  by (auto simp: core_new_def result_ok config_ok_def core_wf_def core_wf_parts link_defs jo_wf_def
      jo_new_def owned_total_def)

section \<open>Changes to connections\<close>

lemma bt_len_dom_eq:
  assumes "\<And>k. bt_get m k = None \<longleftrightarrow> bt_get n k = None"
  shows "bt_len m = bt_len n"
  unfolding bt_len_card using assms by (metis (mono_tags, lifting) domIff subsetI subset_antisym)

text \<open>
  Replacing the states of the connections: their links and quotas stay, and what waits in the
  queues stays entitled and live.
\<close>

lemma core_wf_connections:
  assumes wf: "core_wf c"
    and dom: "\<And>cid. bt_get conns cid = None \<longleftrightarrow> bt_get (co_connections c) cid = None"
    and each: "\<And>cid cn cn'. bt_get (co_connections c) cid = Some cn \<Longrightarrow> bt_get conns cid = Some cn' \<Longrightarrow>
      cn_memberships cn' = cn_memberships cn \<and> cn_subscriptions cn' = cn_subscriptions cn
      \<and> cn_owned_entities cn' = cn_owned_entities cn
      \<and> connection_wf (co_config c) (co_next_connection_id c) cid cn'
      \<and> (\<forall>m\<in>queued cn'. entitled cn' m \<and> live_message c m)"
  shows "core_wf (c\<lparr>co_connections := conns\<rparr>)" (is "core_wf ?c")
proof -
  note w = core_wfD [OF wf]
  have old: "\<exists>cn. bt_get (co_connections c) cid = Some cn" if "bt_get conns cid = Some cn'" for cid cn'
    using dom [of cid] that by (cases "bt_get (co_connections c) cid") auto
  have new: "\<exists>cn'. bt_get conns cid = Some cn'" if "bt_get (co_connections c) cid = Some cn" for cid cn
    using dom [of cid] that by (cases "bt_get conns cid") auto
  have links: "conn_member ?c = conn_member c" "conn_subscribed ?c = conn_subscribed c"
    "session_member ?c = session_member c" "session_subscribed ?c = session_subscribed c"
    using old new each unfolding link_defs fun_eq_iff by (simp_all, metis+)
  have live: "live_message ?c = live_message c" by (simp add: live_message_def fun_eq_iff)
  have owned: "owned_total ?c = owned_total c" by (simp add: owned_total_def fun_eq_iff)
  have "bt_len conns = bt_len (co_connections c)" using dom by (rule bt_len_dom_eq)
  then have "store_wf ?c" using w(1) by (simp add: store_wf_def)
  moreover have "connections_wf ?c" using old each unfolding connections_wf_def by simp blast
  moreover have "sessions_wf ?c" using w(3) by (simp add: sessions_wf_def)
  moreover have "links_wf ?c" using w(4) links_wf_cong [OF links] by blast
  moreover have "queues_wf ?c" using old each unfolding queues_wf_def live by simp blast
  moreover have "quotas_wf ?c"
    using old each w(6) unfolding quotas_wf_def owned by simp metis
  moreover have "admissions_wf ?c"
    using w(7) new dom unfolding admissions_wf_def links by (auto simp: bt_contains_key_def)
  ultimately show ?thesis by (simp add: core_wf_def)
qed

lemma core_wf_map_connection:
  assumes wf: "core_wf c"
    and f: "\<And>cn. bt_get (co_connections c) cid = Some cn \<Longrightarrow>
      cn_memberships (f cn) = cn_memberships cn \<and> cn_subscriptions (f cn) = cn_subscriptions cn
      \<and> cn_owned_entities (f cn) = cn_owned_entities cn
      \<and> connection_wf (co_config c) (co_next_connection_id c) cid (f cn)
      \<and> (\<forall>m\<in>queued (f cn). entitled (f cn) m \<and> live_message c m)"
  shows "core_wf (map_connection cid f c)"
  unfolding map_connection_def
proof (rule core_wf_connections [OF wf])
  show "bt_get (bt_modify cid f (co_connections c)) x = None \<longleftrightarrow> bt_get (co_connections c) x = None" for x
    by (auto simp: bt_get_modify)
next
  fix x cn cn'
  assume cn: "bt_get (co_connections c) x = Some cn"
    and cn': "bt_get (bt_modify cid f (co_connections c)) x = Some cn'"
  show "cn_memberships cn' = cn_memberships cn \<and> cn_subscriptions cn' = cn_subscriptions cn
      \<and> cn_owned_entities cn' = cn_owned_entities cn
      \<and> connection_wf (co_config c) (co_next_connection_id c) x cn'
      \<and> (\<forall>m\<in>queued cn'. entitled cn' m \<and> live_message c m)"
  proof (cases "x = cid")
    case True
    then show ?thesis using f [of cn] cn cn' by (simp add: bt_get_modify)
  next
    case False
    then have "cn' = cn" using cn cn' by (simp add: bt_get_modify)
    then show ?thesis using core_connection(1,2) [OF wf cn] by blast
  qed
qed

text \<open>Purging keeps a subset of the queue.\<close>

lemma purge_connection_fields [simp]:
  "cn_memberships (purge_connection P cn) = cn_memberships cn"
  "cn_subscriptions (purge_connection P cn) = cn_subscriptions cn"
  "cn_owned_entities (purge_connection P cn) = cn_owned_entities cn"
  "cn_authenticated (purge_connection P cn) = cn_authenticated cn"
  "cn_rate_limiter (purge_connection P cn) = cn_rate_limiter cn"
  "entitled (purge_connection P cn) m = entitled cn m"
  by (simp_all add: purge_connection_def entitled_def)

lemma purge_connection_wf:
  assumes "connection_wf config nxt cid cn"
  shows "connection_wf config nxt cid (purge_connection P cn)"
    "queued (purge_connection P cn) = {m \<in> queued cn. \<not> P m}"
proof -
  obtain n q where p: "oq_purge P (cn_outbound cn) = (n, q)" by force
  have "oq_wf (cn_outbound cn)" using assms by (simp add: connection_wf_def)
  note oq_purge_wf [OF this p]
  with assms p show "connection_wf config nxt cid (purge_connection P cn)"
    "queued (purge_connection P cn) = {m \<in> queued cn. \<not> P m}"
    by (simp_all add: connection_wf_def purge_connection_def queued_def)
qed

lemma core_wf_purge:
  assumes "core_wf c"
  shows "core_wf (c\<lparr>co_connections := bt_map (\<lambda>_. purge_connection P) (co_connections c)\<rparr>)"
proof (rule core_wf_connections [OF assms], goal_cases)
  case (2 cid cn cn')
  note cn = core_connection [OF assms 2(1)]
  have "cn' = purge_connection P cn" using 2 by simp
  then show ?case using purge_connection_wf [OF cn(1)] cn(2) by auto
qed simp

section \<open>Changes to a session\<close>

lemma owned_total_insert:
  assumes "bt_get (co_sessions c) key = Some s"
  shows "owned_total (c\<lparr>co_sessions := bt_insert key s' (co_sessions c)\<rparr>) cid + owned_in cid s
    = owned_total c cid + owned_in cid s'"
  using bt_sum_insert [of "\<lambda>_. owned_in cid" key s' "co_sessions c"] assms
  by (simp add: owned_total_def)

lemma map_session_insert:
  "bt_get (co_sessions c) key = Some s \<Longrightarrow>
     map_session key f c = c\<lparr>co_sessions := bt_insert key (f s) (co_sessions c)\<rparr>"
  unfolding map_session_def by (rule arg_cong [where f = "\<lambda>x. c\<lparr>co_sessions := x\<rparr>"])
    (auto intro!: bt_eqI simp: bt_get_modify bt_get_insert)

text \<open>
  Replacing the state of one session: its members and subscribers stay the same, the ownership
  counts too, and no queued message of the session loses its scope.
\<close>

lemma core_wf_session:
  assumes wf: "core_wf c" and s: "bt_get (co_sessions c) key = Some s"
    and swf: "session_wf (co_config c) (co_next_entity_id c) s'" and bel: "belongs_wf s'"
    and mem: "\<And>cid. bs_contains (sn_members s') cid \<longleftrightarrow> bs_contains (sn_members s) cid"
    and sub: "\<And>cid sp. subscribes s' cid sp \<longleftrightarrow> subscribes s cid sp"
    and own: "\<And>cid. owned_in cid s' = owned_in cid s"
    and live: "\<And>cid cn m. bt_get (co_connections c) cid = Some cn \<Longrightarrow> m \<in> queued cn \<Longrightarrow> session_of m = key
      \<Longrightarrow> live_scope s (om_space m) (om_space_epoch m) (om_entity m)
      \<Longrightarrow> live_scope s' (om_space m) (om_space_epoch m) (om_entity m)"
  shows "core_wf (c\<lparr>co_sessions := bt_insert key s' (co_sessions c)\<rparr>)" (is "core_wf ?c")
proof -
  note w = core_wfD [OF wf]
  have links: "conn_member ?c = conn_member c" "conn_subscribed ?c = conn_subscribed c"
    "session_member ?c = session_member c" "session_subscribed ?c = session_subscribed c"
    using s mem sub unfolding link_defs fun_eq_iff by (auto simp: bt_get_insert)
  have owned: "owned_total ?c = owned_total c"
    using owned_total_insert [OF s, of s'] own by (simp add: fun_eq_iff)
  have "bt_len (bt_insert key s' (co_sessions c)) = bt_len (co_sessions c)"
    using s by (simp add: bt_len_insert)
  then have "store_wf ?c" using w(1) by (simp add: store_wf_def)
  moreover have "connections_wf ?c" using w(2) by (simp add: connections_wf_def)
  moreover have "sessions_wf ?c" using w(3) swf bel by (simp add: sessions_wf_def bt_get_insert)
  moreover have "links_wf ?c" using w(4) links_wf_cong [OF links] by blast
  moreover have "queues_wf ?c"
    unfolding queues_wf_def
  proof (intro allI impI)
    fix cid cn m
    assume "bt_get (co_connections ?c) cid = Some cn" and m: "m \<in> queued cn"
    then have cn: "bt_get (co_connections c) cid = Some cn" by simp
    have "entitled cn m" "live_message c m" using core_connection(2) [OF wf cn m] by auto
    then show "entitled cn m \<and> live_message ?c m"
      using live [OF cn m] s by (auto simp: live_message_def bt_get_insert)
  qed
  moreover have "quotas_wf ?c" using w(6) by (simp add: quotas_wf_def owned)
  moreover have "admissions_wf ?c" using w(7) by (auto simp: admissions_wf_def links bt_contains_key_def bt_get_insert)
  ultimately show ?thesis by (simp add: core_wf_def)
qed

section \<open>Operations: provisioning and admission\<close>

lemma checked_preserves:
  "P c \<Longrightarrow> (\<And>x. r = Inr x \<Longrightarrow> P (snd (f x c))) \<Longrightarrow> P (snd (checked r f c))"
  by (cases r) simp_all

text \<open>Fields that no link, session or connection reads.\<close>

lemma core_wf_frame:
  assumes "core_wf c" "co_config c' = co_config c" "co_connections c' = co_connections c"
    "co_sessions c' = co_sessions c" "co_next_entity_id c' = co_next_entity_id c"
    "co_next_connection_id c' = co_next_connection_id c"
    "bt_len (co_channels c') \<le> cc_max_channels (co_config c)" "jo_wf (co_journal_outbox c')"
    "admissions_wf c'"
  shows "core_wf c'"
proof -
  note w = core_wfD [OF assms(1)]
  have eqs: "conn_member c' = conn_member c" "conn_subscribed c' = conn_subscribed c"
    "session_member c' = session_member c" "session_subscribed c' = session_subscribed c"
    "live_message c' = live_message c" "owned_total c' = owned_total c"
    by (simp_all add: link_defs live_message_def owned_total_def fun_eq_iff assms(2-4))
  have "links_wf c'" using w(4) links_wf_cong [OF eqs(1-4)] by blast
  moreover have "queues_wf c'" using w(5) unfolding queues_wf_def eqs assms(3) .
  moreover have "quotas_wf c'" using w(6) unfolding quotas_wf_def eqs assms(3) .
  moreover have "store_wf c'" "connections_wf c'" "sessions_wf c'"
    using w(1-3) assms(2-8) by (simp_all add: store_wf_def connections_wf_def sessions_wf_def)
  ultimately show ?thesis using assms(9) by (simp add: core_wf_def)
qed

lemma store_wfD:
  assumes "core_wf c"
  shows "config_ok (co_config c)" "co_next_entity_id c \<noteq> 0" "co_next_connection_id c \<noteq> 0"
    "bt_len (co_connections c) \<le> cc_max_connections (co_config c)"
    "bt_len (co_sessions c) \<le> cc_max_sessions (co_config c)"
    "bt_len (co_channels c) \<le> cc_max_channels (co_config c)" "jo_wf (co_journal_outbox c)"
  using core_wfD(1) [OF assms] by (simp_all add: store_wf_def)

lemma admissions_wf_frame:
  assumes "core_wf c" "co_admissions c' = co_admissions c" "co_admission_leases c' = co_admission_leases c"
    "co_pending_admissions c' = co_pending_admissions c" "conn_member c' = conn_member c"
    "\<And>key. bt_contains_key (co_sessions c) key \<Longrightarrow> bt_contains_key (co_sessions c') key"
    "\<And>cid. bt_contains_key (co_connections c) cid \<Longrightarrow> bt_contains_key (co_connections c') cid"
  shows "admissions_wf c'"
  using core_wfD(7) [OF assms(1)] assms(6,7) unfolding admissions_wf_def assms(2-5) by blast

lemma register_channel_wf:
  assumes "core_wf c"
  shows "core_wf (snd (register_channel ch c))"
  unfolding register_channel_def
proof (rule checked_preserves [where P = core_wf, OF assms])
  fix x
  assume "and_then (require_nonzero (cd_id ch) K_Channel) (\<lambda>_.
       if cd_max_payload_bytes ch = 0 then Inl (CE_InvalidChannelLimit (cd_id ch))
       else if bt_contains_key (co_channels c) (cd_id ch) then Inl (CE_ChannelAlreadyRegistered (cd_id ch))
       else if bt_len (co_channels c) = cc_max_channels (co_config c) then Inl CE_ChannelLimitReached
       else Inr ()) = Inr x"
  then have "bt_len (co_channels c) \<noteq> cc_max_channels (co_config c)"
    by (auto simp: result_ok split: if_splits)
  then have "bt_len (bt_insert (cd_id ch) ch (co_channels c)) \<le> cc_max_channels (co_config c)"
    using store_wfD(6) [OF assms] bt_len_insert_le [of "cd_id ch" ch "co_channels c"] by linarith
  then show "core_wf (snd (Inr (), c\<lparr>co_channels := bt_insert (cd_id ch) ch (co_channels c)\<rparr>))"
    using assms store_wfD(7) [OF assms]
    by (intro core_wf_frame [OF assms] admissions_wf_frame [OF assms])
      (simp_all add: conn_member_def fun_eq_iff)
qed

lemma core_wf_new_session:
  assumes wf: "core_wf c" and new: "\<not> bt_contains_key (co_sessions c) key"
    and room: "bt_len (co_sessions c) \<noteq> cc_max_sessions (co_config c)"
  shows "core_wf (c\<lparr>co_sessions := bt_insert key session_new (co_sessions c)\<rparr>)" (is "core_wf ?c")
proof -
  note w = core_wfD [OF wf]
  have none: "bt_get (co_sessions c) key = None" using new by (simp add: bt_contains_key_def)
  have new_belongs: "belongs_wf session_new" by (simp add: belongs_wf_def session_new_def)
  have links: "conn_member ?c = conn_member c" "conn_subscribed ?c = conn_subscribed c"
    "session_member ?c = session_member c" "session_subscribed ?c = session_subscribed c"
    using none unfolding link_defs fun_eq_iff
    by (auto simp: bt_get_insert session_new_def subscribes_def)
  have live: "live_message ?c m" if "live_message c m" for m
    using that none by (auto simp: live_message_def bt_get_insert)
  have owned: "owned_total ?c cid = owned_total c cid" for cid
    using bt_sum_insert [of "\<lambda>_. owned_in cid" key session_new "co_sessions c"] none
    by (simp add: owned_total_def owned_in_def session_new_def bt_count_sum)
  have "bt_len (bt_insert key session_new (co_sessions c)) \<le> cc_max_sessions (co_config c)"
    using store_wfD(5) [OF wf] room bt_len_insert_le [of key session_new "co_sessions c"] by linarith
  then have "store_wf ?c" using w(1) by (simp add: store_wf_def)
  moreover have "connections_wf ?c" using w(2) by (simp add: connections_wf_def)
  moreover have "sessions_wf ?c"
    using w(3) new_belongs by (simp add: sessions_wf_def bt_get_insert session_new_wf)
  moreover have "links_wf ?c" using w(4) links_wf_cong [OF links] by blast
  moreover have "queues_wf ?c" using w(5) live unfolding queues_wf_def by simp
  moreover have "quotas_wf ?c" using w(6) by (simp add: quotas_wf_def owned)
  moreover have "admissions_wf ?c"
    by (rule admissions_wf_frame [OF wf]) (auto simp: links bt_contains_key_def bt_get_insert)
  ultimately show ?thesis by (simp add: core_wf_def)
qed

lemma provision_session_wf:
  assumes "core_wf c"
  shows "core_wf (snd (provision_session key c))"
  unfolding provision_session_def
proof (rule checked_preserves [where P = core_wf, OF assms])
  fix x
  assume "and_then (validate_session_key key) (\<lambda>_.
       if bt_contains_key (co_sessions c) key then Inl (CE_SessionAlreadyProvisioned key)
       else if bt_len (co_sessions c) = cc_max_sessions (co_config c) then Inl CE_SessionLimitReached
       else Inr ()) = Inr x"
  then have "\<not> bt_contains_key (co_sessions c) key" "bt_len (co_sessions c) \<noteq> cc_max_sessions (co_config c)"
    by (auto simp: result_ok split: if_splits)
  then show "core_wf (snd (Inr (), c\<lparr>co_sessions := bt_insert key session_new (co_sessions c)\<rparr>))"
    using core_wf_new_session [OF assms] by simp
qed

lemma ad_promote_loop_metadata [simp]: "ad_metadata (ad_promote_loop now w c) = ad_metadata c"
proof (induction w arbitrary: c)
  case Nil
  then show ?case by (subst ad_promote_loop.simps) simp
next
  case (Cons t w)
  then show ?case by (subst ad_promote_loop.simps) simp
qed

lemma ad_expire_metadata [simp]: "ad_metadata (ad_expire_at now c) = ad_metadata c"
  by (simp add: ad_expire_at_def ad_promote_at_def Let_def ad_apply_pending_fields
      ad_expire_tickets_fields ad_expire_reservations_fields)

lemma ad_request_metadata:
  assumes "ad_request_join_at r now c = (decision, c')"
  shows "ad_metadata c' = ad_metadata c"
    "decision = Admitted l \<Longrightarrow> al_session l = am_session (ad_metadata c) \<and> al_principal l = jq_principal r"
proof -
  have act: "ad_metadata d' = ad_metadata d \<and> al_session l = am_session (ad_metadata d) \<and> al_principal l = p"
    if "ad_activate lid p now d = (l, d')" for lid p d l d'
    using arg_cong [OF ad_activate_fields(2) [OF that], of ad_metadata] ad_activate_fields(3) [OF that]
    by simp
  show "ad_metadata c' = ad_metadata c"
    "decision = Admitted l \<Longrightarrow> al_session l = am_session (ad_metadata c) \<and> al_principal l = jq_principal r"
    using assms
    by (auto simp: ad_request_join_at_def ad_request_new_def ad_admit_def ad_enqueue_def Let_def
        dest!: act split: option.splits if_splits prod.splits)
qed

lemma ad_release_metadata [simp]: "ad_metadata (ad_release_at l r now c) = ad_metadata c"
  by (simp add: ad_release_at_def ad_promote_at_def Let_def ad_apply_pending_fields split: option.splits)

lemma ad_apply_capacity_metadata [simp]: "ad_metadata (snd (ad_apply_capacity_at u now c)) = ad_metadata c"
  by (simp add: ad_apply_capacity_at_def ad_promote_at_def Let_def)

lemma ad_request_capacity: "ad_capacity_inv c \<Longrightarrow> ad_capacity_inv (snd (ad_request_join_at r now c))"
  using ad_step_capacity [of c "AC_Join r now"] by simp

lemma admissions_wfD:
  assumes "core_wf c"
  shows "bt_get (co_admissions c) key = Some a \<Longrightarrow>
      ad_capacity_inv a \<and> am_session (ad_metadata a) = key \<and> bt_contains_key (co_sessions c) key"
    "bt_get (co_admission_leases c) (cid, key) = Some l \<Longrightarrow> conn_member c cid key \<and> al_session l = key"
    "bt_get (co_pending_admissions c) (cid, key) = Some l \<Longrightarrow>
      bt_contains_key (co_connections c) cid \<and> al_session l = key"
    "bt_get (co_admission_leases c) k1 = Some l \<Longrightarrow> bt_get (co_admission_leases c) k2 = Some l \<Longrightarrow> k1 = k2"
  using core_wfD(7) [OF assms] unfolding admissions_wf_def by blast+

text \<open>Only the admission tables change.\<close>

lemma core_wf_admissions:
  assumes wf: "core_wf c"
    and a: "\<And>key a. bt_get admissions key = Some a \<Longrightarrow>
      ad_capacity_inv a \<and> am_session (ad_metadata a) = key \<and> bt_contains_key (co_sessions c) key"
    and l: "\<And>k l. bt_get leases k = Some l \<Longrightarrow> bt_get (co_admission_leases c) k = Some l"
    and p: "\<And>cid key l. bt_get pending (cid, key) = Some l \<Longrightarrow>
      bt_contains_key (co_connections c) cid \<and> al_session l = key"
  shows "core_wf (c\<lparr>co_admissions := admissions, co_pending_admissions := pending,
    co_admission_leases := leases\<rparr>)" (is "core_wf ?c")
proof (rule core_wf_frame [OF wf])
  have "conn_member ?c = conn_member c" by (simp add: conn_member_def fun_eq_iff)
  then show "admissions_wf ?c"
    using a l p admissions_wfD [OF wf] unfolding admissions_wf_def by simp blast
qed (use store_wfD [OF wf] in simp_all)

lemma configure_session_admission_wf:
  assumes wf: "core_wf c"
  shows "core_wf (snd (configure_session_admission key metadata policy capacity c))"
  unfolding configure_session_admission_def
proof (rule checked_preserves [where P = core_wf, OF wf])
  let ?a = "bt_insert key (ad_new metadata policy capacity (uc_new metadata)) (co_admissions c)"
  fix x
  assume "and_then (validate_session_key key) (\<lambda>_.
       if \<not> bt_contains_key (co_sessions c) key then Inl (CE_SessionNotFound key)
       else if am_session metadata \<noteq> key then Inl (CE_InvalidAdmissionLease key)
       else if bt_contains_key (co_admissions c) key then Inl (CE_AdmissionAlreadyConfigured key)
       else Inr ()) = Inr x"
  then have ok: "bt_contains_key (co_sessions c) key" "am_session metadata = key"
    by (auto simp: result_ok split: if_splits)
  have meta: "ad_metadata (ad_new metadata policy capacity (uc_new metadata)) = metadata"
    by (simp add: ad_new_def)
  have "core_wf (c\<lparr>co_admissions := ?a, co_pending_admissions := co_pending_admissions c,
    co_admission_leases := co_admission_leases c\<rparr>)"
    by (rule core_wf_admissions [OF wf])
      (use ok admissions_wfD [OF wf] in \<open>auto simp: bt_get_insert ad_new_capacity meta split: if_splits\<close>)
  then show "core_wf (snd (Inr (), c\<lparr>co_admissions := ?a\<rparr>))" by simp
qed

lemma apply_session_capacity_wf:
  assumes wf: "core_wf c"
  shows "core_wf (snd (apply_session_capacity_at key update now c))"
  unfolding apply_session_capacity_at_def
proof (rule checked_preserves [where P = core_wf, OF wf], goal_cases)
  case (1 u)
  show ?case
  proof (cases "bt_get (co_admissions c) key")
    case (Some a)
    let ?a = "bt_insert key (snd (ad_apply_capacity_at update now a)) (co_admissions c)"
    have "core_wf (c\<lparr>co_admissions := ?a, co_pending_admissions := co_pending_admissions c,
      co_admission_leases := co_admission_leases c\<rparr>)"
      by (rule core_wf_admissions [OF wf])
        (use Some admissions_wfD [OF wf] in
          \<open>auto simp: bt_get_insert ad_apply_capacity_capacity split: if_splits\<close>)
    then show ?thesis using Some by (simp add: split_beta)
  qed (simp add: wf)
qed

lemma request_session_admission_wf:
  assumes wf: "core_wf c"
  shows "core_wf (snd (request_session_admission_at cid key idem now c))"
  unfolding request_session_admission_at_def
proof (rule checked_preserves [where P = core_wf, OF wf], goal_cases)
  case (1 x)
  then obtain p a where x: "x = (p, a)" and a: "bt_get (co_admissions c) key = Some a"
    and cid: "bt_contains_key (co_connections c) cid"
    by (auto simp: result_ok core_authenticated_principal_ok bt_contains_key_def)
  obtain d a' where d: "ad_request_join_at (join_request_new (ap_principal_id p) idem) now a = (d, a')"
    by force
  have a': "ad_capacity_inv a'" "am_session (ad_metadata a') = key"
    using ad_request_capacity [of a "join_request_new (ap_principal_id p) idem" now]
      ad_request_metadata(1) [OF d] admissions_wfD(1) [OF wf a] d by simp_all
  let ?p = "case d of Admitted l \<Rightarrow> bt_insert (cid, key) l (co_pending_admissions c)
    | _ \<Rightarrow> co_pending_admissions c"
  have lease: "al_session l = key" if "d = Admitted l" for l
    using ad_request_metadata(2) [OF d that] admissions_wfD(1) [OF wf a] by simp
  have "core_wf (c\<lparr>co_admissions := bt_insert key a' (co_admissions c), co_pending_admissions := ?p,
    co_admission_leases := co_admission_leases c\<rparr>)"
  proof (rule core_wf_admissions [OF wf])
    show "bt_contains_key (co_connections c) x \<and> al_session l = k"
      if "bt_get ?p (x, k) = Some l" for x k l
      using that lease cid admissions_wfD(3) [OF wf]
      by (auto simp: bt_get_insert split: join_decision.splits if_splits)
  qed (use a' admissions_wfD(1) [OF wf] a in \<open>auto simp: bt_get_insert split: if_splits\<close>)
  then show ?case using d by (cases d) (simp_all add: x Let_def)
qed

section \<open>Operations: connections\<close>

lemma guard_ok: "(if b then Inl e else r) = Inr x \<longleftrightarrow> \<not> b \<and> r = Inr x"
  by simp

lemma config_okD:
  assumes "config_ok config"
  shows "qc_validate (cc_outbound_queue config) = Inr (cc_outbound_queue config)"
    "cc_max_owned_entities_per_connection config \<noteq> 0"
    "pr_max_publishes (cc_publish_rate_limit config) \<noteq> 0"
    "cc_max_sequence_keys_per_session config < usize_max"
    "cc_max_state_bytes_per_session config
       + Suc (cc_max_authority_emissions config) * cc_max_payload_bytes config \<le> usize_max"
    "cc_max_authority_emissions config \<noteq> 0"
proof -
  have v: "cc_validate config = Inr config" using assms by (simp add: config_ok_def)
  show "qc_validate (cc_outbound_queue config) = Inr (cc_outbound_queue config)"
    using v qc_validate_same unfolding cc_validate_def result_ok map_err_eq_Inr by fastforce
  show "cc_max_owned_entities_per_connection config \<noteq> 0" "cc_max_authority_emissions config \<noteq> 0"
    using v unfolding cc_validate_def result_ok guard_ok by (elim exE conjE, simp)+
  show "pr_max_publishes (cc_publish_rate_limit config) \<noteq> 0"
    using v unfolding cc_validate_def result_ok pr_validate_def guard_ok by (elim exE conjE) simp
  show "cc_max_sequence_keys_per_session config < usize_max"
    "cc_max_state_bytes_per_session config
       + Suc (cc_max_authority_emissions config) * cc_max_payload_bytes config \<le> usize_max"
    using assms unfolding config_ok_def by blast+
qed

lemma oq_new_queued: "oq_new config = Inr q \<Longrightarrow> oq_view q = []"
  by (auto simp: oq_new_def result_ok oq_view_def oq_latest_view_def)

lemma core_wf_fresh_connection:
  assumes wf: "core_wf c" and succ: "u64_checked_succ (co_next_connection_id c) = Some n"
    and q: "oq_new (cc_outbound_queue (co_config c)) = Inr q"
    and room: "bt_len (co_connections c) \<noteq> cc_max_connections (co_config c)"
  shows "core_wf (c\<lparr>co_next_connection_id := n,
    co_connections := bt_insert (co_next_connection_id c) (connection_new q) (co_connections c)\<rparr>)"
    (is "core_wf ?c")
proof -
  note w = core_wfD [OF wf]
  let ?id = "co_next_connection_id c"
  have fresh: "bt_get (co_connections c) ?id = None"
    using core_connection(1) [OF wf, of ?id]
    by (cases "bt_get (co_connections c) ?id") (auto simp: connection_wf_def)
  have lt: "?id < n" using succ by (rule u64_checked_succ_less)
  have links: "conn_member ?c = conn_member c" "conn_subscribed ?c = conn_subscribed c"
    "session_member ?c = session_member c" "session_subscribed ?c = session_subscribed c"
    using fresh unfolding link_defs fun_eq_iff by (auto simp: bt_get_insert connection_new_def)
  have nobody: "\<not> session_member c ?id key" for key
    using w(4) fresh unfolding links_wf_def by (metis conn_member_def option.distinct(1))
  have none: "owned_in ?id s = 0" if "bt_get (co_sessions c) key = Some s" for key s
  proof -
    have "er_owner_connection r \<noteq> ?id" if "bt_get (sn_entity_map s) e = Some r" for e r
      using core_session(2) [OF wf \<open>bt_get (co_sessions c) key = Some s\<close>] that nobody [of key]
        \<open>bt_get (co_sessions c) key = Some s\<close>
      unfolding belongs_wf_def session_member_def by metis
    then show ?thesis by (auto simp: owned_in_def bt_count_sum bt_sum_dom)
  qed
  have "owned_total c ?id = 0" by (auto simp: owned_total_def bt_sum_dom none)
  moreover have owned: "owned_total ?c = owned_total c" by (simp add: owned_total_def fun_eq_iff)
  ultimately have "quotas_wf ?c"
    using w(6) by (simp add: quotas_wf_def bt_get_insert connection_new_def)
  moreover have "bt_len (bt_insert ?id (connection_new q) (co_connections c)) \<le> cc_max_connections (co_config c)"
    using store_wfD(4) [OF wf] room bt_len_insert_le [of ?id "connection_new q" "co_connections c"] by linarith
  then have "store_wf ?c" using w(1) lt by (simp add: store_wf_def) (metis word_not_simps(1))
  moreover have "connection_wf (co_config c) n ?id (connection_new q)"
    using oq_new_wf [OF q] lt store_wfD(1,3) [OF wf]
    by (simp add: connection_wf_def connection_new_def rl_default_def)
  then have "connections_wf ?c"
    using w(2) lt by (auto simp: connections_wf_def bt_get_insert connection_wf_def intro: less_trans)
  moreover have "sessions_wf ?c" using w(3) by (simp add: sessions_wf_def)
  moreover have "links_wf ?c" using w(4) links_wf_cong [OF links] by blast
  moreover have "live_message ?c = live_message c" by (simp add: live_message_def fun_eq_iff)
  then have "queues_wf ?c"
    using w(5) oq_new_queued [OF q] by (simp add: queues_wf_def bt_get_insert queued_def connection_new_def)
  moreover have "admissions_wf ?c"
    by (rule admissions_wf_frame [OF wf]) (simp_all add: links)
  ultimately show ?thesis by (simp add: core_wf_def)
qed

lemma transport_connected_wf:
  assumes wf: "core_wf c"
  shows "core_wf (snd (transport_connected c))"
proof -
  obtain q where q: "oq_new (cc_outbound_queue (co_config c)) = Inr q"
    using config_okD(1) [OF store_wfD(1) [OF wf]] by (simp add: oq_new_def)
  show ?thesis
    using core_wf_fresh_connection [OF wf _ q] q wf
    by (cases "u64_checked_succ (co_next_connection_id c)") (auto simp: transport_connected_def Let_def)
qed

lemma authenticate_wf:
  assumes wf: "core_wf c"
  shows "core_wf (snd (authenticate cid credentials c))"
  unfolding authenticate_def
proof (rule checked_preserves [where P = core_wf, OF wf], goal_cases)
  case (1 p)
  then obtain cn where cn: "bt_get (co_connections c) cid = Some cn" "cn_authenticated cn = None"
    by (auto simp: result_ok)
  have "core_wf (map_connection cid (\<lambda>cn. cn\<lparr>cn_authenticated := Some p\<rparr>) c)"
    by (rule core_wf_map_connection [OF wf])
      (use core_connection(1,2) [OF wf cn(1)] cn in \<open>auto simp: connection_wf_def entitled_def queued_def\<close>)
  then show ?case by simp
qed

lemma core_wf_outbound:
  assumes wf: "core_wf c" and cn: "bt_get (co_connections c) cid = Some cn"
    and q: "oq_wf q" "oq_config q = oq_config (cn_outbound cn)"
    and ms: "\<And>m. m \<in> set (oq_view q) \<Longrightarrow> entitled cn m \<and> live_message c m"
  shows "core_wf (map_connection cid (\<lambda>cn. cn\<lparr>cn_outbound := q\<rparr>) c)"
  by (rule core_wf_map_connection [OF wf])
    (use core_connection(1) [OF wf cn] cn q ms in \<open>auto simp: connection_wf_def entitled_def queued_def\<close>)

lemma drain_outbound_wf:
  assumes wf: "core_wf c"
  shows "core_wf (snd (drain_outbound cid c))"
  unfolding drain_outbound_def
proof (rule checked_preserves [where P = core_wf, OF wf], goal_cases)
  case (1 cn)
  then have cn: "bt_get (co_connections c) cid = Some cn" by (auto simp: result_ok)
  obtain ms q where d: "oq_drain (cn_outbound cn) = (ms, q)" by force
  have "oq_wf (cn_outbound cn)" using core_connection(1) [OF wf cn] by (simp add: connection_wf_def)
  from oq_drain_wf [OF this d] core_wf_outbound [OF wf cn, of q] d show ?case by simp
qed

lemma pop_journal_record_wf: "core_wf c \<Longrightarrow> core_wf (snd (pop_journal_record c))"
proof -
  assume wf: "core_wf c"
  obtain r j where p: "jo_pop (co_journal_outbox c) = (r, j)" by force
  have "jo_wf j" using jo.pop_items [OF store_wfD(7) [OF wf] p] by simp
  then have "core_wf (c\<lparr>co_journal_outbox := j\<rparr>)"
    by (intro core_wf_frame [OF wf] admissions_wf_frame [OF wf])
      (simp_all add: store_wfD [OF wf] conn_member_def fun_eq_iff)
  then show ?thesis using p by (simp add: pop_journal_record_def)
qed

section \<open>Changes to a connection and a session together\<close>

lemma core_wf_both:
  assumes wf: "core_wf c"
    and cn: "bt_get (co_connections c) cid = Some cn" and s: "bt_get (co_sessions c) key = Some s"
    and c': "co_connections c' = bt_insert cid cn' (co_connections c)"
      "co_sessions c' = bt_insert key s' (co_sessions c)" "co_config c' = co_config c"
      "co_next_connection_id c' = co_next_connection_id c"
      "co_next_entity_id c \<le> co_next_entity_id c'" "co_channels c' = co_channels c"
      "co_journal_outbox c' = co_journal_outbox c"
    and cwf: "connection_wf (co_config c) (co_next_connection_id c) cid cn'"
    and swf: "session_wf (co_config c) (co_next_entity_id c') s'" "belongs_wf s'"
    and mem: "\<And>x. bs_contains (sn_members s') x \<longleftrightarrow>
        (if x = cid then bs_contains (cn_memberships cn') key else bs_contains (sn_members s) x)"
      "\<And>k. k \<noteq> key \<Longrightarrow> bs_contains (cn_memberships cn') k \<longleftrightarrow> bs_contains (cn_memberships cn) k"
    and sub: "\<And>x sp. subscribes s' x sp \<longleftrightarrow>
        (if x = cid then bs_contains (cn_subscriptions cn') (SpaceKey key sp) else subscribes s x sp)"
      "\<And>k sp. k \<noteq> key \<Longrightarrow> bs_contains (cn_subscriptions cn') (SpaceKey k sp)
         \<longleftrightarrow> bs_contains (cn_subscriptions cn) (SpaceKey k sp)"
      "\<And>sp. bs_contains (cn_subscriptions cn') (SpaceKey key sp) \<Longrightarrow> bs_contains (cn_memberships cn') key"
    and own: "\<And>x. x \<noteq> cid \<Longrightarrow> owned_in x s' = owned_in x s"
      "cn_owned_entities cn' + owned_in cid s = cn_owned_entities cn + owned_in cid s'"
    and live: "\<And>sp ep e. live_scope s sp ep e \<Longrightarrow> live_scope s' sp ep e"
    and queue: "\<And>m. m \<in> queued cn' \<Longrightarrow> m \<in> queued cn \<and> entitled cn' m"
    and adm: "admissions_wf c'"
  shows "core_wf c'"
proof -
  note w = core_wfD [OF wf] and cs = core_connection [OF wf cn] and ss = core_session [OF wf s]
  have len: "bt_len (co_connections c') = bt_len (co_connections c)" "bt_len (co_sessions c') = bt_len (co_sessions c)"
    using cn s by (simp_all add: c' bt_len_insert)
  have "store_wf c'"
    using w(1) c'(5) len by (auto simp: store_wf_def c'(3,4,6,7) word_le_0_iff)
  moreover have "connections_wf c'"
    using w(2) cwf by (simp add: connections_wf_def c' bt_get_insert)
  moreover have "sessions_wf c'"
    using w(3) swf session_wf_mono [OF _ c'(5)]
    unfolding sessions_wf_def c'(2,3) bt_get_insert by simp
  moreover have "links_wf c'"
  proof -
    have other: "bs_contains (cn_memberships cn) k \<longleftrightarrow> session_member c cid k"
      "bs_contains (cn_subscriptions cn) (SpaceKey k sp) \<longleftrightarrow> session_subscribed c cid k sp"
      "bs_contains (cn_subscriptions cn) (SpaceKey k sp) \<Longrightarrow> bs_contains (cn_memberships cn) k" for k sp
      using cs(4-6) by blast+
    have 1: "conn_member c' x k \<longleftrightarrow> (if x = cid then bs_contains (cn_memberships cn') k else conn_member c x k)"
      "conn_subscribed c' x k sp
        \<longleftrightarrow> (if x = cid then bs_contains (cn_subscriptions cn') (SpaceKey k sp) else conn_subscribed c x k sp)"
      "session_member c' x k \<longleftrightarrow> (if k = key then bs_contains (sn_members s') x else session_member c x k)"
      "session_subscribed c' x k sp \<longleftrightarrow> (if k = key then subscribes s' x sp else session_subscribed c x k sp)"
      for x k sp
      by (simp_all add: link_defs c' bt_get_insert)
    have 2: "session_member c x key \<longleftrightarrow> bs_contains (sn_members s) x"
      "session_subscribed c x key sp \<longleftrightarrow> subscribes s x sp" for x sp
      using s by (simp_all add: link_defs)
    show ?thesis
      using w(4) unfolding links_wf_def 1 mem(1) sub(1) by (simp add: mem(2) sub(2) other 2 [symmetric])
        (metis mem(2) sub(2,3) other 2)
  qed
  moreover have "queues_wf c'"
    unfolding queues_wf_def
  proof (intro allI impI)
    have live': "live_message c' m" if "live_message c m" for m
      using that live s by (auto simp: live_message_def c' bt_get_insert)
    fix x xn m
    assume x: "bt_get (co_connections c') x = Some xn" and m: "m \<in> queued xn"
    show "entitled xn m \<and> live_message c' m"
    proof (cases "x = cid")
      case True
      then show ?thesis using x m queue cs(2) live' by (auto simp: c' bt_get_insert)
    next
      case False
      then show ?thesis using x m core_connection(2) [OF wf, of x xn] live' by (simp add: c' bt_get_insert)
    qed
  qed
  moreover have "quotas_wf c'"
    unfolding quotas_wf_def
  proof (intro allI impI)
    have tot: "owned_total c' x + owned_in x s = owned_total c x + owned_in x s'" for x
      using owned_total_insert [OF s, of s' x] by (simp add: owned_total_def c')
    fix x xn
    assume x: "bt_get (co_connections c') x = Some xn"
    show "cn_owned_entities xn = owned_total c' x"
    proof (cases "x = cid")
      case True
      then show ?thesis using x own(2) cs(3) tot [of cid] by (simp add: c' bt_get_insert)
    next
      case False
      then show ?thesis
        using x own(1) [of x] core_connection(3) [OF wf, of x xn] tot [of x] by (simp add: c' bt_get_insert)
    qed
  qed
  ultimately show ?thesis using adm by (simp add: core_wf_def)
qed

lemma map_connection_insert:
  "bt_get (co_connections c) cid = Some cn \<Longrightarrow>
     map_connection cid f c = c\<lparr>co_connections := bt_insert cid (f cn) (co_connections c)\<rparr>"
  unfolding map_connection_def by (rule arg_cong [where f = "\<lambda>x. c\<lparr>co_connections := x\<rparr>"])
    (auto intro!: bt_eqI simp: bt_get_modify bt_get_insert)

lemma map_frames [simp]:
  "co_sessions (map_connection cid f c) = co_sessions c"
  "co_config (map_connection cid f c) = co_config c"
  "co_channels (map_connection cid f c) = co_channels c"
  "co_admissions (map_connection cid f c) = co_admissions c"
  "co_admission_leases (map_connection cid f c) = co_admission_leases c"
  "co_pending_admissions (map_connection cid f c) = co_pending_admissions c"
  "co_journal_outbox (map_connection cid f c) = co_journal_outbox c"
  "co_next_entity_id (map_connection cid f c) = co_next_entity_id c"
  "co_next_connection_id (map_connection cid f c) = co_next_connection_id c"
  "co_connections (map_connection cid f c) = bt_modify cid f (co_connections c)"
  "co_connections (map_session key g c) = co_connections c"
  "co_config (map_session key g c) = co_config c"
  "co_channels (map_session key g c) = co_channels c"
  "co_admissions (map_session key g c) = co_admissions c"
  "co_admission_leases (map_session key g c) = co_admission_leases c"
  "co_pending_admissions (map_session key g c) = co_pending_admissions c"
  "co_journal_outbox (map_session key g c) = co_journal_outbox c"
  "co_next_entity_id (map_session key g c) = co_next_entity_id c"
  "co_next_connection_id (map_session key g c) = co_next_connection_id c"
  "co_sessions (map_session key g c) = bt_modify key g (co_sessions c)"
  by (simp_all add: map_connection_def map_session_def)

lemma bt_modify_insert: "bt_get m k = Some v \<Longrightarrow> bt_modify k f m = bt_insert k (f v) m"
  by (rule bt_eqI) (simp add: bt_get_modify bt_get_insert)

text \<open>Admission bookkeeping survives when the tables stay and no membership with a lease is lost.\<close>

lemma admissions_wf_grow:
  assumes "core_wf c" "co_admissions c' = co_admissions c" "co_admission_leases c' = co_admission_leases c"
    "co_pending_admissions c' = co_pending_admissions c"
    "\<And>cid key. conn_member c cid key \<Longrightarrow> conn_member c' cid key"
    "\<And>key. bt_contains_key (co_sessions c) key \<Longrightarrow> bt_contains_key (co_sessions c') key"
    "\<And>cid. bt_contains_key (co_connections c) cid \<Longrightarrow> bt_contains_key (co_connections c') cid"
  shows "admissions_wf c'"
  using core_wfD(7) [OF assms(1)] assms(5-7) unfolding admissions_wf_def assms(2-4) by blast

lemma join_session_unchecked_wf:
  assumes wf: "core_wf c"
  shows "core_wf (snd (join_session_unchecked_admission cid key c))"
  unfolding join_session_unchecked_admission_def
proof (rule checked_preserves [where P = core_wf, OF wf], goal_cases)
  case (1 cn)
  then obtain s where cn: "bt_get (co_connections c) cid = Some cn" and s: "bt_get (co_sessions c) key = Some s"
    by (auto simp: result_ok bt_contains_key_def)
  note cs = core_connection [OF wf cn] and ss = core_session [OF wf s]
  let ?cn = "cn\<lparr>cn_memberships := bs_insert key (cn_memberships cn)\<rparr>"
  let ?s = "s\<lparr>sn_members := bs_insert cid (sn_members s)\<rparr>"
  let ?c = "map_session key (\<lambda>s. s\<lparr>sn_members := bs_insert cid (sn_members s)\<rparr>)
    (map_connection cid (\<lambda>cn. cn\<lparr>cn_memberships := bs_insert key (cn_memberships cn)\<rparr>) c)"
  have "core_wf ?c" if room: "bt_len (cn_memberships cn) \<noteq> cc_max_memberships_per_connection (co_config c)"
  proof (rule core_wf_both [OF wf cn s, where cn' = ?cn and s' = ?s])
    show "connection_wf (co_config c) (co_next_connection_id c) cid ?cn"
      using cs(1) room bs_len_insert [of key "cn_memberships cn"] by (simp add: connection_wf_def)
    show "belongs_wf ?s" using ss(2) by (auto simp: belongs_wf_def)
    show "admissions_wf ?c"
      by (rule admissions_wf_grow [OF wf])
        (auto simp: conn_member_def bt_get_modify bt_contains_key_def split: if_splits)
  qed (use cs ss cn s core_connection(2) [OF wf cn] in
    \<open>auto simp: bt_modify_insert conn_member_def session_subscribed_def subscribes_def owned_in_def
      live_scope_def current_space_def queued_def entitled_def\<close>)
  then show ?case using wf by simp
qed

end
