(* ===== verification/CoreInvOps.thy ===== *)
theory CoreInvOps
  imports CoreInv
begin

text \<open>The operations that link connections and sessions keep the core's invariant.\<close>

section \<open>Joining\<close>

lemma join_session_wf: "core_wf c \<Longrightarrow> core_wf (snd (join_session cid key c))"
  by (simp add: join_session_def join_session_unchecked_wf)

lemma join_unchecked_fields:
  assumes "join_session_unchecked_admission cid key c = (Inr u, c')"
  shows "co_admissions c' = co_admissions c" "co_admission_leases c' = co_admission_leases c"
    "co_pending_admissions c' = co_pending_admissions c" "conn_member c' cid key"
    "bt_contains_key (co_connections c) cid"
proof -
  obtain cn where cn: "bt_get (co_connections c) cid = Some cn"
    and c': "c' = (if bs_contains (cn_memberships cn) key then c
      else map_session key (\<lambda>s. s\<lparr>sn_members := bs_insert cid (sn_members s)\<rparr>)
        (map_connection cid (\<lambda>cn. cn\<lparr>cn_memberships := bs_insert key (cn_memberships cn)\<rparr>) c))"
    using assms by (auto simp: join_session_unchecked_admission_def checked_ok result_ok split: if_splits)
  then show "co_admissions c' = co_admissions c" "co_admission_leases c' = co_admission_leases c"
    "co_pending_admissions c' = co_pending_admissions c" "conn_member c' cid key"
    "bt_contains_key (co_connections c) cid"
    by (simp_all add: conn_member_def bt_contains_key_def)
qed

lemma join_session_with_admission_wf:
  assumes wf: "core_wf c"
  shows "core_wf (snd (join_session_with_admission cid key lease c))"
  unfolding join_session_with_admission_def
proof (rule checked_preserves [where P = core_wf, OF wf], goal_cases)
  case (1 u)
  then have lease: "al_session lease = key" by (auto simp: result_ok)
  let ?joined = "\<lambda>c. case join_session_unchecked_admission cid key c of
                 (Inl e, c1) \<Rightarrow> (Inl e, c1)
               | (Inr _, c1) \<Rightarrow> (Inr (),
                   c1\<lparr>co_pending_admissions := bt_remove (cid, key) (co_pending_admissions c1),
                      co_admission_leases := bt_insert (cid, key) lease (co_admission_leases c1)\<rparr>)"
  have joined: "core_wf (snd (?joined c))"
    if unbound: "\<not> list_ex (\<lambda>bound. bound = lease) (bt_values (co_admission_leases c))"
  proof -
    obtain r c1 where j: "join_session_unchecked_admission cid key c = (r, c1)" by force
    have wf1: "core_wf c1" using join_session_unchecked_wf [OF wf, of cid key] j by simp
    show ?thesis
    proof (cases r)
      case (Inr v)
      let ?c = "c1\<lparr>co_pending_admissions := bt_remove (cid, key) (co_pending_admissions c1),
        co_admission_leases := bt_insert (cid, key) lease (co_admission_leases c1)\<rparr>"
      note f = join_unchecked_fields [OF j [unfolded Inr]]
      have new: "bt_get (co_admission_leases c1) k \<noteq> Some lease" for k
        using unbound in_bt_values [of lease "co_admission_leases c"] unfolding f(2) list_ex_iff by metis
      have same: "conn_member ?c = conn_member c1" by (simp add: conn_member_def fun_eq_iff)
      note a = admissions_wfD [OF wf1]
      have "conn_member c1 x k \<and> al_session l = k"
        if "bt_get (bt_insert (cid, key) lease (co_admission_leases c1)) (x, k) = Some l" for x k l
        using that a(2) [of x k l] f(4) lease by (auto simp: bt_get_insert split: if_splits)
      moreover have "k1 = k2"
        if "bt_get (bt_insert (cid, key) lease (co_admission_leases c1)) k1 = Some l"
          "bt_get (bt_insert (cid, key) lease (co_admission_leases c1)) k2 = Some l" for k1 k2 l
        using that a(4) new unfolding bt_get_insert by (metis option.inject)
      moreover have "bt_contains_key (co_connections c1) x \<and> al_session l = k"
        if "bt_get (bt_remove (cid, key) (co_pending_admissions c1)) (x, k) = Some l" for x k l
        using that a(3) [of x k l] by (auto split: if_splits)
      ultimately have "admissions_wf ?c"
        using a(1) unfolding admissions_wf_def same by simp
      then have "core_wf ?c"
        by (intro core_wf_frame [OF wf1]) (simp_all add: store_wfD [OF wf1])
      then show ?thesis using j Inr by simp
    qed (use j wf1 in simp)
  qed
  show ?case
  proof (cases "bt_get (co_admission_leases c) (cid, key)")
    case None
    show ?thesis
    proof (cases "bt_get (co_pending_admissions c) (cid, key) = Some lease")
      case True
      have "core_wf (snd (checked (and_then (ok_or (CE_AdmissionLeaseRequired key) (bt_get (co_admissions c) key))
        (\<lambda>controller. if \<not> ad_has_active_lease controller lease
             \<or> list_ex (\<lambda>bound. bound = lease) (bt_values (co_admission_leases c))
           then Inl (CE_InvalidAdmissionLease key) else Inr ())) (\<lambda>_. ?joined) c))"
        by (rule checked_preserves [where P = core_wf, OF wf])
          (rule joined, auto simp: and_then_eq_Inr split: if_splits)
      then show ?thesis using None True by simp
    qed (use None wf in simp)
  qed (use wf in simp)
qed

section \<open>Subscriptions\<close>

lemma session_wf_subscribe:
  assumes "session_wf config nxt s"
  shows "session_wf config nxt (s\<lparr>sn_subscribers := bt_modify sp f (sn_subscribers s)\<rparr>)"
  by (rule session_wf_subscribers [OF assms]) (auto simp: bt_contains_key_def bt_get_modify)

lemma subscribe_wf:
  assumes wf: "core_wf c"
  shows "core_wf (snd (subscribe cid k c))"
  unfolding subscribe_def
proof (rule checked_preserves [where P = core_wf, OF wf], goal_cases)
  case (1 cn)
  obtain key sp where k: "k = SpaceKey key sp" by (cases k)
  from 1 have cn: "bt_get (co_connections c) cid = Some cn" and member: "bs_contains (cn_memberships cn) key"
    by (auto simp: result_ok require_membership_ok k)
  note cs = core_connection [OF wf cn]
  let ?cn = "cn\<lparr>cn_subscriptions := bs_insert k (cn_subscriptions cn)\<rparr>"
  let ?c = "map_session key (\<lambda>s. s\<lparr>sn_subscribers := bt_modify sp (bs_insert cid) (sn_subscribers s)\<rparr>)
    (map_connection cid (\<lambda>cn. cn\<lparr>cn_subscriptions := bs_insert k (cn_subscriptions cn)\<rparr>) c)"
  have joined: "core_wf ?c"
    if s: "bt_get (co_sessions c) key = Some s" and sp: "bt_contains_key (sn_space_map s) sp"
      and room: "bt_len (cn_subscriptions cn) \<noteq> cc_max_subscriptions_per_connection (co_config c)" for s
  proof (rule core_wf_both [OF wf cn s, where cn' = ?cn
        and s' = "s\<lparr>sn_subscribers := bt_modify sp (bs_insert cid) (sn_subscribers s)\<rparr>"])
    note ss = core_session [OF wf s]
    have subs: "bt_contains_key (sn_subscribers s) sp"
      using session_wfD(1) [OF ss(1)] sp by (simp add: spaces_wf_def)
    show "connection_wf (co_config c) (co_next_connection_id c) cid ?cn"
      using cs(1) room bs_len_insert [of k "cn_subscriptions cn"] by (simp add: connection_wf_def)
    show "belongs_wf (s\<lparr>sn_subscribers := bt_modify sp (bs_insert cid) (sn_subscribers s)\<rparr>)"
      using ss(2) by (simp add: belongs_wf_def)
    show "admissions_wf ?c"
      by (rule admissions_wf_grow [OF wf])
        (auto simp: conn_member_def bt_get_modify bt_contains_key_def split: if_splits)
    show "subscribes (s\<lparr>sn_subscribers := bt_modify sp (bs_insert cid) (sn_subscribers s)\<rparr>) x sp'
      \<longleftrightarrow> (if x = cid then bs_contains (cn_subscriptions ?cn) (SpaceKey key sp') else subscribes s x sp')" for x sp'
      using subs ss(4) [of cid sp'] cn
      by (auto simp: subscribes_def bt_get_modify k bt_contains_key_def conn_subscribed_def)
    show "session_wf (co_config c) (co_next_entity_id ?c)
      (s\<lparr>sn_subscribers := bt_modify sp (bs_insert cid) (sn_subscribers s)\<rparr>)"
      using ss(1) by (simp add: session_wf_subscribe)
  qed (use cs core_session [OF wf s] cn s member core_connection(2) [OF wf cn] k in
    \<open>auto simp: bt_modify_insert conn_member_def owned_in_def live_scope_def current_space_def queued_def
      entitled_def\<close>)
  show ?case
  proof (cases "bs_contains (cn_subscriptions cn) k")
    case True
    then show ?thesis using wf by simp
  next
    case False
    have step: "core_wf (snd (checked (and_then (get_session (map_connection cid (\<lambda>cn. cn\<lparr>cn_subscriptions := bs_insert k (cn_subscriptions cn)\<rparr>) c) (spk_session k)) (\<lambda>s.
                 ok_or (CE_SpaceNotFound k) (bt_get (sn_subscribers s) (spk_space k))))
               (\<lambda>_ c. (Inr (), map_session (spk_session k) (\<lambda>s. s\<lparr>sn_subscribers :=
                  bt_modify (spk_space k) (bs_insert cid) (sn_subscribers s)\<rparr>) c))
                (map_connection cid (\<lambda>cn. cn\<lparr>cn_subscriptions := bs_insert k (cn_subscriptions cn)\<rparr>) c)))"
      if s: "bt_get (co_sessions c) key = Some s" and sp: "bt_contains_key (sn_space_map s) sp"
        and room: "bt_len (cn_subscriptions cn) \<noteq> cc_max_subscriptions_per_connection (co_config c)" for s
    proof -
      have "bt_contains_key (sn_subscribers s) sp"
        using session_wfD(1) [OF core_session(1) [OF wf s]] sp by (simp add: spaces_wf_def)
      then obtain subs where "bt_get (sn_subscribers s) sp = Some subs" by (auto simp: bt_contains_key_def)
      then show ?thesis using joined [OF that] s by (simp add: k get_session_def)
    qed
    show ?thesis
      unfolding if_not_P [OF False] Let_def
    proof (rule checked_preserves [where P = core_wf, OF wf], goal_cases)
      case (1 u)
      then obtain s where "bt_get (co_sessions c) key = Some s" "bt_contains_key (sn_space_map s) sp"
        "bt_len (cn_subscriptions cn) \<noteq> cc_max_subscriptions_per_connection (co_config c)"
        by (auto simp: and_then_eq_Inr k)
      then show ?case by (rule step)
    qed
  qed
qed

lemma unsubscribe_wf:
  assumes wf: "core_wf c"
  shows "core_wf (snd (unsubscribe cid k c))"
  unfolding unsubscribe_def
proof (rule checked_preserves [where P = core_wf, OF wf], goal_cases)
  case (1 cn)
  obtain key sp where k: "k = SpaceKey key sp" by (cases k)
  from 1 have cn: "bt_get (co_connections c) cid = Some cn" by (auto simp: and_then_eq_Inr)
  let ?P = "\<lambda>m. message_of_session key m \<and> om_space m = sp"
  note cs = core_connection [OF wf cn]
  obtain n q where p: "oq_purge ?P (cn_outbound cn) = (n, q)" by force
  have q: "oq_wf q" "oq_config q = oq_config (cn_outbound cn)"
    "oq_view q = filter (\<lambda>m. \<not> ?P m) (oq_view (cn_outbound cn))"
    using oq_purge_wf [OF _ p] cs(1) by (simp_all add: connection_wf_def)
  let ?cn = "cn\<lparr>cn_subscriptions := bs_remove k (cn_subscriptions cn), cn_outbound := q\<rparr>"
  let ?s = "\<lambda>s. s\<lparr>sn_subscribers := bt_modify sp (bs_remove cid) (sn_subscribers s)\<rparr>"
  let ?c = "map_session key ?s (map_connection cid (\<lambda>cn. cn\<lparr>cn_subscriptions :=
      bs_remove k (cn_subscriptions cn), cn_outbound := q\<rparr>) c)"
  have "core_wf ?c" if sub: "bs_contains (cn_subscriptions cn) k"
  proof -
    obtain s where s: "bt_get (co_sessions c) key = Some s"
      using cs(5) [of key sp] sub by (auto simp: k session_subscribed_def)
    note ss = core_session [OF wf s]
    show ?thesis
    proof (rule core_wf_both [OF wf cn s, where cn' = ?cn and s' = "?s s"])
      show "connection_wf (co_config c) (co_next_connection_id c) cid ?cn"
        using cs(1) q bs_len_remove [of k "cn_subscriptions cn"] by (auto simp: connection_wf_def)
      show "belongs_wf (?s s)" using ss(2) by (simp add: belongs_wf_def)
      show "admissions_wf ?c"
        by (rule admissions_wf_grow [OF wf])
          (auto simp: conn_member_def bt_get_modify bt_contains_key_def split: if_splits)
      show "subscribes (?s s) x sp'
        \<longleftrightarrow> (if x = cid then bs_contains (cn_subscriptions ?cn) (SpaceKey key sp') else subscribes s x sp')" for x sp'
        using ss(4) [of cid sp'] cn
        by (auto simp: subscribes_def bt_get_modify k conn_subscribed_def)
      show "session_wf (co_config c) (co_next_entity_id ?c) (?s s)"
        using ss(1) by (simp add: session_wf_subscribe)
      show "m \<in> queued cn \<and> entitled ?cn m" if "m \<in> queued ?cn" for m
        using that q(3) cs(2) [of m] by (auto simp: queued_def entitled_def k message_of_session_iff)
    qed (use cs ss cn s k in \<open>auto simp: bt_modify_insert conn_member_def owned_in_def live_scope_def current_space_def\<close>)
  qed
  then show ?case using wf p by (simp add: k)
qed

section \<open>Entities\<close>

lemma spawn_entity_wf:
  assumes wf: "core_wf c"
  shows "core_wf (snd (spawn_entity cid k epoch c))"
  unfolding spawn_entity_def
proof (rule checked_preserves [where P = core_wf, OF wf], goal_cases)
  case (1 p)
  obtain key sp where k: "k = SpaceKey key sp" by (cases k)
  from 1 obtain cn s d where cn: "bt_get (co_connections c) cid = Some cn"
    and s: "bt_get (co_sessions c) key = Some s" and member: "bs_contains (cn_memberships cn) key"
    and d: "bt_get (sn_space_map s) sp = Some d" "sd_epoch d = epoch"
    and quota: "cn_owned_entities cn \<noteq> cc_max_owned_entities_per_connection (co_config c)"
    and room: "bt_len (sn_entity_map s) \<noteq> cc_max_entities_per_session (co_config c)"
    by (auto simp: spawn_entity_checks_def and_then_eq_Inr require_membership_ok k)
  note cs = core_connection [OF wf cn] and ss = core_session [OF wf s]
  let ?e = "co_next_entity_id c"
  let ?r = "\<lparr>er_id = ?e, er_owner_connection = cid, er_owner_principal = ap_principal_id p,
    er_space = sp, er_space_epoch = epoch, er_position = None\<rparr>"
  let ?s = "\<lambda>s. s\<lparr>sn_entity_map := bt_insert ?e ?r (sn_entity_map s)\<rparr>"
  let ?cn = "cn\<lparr>cn_owned_entities := cn_owned_entities cn + 1\<rparr>"
  have fresh: "bt_get (sn_entity_map s) ?e = None"
    using session_wfD(2) [OF ss(1)] unfolding entities_wf_def
    by (cases "bt_get (sn_entity_map s) ?e") auto
  have "core_wf (map_connection cid (\<lambda>cn. cn\<lparr>cn_owned_entities := cn_owned_entities cn + 1\<rparr>)
            (map_session key ?s (c\<lparr>co_next_entity_id := n\<rparr>)))" (is "core_wf ?c")
    if succ: "u64_checked_succ ?e = Some n" for n
  proof (rule core_wf_both [OF wf cn s, where cn' = ?cn and s' = "?s s"])
    have lt: "?e < n" using succ by (rule u64_checked_succ_less)
    then show "co_next_entity_id c \<le> co_next_entity_id ?c" by simp
    show "connection_wf (co_config c) (co_next_connection_id c) cid ?cn"
      using cs(1) quota by (simp add: connection_wf_def)
    show "belongs_wf (?s s)"
      using ss(2,3) member cn by (auto simp: belongs_wf_def bt_get_insert conn_member_def)
    show "admissions_wf ?c"
      by (rule admissions_wf_grow [OF wf])
        (auto simp: conn_member_def bt_get_modify bt_contains_key_def split: if_splits)
    have "bt_len (sn_entity_map s) < cc_max_entities_per_session (co_config c)"
      using room session_wfD(6) [OF ss(1)] by (simp add: limits_wf_def)
    then show "session_wf (co_config c) (co_next_entity_id ?c) (?s s)"
      using session_wf_spawn [OF ss(1) _ store_wfD(2) [OF wf] lt, of sp epoch] d
      by (simp add: current_space_def)
    have count: "owned_in x (?s s) = owned_in x s + (if x = cid then 1 else 0)" for x
      using bt_sum_insert [of "\<lambda>_ r. if er_owner_connection r = x then 1 else 0" ?e ?r "sn_entity_map s"] fresh
      by (simp add: owned_in_def bt_count_sum)
    then show "cn_owned_entities ?cn + owned_in cid s = cn_owned_entities cn + owned_in cid (?s s)"
      "\<And>x. x \<noteq> cid \<Longrightarrow> owned_in x (?s s) = owned_in x s"
      by simp_all
    show "live_scope (?s s) sp' ep e" if "live_scope s sp' ep e" for sp' ep e
      using that fresh by (auto simp: live_scope_def current_space_def bt_get_insert)
    show "co_sessions ?c = bt_insert key (?s s) (co_sessions c)"
      using s by (simp add: bt_modify_insert)
    show "co_connections ?c = bt_insert cid ?cn (co_connections c)"
      using cn by (simp add: bt_modify_insert)
    show "bs_contains (sn_members (?s s)) x \<longleftrightarrow>
        (if x = cid then bs_contains (cn_memberships ?cn) key else bs_contains (sn_members s) x)" for x
      using ss(3) [of x] cn by (auto simp: conn_member_def)
    show "subscribes (?s s) x sp' \<longleftrightarrow>
        (if x = cid then bs_contains (cn_subscriptions ?cn) (SpaceKey key sp') else subscribes s x sp')" for x sp'
      using ss(4) [of x sp'] cn by (auto simp: conn_subscribed_def subscribes_def)
    show "bs_contains (cn_subscriptions ?cn) (SpaceKey key sp') \<Longrightarrow> bs_contains (cn_memberships ?cn) key" for sp'
      using member by simp
    show "m \<in> queued ?cn \<Longrightarrow> m \<in> queued cn \<and> entitled ?cn m" for m
      using cs(2) [of m] by (auto simp: queued_def entitled_def)
  qed simp_all
  then show ?case
    using wf by (cases "u64_checked_succ ?e") (simp_all add: k Let_def)
qed

lemma core_update_commute:
  "c\<lparr>co_sessions := x, co_connections := y\<rparr> = c\<lparr>co_connections := y, co_sessions := x\<rparr>"
  by (cases c) simp

lemma owned_in_modify:
  assumes "\<And>r. er_owner_connection (f r) = er_owner_connection r"
  shows "bt_count (\<lambda>_ r. er_owner_connection r = cid) (bt_modify e f m)
    = bt_count (\<lambda>_ r. er_owner_connection r = cid) m"
proof -
  have "dom (bt_get (bt_modify e f m)) = dom (bt_get m)" by (auto simp: bt_get_modify split: if_splits)
  then show ?thesis
    unfolding bt_count_sum bt_sum_dom
    by (intro sum.cong) (auto simp: bt_get_modify assms split: if_splits)
qed

lemma update_entity_position_wf:
  assumes wf: "core_wf c"
  shows "core_wf (snd (update_entity_position cid key e pos c))"
  unfolding update_entity_position_def
proof (rule checked_preserves [where P = core_wf, OF wf], goal_cases)
  case (1 cell)
  then obtain s r d where s: "bt_get (co_sessions c) key = Some s"
    and r: "bt_get (sn_entity_map s) e = Some r" and d: "bt_get (sn_space_map s) (er_space r) = Some d"
    and cell: "spatial_cell_for pos d (er_space_epoch r) = Inr cell"
    by (auto simp: update_entity_position_checks_def and_then_eq_Inr)
  note ss = core_session [OF wf s] and w = session_wfD [OF core_session(1) [OF wf s]]
  have inv: "index_wf (sn_entity_cells s) (sn_cell_entities s)" using w(3) by (simp add: cells_wf_index)
  note em = place_entity_index(3) [OF inv, of e cell pos]
  have id: "sd_id d = er_space r" using w(1) d unfolding spaces_wf_def by blast
  have "core_wf (c\<lparr>co_sessions := bt_insert key (place_entity e cell pos s) (co_sessions c)\<rparr>)"
  proof (rule core_wf_session [OF wf s])
    show "session_wf (co_config c) (co_next_entity_id c) (place_entity e cell pos s)"
      by (rule session_wf_place [OF ss(1) r]) (use spatial_cell_for_key cell id in fastforce)
    show "belongs_wf (place_entity e cell pos s)"
      using ss(2) by (auto simp: belongs_wf_def em bt_get_modify split: if_splits)
    show "owned_in x (place_entity e cell pos s) = owned_in x s" for x
      by (simp add: owned_in_def em owned_in_modify)
    show "live_scope (place_entity e cell pos s) (om_space m) (om_space_epoch m) (om_entity m)"
      if "live_scope s (om_space m) (om_space_epoch m) (om_entity m)" for m
      using that by (auto simp: live_scope_def current_space_def em bt_get_modify)
  qed (simp_all add: subscribes_def)
  then show ?case using s by (simp add: map_session_insert)
qed

lemma install_space_wf:
  assumes wf: "core_wf c"
  shows "core_wf (snd (install_space key d c))"
  unfolding install_space_def
proof (rule checked_preserves [where P = core_wf, OF wf], goal_cases)
  case (1 u)
  then obtain s where s: "bt_get (co_sessions c) key = Some s" and ok: "sd_validate d = Inr ()"
    and checks: "install_space_checks (co_config c) key d s = Inr ()"
    by (auto simp: and_then_eq_Inr)
  let ?s = "s\<lparr>sn_tombstones := bt_remove (sd_id d) (sn_tombstones s),
      sn_subscribers := bt_insert (sd_id d) bt_new (sn_subscribers s),
      sn_space_map := bt_insert (sd_id d) d (sn_space_map s)\<rparr>"
  note ss = core_session [OF wf s]
  have new: "bt_get (sn_space_map s) (sd_id d) = None"
    using checks by (auto simp: install_space_checks_def bt_contains_key_def split: if_splits)
  then have none: "bt_get (sn_subscribers s) (sd_id d) = None"
    using session_wfD(1) [OF ss(1)] unfolding spaces_wf_def bt_contains_key_def by metis
  have "core_wf (c\<lparr>co_sessions := bt_insert key ?s (co_sessions c)\<rparr>)"
  proof (rule core_wf_session [OF wf s])
    show "session_wf (co_config c) (co_next_entity_id c) ?s"
      by (rule session_wf_install [OF ss(1) ok checks])
    show "live_scope ?s (om_space m) (om_space_epoch m) (om_entity m)"
      if "live_scope s (om_space m) (om_space_epoch m) (om_entity m)" for m
      using that new by (auto simp: live_scope_def current_space_def bt_get_insert)
  qed (use ss(2) none in \<open>auto simp: subscribes_def belongs_wf_def owned_in_def bt_get_insert\<close>)
  then show ?case using s by (simp add: map_session_insert)
qed

lemma transition_entity_wf:
  assumes wf: "core_wf c"
  shows "core_wf (snd (transition_entity r c))"
  unfolding transition_entity_def
proof (rule checked_preserves [where P = core_wf, OF wf], goal_cases)
  case (1 u)
  let ?key = "tq_session r" and ?P = "\<lambda>m. message_of_session (tq_session r) m \<and> om_space m = tq_source_space r
    \<and> om_space_epoch m = tq_source_epoch r \<and> om_entity m = Some (tq_entity r)"
  from 1 obtain s e dd where s: "bt_get (co_sessions c) ?key = Some s"
    and e: "bt_get (sn_entity_map s) (tq_entity r) = Some e"
    and src: "er_space e = tq_source_space r" "er_space_epoch e = tq_source_epoch r"
    and dst: "bt_get (sn_space_map s) (tq_destination_space r) = Some dd" "sd_epoch dd = tq_destination_epoch r"
    by (auto simp: transition_checks_def Let_def and_then_eq_Inr)
  let ?c = "c\<lparr>co_connections := bt_map (\<lambda>_. purge_connection ?P) (co_connections c)\<rparr>"
  have wf1: "core_wf ?c" by (rule core_wf_purge [OF wf])
  have s1: "bt_get (co_sessions ?c) ?key = Some s" using s by simp
  note ss = core_session [OF wf1 s1] and f = transition_session_fields [of r s]
  note w = session_wfD [OF ss(1)]
  have "core_wf (?c\<lparr>co_sessions := bt_insert ?key (transition_session r s) (co_sessions ?c)\<rparr>)"
  proof (rule core_wf_session [OF wf1 s1])
    show "session_wf (co_config ?c) (co_next_entity_id ?c) (transition_session r s)"
      by (rule session_wf_transition [OF ss(1) e src]) (use dst in \<open>simp add: current_space_def\<close>)
    show "belongs_wf (transition_session r s)"
      using ss(2) by (auto simp: belongs_wf_def f bt_get_modify split: if_splits option.splits)
    show "owned_in x (transition_session r s) = owned_in x s" for x
      by (simp add: owned_in_def f owned_in_modify)
    fix cid cn m
    assume cn: "bt_get (co_connections ?c) cid = Some cn" and m: "m \<in> queued cn" "session_of m = ?key"
      and l: "live_scope s (om_space m) (om_space_epoch m) (om_entity m)"
    obtain cn0 where cn0: "bt_get (co_connections c) cid = Some cn0" "cn = purge_connection ?P cn0"
      using cn by auto
    have "\<not> ?P m"
      using m(1) cn0 purge_connection_wf(2) [OF core_connection(1) [OF wf cn0(1)], of ?P] by simp
    moreover have "om_space_epoch m = tq_source_epoch r" if "om_space m = tq_source_space r"
      using that l w(2) e src unfolding live_scope_def current_space_def entities_wf_def by fastforce
    ultimately show "live_scope (transition_session r s) (om_space m) (om_space_epoch m) (om_entity m)"
      using l e src m(2) by (auto simp: live_scope_def current_space_def f bt_get_modify message_of_session_iff)
  qed (simp_all add: f subscribes_def)
  then have "core_wf (snd (purge_all_connections ?P (map_session ?key (transition_session r) c)))"
    using s by (simp add: purge_all_connections_def map_session_insert core_update_commute)
  then show ?case using wf by simp
qed

end
