(* ===== verification/CoreInvCleanup.thy ===== *)
theory CoreInvCleanup
  imports CoreInvOps
begin

text \<open>
  The cascade removal, detaching, leaving and transport loss keep the core's invariant. The
  removal is described by its effect: which spaces, entities, subscriptions, keys and queued
  messages are gone afterwards.
\<close>

section \<open>Effect of the removal\<close>

lemma count_owners_get:
  "bt_get (count_owners es) x
     = (let n = length (filter (\<lambda>r. er_owner_connection r = x) es) in if n = 0 then None else Some n)"
proof -
  have "bt_get (foldl (\<lambda>owners e. bt_insert (er_owner_connection e)
       ((case bt_get owners (er_owner_connection e) of None \<Rightarrow> 0 | Some n \<Rightarrow> n) + 1) owners) m es) x
     = (let n = length (filter (\<lambda>r. er_owner_connection r = x) es) in
        if n = 0 then bt_get m x else Some ((case bt_get m x of None \<Rightarrow> 0 | Some k \<Rightarrow> k) + n))" for m
    by (induction es arbitrary: m) (auto simp: Let_def bt_get_insert split: option.splits if_splits)
  from this [of bt_new] show ?thesis by (simp add: count_owners_def)
qed

lemma release_owned_get:
  "bt_get (release_owned owners conns) x = map_option (\<lambda>cn. cn\<lparr>cn_owned_entities :=
     cn_owned_entities cn - (case bt_get owners x of None \<Rightarrow> 0 | Some n \<Rightarrow> n)\<rparr>) (bt_get conns x)"
proof -
  have "bt_get (foldl (\<lambda>conns (owner, count).
     bt_modify owner (\<lambda>cn. cn\<lparr>cn_owned_entities := cn_owned_entities cn - count\<rparr>) conns) conns xs) x
    = map_option (\<lambda>cn. cn\<lparr>cn_owned_entities :=
        cn_owned_entities cn - (case map_of xs x of None \<Rightarrow> 0 | Some n \<Rightarrow> n)\<rparr>) (bt_get conns x)"
    if "distinct (map fst xs)" for xs :: "(connection_id \<times> nat) list" and conns
    using that
  proof (induction xs arbitrary: conns)
    case Nil
    then show ?case by (simp add: option.map_ident)
  next
    case (Cons a xs)
    obtain o' n where a: "a = (o', n)" by force
    have "map_of xs o' = None" using Cons.prems a by (simp add: map_of_eq_None_iff)
    then show ?case
      using Cons by (auto simp: a bt_get_modify option.map_comp comp_def)
  qed
  from this [of "bt_iter owners"] show ?thesis by (simp add: release_owned_def bt_get_def)
qed

definition removed_connection ::
  "session_key \<Rightarrow> entity_id btset \<Rightarrow> space_id btset \<Rightarrow> nat \<Rightarrow> connection_state \<Rightarrow> connection_state" where
  "removed_connection key E S n cn = purge_connection (message_removed key E S)
     (cn\<lparr>cn_owned_entities := cn_owned_entities cn - n,
         cn_subscriptions := bs_retain (\<lambda>sp. spk_session sp \<noteq> key \<or> \<not> bs_contains S (spk_space sp))
           (cn_subscriptions cn)\<rparr>)"

definition removed_owned :: "entity_id btset \<Rightarrow> session_state \<Rightarrow> connection_id \<Rightarrow> nat" where
  "removed_owned E s x = bt_count (\<lambda>e r. er_owner_connection r = x \<and> bs_contains E e) (sn_entity_map s)"

lemma bt_count_filter: "bt_count P m = length (filter (\<lambda>(k, v). P k v) (bt_iter m))"
  by (simp add: bt_count_def bt_len_def bt_iter_retain)

lemma removed_owned_alt:
  assumes "entities_wf nxt s"
  shows "length (filter (\<lambda>r. er_owner_connection r = x)
    (filter (\<lambda>r. bs_contains E (er_id r)) (bt_values (sn_entity_map s)))) = removed_owned E s x"
proof -
  have id: "er_id r = e" if "(e, r) \<in> set (bt_iter (sn_entity_map s))" for e r
    using assms that by (auto simp: entities_wf_def in_bt_iter)
  have "filter (\<lambda>p. er_owner_connection (snd p) = x \<and> bs_contains E (er_id (snd p))) (bt_iter (sn_entity_map s))
    = filter (\<lambda>(e, r). er_owner_connection r = x \<and> bs_contains E e) (bt_iter (sn_entity_map s))"
    using id by (intro filter_cong) auto
  then show ?thesis
    by (simp add: removed_owned_def bt_count_filter bt_values_def filter_map comp_def conj_commute)
qed

lemma owned_in_removed:
  "owned_in x (snd (removed_from_session key E S s)) + removed_owned E s x = owned_in x s"
proof -
  let ?I = "filter (\<lambda>(e, r). er_owner_connection r = x) (bt_iter (sn_entity_map s))"
  have "owned_in x (snd (removed_from_session key E S s))
      = length (filter (\<lambda>(e, r). \<not> bs_contains E e) ?I)"
    by (simp add: owned_in_def bt_count_filter removed_from_session_fields(4) bt_iter_retain
        case_prod_unfold conj_commute)
  moreover have "removed_owned E s x = length (filter (\<lambda>(e, r). bs_contains E e) ?I)"
    by (simp add: removed_owned_def bt_count_filter case_prod_unfold conj_commute)
  moreover have "owned_in x s = length ?I"
    by (simp add: owned_in_def bt_count_filter)
  ultimately show ?thesis
    using sum_length_filter_compl [of "\<lambda>(e, r). bs_contains E e" ?I]
    by (simp add: case_prod_unfold)
qed

lemma remove_entities_effect:
  assumes wf: "core_wf c" and s: "bt_get (co_sessions c) key = Some s"
    and close: "close_removed s start bt_new = (E, S)"
    and r: "remove_entities_and_anchored_spaces key start c = (summary, c')"
  shows "c' = c\<lparr>co_sessions := bt_insert key (snd (removed_from_session key E S s)) (co_sessions c),
      co_connections := co_connections c'\<rparr>"
    "bt_get (co_connections c') x
      = map_option (removed_connection key E S (removed_owned E s x)) (bt_get (co_connections c) x)"
proof -
  have ent: "entities_wf (co_next_entity_id c) s"
    using session_wfD(2) [OF core_session(1) [OF wf s]] .
  show "c' = c\<lparr>co_sessions := bt_insert key (snd (removed_from_session key E S s)) (co_sessions c),
      co_connections := co_connections c'\<rparr>"
    using r s close by (auto simp: remove_entities_and_anchored_spaces_def Let_def split_beta)
  have conns: "co_connections c' = bt_map (\<lambda>_. purge_connection (message_removed key E S))
     (bt_map (\<lambda>_ cn. cn\<lparr>cn_subscriptions := bs_retain
                  (\<lambda>sp. spk_session sp \<noteq> key \<or> \<not> bs_contains S (spk_space sp))
                  (cn_subscriptions cn)\<rparr>)
       (release_owned (count_owners (filter (\<lambda>e. bs_contains E (er_id e)) (bt_values (sn_entity_map s))))
         (co_connections c)))"
    using r s close by (auto simp: remove_entities_and_anchored_spaces_def Let_def split_beta)
  have "(case bt_get (count_owners (filter (\<lambda>e. bs_contains E (er_id e)) (bt_values (sn_entity_map s)))) x of
      None \<Rightarrow> 0 | Some n \<Rightarrow> n) = removed_owned E s x"
    using removed_owned_alt [OF ent, of x E] by (simp add: count_owners_get Let_def)
  then show "bt_get (co_connections c') x
      = map_option (removed_connection key E S (removed_owned E s x)) (bt_get (co_connections c) x)"
    by (simp add: conns release_owned_get option.map_comp comp_def removed_connection_def [abs_def])
qed

lemma removed_connection_fields [simp]:
  "cn_memberships (removed_connection key E S n cn) = cn_memberships cn"
  "cn_owned_entities (removed_connection key E S n cn) = cn_owned_entities cn - n"
  "cn_authenticated (removed_connection key E S n cn) = cn_authenticated cn"
  "bs_contains (cn_subscriptions (removed_connection key E S n cn)) (SpaceKey k sp)
     \<longleftrightarrow> bs_contains (cn_subscriptions cn) (SpaceKey k sp) \<and> (k \<noteq> key \<or> \<not> bs_contains S sp)"
  by (auto simp: removed_connection_def)

lemma removed_connection_wf:
  assumes "connection_wf config nxt cid cn"
  shows "connection_wf config nxt cid (removed_connection key E S n cn)"
    "queued (removed_connection key E S n cn) = {m \<in> queued cn. \<not> message_removed key E S m}"
proof -
  let ?cn = "cn\<lparr>cn_owned_entities := cn_owned_entities cn - n, cn_subscriptions := bs_retain
    (\<lambda>sp. spk_session sp \<noteq> key \<or> \<not> bs_contains S (spk_space sp)) (cn_subscriptions cn)\<rparr>"
  have "bt_len (cn_subscriptions ?cn) \<le> bt_len (cn_subscriptions cn)" by (simp add: bs_len_retain_le)
  then have wf: "connection_wf config nxt cid ?cn" using assms by (auto simp: connection_wf_def)
  have q: "queued ?cn = queued cn" by (simp add: queued_def)
  show "connection_wf config nxt cid (removed_connection key E S n cn)"
    unfolding removed_connection_def by (rule purge_connection_wf(1) [OF wf])
  show "queued (removed_connection key E S n cn) = {m \<in> queued cn. \<not> message_removed key E S m}"
    unfolding removed_connection_def purge_connection_wf(2) [OF wf] q ..
qed

lemma remove_entities_wf_session:
  assumes wf: "core_wf c" and s: "bt_get (co_sessions c) key = Some s"
    and close: "close_removed s start bt_new = (E, S)"
    and r: "remove_entities_and_anchored_spaces key start c = (summary, c')"
  shows "core_wf c'"
proof -
  let ?s = "snd (removed_from_session key E S s)"
  note w = core_wfD [OF wf] and ss = core_session [OF wf s]
  note c' = remove_entities_effect [OF wf s close r] and f = removed_from_session_fields [of key E S s]
  have sess: "co_sessions c' = bt_insert key ?s (co_sessions c)" and
    same: "co_config c' = co_config c" "co_next_connection_id c' = co_next_connection_id c"
      "co_next_entity_id c' = co_next_entity_id c" "co_channels c' = co_channels c"
      "co_journal_outbox c' = co_journal_outbox c" "co_admissions c' = co_admissions c"
      "co_admission_leases c' = co_admission_leases c" "co_pending_admissions c' = co_pending_admissions c"
    by (subst c'(1), simp)+
  have old: "\<exists>cn. bt_get (co_connections c) x = Some cn \<and> cn' = removed_connection key E S (removed_owned E s x) cn"
    if "bt_get (co_connections c') x = Some cn'" for x cn'
    using that unfolding c'(2) by auto
  have len: "bt_len (co_connections c') = bt_len (co_connections c)"
    by (rule bt_len_dom_eq) (simp add: c'(2))
  have slen: "bt_len (co_sessions c') = bt_len (co_sessions c)" using s by (simp add: sess bt_len_insert)
  have "store_wf c'" using w(1) len slen by (simp add: store_wf_def same)
  moreover have "connections_wf c'"
    unfolding connections_wf_def same
    using old core_connection(1) [OF wf] removed_connection_wf(1) by blast
  moreover have bel: "belongs_wf ?s"
    using ss(2) by (auto simp: belongs_wf_def f split: option.splits if_splits)
  then have "sessions_wf c'"
    using w(3) session_wf_removed [OF ss(1) close, of key]
    by (simp add: sessions_wf_def sess same bt_get_insert)
  moreover have 1: "conn_member c' x k \<longleftrightarrow> conn_member c x k"
    "conn_subscribed c' x k sp \<longleftrightarrow> conn_subscribed c x k sp \<and> (k \<noteq> key \<or> \<not> bs_contains S sp)"
    "session_member c' x k \<longleftrightarrow> session_member c x k"
    "session_subscribed c' x k sp \<longleftrightarrow> session_subscribed c x k sp \<and> (k \<noteq> key \<or> \<not> bs_contains S sp)"
    for x k sp
    using s by (auto simp: link_defs c'(2) sess bt_get_insert f subscribes_def)
  have "links_wf c'" using w(4) unfolding links_wf_def 1 by blast
  moreover have "queues_wf c'"
    unfolding queues_wf_def
  proof (intro allI impI)
    fix x cn' m
    assume x: "bt_get (co_connections c') x = Some cn'" and m: "m \<in> queued cn'"
    obtain cn where cn: "bt_get (co_connections c) x = Some cn"
      and cn': "cn' = removed_connection key E S (removed_owned E s x) cn" using old [OF x] by blast
    have kept: "m \<in> queued cn" "\<not> message_removed key E S m"
      using m removed_connection_wf(2) [OF core_connection(1) [OF wf cn]] cn' by auto
    note q = core_connection(2) [OF wf cn kept(1)]
    have "entitled cn' m"
      using q kept(2) by (auto simp: entitled_def cn' message_removed_def message_of_session_iff)
    moreover have "live_message c' m"
    proof (cases "session_of m = key")
      case True
      then have "live_scope s (om_space m) (om_space_epoch m) (om_entity m)"
        using q s by (auto simp: live_message_def)
      moreover have "\<not> bs_contains S (om_space m)" "\<not> entity_removed E (om_entity m)"
        using kept(2) True by (auto simp: message_removed_def message_of_session_iff)
      ultimately have "live_scope ?s (om_space m) (om_space_epoch m) (om_entity m)"
        by (auto simp: live_scope_def current_space_def f entity_removed_def)
      then show ?thesis using True by (simp add: live_message_def sess)
    next
      case False
      then show ?thesis using q by (simp add: live_message_def sess bt_get_insert)
    qed
    ultimately show "entitled cn' m \<and> live_message c' m" ..
  qed
  moreover have "quotas_wf c'"
    unfolding quotas_wf_def
  proof (intro allI impI)
    fix x cn'
    assume x: "bt_get (co_connections c') x = Some cn'"
    obtain cn where cn: "bt_get (co_connections c) x = Some cn"
      and cn': "cn' = removed_connection key E S (removed_owned E s x) cn" using old [OF x] by blast
    have "owned_total c' x + owned_in x s = owned_total c x + owned_in x ?s"
      using owned_total_insert [OF s, of ?s x] by (simp add: owned_total_def sess)
    then show "cn_owned_entities cn' = owned_total c' x"
      using core_connection(3) [OF wf cn] owned_in_removed [of x key E S s] by (simp add: cn')
  qed
  moreover have "admissions_wf c'"
    by (rule admissions_wf_grow [OF wf])
      (auto simp: same 1 bt_contains_key_def c'(2) sess bt_get_insert)
  ultimately show ?thesis by (simp add: core_wf_def)
qed

lemma remove_entities_wf:
  assumes wf: "core_wf c"
  shows "core_wf (snd (remove_entities_and_anchored_spaces key start c))"
proof (cases "bt_get (co_sessions c) key")
  case None
  let ?conns = "bt_map (\<lambda>_. purge_connection (message_removed key start bt_new)) (bt_map
    (\<lambda>_ cn. cn\<lparr>cn_subscriptions := bs_retain (\<lambda>sp. spk_session sp \<noteq> key \<or> \<not> bs_contains bt_new (spk_space sp))
       (cn_subscriptions cn)\<rparr>) (release_owned bt_new (co_connections c)))"
  have retain: "bs_retain (\<lambda>_. True) x = x" for x :: "space_key btset" by (rule bs_eqI) simp
  have "?conns = bt_map (\<lambda>_. purge_connection (message_removed key start bt_new)) (co_connections c)"
    by (rule bt_eqI) (simp add: release_owned_get retain option.map_comp comp_def option.map_ident)
  then show ?thesis
    using core_wf_purge [OF wf, of "message_removed key start bt_new"] None
    by (simp add: remove_entities_and_anchored_spaces_def Let_def)
next
  case (Some s)
  obtain E S where "close_removed s start bt_new = (E, S)" by force
  from remove_entities_wf_session [OF wf Some this, of "fst (remove_entities_and_anchored_spaces key start c)"]
  show ?thesis by (simp add: prod_eq_iff)
qed

lemma remove_entities_frame [simp]:
  "co_config (snd (remove_entities_and_anchored_spaces key start c)) = co_config c"
  "co_channels (snd (remove_entities_and_anchored_spaces key start c)) = co_channels c"
  "co_admissions (snd (remove_entities_and_anchored_spaces key start c)) = co_admissions c"
  "co_admission_leases (snd (remove_entities_and_anchored_spaces key start c)) = co_admission_leases c"
  "co_pending_admissions (snd (remove_entities_and_anchored_spaces key start c)) = co_pending_admissions c"
  "co_journal_outbox (snd (remove_entities_and_anchored_spaces key start c)) = co_journal_outbox c"
  "co_next_entity_id (snd (remove_entities_and_anchored_spaces key start c)) = co_next_entity_id c"
  "co_next_connection_id (snd (remove_entities_and_anchored_spaces key start c)) = co_next_connection_id c"
  by (simp_all add: remove_entities_and_anchored_spaces_def Let_def split_beta)

text \<open>Seen from the session: the roots and everything the closure reaches are gone.\<close>

lemma remove_entities_session:
  assumes wf: "core_wf c" and s: "bt_get (co_sessions c) key = Some s"
    and r: "remove_entities_and_anchored_spaces key start c = (summary, c')"
  obtains E S where "close_removed s start bt_new = (E, S)"
    "\<And>e. bs_contains start e \<Longrightarrow> bs_contains E e"
    "co_sessions c' = bt_insert key (snd (removed_from_session key E S s)) (co_sessions c)"
    "\<And>x. bt_get (co_connections c') x
      = map_option (removed_connection key E S (removed_owned E s x)) (bt_get (co_connections c) x)"
proof -
  obtain E S where close: "close_removed s start bt_new = (E, S)" by force
  note c' = remove_entities_effect [OF wf s close r]
  have "co_sessions c' = bt_insert key (snd (removed_from_session key E S s)) (co_sessions c)"
    by (subst c'(1)) simp
  moreover have "bs_contains E e" if "bs_contains start e" for e
    using close_removed_exact(2) [OF close, of e] that by (simp add: gone_space_gone_entity.start)
  ultimately show ?thesis using that [OF close] c'(2) by simp
qed

lemma advance_session_fields:
  "sn_space_map (advance_session_epoch sp p s) = bt_modify sp (\<lambda>d. d\<lparr>sd_epoch := p\<rparr>) (sn_space_map s)"
  "sn_subscribers (advance_session_epoch sp p s) = sn_subscribers s"
  "sn_members (advance_session_epoch sp p s) = sn_members s"
  "sn_entity_map (advance_session_epoch sp p s) = sn_entity_map s"
  "sn_sequences (advance_session_epoch sp p s) = bt_retain (\<lambda>k _. sqk_space k \<noteq> sp) (sn_sequences s)"
  by (simp_all add: advance_session_epoch_def Let_def)

lemma advance_space_epoch_wf:
  assumes wf: "core_wf c"
  shows "core_wf (snd (advance_space_epoch key sp proposed c))"
  unfolding advance_space_epoch_def
proof (rule checked_preserves [where P = core_wf, OF wf], goal_cases)
  case (1 entities)
  let ?P = "\<lambda>m. message_of_session key m \<and> om_space m = sp"
  from 1 obtain s0 where s0: "bt_get (co_sessions c) key = Some s0" and p: "proposed \<noteq> 0"
    and entities: "entities = entities_in_space s0 sp"
    by (auto simp: and_then_eq_Inr split: if_splits)
  obtain summary c1 where r: "remove_entities_and_anchored_spaces key entities c = (summary, c1)" by force
  have wf1: "core_wf c1" using remove_entities_wf [OF wf, of key entities] r by simp
  obtain E S where E: "\<And>e. bs_contains entities e \<Longrightarrow> bs_contains E e"
    and "co_sessions c1 = bt_insert key (snd (removed_from_session key E S s0)) (co_sessions c)"
    using remove_entities_session [OF wf s0 r] by metis
  then have s1: "bt_get (co_sessions c1) key = Some (snd (removed_from_session key E S s0))" by simp
  let ?s = "snd (removed_from_session key E S s0)"
  let ?c = "c1\<lparr>co_connections := bt_map (\<lambda>_. purge_connection ?P) (co_connections c1)\<rparr>"
  have wf2: "core_wf ?c" by (rule core_wf_purge [OF wf1])
  have s2: "bt_get (co_sessions ?c) key = Some ?s" using s1 by simp
  note ss = core_session [OF wf2 s2]
  have empty: "er_space e \<noteq> sp" if e: "bt_get (sn_entity_map ?s) i = Some e" for i e
  proof
    assume "er_space e = sp"
    have i: "bt_get (sn_entity_map s0) i = Some e" "\<not> bs_contains E i"
      using e by (auto simp: removed_from_session_fields(4) split: option.splits if_splits)
    then have "e \<in> set (bt_values (sn_entity_map s0))" "er_id e = i"
      using session_wfD(2) [OF core_session(1) [OF wf s0]] by (auto simp: in_bt_values entities_wf_def)
    then have "bs_contains entities i"
      using \<open>er_space e = sp\<close> by (auto simp: entities entities_in_space_def)
    then show False using E i(2) by blast
  qed
  have "core_wf (?c\<lparr>co_sessions := bt_insert key (advance_session_epoch sp proposed ?s) (co_sessions ?c)\<rparr>)"
    if d: "bt_get (sn_space_map ?s) sp = Some d" for d
  proof (rule core_wf_session [OF wf2 s2])
    show "session_wf (co_config ?c) (co_next_entity_id ?c) (advance_session_epoch sp proposed ?s)"
      by (rule session_wf_advance [OF ss(1) d p]) (use empty in blast)
    show "belongs_wf (advance_session_epoch sp proposed ?s)"
      using ss(2) by (auto simp: belongs_wf_def advance_session_fields split: option.splits if_splits)
    fix cid cn m
    assume cn: "bt_get (co_connections ?c) cid = Some cn" and m: "m \<in> queued cn" "session_of m = key"
      and l: "live_scope ?s (om_space m) (om_space_epoch m) (om_entity m)"
    obtain cn0 where cn0: "bt_get (co_connections c1) cid = Some cn0" "cn = purge_connection ?P cn0"
      using cn by auto
    have "\<not> ?P m"
      using m(1) cn0 purge_connection_wf(2) [OF core_connection(1) [OF wf1 cn0(1)], of ?P] by simp
    then have "om_space m \<noteq> sp" using m(2) by (simp add: message_of_session_iff)
    with l show "live_scope (advance_session_epoch sp proposed ?s) (om_space m) (om_space_epoch m) (om_entity m)"
      by (auto simp: live_scope_def current_space_def advance_session_fields)
  qed (simp_all add: advance_session_fields subscribes_def owned_in_def)
  then have adv: "core_wf (map_session key (advance_session_epoch sp proposed) ?c)"
    if "bt_get (sn_space_map ?s) sp = Some d" for d
    using that map_session_insert [OF s2, of "advance_session_epoch sp proposed"] by simp
  then show ?case
    using r wf2 s2 adv
    by (cases "bt_get (sn_space_map ?s) sp") (simp_all add: purge_all_connections_def get_session_def)
qed

section \<open>Leaving a session\<close>

lemma release_session_admission_frame [simp]:
  "co_connections (release_session_admission clock cid key reason c) = co_connections c"
  "co_sessions (release_session_admission clock cid key reason c) = co_sessions c"
  "co_config (release_session_admission clock cid key reason c) = co_config c"
  "co_pending_admissions (release_session_admission clock cid key reason c) = co_pending_admissions c"
  "bt_get (co_admission_leases (release_session_admission clock cid key reason c)) (cid, key) = None"
  "conn_member (release_session_admission clock cid key reason c) = conn_member c"
  by (auto simp: release_session_admission_def conn_member_def fun_eq_iff split: option.split)

lemma admissions_release:
  assumes wf: "core_wf c"
    and a: "bt_get (bt_modify key (ad_release_at lease reason now) (co_admissions c)) k = Some a"
  shows "ad_capacity_inv a \<and> am_session (ad_metadata a) = k \<and> bt_contains_key (co_sessions c) k"
  using a admissions_wfD(1) [OF wf] by (auto simp: bt_get_modify ad_release_capacity split: if_splits)

lemma release_session_admission_wf:
  assumes wf: "core_wf c"
  shows "core_wf (release_session_admission clock cid key reason c)"
proof (cases "bt_get (co_admission_leases c) (cid, key)")
  case (Some lease)
  let ?a = "bt_modify key (ad_release_at lease reason (clock cid key reason)) (co_admissions c)"
  have "core_wf (c\<lparr>co_admissions := ?a, co_pending_admissions := co_pending_admissions c,
    co_admission_leases := bt_remove (cid, key) (co_admission_leases c)\<rparr>)"
    by (rule core_wf_admissions [OF wf admissions_release [OF wf]])
      (use admissions_wfD [OF wf] in \<open>auto split: if_splits\<close>)
  moreover have "c\<lparr>co_admissions := ?a, co_pending_admissions := co_pending_admissions c,
      co_admission_leases := bt_remove (cid, key) (co_admission_leases c)\<rparr>
    = release_session_admission clock cid key reason c"
    using Some by (cases c) (simp add: release_session_admission_def)
  ultimately show ?thesis by (simp only:)
qed (simp add: release_session_admission_def wf)

lemma release_pending_admission_wf:
  assumes wf: "core_wf c"
  shows "core_wf (release_pending_admission clock cid key c)"
proof (cases "bt_get (co_pending_admissions c) (cid, key)")
  case (Some lease)
  let ?a = "bt_modify key (ad_release_at lease Intentional (clock cid key Intentional)) (co_admissions c)"
  have "core_wf (c\<lparr>co_admissions := ?a, co_pending_admissions :=
      bt_remove (cid, key) (co_pending_admissions c), co_admission_leases := co_admission_leases c\<rparr>)"
    by (rule core_wf_admissions [OF wf admissions_release [OF wf]])
      (use admissions_wfD [OF wf] in \<open>auto split: if_splits\<close>)
  moreover have "c\<lparr>co_admissions := ?a, co_pending_admissions :=
      bt_remove (cid, key) (co_pending_admissions c), co_admission_leases := co_admission_leases c\<rparr>
    = release_pending_admission clock cid key c"
    using Some by (cases c) (simp add: release_pending_admission_def)
  ultimately show ?thesis by (simp only:)
qed (simp add: release_pending_admission_def wf)

lemma detach_session_fields:
  "sn_members (snd (detach_session_state cid summary s)) = bs_remove cid (sn_members s)"
  "sn_entity_map (snd (detach_session_state cid summary s)) = sn_entity_map s"
  "sn_space_map (snd (detach_session_state cid summary s)) = sn_space_map s"
  "sn_state_map (snd (detach_session_state cid summary s)) = sn_state_map s"
  "sn_subscribers (snd (detach_session_state cid summary s)) = bt_map (\<lambda>_. bs_remove cid) (sn_subscribers s)"
  "sn_sequences (snd (detach_session_state cid summary s))
    = bt_retain (\<lambda>k _. sqk_connection k \<noteq> cid) (sn_sequences s)"
  by (simp_all add: detach_session_state_def)

lemma detach_connection_fields:
  assumes "connection_wf config nxt cid cn"
  shows "cn_memberships (snd (detach_connection_state key summary cn)) = bs_remove key (cn_memberships cn)"
    "cn_subscriptions (snd (detach_connection_state key summary cn))
      = bs_retain (\<lambda>sp. spk_session sp \<noteq> key) (cn_subscriptions cn)"
    "cn_owned_entities (snd (detach_connection_state key summary cn)) = cn_owned_entities cn"
    "cn_authenticated (snd (detach_connection_state key summary cn)) = cn_authenticated cn"
    "connection_wf config nxt cid (snd (detach_connection_state key summary cn))"
    "queued (snd (detach_connection_state key summary cn)) = {m \<in> queued cn. session_of m \<noteq> key}"
proof -
  let ?cn = "snd (detach_connection_state key summary cn)"
  have eq: "?cn = (purge_connection (message_of_session key) cn)\<lparr>
    cn_memberships := bs_remove key (cn_memberships cn),
    cn_subscriptions := bs_retain (\<lambda>sp. spk_session sp \<noteq> key) (cn_subscriptions cn)\<rparr>"
    by (simp add: detach_connection_state_def purge_connection_def split: prod.split)
  then show "cn_memberships ?cn = bs_remove key (cn_memberships cn)"
    "cn_subscriptions ?cn = bs_retain (\<lambda>sp. spk_session sp \<noteq> key) (cn_subscriptions cn)"
    "cn_owned_entities ?cn = cn_owned_entities cn" "cn_authenticated ?cn = cn_authenticated cn"
    by simp_all
  note p = purge_connection_wf [OF assms, of "message_of_session key"]
  have "bt_len (bs_remove key (cn_memberships cn)) \<le> bt_len (cn_memberships cn)"
    by (simp add: bs_len_remove)
  moreover have "bt_len (bs_retain (\<lambda>sp. spk_session sp \<noteq> key) (cn_subscriptions cn)) \<le> bt_len (cn_subscriptions cn)"
    by (rule bs_len_retain_le)
  ultimately show "connection_wf config nxt cid ?cn"
    using p(1) by (auto simp: eq connection_wf_def)
  show "queued ?cn = {m \<in> queued cn. session_of m \<noteq> key}"
    using p(2) by (simp add: eq queued_def message_of_session_iff)
qed

text \<open>Detaching, given that no lease is bound: the connection and the session forget each other.\<close>

lemma detach_connection_eq:
  assumes r: "remove_entities_and_anchored_spaces key (owned_in_session c cid key) c = (summary0, c1)"
    and s1: "bt_get (co_sessions c1) key = Some s1" and cn1: "bt_get (co_connections c1) cid = Some cn1"
  shows "\<exists>summary1. detach_connection_from_session cid key c
    = (fst (detach_connection_state key summary1 cn1),
       c1\<lparr>co_sessions := bt_insert key (snd (detach_session_state cid summary0 s1)) (co_sessions c1),
          co_connections := bt_insert cid (snd (detach_connection_state key summary1 cn1)) (co_connections c1)\<rparr>)"
  by (rule exI [where x = "fst (detach_session_state cid summary0 s1)"])
    (use s1 cn1 in \<open>simp add: detach_connection_from_session_def r split_beta\<close>)

lemma owned_in_session_contains:
  assumes "session_wf config nxt s" "bt_get (co_sessions c) key = Some s"
    "bt_get (sn_entity_map s) e = Some r" "er_owner_connection r = cid"
  shows "bs_contains (owned_in_session c cid key) e"
  using assms session_wfD(2) [OF assms(1)]
  by (force simp: owned_in_session_def in_bt_values entities_wf_def)

lemma detach_connection_wf:
  assumes wf: "core_wf c" and cn: "bt_get (co_connections c) cid = Some cn"
    and s: "bt_get (co_sessions c) key = Some s" and lease: "bt_get (co_admission_leases c) (cid, key) = None"
    and d: "detach_connection_from_session cid key c = (summary, c')"
  shows "core_wf c'" "\<And>x k. conn_member c' x k \<longleftrightarrow> conn_member c x k \<and> \<not> (x = cid \<and> k = key)"
    "co_admissions c' = co_admissions c" "co_admission_leases c' = co_admission_leases c"
    "co_pending_admissions c' = co_pending_admissions c"
    "\<And>x. bt_contains_key (co_connections c') x \<longleftrightarrow> bt_contains_key (co_connections c) x"
    "\<And>k. bt_contains_key (co_sessions c') k \<longleftrightarrow> bt_contains_key (co_sessions c) k"
proof -
  obtain summary0 c1 where r: "remove_entities_and_anchored_spaces key (owned_in_session c cid key) c = (summary0, c1)"
    by force
  have c1: "c1 = snd (remove_entities_and_anchored_spaces key (owned_in_session c cid key) c)" using r by simp
  have wf1: "core_wf c1" unfolding c1 by (rule remove_entities_wf [OF wf])
  obtain E S where roots: "\<And>e. bs_contains (owned_in_session c cid key) e \<Longrightarrow> bs_contains E e"
    and sess: "co_sessions c1 = bt_insert key (snd (removed_from_session key E S s)) (co_sessions c)"
    and conns: "\<And>x. bt_get (co_connections c1) x
      = map_option (removed_connection key E S (removed_owned E s x)) (bt_get (co_connections c) x)"
    using remove_entities_session [OF wf s r] by metis
  let ?s1 = "snd (removed_from_session key E S s)"
  let ?cn1 = "removed_connection key E S (removed_owned E s cid) cn"
  have cn1: "bt_get (co_connections c1) cid = Some ?cn1" and s1: "bt_get (co_sessions c1) key = Some ?s1"
    using conns cn sess by simp_all
  obtain summary1 where c': "c' = c1\<lparr>co_sessions := bt_insert key (snd (detach_session_state cid summary0 ?s1)) (co_sessions c1),
      co_connections := bt_insert cid (snd (detach_connection_state key summary1 ?cn1)) (co_connections c1)\<rparr>"
    using detach_connection_eq [OF r s1 cn1] d by auto
  let ?cn = "snd (detach_connection_state key summary1 ?cn1)" and ?s = "snd (detach_session_state cid summary0 ?s1)"
  note ds = detach_session_fields [of cid summary0 ?s1] and ss = core_session [OF wf1 s1] and cs = core_connection [OF wf1 cn1]
  note dc = detach_connection_fields [OF cs(1), of key summary1]
  have same: "co_admissions c' = co_admissions c" "co_admission_leases c' = co_admission_leases c"
    "co_pending_admissions c' = co_pending_admissions c"
    by (simp_all add: c' c1)
  then show "co_admissions c' = co_admissions c" "co_admission_leases c' = co_admission_leases c"
    "co_pending_admissions c' = co_pending_admissions c" .
  show mem: "conn_member c' x k \<longleftrightarrow> conn_member c x k \<and> \<not> (x = cid \<and> k = key)" for x k
    using cn by (auto simp: conn_member_def c' bt_get_insert dc conns)
  show dom: "bt_contains_key (co_connections c') x \<longleftrightarrow> bt_contains_key (co_connections c) x"
    "bt_contains_key (co_sessions c') k \<longleftrightarrow> bt_contains_key (co_sessions c) k" for x k
    using cn s by (auto simp: bt_contains_key_def c' bt_get_insert conns sess)
  have sub: "subscribes ?s x sp \<longleftrightarrow> x \<noteq> cid \<and> subscribes ?s1 x sp" for x sp
    by (auto simp: subscribes_def ds)
  show "core_wf c'"
  proof (rule core_wf_both [OF wf1 cn1 s1, where cn' = ?cn and s' = ?s])
    have "er_owner_connection e \<noteq> cid" if "bt_get (sn_entity_map ?s1) i = Some e" for i e
      using that roots owned_in_session_contains [OF core_session(1) [OF wf s] s, of i e cid]
      by (auto simp: removed_from_session_fields(4) split: option.splits if_splits)
    then show "belongs_wf ?s" using ss(2) by (auto simp: belongs_wf_def ds split: option.splits if_splits)
    show "admissions_wf c'"
    proof -
      have "conn_member c' x k \<and> al_session l = k" if "bt_get (co_admission_leases c) (x, k) = Some l" for x k l
        using admissions_wfD(2) [OF wf that] that lease mem by auto
      then show ?thesis
        using core_wfD(7) [OF wf] unfolding admissions_wf_def same dom by blast
    qed
  qed (use ss(1,3,4) cs(2-6) ds dc in \<open>auto simp: c' session_wf_detach sub owned_in_def
      live_scope_def current_space_def entitled_def\<close>)
qed

lemma member_live:
  assumes wf: "core_wf c" and m: "conn_member c cid key"
  obtains cn s where "bt_get (co_connections c) cid = Some cn" "bt_get (co_sessions c) key = Some s"
  using core_wfD(4) [OF wf] m unfolding links_wf_def conn_member_def session_member_def by blast

text \<open>Releasing the lease and detaching, the step both ways of leaving a session share.\<close>

lemma depart_wf:
  assumes wf: "core_wf c" and m: "conn_member c cid key"
    and d: "detach_connection_from_session cid key (release_session_admission clock cid key reason c) = (summary, c')"
  shows "core_wf c'" "\<And>x k. conn_member c' x k \<longleftrightarrow> conn_member c x k \<and> \<not> (x = cid \<and> k = key)"
    "co_pending_admissions c' = co_pending_admissions c"
    "\<And>x. bt_contains_key (co_connections c') x \<longleftrightarrow> bt_contains_key (co_connections c) x"
    "\<And>k. bt_contains_key (co_sessions c') k \<longleftrightarrow> bt_contains_key (co_sessions c) k"
proof -
  let ?c = "release_session_admission clock cid key reason c"
  have wf1: "core_wf ?c" by (rule release_session_admission_wf [OF wf])
  obtain cn s where "bt_get (co_connections ?c) cid = Some cn" "bt_get (co_sessions ?c) key = Some s"
    using member_live [OF wf m] by auto
  from detach_connection_wf [OF wf1 this _ d]
  show "core_wf c'" "\<And>x k. conn_member c' x k \<longleftrightarrow> conn_member c x k \<and> \<not> (x = cid \<and> k = key)"
    "co_pending_admissions c' = co_pending_admissions c"
    "\<And>x. bt_contains_key (co_connections c') x \<longleftrightarrow> bt_contains_key (co_connections c) x"
    "\<And>k. bt_contains_key (co_sessions c') k \<longleftrightarrow> bt_contains_key (co_sessions c) k"
    by simp_all
qed

lemma require_membership_member:
  "require_membership c cid key = Inr u \<Longrightarrow> conn_member c cid key"
  by (auto simp: require_membership_ok conn_member_def)

lemma leave_session_wf:
  assumes wf: "core_wf c"
  shows "core_wf (snd (leave_session clock cid key c))"
  unfolding leave_session_def
proof (rule checked_preserves [where P = core_wf, OF wf], goal_cases)
  case (1 u)
  then have "conn_member c cid key" by (auto simp: and_then_eq_Inr dest: require_membership_member)
  then show ?case using depart_wf(1) [OF wf] by (simp split: prod.split)
qed

lemma leave_sessions_wf:
  assumes "core_wf c" "distinct keys" "\<And>k. k \<in> set keys \<Longrightarrow> conn_member c cid k"
    "leave_sessions clock cid keys summary c = (summary', c')"
  shows "core_wf c'" "\<And>x k. conn_member c' x k \<longleftrightarrow> conn_member c x k \<and> \<not> (x = cid \<and> k \<in> set keys)"
    "co_pending_admissions c' = co_pending_admissions c"
    "\<And>x. bt_contains_key (co_connections c') x \<longleftrightarrow> bt_contains_key (co_connections c) x"
    "\<And>k. bt_contains_key (co_sessions c') k \<longleftrightarrow> bt_contains_key (co_sessions c) k"
proof -
  have "core_wf c' \<and> (\<forall>x k. conn_member c' x k \<longleftrightarrow> conn_member c x k \<and> \<not> (x = cid \<and> k \<in> set keys))
    \<and> co_pending_admissions c' = co_pending_admissions c
    \<and> (\<forall>x. bt_contains_key (co_connections c') x \<longleftrightarrow> bt_contains_key (co_connections c) x)
    \<and> (\<forall>k. bt_contains_key (co_sessions c') k \<longleftrightarrow> bt_contains_key (co_sessions c) k)"
    using assms
  proof (induction keys arbitrary: summary c)
    case (Cons key keys)
    obtain s1 c1 where d: "detach_connection_from_session cid key
        (release_session_admission clock cid key Unexpected c) = (s1, c1)" by force
    have m: "conn_member c cid key" using Cons.prems(3) by simp
    note one = depart_wf [OF Cons.prems(1) m d]
    have "core_wf c' \<and> (\<forall>x k. conn_member c' x k \<longleftrightarrow> conn_member c1 x k \<and> \<not> (x = cid \<and> k \<in> set keys))
      \<and> co_pending_admissions c' = co_pending_admissions c1
      \<and> (\<forall>x. bt_contains_key (co_connections c') x \<longleftrightarrow> bt_contains_key (co_connections c1) x)
      \<and> (\<forall>k. bt_contains_key (co_sessions c') k \<longleftrightarrow> bt_contains_key (co_sessions c1) k)"
      by (rule Cons.IH [OF one(1), where summary = "cs_add summary s1"])
        (use Cons.prems d one(2) in auto)
    then show ?case using one by auto
  qed simp
  then show "core_wf c'" "\<And>x k. conn_member c' x k \<longleftrightarrow> conn_member c x k \<and> \<not> (x = cid \<and> k \<in> set keys)"
    "co_pending_admissions c' = co_pending_admissions c"
    "\<And>x. bt_contains_key (co_connections c') x \<longleftrightarrow> bt_contains_key (co_connections c) x"
    "\<And>k. bt_contains_key (co_sessions c') k \<longleftrightarrow> bt_contains_key (co_sessions c) k"
    by blast+
qed

section \<open>Losing a transport\<close>

lemma release_pending_frame [simp]:
  "co_connections (release_pending_admission clock cid key c) = co_connections c"
  "co_sessions (release_pending_admission clock cid key c) = co_sessions c"
  "co_admission_leases (release_pending_admission clock cid key c) = co_admission_leases c"
  "conn_member (release_pending_admission clock cid key c) = conn_member c"
  "bt_get (co_pending_admissions (release_pending_admission clock cid key c)) k
    = (if k = (cid, key) then None else bt_get (co_pending_admissions c) k)"
  by (auto simp: release_pending_admission_def conn_member_def fun_eq_iff split: option.split)

lemma release_pending_all:
  assumes "core_wf c"
  shows "core_wf (foldl (\<lambda>c key. release_pending_admission clock cid key c) c keys)"
    "co_connections (foldl (\<lambda>c key. release_pending_admission clock cid key c) c keys) = co_connections c"
    "co_sessions (foldl (\<lambda>c key. release_pending_admission clock cid key c) c keys) = co_sessions c"
    "bt_get (co_pending_admissions (foldl (\<lambda>c key. release_pending_admission clock cid key c) c keys)) k
      = (if k \<in> Pair cid ` set keys then None else bt_get (co_pending_admissions c) k)"
  using assms by (induction keys arbitrary: c) (auto simp: release_pending_admission_wf)

lemma in_pending_sessions:
  "k \<in> set (pending_sessions_of cid c) \<longleftrightarrow> bt_get (co_pending_admissions c) (cid, k) \<noteq> None"
  by (force simp: pending_sessions_of_def in_bt_keys bt_contains_key_def)

text \<open>A connection nothing refers to any more can be dropped.\<close>

lemma core_wf_drop_connection:
  assumes wf: "core_wf c" and m: "\<And>k. \<not> conn_member c cid k"
    and p: "\<And>k. bt_get (co_pending_admissions c) (cid, k) = None"
  shows "core_wf (c\<lparr>co_connections := bt_remove cid (co_connections c)\<rparr>)" (is "core_wf ?c")
proof -
  note w = core_wfD [OF wf]
  have links: "conn_member ?c x k \<longleftrightarrow> conn_member c x k" "conn_subscribed ?c x k sp \<longleftrightarrow> conn_subscribed c x k sp"
    "session_member ?c x k \<longleftrightarrow> session_member c x k" "session_subscribed ?c x k sp \<longleftrightarrow> session_subscribed c x k sp"
    for x k sp
  proof -
    have "\<not> conn_subscribed c cid k sp" using w(4) m unfolding links_wf_def by blast
    then show "conn_member ?c x k \<longleftrightarrow> conn_member c x k" "conn_subscribed ?c x k sp \<longleftrightarrow> conn_subscribed c x k sp"
      "session_member ?c x k \<longleftrightarrow> session_member c x k" "session_subscribed ?c x k sp \<longleftrightarrow> session_subscribed c x k sp"
      using m [of k] by (auto simp: link_defs)
  qed
  have "store_wf ?c"
    using w(1) bt_len_remove_le [of cid "co_connections c"] by (simp add: store_wf_def)
  moreover have "connections_wf ?c" using w(2) by (auto simp: connections_wf_def split: if_splits)
  moreover have "sessions_wf ?c" using w(3) by (simp add: sessions_wf_def)
  moreover have "links_wf ?c" using w(4) unfolding links_wf_def links .
  moreover have "live_message ?c = live_message c" by (simp add: live_message_def fun_eq_iff)
  then have "queues_wf ?c" using w(5) by (auto simp: queues_wf_def split: if_splits)
  moreover have "owned_total ?c = owned_total c" by (simp add: owned_total_def fun_eq_iff)
  then have "quotas_wf ?c" using w(6) by (auto simp: quotas_wf_def split: if_splits)
  moreover have "admissions_wf ?c"
    using w(7) p unfolding admissions_wf_def links by (auto simp: bt_contains_key_def)
  ultimately show ?thesis by (simp add: core_wf_def)
qed

text \<open>
  The whole of a transport loss, from any well-formed core: it succeeds on a known connection,
  and afterwards nothing in the core refers to that connection.
\<close>

lemma transport_lost_effect:
  assumes wf: "core_wf c" and cn: "bt_get (co_connections c) cid = Some cn"
  obtains summary c' where "transport_lost clock cid c = (Inr summary, c')" "core_wf c'"
    "bt_get (co_connections c') cid = None"
    "\<And>x. x \<noteq> cid \<Longrightarrow> bt_contains_key (co_connections c') x \<longleftrightarrow> bt_contains_key (co_connections c) x"
    "\<And>x k. conn_member c' x k \<longleftrightarrow> conn_member c x k \<and> x \<noteq> cid"
    "\<And>k. bt_get (co_pending_admissions c') (cid, k) = None"
    "\<And>k. bt_contains_key (co_sessions c') k \<longleftrightarrow> bt_contains_key (co_sessions c) k"
proof -
  let ?keys = "bt_keys (cn_memberships cn)"
  have keys: "k \<in> set ?keys \<longleftrightarrow> conn_member c cid k" for k
    using cn by (simp add: conn_member_def bs_contains_keys)
  obtain summary c1 where l: "leave_sessions clock cid ?keys cs_default c = (summary, c1)" by force
  note one = leave_sessions_wf [OF wf bt_keys_distinct _ l]
  have wf1: "core_wf c1" and m1: "conn_member c1 x k \<longleftrightarrow> conn_member c x k \<and> x \<noteq> cid"
    and dom1: "bt_contains_key (co_connections c1) x \<longleftrightarrow> bt_contains_key (co_connections c) x"
    "bt_contains_key (co_sessions c1) k \<longleftrightarrow> bt_contains_key (co_sessions c) k" for x k
    using one(1,2,4,5) keys by auto
  let ?c2 = "foldl (\<lambda>c key. release_pending_admission clock cid key c) c1 (pending_sessions_of cid c1)"
  note two = release_pending_all [OF wf1, of clock cid "pending_sessions_of cid c1"]
  obtain cn2 where cn2: "bt_get (co_connections ?c2) cid = Some cn2"
    using dom1(1) [of cid] cn by (auto simp: two bt_contains_key_def)
  have m2: "conn_member ?c2 = conn_member c1" by (simp add: conn_member_def two fun_eq_iff)
  have p2: "bt_get (co_pending_admissions ?c2) (cid, k) = None" for k
    by (auto simp: two in_pending_sessions)
  let ?c' = "?c2\<lparr>co_connections := bt_remove cid (co_connections ?c2)\<rparr>"
  have "core_wf ?c'"
    by (rule core_wf_drop_connection [OF two(1)]) (simp_all add: m2 m1 p2)
  moreover have "conn_member ?c' x k \<longleftrightarrow> conn_member c x k \<and> x \<noteq> cid" for x k
    using m1 [of x k] unfolding m2 [symmetric] by (auto simp: conn_member_def)
  moreover have "cid \<noteq> 0" using core_connection(1) [OF wf cn] by (simp add: connection_wf_def)
  ultimately show ?thesis
    using that [of "summary\<lparr>cs_queued_messages_discarded := cs_queued_messages_discarded summary
        + oq_len (cn_outbound cn2)\<rparr>" ?c'] cn cn2 l dom1 p2
    by (simp add: transport_lost_def two get_connection_def validate_connection_id_def require_nonzero_def
        bt_contains_key_def)
qed

lemma transport_lost_wf:
  assumes wf: "core_wf c"
  shows "core_wf (snd (transport_lost clock cid c))"
proof (cases "bt_get (co_connections c) cid")
  case None
  have "core_wf (snd (checked (validate_connection_id cid) (\<lambda>_ c. checked (get_connection c cid) f c) c))"
    for f :: "connection_state \<Rightarrow> cleanup_summary core_op"
    by (rule checked_preserves [where P = core_wf, OF wf]) (simp add: get_connection_def None wf)
  then show ?thesis unfolding transport_lost_def by blast
next
  case (Some cn)
  then show ?thesis using transport_lost_effect [OF wf, of cid cn clock] by (metis snd_conv)
qed

lemma remove_entity_wf:
  assumes wf: "core_wf c"
  shows "core_wf (snd (remove_entity cid key e c))"
  unfolding remove_entity_def
  by (rule checked_preserves [where P = core_wf, OF wf])
    (use remove_entities_wf [OF wf] in \<open>simp add: split_beta\<close>)

end
