(* ===== verification/CoreInvPublish.thy ===== *)
theory CoreInvPublish
  imports CoreInvCleanup
begin

text \<open>
  Publishing keeps the core's invariant: what authorisation establishes about the messages it
  lets through, and that committing, delivering and disconnecting rest on nothing else.
\<close>

section \<open>What authorisation establishes\<close>

definition publishable :: "core \<Rightarrow> session_key \<Rightarrow> authorized_message \<Rightarrow> bool" where
  "publishable c key m \<longleftrightarrow>
     (\<exists>s. bt_get (co_sessions c) key = Some s \<and> live_scope s (am_space m) (am_space_epoch m) (am_entity m))
   \<and> length (am_payload m) \<le> cc_max_payload_bytes (co_config c)
   \<and> (is_replaceable (am_delivery m) \<longrightarrow> am_coalesce_key m \<noteq> None)"

lemma validate_message_ok:
  assumes "validate_message c cid key m planned = Inr u"
  obtains s where "bt_get (co_sessions c) key = Some s" "publishable c key m"
    "\<And>newest. last_sequence s planned (message_sequence_key cid m) = Some newest \<Longrightarrow> newest < am_sequence m"
proof -
  let ?limit = "\<lambda>channel. min (cc_max_payload_bytes (co_config c)) (cd_max_payload_bytes channel)"
  obtain channel :: channel_definition and s d u1 u2 u3 u4 where raw: "ensure (length (am_payload m) \<le> ?limit channel)
        (CE_PayloadTooLarge (length (am_payload m)) (?limit channel)) = Inr u1"
    "validate_coalesce_key m = Inr u2" "get_session c key = Inr s"
    "ok_or (CE_SpaceNotFound (SpaceKey key (am_space m))) (bt_get (sn_space_map s) (am_space m)) = Inr d"
    "ensure (sd_epoch d = am_space_epoch m) (CE_SpaceEpochMismatch (sd_epoch d) (am_space_epoch m)) = Inr u3"
    "validate_message_entity s m = Inr u4"
    and q: "(case last_sequence s planned (message_sequence_key cid m) of
       Some newest \<Rightarrow> if am_sequence m \<le> newest then Inl (CE_StaleSequence (am_sequence m) newest) else Inr ()
     | None \<Rightarrow> Inr ()) = Inr u"
    using assms unfolding validate_message_def Let_def result_ok by blast
  then have ch: "length (am_payload m) \<le> cc_max_payload_bytes (co_config c)" and ck: "validate_coalesce_key m = Inr ()"
    and s: "bt_get (co_sessions c) key = Some s" and e: "validate_message_entity s m = Inr ()"
    and d: "bt_get (sn_space_map s) (am_space m) = Some d" "sd_epoch d = am_space_epoch m"
    by simp_all
  have "live_scope s (am_space m) (am_space_epoch m) (am_entity m)"
    using d e by (auto simp: live_scope_def current_space_def validate_message_entity_def result_ok
        split: option.splits if_splits)
  moreover have "is_replaceable (am_delivery m) \<longrightarrow> am_coalesce_key m \<noteq> None"
    using ck by (auto simp: validate_coalesce_key_def result_ok)
  ultimately have "publishable c key m" using ch s by (simp add: publishable_def)
  moreover have "newest < am_sequence m"
    if "last_sequence s planned (message_sequence_key cid m) = Some newest" for newest
    using q that by (auto split: if_splits)
  ultimately show ?thesis using that [OF s] by blast
qed

lemma plan_messages_ok:
  assumes "plan_messages c cid key ms planned = Inr planned'"
  shows "\<forall>m\<in>set ms. publishable c key m"
    "\<And>k v. bt_get planned' k = Some v \<Longrightarrow>
      bt_get planned k = Some v \<or> (\<exists>m\<in>set ms. k = message_sequence_key cid m \<and> v = am_sequence m)"
proof -
  have "(\<forall>m\<in>set ms. publishable c key m) \<and> (\<forall>k v. bt_get planned' k = Some v \<longrightarrow>
      bt_get planned k = Some v \<or> (\<exists>m\<in>set ms. k = message_sequence_key cid m \<and> v = am_sequence m))"
    using assms
  proof (induction ms arbitrary: planned)
    case (Cons m ms)
    then obtain u where u: "validate_message c cid key m (Some planned) = Inr u"
      and p: "plan_messages c cid key ms (bt_insert (message_sequence_key cid m) (am_sequence m) planned) = Inr planned'"
      by (auto simp: result_ok)
    from u have "publishable c key m" by (rule validate_message_ok)
    with Cons.IH [OF p] show ?case by (auto simp: bt_get_insert split: if_splits)
  qed simp
  then show "\<forall>m\<in>set ms. publishable c key m"
    "\<And>k v. bt_get planned' k = Some v \<Longrightarrow>
      bt_get planned k = Some v \<or> (\<exists>m\<in>set ms. k = message_sequence_key cid m \<and> v = am_sequence m)"
    by blast+
qed

lemma authority_messages_ok:
  assumes "authority_messages config cid proposed verdict = Inr (messages, planned)"
  shows "length messages \<le> Suc (cc_max_authority_emissions config)"
    "\<And>k v. bt_get planned k = Some v \<Longrightarrow> k = message_sequence_key cid proposed \<and> v = am_sequence proposed"
  using assms by (cases verdict; auto simp: bt_get_insert split: if_splits)+

text \<open>Everything the effects of a publish rely on.\<close>

definition authorized :: "core \<Rightarrow> connection_id \<Rightarrow> session_key \<Rightarrow> authorized_message list \<Rightarrow> planned \<Rightarrow> bool" where
  "authorized c cid key messages planned \<longleftrightarrow>
     conn_member c cid key
   \<and> (\<forall>m\<in>set messages. publishable c key m)
   \<and> length messages \<le> Suc (cc_max_authority_emissions (co_config c))
   \<and> (\<forall>k v s. bt_get planned k = Some v \<longrightarrow> bt_get (co_sessions c) key = Some s \<longrightarrow>
        sqk_connection k = cid \<and> live_scope s (sqk_space k) (sqk_space_epoch k) (sqk_entity k))
   \<and> validate_sequence_capacity c key planned = Inr ()
   \<and> validate_state_capacity c key messages = Inr ()
   \<and> length (filter (\<lambda>m. am_persistence m = Durable) messages) \<le> jo_remaining_capacity (co_journal_outbox c)"

text \<open>The checks an authorised publish has passed.\<close>

lemma authorize_publishE:
  assumes "authorize_publish c r = Inr (messages, planned)"
  obtains p s planned0 and channel :: channel_definition where
    "publish_access c r = Inr p" "bt_get (co_sessions c) (pq_session r) = Some s"
    "validate_message c (pq_connection r) (pq_session r) (am_from_request r) None = Inr ()"
    "authority_messages (co_config c) (pq_connection r) (am_from_request r)
        (cd_authority channel (context_of r p s) (proposed_of r)) = Inr (messages, planned0)"
    "plan_messages c (pq_connection r) (pq_session r) messages planned0 = Inr planned"
    "validate_sequence_capacity c (pq_session r) planned = Inr ()"
    "validate_state_capacity c (pq_session r) messages = Inr ()"
    "length (filter (\<lambda>m. am_persistence m = Durable) messages) \<le> jo_remaining_capacity (co_journal_outbox c)"
    "bt_get (co_channels c) (pq_channel r) = Some channel"
proof -
  obtain p s pr planned1 and channel :: channel_definition where
    "publish_access c r = Inr p" "get_session c (pq_session r) = Inr s"
    "\<exists>u. validate_message c (pq_connection r) (pq_session r) (am_from_request r) None = Inr u"
    "authority_messages (co_config c) (pq_connection r) (am_from_request r)
       (cd_authority channel (context_of r p s) (proposed_of r)) = Inr pr"
    "plan_messages c (pq_connection r) (pq_session r) (fst pr) (snd pr) = Inr planned1"
    "\<exists>u. validate_sequence_capacity c (pq_session r) planned1 = Inr u"
    "\<exists>u. validate_state_capacity c (pq_session r) (fst pr) = Inr u"
    "(if jo_remaining_capacity (co_journal_outbox c) < length (filter (\<lambda>m. am_persistence m = Durable) (fst pr))
      then Inl CE_JournalOutboxSaturated else Inr (fst pr, planned1)) = Inr (messages, planned)"
    "ok_or (CE_UnknownChannel (pq_channel r)) (bt_get (co_channels c) (pq_channel r)) = Inr channel"
    using assms unfolding authorize_publish_def Let_def result_ok split_beta by blast
  then show ?thesis using that [of p s channel "snd pr"] by (cases pr) (auto split: if_splits)
qed

lemma authorize_publish_ok:
  assumes "authorize_publish c r = Inr (messages, planned)"
  shows "authorized c (pq_connection r) (pq_session r) messages planned"
proof -
  let ?cid = "pq_connection r" and ?key = "pq_session r" and ?m = "am_from_request r"
  from assms obtain p s planned0 and channel :: channel_definition where acc: "publish_access c r = Inr p"
    and s: "bt_get (co_sessions c) ?key = Some s" and v: "validate_message c ?cid ?key ?m None = Inr ()"
    and a: "authority_messages (co_config c) ?cid ?m
        (cd_authority channel (context_of r p s) (proposed_of r)) = Inr (messages, planned0)"
    and pl: "plan_messages c ?cid ?key messages planned0 = Inr planned"
    and caps: "validate_sequence_capacity c ?key planned = Inr ()" "validate_state_capacity c ?key messages = Inr ()"
      "length (filter (\<lambda>m. am_persistence m = Durable) messages) \<le> jo_remaining_capacity (co_journal_outbox c)"
    by (rule authorize_publishE)
  have "require_membership c ?cid ?key = Inr ()"
    using acc unfolding publish_access_def Let_def result_ok by auto
  then have mem: "conn_member c ?cid ?key" by (rule require_membership_member)
  note ms = plan_messages_ok [OF pl] and am = authority_messages_ok [OF a]
  have proposed: "publishable c ?key ?m" using v by (rule validate_message_ok)
  have "sqk_connection k = ?cid \<and> live_scope s (sqk_space k) (sqk_space_epoch k) (sqk_entity k)"
    if k: "bt_get planned k = Some v" for k v
  proof -
    from ms(2) [OF k] am(2) [of k v] obtain m where "publishable c ?key m" "k = message_sequence_key ?cid m"
      using ms(1) proposed by blast
    then show ?thesis using s by (auto simp: publishable_def message_sequence_key_def)
  qed
  then show ?thesis using mem ms(1) am(1) caps s by (simp add: authorized_def)
qed

text \<open>What is planned is newer than what is recorded.\<close>

lemma validate_message_newer:
  assumes "validate_message c cid key m planned = Inr u" "bt_get (co_sessions c) key = Some s"
    "bt_get (sn_sequences s) (message_sequence_key cid m) = Some v"
  shows "v < am_sequence m"
proof -
  obtain s' where "bt_get (co_sessions c) key = Some s'"
    and newest: "\<And>newest. last_sequence s' planned (message_sequence_key cid m) = Some newest \<Longrightarrow> newest < am_sequence m"
    using validate_message_ok [OF assms(1)] by metis
  then have "s' = s" using assms(2) by simp
  have "Some v \<le> last_sequence s planned (message_sequence_key cid m)"
    unfolding last_sequence_def assms(3) by (rule max.cobounded1)
  then obtain w where "last_sequence s planned (message_sequence_key cid m) = Some w" "v \<le> w"
    by (cases "last_sequence s planned (message_sequence_key cid m)") auto
  with newest [of w] \<open>s' = s\<close> show ?thesis by simp
qed

lemma plan_messages_newer:
  assumes "plan_messages c cid key ms planned = Inr planned'" "bt_get (co_sessions c) key = Some s"
    "\<And>k v v'. bt_get planned k = Some v' \<Longrightarrow> bt_get (sn_sequences s) k = Some v \<Longrightarrow> v < v'"
    "bt_get planned' k = Some v'" "bt_get (sn_sequences s) k = Some v"
  shows "v < v'"
  using assms
proof (induction ms arbitrary: planned)
  case (Cons m ms)
  then obtain u where u: "validate_message c cid key m (Some planned) = Inr u"
    and p: "plan_messages c cid key ms (bt_insert (message_sequence_key cid m) (am_sequence m) planned) = Inr planned'"
    by (auto simp: result_ok)
  have "v < v'" if "bt_get (bt_insert (message_sequence_key cid m) (am_sequence m) planned) k = Some v'"
    "bt_get (sn_sequences s) k = Some v" for k v v'
    using that Cons.prems(3) validate_message_newer [OF u Cons.prems(2)]
    by (auto simp: bt_get_insert split: if_splits)
  then show ?case using Cons.IH [OF p Cons.prems(2) _ Cons.prems(4,5)] by blast
qed auto

lemma authorize_publish_newer:
  assumes "authorize_publish c r = Inr (messages, planned)" "bt_get (co_sessions c) (pq_session r) = Some s"
    "bt_get planned k = Some v'" "bt_get (sn_sequences s) k = Some v"
  shows "v < v'"
proof -
  from assms(1) obtain p t planned0 and channel :: channel_definition
    where v: "validate_message c (pq_connection r) (pq_session r) (am_from_request r) None = Inr ()"
    and a: "authority_messages (co_config c) (pq_connection r) (am_from_request r)
        (cd_authority channel (context_of r p t) (proposed_of r)) = Inr (messages, planned0)"
    and pl: "plan_messages c (pq_connection r) (pq_session r) messages planned0 = Inr planned"
    by (rule authorize_publishE)
  show ?thesis
  proof (rule plan_messages_newer [OF pl assms(2) _ assms(3,4)])
    show "v < v'" if "bt_get planned0 k = Some v'" "bt_get (sn_sequences s) k = Some v" for k v v'
      using authority_messages_ok(2) [OF a that(1)] validate_message_newer [OF v assms(2)] that(2) by auto
  qed
qed

section \<open>Rate limiting and journalling\<close>

lemma rl_admit_bound:
  assumes "rl_publishes l \<le> pr_max_publishes policy" "pr_max_publishes policy \<noteq> 0"
  shows "rl_publishes (snd (rl_admit policy now l)) \<le> pr_max_publishes policy"
  using assms by (auto simp: rl_admit_def split: option.splits)

lemma journal_all_core:
  "journal_all ms c = (r, c') \<Longrightarrow> \<exists>j. c' = c\<lparr>co_journal_outbox := j\<rparr>"
proof (induction ms arbitrary: c)
  case Nil
  then have "c' = c\<lparr>co_journal_outbox := co_journal_outbox c\<rparr>" by simp
  then show ?case ..
next
  case (Cons m ms)
  show ?case
  proof (cases "jo_push \<lparr>jr_message = m\<rparr> (co_journal_outbox c)")
    case (Inl e)
    then have "c' = c\<lparr>co_journal_outbox := co_journal_outbox c\<rparr>" using Cons.prems by simp
    then show ?thesis ..
  next
    case (Inr j)
    then obtain j' where "c' = (c\<lparr>co_journal_outbox := j\<rparr>)\<lparr>co_journal_outbox := j'\<rparr>"
      using Cons by fastforce
    then show ?thesis by auto
  qed
qed

text \<open>With room for every message the journal takes all of them, in order, after what it held.\<close>

lemma journal_all_ok:
  assumes "jo_wf (co_journal_outbox c)" "length ms \<le> jo_remaining_capacity (co_journal_outbox c)"
  obtains j where "journal_all ms c = (Inr (), c\<lparr>co_journal_outbox := j\<rparr>)" "jo_wf j"
    "jo_records j = jo_records (co_journal_outbox c) @ map (\<lambda>m. \<lparr>jr_message = m\<rparr>) ms"
proof -
  have eq: "journal_all ms c = (case jo.push_list (map (\<lambda>m. \<lparr>jr_message = m\<rparr>) ms) (co_journal_outbox c) of
      Inr j \<Rightarrow> (Inr (), c\<lparr>co_journal_outbox := j\<rparr>) | Inl e \<Rightarrow> journal_all ms c)" for c
  proof (induction ms arbitrary: c)
    case (Cons m ms)
    show ?case
    proof (cases "jo_push \<lparr>jr_message = m\<rparr> (co_journal_outbox c)")
      case (Inr j)
      then show ?thesis
        using Cons.IH [of "c\<lparr>co_journal_outbox := j\<rparr>"] by (simp split: sum.splits)
    qed simp
  qed simp
  obtain j where "jo.push_list (map (\<lambda>m. \<lparr>jr_message = m\<rparr>) ms) (co_journal_outbox c) = Inr j"
    "jo_records j = jo_records (co_journal_outbox c) @ map (\<lambda>m. \<lparr>jr_message = m\<rparr>) ms" "jo_wf j"
    using jo.push_list_ok [OF assms(1), of "map (\<lambda>m. \<lparr>jr_message = m\<rparr>) ms"] assms(2)
    by (auto simp: jo_remaining_capacity_def)
  then show ?thesis using that [of j] eq [of c] by simp
qed

lemma core_wf_journal:
  assumes wf: "core_wf c" and j: "jo_wf j"
  shows "core_wf (c\<lparr>co_journal_outbox := j\<rparr>)"
  using j by (intro core_wf_frame [OF wf] admissions_wf_frame [OF wf])
    (simp_all add: store_wfD [OF wf] conn_member_def fun_eq_iff)

section \<open>Committing\<close>

lemma commit_session_core_wf:
  assumes wf: "core_wf c" and s: "bt_get (co_sessions c) key = Some s"
    and a: "authorized c cid key messages planned"
  shows "core_wf (c\<lparr>co_sessions := bt_insert key (commit_session planned messages s) (co_sessions c)\<rparr>)"
proof -
  let ?s = "commit_session planned messages s"
  note ss = core_session [OF wf s]
  note f = store_all_fields [of "s\<lparr>sn_sequences := commit_sequences planned (sn_sequences s)\<rparr>" "stateful messages",
      folded commit_session_alt]
  have planned: "sqk_connection k = cid \<and> live_scope s (sqk_space k) (sqk_space_epoch k) (sqk_entity k)"
    if "bt_get planned k = Some v" for k v
    using a s that unfolding authorized_def by blast
  have ms: "live_scope s (am_space m) (am_space_epoch m) (am_entity m) \<and>
      length (am_payload m) \<le> cc_max_payload_bytes (co_config c)" if "m \<in> set messages" for m
    using a s that unfolding authorized_def publishable_def by fastforce
  let ?n = "cc_max_payload_bytes (co_config c)"
  have "(\<Sum>m\<leftarrow>stateful messages. length (am_payload m)) \<le> length (stateful messages) * ?n"
    using sum_list_mono [of "stateful messages" "\<lambda>m. length (am_payload m)" "\<lambda>_. ?n"] ms
    by (auto simp: stateful_def sum_list_triv)
  also have "length (stateful messages) \<le> Suc (cc_max_authority_emissions (co_config c))"
    using a length_filter_le [of "\<lambda>m. am_persistence m = Stateful" messages]
    unfolding authorized_def stateful_def by linarith
  finally have "(\<Sum>m\<leftarrow>stateful messages. length (am_payload m)) \<le> Suc (cc_max_authority_emissions (co_config c)) * ?n"
    by simp
  then have fit: "sn_bytes s + (\<Sum>m\<leftarrow>stateful messages. length (am_payload m)) \<le> usize_max"
    using session_wfD(6) [OF ss(1)] config_okD(5) [OF store_wfD(1) [OF wf]]
    unfolding limits_wf_def by linarith
  have seqs: "bt_len (sn_sequences s) + length (filter (\<lambda>k. \<not> bt_contains_key (sn_sequences s) k) (bt_keys planned))
      \<le> cc_max_sequence_keys_per_session (co_config c)"
    using a s config_okD(4) [OF store_wfD(1) [OF wf]]
    by (auto simp: authorized_def validate_sequence_capacity_def Let_def get_session_def usize_saturating_add_def
        min_def split: if_splits)
  obtain n b where p: "project_state s (stateful messages) bt_new (bt_len (sn_state_map s), sn_bytes s) = (n, b)"
    by force
  then have nb: "n \<le> cc_max_state_entries_per_session (co_config c)" "b \<le> cc_max_state_bytes_per_session (co_config c)"
    using a s by (auto simp: authorized_def validate_state_capacity_def get_session_def split: if_splits)
  show ?thesis
  proof (rule core_wf_session [OF wf s])
    show "session_wf (co_config c) (co_next_entity_id c) ?s"
      by (rule session_wf_commit [OF ss(1) _ _ seqs p nb fit]) (use planned ms in blast)+
    show "belongs_wf ?s"
      using ss(2,3) planned a by (auto simp: belongs_wf_def f authorized_def split: option.splits)
  qed (simp_all add: f subscribes_def owned_in_def live_scope_def current_space_def)
qed

section \<open>Delivering\<close>

text \<open>
  What a delivery may change: the outbound queues, whose critical messages are only appended to
  and whose exhaustion flag stays once set.
\<close>

definition queue_grows :: "connection_state \<Rightarrow> connection_state \<Rightarrow> bool" where
  "queue_grows cn cn' \<longleftrightarrow> cn' = cn\<lparr>cn_outbound := cn_outbound cn'\<rparr>
     \<and> (\<exists>ms. oq_critical (cn_outbound cn') = oq_critical (cn_outbound cn) @ ms)
     \<and> (oq_critical_capacity_exhausted (cn_outbound cn) \<longrightarrow> oq_critical_capacity_exhausted (cn_outbound cn'))"

definition queues_grow :: "core \<Rightarrow> core \<Rightarrow> bool" where
  "queues_grow c c' \<longleftrightarrow> c' = c\<lparr>co_connections := co_connections c'\<rparr>
     \<and> (\<forall>x. rel_option queue_grows (bt_get (co_connections c) x) (bt_get (co_connections c') x))"

lemma queue_grows_refl: "queue_grows cn cn"
  by (simp add: queue_grows_def)

lemma queue_grows_trans: "queue_grows a b \<Longrightarrow> queue_grows b d \<Longrightarrow> queue_grows a d"
proof -
  assume ab: "queue_grows a b" and bd: "queue_grows b d"
  have "d = a\<lparr>cn_outbound := cn_outbound d\<rparr>"
    using ab bd unfolding queue_grows_def by (metis connection_state.update_convs(6) connection_state.surjective)
  then show ?thesis using ab bd unfolding queue_grows_def by auto
qed

lemma queues_grow_refl [intro]: "queues_grow c c"
  by (simp add: queues_grow_def option.rel_refl queue_grows_refl)

lemma queues_grow_trans [trans]: "queues_grow a b \<Longrightarrow> queues_grow b d \<Longrightarrow> queues_grow a d"
proof -
  assume ab: "queues_grow a b" and bd: "queues_grow b d"
  have "d = a\<lparr>co_connections := co_connections d\<rparr>"
    using ab bd unfolding queues_grow_def by (cases a; cases b; cases d) simp
  moreover have "rel_option queue_grows (bt_get (co_connections a) x) (bt_get (co_connections d) x)" for x
    using ab bd queue_grows_trans unfolding queues_grow_def
    by (auto simp: option_rel_Some1 option_rel_Some2 elim!: allE [where x = x] option.rel_cases)
  ultimately show ?thesis by (simp add: queues_grow_def)
qed

lemma queues_growD:
  assumes "queues_grow c c'"
  shows "co_sessions c' = co_sessions c" "co_config c' = co_config c"
    "co_journal_outbox c' = co_journal_outbox c" "co_channels c' = co_channels c"
    "bt_contains_key (co_connections c') x \<longleftrightarrow> bt_contains_key (co_connections c) x"
    "bt_get (co_connections c) x = Some cn \<Longrightarrow>
       \<exists>cn'. bt_get (co_connections c') x = Some cn' \<and> queue_grows cn cn'"
    "bt_get (co_connections c') x = Some cn' \<Longrightarrow>
       \<exists>cn. bt_get (co_connections c) x = Some cn \<and> queue_grows cn cn'"
proof -
  have eq: "c' = c\<lparr>co_connections := co_connections c'\<rparr>" using assms by (simp add: queues_grow_def)
  show "co_sessions c' = co_sessions c" "co_config c' = co_config c"
    "co_journal_outbox c' = co_journal_outbox c" "co_channels c' = co_channels c"
    by (subst eq, simp)+
  have rel: "rel_option queue_grows (bt_get (co_connections c) x) (bt_get (co_connections c') x)"
    using assms by (simp add: queues_grow_def)
  then show "bt_contains_key (co_connections c') x \<longleftrightarrow> bt_contains_key (co_connections c) x"
    by (auto simp: bt_contains_key_def option_rel_Some1 option_rel_Some2)
  show "bt_get (co_connections c) x = Some cn \<Longrightarrow>
       \<exists>cn'. bt_get (co_connections c') x = Some cn' \<and> queue_grows cn cn'"
    "bt_get (co_connections c') x = Some cn' \<Longrightarrow>
       \<exists>cn. bt_get (co_connections c) x = Some cn \<and> queue_grows cn cn'"
    using rel by (auto simp: option_rel_Some1 option_rel_Some2)
qed

lemma queue_growsD:
  assumes "queue_grows cn cn'"
  shows "cn_authenticated cn' = cn_authenticated cn" "cn_memberships cn' = cn_memberships cn"
    "cn_subscriptions cn' = cn_subscriptions cn" "cn_rate_limiter cn' = cn_rate_limiter cn"
    "entitled cn' m = entitled cn m" "set (oq_critical (cn_outbound cn)) \<subseteq> set (oq_critical (cn_outbound cn'))"
    "oq_critical_capacity_exhausted (cn_outbound cn) \<Longrightarrow> oq_critical_capacity_exhausted (cn_outbound cn')"
proof -
  have eq: "cn' = cn\<lparr>cn_outbound := cn_outbound cn'\<rparr>" using assms by (simp add: queue_grows_def)
  show "cn_authenticated cn' = cn_authenticated cn" "cn_memberships cn' = cn_memberships cn"
    "cn_subscriptions cn' = cn_subscriptions cn" "cn_rate_limiter cn' = cn_rate_limiter cn"
    by (subst eq, simp)+
  then show "entitled cn' m = entitled cn m" by (simp add: entitled_def)
qed (use assms in \<open>auto simp: queue_grows_def\<close>)

lemma queues_grow_links:
  assumes "queues_grow c c'"
  shows "conn_subscribed c' x key sp \<longleftrightarrow> conn_subscribed c x key sp" "live_message c' m \<longleftrightarrow> live_message c m"
    "receiving_connection c key m x = None \<longleftrightarrow> receiving_connection c' key m x = None"
proof -
  note g = queues_growD [OF assms]
  show "live_message c' m \<longleftrightarrow> live_message c m" by (simp add: live_message_def g(1))
  have rel: "rel_option queue_grows (bt_get (co_connections c) x) (bt_get (co_connections c') x)"
    using assms by (simp add: queues_grow_def)
  show "conn_subscribed c' x key sp \<longleftrightarrow> conn_subscribed c x key sp"
    using rel queue_growsD(3) by (cases rule: option.rel_cases) (auto simp: conn_subscribed_def)
  show "receiving_connection c key m x = None \<longleftrightarrow> receiving_connection c' key m x = None"
    using rel queue_growsD(1)
    by (cases rule: option.rel_cases) (auto simp: receiving_connection_def split: option.split)
qed

lemma receiving_connection_Some:
  "receiving_connection c key m x = Some cn \<longleftrightarrow> bt_get (co_connections c) x = Some cn
     \<and> (\<exists>p. cn_authenticated cn = Some p \<and> can_receive p key (om_space m) (om_channel m))"
  by (auto simp: receiving_connection_def split: option.splits)

definition deliverable :: "core \<Rightarrow> session_key \<Rightarrow> outbound_message \<Rightarrow> bool" where
  "deliverable c key m \<longleftrightarrow> session_of m = key \<and> live_message c m
     \<and> (is_replaceable (om_delivery m) \<longrightarrow> om_coalesce_key m \<noteq> None)"

lemma push_exhausted_critical:
  "oq_push m q = (Inr CriticalCapacityExhausted, q') \<Longrightarrow> is_critical (om_delivery m)"
  by (cases "om_delivery m") (auto simp: oq_push_def oq_push_latest_def oq_push_latest_keyed_def
      oq_push_best_effort_def Let_def split: option.splits if_splits prod.splits)

lemma push_connection:
  assumes wf: "core_wf c" and d: "deliverable c key m" and sub: "conn_subscribed c x key (om_space m)"
    and cn: "receiving_connection c key m x = Some cn" and p: "oq_push m (cn_outbound cn) = (r, q)"
  shows "core_wf (map_connection x (\<lambda>cn. cn\<lparr>cn_outbound := q\<rparr>) c)"
    "queues_grow c (map_connection x (\<lambda>cn. cn\<lparr>cn_outbound := q\<rparr>) c)"
    "\<exists>result. r = Inr result \<and> (if result = CriticalCapacityExhausted
       then oq_critical_capacity_exhausted q
       else is_critical (om_delivery m) \<longrightarrow> m \<in> set (oq_critical q))"
proof -
  from cn obtain pr where get: "bt_get (co_connections c) x = Some cn" and pr: "cn_authenticated cn = Some pr"
    "can_receive pr key (om_space m) (om_channel m)" unfolding receiving_connection_Some by blast
  note cs = core_connection [OF wf get]
  have "oq_wf (cn_outbound cn)" using cs(1) by (simp add: connection_wf_def)
  note q = oq_push_wf [OF this p]
  have ent: "entitled cn m"
    using sub get pr d by (auto simp: entitled_def conn_subscribed_def deliverable_def)
  show "core_wf (map_connection x (\<lambda>cn. cn\<lparr>cn_outbound := q\<rparr>) c)"
  proof (rule core_wf_outbound [OF wf get])
    show "entitled cn m' \<and> live_message c m'" if "m' \<in> set (oq_view q)" for m'
      using that q cs(2) [of m'] ent d by (auto simp: queued_def deliverable_def)
  qed (use q in auto)
  have "queue_grows cn (cn\<lparr>cn_outbound := q\<rparr>)" using q by (auto simp: queue_grows_def)
  moreover have "map_connection x (\<lambda>cn. cn\<lparr>cn_outbound := q\<rparr>) c
    = c\<lparr>co_connections := bt_insert x (cn\<lparr>cn_outbound := q\<rparr>) (co_connections c)\<rparr>"
    by (rule map_connection_insert [OF get])
  ultimately show "queues_grow c (map_connection x (\<lambda>cn. cn\<lparr>cn_outbound := q\<rparr>) c)"
    using get by (simp add: queues_grow_def bt_get_insert option.rel_refl queue_grows_refl)
  have "is_ok r" using q d
    by (auto simp: deliverable_def)
  then obtain result where "r = Inr result" by (cases r) simp_all
  then show "\<exists>result. r = Inr result \<and> (if result = CriticalCapacityExhausted
       then oq_critical_capacity_exhausted q
       else is_critical (om_delivery m) \<longrightarrow> m \<in> set (oq_critical q))"
    using q push_exhausted_critical [of m "cn_outbound cn" q] p by auto
qed

text \<open>What one message reaches: its recipients hold it, or are marked for disconnection.\<close>

definition reached :: "core \<Rightarrow> connection_id btset \<Rightarrow> outbound_message \<Rightarrow> connection_id \<Rightarrow> bool" where
  "reached c disconnected m x \<longleftrightarrow> bs_contains disconnected x
     \<or> (\<exists>cn. bt_get (co_connections c) x = Some cn \<and> m \<in> set (oq_critical (cn_outbound cn)))"

definition exhausted :: "core \<Rightarrow> connection_id \<Rightarrow> bool" where
  "exhausted c x \<longleftrightarrow> (\<exists>cn. bt_get (co_connections c) x = Some cn
     \<and> oq_critical_capacity_exhausted (cn_outbound cn))"

lemma queues_grow_reached:
  assumes "queues_grow c c'"
  shows "reached c disc m x \<Longrightarrow> (\<And>y. bs_contains disc y \<Longrightarrow> bs_contains disc' y) \<Longrightarrow> reached c' disc' m x"
    "exhausted c x \<Longrightarrow> exhausted c' x"
proof -
  have rel: "rel_option queue_grows (bt_get (co_connections c) x) (bt_get (co_connections c') x)"
    using assms by (simp add: queues_grow_def)
  show "exhausted c x \<Longrightarrow> exhausted c' x"
    using rel queue_growsD(7) by (cases rule: option.rel_cases) (auto simp: exhausted_def)
  show "reached c' disc' m x" if "reached c disc m x" "\<And>y. bs_contains disc y \<Longrightarrow> bs_contains disc' y"
    using rel that queue_growsD(6) unfolding reached_def
    by (cases rule: option.rel_cases) (auto, blast?)
qed

text \<open>The state of a fan-out: the core and the consumers marked so far, before and after.\<close>

definition fan_out :: "core \<Rightarrow> connection_id btset \<Rightarrow> core \<Rightarrow> connection_id btset \<Rightarrow> bool" where
  "fan_out c disc c' disc' \<longleftrightarrow> core_wf c' \<and> queues_grow c c'
     \<and> (\<forall>x. bs_contains disc x \<longrightarrow> bs_contains disc' x) \<and> (\<forall>x. bs_contains disc' x \<longrightarrow> exhausted c' x)"

lemma fan_out_refl:
  "core_wf c \<Longrightarrow> (\<And>x. bs_contains disc x \<Longrightarrow> exhausted c x) \<Longrightarrow> fan_out c disc c disc"
  by (auto simp: fan_out_def)

lemma fan_out_trans: "fan_out a da b db \<Longrightarrow> fan_out b db e de \<Longrightarrow> fan_out a da e de"
  unfolding fan_out_def using queues_grow_trans by blast

lemma fan_out_reached: "fan_out c disc c' disc' \<Longrightarrow> reached c disc m x \<Longrightarrow> reached c' disc' m x"
  unfolding fan_out_def using queues_grow_reached(1) by blast

lemma fan_out_deliverable: "fan_out c disc c' disc' \<Longrightarrow> deliverable c' key m \<longleftrightarrow> deliverable c key m"
  unfolding fan_out_def deliverable_def using queues_grow_links(2) by blast

text \<open>One recipient.\<close>

lemma deliver_one:
  assumes "fan_out c0 disc0 c disc" "deliverable c key m" "conn_subscribed c x key (om_space m)"
  shows "\<exists>outcome' disc' c'. deliver_to key m (x # cids) (outcome, disc) c
      = deliver_to key m cids (outcome', disc') c'
    \<and> fan_out c disc c' disc'
    \<and> po_disconnected_slow_consumers outcome' = po_disconnected_slow_consumers outcome
    \<and> (is_critical (om_delivery m) \<longrightarrow> receiving_connection c key m x \<noteq> None \<longrightarrow> reached c' disc' m x)"
proof (cases "bs_contains disc x \<or> receiving_connection c key m x = None")
  case True
  then have "deliver_to key m (x # cids) (outcome, disc) c = deliver_to key m cids (outcome, disc) c" by auto
  moreover have "fan_out c disc c disc" using assms(1) by (auto simp: fan_out_def)
  ultimately show ?thesis using True
    by (intro exI [of _ outcome] exI [of _ disc] exI [of _ c]) (auto simp: reached_def)
next
  case False
  then obtain cn where cn: "receiving_connection c key m x = Some cn" and nd: "\<not> bs_contains disc x" by blast
  obtain r q where p: "oq_push m (cn_outbound cn) = (r, q)" by force
  have wf: "core_wf c" using assms(1) by (simp add: fan_out_def)
  let ?c = "map_connection x (\<lambda>cn. cn\<lparr>cn_outbound := q\<rparr>) c"
  note push = push_connection [OF wf assms(2,3) cn p]
  from push(3) obtain result where r: "r = Inr result"
    and got: "if result = CriticalCapacityExhausted then oq_critical_capacity_exhausted q
       else is_critical (om_delivery m) \<longrightarrow> m \<in> set (oq_critical q)" by blast
  let ?disc = "if result = CriticalCapacityExhausted then bs_insert x disc else disc"
  have get: "bt_get (co_connections ?c) x = Some (cn\<lparr>cn_outbound := q\<rparr>)"
    using cn by (simp add: receiving_connection_Some)
  have "fan_out c disc ?c ?disc"
    using push(1,2) got get queues_grow_reached(2) [OF push(2)] assms(1)
    by (auto simp: fan_out_def exhausted_def split: if_splits)
  moreover have "reached ?c ?disc m x" if "is_critical (om_delivery m)"
    using got get that by (auto simp: reached_def split: if_splits)
  moreover have "deliver_to key m (x # cids) (outcome, disc) c = deliver_to key m cids
      (outcome\<lparr>po_recipient_attempts := po_recipient_attempts outcome + 1,
         po_queues := record_queue_result (po_queues outcome) result\<rparr>, ?disc) ?c"
    using cn nd p r by (simp add: Let_def)
  ultimately show ?thesis
    by (intro exI [of _ "outcome\<lparr>po_recipient_attempts := po_recipient_attempts outcome + 1,
         po_queues := record_queue_result (po_queues outcome) result\<rparr>"] exI [of _ ?disc] exI [of _ ?c]) simp
qed

lemma deliver_to_ok:
  assumes "fan_out c0 disc0 c disc" "deliverable c key m"
    "\<And>x. x \<in> set cids \<Longrightarrow> conn_subscribed c x key (om_space m)"
  shows "\<exists>outcome' disc' c'. deliver_to key m cids (outcome, disc) c = (Inr (outcome', disc'), c')
    \<and> fan_out c disc c' disc'
    \<and> po_disconnected_slow_consumers outcome' = po_disconnected_slow_consumers outcome
    \<and> (is_critical (om_delivery m) \<longrightarrow>
        (\<forall>x\<in>set cids. receiving_connection c key m x \<noteq> None \<longrightarrow> reached c' disc' m x))"
  using assms
proof (induction cids arbitrary: c outcome disc c0 disc0)
  case Nil
  then have "fan_out c disc c disc" by (auto simp: fan_out_def)
  then show ?case by auto
next
  case (Cons x cids)
  have "conn_subscribed c x key (om_space m)" using Cons.prems(3) by simp
  from deliver_one [OF Cons.prems(1,2) this, of cids outcome] obtain outcome1 disc1 c1
    where one: "deliver_to key m (x # cids) (outcome, disc) c = deliver_to key m cids (outcome1, disc1) c1"
      "fan_out c disc c1 disc1"
      "po_disconnected_slow_consumers outcome1 = po_disconnected_slow_consumers outcome"
      "is_critical (om_delivery m) \<longrightarrow> receiving_connection c key m x \<noteq> None \<longrightarrow> reached c1 disc1 m x"
    by blast
  have grow: "queues_grow c c1" using one(2) by (simp add: fan_out_def)
  have "deliverable c1 key m" using fan_out_deliverable [OF one(2)] Cons.prems(2) by blast
  moreover have "conn_subscribed c1 y key (om_space m)" if "y \<in> set cids" for y
    using queues_grow_links(1) [OF grow] Cons.prems(3) that by simp
  ultimately obtain outcome' disc' c' where
    "deliver_to key m cids (outcome1, disc1) c1 = (Inr (outcome', disc'), c')"
    "fan_out c1 disc1 c' disc'"
    "po_disconnected_slow_consumers outcome' = po_disconnected_slow_consumers outcome1"
    "is_critical (om_delivery m) \<longrightarrow>
        (\<forall>x\<in>set cids. receiving_connection c1 key m x \<noteq> None \<longrightarrow> reached c' disc' m x)"
    using Cons.IH [OF one(2), of outcome1] by blast
  then show ?case
    using one fan_out_trans [OF one(2)] fan_out_reached queues_grow_links(3) [OF grow, of key m] by auto
qed

text \<open>Routing chooses among the subscribers, and takes all of them for a critical message.\<close>

lemma subscribers_of_iff: "bs_contains (subscribers_of s sp) x \<longleftrightarrow> subscribes s x sp"
  by (simp add: subscribers_of_def subscribes_def split: option.split)

lemma spatial_recipients_subset:
  "bs_contains (spatial_recipients s m subs cell radius exact) x \<Longrightarrow> bs_contains subs x"
  by (auto simp: spatial_recipients_def Let_def split: option.splits if_splits)

lemma routing_recipients_subset:
  "bs_contains (routing_recipients s m) x \<Longrightarrow> subscribes s x (om_space m)"
  by (auto simp: routing_recipients_def Let_def subscribers_of_iff split: option.splits if_splits
      routing_policy.splits dest!: spatial_recipients_subset)

lemma routing_recipients_critical:
  assumes "is_critical (om_delivery m)" "bt_get (sn_space_map s) (om_space m) = Some d"
  shows "bs_contains (routing_recipients s m) x \<longleftrightarrow> subscribes s x (om_space m)"
  using assms by (simp add: routing_recipients_def subscribers_of_iff)

lemma recipients_subscribed:
  assumes wf: "core_wf c" and x: "x \<in> set (recipients_of c key m)"
  shows "conn_subscribed c x key (om_space m)"
proof -
  obtain s where s: "bt_get (co_sessions c) key = Some s" "bs_contains (routing_recipients s m) x"
    using x by (cases "bt_get (co_sessions c) key") (simp_all add: recipients_of_def bs_contains_keys)
  then show ?thesis using core_session(4) [OF wf s(1)] routing_recipients_subset by blast
qed

lemma critical_recipients:
  assumes wf: "core_wf c" and d: "deliverable c key m" and crit: "is_critical (om_delivery m)"
    and x: "conn_subscribed c x key (om_space m)"
  shows "x \<in> set (recipients_of c key m)"
proof -
  obtain s where s: "bt_get (co_sessions c) key = Some s"
    and l: "live_scope s (om_space m) (om_space_epoch m) (om_entity m)"
    using d by (auto simp: deliverable_def live_message_def)
  then obtain sd where "bt_get (sn_space_map s) (om_space m) = Some sd"
    by (auto simp: live_scope_def current_space_def)
  from routing_recipients_critical [OF crit this] core_session(4) [OF wf s] x show ?thesis
    by (simp add: recipients_of_def s bs_contains_keys [symmetric])
qed

lemma deliver_all_ok:
  assumes "fan_out c0 disc0 c disc" "\<And>m. m \<in> set ms \<Longrightarrow> deliverable c key m"
  shows "\<exists>outcome' disc' c'. deliver_all key ms (outcome, disc) c = (Inr (outcome', disc'), c')
    \<and> fan_out c disc c' disc'
    \<and> po_disconnected_slow_consumers outcome' = po_disconnected_slow_consumers outcome
    \<and> (\<forall>m\<in>set ms. is_critical (om_delivery m) \<longrightarrow> (\<forall>x. conn_subscribed c x key (om_space m) \<longrightarrow>
        receiving_connection c key m x \<noteq> None \<longrightarrow> reached c' disc' m x))"
  using assms
proof (induction ms arbitrary: c outcome disc c0 disc0)
  case Nil
  then have "fan_out c disc c disc" by (auto simp: fan_out_def)
  then show ?case by auto
next
  case (Cons m ms)
  have wf: "core_wf c" using Cons.prems(1) by (simp add: fan_out_def)
  have m: "deliverable c key m" using Cons.prems(2) by simp
  obtain outcome1 disc1 c1 where
    one: "deliver_to key m (recipients_of c key m) (outcome, disc) c = (Inr (outcome1, disc1), c1)"
      "fan_out c disc c1 disc1" "po_disconnected_slow_consumers outcome1 = po_disconnected_slow_consumers outcome"
      "is_critical (om_delivery m) \<longrightarrow> (\<forall>x\<in>set (recipients_of c key m).
        receiving_connection c key m x \<noteq> None \<longrightarrow> reached c1 disc1 m x)"
    using deliver_to_ok [OF Cons.prems(1) m recipients_subscribed [OF wf], of "recipients_of c key m" outcome]
    by blast
  have grow: "queues_grow c c1" using one(2) by (simp add: fan_out_def)
  have "deliverable c1 key m'" if "m' \<in> set ms" for m'
    using fan_out_deliverable [OF one(2)] Cons.prems(2) that by simp
  then obtain outcome' disc' c' where rest:
    "deliver_all key ms (outcome1, disc1) c1 = (Inr (outcome', disc'), c')" "fan_out c1 disc1 c' disc'"
    "po_disconnected_slow_consumers outcome' = po_disconnected_slow_consumers outcome1"
    "\<forall>m\<in>set ms. is_critical (om_delivery m) \<longrightarrow> (\<forall>x. conn_subscribed c1 x key (om_space m) \<longrightarrow>
        receiving_connection c1 key m x \<noteq> None \<longrightarrow> reached c' disc' m x)"
    using Cons.IH [OF one(2), of outcome1] by blast
  have "reached c' disc' m x" if "is_critical (om_delivery m)" "conn_subscribed c x key (om_space m)"
    "receiving_connection c key m x \<noteq> None" for x
    using one(4) critical_recipients [OF wf m that(1,2)] that fan_out_reached [OF rest(2)] by blast
  then have "\<forall>m'\<in>set (m # ms). is_critical (om_delivery m') \<longrightarrow> (\<forall>x. conn_subscribed c x key (om_space m') \<longrightarrow>
        receiving_connection c key m' x \<noteq> None \<longrightarrow> reached c' disc' m' x)"
    using rest(4) queues_grow_links(1,3) [OF grow] by simp
  moreover have "fan_out c disc c' disc'" using one(2) rest(2) by (rule fan_out_trans)
  moreover have "deliver_all key (m # ms) (outcome, disc) c = (Inr (outcome', disc'), c')"
    using one(1) rest(1) by simp
  ultimately show ?case using one(3) rest(3) by metis
qed

section \<open>Disconnecting slow consumers\<close>

lemma disconnect_slow_ok:
  assumes "core_wf c"
  shows "\<exists>outcome' c'. disconnect_slow clock cids outcome c = (Inr outcome', c') \<and> core_wf c'
    \<and> (\<forall>x. bt_contains_key (co_connections c') x
        \<longleftrightarrow> bt_contains_key (co_connections c) x \<and> x \<notin> set cids)
    \<and> (\<exists>gone. po_disconnected_slow_consumers outcome' = po_disconnected_slow_consumers outcome @ gone
        \<and> set gone = {x \<in> set cids. bt_contains_key (co_connections c) x})"
  using assms
proof (induction cids arbitrary: outcome c)
  case (Cons x cids)
  show ?case
  proof (cases "bt_get (co_connections c) x")
    case None
    then show ?thesis using Cons.IH [OF Cons.prems, of outcome] by (auto simp: bt_contains_key_def)
  next
    case (Some cn)
    obtain summary c1 where t: "transport_lost clock x c = (Inr summary, c1)" "core_wf c1"
      "bt_get (co_connections c1) x = None"
      "\<And>y. y \<noteq> x \<Longrightarrow> bt_contains_key (co_connections c1) y \<longleftrightarrow> bt_contains_key (co_connections c) y"
      using transport_lost_effect [OF Cons.prems Some, of clock] by metis
    let ?o = "outcome\<lparr>po_disconnected_slow_consumers := po_disconnected_slow_consumers outcome @ [x]\<rparr>"
    obtain outcome' c' gone where rest: "disconnect_slow clock cids ?o c1 = (Inr outcome', c')" "core_wf c'"
      "\<And>y. bt_contains_key (co_connections c') y \<longleftrightarrow> bt_contains_key (co_connections c1) y \<and> y \<notin> set cids"
      "po_disconnected_slow_consumers outcome' = po_disconnected_slow_consumers ?o @ gone"
      "set gone = {y \<in> set cids. bt_contains_key (co_connections c1) y}"
      using Cons.IH [OF t(2), of ?o] by blast
    have keys: "bt_contains_key (co_connections c1) y \<longleftrightarrow> bt_contains_key (co_connections c) y \<and> y \<noteq> x" for y
      using t(3,4) by (cases "y = x") (simp_all add: bt_contains_key_def)
    have "disconnect_slow clock (x # cids) outcome c = (Inr outcome', c')"
      using Some t(1) rest(1) by (simp add: bt_contains_key_def)
    moreover have "po_disconnected_slow_consumers outcome' = po_disconnected_slow_consumers outcome @ (x # gone)"
      using rest(4) by simp
    moreover have "set (x # gone) = {y \<in> set (x # cids). bt_contains_key (co_connections c) y}"
      using rest(5) keys Some by (auto simp: bt_contains_key_def)
    ultimately show ?thesis using rest(2,3) keys by fastforce
  qed
qed simp

section \<open>The effects of a publish\<close>

text \<open>The core once the records and the session are written, before anything is delivered.\<close>

definition committed_core ::
  "session_key \<Rightarrow> authorized_message list \<Rightarrow> planned \<Rightarrow> session_state \<Rightarrow> journal_outbox \<Rightarrow> core \<Rightarrow> core" where
  "committed_core key messages planned s j c = c\<lparr>co_journal_outbox := j,
     co_sessions := bt_insert key (commit_session planned messages s) (co_sessions c)\<rparr>"

lemma outbound_fields [simp]:
  "om_space (am_to_outbound key m) = am_space m" "om_delivery (am_to_outbound key m) = am_delivery m"
  "om_coalesce_key (am_to_outbound key m) = am_coalesce_key m" "om_channel (am_to_outbound key m) = am_channel m"
  "om_persistence (am_to_outbound key m) = am_persistence m" "session_of (am_to_outbound key m) = key"
  "om_space_epoch (am_to_outbound key m) = am_space_epoch m" "om_entity (am_to_outbound key m) = am_entity m"
  by (simp_all add: am_to_outbound_def session_of_def)

lemma commit_session_scope: "live_scope (commit_session planned messages s) = live_scope s"
  using store_all_fields [of "s\<lparr>sn_sequences := commit_sequences planned (sn_sequences s)\<rparr>" "stateful messages",
      folded commit_session_alt]
  by (simp add: live_scope_def current_space_def fun_eq_iff)

lemma commit_publish_delivers:
  assumes wf: "core_wf c" and a: "authorized c cid key messages planned"
  obtains s j outcome0 outcome disc c3 where
    "bt_get (co_sessions c) key = Some s"
    "jo_records j = jo_records (co_journal_outbox c)
      @ map (\<lambda>m. \<lparr>jr_message = m\<rparr>) (durable_messages (map (am_to_outbound key) messages))"
    "core_wf (committed_core key messages planned s j c)"
    "fan_out (committed_core key messages planned s j c) bt_new c3 disc"
    "\<And>m x. m \<in> am_to_outbound key ` set messages \<Longrightarrow> is_critical (om_delivery m) \<Longrightarrow>
       conn_subscribed c x key (om_space m) \<Longrightarrow> receiving_connection c key m x \<noteq> None \<Longrightarrow> reached c3 disc m x"
    "disconnect_slow clock (bt_keys disc) outcome c3 = commit_publish clock key messages planned c"
    "po_disconnected_slow_consumers outcome = []"
    "\<And>x. bs_contains disc x \<Longrightarrow> bt_contains_key (co_connections c3) x"
    "deliver_all key (map (am_to_outbound key) messages) (outcome0, bt_new)
       (committed_core key messages planned s j c) = (Inr (outcome, disc), c3)"
proof -
  let ?out = "map (am_to_outbound key) messages"
  have "conn_member c cid key" using a by (simp add: authorized_def)
  then obtain s where s: "bt_get (co_sessions c) key = Some s" by (rule member_live [OF wf])
  have "length (durable_messages ?out) \<le> jo_remaining_capacity (co_journal_outbox c)"
    using a by (simp add: authorized_def durable_messages_def filter_map comp_def)
  from journal_all_ok [OF store_wfD(7) [OF wf] this] obtain j where
    j: "journal_all (durable_messages ?out) c = (Inr (), c\<lparr>co_journal_outbox := j\<rparr>)" "jo_wf j"
      "jo_records j = jo_records (co_journal_outbox c) @ map (\<lambda>m. \<lparr>jr_message = m\<rparr>) (durable_messages ?out)"
    by blast
  let ?c2 = "committed_core key messages planned s j c"
  have "core_wf ((c\<lparr>co_sessions := bt_insert key (commit_session planned messages s) (co_sessions c)\<rparr>)
      \<lparr>co_journal_outbox := j\<rparr>)"
    by (rule core_wf_journal [OF commit_session_core_wf [OF wf s a] j(2)])
  moreover have "(c\<lparr>co_sessions := bt_insert key (commit_session planned messages s) (co_sessions c)\<rparr>)
      \<lparr>co_journal_outbox := j\<rparr> = ?c2" by (cases c) (simp add: committed_core_def)
  ultimately have wf2: "core_wf ?c2" by (simp only:)
  have start: "fan_out ?c2 bt_new ?c2 bt_new" by (rule fan_out_refl [OF wf2]) simp
  have del: "deliverable ?c2 key m" if "m \<in> set ?out" for m
    using that a s by (auto simp: deliverable_def live_message_def authorized_def publishable_def
        committed_core_def commit_session_scope)
  let ?o = "\<lparr>po_authorized_messages = length messages, po_recipient_attempts = 0, po_queues = qa_default,
    po_disconnected_slow_consumers = []\<rparr>"
  obtain outcome disc c3 where d: "deliver_all key ?out (?o, bt_new) ?c2 = (Inr (outcome, disc), c3)"
    "fan_out ?c2 bt_new c3 disc" "po_disconnected_slow_consumers outcome = []"
    "\<forall>m\<in>set ?out. is_critical (om_delivery m) \<longrightarrow> (\<forall>x. conn_subscribed ?c2 x key (om_space m) \<longrightarrow>
      receiving_connection ?c2 key m x \<noteq> None \<longrightarrow> reached c3 disc m x)"
    using deliver_all_ok [OF start del, of ?out ?o] by simp blast
  have "map_session key (commit_session planned messages) (c\<lparr>co_journal_outbox := j\<rparr>) = ?c2"
    using s by (simp add: map_session_insert committed_core_def)
  then have eq: "disconnect_slow clock (bt_keys disc) outcome c3 = commit_publish clock key messages planned c"
    using j(1) d(1) s by (simp add: commit_publish_def Let_def get_session_def)
  have same: "conn_subscribed ?c2 = conn_subscribed c" "receiving_connection ?c2 = receiving_connection c"
    by (simp_all add: committed_core_def conn_subscribed_def receiving_connection_def fun_eq_iff)
  show ?thesis
  proof (rule that [OF s j(3) wf2 d(2) _ eq d(3) _ d(1)])
    fix m x
    assume "m \<in> am_to_outbound key ` set messages" "is_critical (om_delivery m)"
      "conn_subscribed c x key (om_space m)" "receiving_connection c key m x \<noteq> None"
    then show "reached c3 disc m x" using d(4) unfolding same set_map by blast
  next
    fix x
    assume "bs_contains disc x"
    then show "bt_contains_key (co_connections c3) x"
      using d(2) by (auto simp: fan_out_def exhausted_def bt_contains_key_def)
  qed
qed

lemma commit_publish_ok:
  assumes wf: "core_wf c" and a: "authorized c cid key messages planned"
  obtains s j outcome disc c3 c' where
    "bt_get (co_sessions c) key = Some s"
    "jo_records j = jo_records (co_journal_outbox c)
      @ map (\<lambda>m. \<lparr>jr_message = m\<rparr>) (durable_messages (map (am_to_outbound key) messages))"
    "core_wf (committed_core key messages planned s j c)"
    "fan_out (committed_core key messages planned s j c) bt_new c3 disc"
    "\<And>m x. m \<in> am_to_outbound key ` set messages \<Longrightarrow> is_critical (om_delivery m) \<Longrightarrow>
       conn_subscribed c x key (om_space m) \<Longrightarrow> receiving_connection c key m x \<noteq> None \<Longrightarrow> reached c3 disc m x"
    "disconnect_slow clock (bt_keys disc) outcome c3 = commit_publish clock key messages planned c"
    "po_disconnected_slow_consumers outcome = []"
    "\<And>x. bs_contains disc x \<Longrightarrow> bt_contains_key (co_connections c3) x"
  by (rule commit_publish_delivers [OF assms, of clock]) (rule that)

text \<open>Once authorised, a publish cannot fail.\<close>

lemma commit_publish_wf:
  assumes wf: "core_wf c" and a: "authorized c cid key messages planned"
  shows "\<exists>outcome c'. commit_publish clock key messages planned c = (Inr outcome, c') \<and> core_wf c'"
proof -
  obtain outcome disc c2 c3 where f: "fan_out c2 bt_new c3 disc"
    and d: "disconnect_slow clock (bt_keys disc) outcome c3 = commit_publish clock key messages planned c"
    using commit_publish_ok [OF wf a, of clock] by metis
  have "core_wf c3" using f by (simp add: fan_out_def)
  from disconnect_slow_ok [OF this, of clock "bt_keys disc" outcome] d show ?thesis by auto
qed

lemma limited_wf:
  assumes wf: "core_wf c" and cn: "bt_get (co_connections c) cid = Some cn"
  shows "core_wf (map_connection cid (\<lambda>cn. cn\<lparr>cn_rate_limiter :=
    snd (rl_admit (cc_publish_rate_limit (co_config c)) now (cn_rate_limiter cn))\<rparr>) c)"
  by (rule core_wf_map_connection [OF wf])
    (use core_connection(1,2) [OF wf] config_okD(3) [OF store_wfD(1) [OF wf]] rl_admit_bound in
      \<open>auto simp: connection_wf_def entitled_def queued_def\<close>)

lemma publish_at_wf:
  assumes wf: "core_wf c"
  shows "core_wf (snd (publish_at clock r now c))"
  unfolding publish_at_def
proof (rule checked_preserves [where P = core_wf, OF wf], goal_cases)
  case (1 cn)
  then have cn: "bt_get (co_connections c) (pq_connection r) = Some cn" by (auto simp: and_then_eq_Inr)
  obtain admitted limiter where l: "rl_admit (cc_publish_rate_limit (co_config c)) now (cn_rate_limiter cn) = (admitted, limiter)"
    by force
  let ?c = "map_connection (pq_connection r) (\<lambda>cn. cn\<lparr>cn_rate_limiter := limiter\<rparr>) c"
  have eq: "map_connection (pq_connection r) (\<lambda>cn. cn\<lparr>cn_rate_limiter :=
      snd (rl_admit (cc_publish_rate_limit (co_config c)) now (cn_rate_limiter cn))\<rparr>) c = ?c"
    using l by (simp add: map_connection_insert [OF cn])
  have wf1: "core_wf ?c" using limited_wf [OF wf cn, of now] unfolding eq .
  have "core_wf (snd (checked (and_then admitted (\<lambda>_. authorize_publish ?c r)) (\<lambda>(messages, planned).
      commit_publish clock (pq_session r) messages planned) ?c))"
  proof (rule checked_preserves [where P = core_wf, OF wf1], goal_cases)
    case (1 mp)
    then obtain messages planned where mp: "mp = (messages, planned)"
      and "authorize_publish ?c r = Inr (messages, planned)" by (cases mp) (auto simp: and_then_eq_Inr)
    then show ?case using commit_publish_wf [OF wf1 authorize_publish_ok, of r messages planned clock] by auto
  qed
  then show ?case using l by (simp add: Let_def)
qed

end
