(* ===== verification/Worker.thy ===== *)
theory Worker
  imports CorePublish
begin

text \<open>
  The transport-independent worker and its bounded harness, \<^verbatim>\<open>woven-core/src/worker.rs\<close>:
  one command of the wire protocol runs one operation of the core. The worker's only field is the
  core. The operations that read the clock take their readings from a \<open>clock_reading\<close>, one per
  command handled.
\<close>

record clock_reading =
  ck_now :: instant
  ck_release :: release_clock

datatype command =
    C_TransportConnected
  | C_Authenticate connection_id credentials
  | C_JoinSession connection_id session_key
  | C_RequestSessionAdmission connection_id session_key idempotency_key
  | C_JoinSessionWithAdmission connection_id session_key admission_lease
  | C_LeaveSession connection_id session_key
  | C_Subscribe connection_id space_key
  | C_Unsubscribe connection_id space_key
  | C_SpawnEntity connection_id space_key space_epoch
  | C_RemoveEntity connection_id session_key entity_id
  | C_UpdateEntityPosition connection_id session_key entity_id entity_position
  | C_TransitionEntity entity_transition_request
  | C_Publish publish_request
  | C_Snapshot connection_id session_key
  | C_DrainOutbound connection_id
  | C_TransportLost connection_id

datatype command_result =
    R_Connected connection_id
  | R_Authenticated principal_id
  | R_Joined
  | R_Admission join_decision
  | R_Left cleanup_summary
  | R_Subscribed
  | R_Unsubscribed cleanup_summary
  | R_EntitySpawned entity_id
  | R_EntityRemoved cleanup_summary
  | R_EntityPositionUpdated
  | R_EntityTransitioned entity_transition
  | R_Published publish_outcome
  | R_Snapshot session_snapshot
  | R_Outbound "outbound_message list"
  | R_Disconnected cleanup_summary

text \<open>\<^verbatim>\<open>Result::map\<close> on the result of an operation.\<close>

definition map_op :: "('a \<Rightarrow> 'b) \<Rightarrow> (core_error + 'a) \<times> core \<Rightarrow> (core_error + 'b) \<times> core" where
  "map_op f rc = (map_sum id f (fst rc), snd rc)"

fun handle :: "clock_reading \<Rightarrow> command \<Rightarrow> command_result core_op" where
  "handle k C_TransportConnected c = map_op R_Connected (transport_connected c)"
| "handle k (C_Authenticate cid credentials) c = map_op R_Authenticated (authenticate cid credentials c)"
| "handle k (C_JoinSession cid session) c = map_op (\<lambda>_. R_Joined) (join_session cid session c)"
| "handle k (C_RequestSessionAdmission cid session idempotency) c =
     map_op R_Admission (request_session_admission_at cid session idempotency (ck_now k) c)"
| "handle k (C_JoinSessionWithAdmission cid session lease) c =
     map_op (\<lambda>_. R_Joined) (join_session_with_admission cid session lease c)"
| "handle k (C_LeaveSession cid session) c = map_op R_Left (leave_session (ck_release k) cid session c)"
| "handle k (C_Subscribe cid space) c = map_op (\<lambda>_. R_Subscribed) (subscribe cid space c)"
| "handle k (C_Unsubscribe cid space) c = map_op R_Unsubscribed (unsubscribe cid space c)"
| "handle k (C_SpawnEntity cid space epoch) c = map_op R_EntitySpawned (spawn_entity cid space epoch c)"
| "handle k (C_RemoveEntity cid session entity) c =
     map_op R_EntityRemoved (remove_entity cid session entity c)"
| "handle k (C_UpdateEntityPosition cid session entity pos) c =
     map_op (\<lambda>_. R_EntityPositionUpdated) (update_entity_position cid session entity pos c)"
| "handle k (C_TransitionEntity r) c = map_op R_EntityTransitioned (transition_entity r c)"
| "handle k (C_Publish r) c = map_op R_Published (publish_at (ck_release k) r (ck_now k) c)"
| "handle k (C_Snapshot cid session) c = (map_sum id R_Snapshot (core_snapshot c cid session), c)"
| "handle k (C_DrainOutbound cid) c = map_op R_Outbound (drain_outbound cid c)"
| "handle k (C_TransportLost cid) c = map_op R_Disconnected (transport_lost (ck_release k) cid c)"

section \<open>The harness\<close>

datatype harness_error = Harness_ZeroCapacity | Harness_Full

record worker_harness =
  wh_worker :: core
  wh_capacity :: usize
  wh_commands :: "command list"

definition wh_new :: "core \<Rightarrow> usize \<Rightarrow> harness_error + worker_harness" where
  "wh_new worker capacity =
     (if capacity = 0 then Inl Harness_ZeroCapacity
      else Inr \<lparr>wh_worker = worker, wh_capacity = capacity, wh_commands = []\<rparr>)"

definition wh_submit :: "command \<Rightarrow> worker_harness \<Rightarrow> harness_error + worker_harness" where
  "wh_submit command h =
     (if length (wh_commands h) = wh_capacity h then Inl Harness_Full
      else Inr (h\<lparr>wh_commands := wh_commands h @ [command]\<rparr>))"

definition wh_pop :: "worker_harness \<Rightarrow> command option \<times> worker_harness" where
  "wh_pop h = (case wh_commands h of
     [] \<Rightarrow> (None, h) | command # rest \<Rightarrow> (Some command, h\<lparr>wh_commands := rest\<rparr>))"

definition wh_step ::
  "clock_reading \<Rightarrow> worker_harness \<Rightarrow> (core_error + command_result) option \<times> worker_harness" where
  "wh_step k h = (case wh_pop h of
     (None, h') \<Rightarrow> (None, h')
   | (Some command, h') \<Rightarrow> (case handle k command (wh_worker h') of
       (result, worker) \<Rightarrow> (Some result, h'\<lparr>wh_worker := worker\<rparr>)))"

text \<open>\<^verbatim>\<open>run_pending\<close>: the \<open>n\<close>-th command handled reads \<open>ks n\<close>.\<close>

function wh_run_pending ::
  "(nat \<Rightarrow> clock_reading) \<Rightarrow> worker_harness \<Rightarrow> (core_error + command_result) list \<times> worker_harness" where
  "wh_run_pending ks h = (case wh_step (ks 0) h of
     (None, h') \<Rightarrow> ([], h')
   | (Some outcome, h') \<Rightarrow> (case wh_run_pending (\<lambda>n. ks (Suc n)) h' of
       (outcomes, h'') \<Rightarrow> (outcome # outcomes, h'')))"
  by pat_completeness auto
termination wh_run_pending
  by (relation "measure (\<lambda>(_, h). length (wh_commands h))")
    (auto simp: wh_step_def wh_pop_def split: option.splits list.splits prod.splits)

declare wh_run_pending.simps [simp del]

definition wh_pending_len :: "worker_harness \<Rightarrow> usize" where
  "wh_pending_len h = length (wh_commands h)"

definition wh_wf :: "worker_harness \<Rightarrow> bool" where
  "wh_wf h \<longleftrightarrow> length (wh_commands h) \<le> wh_capacity h"

text \<open>The command queue of the harness is a bounded FIFO that refuses when full.\<close>

interpretation wh: bounded_fifo wh_submit wh_pop wh_commands wh_capacity wh_wf
  by unfold_locales (auto simp: wh_submit_def wh_pop_def wh_wf_def split: list.splits)

definition wh_submit_all :: "command list \<Rightarrow> worker_harness \<Rightarrow> harness_error + worker_harness" where
  "wh_submit_all = wh.push_list"

text \<open>Handling a list of commands in order on a core.\<close>

fun handle_all ::
  "(nat \<Rightarrow> clock_reading) \<Rightarrow> command list \<Rightarrow> core \<Rightarrow> (core_error + command_result) list \<times> core" where
  "handle_all ks [] c = ([], c)"
| "handle_all ks (cmd # cmds) c =
     (case handle (ks 0) cmd c of (r, c') \<Rightarrow>
      case handle_all (\<lambda>n. ks (Suc n)) cmds c' of (rs, c'') \<Rightarrow> (r # rs, c''))"

lemma wh_run_pending_handle_all:
  "wh_run_pending ks h = (case handle_all ks (wh_commands h) (wh_worker h) of
     (outcomes, worker) \<Rightarrow> (outcomes, h\<lparr>wh_worker := worker, wh_commands := []\<rparr>))"
proof (induction "wh_commands h" arbitrary: ks h)
  case Nil
  then show ?case
    by (simp add: wh_run_pending.simps [of ks h] wh_step_def wh_pop_def)
next
  case (Cons cmd cmds)
  obtain r c' where r: "handle (ks 0) cmd (wh_worker h) = (r, c')" by force
  have "wh_step (ks 0) h = (Some r, h\<lparr>wh_commands := cmds, wh_worker := c'\<rparr>)"
    using Cons.hyps(2) [symmetric] r by (simp add: wh_step_def wh_pop_def)
  then show ?case
    using Cons.hyps(1) [of "h\<lparr>wh_commands := cmds, wh_worker := c'\<rparr>" "\<lambda>n. ks (Suc n)"]
      Cons.hyps(2) [symmetric] r
    by (simp add: wh_run_pending.simps [of ks h] split: prod.split)
qed

lemma wh_submit_all_error: "wh_submit_all cmds h = Inl e \<Longrightarrow> e = Harness_Full"
  unfolding wh_submit_all_def
  by (induction cmds arbitrary: h) (auto simp: and_then_eq_Inl wh_submit_def split: if_splits)

lemma wh_submit_all_worker:
  "wh_submit_all cmds h = Inr h' \<Longrightarrow> h' = h\<lparr>wh_commands := wh_commands h @ cmds\<rparr>"
  unfolding wh_submit_all_def
proof (induction cmds arbitrary: h)
  case (Cons cmd cmds)
  then obtain h1 where h1: "wh_submit cmd h = Inr h1" "wh.push_list cmds h1 = Inr h'"
    by (auto simp: result_ok)
  have "h1 = h\<lparr>wh_commands := wh_commands h @ [cmd]\<rparr>"
    using h1(1) by (auto simp: wh_submit_def split: if_splits)
  with Cons.IH [OF h1(2)] show ?case by simp
qed simp

lemma handle_all_length: "length (fst (handle_all ks cmds c)) = length cmds"
  by (induction cmds arbitrary: ks c) (auto split: prod.split simp: split_beta)

text \<open>
  The harness is a bounded FIFO in front of the worker: a batch of commands that fits is
  accepted, and running it handles each command exactly once, in submission order, leaving nothing
  pending and returning one outcome per command; a batch that does not fit is refused.
\<close>

theorem harness_runs_in_order:
  assumes new: "wh_new worker capacity = Inr h0"
  shows "if length cmds \<le> capacity
    then (\<exists>h. wh_submit_all cmds h0 = Inr h \<and> wh_pending_len h = length cmds
      \<and> wh_run_pending ks h = (fst (handle_all ks cmds worker),
           h0\<lparr>wh_worker := snd (handle_all ks cmds worker)\<rparr>)
      \<and> length (fst (wh_run_pending ks h)) = length cmds)
    else wh_submit_all cmds h0 = Inl Harness_Full"
proof -
  have h0: "h0 = \<lparr>wh_worker = worker, wh_capacity = capacity, wh_commands = []\<rparr>"
    using new by (auto simp: wh_new_def split: if_splits)
  then have wf: "wh_wf h0" by (simp add: wh_wf_def)
  show ?thesis
  proof (cases "length cmds \<le> capacity")
    case True
    with wh.push_list_ok [OF wf, of cmds] obtain h where h: "wh_submit_all cmds h0 = Inr h"
      unfolding wh_submit_all_def by (auto simp: h0)
    have "h = h0\<lparr>wh_commands := cmds\<rparr>" using wh_submit_all_worker [OF h] by (simp add: h0)
    then show ?thesis
      using True h by (simp add: wh_run_pending_handle_all h0 split_beta handle_all_length wh_pending_len_def)
  next
    case False
    have "\<nexists>h. wh_submit_all cmds h0 = Inr h"
      using wh.push_list_items [OF wf, of cmds] wh.wf_items False
      unfolding wh_submit_all_def by (fastforce simp: h0)
    then obtain e where "wh_submit_all cmds h0 = Inl e" by (cases "wh_submit_all cmds h0") auto
    with False show ?thesis using wh_submit_all_error by simp
  qed
qed

section \<open>Witnesses\<close>

definition demo_core :: core where
  "demo_core = \<lparr>co_authenticator = da_authenticate da_new, co_config = cc_default,
     co_next_connection_id = 1, co_next_entity_id = 1, co_connections = bt_new, co_sessions = bt_new,
     co_channels = bt_new, co_admissions = bt_new, co_pending_admissions = bt_new,
     co_admission_leases = bt_new, co_journal_outbox = jo_new (cc_journal_outbox_capacity cc_default)\<rparr>"

lemma demo_core_new: "core_new (da_authenticate da_new) cc_default = Inr demo_core"
  by (simp add: core_new_def demo_core_def cc_validate_def cc_default_def pr_validate_def pr_default_def
      qc_validate_def qc_default_def duration_from_secs_def nanos_per_sec_def eval)

lemma harness_runs_in_order_witness:
  "\<exists>h. wh_submit_all [C_TransportConnected, C_TransportConnected]
      \<lparr>wh_worker = demo_core, wh_capacity = 2, wh_commands = []\<rparr> = Inr h
    \<and> length (fst (wh_run_pending (\<lambda>_. \<lparr>ck_now = 0, ck_release = \<lambda>_ _ _. 0\<rparr>) h)) = 2"
proof -
  have "wh_new demo_core 2 = Inr \<lparr>wh_worker = demo_core, wh_capacity = 2, wh_commands = []\<rparr>"
    by (simp add: wh_new_def)
  from harness_runs_in_order [OF this, of "[C_TransportConnected, C_TransportConnected]"
      "\<lambda>_. \<lparr>ck_now = 0, ck_release = \<lambda>_ _ _. 0\<rparr>"]
  show ?thesis by auto
qed

end
