(* ===== verification/CoreRun.thy ===== *)
theory CoreRun
  imports CoreInvPublish Worker
begin

text \<open>
  Runs of a core: every state-changing call a transport or a server makes, as one action each,
  with the invariant of \<open>CoreInv\<close> kept by all of them.
\<close>

section \<open>Actions\<close>

text \<open>The commands of the worker, and the calls the server makes on the core directly.\<close>

datatype core_action =
    A_Command clock_reading command
  | A_RegisterChannel channel_definition
  | A_ProvisionSession session_key
  | A_ConfigureAdmission session_key admission_metadata queue_policy capacity_update
  | A_ApplyCapacity session_key capacity_update instant
  | A_InstallSpace session_key space_descriptor
  | A_AdvanceSpaceEpoch session_key space_id space_epoch
  | A_PopJournalRecord

fun core_step :: "core \<Rightarrow> core_action \<Rightarrow> core" where
  "core_step c (A_Command k cmd) = snd (handle k cmd c)"
| "core_step c (A_RegisterChannel ch) = snd (register_channel ch c)"
| "core_step c (A_ProvisionSession key) = snd (provision_session key c)"
| "core_step c (A_ConfigureAdmission key metadata policy capacity) =
     snd (configure_session_admission key metadata policy capacity c)"
| "core_step c (A_ApplyCapacity key update now) = snd (apply_session_capacity_at key update now c)"
| "core_step c (A_InstallSpace key d) = snd (install_space key d c)"
| "core_step c (A_AdvanceSpaceEpoch key sp epoch) = snd (advance_space_epoch key sp epoch c)"
| "core_step c A_PopJournalRecord = snd (pop_journal_record c)"

lemmas core_op_wf = transport_connected_wf authenticate_wf join_session_wf request_session_admission_wf
  join_session_with_admission_wf leave_session_wf subscribe_wf unsubscribe_wf spawn_entity_wf
  remove_entity_wf update_entity_position_wf transition_entity_wf publish_at_wf drain_outbound_wf
  transport_lost_wf register_channel_wf provision_session_wf configure_session_admission_wf
  apply_session_capacity_wf install_space_wf advance_space_epoch_wf pop_journal_record_wf

lemma handle_wf: "core_wf c \<Longrightarrow> core_wf (snd (handle k cmd c))"
  by (cases cmd) (simp_all add: map_op_def core_op_wf)

lemma core_step_wf: "core_wf c \<Longrightarrow> core_wf (core_step c a)"
  by (cases a) (simp_all add: handle_wf core_op_wf)

interpretation core_ts: transition_system core_step core_wf
  by unfold_locales (rule core_step_wf)

definition core_run :: "core \<Rightarrow> core_action list \<Rightarrow> core" where
  "core_run = foldl core_step"

text \<open>The cores a server can reach from a new one.\<close>

definition reachable_core :: "core \<Rightarrow> bool" where
  "reachable_core c \<longleftrightarrow> (\<exists>auth config c0 actions.
     config_ok config \<and> core_new auth config = Inr c0 \<and> c = core_run c0 actions)"

lemma reachable_wf: "reachable_core c \<Longrightarrow> core_wf c"
  unfolding reachable_core_def core_run_def using core_new_wf core_ts.run_inv by blast

lemma reachable_step: "reachable_core c \<Longrightarrow> reachable_core (core_step c a)"
proof -
  assume "reachable_core c"
  then obtain auth config c0 actions where
    "config_ok config" "core_new auth config = Inr c0" "c = core_run c0 actions"
    unfolding reachable_core_def by blast
  moreover have "core_step (core_run c0 actions) a = core_run c0 (actions @ [a])"
    by (simp add: core_run_def)
  ultimately show "reachable_core (core_step c a)" unfolding reachable_core_def by metis
qed

end
