(* ===== verification/CorePrune.thy ===== *)
theory CorePrune
  imports CoreInvPublish
begin

text \<open>
  What the cleanup paths take away and what they must leave: removing entities, detaching and
  losing connections only ever prune. A replay sequence goes only with its connection's
  membership, its space's epoch or its entity; a queued critical message goes only with its
  subscription or its scope.
\<close>

section \<open>Pruning\<close>

definition sequence_alive :: "session_state \<Rightarrow> sequence_key \<Rightarrow> bool" where
  "sequence_alive s k \<longleftrightarrow> bs_contains (sn_members s) (sqk_connection k)
     \<and> live_scope s (sqk_space k) (sqk_space_epoch k) (sqk_entity k)"

definition session_pruned :: "session_state \<Rightarrow> session_state \<Rightarrow> bool" where
  "session_pruned s s' \<longleftrightarrow>
     (\<forall>x. bs_contains (sn_members s') x \<longrightarrow> bs_contains (sn_members s) x)
   \<and> (\<forall>sp epoch e. live_scope s' sp epoch e \<longrightarrow> live_scope s sp epoch e)
   \<and> (\<forall>k v. bt_get (sn_sequences s) k = Some v \<longrightarrow> sequence_alive s' k \<longrightarrow> bt_get (sn_sequences s') k = Some v)"

definition connection_pruned :: "core \<Rightarrow> connection_state \<Rightarrow> connection_state \<Rightarrow> bool" where
  "connection_pruned c' cn cn' \<longleftrightarrow>
     cn_authenticated cn' = cn_authenticated cn
   \<and> (\<forall>k. bs_contains (cn_subscriptions cn') k \<longrightarrow> bs_contains (cn_subscriptions cn) k)
   \<and> (\<forall>m\<in>set (oq_critical (cn_outbound cn)). live_message c' m \<longrightarrow> entitled cn' m \<longrightarrow>
        m \<in> set (oq_critical (cn_outbound cn')))
   \<and> (oq_wf (cn_outbound cn) \<longrightarrow> oq_wf (cn_outbound cn')
        \<and> set (oq_view (cn_outbound cn')) \<subseteq> set (oq_view (cn_outbound cn)))"

definition core_pruned :: "core \<Rightarrow> core \<Rightarrow> bool" where
  "core_pruned c c' \<longleftrightarrow>
     (\<forall>key. rel_option session_pruned (bt_get (co_sessions c) key) (bt_get (co_sessions c') key))
   \<and> (\<forall>x cn'. bt_get (co_connections c') x = Some cn' \<longrightarrow>
        (\<exists>cn. bt_get (co_connections c) x = Some cn \<and> connection_pruned c' cn cn'))
   \<and> co_journal_outbox c' = co_journal_outbox c \<and> co_channels c' = co_channels c
   \<and> co_config c' = co_config c \<and> co_next_entity_id c' = co_next_entity_id c
   \<and> co_next_connection_id c' = co_next_connection_id c"

lemma session_pruned_refl: "session_pruned s s"
  by (simp add: session_pruned_def)

lemma session_pruned_trans: "session_pruned a b \<Longrightarrow> session_pruned b d \<Longrightarrow> session_pruned a d"
  unfolding session_pruned_def sequence_alive_def by blast

lemma core_pruned_live:
  assumes "core_pruned c c'" "live_message c' m"
  shows "live_message c m"
proof -
  have "rel_option session_pruned (bt_get (co_sessions c) (session_of m)) (bt_get (co_sessions c') (session_of m))"
    using assms(1) by (simp add: core_pruned_def)
  then show ?thesis
    using assms(2) by (cases rule: option.rel_cases) (auto simp: live_message_def session_pruned_def)
qed

lemma connection_pruned_refl: "connection_pruned c cn cn"
  by (simp add: connection_pruned_def)

lemma connection_pruned_trans:
  assumes "connection_pruned b cn cn'" "connection_pruned d cn' cn''" "core_pruned b d"
  shows "connection_pruned d cn cn''"
proof -
  have "entitled cn' m" if "entitled cn'' m" for m
    using that assms(2) unfolding entitled_def connection_pruned_def by metis
  moreover have "live_message b m" if "live_message d m" for m
    using assms(3) that by (rule core_pruned_live)
  ultimately show ?thesis
    using assms(1,2) unfolding connection_pruned_def by (auto 0 3)
qed

lemma core_pruned_refl: "core_pruned c c"
  by (simp add: core_pruned_def option.rel_refl session_pruned_refl connection_pruned_refl)

lemma core_pruned_trans:
  assumes ab: "core_pruned a b" and bd: "core_pruned b d"
  shows "core_pruned a d"
proof -
  have "rel_option session_pruned (bt_get (co_sessions a) key) (bt_get (co_sessions d) key)" for key
    using ab bd session_pruned_trans unfolding core_pruned_def
    by (auto simp: option_rel_Some1 option_rel_Some2 elim!: allE [where x = key] option.rel_cases)
  moreover have "\<exists>cn. bt_get (co_connections a) x = Some cn \<and> connection_pruned d cn cn''"
    if "bt_get (co_connections d) x = Some cn''" for x cn''
    using ab bd connection_pruned_trans [OF _ _ bd] that unfolding core_pruned_def by metis
  ultimately show ?thesis using ab bd unfolding core_pruned_def by simp
qed

section \<open>The cleanup paths\<close>

lemma removed_session_pruned:
  assumes "session_wf config nxt s"
  shows "session_pruned s (snd (removed_from_session key E S s))"
proof -
  note f = removed_from_session_fields [of key E S s]
  have live: "live_scope s sp epoch e \<and> scope_kept E S sp epoch e"
    if "live_scope (snd (removed_from_session key E S s)) sp epoch e" for sp epoch e
    using that by (cases e) (auto simp: live_scope_def current_space_def f scope_kept_def entity_removed_def
        split: if_splits option.splits)
  show ?thesis
    unfolding session_pruned_def sequence_alive_def f(1,7) bt_get_retain
    using live by (auto split: option.split)
qed

lemma purge_connection_pruned:
  assumes "\<And>m. P m \<Longrightarrow> entitled cn' m \<Longrightarrow> \<not> live_message c' m" "cn_authenticated cn' = cn_authenticated cn"
    "\<And>k. bs_contains (cn_subscriptions cn') k \<Longrightarrow> bs_contains (cn_subscriptions cn) k"
    "cn_outbound cn' = snd (oq_purge P (cn_outbound cn))"
  shows "connection_pruned c' cn cn'"
proof -
  have "oq_critical (cn_outbound cn') = filter (\<lambda>m. \<not> P m) (oq_critical (cn_outbound cn))"
    by (simp add: assms(4) oq_purge_def Let_def)
  moreover have "oq_wf (cn_outbound cn')" "set (oq_view (cn_outbound cn')) \<subseteq> set (oq_view (cn_outbound cn))"
    if "oq_wf (cn_outbound cn)"
    using oq_purge_wf [OF that, of P "fst (oq_purge P (cn_outbound cn))" "cn_outbound cn'"]
    by (auto simp: assms(4))
  ultimately show ?thesis using assms(1-3) by (auto simp: connection_pruned_def)
qed

lemma remove_entities_pruned:
  assumes wf: "core_wf c" and r: "remove_entities_and_anchored_spaces key start c = (summary, c')"
    and s: "bt_get (co_sessions c) key = Some s"
  shows "core_pruned c c'"
proof -
  obtain E S where close: "close_removed s start bt_new = (E, S)" by force
  note eff = remove_entities_effect [OF wf s close r] and ss = core_session [OF wf s]
  let ?s = "snd (removed_from_session key E S s)"
  have same: "co_journal_outbox c' = co_journal_outbox c" "co_channels c' = co_channels c"
    "co_config c' = co_config c" "co_next_entity_id c' = co_next_entity_id c"
    "co_next_connection_id c' = co_next_connection_id c"
    "co_sessions c' = bt_insert key ?s (co_sessions c)"
    by (subst eff(1), simp)+
  have "rel_option session_pruned (bt_get (co_sessions c) k) (bt_get (co_sessions c') k)" for k
    using s removed_session_pruned [OF ss(1), of key E S]
    by (auto simp: same(6) bt_get_insert option.rel_refl session_pruned_refl)
  moreover have "\<exists>cn. bt_get (co_connections c) x = Some cn \<and> connection_pruned c' cn cn'"
    if x: "bt_get (co_connections c') x = Some cn'" for x cn'
  proof -
    obtain cn where cn: "bt_get (co_connections c) x = Some cn"
      and cn': "cn' = removed_connection key E S (removed_owned E s x) cn"
      using x eff(2) by auto
    have "connection_pruned c' cn cn'"
    proof (rule purge_connection_pruned [where P = "message_removed key E S"])
      fix m
      assume "message_removed key E S m"
      then have k: "session_of m = key" "bs_contains S (om_space m) \<or> entity_removed E (om_entity m)"
        by (auto simp: message_removed_def message_of_session_iff)
      then show "\<not> live_message c' m"
        by (cases "om_entity m") (auto simp: live_message_def same(6) live_scope_def current_space_def
            removed_from_session_fields entity_removed_def split: if_splits option.splits)
    qed (auto simp: cn' removed_connection_def purge_connection_def)
    then show ?thesis using cn by blast
  qed
  ultimately show ?thesis by (simp add: core_pruned_def same)
qed

lemma detach_session_pruned: "session_pruned s (snd (detach_session_state cid summary s))"
  by (auto simp: session_pruned_def sequence_alive_def detach_session_fields live_scope_def current_space_def)

lemma detach_pruned:
  assumes wf: "core_wf c" and cn: "bt_get (co_connections c) cid = Some cn"
    and s: "bt_get (co_sessions c) key = Some s"
    and d: "detach_connection_from_session cid key c = (summary, c')"
  shows "core_pruned c c'"
proof -
  obtain summary0 c1 where r: "remove_entities_and_anchored_spaces key (owned_in_session c cid key) c = (summary0, c1)"
    by force
  have pr: "core_pruned c c1" by (rule remove_entities_pruned [OF wf r s])
  obtain E S where "co_sessions c1 = bt_insert key (snd (removed_from_session key E S s)) (co_sessions c)"
    and "\<And>x. bt_get (co_connections c1) x
      = map_option (removed_connection key E S (removed_owned E s x)) (bt_get (co_connections c) x)"
    using remove_entities_session [OF wf s r] by metis
  then obtain s1 cn1 where s1: "bt_get (co_sessions c1) key = Some s1" and cn1: "bt_get (co_connections c1) cid = Some cn1"
    using cn by simp
  obtain summary1 where c': "c' = c1\<lparr>co_sessions := bt_insert key (snd (detach_session_state cid summary0 s1)) (co_sessions c1),
      co_connections := bt_insert cid (snd (detach_connection_state key summary1 cn1)) (co_connections c1)\<rparr>"
    using detach_connection_eq [OF r s1 cn1] d by auto
  have "rel_option session_pruned (bt_get (co_sessions c1) k) (bt_get (co_sessions c') k)" for k
    using s1 detach_session_pruned by (auto simp: c' bt_get_insert option.rel_refl session_pruned_refl)
  moreover have "connection_pruned c' cn1 (snd (detach_connection_state key summary1 cn1))"
    by (rule purge_connection_pruned [where P = "message_of_session key"])
      (auto simp: detach_connection_state_def entitled_def message_of_session_iff split_beta)
  then have "\<exists>y. bt_get (co_connections c1) x = Some y \<and> connection_pruned c' y cn'"
    if "bt_get (co_connections c') x = Some cn'" for x cn'
    using that cn1 connection_pruned_refl by (auto simp: c' bt_get_insert split: if_splits)
  ultimately have "core_pruned c1 c'" by (simp add: core_pruned_def c')
  with pr show ?thesis by (rule core_pruned_trans)
qed

lemma core_pruned_frame:
  assumes "co_sessions c' = co_sessions c" "co_connections c' = co_connections c"
    "co_journal_outbox c' = co_journal_outbox c" "co_channels c' = co_channels c" "co_config c' = co_config c"
    "co_next_entity_id c' = co_next_entity_id c" "co_next_connection_id c' = co_next_connection_id c"
  shows "core_pruned c c'"
  using assms by (simp add: core_pruned_def option.rel_refl session_pruned_refl connection_pruned_refl)

lemma release_session_pruned: "core_pruned c (release_session_admission clock cid key reason c)"
  by (rule core_pruned_frame) (simp_all add: release_session_admission_def split: option.split)

lemma release_pending_pruned: "core_pruned c (release_pending_admission clock cid key c)"
  by (rule core_pruned_frame) (simp_all add: release_pending_admission_def split: option.split)

lemma depart_pruned:
  assumes wf: "core_wf c" and m: "conn_member c cid key"
    and d: "detach_connection_from_session cid key (release_session_admission clock cid key reason c) = (summary, c')"
  shows "core_pruned c c'"
proof -
  let ?c = "release_session_admission clock cid key reason c"
  obtain cn s where "bt_get (co_connections ?c) cid = Some cn" "bt_get (co_sessions ?c) key = Some s"
    using member_live [OF wf m] by auto
  from detach_pruned [OF release_session_admission_wf [OF wf] this d] release_session_pruned
  show ?thesis by (metis core_pruned_trans)
qed

lemma leave_sessions_pruned:
  assumes "core_wf c" "distinct keys" "\<And>k. k \<in> set keys \<Longrightarrow> conn_member c cid k"
    "leave_sessions clock cid keys summary c = (summary', c')"
  shows "core_pruned c c'"
  using assms
proof (induction keys arbitrary: summary c)
  case Nil
  then show ?case by (simp add: core_pruned_refl)
next
  case (Cons key keys)
  obtain s1 c1 where d: "detach_connection_from_session cid key
      (release_session_admission clock cid key Unexpected c) = (s1, c1)" by force
  have m: "conn_member c cid key" using Cons.prems(3) by simp
  note one = depart_wf [OF Cons.prems(1) m d]
  have "core_pruned c1 c'"
    by (rule Cons.IH [OF one(1), where summary = "cs_add summary s1"]) (use Cons.prems d one(2) in auto)
  with depart_pruned [OF Cons.prems(1) m d] show ?case by (rule core_pruned_trans)
qed

lemma release_pending_all_pruned:
  "core_pruned c (foldl (\<lambda>c key. release_pending_admission clock cid key c) c keys)"
proof (induction keys arbitrary: c)
  case (Cons key keys)
  from core_pruned_trans [OF release_pending_pruned Cons.IH] show ?case by simp
qed (simp add: core_pruned_refl)

lemma drop_connection_pruned: "core_pruned c (c\<lparr>co_connections := bt_remove cid (co_connections c)\<rparr>)"
  by (auto simp: core_pruned_def option.rel_refl session_pruned_refl connection_pruned_refl split: if_splits)

lemma transport_lost_pruned:
  assumes wf: "core_wf c"
  shows "core_pruned c (snd (transport_lost clock cid c))"
  unfolding transport_lost_def
proof (rule checked_preserves [where P = "core_pruned c", OF core_pruned_refl],
    rule checked_preserves [where P = "core_pruned c", OF core_pruned_refl], goal_cases)
  case (1 u cn)
  then have cn: "bt_get (co_connections c) cid = Some cn" by simp
  obtain summary c1 where l: "leave_sessions clock cid (bt_keys (cn_memberships cn)) cs_default c = (summary, c1)"
    by force
  have keys: "conn_member c cid k" if "k \<in> set (bt_keys (cn_memberships cn))" for k
    using that cn by (simp add: conn_member_def bs_contains_keys)
  let ?c2 = "foldl (\<lambda>c key. release_pending_admission clock cid key c) c1 (pending_sessions_of cid c1)"
  have two: "core_pruned c ?c2"
    using leave_sessions_pruned [OF wf bt_keys_distinct keys l] release_pending_all_pruned
    by (rule core_pruned_trans)
  have "core_pruned c (snd (checked (get_connection ?c2 cid) (\<lambda>state c. (Inr (summary\<lparr>cs_queued_messages_discarded :=
       cs_queued_messages_discarded summary + oq_len (cn_outbound state)\<rparr>),
       c\<lparr>co_connections := bt_remove cid (co_connections c)\<rparr>)) ?c2))"
    using two core_pruned_trans [OF two drop_connection_pruned]
    by (intro checked_preserves [where P = "core_pruned c"]) simp_all
  then show ?case using l by (simp add: Let_def)
qed

lemma disconnect_slow_pruned:
  assumes "core_wf c"
  shows "core_pruned c (snd (disconnect_slow clock cids outcome c))"
  using assms
proof (induction cids arbitrary: outcome c)
  case (Cons x cids)
  obtain r c1 where t: "transport_lost clock x c = (r, c1)" by force
  have one: "core_wf c1" "core_pruned c c1"
    using transport_lost_wf [OF Cons.prems, of clock x] transport_lost_pruned [OF Cons.prems, of clock x] t by simp_all
  show ?case
    using Cons.IH [OF one(1)] Cons.IH [OF Cons.prems] core_pruned_trans [OF one(2)] one(2) t
    by (auto split: sum.split)
qed (simp add: core_pruned_refl)

end
