(* ===== verification/CoreEvolve.thy ===== *)
theory CoreEvolve
  imports CorePrune CoreRun
begin

text \<open>
  What no action of a run ever undoes: the configuration, the id counters, the sessions that
  exist, and the replay sequence recorded for a key while its connection stays a member and its
  scope stays live.
\<close>

section \<open>Evolution\<close>

definition sequences_kept :: "session_state \<Rightarrow> session_state \<Rightarrow> bool" where
  "sequences_kept s s' \<longleftrightarrow> (\<forall>k v. bt_get (sn_sequences s) k = Some v \<longrightarrow> sequence_alive s' k \<longrightarrow>
     (\<exists>v'. bt_get (sn_sequences s') k = Some v' \<and> v \<le> v'))"

definition core_evolves :: "core \<Rightarrow> core \<Rightarrow> bool" where
  "core_evolves c c' \<longleftrightarrow> co_config c' = co_config c
     \<and> co_next_entity_id c \<le> co_next_entity_id c' \<and> co_next_connection_id c \<le> co_next_connection_id c'
     \<and> (\<forall>key s. bt_get (co_sessions c) key = Some s \<longrightarrow>
          (\<exists>s'. bt_get (co_sessions c') key = Some s' \<and> sequences_kept s s'))"

lemma sequences_kept_same: "sn_sequences s' = sn_sequences s \<Longrightarrow> sequences_kept s s'"
  by (auto simp: sequences_kept_def)

lemma evolves_frame:
  assumes "co_config c' = co_config c" "co_next_entity_id c \<le> co_next_entity_id c'"
    "co_next_connection_id c \<le> co_next_connection_id c'" "co_sessions c' = co_sessions c"
  shows "core_evolves c c'"
  using assms by (auto simp: core_evolves_def intro: sequences_kept_same)

lemma evolves_refl [simp]: "core_evolves c c"
  by (rule evolves_frame) simp_all

lemmas evolves_checked = checked_preserves [where P = "core_evolves c" and c = c, OF evolves_refl] for c

lemma evolves_pruned:
  assumes "core_pruned c c'"
  shows "core_evolves c c'"
proof -
  have "\<exists>s'. bt_get (co_sessions c') key = Some s' \<and> sequences_kept s s'"
    if s: "bt_get (co_sessions c) key = Some s" for key s
  proof -
    have "rel_option session_pruned (bt_get (co_sessions c) key) (bt_get (co_sessions c') key)"
      using assms by (simp add: core_pruned_def)
    then obtain s' where "bt_get (co_sessions c') key = Some s'" "session_pruned s s'"
      using s by (auto simp: option_rel_Some1)
    then show ?thesis unfolding session_pruned_def sequences_kept_def by blast
  qed
  then show ?thesis using assms by (auto simp: core_evolves_def core_pruned_def)
qed

text \<open>Changing one session without touching its sequences, or only dropping dead ones.\<close>

lemma evolves_session:
  assumes "co_config c' = co_config c" "co_next_entity_id c \<le> co_next_entity_id c'"
    "co_next_connection_id c \<le> co_next_connection_id c'" "co_sessions c' = bt_modify key f (co_sessions c)"
    "\<And>s. bt_get (co_sessions c) key = Some s \<Longrightarrow> sequences_kept s (f s)"
  shows "core_evolves c c'"
  using assms(1-3,5) unfolding core_evolves_def assms(4) bt_get_modify
  by (auto intro: sequences_kept_same)

lemma evolves_maps [simp]:
  "core_evolves c (map_connection cid f c)"
  "(\<And>s. sn_sequences (g s) = sn_sequences s) \<Longrightarrow> core_evolves c (map_session key g c)"
  "(\<And>s. sn_sequences (g s) = sn_sequences s) \<Longrightarrow>
     core_evolves c (map_session key g (map_connection cid f c))"
  "(\<And>s. sn_sequences (g s) = sn_sequences s) \<Longrightarrow> co_next_entity_id c \<le> n \<Longrightarrow>
     core_evolves c (map_connection cid f (map_session key g (c\<lparr>co_next_entity_id := n\<rparr>)))"
proof -
  show "core_evolves c (map_connection cid f c)" by (rule evolves_frame) simp_all
qed (auto intro!: evolves_session [where key = key] sequences_kept_same)

lemma evolves_ops [simp]:
  "core_evolves c (snd (register_channel ch c))"
  "core_evolves c (snd (configure_session_admission key metadata policy capacity c))"
  "core_evolves c (snd (authenticate cid credentials c))"
  "core_evolves c (snd (drain_outbound cid c))"
  "core_evolves c (snd (pop_journal_record c))"
  unfolding register_channel_def configure_session_admission_def authenticate_def drain_outbound_def
    pop_journal_record_def
  by (intro evolves_checked evolves_frame; simp split: prod.split)+

lemma apply_capacity_evolves: "core_evolves c (snd (apply_session_capacity_at key update now c))"
  unfolding apply_session_capacity_at_def
  by (rule evolves_checked) (auto intro!: evolves_frame split: option.split prod.split)

lemma request_admission_evolves: "core_evolves c (snd (request_session_admission_at cid key idem now c))"
  unfolding request_session_admission_at_def
  by (rule evolves_checked) (auto intro!: evolves_frame simp: Let_def split: prod.split join_decision.split)

lemma transport_connected_evolves: "core_evolves c (snd (transport_connected c))"
  by (cases "u64_checked_succ (co_next_connection_id c)"; cases "oq_new (cc_outbound_queue (co_config c))")
    (auto simp: transport_connected_def Let_def intro!: evolves_frame dest: u64_checked_succ_less)

lemma provision_evolves: "core_evolves c (snd (provision_session key c))"
  unfolding provision_session_def
proof (rule evolves_checked, goal_cases)
  case (1 x)
  then have "bt_get (co_sessions c) key = None" by (auto simp: result_ok bt_contains_key_def split: if_splits)
  then show ?case by (auto simp: core_evolves_def bt_get_insert intro: sequences_kept_same)
qed

lemma join_unchecked_evolves: "core_evolves c (snd (join_session_unchecked_admission cid key c))"
  unfolding join_session_unchecked_admission_def
  by (rule evolves_checked) simp

lemma join_evolves: "core_evolves c (snd (join_session cid key c))"
  by (simp add: join_session_def join_unchecked_evolves evolves_refl)

lemma evolves_update:
  assumes "core_evolves c c1" "co_config c' = co_config c1" "co_next_entity_id c' = co_next_entity_id c1"
    "co_next_connection_id c' = co_next_connection_id c1" "co_sessions c' = co_sessions c1"
  shows "core_evolves c c'"
  using assms by (simp add: core_evolves_def)

lemma join_with_admission_evolves: "core_evolves c (snd (join_session_with_admission cid key lease c))"
proof -
  have "core_evolves c (snd (case join_session_unchecked_admission cid key c of
                 (Inl e, c1) \<Rightarrow> (Inl e, c1)
               | (Inr _, c1) \<Rightarrow> (Inr (),
                   c1\<lparr>co_pending_admissions := bt_remove (cid, key) (co_pending_admissions c1),
                      co_admission_leases := bt_insert (cid, key) lease (co_admission_leases c1)\<rparr>)))"
  proof -
    obtain r c1 where j: "join_session_unchecked_admission cid key c = (r, c1)" by force
    have "core_evolves c c1" using join_unchecked_evolves [of c cid key] j by simp
    then show ?thesis by (cases r) (auto simp: j intro: evolves_update)
  qed
  then show ?thesis
    unfolding join_session_with_admission_def
    by (intro evolves_checked) (auto simp: evolves_refl split: option.split intro!: evolves_checked)
qed

lemma subscribe_evolves: "core_evolves c (snd (subscribe cid k c))"
  unfolding subscribe_def
proof (rule evolves_checked, goal_cases)
  case (1 cn)
  show ?case
    by (cases "bs_contains (cn_subscriptions cn) k")
      (simp_all add: Let_def, intro evolves_checked checked_preserves [where P = "core_evolves c"], simp_all)
qed

lemma unsubscribe_evolves: "core_evolves c (snd (unsubscribe cid k c))"
  unfolding unsubscribe_def by (rule evolves_checked) (simp add: split_beta)

lemma spawn_evolves: "core_evolves c (snd (spawn_entity cid k epoch c))"
proof -
  have "co_next_entity_id c \<le> n" if "u64_checked_succ (co_next_entity_id c) = Some n" for n
    using u64_checked_succ_less [OF that] by simp
  then show ?thesis
    unfolding spawn_entity_def Let_def by (intro evolves_checked) simp
qed

lemma update_position_evolves: "core_evolves c (snd (update_entity_position cid key e pos c))"
  unfolding update_entity_position_def by (rule evolves_checked) simp

lemma install_space_evolves: "core_evolves c (snd (install_space key d c))"
  unfolding install_space_def by (rule evolves_checked) simp

section \<open>Cleanup and publishing\<close>

lemma remove_entity_evolves:
  assumes wf: "core_wf c"
  shows "core_evolves c (snd (remove_entity cid key e c))"
  unfolding remove_entity_def
proof (rule evolves_checked, goal_cases)
  case (1 u)
  then obtain s where s: "bt_get (co_sessions c) key = Some s"
    by (auto simp: and_then_eq_Inr split: option.splits)
  obtain summary c' where r: "remove_entities_and_anchored_spaces key (bs_of_list [e]) c = (summary, c')" by force
  from evolves_pruned [OF remove_entities_pruned [OF wf r s]] r show ?case by simp
qed

lemma leave_session_evolves:
  assumes wf: "core_wf c"
  shows "core_evolves c (snd (leave_session clock cid key c))"
  unfolding leave_session_def
proof (rule evolves_checked, goal_cases)
  case (1 u)
  then have m: "conn_member c cid key" by (auto simp: and_then_eq_Inr dest: require_membership_member)
  obtain summary c' where d: "detach_connection_from_session cid key
      (release_session_admission clock cid key Intentional c) = (summary, c')" by force
  from evolves_pruned [OF depart_pruned [OF wf m d]] d show ?case by simp
qed

text \<open>Steps after a pruning that revive no recorded key keep the sequences.\<close>

lemma evolves_after_pruned:
  assumes pr: "core_pruned c c1" and key: "bt_get (co_sessions c1) key = Some s1"
    and kept: "sequences_kept s1 s'"
    and alive: "\<And>t k v. bt_get (co_sessions c) key = Some t \<Longrightarrow> bt_get (sn_sequences t) k = Some v
      \<Longrightarrow> sequence_alive s' k \<Longrightarrow> sequence_alive s1 k"
    and c': "co_sessions c' = bt_insert key s' (co_sessions c1)" "co_config c' = co_config c1"
      "co_next_entity_id c' = co_next_entity_id c1" "co_next_connection_id c' = co_next_connection_id c1"
  shows "core_evolves c c'"
proof -
  have "\<exists>t'. bt_get (co_sessions c') k = Some t' \<and> sequences_kept t t'"
    if t: "bt_get (co_sessions c) k = Some t" for k t
  proof -
    have "rel_option session_pruned (bt_get (co_sessions c) k) (bt_get (co_sessions c1) k)"
      using pr by (simp add: core_pruned_def)
    then obtain t1 where t1: "bt_get (co_sessions c1) k = Some t1" "session_pruned t t1"
      using t by (auto simp: option_rel_Some1)
    show ?thesis
    proof (cases "k = key")
      case True
      then have "sequences_kept t s'"
        using t t1 key kept alive unfolding session_pruned_def sequences_kept_def by fastforce
      then show ?thesis using True by (simp add: c')
    next
      case False
      then show ?thesis
        using t1 by (auto simp: c' bt_get_insert session_pruned_def sequences_kept_def)
    qed
  qed
  then show ?thesis using pr by (auto simp: core_evolves_def core_pruned_def c')
qed

lemma evolves_then_pruned:
  assumes ev: "core_evolves c c1" and pr: "core_pruned c1 c'"
  shows "core_evolves c c'"
proof -
  have "\<exists>t'. bt_get (co_sessions c') k = Some t' \<and> sequences_kept t t'"
    if t: "bt_get (co_sessions c) k = Some t" for k t
  proof -
    obtain t1 where t1: "bt_get (co_sessions c1) k = Some t1" "sequences_kept t t1"
      using ev t unfolding core_evolves_def by blast
    have "rel_option session_pruned (bt_get (co_sessions c1) k) (bt_get (co_sessions c') k)"
      using pr by (simp add: core_pruned_def)
    then obtain t' where "bt_get (co_sessions c') k = Some t'" "session_pruned t1 t'"
      using t1(1) by (auto simp: option_rel_Some1)
    then show ?thesis
      using t1(2) unfolding session_pruned_def sequences_kept_def sequence_alive_def by metis
  qed
  then show ?thesis using ev pr by (auto simp: core_evolves_def core_pruned_def)
qed

lemma recorded_current:
  assumes "core_wf c" "bt_get (co_sessions c) key = Some s" "bt_get (sn_sequences s) k = Some v"
  shows "sequence_alive s k"
  using session_wfD(5) [OF core_session(1) [OF assms(1,2)]] core_session(2) [OF assms(1,2)] assms(3)
  unfolding sequence_alive_def keys_wf_def belongs_wf_def by blast

lemma advance_evolves:
  assumes wf: "core_wf c"
  shows "core_evolves c (snd (advance_space_epoch key sp proposed c))"
  unfolding advance_space_epoch_def
proof (rule evolves_checked, goal_cases)
  case (1 entities)
  let ?P = "\<lambda>m. message_of_session key m \<and> om_space m = sp"
  from 1 obtain s0 d0 where s0: "bt_get (co_sessions c) key = Some s0"
    and d0: "bt_get (sn_space_map s0) sp = Some d0" "sd_epoch d0 < proposed"
    by (auto simp: and_then_eq_Inr split: if_splits)
  obtain summary c1 where r: "remove_entities_and_anchored_spaces key entities c = (summary, c1)" by force
  have pr: "core_pruned c c1" by (rule remove_entities_pruned [OF wf r s0])
  obtain E S where "co_sessions c1 = bt_insert key (snd (removed_from_session key E S s0)) (co_sessions c)"
    using remove_entities_session [OF wf s0 r] by metis
  then obtain s1 where s1: "bt_get (co_sessions c1) key = Some s1" "s1 = snd (removed_from_session key E S s0)"
    by simp
  let ?c = "c1\<lparr>co_connections := bt_map (\<lambda>_. purge_connection ?P) (co_connections c1)\<rparr>"
  let ?s = "advance_session_epoch sp proposed s1"
  have fresh: "\<not> (sqk_space k = sp \<and> sequence_alive ?s k)" if "bt_get (sn_sequences s0) k = Some v" for k v
    using recorded_current [OF wf s0 that] d0
    by (auto simp: sequence_alive_def live_scope_def current_space_def advance_session_fields)
  have rec: "bt_get (sn_sequences s0) k = Some v" if "bt_get (sn_sequences s1) k = Some v" for k v
    using that by (auto simp: s1(2) removed_from_session_fields split: option.splits if_splits)
  have "core_evolves c (map_session key (advance_session_epoch sp proposed) ?c)"
  proof (rule evolves_after_pruned [OF pr s1(1), where s' = ?s])
    show "sequences_kept s1 ?s"
      using fresh rec by (auto simp: sequences_kept_def advance_session_fields)
    show "sequence_alive s1 k" if "bt_get (co_sessions c) key = Some t" "bt_get (sn_sequences t) k = Some v"
      "sequence_alive ?s k" for t k v
    proof -
      have "sqk_space k \<noteq> sp" using that s0 fresh [of k v] by auto
      then show ?thesis
        using that(3) by (auto simp: sequence_alive_def live_scope_def current_space_def advance_session_fields)
    qed
  qed (simp_all add: bt_modify_insert [OF s1(1)])
  moreover have "core_evolves c ?c"
    by (rule evolves_update [OF evolves_pruned [OF pr]]) simp_all
  ultimately show ?case
    using r by (auto simp: purge_all_connections_def intro!: checked_preserves [where P = "core_evolves c"])
qed

lemma transition_evolves:
  assumes wf: "core_wf c"
  shows "core_evolves c (snd (transition_entity r c))"
  unfolding transition_entity_def
proof (rule evolves_checked, goal_cases)
  case (1 u)
  let ?key = "tq_session r"
  from 1 obtain s e dd where s: "bt_get (co_sessions c) ?key = Some s"
    and e: "bt_get (sn_entity_map s) (tq_entity r) = Some e"
    and dst: "bt_get (sn_space_map s) (tq_destination_space r) = Some dd" "sd_epoch dd = tq_destination_epoch r"
    by (auto simp: transition_checks_def Let_def and_then_eq_Inr)
  note f = transition_session_fields [of r s]
  have "sequences_kept s (transition_session r s)"
    if moved: "\<not> (tq_source_space r = tq_destination_space r \<and> tq_source_epoch r = tq_destination_epoch r)"
    unfolding sequences_kept_def
  proof (intro allI impI)
    fix k v
    assume k: "bt_get (sn_sequences s) k = Some v" and alive: "sequence_alive (transition_session r s) k"
    have "keeps_key r (sqk_space k) (sqk_space_epoch k) (sqk_entity k)"
      using alive moved dst e by (auto simp: keeps_key_def sequence_alive_def live_scope_def current_space_def f)
    then show "\<exists>v'. bt_get (sn_sequences (transition_session r s)) k = Some v' \<and> v \<le> v'"
      using k by (simp add: f)
  qed
  then show ?case
    using s by (auto simp: purge_all_connections_def intro!: evolves_session [where key = ?key])
qed

lemma publish_evolves:
  assumes wf: "core_wf c"
  shows "core_evolves c (snd (publish_at clock r now c))"
  unfolding publish_at_def
proof (rule evolves_checked, goal_cases)
  case (1 cn)
  then have cn: "bt_get (co_connections c) (pq_connection r) = Some cn" by (auto simp: and_then_eq_Inr)
  obtain admitted limiter where l: "rl_admit (cc_publish_rate_limit (co_config c)) now (cn_rate_limiter cn) = (admitted, limiter)"
    by force
  let ?c = "map_connection (pq_connection r) (\<lambda>cn. cn\<lparr>cn_rate_limiter := limiter\<rparr>) c"
  have "map_connection (pq_connection r) (\<lambda>cn. cn\<lparr>cn_rate_limiter :=
      snd (rl_admit (cc_publish_rate_limit (co_config c)) now (cn_rate_limiter cn))\<rparr>) c = ?c"
    using l by (simp add: map_connection_insert [OF cn])
  then have wf1: "core_wf ?c" using limited_wf [OF wf cn, of now] by simp
  have "core_evolves c (snd (commit_publish clock (pq_session r) messages planned ?c))"
    if auth: "authorize_publish ?c r = Inr (messages, planned)" for messages planned
  proof -
    obtain s j outcome disc c3 where s: "bt_get (co_sessions ?c) (pq_session r) = Some s"
      and f: "fan_out (committed_core (pq_session r) messages planned s j ?c) bt_new c3 disc"
      and d: "disconnect_slow clock (bt_keys disc) outcome c3
        = commit_publish clock (pq_session r) messages planned ?c"
      using commit_publish_ok [OF wf1 authorize_publish_ok [OF auth], of clock] by metis
    have c3: "core_wf c3" "queues_grow (committed_core (pq_session r) messages planned s j ?c) c3"
      using f by (simp_all add: fan_out_def)
    have eq: "c3 = committed_core (pq_session r) messages planned s j ?c\<lparr>co_connections := co_connections c3\<rparr>"
      using c3(2) unfolding queues_grow_def by blast
    have "sequences_kept s (commit_session planned messages s)"
      using authorize_publish_newer [OF auth s]
      by (auto simp: sequences_kept_def commit_session_alt store_all_fields split: option.split) (metis order.strict_implies_order)
    then have "core_evolves c c3"
      using s by (subst eq) (auto simp: core_evolves_def committed_core_def bt_get_insert intro: sequences_kept_same)
    from evolves_then_pruned [OF this disconnect_slow_pruned [OF c3(1)]] d show ?thesis by metis
  qed
  then show ?case
    using l by (auto simp: Let_def and_then_eq_Inr intro!: checked_preserves [where P = "core_evolves c"])
qed

section \<open>Every action\<close>

lemma handle_evolves: "core_wf c \<Longrightarrow> core_evolves c (snd (handle k cmd c))"
  by (cases cmd) (simp_all add: map_op_def transport_connected_evolves join_evolves request_admission_evolves
      join_with_admission_evolves leave_session_evolves subscribe_evolves unsubscribe_evolves spawn_evolves
      remove_entity_evolves update_position_evolves transition_evolves publish_evolves
      evolves_pruned [OF transport_lost_pruned])

lemma core_step_evolves: "core_wf c \<Longrightarrow> core_evolves c (core_step c a)"
  by (cases a) (simp_all add: handle_evolves provision_evolves apply_capacity_evolves install_space_evolves
      advance_evolves)

text \<open>Over a run the configuration stays and the id counters only grow.\<close>

lemma core_run_counters:
  assumes "core_wf c"
  shows "co_config (core_run c actions) = co_config c"
    "co_next_entity_id c \<le> co_next_entity_id (core_run c actions)"
    "co_next_connection_id c \<le> co_next_connection_id (core_run c actions)"
proof -
  show "co_next_entity_id c \<le> co_next_entity_id (core_run c actions)"
    "co_next_connection_id c \<le> co_next_connection_id (core_run c actions)"
    unfolding core_run_def
    by (rule core_ts.run_mono [OF assms]; use core_step_evolves in \<open>simp add: core_evolves_def\<close>)+
  show "co_config (core_run c actions) = co_config c"
    using assms unfolding core_run_def
  proof (induction actions arbitrary: c)
    case (Cons a actions)
    then show ?case using core_step_evolves [OF Cons.prems, of a] core_step_wf [OF Cons.prems, of a]
      by (simp add: core_evolves_def)
  qed simp
qed

end
