(* ===== verification/CoreDemo.thy ===== *)
theory CoreDemo
  imports CoreRun
begin

text \<open>
  A small concrete run: one session with one space, two connections of the same principal, an
  entity of the first and a publish about it that the second receives. The witnesses of the
  core's properties apply them here.
\<close>

definition demo_key :: session_key where
  "demo_key = SessionKey 1 1"

definition demo_space_key :: space_key where
  "demo_space_key = SpaceKey demo_key 1"

definition demo_principal :: authenticated_principal where
  "demo_principal = \<lparr>ap_principal_id = 7, ap_grants =
     grant_namespace 1 Grant_ReadWrite (grant_session demo_key Grant_ReadWrite (grant_space demo_space_key Grant_ReadWrite
       (grant_channel (ChannelScope demo_key 1) Grant_ReadWrite grants_new)))\<rparr>"

definition demo_authenticator :: dev_authenticator where
  "demo_authenticator = da_new\<lparr>da_identities := bt_insert ''token'' demo_principal bt_new\<rparr>"

definition demo_start :: core where
  "demo_start = demo_core\<lparr>co_authenticator := da_authenticate demo_authenticator\<rparr>"

definition demo_clock :: clock_reading where
  "demo_clock = \<lparr>ck_now = 0, ck_release = \<lambda>_ _ _. 0\<rparr>"

definition demo_channel :: channel_definition where
  "demo_channel = channel_relay_owned 1 ReliableOrdered Stateful 16"

definition demo_descriptor :: space_descriptor where
  "demo_descriptor = \<lparr>sd_id = 1, sd_local_frame = CF_Logical, sd_parent = None, sd_epoch = 1,
     sd_routing = BroadcastAll\<rparr>"

definition demo_request :: publish_request where
  "demo_request = \<lparr>pq_connection = 1, pq_session = demo_key, pq_space = 1, pq_space_epoch = 1,
     pq_entity = Some 1, pq_channel = 1, pq_sequence = 5, pq_delivery = ReliableOrdered,
     pq_persistence = Stateful, pq_coalesce_key = None, pq_payload = [1, 2]\<rparr>"

definition demo_setup :: "core_action list" where
  "demo_setup = [A_RegisterChannel demo_channel, A_ProvisionSession demo_key,
     A_InstallSpace demo_key demo_descriptor,
     A_Command demo_clock C_TransportConnected, A_Command demo_clock C_TransportConnected,
     A_Command demo_clock (C_Authenticate 1 \<lparr>cr_token = ''token''\<rparr>),
     A_Command demo_clock (C_Authenticate 2 \<lparr>cr_token = ''token''\<rparr>),
     A_Command demo_clock (C_JoinSession 1 demo_key), A_Command demo_clock (C_JoinSession 2 demo_key),
     A_Command demo_clock (C_Subscribe 1 demo_space_key), A_Command demo_clock (C_Subscribe 2 demo_space_key),
     A_Command demo_clock (C_SpawnEntity 1 demo_space_key 1)]"

text \<open>
  The session and the connections on the way, each stage in full: \<open>members\<close> and \<open>subs\<close> in
  ascending order, \<open>conns\<close> likewise.
\<close>

definition demo_entity :: entity_record where
  "demo_entity = \<lparr>er_id = 1, er_owner_connection = 1, er_owner_principal = 7,
     er_space = 1, er_space_epoch = 1, er_position = None\<rparr>"

definition demo_session ::
  "connection_id btset \<Rightarrow> connection_id btset \<Rightarrow> (entity_id, entity_record) btmap \<Rightarrow> session_state" where
  "demo_session members subs entities = session_new\<lparr>sn_members := members,
     sn_space_map := bt_insert 1 demo_descriptor bt_new,
     sn_subscribers := bt_insert 1 subs bt_new, sn_entity_map := entities\<rparr>"

definition demo_queue0 :: outbound_queue where
  "demo_queue0 = \<lparr>oq_config = qc_default, oq_critical = [], oq_latest_order = [], oq_latest = bt_new,
     oq_best_effort = [], oq_critical_capacity_exhausted = False\<rparr>"

definition demo_connection ::
  "authenticated_principal option \<Rightarrow> session_key btset \<Rightarrow> space_key btset \<Rightarrow> usize \<Rightarrow> connection_state" where
  "demo_connection p memberships subscriptions owned = \<lparr>cn_authenticated = p,
     cn_memberships = memberships, cn_subscriptions = subscriptions,
     cn_owned_entities = owned, cn_rate_limiter = rl_default, cn_outbound = demo_queue0\<rparr>"

definition demo_stage :: "connection_id \<Rightarrow> entity_id \<Rightarrow> (connection_id, connection_state) btmap \<Rightarrow> session_state \<Rightarrow> core" where
  "demo_stage nc ne conns s = demo_start\<lparr>co_next_connection_id := nc, co_next_entity_id := ne,
     co_connections := conns, co_sessions := bt_insert demo_key s bt_new,
     co_channels := bt_insert 1 demo_channel bt_new\<rparr>"

definition demo_ready :: core where
  "demo_ready = demo_stage 3 2
     (bt_insert 1 (demo_connection (Some demo_principal) (bs_insert demo_key bt_new) (bs_insert demo_space_key bt_new) 1)
       (bt_insert 2 (demo_connection (Some demo_principal) (bs_insert demo_key bt_new) (bs_insert demo_space_key bt_new) 0)
          bt_new))
     (demo_session (bs_insert 1 (bs_insert 2 bt_new)) (bs_insert 1 (bs_insert 2 bt_new))
        (bt_insert 1 demo_entity bt_new))"

section \<open>Evaluating map terms\<close>

text \<open>Ground maps are kept as insertions in descending key order.\<close>

lemma bt_insert_overwrite: "bt_insert k v (bt_insert k w m) = bt_insert k v m"
  by (rule bt_eqI) (simp add: bt_get_insert)

lemma bt_insert_order: "k2 < k1 \<Longrightarrow> bt_insert k1 v (bt_insert k2 w m) = bt_insert k2 w (bt_insert k1 v m)"
  by (rule bt_eqI) (auto simp: bt_get_insert)

lemma bt_ground:
  "bt_modify k f bt_new = bt_new"
  "bt_modify k f (bt_insert k' v m) = (if k = k' then bt_insert k (f v) m else bt_insert k' v (bt_modify k f m))"
  "bt_remove k bt_new = bt_new"
  "bt_remove k (bt_insert k' v m) = (if k = k' then bt_remove k m else bt_insert k' v (bt_remove k m))"
  "bt_map g bt_new = bt_new"
  "bt_map g (bt_insert k' v m) = bt_insert k' (g k' v) (bt_map g m)"
  by (auto intro!: bt_eqI simp: bt_get_modify bt_get_insert)

lemmas ground_maps = bt_insert_overwrite bt_insert_order bt_ground bs_insert_def bs_remove_def

lemmas demo_defs = demo_key_def demo_space_key_def demo_principal_def demo_authenticator_def demo_start_def
  demo_clock_def demo_channel_def demo_descriptor_def demo_stage_def demo_entity_def demo_queue0_def demo_session_def demo_connection_def demo_core_def

lemmas core_op_defs = register_channel_def provision_session_def install_space_def transport_connected_def
  authenticate_def join_session_def join_session_unchecked_admission_def subscribe_def spawn_entity_def
  spawn_entity_checks_def map_op_def map_session_def map_connection_def connection_new_def session_new_def
  channel_relay_owned_def validate_session_key_def validate_space_key_def validate_connection_id_def
  require_nonzero_def sd_validate_def sd_validate_ids_def get_session_def get_connection_def
  install_space_checks_def core_authenticated_principal_def require_defs require_membership_def
  require_subscription_def da_authenticate_def da_new_def

lemmas demo_simps = ground_maps eval core_op_defs demo_defs cc_default_def qc_default_def

lemma demo_provision:
  "core_run demo_start (take 3 demo_setup) = demo_stage 1 1 bt_new (demo_session bt_new bt_new bt_new)"
  by (simp add: demo_setup_def core_run_def demo_simps)

lemma demo_connect1:
  "core_step (demo_stage 1 1 bt_new s) (A_Command demo_clock C_TransportConnected)
     = demo_stage 2 1 (bt_insert 1 (demo_connection None bt_new bt_new 0) bt_new) s"
  by (simp add: demo_simps u64_checked_succ_def)

lemma demo_connect2:
  "core_step (demo_stage 2 1 (bt_insert 1 c1 bt_new) s) (A_Command demo_clock C_TransportConnected)
     = demo_stage 3 1 (bt_insert 1 c1 (bt_insert 2 (demo_connection None bt_new bt_new 0) bt_new)) s"
  by (simp add: demo_simps u64_checked_succ_def)

lemma demo_authenticate1:
  "core_step (demo_stage 3 1 (bt_insert 1 (demo_connection None bt_new bt_new 0) m) s)
     (A_Command demo_clock (C_Authenticate 1 \<lparr>cr_token = ''token''\<rparr>))
   = demo_stage 3 1 (bt_insert 1 (demo_connection (Some demo_principal) bt_new bt_new 0) m) s"
  by (simp add: demo_simps)

lemma demo_authenticate2:
  "core_step (demo_stage 3 1 (bt_insert 1 c1 (bt_insert 2 (demo_connection None bt_new bt_new 0) m)) s)
     (A_Command demo_clock (C_Authenticate 2 \<lparr>cr_token = ''token''\<rparr>))
   = demo_stage 3 1 (bt_insert 1 c1 (bt_insert 2 (demo_connection (Some demo_principal) bt_new bt_new 0) m)) s"
  by (simp add: demo_simps)

abbreviation demo_member :: "space_key btset \<Rightarrow> usize \<Rightarrow> connection_state" where
  "demo_member \<equiv> demo_connection (Some demo_principal) (bs_insert demo_key bt_new)"

lemma demo_join1:
  "core_step (demo_stage 3 1 (bt_insert 1 (demo_connection (Some demo_principal) bt_new bt_new 0) m)
       (demo_session bt_new bt_new bt_new)) (A_Command demo_clock (C_JoinSession 1 demo_key))
   = demo_stage 3 1 (bt_insert 1 (demo_member bt_new 0) m) (demo_session (bs_insert 1 bt_new) bt_new bt_new)"
  by (simp add: demo_simps)

lemma demo_join2:
  "core_step (demo_stage 3 1 (bt_insert 1 c1 (bt_insert 2 (demo_connection (Some demo_principal) bt_new bt_new 0) m))
       (demo_session (bs_insert 1 bt_new) bt_new bt_new)) (A_Command demo_clock (C_JoinSession 2 demo_key))
   = demo_stage 3 1 (bt_insert 1 c1 (bt_insert 2 (demo_member bt_new 0) m))
       (demo_session (bs_insert 1 (bs_insert 2 bt_new)) bt_new bt_new)"
  by (simp add: demo_simps)

lemma demo_subscribe1:
  "core_step (demo_stage 3 1 (bt_insert 1 (demo_member bt_new 0) m) (demo_session members bt_new bt_new))
     (A_Command demo_clock (C_Subscribe 1 demo_space_key))
   = demo_stage 3 1 (bt_insert 1 (demo_member (bs_insert demo_space_key bt_new) 0) m)
       (demo_session members (bs_insert 1 bt_new) bt_new)"
  by (simp add: demo_simps)

lemma demo_subscribe2:
  "core_step (demo_stage 3 1 (bt_insert 1 c1 (bt_insert 2 (demo_member bt_new 0) m))
       (demo_session members (bs_insert 1 bt_new) bt_new)) (A_Command demo_clock (C_Subscribe 2 demo_space_key))
   = demo_stage 3 1 (bt_insert 1 c1 (bt_insert 2 (demo_member (bs_insert demo_space_key bt_new) 0) m))
       (demo_session members (bs_insert 1 (bs_insert 2 bt_new)) bt_new)"
  by (simp add: demo_simps)

lemma demo_spawn:
  "core_step (demo_stage 3 1 (bt_insert 1 (demo_member (bs_insert demo_space_key bt_new) 0) m)
       (demo_session members subs bt_new)) (A_Command demo_clock (C_SpawnEntity 1 demo_space_key 1))
   = demo_stage 3 2 (bt_insert 1 (demo_member (bs_insert demo_space_key bt_new) 1) m)
       (demo_session members subs (bt_insert 1 demo_entity bt_new))"
  by (simp add: demo_simps u64_checked_succ_def)

lemma demo_setup_run: "core_run demo_start demo_setup = demo_ready"
proof -
  have "core_run demo_start demo_setup = core_run (core_run demo_start (take 3 demo_setup)) (drop 3 demo_setup)"
    by (simp add: core_run_def foldl_append [symmetric] del: foldl_append)
  also have "\<dots> = core_run (demo_stage 1 1 bt_new (demo_session bt_new bt_new bt_new)) (drop 3 demo_setup)"
    by (simp only: demo_provision)
  also have "\<dots> = demo_ready"
    by (simp add: core_run_def demo_setup_def demo_ready_def demo_connect1 demo_connect2 demo_authenticate1
        demo_authenticate2 demo_join1 demo_join2 demo_subscribe1 demo_subscribe2 demo_spawn del: core_step.simps)
  finally show ?thesis .
qed

lemma demo_config_ok: "config_ok cc_default"
  by (simp add: config_ok_def cc_validate_def cc_default_def pr_validate_def pr_default_def
      qc_validate_def qc_default_def duration_from_secs_def nanos_per_sec_def usize_max_def eval)

lemma demo_start_new: "core_new (da_authenticate demo_authenticator) cc_default = Inr demo_start"
  using demo_core_new by (simp add: core_new_def demo_start_def demo_core_def result_ok)

lemma demo_ready_reachable: "reachable_core demo_ready"
  unfolding reachable_core_def using demo_config_ok demo_start_new demo_setup_run by metis

section \<open>The publish\<close>

definition demo_message_out :: outbound_message where
  "demo_message_out = am_to_outbound demo_key (am_from_request demo_request)"

definition demo_published :: core where
  "demo_published = snd (publish_at (\<lambda>_ _ _. 0) demo_request 0 demo_ready)"

lemma demo_published_reachable: "reachable_core demo_published"
  using reachable_step [OF demo_ready_reachable, of "A_Command demo_clock (C_Publish demo_request)"]
  by (simp add: demo_published_def map_op_def demo_clock_def)

definition demo_limited :: core where
  "demo_limited = map_connection 1 (\<lambda>cn. cn\<lparr>cn_rate_limiter :=
     \<lparr>rl_window_started = Some 0, rl_publishes = 1\<rparr>\<rparr>) demo_ready"

definition demo_planned :: planned where
  "demo_planned = bt_insert (SequenceKey 1 1 1 (Some 1) 1 0) 5 bt_new"

lemmas publish_defs = validate_message_def authorize_publish_def publish_access_def validate_publish_request_ids_def
  validate_authorized_message_ids_def validate_optional_ids_def validate_channel_policy_def am_from_request_def
  validate_coalesce_key_def validate_message_entity_def last_sequence_def message_sequence_key_def
  message_component_def message_state_key_def context_of_def relay_owned_evaluate_def
  validate_sequence_capacity_def validate_state_capacity_def stateful_def usize_saturating_add_def
  jo_remaining_capacity_def proposed_of_def

lemma demo_authorized: "authorize_publish demo_limited demo_request = Inr ([am_from_request demo_request], demo_planned)"
  by (simp add: demo_limited_def demo_ready_def demo_request_def demo_planned_def publish_defs demo_simps Let_def
      jo_new_def usize_max_def)

definition demo_received :: "rate_limiter \<Rightarrow> usize \<Rightarrow> connection_state" where
  "demo_received limiter owned = (demo_member (bs_insert demo_space_key bt_new) owned)\<lparr>
     cn_rate_limiter := limiter, cn_outbound := demo_queue0\<lparr>oq_critical := [demo_message_out]\<rparr>\<rparr>"

definition demo_outcome :: publish_outcome where
  "demo_outcome = \<lparr>po_authorized_messages = 1, po_recipient_attempts = 2,
     po_queues = qa_default\<lparr>qa_queued := 2\<rparr>, po_disconnected_slow_consumers = []\<rparr>"

lemma demo_publish_run:
  "publish_at clock demo_request 0 demo_ready = (Inr demo_outcome, demo_stage 3 2
     (bt_insert 1 (demo_received \<lparr>rl_window_started = Some 0, rl_publishes = 1\<rparr> 1)
       (bt_insert 2 (demo_received rl_default 0) bt_new))
     ((demo_session (bs_insert 1 (bs_insert 2 bt_new)) (bs_insert 1 (bs_insert 2 bt_new))
        (bt_insert 1 demo_entity bt_new))\<lparr>sn_sequences := demo_planned,
          sn_state_map := bt_insert (StateKey 1 1 (Some 1) 1 0) \<lparr>sr_sequence = 5, sr_payload = [1, 2]\<rparr> bt_new,
          sn_bytes := 2\<rparr>))"
proof -
  have pq: "pq_connection demo_request = 1" "pq_session demo_request = demo_key"
    by (simp_all add: demo_request_def)
  have cn: "bt_get (co_connections demo_ready) 1 = Some (demo_member (bs_insert demo_space_key bt_new) 1)"
    by (simp add: demo_ready_def demo_stage_def)
  have limiter: "cn_rate_limiter (demo_member subs owned) = rl_default" for subs owned
    by (simp add: demo_connection_def)
  have "publish_at clock demo_request 0 demo_ready
      = commit_publish clock demo_key [am_from_request demo_request] demo_planned demo_limited"
    by (simp add: publish_at_def Let_def pq cn limiter rl_admit_def rl_default_def get_connection_def
        validate_connection_id_def require_nonzero_def demo_limited_def [simplified, symmetric] demo_authorized)
  also have "\<dots> = (Inr demo_outcome, demo_stage 3 2
     (bt_insert 1 (demo_received \<lparr>rl_window_started = Some 0, rl_publishes = 1\<rparr> 1)
       (bt_insert 2 (demo_received rl_default 0) bt_new))
     ((demo_session (bs_insert 1 (bs_insert 2 bt_new)) (bs_insert 1 (bs_insert 2 bt_new))
        (bt_insert 1 demo_entity bt_new))\<lparr>sn_sequences := demo_planned,
          sn_state_map := bt_insert (StateKey 1 1 (Some 1) 1 0) \<lparr>sr_sequence = 5, sr_payload = [1, 2]\<rparr> bt_new,
          sn_bytes := 2\<rparr>))"
    by (simp add: commit_publish_def demo_limited_def demo_ready_def demo_request_def demo_planned_def publish_defs
       demo_simps Let_def durable_messages_def am_to_outbound_def commit_session_def store_state_def
       demo_outcome_def demo_received_def demo_message_out_def recipients_of_def routing_recipients_def
       subscribers_of_def receiving_connection_def can_receive_def oq_eval record_queue_result_def qa_default_def numeral_2_eq_2)
  finally show ?thesis .
qed

end
