(* ===== verification/CoreProps.thy ===== *)
theory CoreProps
  imports CoreDemo CoreEvolve
begin

text \<open>
  Properties of the core's runs: what a queue may hold, agreement of the two sides of every link,
  exact quotas, limits, atomic publishing, complete cleanup and the delivery guarantee.
\<close>

section \<open>What a queue may hold\<close>

text \<open>
  C1. Isolation. In every reachable core, every message waiting in a connection's outbound queue
  is one the connection is still entitled to: it is authenticated with read grants on the
  namespace, session, space and channel, a member of the session and a subscriber of the space;
  and the message is not stale: its space exists at its epoch and its entity, if any, is in it.
\<close>

theorem queued_messages_entitled:
  assumes "reachable_core c" "bt_get (co_connections c) cid = Some cn" "m \<in> set (oq_view (cn_outbound cn))"
  shows "\<exists>p s d. cn_authenticated cn = Some p
      \<and> can_receive p (session_of m) (om_space m) (om_channel m)
      \<and> bs_contains (cn_memberships cn) (session_of m)
      \<and> bs_contains (cn_subscriptions cn) (SpaceKey (session_of m) (om_space m))
      \<and> bt_get (co_sessions c) (session_of m) = Some s \<and> bs_contains (sn_members s) cid
      \<and> bt_get (sn_space_map s) (om_space m) = Some d \<and> sd_epoch d = om_space_epoch m
      \<and> (\<forall>e. om_entity m = Some e \<longrightarrow> (\<exists>r. bt_get (sn_entity_map s) e = Some r \<and> er_space r = om_space m))"
proof -
  note wf = reachable_wf [OF assms(1)] and cs = core_connection [OF reachable_wf [OF assms(1)] assms(2)]
  have q: "entitled cn m" "live_message c m" using cs(2) [of m] assms(3) by (simp_all add: queued_def)
  then obtain p s d where "cn_authenticated cn = Some p" "can_receive p (session_of m) (om_space m) (om_channel m)"
    and s: "bt_get (co_sessions c) (session_of m) = Some s"
    and "bt_get (sn_space_map s) (om_space m) = Some d" "sd_epoch d = om_space_epoch m"
      "\<forall>e. om_entity m = Some e \<longrightarrow> (\<exists>r. bt_get (sn_entity_map s) e = Some r \<and> er_space r = om_space m)"
    unfolding entitled_def live_message_def live_scope_def current_space_def by blast
  moreover have sub: "bs_contains (cn_subscriptions cn) (SpaceKey (session_of m) (om_space m))"
    using q(1) by (simp add: entitled_def)
  moreover have mem: "bs_contains (cn_memberships cn) (session_of m)" using cs(6) [OF sub] .
  moreover have "bs_contains (sn_members s) cid"
    using mem s unfolding cs(4) session_member_def by auto
  ultimately show ?thesis by blast
qed

lemma demo_published_eq:
  "demo_published = demo_stage 3 2
     (bt_insert 1 (demo_received \<lparr>rl_window_started = Some 0, rl_publishes = 1\<rparr> 1)
       (bt_insert 2 (demo_received rl_default 0) bt_new))
     ((demo_session (bs_insert 1 (bs_insert 2 bt_new)) (bs_insert 1 (bs_insert 2 bt_new))
        (bt_insert 1 demo_entity bt_new))\<lparr>sn_sequences := demo_planned,
          sn_state_map := bt_insert (StateKey 1 1 (Some 1) 1 0) \<lparr>sr_sequence = 5, sr_payload = [1, 2]\<rparr> bt_new,
          sn_bytes := 2\<rparr>)"
  by (simp add: demo_published_def demo_publish_run)

lemma demo_published_connections:
  "bt_get (co_connections demo_published) 1
     = Some (demo_received \<lparr>rl_window_started = Some 0, rl_publishes = 1\<rparr> 1)"
  "bt_get (co_connections demo_published) 2 = Some (demo_received rl_default 0)"
  by (simp_all add: demo_published_eq demo_stage_def bt_get_insert)

lemma demo_received_queue [simp]:
  "oq_view (cn_outbound (demo_received limiter owned)) = [demo_message_out]"
  "oq_critical (cn_outbound (demo_received limiter owned)) = [demo_message_out]"
  by (simp_all add: demo_received_def demo_queue0_def oq_view_def oq_latest_view_def)

lemma queued_messages_entitled_witness:
  "\<exists>p. cn_authenticated (demo_received rl_default 0) = Some p
     \<and> can_receive p (session_of demo_message_out) (om_space demo_message_out) (om_channel demo_message_out)"
  using queued_messages_entitled [OF demo_published_reachable demo_published_connections(2), of demo_message_out]
  by auto

section \<open>Links, quotas and limits\<close>

text \<open>
  C10. The two sides of every link agree in every reachable core: a connection lists a session
  exactly when the session lists it as a member, a connection lists a space exactly when the
  session lists it as a subscriber of the space, and only members subscribe.
\<close>

theorem links_agree:
  assumes "reachable_core c"
  shows "((\<exists>cn. bt_get (co_connections c) cid = Some cn \<and> bs_contains (cn_memberships cn) key)
        = (\<exists>s. bt_get (co_sessions c) key = Some s \<and> bs_contains (sn_members s) cid))
    \<and> ((\<exists>cn. bt_get (co_connections c) cid = Some cn \<and> bs_contains (cn_subscriptions cn) (SpaceKey key sp))
        = (\<exists>s subs. bt_get (co_sessions c) key = Some s \<and> bt_get (sn_subscribers s) sp = Some subs
             \<and> bs_contains subs cid))
    \<and> (\<forall>cn. bt_get (co_connections c) cid = Some cn \<and> bs_contains (cn_subscriptions cn) (SpaceKey key sp)
        \<longrightarrow> bs_contains (cn_memberships cn) key)"
  using core_wfD(4) [OF reachable_wf [OF assms]] core_connection(6) [OF reachable_wf [OF assms]]
  unfolding links_wf_def link_defs subscribes_def by blast

lemma links_agree_witness:
  "bs_contains (cn_memberships (demo_received rl_default 0)) demo_key"
  using links_agree [OF demo_published_reachable, of 2 demo_key 1] demo_published_connections(2)
  by (simp add: demo_received_def demo_connection_def demo_space_key_def)

text \<open>
  C11. The ownership counter of a connection, which the spawn quota reads, is exactly the number of
  entities the connection owns over all sessions, in every reachable core; so no connection ever
  owns more than its quota.
\<close>

theorem ownership_quota_exact:
  assumes "reachable_core c" "bt_get (co_connections c) cid = Some cn"
  shows "cn_owned_entities cn
      = sum_list (map (\<lambda>s. length (filter (\<lambda>r. er_owner_connection r = cid) (bt_values (sn_entity_map s))))
          (bt_values (co_sessions c)))
    \<and> cn_owned_entities cn \<le> cc_max_owned_entities_per_connection (co_config c)"
proof -
  note cs = core_connection [OF reachable_wf [OF assms(1)] assms(2)]
  have "owned_total c cid = sum_list (map (\<lambda>s. length (filter (\<lambda>r. er_owner_connection r = cid)
      (bt_values (sn_entity_map s)))) (bt_values (co_sessions c)))"
    by (simp add: owned_total_def bt_sum_def owned_in_def bt_count_filter_values bt_values_def case_prod_unfold
        comp_def)
  with cs(1,3) show ?thesis by (simp add: connection_wf_def)
qed

lemma ownership_quota_exact_witness:
  "cn_owned_entities (demo_received \<lparr>rl_window_started = Some 0, rl_publishes = 1\<rparr> 1) = 1"
  using ownership_quota_exact [OF demo_published_reachable demo_published_connections(1)]
  by (simp add: demo_published_eq demo_stage_def demo_session_def demo_entity_def bt_values_def eval)

text \<open>
  C12. No session ever exceeds a configured limit: in every reachable core the retained state of a
  session is within its byte and entry limits, with the byte counter equal to the payload bytes
  actually retained, and its sequence keys, entities, spaces and space history are within theirs.
\<close>

theorem session_limits_hold:
  assumes "reachable_core c" "bt_get (co_sessions c) key = Some s"
  shows "sn_bytes s = sum_list (map (\<lambda>r. length (sr_payload r)) (bt_values (sn_state_map s)))
    \<and> sn_bytes s \<le> cc_max_state_bytes_per_session (co_config c)
    \<and> bt_len (sn_state_map s) \<le> cc_max_state_entries_per_session (co_config c)
    \<and> bt_len (sn_sequences s) \<le> cc_max_sequence_keys_per_session (co_config c)
    \<and> bt_len (sn_entity_map s) \<le> cc_max_entities_per_session (co_config c)
    \<and> bt_len (sn_space_map s) \<le> cc_max_spaces_per_session (co_config c)
    \<and> bt_len (sn_space_map s) + bt_len (sn_tombstones s)
        \<le> cc_max_space_epoch_tombstones_per_session (co_config c)"
  using session_wfD(6) [OF core_session(1) [OF reachable_wf [OF assms(1)] assms(2)]]
  by (simp add: limits_wf_def state_total_def)

lemma session_limits_hold_witness:
  "\<exists>s. bt_get (co_sessions demo_published) demo_key = Some s
    \<and> sum_list (map (\<lambda>r. length (sr_payload r)) (bt_values (sn_state_map s))) = 2"
proof -
  obtain s where s: "bt_get (co_sessions demo_published) demo_key = Some s" "sn_bytes s = 2"
    by (simp add: demo_published_eq demo_stage_def)
  with session_limits_hold [OF demo_published_reachable s(1)] show ?thesis by simp
qed

section \<open>Publishing is atomic\<close>

text \<open>
  C2. A publish is all or nothing: in every reachable core, a publish that returns an error has
  changed nothing but, at most, the rate limiter of the publishing connection. In particular no
  error can occur once anything has been journalled, retained or queued.
\<close>

theorem publish_all_or_nothing:
  assumes "reachable_core c" "publish_at clock r now c = (Inl e, c')"
  shows "c' = c \<or> (\<exists>cn. bt_get (co_connections c) (pq_connection r) = Some cn
    \<and> c' = c\<lparr>co_connections := bt_insert (pq_connection r) (cn\<lparr>cn_rate_limiter :=
          snd (rl_admit (cc_publish_rate_limit (co_config c)) now (cn_rate_limiter cn))\<rparr>) (co_connections c)\<rparr>)"
proof (cases "and_then (validate_connection_id (pq_connection r)) (\<lambda>_. get_connection c (pq_connection r))")
  case (Inl e')
  then show ?thesis using assms(2) by (simp add: publish_at_def)
next
  case (Inr cn)
  note wf = reachable_wf [OF assms(1)]
  from Inr have cn: "bt_get (co_connections c) (pq_connection r) = Some cn" by (auto simp: and_then_eq_Inr)
  obtain admitted limiter where l: "rl_admit (cc_publish_rate_limit (co_config c)) now (cn_rate_limiter cn) = (admitted, limiter)"
    by force
  let ?c = "map_connection (pq_connection r) (\<lambda>cn. cn\<lparr>cn_rate_limiter := limiter\<rparr>) c"
  have eq: "?c = c\<lparr>co_connections := bt_insert (pq_connection r) (cn\<lparr>cn_rate_limiter := limiter\<rparr>) (co_connections c)\<rparr>"
    by (rule map_connection_insert [OF cn])
  have "map_connection (pq_connection r) (\<lambda>cn. cn\<lparr>cn_rate_limiter :=
      snd (rl_admit (cc_publish_rate_limit (co_config c)) now (cn_rate_limiter cn))\<rparr>) c = ?c"
    using l by (simp add: map_connection_insert [OF cn])
  then have wf1: "core_wf ?c" using limited_wf [OF wf cn, of now] by simp
  have p: "checked (and_then admitted (\<lambda>_. authorize_publish ?c r)) (\<lambda>(messages, planned).
      commit_publish clock (pq_session r) messages planned) ?c = (Inl e, c')"
    using assms(2) Inr l by (simp add: publish_at_def Let_def)
  have "c' = ?c"
  proof (cases "and_then admitted (\<lambda>_. authorize_publish ?c r)")
    case (Inl e')
    then show ?thesis using p by simp
  next
    case (Inr mp)
    obtain messages planned where mp: "mp = (messages, planned)" by force
    then have "authorize_publish ?c r = Inr (messages, planned)" using Inr by (auto simp: and_then_eq_Inr)
    from commit_publish_wf [OF wf1 authorize_publish_ok [OF this], of clock] p Inr mp show ?thesis by auto
  qed
  then show ?thesis using cn l eq by auto
qed

lemma demo_published_session:
  "bt_get (co_sessions demo_published) demo_key = Some ((demo_session (bs_insert 1 (bs_insert 2 bt_new))
     (bs_insert 1 (bs_insert 2 bt_new)) (bt_insert 1 demo_entity bt_new))\<lparr>sn_sequences := demo_planned,
       sn_state_map := bt_insert (StateKey 1 1 (Some 1) 1 0) \<lparr>sr_sequence = 5, sr_payload = [1, 2]\<rparr> bt_new,
       sn_bytes := 2\<rparr>)"
  by (simp add: demo_published_eq demo_stage_def)

text \<open>The same request again is stale.\<close>

lemma demo_republish:
  "publish_at clock demo_request 0 demo_published = (Inl (CE_StaleSequence 5 5),
     map_connection 1 (\<lambda>cn. cn\<lparr>cn_rate_limiter := \<lparr>rl_window_started = Some 0, rl_publishes = 2\<rparr>\<rparr>) demo_published)"
  by (simp add: publish_at_def Let_def demo_published_connections demo_request_def publish_defs demo_simps
      demo_published_eq demo_received_def demo_planned_def rl_admit_def checked_duration_since_def pr_default_def
      duration_from_secs_def nanos_per_sec_def numeral_2_eq_2)

lemma publish_all_or_nothing_witness:
  "\<exists>c'. publish_at (\<lambda>_ _ _. 0) demo_request 0 demo_published = (Inl (CE_StaleSequence 5 5), c')
    \<and> co_sessions c' = co_sessions demo_published \<and> co_journal_outbox c' = co_journal_outbox demo_published
    \<and> bt_get (co_connections c') 2 = bt_get (co_connections demo_published) 2"
proof -
  obtain c' where p: "publish_at (\<lambda>_ _ _. 0) demo_request 0 demo_published = (Inl (CE_StaleSequence 5 5), c')"
    using demo_republish by blast
  have "pq_connection demo_request = 1" by (simp add: demo_request_def)
  with publish_all_or_nothing [OF demo_published_reachable p] p show ?thesis by auto
qed

section \<open>Replay protection\<close>

text \<open>
  C5. What protects against replays is never rolled back: no action of any kind lowers the sequence
  recorded for a stream. A recorded sequence stays or grows until its connection leaves the
  session, its space's epoch ends or its entity leaves the space.
\<close>

theorem recorded_sequences_never_decrease:
  assumes "reachable_core c" "bt_get (co_sessions c) key = Some s" "bt_get (sn_sequences s) k = Some v"
  shows "\<exists>s'. bt_get (co_sessions (core_step c a)) key = Some s'
    \<and> ((\<exists>v'. bt_get (sn_sequences s') k = Some v' \<and> v \<le> v')
       \<or> \<not> bs_contains (sn_members s') (sqk_connection k)
       \<or> \<not> live_scope s' (sqk_space k) (sqk_space_epoch k) (sqk_entity k))"
proof -
  have "core_evolves c (core_step c a)" using reachable_wf [OF assms(1)] by (rule core_step_evolves)
  then obtain s' where "bt_get (co_sessions (core_step c a)) key = Some s'" "sequences_kept s s'"
    using assms(2) unfolding core_evolves_def by blast
  then show ?thesis using assms(3) unfolding sequences_kept_def sequence_alive_def by blast
qed

lemma recorded_sequences_never_decrease_witness:
  "\<exists>s'. bt_get (co_sessions (core_step demo_published (A_Command demo_clock (C_Publish demo_request)))) demo_key = Some s'"
  using recorded_sequences_never_decrease [OF demo_published_reachable demo_published_session,
      of "SequenceKey 1 1 1 (Some 1) 1 0" 5 "A_Command demo_clock (C_Publish demo_request)"]
  by (auto simp: demo_planned_def)

section \<open>Identifiers\<close>

text \<open>
  C13. Entity ids are never reused: the id a spawn returns is non-zero and larger than the id of
  every entity that exists or ever existed in any session of the core, since the run began.
\<close>

theorem entity_ids_never_reused:
  assumes "reachable_core c0" "bt_get (co_sessions c0) key0 = Some s0" "bt_get (sn_entity_map s0) e0 = Some r0"
    and "spawn_entity cid k epoch (core_run c0 actions) = (Inr e, c')"
  shows "e0 < e \<and> e \<noteq> 0 \<and> (\<exists>s. bt_get (co_sessions c') (spk_session k) = Some s
    \<and> map_option er_owner_connection (bt_get (sn_entity_map s) e) = Some cid)"
proof -
  let ?c = "core_run c0 actions"
  have wf0: "core_wf c0" by (rule reachable_wf [OF assms(1)])
  have wf: "core_wf ?c" using core_ts.run_inv [OF wf0] by (simp add: core_run_def)
  have e: "e = co_next_entity_id ?c"
    using assms(4) by (auto simp: spawn_entity_def checked_ok Let_def)
  have "e0 < co_next_entity_id c0"
    using session_wfD(2) [OF core_session(1) [OF wf0 assms(2)]] assms(3) unfolding entities_wf_def by blast
  then have "e0 < e" using core_run_counters(2) [OF wf0, of actions] e by simp
  moreover have "e \<noteq> 0" using store_wfD(2) [OF wf] e by simp
  moreover obtain s where "bt_get (co_sessions ?c) (spk_session k) = Some s"
    using assms(4) by (auto simp: spawn_entity_def checked_ok spawn_entity_checks_def and_then_eq_Inr)
  ultimately show ?thesis
    using assms(4) by (auto simp: spawn_entity_def checked_ok Let_def bt_get_modify)
qed

lemma demo_spawn_again: "\<exists>c'. spawn_entity 2 demo_space_key 1 demo_published = (Inr 2, c')"
  by (simp add: demo_published_eq demo_received_def demo_simps u64_checked_succ_def)

lemma entity_ids_never_reused_witness:
  "(1 :: entity_id) < 2 \<and> (\<exists>c'. spawn_entity 2 demo_space_key 1 (core_run demo_published []) = (Inr 2, c'))"
proof -
  obtain c' where sp: "spawn_entity 2 demo_space_key 1 (core_run demo_published []) = (Inr 2, c')"
    using demo_spawn_again by (auto simp: core_run_def)
  have "bt_get (sn_entity_map ((demo_session (bs_insert 1 (bs_insert 2 bt_new))
     (bs_insert 1 (bs_insert 2 bt_new)) (bt_insert 1 demo_entity bt_new))\<lparr>sn_sequences := demo_planned,
       sn_state_map := bt_insert (StateKey 1 1 (Some 1) 1 0) \<lparr>sr_sequence = 5, sr_payload = [1, 2]\<rparr> bt_new,
       sn_bytes := 2\<rparr>)) 1 = Some demo_entity" by (simp add: demo_session_def)
  from entity_ids_never_reused [OF demo_published_reachable demo_published_session this sp] sp
  show ?thesis by blast
qed

section \<open>Losing a transport\<close>

text \<open>
  C7. Losing the transport of a known connection always succeeds and leaves nothing behind: the
  connection is gone, no session has it as a member or subscriber, no entity is owned by it, no
  replay sequence is kept for it, and no admission lease is bound to it or pending. Every other
  connection stays and keeps its memberships.
\<close>

theorem transport_lost_leaves_nothing:
  assumes "reachable_core c" "bt_get (co_connections c) cid = Some cn"
  shows "\<exists>summary c'. transport_lost clock cid c = (Inr summary, c')
    \<and> bt_get (co_connections c') cid = None
    \<and> (\<forall>key s. bt_get (co_sessions c') key = Some s \<longrightarrow> \<not> bs_contains (sn_members s) cid
         \<and> (\<forall>sp subs. bt_get (sn_subscribers s) sp = Some subs \<longrightarrow> \<not> bs_contains subs cid)
         \<and> (\<forall>e r. bt_get (sn_entity_map s) e = Some r \<longrightarrow> er_owner_connection r \<noteq> cid)
         \<and> (\<forall>k v. bt_get (sn_sequences s) k = Some v \<longrightarrow> sqk_connection k \<noteq> cid))
    \<and> (\<forall>key. bt_get (co_admission_leases c') (cid, key) = None
         \<and> bt_get (co_pending_admissions c') (cid, key) = None)
    \<and> (\<forall>x key. x \<noteq> cid \<longrightarrow> (is_connected c' x \<longleftrightarrow> is_connected c x) \<and> conn_member c' x key = conn_member c x key)"
proof -
  obtain summary c' where t: "transport_lost clock cid c = (Inr summary, c')" and wf: "core_wf c'"
    and gone: "bt_get (co_connections c') cid = None"
    and others: "\<And>x. x \<noteq> cid \<Longrightarrow> bt_contains_key (co_connections c') x \<longleftrightarrow> bt_contains_key (co_connections c) x"
      "\<And>x k. conn_member c' x k \<longleftrightarrow> conn_member c x k \<and> x \<noteq> cid"
    and pending: "\<And>k. bt_get (co_pending_admissions c') (cid, k) = None"
    using transport_lost_effect [OF reachable_wf [OF assms(1)] assms(2), of clock] by metis
  have none: "\<not> conn_member c' cid key" "\<not> conn_subscribed c' cid key sp" for key sp
    using gone by (simp_all add: conn_member_def conn_subscribed_def)
  have "\<not> bs_contains (sn_members s) cid
      \<and> (\<forall>sp subs. bt_get (sn_subscribers s) sp = Some subs \<longrightarrow> \<not> bs_contains subs cid)
      \<and> (\<forall>e r. bt_get (sn_entity_map s) e = Some r \<longrightarrow> er_owner_connection r \<noteq> cid)
      \<and> (\<forall>k v. bt_get (sn_sequences s) k = Some v \<longrightarrow> sqk_connection k \<noteq> cid)"
    if s: "bt_get (co_sessions c') key = Some s" for key s
  proof -
    note ss = core_session [OF wf s]
    have "\<not> bs_contains (sn_members s) cid" using ss(3) none(1) by blast
    moreover have "\<not> bs_contains subs cid" if "bt_get (sn_subscribers s) sp = Some subs" for sp subs
      using ss(4) [of cid sp] none(2) that by (auto simp: subscribes_def)
    ultimately show ?thesis using ss(2) unfolding belongs_wf_def by blast
  qed
  moreover have "bt_get (co_admission_leases c') (cid, key) = None" for key
    using admissions_wfD(2) [OF wf, of cid key] none(1) by (cases "bt_get (co_admission_leases c') (cid, key)") auto
  ultimately show ?thesis
    using t gone others pending by (intro exI [of _ summary] exI [of _ c']) (auto simp: is_connected_def)
qed

lemma transport_lost_leaves_nothing_witness:
  "\<exists>summary c'. transport_lost (\<lambda>_ _ _. 0) 1 demo_published = (Inr summary, c') \<and> is_connected c' 2"
proof -
  have "is_connected demo_published 2"
    using demo_published_connections(2) by (simp add: is_connected_def bt_contains_key_def)
  moreover have "(2 :: connection_id) \<noteq> 1" by simp
  ultimately show ?thesis
    using transport_lost_leaves_nothing [OF demo_published_reachable demo_published_connections(1), of "\<lambda>_ _ _. 0"]
    by blast
qed

section \<open>The cascade\<close>

text \<open>
  C8. Removing entities removes exactly the closure: an entity goes if it is a root or lives in a
  space that goes; a space goes if it is anchored to an entity or parented by a space that goes.
  Everything else is untouched, the epoch of every space that went is remembered, and the loop
  that computes the closure ends for every forest or cycle of anchors.
\<close>

theorem cascade_removes_exactly_the_closure:
  assumes "reachable_core c" "bt_get (co_sessions c) key = Some s"
    and "remove_entities_and_anchored_spaces key roots c = (summary, c')"
  shows "\<exists>s'. bt_get (co_sessions c') key = Some s'
    \<and> (\<forall>e. bt_get (sn_entity_map s') e
          = (if gone_entity s roots e then None else bt_get (sn_entity_map s) e))
    \<and> (\<forall>sp. bt_get (sn_space_map s') sp
          = (if gone_space s roots sp then None else bt_get (sn_space_map s) sp))
    \<and> (\<forall>sp d. gone_space s roots sp \<longrightarrow> bt_get (sn_space_map s) sp = Some d \<longrightarrow>
          bt_get (sn_tombstones s') sp = Some (sd_epoch d))
    \<and> cs_entities_removed summary = bt_count (\<lambda>e _. gone_entity s roots e) (sn_entity_map s)
    \<and> (\<forall>k. k \<noteq> key \<longrightarrow> bt_get (co_sessions c') k = bt_get (co_sessions c) k)"
proof -
  note wf = reachable_wf [OF assms(1)]
  obtain E S where close: "close_removed s roots bt_new = (E, S)" by force
  note exact = close_removed_exact [OF close] and eff = remove_entities_effect [OF wf assms(2) close assms(3)]
  let ?s = "snd (removed_from_session key E S s)"
  note f = removed_from_session_fields [of key E S s] and w = session_wfD [OF core_session(1) [OF wf assms(2)]]
  have sess: "co_sessions c' = bt_insert key ?s (co_sessions c)" by (subst eff(1)) simp
  have ids: "\<And>sp d. bt_get (sn_space_map s) sp = Some d \<Longrightarrow> sd_id d = sp" using w(1) by (simp add: spaces_wf_def)
  have "cs_entities_removed summary
      = length (filter (\<lambda>e. bs_contains E (er_id e)) (bt_values (sn_entity_map s)))"
    using assms(2,3) close
    by (auto simp: remove_entities_and_anchored_spaces_def removed_from_session_def Let_def split_beta)
  also have "\<dots> = length (filter (\<lambda>p. bs_contains E (er_id (snd p))) (bt_iter (sn_entity_map s)))"
    by (simp add: bt_values_def filter_map comp_def)
  also have "\<dots> = length (filter (\<lambda>(e, r). gone_entity s roots e) (bt_iter (sn_entity_map s)))"
    using w(2) by (intro arg_cong [where f = length] filter_cong) (auto simp: in_bt_iter entities_wf_def exact)
  finally have "cs_entities_removed summary = bt_count (\<lambda>e _. gone_entity s roots e) (sn_entity_map s)"
    by (simp add: bt_count_filter)
  moreover have "bt_get (sn_tombstones ?s) sp = Some (sd_epoch d)"
    if "gone_space s roots sp" "bt_get (sn_space_map s) sp = Some d" for sp d
    using that by (simp add: removed_from_session_tombstones [OF ids] exact)
  ultimately show ?thesis
    by (intro exI [of _ ?s]) (simp add: sess f exact split: option.split)
qed

lemma cascade_removes_exactly_the_closure_witness:
  "\<exists>s'. bt_get (co_sessions (snd (remove_entities_and_anchored_spaces demo_key (bs_of_list [1]) demo_published)))
       demo_key = Some s' \<and> bt_get (sn_entity_map s') 1 = None"
proof -
  obtain summary c' where r: "remove_entities_and_anchored_spaces demo_key (bs_of_list [1]) demo_published = (summary, c')"
    by force
  let ?s = "(demo_session (bs_insert 1 (bs_insert 2 bt_new))
     (bs_insert 1 (bs_insert 2 bt_new)) (bt_insert 1 demo_entity bt_new))\<lparr>sn_sequences := demo_planned,
       sn_state_map := bt_insert (StateKey 1 1 (Some 1) 1 0) \<lparr>sr_sequence = 5, sr_payload = [1, 2]\<rparr> bt_new,
       sn_bytes := 2\<rparr>"
  have "gone_entity ?s (bs_of_list [1]) 1" by (rule gone_space_gone_entity.start) simp
  with cascade_removes_exactly_the_closure [OF demo_published_reachable demo_published_session r] r
  show ?thesis by auto
qed

section \<open>The delivery guarantee\<close>

text \<open>Authorisation does not look at the rate limiter.\<close>

lemma authorize_limited:
  "authorize_publish (map_connection cid (\<lambda>cn. cn\<lparr>cn_rate_limiter := l\<rparr>) c) r = authorize_publish c r"
proof -
  let ?c = "map_connection cid (\<lambda>cn. cn\<lparr>cn_rate_limiter := l\<rparr>) c"
  have "core_authenticated_principal ?c x = core_authenticated_principal c x" for x
    by (cases "bt_get (co_connections c) x")
      (auto simp: core_authenticated_principal_def get_connection_def bt_get_modify)
  moreover have "require_membership ?c x k = require_membership c x k" for x k
    by (cases "bt_get (co_connections c) x")
      (auto simp: require_membership_def get_connection_def bt_get_modify)
  moreover have "require_subscription ?c x k = require_subscription c x k" for x k
    by (cases "bt_get (co_connections c) x")
      (auto simp: require_subscription_def get_connection_def bt_get_modify)
  ultimately have "publish_access ?c r = publish_access c r" by (simp add: publish_access_def)
  moreover have v: "validate_message ?c x k m planned = validate_message c x k m planned" for x k m planned
    by (simp add: validate_message_def get_session_def)
  moreover have "plan_messages ?c x k ms planned = plan_messages c x k ms planned" for x k ms planned
    by (induction ms arbitrary: planned) (simp_all add: v)
  ultimately show ?thesis
    by (simp add: authorize_publish_def validate_sequence_capacity_def validate_state_capacity_def get_session_def
        cong: if_cong)
qed

text \<open>The effects of a successful publish, from the core it started in.\<close>

lemma publish_delivers:
  assumes wf: "core_wf c" and p: "publish_at clock r now c = (Inr outcome, c')"
  obtains messages planned cn limiter s j o0 o1 disc c3 where
    "authorize_publish c r = Inr (messages, planned)"
    "bt_get (co_connections c) (pq_connection r) = Some cn"
    "jo_records j = jo_records (co_journal_outbox c)
      @ map (\<lambda>m. \<lparr>jr_message = m\<rparr>) (durable_messages (map (am_to_outbound (pq_session r)) messages))"
    "fan_out (committed_core (pq_session r) messages planned s j
        (map_connection (pq_connection r) (\<lambda>cn. cn\<lparr>cn_rate_limiter := limiter\<rparr>) c)) bt_new c3 disc"
    "\<And>m x xn. m \<in> am_to_outbound (pq_session r) ` set messages \<Longrightarrow> is_critical (om_delivery m) \<Longrightarrow>
       bt_get (co_connections c) x = Some xn \<Longrightarrow> entitled xn m \<Longrightarrow> reached c3 disc m x"
    "disconnect_slow clock (bt_keys disc) o1 c3 = (Inr outcome, c')"
    "po_disconnected_slow_consumers o1 = []"
    "\<And>x. bs_contains disc x \<Longrightarrow> bt_contains_key (co_connections c3) x"
    "bt_get (co_sessions c) (pq_session r) = Some s"
    "deliver_all (pq_session r) (map (am_to_outbound (pq_session r)) messages) (o0, bt_new)
       (committed_core (pq_session r) messages planned s j
         (map_connection (pq_connection r) (\<lambda>cn. cn\<lparr>cn_rate_limiter := limiter\<rparr>) c)) = (Inr (o1, disc), c3)"
proof -
  let ?key = "pq_session r"
  obtain cn where cn: "bt_get (co_connections c) (pq_connection r) = Some cn"
    using p by (auto simp: publish_at_def checked_ok and_then_eq_Inr)
  obtain admitted limiter where l: "rl_admit (cc_publish_rate_limit (co_config c)) now (cn_rate_limiter cn) = (admitted, limiter)"
    by force
  let ?c = "map_connection (pq_connection r) (\<lambda>cn. cn\<lparr>cn_rate_limiter := limiter\<rparr>) c"
  have "map_connection (pq_connection r) (\<lambda>cn. cn\<lparr>cn_rate_limiter :=
      snd (rl_admit (cc_publish_rate_limit (co_config c)) now (cn_rate_limiter cn))\<rparr>) c = ?c"
    using l by (simp add: map_connection_insert [OF cn])
  then have wf1: "core_wf ?c" using limited_wf [OF wf cn, of now] by simp
  obtain messages planned where auth: "authorize_publish ?c r = Inr (messages, planned)"
    and cp: "commit_publish clock ?key messages planned ?c = (Inr outcome, c')"
    using p cn l by (auto simp: publish_at_def checked_ok and_then_eq_Inr Let_def get_connection_def split: if_splits)
  obtain s j o0 o1 disc c3 where e: "jo_records j = jo_records (co_journal_outbox ?c)
      @ map (\<lambda>m. \<lparr>jr_message = m\<rparr>) (durable_messages (map (am_to_outbound ?key) messages))"
    "fan_out (committed_core ?key messages planned s j ?c) bt_new c3 disc"
    and reach: "\<And>m x. m \<in> am_to_outbound ?key ` set messages \<Longrightarrow> is_critical (om_delivery m) \<Longrightarrow>
       conn_subscribed ?c x ?key (om_space m) \<Longrightarrow> receiving_connection ?c ?key m x \<noteq> None \<Longrightarrow> reached c3 disc m x"
    and d: "disconnect_slow clock (bt_keys disc) o1 c3 = commit_publish clock ?key messages planned ?c"
    "po_disconnected_slow_consumers o1 = []" "\<And>x. bs_contains disc x \<Longrightarrow> bt_contains_key (co_connections c3) x"
    and s: "bt_get (co_sessions ?c) ?key = Some s"
    and all: "deliver_all ?key (map (am_to_outbound ?key) messages) (o0, bt_new) (committed_core ?key messages planned s j ?c)
      = (Inr (o1, disc), c3)"
    using commit_publish_delivers [OF wf1 authorize_publish_ok [OF auth], of clock] by metis
  have "reached c3 disc m x" if m: "m \<in> am_to_outbound ?key ` set messages" "is_critical (om_delivery m)"
    and x: "bt_get (co_connections c) x = Some xn" "entitled xn m" for m x xn
  proof (rule reach [OF m])
    have k: "session_of m = ?key" using m(1) by auto
    show "conn_subscribed ?c x ?key (om_space m)"
      using x k by (auto simp: conn_subscribed_def bt_get_modify entitled_def)
    show "receiving_connection ?c ?key m x \<noteq> None"
      using x k by (auto simp: receiving_connection_def bt_get_modify entitled_def)
  qed
  with that [OF auth [unfolded authorize_limited] cn _ e(2) _ _ d(2,3) _ all] e(1) d(1) cp s show ?thesis by simp
qed

lemma publish_success:
  assumes wf: "core_wf c" and p: "publish_at clock r now c = (Inr outcome, c')"
  obtains messages planned cn limiter s j o1 disc c3 where
    "authorize_publish c r = Inr (messages, planned)"
    "bt_get (co_connections c) (pq_connection r) = Some cn"
    "jo_records j = jo_records (co_journal_outbox c)
      @ map (\<lambda>m. \<lparr>jr_message = m\<rparr>) (durable_messages (map (am_to_outbound (pq_session r)) messages))"
    "fan_out (committed_core (pq_session r) messages planned s j
        (map_connection (pq_connection r) (\<lambda>cn. cn\<lparr>cn_rate_limiter := limiter\<rparr>) c)) bt_new c3 disc"
    "\<And>m x xn. m \<in> am_to_outbound (pq_session r) ` set messages \<Longrightarrow> is_critical (om_delivery m) \<Longrightarrow>
       bt_get (co_connections c) x = Some xn \<Longrightarrow> entitled xn m \<Longrightarrow> reached c3 disc m x"
    "disconnect_slow clock (bt_keys disc) o1 c3 = (Inr outcome, c')"
    "po_disconnected_slow_consumers o1 = []"
    "\<And>x. bs_contains disc x \<Longrightarrow> bt_contains_key (co_connections c3) x"
  by (rule publish_delivers [OF assms]) (rule that)

text \<open>
  C3. Critical delivery. When a publish succeeds, every connection that was entitled to a
  critical message it was authorised to send either holds the message in its critical queue, or
  has been disconnected as a slow consumer and is reported as such. The only other way not to
  hold it is that disconnecting a slow consumer ended what the message is about: its entity or
  space is gone, or the subscription with the space.
\<close>

theorem critical_message_reaches_every_subscriber:
  assumes "reachable_core c" "publish_at clock r now c = (Inr outcome, c')"
    and "authorize_publish c r = Inr (messages, planned)" "a \<in> set messages" "is_critical (am_delivery a)"
    and "bt_get (co_connections c) x = Some xn" "entitled xn (am_to_outbound (pq_session r) a)"
  shows "if is_connected c' x
    then \<exists>xn'. bt_get (co_connections c') x = Some xn'
      \<and> x \<notin> set (po_disconnected_slow_consumers outcome)
      \<and> (am_to_outbound (pq_session r) a \<in> set (oq_critical (cn_outbound xn'))
         \<or> po_disconnected_slow_consumers outcome \<noteq> []
           \<and> (\<not> live_message c' (am_to_outbound (pq_session r) a)
              \<or> \<not> entitled xn' (am_to_outbound (pq_session r) a)))
    else x \<in> set (po_disconnected_slow_consumers outcome)"
proof -
  let ?m = "am_to_outbound (pq_session r) a"
  note wf = reachable_wf [OF assms(1)]
  obtain messages' planned' cn limiter s j o1 disc c3 where auth: "authorize_publish c r = Inr (messages', planned')"
    and f: "fan_out (committed_core (pq_session r) messages' planned' s j
        (map_connection (pq_connection r) (\<lambda>cn. cn\<lparr>cn_rate_limiter := limiter\<rparr>) c)) bt_new c3 disc"
    and reach: "\<And>m x xn. m \<in> am_to_outbound (pq_session r) ` set messages' \<Longrightarrow> is_critical (om_delivery m) \<Longrightarrow>
       bt_get (co_connections c) x = Some xn \<Longrightarrow> entitled xn m \<Longrightarrow> reached c3 disc m x"
    and d: "disconnect_slow clock (bt_keys disc) o1 c3 = (Inr outcome, c')" "po_disconnected_slow_consumers o1 = []"
    and dk: "\<And>x. bs_contains disc x \<Longrightarrow> bt_contains_key (co_connections c3) x"
    by (rule publish_success [OF wf assms(2)]) blast
  have same: "messages' = messages" using auth assms(3) by simp
  have c3: "core_wf c3" using f by (simp add: fan_out_def)
  have pruned: "core_pruned c3 c'" using disconnect_slow_pruned [OF c3, of clock "bt_keys disc" o1] d by simp
  have list: "set (po_disconnected_slow_consumers outcome) = {x. bs_contains disc x}"
    and conns: "bt_contains_key (co_connections c') y \<longleftrightarrow> bt_contains_key (co_connections c3) y \<and> \<not> bs_contains disc y" for y
    using disconnect_slow_ok [OF c3, of clock "bt_keys disc" o1] d dk by (auto simp: bs_contains_keys)
  have nil: "c' = c3" if "po_disconnected_slow_consumers outcome = []"
  proof -
    have "bt_keys disc = []" using list that by (auto simp: bs_contains_keys)
    then show ?thesis using d(1) by simp
  qed
  have "reached c3 disc ?m x" using reach [of ?m x xn] assms(4-7) by (simp add: same)
  show ?thesis
  proof (cases "is_connected c' x")
    case True
    then obtain xn' where xn': "bt_get (co_connections c') x = Some xn'" by (auto simp: is_connected_def bt_contains_key_def)
    have nd: "\<not> bs_contains disc x" using True conns by (simp add: is_connected_def)
    then obtain x3 where x3: "bt_get (co_connections c3) x = Some x3" "?m \<in> set (oq_critical (cn_outbound x3))"
      using \<open>reached c3 disc ?m x\<close> by (auto simp: reached_def)
    then have "connection_pruned c' x3 xn'" using pruned xn' unfolding core_pruned_def by force
    then have "?m \<in> set (oq_critical (cn_outbound xn')) \<or> \<not> live_message c' ?m \<or> \<not> entitled xn' ?m"
      using x3(2) unfolding connection_pruned_def by blast
    moreover have "?m \<in> set (oq_critical (cn_outbound xn'))" if "po_disconnected_slow_consumers outcome = []"
      using nil [OF that] xn' x3 by simp
    ultimately show ?thesis using True xn' nd list by auto
  next
    case False
    have "bt_contains_key (co_connections c3) x"
      using \<open>reached c3 disc ?m x\<close> dk by (auto simp: reached_def bt_contains_key_def)
    then have "bs_contains disc x" using False conns by (simp add: is_connected_def)
    then show ?thesis using False list by simp
  qed
qed

lemma demo_authorized_ready: "authorize_publish demo_ready demo_request = Inr ([am_from_request demo_request], demo_planned)"
  using demo_authorized authorize_limited unfolding demo_limited_def by metis

lemma demo_publish_ok: "publish_at clock demo_request 0 demo_ready = (Inr demo_outcome, demo_published)"
  using demo_publish_run [of clock] demo_published_eq by simp

lemma critical_message_reaches_every_subscriber_witness:
  "\<exists>xn'. bt_get (co_connections demo_published) 2 = Some xn' \<and> demo_message_out \<in> set (oq_critical (cn_outbound xn'))"
proof -
  let ?xn = "demo_member (bs_insert demo_space_key bt_new) 0"
  have x: "bt_get (co_connections demo_ready) 2 = Some ?xn"
    by (simp add: demo_ready_def demo_stage_def bt_get_insert)
  have e: "entitled ?xn (am_to_outbound (pq_session demo_request) (am_from_request demo_request))"
    by (simp add: entitled_def demo_connection_def demo_request_def am_from_request_def can_receive_def
        demo_space_key_def demo_principal_def demo_key_def eval)
  have crit: "is_critical (am_delivery (am_from_request demo_request))"
    by (simp add: am_from_request_def demo_request_def)
  have "is_connected demo_published 2"
    using demo_published_connections(2) by (simp add: is_connected_def bt_contains_key_def)
  moreover have "am_to_outbound (pq_session demo_request) (am_from_request demo_request) = demo_message_out"
    by (simp add: demo_message_out_def demo_request_def)
  ultimately show ?thesis
    using critical_message_reaches_every_subscriber [OF demo_ready_reachable demo_publish_ok demo_authorized_ready _ crit x e]
    by (auto simp: demo_outcome_def)
qed

text \<open>
  C9. Journalling. A successful publish appends to the journal outbox exactly the durable messages
  it authorised, in order, after everything that was waiting there; nothing else of the outbox
  changes, and the outbox stays within its capacity.
\<close>

theorem publish_journals_durable_messages_in_order:
  assumes "reachable_core c" "publish_at clock r now c = (Inr outcome, c')"
  shows "\<exists>messages planned. authorize_publish c r = Inr (messages, planned)
    \<and> map jr_message (jo_records (co_journal_outbox c'))
        = map jr_message (jo_records (co_journal_outbox c))
          @ map (am_to_outbound (pq_session r)) (filter (\<lambda>a. am_persistence a = Durable) messages)
    \<and> length (jo_records (co_journal_outbox c')) \<le> jo_capacity (co_journal_outbox c')"
proof -
  note wf = reachable_wf [OF assms(1)]
  obtain messages planned cn limiter s j o1 disc c3 where auth: "authorize_publish c r = Inr (messages, planned)"
    and j: "jo_records j = jo_records (co_journal_outbox c)
      @ map (\<lambda>m. \<lparr>jr_message = m\<rparr>) (durable_messages (map (am_to_outbound (pq_session r)) messages))"
    and f: "fan_out (committed_core (pq_session r) messages planned s j
        (map_connection (pq_connection r) (\<lambda>cn. cn\<lparr>cn_rate_limiter := limiter\<rparr>) c)) bt_new c3 disc"
    and d: "disconnect_slow clock (bt_keys disc) o1 c3 = (Inr outcome, c')"
    by (rule publish_success [OF wf assms(2)]) blast
  have c3: "core_wf c3" "co_journal_outbox c3 = j"
    using f queues_growD(3) [of "committed_core (pq_session r) messages planned s j
        (map_connection (pq_connection r) (\<lambda>cn. cn\<lparr>cn_rate_limiter := limiter\<rparr>) c)" c3]
    by (simp_all add: fan_out_def committed_core_def)
  have "co_journal_outbox c' = j"
    using disconnect_slow_pruned [OF c3(1), of clock "bt_keys disc" o1] d c3(2) by (simp add: core_pruned_def)
  moreover have "core_wf c'" using publish_at_wf [OF wf, of clock r now] assms(2) by simp
  ultimately show ?thesis
    using auth j store_wfD(7) [of c'] by (simp add: durable_messages_def filter_map comp_def jo_wf_def)
qed

lemma publish_journals_durable_messages_in_order_witness:
  "map jr_message (jo_records (co_journal_outbox demo_published)) = []"
proof -
  have "jo_records (co_journal_outbox demo_ready) = []"
    by (simp add: demo_ready_def demo_stage_def demo_start_def demo_core_def jo_new_def)
  then show ?thesis
    using publish_journals_durable_messages_in_order [OF demo_ready_reachable demo_publish_ok [of "\<lambda>_ _ _. 0"]]
      demo_authorized_ready by (auto simp: am_from_request_def demo_request_def)
qed

end
