(* ===== verification/Replay.thy ===== *)
theory Replay
  imports CoreProps
begin

text \<open>
  Replay protection over runs: what a successful publish records, and that its sequence is used up
  for as long as its stream lives, whatever the core does in between.
\<close>

section \<open>Refused publishes\<close>

lemma publish_refused:
  assumes "\<And>mp. authorize_publish c r \<noteq> Inr mp"
  shows "\<exists>e c'. publish_at clock r now c = (Inl e, c') \<and> co_sessions c' = co_sessions c
    \<and> co_journal_outbox c' = co_journal_outbox c"
proof (cases "and_then (validate_connection_id (pq_connection r)) (\<lambda>_. get_connection c (pq_connection r))")
  case (Inl e')
  then show ?thesis by (simp add: publish_at_def)
next
  case (Inr cn)
  obtain admitted limiter where l: "rl_admit (cc_publish_rate_limit (co_config c)) now (cn_rate_limiter cn) = (admitted, limiter)"
    by force
  let ?c = "map_connection (pq_connection r) (\<lambda>cn. cn\<lparr>cn_rate_limiter := limiter\<rparr>) c"
  have "authorize_publish ?c r \<noteq> Inr mp" for mp using assms by (simp add: authorize_limited)
  then obtain e where e: "and_then admitted (\<lambda>_. authorize_publish ?c r) = Inl e"
    by (cases "and_then admitted (\<lambda>_. authorize_publish ?c r)") (auto simp: and_then_eq_Inr)
  then have "publish_at clock r now c = (Inl e, ?c)" using Inr l by (simp add: publish_at_def Let_def)
  then show ?thesis by simp
qed

text \<open>
  A replay is refused: while a session records the sequence \<open>v\<close> for the stream of a publish
  (connection, space, epoch, entity, channel and component), no publish in that stream with a
  sequence up to \<open>v\<close> succeeds.
\<close>

theorem replay_refused:
  assumes "bt_get (co_sessions c) (pq_session r) = Some s"
    and "bt_get (sn_sequences s) (message_sequence_key (pq_connection r) (am_from_request r)) = Some v"
    and "pq_sequence r \<le> v"
  shows "\<exists>e c'. publish_at clock r now c = (Inl e, c') \<and> co_sessions c' = co_sessions c
    \<and> co_journal_outbox c' = co_journal_outbox c"
proof (rule publish_refused, rule notI)
  fix mp assume "authorize_publish c r = Inr mp"
  then have "authorize_publish c r = Inr (fst mp, snd mp)" by simp
  then have "validate_message c (pq_connection r) (pq_session r) (am_from_request r) None = Inr ()"
    by (rule authorize_publishE)
  from validate_message_newer [OF this assms(1,2)] assms(3) show False by (simp add: am_from_request_def)
qed

lemma replay_refused_witness:
  "\<exists>e. fst (publish_at (\<lambda>_ _ _. 0) (demo_request\<lparr>pq_sequence := 4\<rparr>) 0 demo_published) = Inl e"
proof -
  let ?r = "demo_request\<lparr>pq_sequence := 4\<rparr>"
  have "bt_get (co_sessions demo_published) (pq_session ?r) = Some ((demo_session (bs_insert 1 (bs_insert 2 bt_new))
     (bs_insert 1 (bs_insert 2 bt_new)) (bt_insert 1 demo_entity bt_new))\<lparr>sn_sequences := demo_planned,
       sn_state_map := bt_insert (StateKey 1 1 (Some 1) 1 0) \<lparr>sr_sequence = 5, sr_payload = [1, 2]\<rparr> bt_new,
       sn_bytes := 2\<rparr>)"
    using demo_published_session by (simp add: demo_request_def)
  moreover have "message_sequence_key (pq_connection ?r) (am_from_request ?r) = SequenceKey 1 1 1 (Some 1) 1 0"
    by (simp add: message_sequence_key_def am_from_request_def demo_request_def message_component_def)
  ultimately show ?thesis
    using replay_refused [of demo_published ?r _ 5 "\<lambda>_ _ _. 0" 0]
    by (fastforce simp: demo_planned_def demo_request_def)
qed

section \<open>The stream of a request\<close>

definition stream_of :: "publish_request \<Rightarrow> sequence_key" where
  "stream_of r = message_sequence_key (pq_connection r) (am_from_request r)"

text \<open>The session knows the stream: its connection is a member, its space and entity are current.\<close>

definition stream_alive :: "core \<Rightarrow> publish_request \<Rightarrow> bool" where
  "stream_alive c r \<longleftrightarrow> (\<exists>s. bt_get (co_sessions c) (pq_session r) = Some s \<and> sequence_alive s (stream_of r))"

text \<open>While the stream lives, a sequence of at least \<open>n\<close> is recorded for it.\<close>

definition used_up :: "u64 \<Rightarrow> publish_request \<Rightarrow> core \<Rightarrow> bool" where
  "used_up n r c \<longleftrightarrow> (\<exists>s. bt_get (co_sessions c) (pq_session r) = Some s \<and>
     (sequence_alive s (stream_of r) \<longrightarrow> (\<exists>v. bt_get (sn_sequences s) (stream_of r) = Some v \<and> n \<le> v)))"

lemma authorized_stream_alive:
  assumes "core_wf c" "authorize_publish c r = Inr mp"
  shows "stream_alive c r"
proof -
  have "authorize_publish c r = Inr (fst mp, snd mp)" using assms(2) by simp
  then obtain p where access: "publish_access c r = Inr p"
    and v: "validate_message c (pq_connection r) (pq_session r) (am_from_request r) None = Inr ()"
    by (rule authorize_publishE)
  from validate_message_ok [OF v] obtain s where s: "bt_get (co_sessions c) (pq_session r) = Some s"
    and pub: "publishable c (pq_session r) (am_from_request r)" by metis
  have "require_membership c (pq_connection r) (pq_session r) = Inr ()"
    using access unfolding publish_access_def Let_def result_ok by auto
  then have "bs_contains (sn_members s) (pq_connection r)"
    using require_membership_member core_session(3) [OF assms(1) s] by blast
  then have "sequence_alive s (stream_of r)"
    using pub s by (auto simp: sequence_alive_def stream_of_def message_sequence_key_def publishable_def)
  then show ?thesis using s by (auto simp: stream_alive_def)
qed

lemma used_up_refuses:
  assumes wf: "core_wf c" and used: "used_up n r c" and same: "stream_of r' = stream_of r" "pq_session r' = pq_session r"
    and old: "pq_sequence r' \<le> n"
  shows "\<exists>e c'. publish_at clock r' now c = (Inl e, c') \<and> co_sessions c' = co_sessions c
    \<and> co_journal_outbox c' = co_journal_outbox c"
proof (rule publish_refused, rule notI)
  fix mp assume a: "authorize_publish c r' = Inr mp"
  from authorized_stream_alive [OF wf a] used same obtain s v where
    s: "bt_get (co_sessions c) (pq_session r') = Some s" "bt_get (sn_sequences s) (stream_of r') = Some v" "n \<le> v"
    unfolding stream_alive_def used_up_def by auto
  have "authorize_publish c r' = Inr (fst mp, snd mp)" using a by simp
  then have "validate_message c (pq_connection r') (pq_session r') (am_from_request r') None = Inr ()"
    by (rule authorize_publishE)
  from validate_message_newer [OF this s(1)] s(2,3) old show False
    by (auto simp: stream_of_def am_from_request_def)
qed

section \<open>What a successful publish records\<close>

text \<open>Planning only raises the sequence planned for a stream.\<close>

lemma plan_messages_raises:
  assumes "plan_messages c cid key ms planned = Inr planned'" "bt_get planned k = Some v"
  shows "\<exists>v'. bt_get planned' k = Some v' \<and> v \<le> v'"
  using assms
proof (induction ms arbitrary: planned v)
  case (Cons m ms)
  let ?planned = "bt_insert (message_sequence_key cid m) (am_sequence m) planned"
  from Cons.prems(1) obtain u where u: "validate_message c cid key m (Some planned) = Inr u"
    and p: "plan_messages c cid key ms ?planned = Inr planned'" by (auto simp: result_ok)
  show ?case
  proof (cases "k = message_sequence_key cid m")
    case True
    obtain s where newest: "\<And>n. last_sequence s (Some planned) (message_sequence_key cid m) = Some n \<Longrightarrow> n < am_sequence m"
      using validate_message_ok [OF u] by metis
    have "Some v \<le> last_sequence s (Some planned) (message_sequence_key cid m)"
      using Cons.prems(2) True by (simp add: last_sequence_def)
    then obtain n where "last_sequence s (Some planned) (message_sequence_key cid m) = Some n" "v \<le> n"
      by (cases "last_sequence s (Some planned) (message_sequence_key cid m)") auto
    then have "v \<le> am_sequence m" using newest by fastforce
    moreover obtain v' where "bt_get planned' k = Some v'" "am_sequence m \<le> v'"
      using Cons.IH [OF p, of "am_sequence m"] True by (auto simp: bt_get_insert)
    ultimately show ?thesis by auto
  next
    case False
    then show ?thesis using Cons.IH [OF p] Cons.prems(2) by (simp add: bt_get_insert)
  qed
qed auto

text \<open>A policy that does not rewrite messages lets every request it accepts use up its own sequence.\<close>

definition never_rewrites :: "authority_policy \<Rightarrow> bool" where
  "never_rewrites policy \<longleftrightarrow> (\<forall>context proposed t. policy context proposed \<noteq> AO_Transform t)"

lemma relay_never_rewrites: "never_rewrites relay_owned_evaluate"
  by (simp add: never_rewrites_def relay_owned_evaluate_def)

lemma authorized_plans_its_sequence:
  assumes a: "authorize_publish c r = Inr (messages, planned)"
    and ch: "bt_get (co_channels c) (pq_channel r) = Some channel" "never_rewrites (cd_authority channel)"
  shows "\<exists>v. bt_get planned (stream_of r) = Some v \<and> pq_sequence r \<le> v"
proof -
  from a obtain p s planned0 where verdict: "authority_messages (co_config c) (pq_connection r) (am_from_request r)
        (cd_authority channel (context_of r p s) (proposed_of r)) = Inr (messages, planned0)"
    and plan: "plan_messages c (pq_connection r) (pq_session r) messages planned0 = Inr planned"
    using ch(1) by (elim authorize_publishE) auto
  have seq: "am_sequence (am_from_request r) = pq_sequence r" by (simp add: am_from_request_def)
  consider "messages = [am_from_request r]"
    | "bt_get planned0 (stream_of r) = Some (pq_sequence r)"
    using verdict ch(2) seq
    by (cases "cd_authority channel (context_of r p s) (proposed_of r)")
      (auto simp: never_rewrites_def stream_of_def bt_get_insert split: if_splits)
  then show ?thesis
  proof cases
    case 1
    with plan have "planned = bt_insert (stream_of r) (pq_sequence r) planned0"
      by (auto simp: stream_of_def seq result_ok)
    then show ?thesis by (simp add: bt_get_insert)
  next
    case 2
    then show ?thesis by (rule plan_messages_raises [OF plan])
  qed
qed

lemma publish_uses_up:
  assumes wf: "core_wf c" and p: "publish_at clock r now c = (Inr outcome, c')"
    and ch: "bt_get (co_channels c) (pq_channel r) = Some channel" "never_rewrites (cd_authority channel)"
  shows "used_up (pq_sequence r) r c'"
proof -
  obtain messages planned cn limiter s j o1 disc c3 where auth: "authorize_publish c r = Inr (messages, planned)"
    and f: "fan_out (committed_core (pq_session r) messages planned s j
        (map_connection (pq_connection r) (\<lambda>cn. cn\<lparr>cn_rate_limiter := limiter\<rparr>) c)) bt_new c3 disc"
    and d: "disconnect_slow clock (bt_keys disc) o1 c3 = (Inr outcome, c')"
    by (rule publish_success [OF wf p]) blast
  obtain v where v: "bt_get planned (stream_of r) = Some v" "pq_sequence r \<le> v"
    using authorized_plans_its_sequence [OF auth ch] by blast
  let ?s = "commit_session planned messages s"
  have c3: "core_wf c3" "bt_get (co_sessions c3) (pq_session r) = Some ?s"
    using f queues_growD(1) [of "committed_core (pq_session r) messages planned s j
        (map_connection (pq_connection r) (\<lambda>cn. cn\<lparr>cn_rate_limiter := limiter\<rparr>) c)" c3]
    by (simp_all add: fan_out_def committed_core_def bt_get_insert)
  have "core_evolves c3 c'"
    using evolves_pruned [OF disconnect_slow_pruned [OF c3(1), of clock "bt_keys disc" o1]] d by simp
  then obtain s' where s': "bt_get (co_sessions c') (pq_session r) = Some s'" "sequences_kept ?s s'"
    using c3(2) unfolding core_evolves_def by blast
  moreover have "bt_get (sn_sequences ?s) (stream_of r) = Some v"
    using v(1) by (simp add: commit_session_alt store_all_fields)
  ultimately show ?thesis using v(2) unfolding used_up_def sequences_kept_def by (meson order_trans)
qed

section \<open>Over a run\<close>

lemma used_up_step:
  assumes "core_wf c" "used_up n r c" "stream_alive c r"
  shows "used_up n r (core_step c a)"
proof -
  from assms(2,3) obtain s v where s: "bt_get (co_sessions c) (pq_session r) = Some s"
    "bt_get (sn_sequences s) (stream_of r) = Some v" "n \<le> v"
    unfolding used_up_def stream_alive_def by auto
  from core_step_evolves [OF assms(1), of a] s(1) obtain s' where
    "bt_get (co_sessions (core_step c a)) (pq_session r) = Some s'" "sequences_kept s s'"
    unfolding core_evolves_def by blast
  then show ?thesis using s(2,3) unfolding used_up_def sequences_kept_def by (meson order_trans)
qed

lemma used_up_run:
  assumes "core_wf c" "used_up n r c" "\<And>i. i < length actions \<Longrightarrow> stream_alive (core_run c (take i actions)) r"
  shows "used_up n r (core_run c actions)"
  using assms
proof (induction actions rule: rev_induct)
  case (snoc a actions)
  have alive: "stream_alive (core_run c (take i actions)) r" if "i \<le> length actions" for i
    using snoc.prems(3) [of i] that by simp
  have "used_up n r (core_run c actions)" using snoc.IH snoc.prems(1,2) alive by simp
  moreover have "core_wf (core_run c actions)" using core_ts.run_inv [OF snoc.prems(1)] by (simp add: core_run_def)
  ultimately show ?case
    using used_up_step alive [of "length actions"] by (simp add: core_run_def)
qed (simp add: core_run_def)

text \<open>
  C6. A sequence is accepted at most once. When a publish has succeeded on a channel whose policy does
  not rewrite messages (the relay-owned policy is one), no later publish in its stream, by the same
  connection for the same space, epoch, entity, channel and component, with the same or a lower
  sequence succeeds, whatever is done to the core in between, as long as the stream exists
  throughout: the connection stays in the session, the space keeps its epoch and the entity its space.
\<close>

theorem sequence_accepted_once:
  assumes "reachable_core c" "publish_at clock r now c = (Inr outcome, c1)"
    and "bt_get (co_channels c) (pq_channel r) = Some channel" "never_rewrites (cd_authority channel)"
    and "\<And>i. i < length actions \<Longrightarrow> stream_alive (core_run c1 (take i actions)) r"
    and "stream_of r' = stream_of r" "pq_session r' = pq_session r" "pq_sequence r' \<le> pq_sequence r"
  shows "\<exists>e c'. publish_at clock' r' now' (core_run c1 actions) = (Inl e, c')
    \<and> co_sessions c' = co_sessions (core_run c1 actions)
    \<and> co_journal_outbox c' = co_journal_outbox (core_run c1 actions)"
proof -
  note wf = reachable_wf [OF assms(1)]
  have wf1: "core_wf c1" using publish_at_wf [OF wf, of clock r now] assms(2) by simp
  have "used_up (pq_sequence r) r (core_run c1 actions)"
    using used_up_run [OF wf1 publish_uses_up [OF wf assms(2-4)] assms(5)] .
  moreover have "core_wf (core_run c1 actions)" using core_ts.run_inv [OF wf1] by (simp add: core_run_def)
  ultimately show ?thesis using used_up_refuses assms(6-8) by blast
qed

text \<open>In the demonstration, the second client publishes nothing new by draining its queue in between.\<close>

lemma sequence_accepted_once_witness:
  "\<exists>e c'. publish_at (\<lambda>_ _ _. 0) (demo_request\<lparr>pq_sequence := 4, pq_payload := [9]\<rparr>) 1
     (core_run demo_published [A_Command demo_clock (C_DrainOutbound 2)]) = (Inl e, c')"
proof -
  let ?r = "demo_request\<lparr>pq_sequence := 4, pq_payload := [9]\<rparr>"
  have "cd_authority demo_channel = relay_owned_evaluate" by (simp add: demo_channel_def channel_relay_owned_def)
  then have ch: "bt_get (co_channels demo_ready) (pq_channel demo_request) = Some demo_channel"
      "never_rewrites (cd_authority demo_channel)"
    using relay_never_rewrites by (simp_all add: demo_ready_def demo_stage_def demo_start_def demo_request_def)
  have same: "stream_of ?r = stream_of demo_request" "pq_session ?r = pq_session demo_request"
    by (simp_all add: stream_of_def message_sequence_key_def am_from_request_def message_component_def)
  have "stream_alive demo_published demo_request"
    by (simp add: stream_alive_def stream_of_def demo_published_session demo_request_def sequence_alive_def
        message_sequence_key_def am_from_request_def live_scope_def current_space_def demo_session_def
        demo_entity_def demo_descriptor_def)
  then have "stream_alive (core_run demo_published (take i [A_Command demo_clock (C_DrainOutbound 2)])) demo_request"
    if "i < length [A_Command demo_clock (C_DrainOutbound 2)]" for i
    using that by (simp add: core_run_def)
  from sequence_accepted_once [OF demo_ready_reachable demo_publish_ok [of "\<lambda>_ _ _. 0"] ch this same,
      of "\<lambda>_ _ _. 0" 1]
  show ?thesis by (auto simp: demo_request_def)
qed

end
