(* ===== verification/SpatialGap.thy ===== *)
theory SpatialGap
  imports Spatial
begin

text \<open>
  Exact binary64 results: what the arithmetic of \<open>F64\<close> yields on a few values, for the examples of
  spatial routing.
\<close>

section \<open>Exact results\<close>

lemma bitlen_eq: "2 ^ k \<le> n \<Longrightarrow> n < 2 ^ Suc k \<Longrightarrow> bitlen n = Suc k"
proof (induction k arbitrary: n)
  case 0
  then have "n = 1" by simp
  then show ?case by (simp add: bitlen.simps)
next
  case (Suc k)
  then have "bitlen (n div 2) = Suc k" by (intro Suc.IH) auto
  then show ?case using Suc.prems by (subst bitlen.simps) auto
qed

text \<open>A ratio that is a 53-bit number times a power of two is not rounded.\<close>

lemma f64_round_exact:
  assumes "0 < d" "2 ^ 52 \<le> q" "q < 2 ^ 53" "s * 2 ^ 52 + q \<le> f64_inf_magnitude"
  shows "f64_round_magnitude (q * 2 ^ s * d) d = s * 2 ^ 52 + q"
proof -
  have "2 ^ (52 + s) \<le> q * 2 ^ s" "q * 2 ^ s < 2 ^ Suc (52 + s)"
    using assms(2,3) by (simp_all add: power_add)
  then have "bitlen (q * 2 ^ s) = Suc (52 + s)" by (rule bitlen_eq)
  then have s: "bitlen (q * 2 ^ s * d div d) - 53 = s" using assms(1) by simp
  have "q * 2 ^ s * d = q * (d * 2 ^ s)" by simp
  then have "q * 2 ^ s * d div (d * 2 ^ s) = q" "q * 2 ^ s * d mod (d * 2 ^ s) = 0"
    using assms(1) by simp_all
  then show ?thesis
    using assms(1,4) unfolding f64_round_magnitude_def s Let_def by simp
qed

text \<open>The values of the example: quarter, half, three quarters and one.\<close>

abbreviation quarter :: f64 where "quarter \<equiv> 0x3FD0000000000000"
abbreviation half :: f64 where "half \<equiv> 0x3FE0000000000000"
abbreviation three_quarters :: f64 where "three_quarters \<equiv> 0x3FE8000000000000"
abbreviation one_f64 :: f64 where "one_f64 \<equiv> 0x3FF0000000000000"

lemmas f64_bits = f64_neg_def f64_magnitude_def f64_exponent_def f64_mantissa_def f64_is_finite_def
  f64_is_nan_def f64_is_inf_def

lemma example_bits [simp]:
  "\<not> f64_neg quarter" "\<not> f64_neg half" "\<not> f64_neg three_quarters" "\<not> f64_neg one_f64" "\<not> f64_neg 0"
  "\<not> f64_is_nan quarter" "\<not> f64_is_nan half" "\<not> f64_is_nan three_quarters" "\<not> f64_is_nan one_f64" "\<not> f64_is_nan 0"
  "\<not> f64_is_inf quarter" "\<not> f64_is_inf half" "\<not> f64_is_inf three_quarters" "\<not> f64_is_inf one_f64" "\<not> f64_is_inf 0"
  "f64_is_finite half" "f64_is_finite one_f64" "f64_is_finite three_quarters" "f64_is_finite 0"
  by (simp_all add: f64_bits)

lemma example_magnitudes [simp]:
  "f64_fix_magnitude quarter = 2 ^ 1072" "f64_fix_magnitude half = 2 ^ 1073"
  "f64_fix_magnitude three_quarters = 3 * 2 ^ 1072" "f64_fix_magnitude one_f64 = 2 ^ 1074"
  "f64_fix_magnitude 0 = 0"
  by (simp_all add: f64_fix_magnitude_def f64_bits)

text \<open>Powers of two, and three quarters.\<close>

lemma round_power:
  assumes "0 < d" "s < 2046"
  shows "f64_round_magnitude (2 ^ (52 + s) * d) d = Suc s * 2 ^ 52"
proof -
  have "s * 2 ^ 52 + 2 ^ 52 \<le> f64_inf_magnitude" using assms(2) by (simp add: f64_inf_magnitude_def)
  then have "f64_round_magnitude (2 ^ 52 * 2 ^ s * d) d = s * 2 ^ 52 + 2 ^ 52"
    by (intro f64_round_exact [OF assms(1)]) simp_all
  then show ?thesis by (simp add: power_add)
qed

lemma round_half: "0 < d \<Longrightarrow> f64_round_magnitude (2 ^ 1073 * d) d = 1022 * 2 ^ 52"
  using round_power [of d 1021] by simp

lemma round_quarter: "0 < d \<Longrightarrow> f64_round_magnitude (2 ^ 1072 * d) d = 1021 * 2 ^ 52"
  using round_power [of d 1020] by simp

lemma round_one: "0 < d \<Longrightarrow> f64_round_magnitude (2 ^ 1074 * d) d = 1023 * 2 ^ 52"
  using round_power [of d 1022] by simp

lemma round_three_quarters: "0 < d \<Longrightarrow> f64_round_magnitude (3 * 2 ^ 1072 * d) d = 1022 * 2 ^ 52 + 2 ^ 51"
proof -
  assume "0 < d"
  then have "f64_round_magnitude (3 * 2 ^ 51 * 2 ^ 1021 * d) d = 1021 * 2 ^ 52 + 3 * 2 ^ 51"
    by (rule f64_round_exact) (simp_all add: f64_inf_magnitude_def)
  moreover have "(3 :: nat) * 2 ^ 51 * 2 ^ 1021 = 3 * 2 ^ 1072"
    by (simp only: mult.assoc power_add [symmetric]) simp
  ultimately have "f64_round_magnitude (3 * 2 ^ 1072 * d) d = 1021 * 2 ^ 52 + 3 * 2 ^ 51" by (simp only:)
  then show ?thesis by simp
qed

lemma round_zero: "f64_round_magnitude 0 d = 0"
  by (simp add: f64_round_magnitude_def Let_def bitlen.simps [of 0])

lemma example_division:
  "f64_div half one_f64 = half" "f64_div one_f64 one_f64 = one_f64" "f64_div 0 one_f64 = 0"
  "f64_div three_quarters one_f64 = three_quarters" "f64_div half half = one_f64" "f64_div 0 half = 0"
proof -
  have fix_pos: "f64_fix one_f64 \<noteq> 0" "f64_fix half \<noteq> 0" by (simp_all add: f64_fix_def)
  have unit: "(0 :: nat) < 2 ^ 1074" "(0 :: nat) < 2 ^ 1073" by simp_all
  note d = f64_div_def f64_round_def f64_signed_def f64_unit_def fix_pos Let_def
  show "f64_div half one_f64 = half"
    using round_half [OF unit(1)] by (simp only: d example_bits example_magnitudes) simp
  show "f64_div one_f64 one_f64 = one_f64"
    using round_one [OF unit(1)] by (simp only: d example_bits example_magnitudes) simp
  show "f64_div three_quarters one_f64 = three_quarters"
    using round_three_quarters [OF unit(1)] by (simp only: d example_bits example_magnitudes) simp
  have "(2 :: nat) ^ 1073 * 2 ^ 1074 = 2 ^ 1074 * 2 ^ 1073" by (rule mult.commute)
  then show "f64_div half half = one_f64"
    using round_one [OF unit(2)] by (simp only: d example_bits example_magnitudes) simp
  show "f64_div 0 one_f64 = 0" "f64_div 0 half = 0"
    by (simp_all only: d example_bits example_magnitudes) (simp_all add: round_zero)
qed

abbreviation minus_quarter :: f64 where "minus_quarter \<equiv> 0xBFD0000000000000"
abbreviation minus_half :: f64 where "minus_half \<equiv> 0xBFE0000000000000"
abbreviation minus_one :: f64 where "minus_one \<equiv> 0xBFF0000000000000"

lemma negative_bits [simp]:
  "f64_neg minus_quarter" "f64_neg minus_half" "f64_neg minus_one" "f64_neg (2 ^ 63)"
  "\<not> f64_is_nan minus_quarter" "\<not> f64_is_nan minus_half" "\<not> f64_is_nan minus_one"
  "\<not> f64_is_inf minus_quarter" "\<not> f64_is_inf minus_half" "\<not> f64_is_inf minus_one"
  "f64_fix_magnitude minus_quarter = 2 ^ 1072" "f64_fix_magnitude minus_half = 2 ^ 1073"
  "f64_fix_magnitude minus_one = 2 ^ 1074"
  by (simp_all add: f64_fix_magnitude_def f64_bits)

lemma example_fix:
  "f64_fix quarter = 2 ^ 1072" "f64_fix half = 2 ^ 1073" "f64_fix three_quarters = 3 * 2 ^ 1072"
  "f64_fix one_f64 = 2 ^ 1074" "f64_fix 0 = 0" "f64_fix minus_quarter = - (2 ^ 1072)"
  "f64_fix minus_one = - (2 ^ 1074)" "f64_fix minus_half = - (2 ^ 1073)"
  by (simp_all only: f64_fix_def example_bits example_magnitudes negative_bits) simp_all

lemma example_difference: "f64_sub three_quarters one_f64 = minus_quarter"
proof -
  have n: "f64_negate one_f64 = minus_one" by (simp add: f64_negate_def f64_signed_def f64_bits)
  have "(3 * 2 ^ 1072 + - (2 ^ 1074) :: int) = - (2 ^ 1072)" by simp
  then have "f64_add three_quarters minus_one = f64_of_fix False (- (2 ^ 1072))"
    by (simp only: f64_add_def example_fix example_bits negative_bits) simp
  also have "\<dots> = minus_quarter"
  proof -
    have "nat \<bar>- (2 ^ 1072) :: int\<bar> = 2 ^ 1072 * 1" by (simp add: nat_power_eq)
    moreover have "(- (2 ^ 1072) :: int) < 0" by simp
    ultimately show ?thesis
      using round_quarter [of 1] by (simp only: f64_of_fix_def f64_round_def f64_signed_def) simp
  qed
  finally show ?thesis by (simp only: f64_sub_def n example_bits if_False)
qed

section \<open>Cells and distance of the example\<close>

lemma floor_three_quarters: "f64_floor three_quarters = 0"
proof -
  have m: "f64_fix three_quarters mod int f64_unit \<noteq> 0" "f64_fix three_quarters div int f64_unit = 0"
    by (simp_all only: example_fix f64_unit_def) simp_all
  then show ?thesis
    by (simp add: f64_floor_def f64_of_fix_def f64_round_def round_zero f64_signed_def)
qed

lemma floor_whole: "f64_floor one_f64 = one_f64" "f64_floor 0 = 0"
proof -
  have m: "f64_fix one_f64 mod int f64_unit = 0" "f64_fix 0 mod int f64_unit = 0"
    by (simp_all only: example_fix f64_unit_def) simp_all
  then show "f64_floor one_f64 = one_f64" "f64_floor 0 = 0" by (simp_all add: f64_floor_def)
qed

lemma of_int_min: "f64_of_int i64_min = 0xC3E0000000000000"
proof -
  have "nat \<bar>i64_min * int f64_unit\<bar> = 2 ^ (52 + 1085) * 1" "i64_min * int f64_unit < 0"
    by (simp_all add: i64_min_def f64_unit_def)
  then show ?thesis
    using round_power [of 1 1085] by (simp only: f64_of_int_def f64_of_fix_def f64_round_def f64_signed_def) simp
qed

lemma of_int_max: "f64_of_int i64_max = 0x43E0000000000000"
proof -
  define unit :: nat where "unit = 2 ^ 1074"
  let ?n = "(2 ^ 63 - 1) * unit"
  have u: "0 < unit" by (simp add: unit_def)
  have "2 ^ 62 * unit \<le> ?n" "?n < 2 ^ 63 * unit" using u by simp_all
  moreover have "2 ^ 62 * unit = 2 ^ 1136" "2 ^ 63 * unit = 2 ^ Suc 1136"
    unfolding unit_def by (simp_all only: power_add [symmetric]) simp_all
  ultimately have "bitlen ?n = Suc 1136" by (intro bitlen_eq) simp_all
  then have s: "bitlen (?n div 1) - 53 = 1084" by simp
  have d: "(1 :: nat) * 2 ^ 1084 = 1024 * unit"
    unfolding unit_def using power_add [of "2 :: nat" 10 1074] by simp
  have "?n div (1024 * unit) = (2 ^ 63 - 1) div 1024" "?n mod (1024 * unit) = (2 ^ 63 - 1) mod 1024 * unit"
    using u by (simp_all only: div_mult_mult2 mult_mod_left)
  then have q: "?n div (1024 * unit) = 2 ^ 53 - 1" "?n mod (1024 * unit) = 1023 * unit" by simp_all
  have "1024 * unit < 2 * (1023 * unit)" using u by simp
  then have "f64_round_magnitude ?n 1 = min (1084 * 2 ^ 52 + (2 ^ 53 - 1 + 1)) f64_inf_magnitude"
    by (simp only: f64_round_magnitude_def Let_def s d q if_True simp_thms)
  then have r: "f64_round_magnitude ?n 1 = 1086 * 2 ^ 52" by (simp add: f64_inf_magnitude_def)
  have "i64_max * int f64_unit = int ?n" by (simp add: i64_max_def f64_unit_def unit_def)
  then show ?thesis
    using u by (simp only: f64_of_int_def f64_of_fix_def f64_round_def f64_signed_def r abs_of_nat nat_int) simp
qed

lemma limit_bits:
  "\<not> f64_is_nan 0xC3E0000000000000" "\<not> f64_is_nan 0x43E0000000000000"
  "f64_fix 0xC3E0000000000000 = - (2 ^ 1137)" "f64_fix 0x43E0000000000000 = 2 ^ 1137"
  by (simp_all add: f64_fix_def f64_fix_magnitude_def f64_bits)

lemma example_coordinates:
  "grid_coordinate three_quarters one_f64 = Inr 0" "grid_coordinate one_f64 one_f64 = Inr 1"
  "grid_coordinate 0 one_f64 = Inr 0"
proof -
  have t: "f64_to_i64 0 = 0" by (simp add: f64_to_i64_def example_fix i64_min_def i64_max_def)
  have u: "f64_to_i64 one_f64 = 1"
    by (simp add: f64_to_i64_def example_fix i64_min_def i64_max_def f64_unit_def)
  note g = grid_coordinate_def example_division floor_three_quarters floor_whole of_int_min of_int_max
    Let_def f64_lt_def f64_le_def limit_bits example_fix t u
  show "grid_coordinate three_quarters one_f64 = Inr 0" by (simp add: g)
  show "grid_coordinate one_f64 one_f64 = Inr 1" by (simp add: g)
  show "grid_coordinate 0 one_f64 = Inr 0" by (simp add: g)
qed

lemma of_int_one: "f64_of_int 1 = one_f64"
proof -
  have "nat \<bar>1 * int f64_unit\<bar> = 2 ^ 1074 * 1" "\<not> 1 * int f64_unit < 0" "1 * int f64_unit \<noteq> 0"
    by (simp_all add: f64_unit_def)
  then show ?thesis
    using round_one [of 1] by (simp only: f64_of_int_def f64_of_fix_def f64_round_def f64_signed_def) simp
qed

lemma example_cells: "\<not> cells_are_near (SC_2D 0 0) (SC_2D 1 0) (f64_div half one_f64)"
  by (simp add: abs_diff_f64_def of_int_one example_division f64_le_def example_fix)

lemma example_within: "squared_distance_within (EP_Cartesian2D three_quarters 0) (EP_Cartesian2D one_f64 0) half"
proof -
  have z: "f64_negate 0 = 0x8000000000000000" "f64_fix 0x8000000000000000 = 0"
    "\<not> f64_is_nan 0x8000000000000000" "\<not> f64_is_inf 0x8000000000000000"
    by (simp_all add: f64_negate_def f64_signed_def f64_bits f64_fix_def f64_fix_magnitude_def)
  have s: "f64_sub 0 0 = 0"
    by (simp add: f64_sub_def z f64_add_def f64_of_fix_def f64_round_def round_zero f64_signed_def example_fix)
  have a: "f64_abs minus_quarter = quarter" "f64_abs 0 = 0"
    by (simp_all add: f64_abs_def f64_signed_def f64_bits)
  have m: "f64_max half quarter = half" "f64_max half 0 = half"
    by (simp_all add: f64_max_def f64_lt_def example_fix)
  have dq: "f64_div minus_quarter half = minus_half"
  proof -
    have p: "(0 :: nat) < 2 ^ 1073" by simp
    have "(2 :: nat) ^ 1072 * 2 ^ 1074 = 2 ^ 1073 * 2 ^ 1073" by (simp only: power_add [symmetric]) simp
    then show ?thesis
      using round_half [OF p]
      by (simp only: f64_div_def f64_round_def f64_signed_def f64_unit_def Let_def example_bits negative_bits
          example_magnitudes example_fix) simp
  qed
  have sq: "f64_square minus_half = quarter" "f64_square 0 = 0" "f64_square one_f64 = one_f64"
  proof -
    have u: "(0 :: nat) < 2 ^ 1074" by simp
    have "(2 :: nat) ^ 1073 * 2 ^ 1073 = 2 ^ 1072 * 2 ^ 1074" by (simp only: power_add [symmetric]) simp
    then show "f64_square minus_half = quarter"
      using round_quarter [OF u]
      by (simp only: f64_square_def f64_mul_def f64_round_def f64_signed_def f64_unit_def Let_def
          example_bits negative_bits) simp
    show "f64_square 0 = 0"
      by (simp add: f64_square_def f64_mul_def f64_round_def f64_signed_def Let_def round_zero)
    show "f64_square one_f64 = one_f64"
      using round_one [OF u]
      by (simp only: f64_square_def f64_mul_def f64_round_def f64_signed_def f64_unit_def Let_def
          example_bits example_magnitudes) simp
  qed
  have ad: "f64_add (f64_add 0 quarter) 0 = quarter"
  proof -
    have "f64_of_fix False (2 ^ 1072) = quarter"
      using round_quarter [of 1] by (simp add: f64_of_fix_def f64_round_def f64_signed_def nat_power_eq)
    then have "f64_of_fix False (0 + 2 ^ 1072) = quarter" "f64_of_fix False (2 ^ 1072 + 0) = quarter"
      by (simp_all only: add_0 add_0_right)
    then show ?thesis
      by (simp only: f64_add_def example_fix example_bits if_False simp_thms)
  qed
  show ?thesis
    by (simp add: squared_distance_within_def example_difference s a m dq example_division sq ad f64_le_def example_fix)
qed
end
