(* ===== verification/RoutingProps.thy ===== *)
theory RoutingProps
  imports CoreInvPublish SpatialGap
begin

text \<open>
  Properties of routing and of the publish rate limit: the cell index finds exactly the recipients
  a scan over all entities would find, and the fixed-window limiter bounds every interval.
\<close>

section \<open>Spatial routing\<close>

definition near_entity ::
  "session_state \<Rightarrow> outbound_message \<Rightarrow> f64 \<Rightarrow> f64 \<Rightarrow> bool \<Rightarrow> entity_position \<Rightarrow> spatial_cell_key \<Rightarrow> entity_id \<Rightarrow> entity_record \<Rightarrow> bool"
where
  "near_entity s m grid radius exact source origin e r \<longleftrightarrow>
     bt_get (sn_entity_map s) e = Some r
   \<and> (\<exists>pos k. er_position r = Some pos \<and> bt_get (sn_entity_cells s) e = Some k
        \<and> sc_space k = om_space m \<and> sc_space_epoch k = om_space_epoch m
        \<and> cells_are_near (sc_cell origin) (sc_cell k) (f64_div radius grid)
        \<and> (exact \<longrightarrow> squared_distance_within source pos radius))"

lemma candidate_in_range_Some:
  "candidate_in_range s source radius exact e = Some r \<longleftrightarrow> bt_get (sn_entity_map s) e = Some r
     \<and> (\<exists>pos. er_position r = Some pos \<and> (exact \<longrightarrow> squared_distance_within source pos radius))"
  by (auto simp: candidate_in_range_def split: option.splits)

lemma spatial_candidates:
  assumes "cells_wf s"
  shows "r \<in> set (List.map_filter (candidate_in_range s source radius exact)
      (concat (map (\<lambda>(_, es). bt_keys es)
        (filter (\<lambda>(cell, _). sc_space cell = om_space m \<and> sc_space_epoch cell = om_space_epoch m
            \<and> cells_are_near (sc_cell origin) (sc_cell cell) (f64_div radius grid))
          (bt_iter (sn_cell_entities s))))))
    \<longleftrightarrow> (\<exists>e. near_entity s m grid radius exact source origin e r)"
proof -
  have cell: "bt_get (sn_entity_cells s) e = Some k
      \<longleftrightarrow> (\<exists>es. bt_get (sn_cell_entities s) k = Some es \<and> e \<in> set (bt_keys es))" for e k
    using assms by (simp add: cells_wf_def bs_contains_keys)
  have A: "e \<in> set (concat (map (\<lambda>(_, es). bt_keys es)
        (filter (\<lambda>(cell, _). sc_space cell = om_space m \<and> sc_space_epoch cell = om_space_epoch m
            \<and> cells_are_near (sc_cell origin) (sc_cell cell) (f64_div radius grid))
          (bt_iter (sn_cell_entities s)))))
    \<longleftrightarrow> (\<exists>k. bt_get (sn_entity_cells s) e = Some k \<and> sc_space k = om_space m \<and> sc_space_epoch k = om_space_epoch m
          \<and> cells_are_near (sc_cell origin) (sc_cell k) (f64_div radius grid))" for e
    unfolding cell by (auto simp: in_bt_iter)
  have B: "r \<in> set (List.map_filter f xs) \<longleftrightarrow> (\<exists>e\<in>set xs. f e = Some r)"
    for f :: "entity_id \<Rightarrow> entity_record option" and xs
    by (induction xs) (auto simp: map_filter_simps split: option.split)
  show ?thesis
    unfolding near_entity_def B Bex_def A candidate_in_range_Some by blast
qed

lemma spatial_recipients_near:
  assumes "cells_wf s" "om_entity m = Some e0" "bt_get (sn_entity_map s) e0 = Some r0"
    "er_position r0 = Some p0" "bt_get (sn_entity_cells s) e0 = Some k0"
    "sc_space k0 = om_space m" "sc_space_epoch k0 = om_space_epoch m"
  shows "bs_contains (spatial_recipients s m subs grid radius exact) x \<longleftrightarrow> bs_contains subs x
      \<and> (\<exists>r e. near_entity s m grid radius exact p0 k0 e r \<and> er_owner_connection r = x)"
  using spatial_candidates [OF assms(1), where source = p0 and origin = k0 and radius = radius and grid = grid
      and exact = exact and m = m]
  by (simp add: spatial_recipients_def Let_def assms(2-7) image_iff) blast

text \<open>
  C14. The grid index is exact: in every session that satisfies the index invariant, the recipients
  found through the cell index are the subscribers owning a positioned entity of the message's
  space and epoch whose cell is near the cell of the message's entity, and that lies within the
  radius when the exact test is asked for. Nothing is found for a message without a positioned
  entity in that space.
\<close>

theorem spatial_index_equals_scan:
  assumes "cells_wf s"
  shows "bs_contains (spatial_recipients s m subs grid radius exact) x \<longleftrightarrow> bs_contains subs x
    \<and> (\<exists>e0 r0 p0 k0. om_entity m = Some e0 \<and> bt_get (sn_entity_map s) e0 = Some r0
        \<and> er_position r0 = Some p0 \<and> bt_get (sn_entity_cells s) e0 = Some k0
        \<and> sc_space k0 = om_space m \<and> sc_space_epoch k0 = om_space_epoch m
        \<and> (\<exists>e r pos k. bt_get (sn_entity_map s) e = Some r \<and> er_owner_connection r = x
            \<and> er_position r = Some pos \<and> bt_get (sn_entity_cells s) e = Some k
            \<and> sc_space k = om_space m \<and> sc_space_epoch k = om_space_epoch m
            \<and> cells_are_near (sc_cell k0) (sc_cell k) (f64_div radius grid)
            \<and> (exact \<longrightarrow> squared_distance_within p0 pos radius)))"
proof (cases "\<exists>e0 r0 p0 k0. om_entity m = Some e0 \<and> bt_get (sn_entity_map s) e0 = Some r0
        \<and> er_position r0 = Some p0 \<and> bt_get (sn_entity_cells s) e0 = Some k0
        \<and> sc_space k0 = om_space m \<and> sc_space_epoch k0 = om_space_epoch m")
  case False
  then have "\<not> bs_contains (spatial_recipients s m subs grid radius exact) x"
    by (auto simp: spatial_recipients_def Let_def split: option.splits)
  with False show ?thesis by blast
next
  case True
  then obtain e0 r0 p0 k0 where src: "om_entity m = Some e0" "bt_get (sn_entity_map s) e0 = Some r0"
    "er_position r0 = Some p0" "bt_get (sn_entity_cells s) e0 = Some k0"
    "sc_space k0 = om_space m" "sc_space_epoch k0 = om_space_epoch m" by blast
  have "bs_contains (spatial_recipients s m subs grid radius exact) x \<longleftrightarrow> bs_contains subs x
      \<and> (\<exists>r e. near_entity s m grid radius exact p0 k0 e r \<and> er_owner_connection r = x)"
    by (rule spatial_recipients_near [OF assms src])
  also have "\<dots> \<longleftrightarrow> bs_contains subs x
      \<and> (\<exists>e r pos k. bt_get (sn_entity_map s) e = Some r \<and> er_owner_connection r = x
            \<and> er_position r = Some pos \<and> bt_get (sn_entity_cells s) e = Some k
            \<and> sc_space k = om_space m \<and> sc_space_epoch k = om_space_epoch m
            \<and> cells_are_near (sc_cell k0) (sc_cell k) (f64_div radius grid)
            \<and> (exact \<longrightarrow> squared_distance_within p0 pos radius))"
    unfolding near_entity_def by blast
  finally show ?thesis using src by auto
qed

text \<open>Two entities of different owners in one cell of a grid of size 1.\<close>

definition grid_entity :: "entity_id \<Rightarrow> connection_id \<Rightarrow> entity_record" where
  "grid_entity e owner = \<lparr>er_id = e, er_owner_connection = owner, er_owner_principal = 1, er_space = 1,
     er_space_epoch = 1, er_position = Some (EP_Cartesian2D three_quarters 0)\<rparr>"

definition grid_session :: session_state where
  "grid_session = session_new\<lparr>
     sn_entity_map := bt_insert 1 (grid_entity 1 7) (bt_insert 2 (grid_entity 2 8) bt_new),
     sn_entity_cells := bt_insert 1 (SpatialCellKey 1 1 (SC_2D 0 0)) (bt_insert 2 (SpatialCellKey 1 1 (SC_2D 0 0)) bt_new),
     sn_cell_entities := bt_insert (SpatialCellKey 1 1 (SC_2D 0 0)) (bs_insert 1 (bs_insert 2 bt_new)) bt_new\<rparr>"

definition grid_message :: outbound_message where
  "grid_message = \<lparr>om_namespace = 1, om_session = 1, om_space = 1, om_space_epoch = 1, om_entity = Some 1,
     om_channel = 1, om_sequence = 1, om_delivery = BestEffortEvent, om_persistence = Ephemeral,
     om_coalesce_key = None, om_payload = []\<rparr>"

lemma grid_session_wf: "cells_wf grid_session"
  by (auto simp: cells_wf_def grid_session_def grid_entity_def bt_get_insert)

lemma spatial_index_equals_scan_witness:
  "bs_contains (spatial_recipients grid_session grid_message (bs_insert 8 bt_new) one_f64 half False) 8"
  unfolding spatial_index_equals_scan [OF grid_session_wf]
  by (simp add: grid_message_def grid_session_def grid_entity_def bt_get_insert example_division f64_le_def
      example_fix abs_diff_f64_def f64_zero_int)

text \<open>The second entity moved into the neighbouring cell, a quarter away.\<close>

definition gap_session :: session_state where
  "gap_session = grid_session\<lparr>
     sn_entity_map := bt_insert 1 (grid_entity 1 7) (bt_insert 2 ((grid_entity 2 8)\<lparr>er_position :=
       Some (EP_Cartesian2D one_f64 0)\<rparr>) bt_new),
     sn_entity_cells := bt_insert 1 (SpatialCellKey 1 1 (SC_2D 0 0)) (bt_insert 2 (SpatialCellKey 1 1 (SC_2D 1 0)) bt_new),
     sn_cell_entities := bt_insert (SpatialCellKey 1 1 (SC_2D 0 0)) (bs_insert 1 bt_new)
       (bt_insert (SpatialCellKey 1 1 (SC_2D 1 0)) (bs_insert 2 bt_new) bt_new)\<rparr>"

lemma gap_session_wf: "cells_wf gap_session"
  by (auto simp: cells_wf_def gap_session_def grid_session_def grid_entity_def bt_get_insert)

text \<open>
  C15. The cell prefilter is not conservative: it compares the difference of two cell numbers with
  the radius in cells, also when the exact distance test is on. In this well-formed session, with
  cells of size 1 and radius 1/2, connection 8 is subscribed and owns an entity in the cell the
  code assigns to its position, a quarter away from the message's entity and so within the radius
  by the exact test, and yet it is not among the recipients.
\<close>

theorem grid_prefilter_misses_entity_within_radius:
  "cells_wf gap_session
   \<and> (\<exists>p q k l. map_option er_position (bt_get (sn_entity_map gap_session) 1) = Some (Some p)
        \<and> map_option er_position (bt_get (sn_entity_map gap_session) 2) = Some (Some q)
        \<and> bt_get (sn_entity_cells gap_session) 1 = Some k \<and> bt_get (sn_entity_cells gap_session) 2 = Some l
        \<and> spatial_cell_in p (SpatialGrid2D one_f64 half True) = Inr (Some (sc_cell k))
        \<and> spatial_cell_in q (SpatialGrid2D one_f64 half True) = Inr (Some (sc_cell l))
        \<and> squared_distance_within p q half)
   \<and> \<not> bs_contains (spatial_recipients gap_session grid_message (bs_insert 8 bt_new) one_f64 half True) 8"
proof (intro conjI)
  show "cells_wf gap_session" by (rule gap_session_wf)
  show "\<exists>p q k l. map_option er_position (bt_get (sn_entity_map gap_session) 1) = Some (Some p)
        \<and> map_option er_position (bt_get (sn_entity_map gap_session) 2) = Some (Some q)
        \<and> bt_get (sn_entity_cells gap_session) 1 = Some k \<and> bt_get (sn_entity_cells gap_session) 2 = Some l
        \<and> spatial_cell_in p (SpatialGrid2D one_f64 half True) = Inr (Some (sc_cell k))
        \<and> spatial_cell_in q (SpatialGrid2D one_f64 half True) = Inr (Some (sc_cell l))
        \<and> squared_distance_within p q half"
    using example_within by (simp add: gap_session_def grid_entity_def bt_get_insert example_coordinates)
  show "\<not> bs_contains (spatial_recipients gap_session grid_message (bs_insert 8 bt_new) one_f64 half True) 8"
  proof -
    have "\<not> (near_entity gap_session grid_message one_f64 half True (EP_Cartesian2D three_quarters 0)
        (SpatialCellKey 1 1 (SC_2D 0 0)) e r \<and> er_owner_connection r = 8)" for r e
      using example_cells
      by (auto simp: near_entity_def gap_session_def grid_entity_def bt_get_insert split: if_splits)
    moreover have "om_entity grid_message = Some 1" "bt_get (sn_entity_map gap_session) 1 = Some (grid_entity 1 7)"
      "er_position (grid_entity 1 7) = Some (EP_Cartesian2D three_quarters 0)"
      "bt_get (sn_entity_cells gap_session) 1 = Some (SpatialCellKey 1 1 (SC_2D 0 0))"
      "sc_space (SpatialCellKey 1 1 (SC_2D 0 0)) = om_space grid_message"
      "sc_space_epoch (SpatialCellKey 1 1 (SC_2D 0 0)) = om_space_epoch grid_message"
      by (simp_all add: gap_session_def grid_message_def grid_entity_def bt_get_insert)
    ultimately show ?thesis by (simp only: spatial_recipients_near [OF gap_session_wf]) blast
  qed
qed

section \<open>The publish rate limit\<close>

text \<open>The times at which a series of attempts is admitted.\<close>

fun admitted_times :: "publish_rate_limit \<Rightarrow> rate_limiter \<Rightarrow> instant list \<Rightarrow> instant list" where
  "admitted_times policy l [] = []"
| "admitted_times policy l (now # nows) =
     (case rl_admit policy now l of
        (Inl _, l') \<Rightarrow> admitted_times policy l' nows
      | (Inr _, l') \<Rightarrow> now # admitted_times policy l' nows)"

definition admitted_within :: "instant \<Rightarrow> duration \<Rightarrow> instant list \<Rightarrow> nat" where
  "admitted_within t w ts = length (filter (\<lambda>now. t \<le> now \<and> now < t + w) ts)"

lemma admitted_within_simps [simp]:
  "admitted_within t w [] = 0"
  "admitted_within t w (x # xs) = (if t \<le> x \<and> x < t + w then Suc (admitted_within t w xs) else admitted_within t w xs)"
  by (simp_all add: admitted_within_def)

text \<open>
  What an interval can still admit, by where the limiter's current window lies: before it, across
  its start, starting in it, or after it.
\<close>

definition window_budget :: "nat \<Rightarrow> duration \<Rightarrow> instant \<Rightarrow> rate_limiter \<Rightarrow> nat" where
  "window_budget n w t l = (case rl_window_started l of
     None \<Rightarrow> 2 * n
   | Some started \<Rightarrow>
       if started + w \<le> t then 2 * n
       else if started < t then (n - rl_publishes l) + n
       else if started < t + w then n - rl_publishes l
       else 0)"

lemma rl_admit_budget:
  assumes "0 < pr_max_publishes policy" "0 < pr_window policy" "rl_publishes l \<le> pr_max_publishes policy"
    and "rl_admit policy now l = (r, l')"
  shows "(if is_ok r \<and> t \<le> now \<and> now < t + pr_window policy then 1 else 0)
      + window_budget (pr_max_publishes policy) (pr_window policy) t l'
    \<le> window_budget (pr_max_publishes policy) (pr_window policy) t l
    \<and> rl_publishes l' \<le> pr_max_publishes policy"
  using assms
  by (cases "rl_window_started l")
    (auto simp: rl_admit_def window_budget_def checked_duration_since_def split: if_splits)

text \<open>
  C22. The publish rate limit bounds every interval, not only its own windows: however attempts are
  timed, even with a clock that steps back, at most twice the configured number is admitted in any
  interval as long as the configured window.
\<close>

theorem publish_rate_bounded_in_every_interval:
  assumes "pr_validate policy = Inr policy"
  shows "admitted_within t (pr_window policy) (admitted_times policy rl_default nows)
    \<le> 2 * pr_max_publishes policy"
proof -
  have p: "0 < pr_max_publishes policy" "0 < pr_window policy"
    using assms by (auto simp: pr_validate_def split: if_splits)
  have "admitted_within t (pr_window policy) (admitted_times policy l nows)
      \<le> window_budget (pr_max_publishes policy) (pr_window policy) t l"
    if "rl_publishes l \<le> pr_max_publishes policy" for l
    using that
  proof (induction nows arbitrary: l)
    case (Cons now nows)
    obtain r l' where a: "rl_admit policy now l = (r, l')" by force
    note b = rl_admit_budget [OF p Cons.prems a, of t]
    then have "admitted_within t (pr_window policy) (admitted_times policy l' nows)
        \<le> window_budget (pr_max_publishes policy) (pr_window policy) t l'" by (intro Cons.IH) simp
    then show ?case using a b by (cases r) (auto split: if_splits)
  qed simp
  from this [of rl_default] show ?thesis by (simp add: window_budget_def rl_default_def)
qed

lemma publish_rate_bounded_in_every_interval_witness:
  "let admitted = admitted_within 5 10 (admitted_times \<lparr>pr_max_publishes = 2, pr_window = 10\<rparr> rl_default
       [0, 9, 9, 10, 11, 12, 3]) in admitted = 3 \<and> admitted \<le> 2 * 2"
proof -
  have "admitted_within 5 10 (admitted_times \<lparr>pr_max_publishes = 2, pr_window = 10\<rparr> rl_default
      [0, 9, 9, 10, 11, 12, 3]) = 3"
    by (simp add: rl_admit_def rl_default_def checked_duration_since_def)
  moreover have "pr_validate \<lparr>pr_max_publishes = 2, pr_window = 10\<rparr> = Inr \<lparr>pr_max_publishes = 2, pr_window = 10\<rparr>"
    by (simp add: pr_validate_def)
  from publish_rate_bounded_in_every_interval [OF this, of 5 "[0, 9, 9, 10, 11, 12, 3]"]
  have "admitted_within 5 10 (admitted_times \<lparr>pr_max_publishes = 2, pr_window = 10\<rparr> rl_default
      [0, 9, 9, 10, 11, 12, 3]) \<le> 2 * 2" by simp
  ultimately show ?thesis by (simp add: Let_def)
qed

end
