(* ===== verification/Gateway.thy ===== *)
theory Gateway
  imports Worker Codec
begin

text \<open>
  \<^verbatim>\<open>woven-transport/src/lib.rs\<close> and \<^verbatim>\<open>metrics.rs\<close>: the single task that owns the core, the lifecycle
  fan-out to registered connections, and the counters. One request of the task's channel is one
  call of \<open>gw_handle\<close>.

  The \<^verbatim>\<open>tokio\<close> channels are third-party code: a handle is a value of type \<open>'c\<close>, what the channels
  hold is a world of type \<open>'w\<close>, and \<^verbatim>\<open>try_send\<close> is an operation of \<open>channel_ops\<close> that reports whether it
  succeeded. Nothing is assumed of it.
\<close>

definition MAX_FRAME_BYTES :: u32 where "MAX_FRAME_BYTES = 1048576"
definition MAX_PAYLOAD_BYTES :: u32 where "MAX_PAYLOAD_BYTES = 262144"

record ('c, 'w) channel_ops =
  op_try_send :: "'c \<Rightarrow> envelope \<Rightarrow> 'w \<Rightarrow> bool \<times> 'w"
  op_try_shutdown :: "'c \<Rightarrow> 'w \<Rightarrow> bool \<times> 'w"

datatype transport_error = TE_WorkerUnavailable | TE_Core core_error | TE_UnknownConnection

section \<open>Counters\<close>

record server_metrics =
  sm_connections_total :: u64
  sm_authenticate_rejected_total :: u64
  sm_join_rejected_total :: u64
  sm_publishes_total :: u64
  sm_transform_publishes_total :: u64
  sm_publish_bytes_received_total :: u64
  sm_publish_bytes_delivered_total :: u64
  sm_events_delivered_total :: u64
  sm_queue_dropped_total :: u64
  sm_queue_evicted_total :: u64

record live_counts =
  lc_connections_active :: usize
  lc_sessions_active :: usize

definition record_connected :: "server_metrics \<Rightarrow> server_metrics" where
  "record_connected m = m\<lparr>sm_connections_total := sm_connections_total m + 1\<rparr>"

definition record_authenticate_rejected :: "server_metrics \<Rightarrow> server_metrics" where
  "record_authenticate_rejected m =
     m\<lparr>sm_authenticate_rejected_total := sm_authenticate_rejected_total m + 1\<rparr>"

definition record_join_rejected :: "server_metrics \<Rightarrow> server_metrics" where
  "record_join_rejected m = m\<lparr>sm_join_rejected_total := sm_join_rejected_total m + 1\<rparr>"

definition record_publish :: "u64 \<Rightarrow> bool \<Rightarrow> server_metrics \<Rightarrow> server_metrics" where
  "record_publish payload_bytes is_transform m =
     (let m1 = m\<lparr>sm_publishes_total := sm_publishes_total m + 1,
        sm_publish_bytes_received_total := sm_publish_bytes_received_total m + payload_bytes\<rparr>
      in if is_transform then m1\<lparr>sm_transform_publishes_total := sm_transform_publishes_total m1 + 1\<rparr> else m1)"

definition u64_saturating_mul :: "u64 \<Rightarrow> u64 \<Rightarrow> u64" where
  "u64_saturating_mul a b = (if unat a * unat b < 2 ^ 64 then a * b else - 1)"

definition record_publish_outcome :: "u64 \<Rightarrow> u64 \<Rightarrow> u64 \<Rightarrow> u64 \<Rightarrow> server_metrics \<Rightarrow> server_metrics" where
  "record_publish_outcome payload_bytes recipient_attempts dropped evicted m =
     m\<lparr>sm_events_delivered_total := sm_events_delivered_total m + recipient_attempts,
       sm_publish_bytes_delivered_total := sm_publish_bytes_delivered_total m
         + u64_saturating_mul payload_bytes recipient_attempts,
       sm_queue_dropped_total := sm_queue_dropped_total m + dropped,
       sm_queue_evicted_total := sm_queue_evicted_total m + evicted\<rparr>"

definition server_metrics_default :: server_metrics where
  "server_metrics_default = \<lparr>sm_connections_total = 0, sm_authenticate_rejected_total = 0,
     sm_join_rejected_total = 0, sm_publishes_total = 0, sm_transform_publishes_total = 0,
     sm_publish_bytes_received_total = 0, sm_publish_bytes_delivered_total = 0,
     sm_events_delivered_total = 0, sm_queue_dropped_total = 0, sm_queue_evicted_total = 0\<rparr>"

text \<open>What the counters need of a command before it is handled.\<close>

datatype metrics_context =
    MC_None
  | MC_Connected
  | MC_TransportLost connection_id
  | MC_Authenticate connection_id
  | MC_Join connection_id session_key
  | MC_Leave connection_id session_key
  | MC_Publish u64 bool

definition is_transform_publication :: "publish_request \<Rightarrow> bool" where
  "is_transform_publication r = (pq_entity r \<noteq> None \<and> pq_delivery r = LatestValue)"

fun metrics_context_of :: "command \<Rightarrow> metrics_context" where
  "metrics_context_of C_TransportConnected = MC_Connected"
| "metrics_context_of (C_TransportLost connection) = MC_TransportLost connection"
| "metrics_context_of (C_Authenticate connection _) = MC_Authenticate connection"
| "metrics_context_of (C_JoinSession connection session) = MC_Join connection session"
| "metrics_context_of (C_JoinSessionWithAdmission connection session _) = MC_Join connection session"
| "metrics_context_of (C_LeaveSession connection session) = MC_Leave connection session"
| "metrics_context_of (C_Publish r) =
     MC_Publish (of_nat (length (pq_payload r))) (is_transform_publication r)"
| "metrics_context_of _ = MC_None"

text \<open>The log lines of \<^verbatim>\<open>observe_command\<close> are left out.\<close>

definition observe_command ::
  "metrics_context \<Rightarrow> core_error + command_result \<Rightarrow> server_metrics \<Rightarrow> server_metrics" where
  "observe_command context outcome m = (case context of
     MC_Connected \<Rightarrow> (case outcome of Inr (R_Connected _) \<Rightarrow> record_connected m | _ \<Rightarrow> m)
   | MC_Authenticate _ \<Rightarrow> if is_ok outcome then m else record_authenticate_rejected m
   | MC_Join _ _ \<Rightarrow> if is_ok outcome then m else record_join_rejected m
   | MC_Publish payload_bytes is_transform \<Rightarrow>
       (let m1 = record_publish payload_bytes is_transform m in
        case outcome of
          Inr (R_Published result) \<Rightarrow>
            (let q = po_queues result in
             record_publish_outcome payload_bytes (of_nat (po_recipient_attempts result))
               (of_nat (qa_dropped_latest q + qa_dropped_best_effort q + qa_critical_capacity_exhausted q))
               (of_nat (qa_critical_evictions q + qa_evicted_latest q + qa_replaced_latest q)) m1)
        | _ \<Rightarrow> m1)
   | _ \<Rightarrow> m)"

section \<open>The worker task\<close>

record 'c lifecycle_recipient =
  lr_sender :: 'c
  lr_shutdown :: 'c

record ('c, 'w) gateway =
  gw_core :: core
  gw_recipients :: "(connection_id, 'c lifecycle_recipient) btmap"
  gw_subscriptions :: "(connection_id, space_key btset) btmap"
  gw_metrics :: server_metrics
  gw_world :: 'w

definition gateway_new :: "core \<Rightarrow> 'w \<Rightarrow> ('c, 'w) gateway" where
  "gateway_new core world = \<lparr>gw_core = core, gw_recipients = bt_new, gw_subscriptions = bt_new,
     gw_metrics = server_metrics_default, gw_world = world\<rparr>"

text \<open>\<^verbatim>\<open>worker.handle(command)\<close>.\<close>

definition gw_command ::
  "clock_reading \<Rightarrow> command \<Rightarrow> ('c, 'w) gateway \<Rightarrow> (core_error + command_result) \<times> ('c, 'w) gateway" where
  "gw_command k command g = (case handle k command (gw_core g) of (outcome, c) \<Rightarrow> (outcome, g\<lparr>gw_core := c\<rparr>))"

definition entity_entered_envelope :: "space_key \<Rightarrow> space_epoch \<Rightarrow> entity_id \<Rightarrow> envelope" where
  "entity_entered_envelope space epoch entity =
     \<lparr>ev_protocol_version = PROTOCOL_VERSION, ev_delivery_class = PD_ReliableOrdered,
      ev_namespace_id = sk_namespace (spk_session space), ev_session_id = sk_session (spk_session space),
      ev_space_id = spk_space space, ev_channel_id = None, ev_entity_id = Some entity,
      ev_space_epoch = epoch, ev_server_tick = 0, ev_sender_sequence = 0, ev_correlation_id = None,
      ev_message = Control (EntityEntered (Some entity))\<rparr>"

definition entity_left_envelope ::
  "space_key \<Rightarrow> space_epoch \<Rightarrow> entity_id \<Rightarrow> entity_leave_reason \<Rightarrow> envelope" where
  "entity_left_envelope space epoch entity reason =
     \<lparr>ev_protocol_version = PROTOCOL_VERSION, ev_delivery_class = PD_ReliableOrdered,
      ev_namespace_id = sk_namespace (spk_session space), ev_session_id = sk_session (spk_session space),
      ev_space_id = spk_space space, ev_channel_id = None, ev_entity_id = Some entity,
      ev_space_epoch = epoch, ev_server_tick = 0, ev_sender_sequence = 0, ev_correlation_id = None,
      ev_message = Control (EntityLeft reason)\<rparr>"

section \<open>Fan-out\<close>

text \<open>The registered connections among the targets that could not take the envelope, in order.\<close>

fun send_targets ::
  "('c, 'w) channel_ops \<Rightarrow> envelope \<Rightarrow> (connection_id, 'c lifecycle_recipient) btmap \<Rightarrow> connection_id list
   \<Rightarrow> 'w \<Rightarrow> connection_id list \<times> 'w" where
  "send_targets ops envelope recipients [] w = ([], w)"
| "send_targets ops envelope recipients (connection # targets) w =
     (case bt_get recipients connection of
        None \<Rightarrow> send_targets ops envelope recipients targets w
      | Some recipient \<Rightarrow>
          (case op_try_send ops (lr_sender recipient) envelope w of
             (True, w') \<Rightarrow> send_targets ops envelope recipients targets w'
           | (False, w') \<Rightarrow>
               (case send_targets ops envelope recipients targets
                       (snd (op_try_shutdown ops (lr_shutdown recipient) w')) of
                  (disconnected, w'') \<Rightarrow> (connection # disconnected, w''))))"

definition fan_targets ::
  "(connection_id, space_key btset) btmap \<Rightarrow> space_key \<Rightarrow> connection_id option \<Rightarrow> connection_id list" where
  "fan_targets subscriptions space excluded =
     map fst (filter (\<lambda>(connection, spaces). excluded \<noteq> Some connection \<and> bs_contains spaces space)
       (bt_iter subscriptions))"

text \<open>
  \<^verbatim>\<open>distribute_to_space_excluding\<close>, over the cleanup it calls for each connection that failed; the
  two call each other, and the recursion is closed below.
\<close>

definition distribute_with ::
  "(connection_id \<Rightarrow> ('c, 'w) gateway \<Rightarrow> ('c, 'w) gateway) \<Rightarrow> ('c, 'w) channel_ops \<Rightarrow> space_key \<Rightarrow> envelope
   \<Rightarrow> connection_id option \<Rightarrow> ('c, 'w) gateway \<Rightarrow> ('c, 'w) gateway" where
  "distribute_with cleanup ops space envelope excluded g =
     (case send_targets ops envelope (gw_recipients g) (fan_targets (gw_subscriptions g) space excluded)
             (gw_world g) of
        (disconnected, w) \<Rightarrow> fold cleanup disconnected (g\<lparr>gw_world := w\<rparr>))"

definition distribute_removed_with ::
  "(connection_id \<Rightarrow> ('c, 'w) gateway \<Rightarrow> ('c, 'w) gateway) \<Rightarrow> ('c, 'w) channel_ops \<Rightarrow> entity_leave_reason
   \<Rightarrow> cleanup_summary \<Rightarrow> ('c, 'w) gateway \<Rightarrow> ('c, 'w) gateway" where
  "distribute_removed_with cleanup ops reason summary =
     fold (\<lambda>removed. let space = SpaceKey (re_session removed) (re_space removed) in
         distribute_with cleanup ops space
           (entity_left_envelope space (re_space_epoch removed) (re_entity removed) reason) None)
       (cs_removed_entities summary)"

text \<open>
  \<^verbatim>\<open>cleanup_dead_connection\<close>. Each nested call has disconnected one more connection of the core, so
  the number of connections bounds the depth; out of fuel nothing is done. The code reads the clock
  once for each connection it loses; here the cleanups of one request share a reading, which only
  dates the release of their admission leases.
\<close>

fun cleanup_dead_connection ::
  "('c, 'w) channel_ops \<Rightarrow> clock_reading \<Rightarrow> nat \<Rightarrow> connection_id \<Rightarrow> ('c, 'w) gateway \<Rightarrow> ('c, 'w) gateway" where
  "cleanup_dead_connection ops k 0 connection g = g"
| "cleanup_dead_connection ops k (Suc n) connection g =
     (let g1 = g\<lparr>gw_recipients := bt_remove connection (gw_recipients g),
                 gw_subscriptions := bt_remove connection (gw_subscriptions g)\<rparr>;
          g2 = snd (gw_command k (C_DrainOutbound connection) g1)
      in case gw_command k (C_TransportLost connection) g2 of
           (Inr (R_Disconnected summary), g3) \<Rightarrow>
             distribute_removed_with (cleanup_dead_connection ops k n) ops EL_Disconnected summary g3
         | (_, g3) \<Rightarrow> g3)"

definition connections_fuel :: "('c, 'w) gateway \<Rightarrow> nat" where
  "connections_fuel g = Suc (bt_len (co_connections (gw_core g)))"

definition distribute_to_space_excluding ::
  "('c, 'w) channel_ops \<Rightarrow> clock_reading \<Rightarrow> space_key \<Rightarrow> envelope \<Rightarrow> connection_id option
   \<Rightarrow> ('c, 'w) gateway \<Rightarrow> ('c, 'w) gateway" where
  "distribute_to_space_excluding ops k space envelope excluded g =
     distribute_with (cleanup_dead_connection ops k (connections_fuel g)) ops space envelope excluded g"

definition distribute_to_space ::
  "('c, 'w) channel_ops \<Rightarrow> clock_reading \<Rightarrow> space_key \<Rightarrow> envelope \<Rightarrow> ('c, 'w) gateway \<Rightarrow> ('c, 'w) gateway" where
  "distribute_to_space ops k space envelope = distribute_to_space_excluding ops k space envelope None"

definition distribute_removed_entities ::
  "('c, 'w) channel_ops \<Rightarrow> clock_reading \<Rightarrow> cleanup_summary \<Rightarrow> entity_leave_reason
   \<Rightarrow> ('c, 'w) gateway \<Rightarrow> ('c, 'w) gateway" where
  "distribute_removed_entities ops k summary reason g =
     distribute_removed_with (cleanup_dead_connection ops k (connections_fuel g)) ops reason summary g"

definition distribute_transition ::
  "('c, 'w) channel_ops \<Rightarrow> clock_reading \<Rightarrow> entity_transition \<Rightarrow> ('c, 'w) gateway \<Rightarrow> ('c, 'w) gateway" where
  "distribute_transition ops k t g =
     (let source = SpaceKey (et_session t) (et_source_space t);
          g1 = distribute_to_space ops k source
                 (entity_left_envelope source (et_source_epoch t) (et_entity t) EL_Transitioned) g;
          destination = SpaceKey (et_session t) (et_destination_space t)
      in distribute_to_space ops k destination
           (entity_entered_envelope destination (et_destination_epoch t) (et_entity t)) g1)"

definition deliver_to_connection ::
  "('c, 'w) channel_ops \<Rightarrow> clock_reading \<Rightarrow> connection_id \<Rightarrow> envelope \<Rightarrow> ('c, 'w) gateway
   \<Rightarrow> (transport_error + unit) \<times> ('c, 'w) gateway" where
  "deliver_to_connection ops k connection envelope g =
     (case bt_get (gw_recipients g) connection of
        None \<Rightarrow> (Inl TE_UnknownConnection, g)
      | Some recipient \<Rightarrow>
          (case op_try_send ops (lr_sender recipient) envelope (gw_world g) of
             (True, w) \<Rightarrow> (Inr (), g\<lparr>gw_world := w\<rparr>)
           | (False, w) \<Rightarrow>
               (let g1 = g\<lparr>gw_world := snd (op_try_shutdown ops (lr_shutdown recipient) w)\<rparr> in
                (Inl TE_UnknownConnection, cleanup_dead_connection ops k (connections_fuel g1) connection g1))))"

section \<open>Lifecycle of a command\<close>

datatype lifecycle_action =
    LA_None
  | LA_Subscribe connection_id space_key
  | LA_Unsubscribe connection_id space_key
  | LA_LeaveSession connection_id session_key
  | LA_Spawn space_key space_epoch
  | LA_RemoveEntity
  | LA_Transition
  | LA_TransportLost connection_id

fun lifecycle_action_of :: "command \<Rightarrow> lifecycle_action" where
  "lifecycle_action_of (C_Subscribe connection space) = LA_Subscribe connection space"
| "lifecycle_action_of (C_Unsubscribe connection space) = LA_Unsubscribe connection space"
| "lifecycle_action_of (C_LeaveSession connection session) = LA_LeaveSession connection session"
| "lifecycle_action_of (C_SpawnEntity _ space epoch) = LA_Spawn space epoch"
| "lifecycle_action_of (C_RemoveEntity _ _ _) = LA_RemoveEntity"
| "lifecycle_action_of (C_TransitionEntity _) = LA_Transition"
| "lifecycle_action_of (C_TransportLost connection) = LA_TransportLost connection"
| "lifecycle_action_of _ = LA_None"

text \<open>\<^verbatim>\<open>subscriptions.entry(connection).or_default().insert(space)\<close>.\<close>

definition activate_subscription :: "connection_id \<Rightarrow> space_key \<Rightarrow> ('c, 'w) gateway \<Rightarrow> ('c, 'w) gateway" where
  "activate_subscription connection space g =
     (let spaces = (case bt_get (gw_subscriptions g) connection of None \<Rightarrow> bt_new | Some s \<Rightarrow> s)
      in g\<lparr>gw_subscriptions := bt_insert connection (bs_insert space spaces) (gw_subscriptions g)\<rparr>)"

definition apply_lifecycle_action ::
  "('c, 'w) channel_ops \<Rightarrow> clock_reading \<Rightarrow> lifecycle_action \<Rightarrow> command_result
   \<Rightarrow> ('c, 'w) gateway \<Rightarrow> ('c, 'w) gateway" where
  "apply_lifecycle_action ops k action outcome g = (case (action, outcome) of
     (LA_Subscribe connection space, R_Subscribed) \<Rightarrow> activate_subscription connection space g
   | (LA_Unsubscribe connection space, R_Unsubscribed summary) \<Rightarrow>
       distribute_removed_entities ops k summary EL_Removed
         (g\<lparr>gw_subscriptions := bt_modify connection (bs_remove space) (gw_subscriptions g)\<rparr>)
   | (LA_LeaveSession connection session, R_Left summary) \<Rightarrow>
       distribute_removed_entities ops k summary EL_Removed
         (g\<lparr>gw_subscriptions := bt_modify connection (bs_retain (\<lambda>space. spk_session space \<noteq> session))
              (gw_subscriptions g)\<rparr>)
   | (LA_Spawn space epoch, R_EntitySpawned entity) \<Rightarrow>
       distribute_to_space ops k space (entity_entered_envelope space epoch entity) g
   | (LA_RemoveEntity, R_EntityRemoved summary) \<Rightarrow> distribute_removed_entities ops k summary EL_Removed g
   | (LA_Transition, R_EntityTransitioned transition) \<Rightarrow> distribute_transition ops k transition g
   | (LA_TransportLost connection, R_Disconnected summary) \<Rightarrow>
       distribute_removed_entities ops k summary EL_Disconnected
         (g\<lparr>gw_recipients := bt_remove connection (gw_recipients g),
            gw_subscriptions := bt_remove connection (gw_subscriptions g)\<rparr>)
   | _ \<Rightarrow> g)"

section \<open>Requests\<close>

datatype 'c worker_request =
    WR_Command command
  | WR_RegisterLifecycle connection_id "'c lifecycle_recipient"
  | WR_SubscribeAndSpawn connection_id space_key space_epoch
  | WR_ActivateSubscription connection_id space_key
  | WR_BroadcastToSpace space_key envelope "connection_id option"
  | WR_SendToConnection connection_id envelope
  | WR_LiveCounts

datatype worker_reply =
    WP_Command "core_error + command_result"
  | WP_Unit
  | WP_Spawned "core_error + entity_id"
  | WP_Sent "transport_error + unit"
  | WP_Counts live_counts

definition worker_command ::
  "('c, 'w) channel_ops \<Rightarrow> clock_reading \<Rightarrow> command \<Rightarrow> ('c, 'w) gateway
   \<Rightarrow> (core_error + command_result) \<times> ('c, 'w) gateway" where
  "worker_command ops k command g =
     (case gw_command k command g of
        (outcome, g1) \<Rightarrow>
          (let g2 = g1\<lparr>gw_metrics := observe_command (metrics_context_of command) outcome (gw_metrics g1)\<rparr> in
           (outcome, case outcome of
              Inl _ \<Rightarrow> g2
            | Inr r \<Rightarrow> apply_lifecycle_action ops k (lifecycle_action_of command) r g2)))"

definition worker_register ::
  "connection_id \<Rightarrow> 'c lifecycle_recipient \<Rightarrow> ('c, 'w) gateway \<Rightarrow> ('c, 'w) gateway" where
  "worker_register connection recipient g =
     g\<lparr>gw_recipients := bt_insert connection recipient (gw_recipients g),
       gw_subscriptions := (if bt_contains_key (gw_subscriptions g) connection then gw_subscriptions g
         else bt_insert connection bt_new (gw_subscriptions g))\<rparr>"

definition worker_subscribe_and_spawn ::
  "('c, 'w) channel_ops \<Rightarrow> clock_reading \<Rightarrow> connection_id \<Rightarrow> space_key \<Rightarrow> space_epoch \<Rightarrow> ('c, 'w) gateway
   \<Rightarrow> (core_error + entity_id) \<times> ('c, 'w) gateway" where
  "worker_subscribe_and_spawn ops k connection space epoch g =
     (case subscribe connection space (gw_core g) of
        (Inl e, c1) \<Rightarrow> (Inl e, g\<lparr>gw_core := c1\<rparr>)
      | (Inr _, c1) \<Rightarrow>
          (case spawn_entity connection space epoch c1 of
             (Inl e, c2) \<Rightarrow> (Inl e, g\<lparr>gw_core := c2\<rparr>)
           | (Inr entity, c2) \<Rightarrow>
               (Inr entity, distribute_to_space_excluding ops k space
                  (entity_entered_envelope space epoch entity) (Some connection) (g\<lparr>gw_core := c2\<rparr>))))"

fun gw_handle ::
  "('c, 'w) channel_ops \<Rightarrow> clock_reading \<Rightarrow> 'c worker_request \<Rightarrow> ('c, 'w) gateway \<Rightarrow> worker_reply \<times> ('c, 'w) gateway"
where
  "gw_handle ops k (WR_Command command) g = map_prod WP_Command id (worker_command ops k command g)"
| "gw_handle ops k WR_LiveCounts g =
     (WP_Counts \<lparr>lc_connections_active = connection_count (gw_core g),
        lc_sessions_active = session_count (gw_core g)\<rparr>, g)"
| "gw_handle ops k (WR_RegisterLifecycle connection recipient) g =
     (WP_Unit, worker_register connection recipient g)"
| "gw_handle ops k (WR_SubscribeAndSpawn connection space epoch) g =
     map_prod WP_Spawned id (worker_subscribe_and_spawn ops k connection space epoch g)"
| "gw_handle ops k (WR_ActivateSubscription connection space) g =
     (WP_Unit, activate_subscription connection space g)"
| "gw_handle ops k (WR_BroadcastToSpace space envelope excluded) g =
     (WP_Unit, distribute_to_space_excluding ops k space envelope excluded g)"
| "gw_handle ops k (WR_SendToConnection connection envelope) g =
     map_prod WP_Sent id (deliver_to_connection ops k connection envelope g)"

end
