(* ===== verification/Bridge.thy ===== *)
theory Bridge
  imports Gateway
begin

text \<open>
  The protocol bridge of \<^verbatim>\<open>woven-transport/src/lib.rs\<close>: what one envelope of an authenticated
  connection does, and the translations between the protocol and the core.

  The handler is asynchronous: between its calls of the worker task the requests of other
  connections run. \<open>be_others n\<close> is what they do to the worker's state before the \<open>n\<close>-th call, so
  that every interleaving is an instance. The worker task is taken to be running: the requests'
  \<^verbatim>\<open>WorkerUnavailable\<close> is the answer of a task that has ended.
\<close>

section \<open>Translations\<close>

fun core_delivery :: "wire_delivery \<Rightarrow> delivery_class option" where
  "core_delivery PD_ReliableOrdered = Some ReliableOrdered"
| "core_delivery PD_ReliableUnordered = Some ReliableUnordered"
| "core_delivery PD_LatestValue = Some LatestValue"
| "core_delivery PD_UnreliableSequenced = Some UnreliableSequenced"
| "core_delivery PD_BestEffortEvent = Some BestEffortEvent"
| "core_delivery PD_Unknown = None"

fun protocol_delivery :: "delivery_class \<Rightarrow> wire_delivery" where
  "protocol_delivery ReliableOrdered = PD_ReliableOrdered"
| "protocol_delivery ReliableUnordered = PD_ReliableUnordered"
| "protocol_delivery LatestValue = PD_LatestValue"
| "protocol_delivery UnreliableSequenced = PD_UnreliableSequenced"
| "protocol_delivery BestEffortEvent = PD_BestEffortEvent"

fun core_error_code :: "core_error \<Rightarrow> protocol_error_code" where
  "core_error_code CE_AuthenticationRequired = PE_AuthenticationRequired"
| "core_error_code (CE_NamespaceReadAccessDenied _) = PE_Unauthorized"
| "core_error_code (CE_NamespaceWriteAccessDenied _) = PE_Unauthorized"
| "core_error_code (CE_SessionReadAccessDenied _) = PE_Unauthorized"
| "core_error_code (CE_SessionWriteAccessDenied _) = PE_Unauthorized"
| "core_error_code (CE_SpaceReadAccessDenied _) = PE_Unauthorized"
| "core_error_code (CE_SpaceWriteAccessDenied _) = PE_Unauthorized"
| "core_error_code (CE_ChannelWriteAccessDenied _) = PE_Unauthorized"
| "core_error_code (CE_EntityNotOwned _) = PE_Unauthorized"
| "core_error_code (CE_AuthorityRejected _) = PE_Unauthorized"
| "core_error_code (CE_SpaceEpochMismatch _ _) = PE_StaleEpoch"
| "core_error_code (CE_StaleSequence _ _) = PE_SequenceRejected"
| "core_error_code (CE_PayloadTooLarge _ _) = PE_PayloadTooLarge"
| "core_error_code (CE_PublishRateLimited _) = PE_RateLimited"
| "core_error_code _ = PE_Internal"

definition transport_error_code :: "transport_error \<Rightarrow> protocol_error_code" where
  "transport_error_code e = (case e of TE_Core core_error \<Rightarrow> core_error_code core_error | _ \<Rightarrow> PE_Internal)"

definition outbound_envelope :: "outbound_message \<Rightarrow> envelope" where
  "outbound_envelope m =
     (let delivery = protocol_delivery (om_delivery m);
          opaque = \<lparr>ok_type_id = (case om_coalesce_key m of None \<Rightarrow> 1 | Some key \<Rightarrow> ck_component key),
            ok_bytes = om_payload m\<rparr>;
          payload = (if delivery = PD_LatestValue \<or> delivery = PD_UnreliableSequenced
            then EntityState opaque else ReliableEvent opaque)
      in \<lparr>ev_protocol_version = PROTOCOL_VERSION, ev_delivery_class = delivery,
          ev_namespace_id = om_namespace m, ev_session_id = om_session m, ev_space_id = om_space m,
          ev_channel_id = Some (om_channel m), ev_entity_id = om_entity m,
          ev_space_epoch = om_space_epoch m, ev_server_tick = 0, ev_sender_sequence = om_sequence m,
          ev_correlation_id = None, ev_message = payload\<rparr>)"

definition error_envelope :: "message_kind \<Rightarrow> protocol_error_code \<Rightarrow> string \<Rightarrow> envelope" where
  "error_envelope related code message =
     envelope_control PD_ReliableOrdered (ProtocolErrorPayload \<lparr>pe_code = code,
       pe_related_message_kind = (if related = MK_Unknown then MK_ProtocolError else related),
       pe_message = message\<rparr>)"

definition session_of_envelope :: "envelope \<Rightarrow> session_key" where
  "session_of_envelope e = SessionKey (ev_namespace_id e) (ev_session_id e)"

definition space_of_envelope :: "envelope \<Rightarrow> space_key" where
  "space_of_envelope e = SpaceKey (session_of_envelope e) (ev_space_id e)"

text \<open>The command a message stands for; \<open>Malformed\<close> is an early \<^verbatim>\<open>Err(())\<close>.\<close>

datatype routed = Routed command | Malformed | Unsupported

definition publish_command :: "connection_id \<Rightarrow> envelope \<Rightarrow> persistence_class \<Rightarrow> opaque_payload \<Rightarrow> routed" where
  "publish_command connection e persistence payload =
     (case core_delivery (ev_delivery_class e) of None \<Rightarrow> Malformed | Some delivery \<Rightarrow>
     (case ev_channel_id e of None \<Rightarrow> Malformed | Some channel \<Rightarrow>
        Routed (C_Publish \<lparr>pq_connection = connection, pq_session = session_of_envelope e,
          pq_space = ev_space_id e, pq_space_epoch = ev_space_epoch e, pq_entity = ev_entity_id e,
          pq_channel = channel, pq_sequence = ev_sender_sequence e, pq_delivery = delivery,
          pq_persistence = persistence,
          pq_coalesce_key = (if is_replaceable delivery
            then Some (CoalesceKey channel (ev_entity_id e) (ok_type_id payload)) else None),
          pq_payload = ok_bytes payload\<rparr>)))"

definition route :: "connection_id \<Rightarrow> envelope \<Rightarrow> routed" where
  "route connection e = (case ev_message e of
     Control (JoinSession _) \<Rightarrow> Routed (C_JoinSession connection (session_of_envelope e))
   | Control (LeaveSession _) \<Rightarrow> Routed (C_LeaveSession connection (session_of_envelope e))
   | Control (UnsubscribeSpace _) \<Rightarrow> Routed (C_Unsubscribe connection (space_of_envelope e))
   | Control (SpaceTransition t) \<Rightarrow>
       (case ev_entity_id e of None \<Rightarrow> Malformed | Some entity \<Rightarrow>
          Routed (C_TransitionEntity \<lparr>tq_connection = connection, tq_session = session_of_envelope e,
            tq_entity = entity, tq_source_space = st_from_space_id t, tq_source_epoch = ev_space_epoch e,
            tq_destination_space = st_to_space_id t, tq_destination_epoch = st_to_space_epoch t\<rparr>))
   | ReliableEvent payload \<Rightarrow> publish_command connection e Ephemeral payload
   | EntityState payload \<Rightarrow> publish_command connection e Stateful payload
   | _ \<Rightarrow> Unsupported)"

section \<open>Calls of the worker\<close>

record ('c, 'w) bridge_env =
  be_ops :: "('c, 'w) channel_ops"
  be_clock :: "nat \<Rightarrow> clock_reading"
  be_others :: "nat \<Rightarrow> ('c, 'w) gateway \<Rightarrow> ('c, 'w) gateway"
  be_render_error :: "core_error \<Rightarrow> string"
  be_render_snapshot :: "session_snapshot \<Rightarrow> u8 list"
  be_inference_sink :: "(connection_id \<Rightarrow> envelope \<Rightarrow> 'w \<Rightarrow> bool \<times> 'w) option"

definition ask ::
  "('c, 'w) bridge_env \<Rightarrow> nat \<Rightarrow> 'c worker_request \<Rightarrow> ('c, 'w) gateway \<Rightarrow> worker_reply \<times> ('c, 'w) gateway" where
  "ask env n request g = gw_handle (be_ops env) (be_clock env n) request (be_others env n g)"

definition execute ::
  "('c, 'w) bridge_env \<Rightarrow> nat \<Rightarrow> command \<Rightarrow> ('c, 'w) gateway
   \<Rightarrow> (transport_error + command_result) \<times> ('c, 'w) gateway" where
  "execute env n command g = (case ask env n (WR_Command command) g of
     (WP_Command outcome, g') \<Rightarrow> (map_err TE_Core outcome, g')
   | (_, g') \<Rightarrow> (Inl TE_WorkerUnavailable, g'))"

definition subscribe_and_spawn ::
  "('c, 'w) bridge_env \<Rightarrow> nat \<Rightarrow> connection_id \<Rightarrow> space_key \<Rightarrow> space_epoch \<Rightarrow> ('c, 'w) gateway
   \<Rightarrow> (transport_error + entity_id) \<times> ('c, 'w) gateway" where
  "subscribe_and_spawn env n connection space epoch g =
     (case ask env n (WR_SubscribeAndSpawn connection space epoch) g of
        (WP_Spawned outcome, g') \<Rightarrow> (map_err TE_Core outcome, g')
      | (_, g') \<Rightarrow> (Inl TE_WorkerUnavailable, g'))"

definition discard_and_disconnect ::
  "('c, 'w) bridge_env \<Rightarrow> nat \<Rightarrow> connection_id \<Rightarrow> ('c, 'w) gateway \<Rightarrow> ('c, 'w) gateway" where
  "discard_and_disconnect env n connection g =
     snd (execute env (n + 1) (C_TransportLost connection)
       (snd (execute env n (C_DrainOutbound connection) g)))"

definition transport_error_string :: "('c, 'w) bridge_env \<Rightarrow> transport_error \<Rightarrow> string" where
  "transport_error_string env e = (case e of
     TE_WorkerUnavailable \<Rightarrow> ''core worker is unavailable''
   | TE_Core core_error \<Rightarrow> ''core error: '' @ be_render_error env core_error
   | TE_UnknownConnection \<Rightarrow> ''connection is not registered for direct delivery'')"

definition send_envelope ::
  "('c, 'w) bridge_env \<Rightarrow> 'c \<Rightarrow> envelope \<Rightarrow> ('c, 'w) gateway \<Rightarrow> (unit + unit) \<times> ('c, 'w) gateway" where
  "send_envelope env sender envelope g = (case op_try_send (be_ops env) sender envelope (gw_world g) of
     (ok, w) \<Rightarrow> (if ok then Inr () else Inl (), g\<lparr>gw_world := w\<rparr>))"

definition send_error ::
  "('c, 'w) bridge_env \<Rightarrow> 'c \<Rightarrow> message_kind \<Rightarrow> protocol_error_code \<Rightarrow> string \<Rightarrow> ('c, 'w) gateway \<Rightarrow> ('c, 'w) gateway"
where
  "send_error env sender related code message g =
     snd (send_envelope env sender (error_envelope related code message) g)"

text \<open>Sending stops at the first message the channel does not take; the rest has been drained and is lost.\<close>

fun send_outbound ::
  "('c, 'w) bridge_env \<Rightarrow> 'c \<Rightarrow> outbound_message list \<Rightarrow> ('c, 'w) gateway \<Rightarrow> (unit + unit) \<times> ('c, 'w) gateway" where
  "send_outbound env sender [] g = (Inr (), g)"
| "send_outbound env sender (m # ms) g =
     (case send_envelope env sender (outbound_envelope m) g of
        (Inl _, g') \<Rightarrow> (Inl (), g')
      | (Inr _, g') \<Rightarrow> send_outbound env sender ms g')"

definition flush_outbound ::
  "('c, 'w) bridge_env \<Rightarrow> nat \<Rightarrow> connection_id \<Rightarrow> 'c \<Rightarrow> ('c, 'w) gateway \<Rightarrow> (unit + unit) \<times> ('c, 'w) gateway" where
  "flush_outbound env n connection sender g = (case execute env n (C_DrainOutbound connection) g of
     (Inr (R_Outbound messages), g') \<Rightarrow> send_outbound env sender messages g'
   | (_, g') \<Rightarrow> (Inr (), g'))"

section \<open>One envelope of an authenticated connection\<close>

definition is_inference_control :: "envelope \<Rightarrow> bool" where
  "is_inference_control e = (case ev_message e of
     Control (InferenceRequested _) \<Rightarrow> True | Control (InferenceCancelled _) \<Rightarrow> True | _ \<Rightarrow> False)"

definition handle_snapshot_request ::
  "('c, 'w) bridge_env \<Rightarrow> connection_id \<Rightarrow> envelope \<Rightarrow> 'c \<Rightarrow> ('c, 'w) gateway \<Rightarrow> (unit + unit) \<times> ('c, 'w) gateway" where
  "handle_snapshot_request env connection e sender g =
     (case execute env 0 (C_Snapshot connection (session_of_envelope e)) g of
        (Inr (R_Snapshot snapshot), g') \<Rightarrow>
          send_envelope env sender (e\<lparr>ev_message := SnapshotPayload
            \<lparr>ok_type_id = 1, ok_bytes = be_render_snapshot env snapshot\<rparr>\<rparr>) g'
      | (Inr _, g') \<Rightarrow> (Inl (), g')
      | (Inl error, g') \<Rightarrow>
          (Inl (), send_error env sender MK_SnapshotRequest PE_Internal (transport_error_string env error) g'))"

definition accepted_envelope :: "envelope \<Rightarrow> envelope" where
  "accepted_envelope e = e\<lparr>ev_message := Control (SubscriptionAccepted
     \<lparr>sa_subscription_id = ev_space_id e, sa_accepted_space_epoch = ev_space_epoch e\<rparr>),
     ev_delivery_class := PD_ReliableOrdered\<rparr>"

definition handle_subscribe_space ::
  "('c, 'w) bridge_env \<Rightarrow> connection_id \<Rightarrow> envelope \<Rightarrow> 'c \<Rightarrow> ('c, 'w) gateway \<Rightarrow> (unit + unit) \<times> ('c, 'w) gateway" where
  "handle_subscribe_space env connection e sender g =
     (let space = space_of_envelope e in
      case subscribe_and_spawn env 0 connection space (ev_space_epoch e) g of
        (Inl error, g1) \<Rightarrow>
          (Inl (), send_error env sender MK_SubscribeSpace (transport_error_code error)
            (transport_error_string env error) g1)
      | (Inr entity, g1) \<Rightarrow>
          (case send_envelope env sender (accepted_envelope e) g1 of
             (Inl _, g2) \<Rightarrow> (Inl (), g2)
           | (Inr _, g2) \<Rightarrow>
               (case send_envelope env sender (entity_entered_envelope space (ev_space_epoch e) entity) g2 of
                  (Inl _, g3) \<Rightarrow> (Inl (), g3)
                | (Inr _, g3) \<Rightarrow>
                    flush_outbound env 2 connection sender
                      (snd (ask env 1 (WR_ActivateSubscription connection space) g3)))))"

definition handle_authenticated ::
  "('c, 'w) bridge_env \<Rightarrow> connection_id \<Rightarrow> envelope \<Rightarrow> 'c \<Rightarrow> ('c, 'w) gateway \<Rightarrow> (unit + unit) \<times> ('c, 'w) gateway" where
  "handle_authenticated env connection e sender g =
     (case (be_inference_sink env, is_inference_control e) of
        (Some sink, True) \<Rightarrow> (Inr (), g\<lparr>gw_world := snd (sink connection e (gw_world g))\<rparr>)
      | _ \<Rightarrow>
          if ev_message_kind e = MK_SnapshotRequest then handle_snapshot_request env connection e sender g
          else if ev_message_kind e = MK_SubscribeSpace then handle_subscribe_space env connection e sender g
          else (case route connection e of
              Malformed \<Rightarrow> (Inl (), g)
            | Unsupported \<Rightarrow>
                (Inl (), send_error env sender (ev_message_kind e) PE_UnsupportedMessage
                  ''message is not implemented by this transport'' g)
            | Routed command \<Rightarrow>
                (case execute env 0 command g of
                   (Inl error, g') \<Rightarrow>
                     (Inl (), send_error env sender (ev_message_kind e) (transport_error_code error)
                       (transport_error_string env error) g')
                 | (Inr _, g') \<Rightarrow> flush_outbound env 1 connection sender g')))"

end
