(* ===== verification/GatewayInv.thy ===== *)
theory GatewayInv
  imports Bridge CoreRun
begin

text \<open>
  What a request does to the core behind the gateway, and that the fan-out ends: each nested
  cleanup has one connection less to disconnect, so the fuel of the model is never used up.
\<close>

section \<open>The core behind the gateway\<close>

definition core_reaches :: "core \<Rightarrow> core \<Rightarrow> bool" where
  "core_reaches c c' \<longleftrightarrow> (\<exists>actions. c' = core_run c actions)"

lemma core_reaches_refl [simp, intro]: "core_reaches c c"
  unfolding core_reaches_def by (rule exI [of _ "[]"]) (simp add: core_run_def)

lemma core_reaches_trans [trans]: "core_reaches a b \<Longrightarrow> core_reaches b c \<Longrightarrow> core_reaches a c"
  unfolding core_reaches_def core_run_def by (metis foldl_append)

lemma core_reaches_step: "core_reaches c (core_step c a)"
  unfolding core_reaches_def by (rule exI [of _ "[a]"]) (simp add: core_run_def)

lemma core_reaches_handle: "core_reaches c (snd (handle k command c))"
  using core_reaches_step [of c "A_Command k command"] by simp

lemma core_reaches_wf: "core_reaches c c' \<Longrightarrow> core_wf c \<Longrightarrow> core_wf c'"
  unfolding core_reaches_def core_run_def by (auto intro: core_ts.run_inv)

lemma core_reaches_reachable: "core_reaches c c' \<Longrightarrow> reachable_core c \<Longrightarrow> reachable_core c'"
  unfolding core_reaches_def
proof (elim exE)
  fix actions
  assume "reachable_core c"
  then show "c' = core_run c actions \<Longrightarrow> reachable_core c'"
    by (induction actions arbitrary: c c') (auto simp: core_run_def intro: reachable_step)
qed

text \<open>The clock of an operation that reads none does not matter.\<close>

lemma core_reaches_subscribe: "core_reaches c (snd (subscribe connection space c))"
  using core_reaches_handle [of c undefined "C_Subscribe connection space"] by (simp add: map_op_def)

lemma core_reaches_spawn: "core_reaches c (snd (spawn_entity connection space epoch c))"
  using core_reaches_handle [of c undefined "C_SpawnEntity connection space epoch"] by (simp add: map_op_def)

section \<open>What a cleanup does\<close>

definition shrunk :: "('k::linorder, 'v) btmap \<Rightarrow> ('k, 'v) btmap \<Rightarrow> bool" where
  "shrunk m m' \<longleftrightarrow> (\<forall>x. bt_get m' x = None \<or> bt_get m' x = bt_get m x)"

lemma shrunk_refl [simp]: "shrunk m m"
  by (simp add: shrunk_def)

lemma shrunk_trans: "shrunk a b \<Longrightarrow> shrunk b c \<Longrightarrow> shrunk a c"
  unfolding shrunk_def by metis

lemma shrunk_remove [simp]: "shrunk m (bt_remove k m)"
  by (simp add: shrunk_def)

lemma shrunk_None: "shrunk m m' \<Longrightarrow> bt_get m x = None \<Longrightarrow> bt_get m' x = None"
  unfolding shrunk_def by metis

text \<open>
  \<open>swept g g'\<close>: \<open>g'\<close> comes from \<open>g\<close> by disconnecting connections; nothing is registered,
  subscribed, connected or counted on the way.
\<close>

definition swept :: "('c, 'w) gateway \<Rightarrow> ('c, 'w) gateway \<Rightarrow> bool" where
  "swept g g' \<longleftrightarrow> core_reaches (gw_core g) (gw_core g')
     \<and> shrunk (gw_recipients g) (gw_recipients g') \<and> shrunk (gw_subscriptions g) (gw_subscriptions g')
     \<and> gw_metrics g' = gw_metrics g
     \<and> (core_wf (gw_core g) \<longrightarrow> bt_len (co_connections (gw_core g')) \<le> bt_len (co_connections (gw_core g))
          \<and> (\<forall>x. is_connected (gw_core g') x \<longrightarrow> is_connected (gw_core g) x))"

lemma swept_refl [simp, intro]: "swept g g"
  by (simp add: swept_def)

lemma swept_trans [trans]: "swept a b \<Longrightarrow> swept b c \<Longrightarrow> swept a c"
  unfolding swept_def
  by (auto intro: core_reaches_trans shrunk_trans order_trans dest: core_reaches_wf)

lemma swept_world [simp]: "swept g (g\<lparr>gw_world := w\<rparr>)"
  by (simp add: swept_def)

lemma swept_fold:
  assumes "\<And>x g. x \<in> set xs \<Longrightarrow> swept g (f x g)"
  shows "swept g (fold f xs g)"
  using assms
proof (induction xs arbitrary: g)
  case (Cons x xs)
  have "swept g (f x g)" by (rule Cons.prems) simp
  also have "swept (f x g) (fold f xs (f x g))" by (rule Cons.IH) (simp add: Cons.prems)
  finally show ?case by simp
qed simp

text \<open>Losing the transport of a connection takes it, and no other, out of the core.\<close>

lemma handle_lost:
  assumes "core_wf c" "handle k (C_TransportLost x) c = (r, c')"
  shows "\<not> is_connected c' x \<and> (\<forall>y. y \<noteq> x \<longrightarrow> is_connected c' y = is_connected c y)
    \<and> (if is_connected c x then \<exists>summary. r = Inr (R_Disconnected summary)
          \<and> bt_len (co_connections c) = Suc (bt_len (co_connections c'))
       else c' = c \<and> (\<exists>e. r = Inl e))"
proof (cases "bt_get (co_connections c) x")
  case None
  then have "get_connection c x = Inl (CE_UnknownConnection x)" by (simp add: get_connection_def ok_or_def)
  then obtain e where "transport_lost (ck_release k) x c = (Inl e, c)"
    by (cases "validate_connection_id x") (simp_all add: transport_lost_def checked_def)
  then show ?thesis using assms(2) None by (auto simp: map_op_def is_connected_def bt_contains_key_def)
next
  case (Some cn)
  obtain summary c1 where t: "transport_lost (ck_release k) x c = (Inr summary, c1)"
    and gone: "bt_get (co_connections c1) x = None"
    and others: "\<And>y. y \<noteq> x \<Longrightarrow> bt_contains_key (co_connections c1) y \<longleftrightarrow> bt_contains_key (co_connections c) y"
    using transport_lost_effect [OF assms(1) Some, of "ck_release k"] by metis
  have d: "dom (bt_get (co_connections c)) = insert x (dom (bt_get (co_connections c1)))"
    "x \<notin> dom (bt_get (co_connections c1))"
    using others gone Some by (auto simp: bt_contains_key_def) (metis option.distinct(1))+
  then have "bt_len (co_connections c) = Suc (bt_len (co_connections c1))"
    by (simp add: bt_len_card finite_dom_bt_get)
  then show ?thesis
    using assms(2) t gone others Some by (auto simp: map_op_def is_connected_def bt_contains_key_def)
qed

lemma handle_drain_connected:
  "is_connected (snd (handle k (C_DrainOutbound x) c)) y = is_connected c y
   \<and> bt_len (co_connections (snd (handle k (C_DrainOutbound x) c))) = bt_len (co_connections c)"
proof (cases "and_then (validate_connection_id x) (\<lambda>_. get_connection c x)")
  case (Inl e)
  then show ?thesis by (simp add: map_op_def drain_outbound_def)
next
  case (Inr state)
  then show ?thesis
    by (cases "bt_get (co_connections c) x")
      (simp_all add: map_op_def drain_outbound_def is_connected_def bt_contains_key_def bt_get_modify
        map_connection_def split: prod.split)
qed

lemma swept_distribute_with:
  assumes "\<And>x g. swept g (cleanup x g)"
  shows "swept g (distribute_with cleanup ops space envelope excluded g)"
proof -
  obtain failed w where s: "send_targets ops envelope (gw_recipients g)
      (fan_targets (gw_subscriptions g) space excluded) (gw_world g) = (failed, w)" by force
  have "swept g (g\<lparr>gw_world := w\<rparr>)" by simp
  also have "swept (g\<lparr>gw_world := w\<rparr>) (fold cleanup failed (g\<lparr>gw_world := w\<rparr>))"
    by (rule swept_fold) (rule assms)
  finally show ?thesis by (simp add: distribute_with_def s)
qed

lemma swept_distribute_removed_with:
  "(\<And>x g. swept g (cleanup x g)) \<Longrightarrow> swept g (distribute_removed_with cleanup ops reason summary g)"
  unfolding distribute_removed_with_def Let_def by (intro swept_fold swept_distribute_with)

text \<open>The part of a cleanup before the fan-out of the entities it removed.\<close>

definition dropped :: "clock_reading \<Rightarrow> connection_id \<Rightarrow> ('c, 'w) gateway \<Rightarrow> ('c, 'w) gateway" where
  "dropped k x g = snd (gw_command k (C_TransportLost x) (snd (gw_command k (C_DrainOutbound x)
     (g\<lparr>gw_recipients := bt_remove x (gw_recipients g), gw_subscriptions := bt_remove x (gw_subscriptions g)\<rparr>))))"

lemma dropped_simps [simp]:
  "gw_recipients (dropped k x g) = bt_remove x (gw_recipients g)"
  "gw_subscriptions (dropped k x g) = bt_remove x (gw_subscriptions g)"
  "gw_metrics (dropped k x g) = gw_metrics g" "gw_world (dropped k x g) = gw_world g"
  by (simp_all add: dropped_def gw_command_def split: prod.split)

lemma dropped_core:
  "gw_core (dropped k x g) = snd (handle k (C_TransportLost x) (snd (handle k (C_DrainOutbound x) (gw_core g))))"
  by (simp add: dropped_def gw_command_def split: prod.split)

lemma cleanup_unfold:
  "cleanup_dead_connection ops k (Suc n) x g =
     (case fst (handle k (C_TransportLost x) (snd (handle k (C_DrainOutbound x) (gw_core g)))) of
        Inr (R_Disconnected summary) \<Rightarrow>
          distribute_removed_with (cleanup_dead_connection ops k n) ops EL_Disconnected summary (dropped k x g)
      | _ \<Rightarrow> dropped k x g)"
  by (simp add: dropped_def gw_command_def Let_def split: prod.split sum.split command_result.split)

declare cleanup_dead_connection.simps(2) [simp del]

lemma swept_dropped: "swept g (dropped k x g)"
proof -
  let ?c = "snd (handle k (C_DrainOutbound x) (gw_core g))"
  have r: "core_reaches (gw_core g) ?c" by (rule core_reaches_handle)
  obtain r' c' where h: "handle k (C_TransportLost x) ?c = (r', c')" by force
  have c': "gw_core (dropped k x g) = c'" by (simp only: dropped_core h snd_conv)
  have t: "core_reaches (gw_core g) c'"
    using core_reaches_trans [OF r core_reaches_handle [of ?c k "C_TransportLost x"]] by (simp only: h snd_conv)
  have "bt_len (co_connections c') \<le> bt_len (co_connections (gw_core g))
      \<and> (\<forall>y. is_connected c' y \<longrightarrow> is_connected (gw_core g) y)" if "core_wf (gw_core g)"
    using handle_lost [OF core_reaches_wf [OF r that] h] handle_drain_connected [of k x "gw_core g"]
    by (metis Suc_leD order_refl)
  then show ?thesis using t by (simp add: swept_def c')
qed

lemma dropped_gone:
  assumes "core_wf (gw_core g)"
  shows "\<not> is_connected (gw_core (dropped k x g)) x"
    "is_connected (gw_core g) x \<Longrightarrow>
       bt_len (co_connections (gw_core g)) = Suc (bt_len (co_connections (gw_core (dropped k x g))))"
    "\<not> is_connected (gw_core g) x \<Longrightarrow>
       \<exists>e. fst (handle k (C_TransportLost x) (snd (handle k (C_DrainOutbound x) (gw_core g)))) = Inl e"
proof -
  let ?c = "snd (handle k (C_DrainOutbound x) (gw_core g))"
  note wf = core_reaches_wf [OF core_reaches_handle assms, of k "C_DrainOutbound x"]
  note d = handle_drain_connected [of k x "gw_core g"]
  obtain r' c' where h: "handle k (C_TransportLost x) ?c = (r', c')" by force
  note l = handle_lost [OF wf h]
  have c': "gw_core (dropped k x g) = c'" by (simp only: dropped_core h snd_conv)
  show "\<not> is_connected (gw_core (dropped k x g)) x" using l c' by blast
  show "is_connected (gw_core g) x \<Longrightarrow>
       bt_len (co_connections (gw_core g)) = Suc (bt_len (co_connections (gw_core (dropped k x g))))"
    using l d unfolding c' by metis
  show "\<not> is_connected (gw_core g) x \<Longrightarrow>
       \<exists>e. fst (handle k (C_TransportLost x) (snd (handle k (C_DrainOutbound x) (gw_core g)))) = Inl e"
    using l d h by (metis fst_conv)
qed

lemma cleanup_swept: "swept g (cleanup_dead_connection ops k n x g)"
proof (induction n arbitrary: x g)
  case (Suc n)
  have "swept (dropped k x g) (distribute_removed_with (cleanup_dead_connection ops k n) ops EL_Disconnected
      summary (dropped k x g))" for summary
    by (rule swept_distribute_removed_with) (rule Suc.IH)
  then show ?case
    using swept_dropped [of g k x] swept_trans
    by (simp only: cleanup_unfold) (auto split: sum.split command_result.split)
qed simp

lemma swept_distribute:
  "swept g (distribute_to_space_excluding ops k space envelope excluded g)"
  "swept g (distribute_to_space ops k space envelope g)"
  "swept g (distribute_removed_entities ops k summary reason g)"
  "swept g (distribute_transition ops k transition g)"
proof -
  show e: "swept g (distribute_to_space_excluding ops k space envelope excluded g)"
    for space envelope excluded and g :: "('a, 'b) gateway"
    unfolding distribute_to_space_excluding_def by (rule swept_distribute_with) (rule cleanup_swept)
  show d: "swept g (distribute_to_space ops k space envelope g)" for space envelope and g :: "('a, 'b) gateway"
    unfolding distribute_to_space_def by (rule e)
  show "swept g (distribute_removed_entities ops k summary reason g)"
    unfolding distribute_removed_entities_def by (rule swept_distribute_removed_with) (rule cleanup_swept)
  show "swept g (distribute_transition ops k transition g)"
    unfolding distribute_transition_def Let_def by (rule swept_trans [OF d d])
qed

lemma swept_deliver: "swept g (snd (deliver_to_connection ops k connection envelope g))"
  by (auto simp: deliver_to_connection_def Let_def split: option.split prod.split bool.split
      intro!: swept_trans [OF swept_world cleanup_swept])

section \<open>The fuel\<close>

text \<open>With more fuel than connections the fuel does not matter.\<close>

lemma fold_cong_swept:
  assumes "\<And>x g. x \<in> set xs \<Longrightarrow> core_wf (gw_core g) \<Longrightarrow> bt_len (co_connections (gw_core g)) < n \<Longrightarrow> f x g = f' x g"
    and "\<And>x g. swept g (f x g)" "core_wf (gw_core g)" "bt_len (co_connections (gw_core g)) < n"
  shows "fold f xs g = fold f' xs g"
  using assms
proof (induction xs arbitrary: g)
  case (Cons x xs)
  have s: "swept g (f x g)" by (rule Cons.prems(2))
  then have "core_wf (gw_core (f x g))" "bt_len (co_connections (gw_core (f x g))) < n"
    using Cons.prems(3,4) by (auto simp: swept_def intro: core_reaches_wf)
  then have "fold f xs (f x g) = fold f' xs (f x g)" using Cons.prems(1,2) by (intro Cons.IH) auto
  moreover have "f x g = f' x g" using Cons.prems by simp
  ultimately show ?case by simp
qed simp

lemma distribute_with_cong:
  assumes "\<And>x g. core_wf (gw_core g) \<Longrightarrow> bt_len (co_connections (gw_core g)) < n \<Longrightarrow> f x g = f' x g"
    and "\<And>x g. swept g (f x g)" "core_wf (gw_core g)" "bt_len (co_connections (gw_core g)) < n"
  shows "distribute_with f ops space envelope excluded g = distribute_with f' ops space envelope excluded g"
proof -
  obtain failed w where s: "send_targets ops envelope (gw_recipients g)
      (fan_targets (gw_subscriptions g) space excluded) (gw_world g) = (failed, w)" by force
  have "fold f failed (g\<lparr>gw_world := w\<rparr>) = fold f' failed (g\<lparr>gw_world := w\<rparr>)"
    by (rule fold_cong_swept [where n = n]) (use assms in auto)
  then show ?thesis by (simp add: distribute_with_def s)
qed

lemma distribute_removed_with_cong:
  assumes "\<And>x g. core_wf (gw_core g) \<Longrightarrow> bt_len (co_connections (gw_core g)) < n \<Longrightarrow> f x g = f' x g"
    and "\<And>x g. swept g (f x g)" "core_wf (gw_core g)" "bt_len (co_connections (gw_core g)) < n"
  shows "distribute_removed_with f ops reason summary g = distribute_removed_with f' ops reason summary g"
  unfolding distribute_removed_with_def Let_def
  by (rule fold_cong_swept [OF _ _ assms(3,4)]) (blast intro: distribute_with_cong swept_distribute_with assms(1,2))+

lemma cleanup_fuel_step:
  assumes "core_wf (gw_core g)" "bt_len (co_connections (gw_core g)) < n"
  shows "cleanup_dead_connection ops k (Suc n) x g = cleanup_dead_connection ops k n x g"
  using assms
proof (induction n arbitrary: x g)
  case (Suc n)
  let ?r = "fst (handle k (C_TransportLost x) (snd (handle k (C_DrainOutbound x) (gw_core g))))"
  let ?d = "dropped k x g"
  have wf: "core_wf (gw_core ?d)"
    using swept_dropped [of g k x] Suc.prems(1) by (auto simp: swept_def intro: core_reaches_wf)
  have "distribute_removed_with (cleanup_dead_connection ops k (Suc n)) ops EL_Disconnected summary ?d
      = distribute_removed_with (cleanup_dead_connection ops k n) ops EL_Disconnected summary ?d"
    if "?r = Inr (R_Disconnected summary)" for summary
  proof -
    have "is_connected (gw_core g) x"
    proof (rule ccontr)
      assume "\<not> is_connected (gw_core g) x"
      from dropped_gone(3) [OF Suc.prems(1) this, of k] that show False by auto
    qed
    then have "bt_len (co_connections (gw_core ?d)) < n"
      using dropped_gone(2) [OF Suc.prems(1), of x k] Suc.prems(2) by simp
    then show ?thesis using wf by (intro distribute_removed_with_cong [where n = n]) (auto intro: Suc.IH cleanup_swept)
  qed
  then show ?case
    by (auto simp: cleanup_unfold split: sum.split command_result.split)
qed simp

lemma cleanup_fuel:
  assumes "core_wf (gw_core g)" "connections_fuel g \<le> n"
  shows "cleanup_dead_connection ops k n x g = cleanup_dead_connection ops k (connections_fuel g) x g"
  using assms(2)
proof (induction n)
  case (Suc n)
  then show ?case
  proof (cases "connections_fuel g = Suc n")
    case False
    then have "connections_fuel g \<le> n" using Suc.prems by simp
    then show ?thesis
      using Suc.IH cleanup_fuel_step [OF assms(1), of n] by (simp add: connections_fuel_def)
  qed simp
qed (simp add: connections_fuel_def)

end
