(* ===== verification/GatewayProps.thy ===== *)
theory GatewayProps
  imports GatewayInv CoreProps CodecProps
begin

text \<open>
  Properties of the transport gateway: its requests are runs of the core, its fan-out ends, reaches
  every registered subscriber and disconnects the ones it cannot reach, and what it relays and
  replies is valid in the protocol.
\<close>

section \<open>Requests as runs of the core\<close>

lemma core_reaches_distribute:
  "c = gw_core g \<Longrightarrow> core_reaches c (gw_core (distribute_to_space_excluding ops k space envelope excluded g))"
  "c = gw_core g \<Longrightarrow> core_reaches c (gw_core (distribute_to_space ops k space envelope g))"
  "c = gw_core g \<Longrightarrow> core_reaches c (gw_core (distribute_removed_entities ops k summary reason g))"
  "c = gw_core g \<Longrightarrow> core_reaches c (gw_core (distribute_transition ops k transition g))"
  using swept_distribute [of g ops k] by (simp_all add: swept_def)

lemma core_reaches_lifecycle: "core_reaches (gw_core g) (gw_core (apply_lifecycle_action ops k action outcome g))"
  by (cases action; cases outcome)
    (simp_all add: apply_lifecycle_action_def activate_subscription_def Let_def core_reaches_distribute)

lemma core_reaches_command: "core_reaches (gw_core g) (gw_core (snd (worker_command ops k command g)))"
proof -
  obtain r c where h: "handle k command (gw_core g) = (r, c)" by force
  then have "core_reaches (gw_core g) c" using core_reaches_handle [of "gw_core g" k command] by simp
  then have "core_reaches (gw_core g) (gw_core (apply_lifecycle_action ops k action outcome
      (g\<lparr>gw_core := c, gw_metrics := m\<rparr>)))" for action outcome m
    using core_reaches_trans [OF _ core_reaches_lifecycle, of "gw_core g" "g\<lparr>gw_core := c, gw_metrics := m\<rparr>"]
    by simp
  with \<open>core_reaches (gw_core g) c\<close> show ?thesis
    by (simp add: worker_command_def gw_command_def Let_def h split: sum.split)
qed

lemma core_reaches_subscribe_and_spawn:
  "core_reaches (gw_core g) (gw_core (snd (worker_subscribe_and_spawn ops k connection space epoch g)))"
proof -
  obtain r1 c1 where s: "subscribe connection space (gw_core g) = (r1, c1)" by force
  obtain r2 c2 where p: "spawn_entity connection space epoch c1 = (r2, c2)" by force
  have 1: "core_reaches (gw_core g) c1" using core_reaches_subscribe [of "gw_core g" connection space] s by simp
  then have 2: "core_reaches (gw_core g) c2"
    using core_reaches_trans core_reaches_spawn [of c1 connection space epoch] p by (metis snd_conv)
  have "core_reaches (gw_core g) (gw_core (distribute_to_space_excluding ops k space envelope excluded
      (g\<lparr>gw_core := c2\<rparr>)))" for envelope excluded
    using 2 core_reaches_distribute(1) [of c2 "g\<lparr>gw_core := c2\<rparr>"] core_reaches_trans by fastforce
  then show ?thesis using s p 1 2 by (simp add: worker_subscribe_and_spawn_def split: sum.split)
qed

lemma core_reaches_gw_handle: "core_reaches (gw_core g) (gw_core (snd (gw_handle ops k request g)))"
  using swept_deliver [of g ops k]
  by (cases request)
    (simp_all add: core_reaches_command core_reaches_subscribe_and_spawn core_reaches_distribute
      worker_register_def activate_subscription_def Let_def swept_def)

section \<open>The handler\<close>

lemma core_reaches_ask:
  assumes "\<And>n g. core_reaches (gw_core g) (gw_core (be_others env n g))"
  shows "core_reaches (gw_core g) (gw_core (snd (ask env n request g)))"
  unfolding ask_def using assms core_reaches_gw_handle core_reaches_trans by blast

lemma execute_ask: "snd (execute env n command g) = snd (ask env n (WR_Command command) g)"
  by (auto simp: execute_def split: prod.split worker_reply.split)

lemma send_core [simp]:
  "gw_core (snd (send_envelope env sender envelope g)) = gw_core g"
  "gw_core (send_error env sender related code message g) = gw_core g"
  by (simp_all add: send_envelope_def send_error_def split: prod.split)

lemma send_outbound_core [simp]: "gw_core (snd (send_outbound env sender ms g)) = gw_core g"
proof (induction ms arbitrary: g)
  case (Cons m ms)
  obtain r g1 where s: "send_envelope env sender (outbound_envelope m) g = (r, g1)" by force
  then have "gw_core g1 = gw_core g" using send_core(1) [of env sender "outbound_envelope m" g] by simp
  then show ?case using s Cons.IH by (simp split: sum.split)
qed simp

lemma core_reaches_handle_authenticated:
  fixes g :: "('c, 'w) gateway"
  assumes others: "\<And>n g. core_reaches (gw_core g) (gw_core (be_others env n g))"
  shows "core_reaches (gw_core g) (gw_core (snd (handle_authenticated env connection e sender g)))"
proof -
  note ask = core_reaches_ask [OF others]
  have exe: "core_reaches (gw_core g) (gw_core g')" if "execute env n command g = (r, g')"
    for n command r and g g' :: "('c, 'w) gateway"
    using ask [of g n "WR_Command command"] execute_ask [of env n command g] that by simp
  have flush: "core_reaches (gw_core g) (gw_core (snd (flush_outbound env n connection sender g)))"
    for n and g :: "('c, 'w) gateway"
  proof -
    obtain r g1 where x: "execute env n (C_DrainOutbound connection) g = (r, g1)" by force
    then show ?thesis
      using exe [OF x] by (simp add: flush_outbound_def split: sum.split command_result.split)
  qed
  have snapshot: "core_reaches (gw_core g) (gw_core (snd (handle_snapshot_request env connection e sender g)))"
  proof -
    obtain r g1 where x: "execute env 0 (C_Snapshot connection (session_of_envelope e)) g = (r, g1)" by force
    then show ?thesis
      using exe [OF x] by (simp add: handle_snapshot_request_def split: sum.split command_result.split)
  qed
  have subscribe: "core_reaches (gw_core g) (gw_core (snd (handle_subscribe_space env connection e sender g)))"
  proof -
    let ?space = "space_of_envelope e"
    obtain r g1 where a: "subscribe_and_spawn env 0 connection ?space (ev_space_epoch e) g = (r, g1)" by force
    then have 1: "core_reaches (gw_core g) (gw_core g1)"
      using ask [of g 0 "WR_SubscribeAndSpawn connection ?space (ev_space_epoch e)"]
      by (auto simp: subscribe_and_spawn_def split: prod.splits worker_reply.splits)
    have 2: "core_reaches (gw_core g1) (gw_core (snd (flush_outbound env 2 connection sender
        (snd (ask env 1 (WR_ActivateSubscription connection ?space) g3)))))" if "gw_core g3 = gw_core g1" for g3
      using core_reaches_trans [OF ask flush] that by metis
    have 3: "gw_core g2 = gw_core h" if "send_envelope env sender x h = (r2, g2)" for x r2 g2 h
      using send_core(1) [of env sender x h] that by simp
    show ?thesis
      using a 1 2 core_reaches_trans [OF 1]
      by (auto simp: handle_subscribe_space_def Let_def dest!: 3 split: sum.split prod.split)
  qed
  have routed: "core_reaches (gw_core g) (gw_core (snd (case execute env 0 command g of
      (Inl error, g') \<Rightarrow> (Inl (), send_error env sender kind (transport_error_code error)
          (transport_error_string env error) g')
    | (Inr _, g') \<Rightarrow> flush_outbound env 1 connection sender g')))" for command kind
  proof -
    obtain r g1 where x: "execute env 0 command g = (r, g1)" by force
    then show ?thesis using exe [OF x] core_reaches_trans [OF exe [OF x] flush] by (simp split: sum.split)
  qed
  show ?thesis
    using snapshot subscribe routed
    by (auto simp: handle_authenticated_def split: option.split bool.split routed.split)
qed

text \<open>
  The core stays reachable under every interleaving: if what the other connections do between
  the handler's calls are runs of the core, handling an envelope leaves a reachable core, so that
  isolation, quotas, limits and the other invariants hold after every message, answered or refused.
\<close>

theorem handler_keeps_core_reachable:
  assumes "\<And>n g. \<exists>actions. gw_core (be_others env n g) = core_run (gw_core g) actions"
    and "reachable_core (gw_core g)"
  shows "reachable_core (gw_core (snd (handle_authenticated env connection e sender g)))"
proof (rule core_reaches_reachable [OF _ assms(2)])
  show "core_reaches (gw_core g) (gw_core (snd (handle_authenticated env connection e sender g)))"
    by (rule core_reaches_handle_authenticated) (use assms(1) in \<open>simp add: core_reaches_def\<close>)
qed

text \<open>Channels that record every attempt; \<open>accepts\<close> says which attempt a channel takes.\<close>

definition log_ops :: "(nat \<Rightarrow> nat \<Rightarrow> bool) \<Rightarrow> (nat, (nat \<times> envelope) list) channel_ops" where
  "log_ops accepts = \<lparr>op_try_send = (\<lambda>s e log. (accepts s (length log), log @ [(s, e)])),
     op_try_shutdown = (\<lambda>s log. (True, log))\<rparr>"

definition demo_env :: "(nat, (nat \<times> envelope) list) bridge_env" where
  "demo_env = \<lparr>be_ops = log_ops (\<lambda>_ _. True), be_clock = (\<lambda>_. demo_clock), be_others = (\<lambda>_ g. g),
     be_render_error = (\<lambda>_. []), be_render_snapshot = (\<lambda>_. []), be_inference_sink = None\<rparr>"

definition demo_gateway :: "(nat, (nat \<times> envelope) list) gateway" where
  "demo_gateway = (gateway_new demo_published [])\<lparr>
     gw_recipients := bt_insert 1 \<lparr>lr_sender = 10, lr_shutdown = 11\<rparr> (bt_insert 2 \<lparr>lr_sender = 20, lr_shutdown = 21\<rparr> bt_new),
     gw_subscriptions := bt_insert 1 (bs_insert demo_space_key bt_new)
       (bt_insert 2 (bs_insert demo_space_key bt_new) bt_new)\<rparr>"

lemma demo_gateway_reachable: "reachable_core (gw_core demo_gateway)"
  by (simp add: demo_gateway_def gateway_new_def demo_published_reachable)

lemma handler_keeps_core_reachable_witness:
  "reachable_core (gw_core (snd (handle_authenticated demo_env 1 demo_envelope 10 demo_gateway)))"
proof (rule handler_keeps_core_reachable [OF _ demo_gateway_reachable])
  show "\<exists>actions. gw_core (be_others demo_env n g) = core_run (gw_core g) actions" for n g
    by (rule exI [of _ "[]"]) (simp add: demo_env_def core_run_def)
qed

section \<open>Fan-out\<close>

text \<open>
  C30. The fan-out ends. A failed delivery disconnects its receiver, which announces the entities it
  owned, which may fail in turn: the mutual recursion of the code is modelled with fuel, and more
  fuel than the core has connections changes nothing, so the code's recursion ends within that
  depth, with the result of the model.
\<close>

theorem fan_out_recursion_ends:
  assumes "reachable_core (gw_core g)" "bt_len (co_connections (gw_core g)) < n"
  shows "cleanup_dead_connection ops k n x g = cleanup_dead_connection ops k (connections_fuel g) x g"
  using assms by (intro cleanup_fuel reachable_wf) (simp_all add: connections_fuel_def)

lemma fan_out_recursion_ends_witness:
  "cleanup_dead_connection (log_ops (\<lambda>_ _. False)) demo_clock 9 1 demo_gateway
   = cleanup_dead_connection (log_ops (\<lambda>_ _. False)) demo_clock (connections_fuel demo_gateway) 1 demo_gateway"
proof (rule fan_out_recursion_ends [OF demo_gateway_reachable])
  have "bt_len (co_connections demo_published) \<le> 2"
    by (simp add: demo_published_eq demo_stage_def bt_len_insert)
  then show "bt_len (co_connections (gw_core demo_gateway)) < 9"
    by (simp add: demo_gateway_def gateway_new_def)
qed

text \<open>A connection that is gone stays gone while others are swept.\<close>

definition gone_everywhere :: "connection_id \<Rightarrow> ('c, 'w) gateway \<Rightarrow> bool" where
  "gone_everywhere x g \<longleftrightarrow> core_wf (gw_core g) \<and> \<not> is_connected (gw_core g) x
     \<and> bt_get (gw_recipients g) x = None \<and> bt_get (gw_subscriptions g) x = None"

lemma gone_everywhere_swept: "gone_everywhere x g \<Longrightarrow> swept g g' \<Longrightarrow> gone_everywhere x g'"
  by (auto simp: gone_everywhere_def swept_def intro: shrunk_None core_reaches_wf)

lemma cleanup_gone:
  assumes "core_wf (gw_core g)" "0 < n"
  shows "gone_everywhere x (cleanup_dead_connection ops k n x g)"
proof -
  obtain m where n: "n = Suc m" using assms(2) by (cases n) auto
  have wf: "core_wf (gw_core (dropped k x g))"
    using swept_dropped [of g k x] assms(1) by (auto simp: swept_def intro: core_reaches_wf)
  have d: "gone_everywhere x (dropped k x g)"
    using dropped_gone(1) [OF assms(1), of k x] wf by (simp add: gone_everywhere_def)
  have "gone_everywhere x (distribute_removed_with (cleanup_dead_connection ops k m) ops EL_Disconnected
      summary (dropped k x g))" for summary
    using d by (rule gone_everywhere_swept) (rule swept_distribute_removed_with, rule cleanup_swept)
  then show ?thesis using d by (simp add: n cleanup_unfold split: sum.split command_result.split)
qed

lemma fold_cleanup_gone:
  assumes "core_wf (gw_core g)" "0 < n" "x \<in> set xs"
  shows "gone_everywhere x (fold (cleanup_dead_connection ops k n) xs g)"
  using assms(1,3)
proof (induction xs arbitrary: g)
  case (Cons y xs)
  let ?g = "cleanup_dead_connection ops k n y g"
  have wf: "core_wf (gw_core ?g)"
    using cleanup_swept [of g ops k n y] Cons.prems(1) by (auto simp: swept_def intro: core_reaches_wf)
  show ?case
  proof (cases "x \<in> set xs")
    case True
    then show ?thesis using Cons.IH [OF wf] by simp
  next
    case False
    then have "gone_everywhere x ?g" using cleanup_gone [OF Cons.prems(1) assms(2)] Cons.prems(2) by auto
    then have "gone_everywhere x (fold (cleanup_dead_connection ops k n) xs ?g)"
      by (rule gone_everywhere_swept) (rule swept_fold, rule cleanup_swept)
    then show ?thesis by simp
  qed
qed simp

text \<open>
  C31. Who cannot be told is disconnected. Every registered subscriber whose channel refuses an
  announcement is, when the fan-out returns, out of the core and out of both tables of the gateway;
  and no connection is added, registered or subscribed by a fan-out.
\<close>

theorem refusing_subscribers_are_disconnected:
  assumes "reachable_core (gw_core g)"
    and "send_targets ops envelope (gw_recipients g) (fan_targets (gw_subscriptions g) space excluded) (gw_world g)
          = (refused, w)"
    and "x \<in> set refused" "g' = distribute_to_space_excluding ops k space envelope excluded g"
  shows "\<not> is_connected (gw_core g') x \<and> bt_get (gw_recipients g') x = None \<and> bt_get (gw_subscriptions g') x = None
    \<and> (\<forall>y. is_connected (gw_core g') y \<longrightarrow> is_connected (gw_core g) y)
    \<and> (\<forall>y. bt_get (gw_recipients g') y = None \<or> bt_get (gw_recipients g') y = bt_get (gw_recipients g) y)
    \<and> (\<forall>y. bt_get (gw_subscriptions g') y = None \<or> bt_get (gw_subscriptions g') y = bt_get (gw_subscriptions g) y)"
proof -
  have "gone_everywhere x g'"
    using fold_cleanup_gone [of "g\<lparr>gw_world := w\<rparr>" "connections_fuel g" x refused ops k] assms reachable_wf
    by (simp add: distribute_to_space_excluding_def distribute_with_def connections_fuel_def)
  moreover have "swept g g'" using assms(4) swept_distribute(1) by blast
  ultimately show ?thesis
    using reachable_wf [OF assms(1)] by (simp add: gone_everywhere_def swept_def shrunk_def)
qed

definition demo_announcement :: envelope where
  "demo_announcement = entity_entered_envelope demo_space_key 1 7"

lemma refusing_subscribers_are_disconnected_witness:
  "\<not> is_connected (gw_core (distribute_to_space_excluding (log_ops (\<lambda>s _. s = 10)) demo_clock demo_space_key
     demo_announcement None demo_gateway)) 2"
proof -
  have "bs_contains (bs_insert demo_space_key bt_new) demo_space_key" by simp
  then have "send_targets (log_ops (\<lambda>s _. s = 10)) demo_announcement (gw_recipients demo_gateway)
      (fan_targets (gw_subscriptions demo_gateway) demo_space_key None) (gw_world demo_gateway)
    = ([2], [(10, demo_announcement), (20, demo_announcement)])"
    by (simp add: demo_gateway_def gateway_new_def fan_targets_def log_ops_def bt_iter_insert
        bt_get_insert)
  from refusing_subscribers_are_disconnected [OF demo_gateway_reachable this _ refl, of 2] show ?thesis by simp
qed

text \<open>What a fan-out sends when every channel takes what it is given.\<close>

definition announced :: "space_key \<Rightarrow> envelope \<Rightarrow> connection_id option \<Rightarrow> (nat, 'w) gateway \<Rightarrow> (nat \<times> envelope) list" where
  "announced space envelope excluded g = concat (map (\<lambda>x. case bt_get (gw_recipients g) x of
      None \<Rightarrow> [] | Some r \<Rightarrow> [(lr_sender r, envelope)]) (fan_targets (gw_subscriptions g) space excluded))"

lemma send_targets_accepted:
  "send_targets (log_ops (\<lambda>_ _. True)) envelope recipients targets log
   = ([], log @ concat (map (\<lambda>x. case bt_get recipients x of None \<Rightarrow> [] | Some r \<Rightarrow> [(lr_sender r, envelope)]) targets))"
  by (induction targets arbitrary: log) (simp_all add: log_ops_def split: option.split)

lemma distribute_accepted:
  "distribute_to_space_excluding (log_ops (\<lambda>_ _. True)) k space envelope excluded g
   = g\<lparr>gw_world := gw_world g @ announced space envelope excluded g\<rparr>"
  by (simp add: distribute_to_space_excluding_def distribute_with_def send_targets_accepted announced_def)

text \<open>
  C32. Every registered subscriber is told, once. When the channels take what they are given, an
  entity that a subscription spawns is announced to exactly the other registered subscribers of its
  space, one copy each, in the order of their ids, and nobody is disconnected or unsubscribed.
\<close>

theorem subscriber_spawn_is_announced:
  assumes "worker_subscribe_and_spawn (log_ops (\<lambda>_ _. True)) k connection space epoch g = (Inr entity, g')"
  shows "gw_world g' = gw_world g @ map (\<lambda>r. (lr_sender r, entity_entered_envelope space epoch entity))
      (List.map_filter (bt_get (gw_recipients g))
        (filter (\<lambda>x. x \<noteq> connection \<and> (case bt_get (gw_subscriptions g) x of None \<Rightarrow> False
            | Some spaces \<Rightarrow> bs_contains spaces space)) (bt_keys (gw_subscriptions g))))
    \<and> gw_recipients g' = gw_recipients g \<and> gw_subscriptions g' = gw_subscriptions g"
proof -
  obtain c1 c2 where "subscribe connection space (gw_core g) = (Inr (), c1)"
    "spawn_entity connection space epoch c1 = (Inr entity, c2)"
    and g': "g' = g\<lparr>gw_core := c2, gw_world := gw_world g
      @ announced space (entity_entered_envelope space epoch entity) (Some connection) g\<rparr>"
    using assms
    by (auto simp: worker_subscribe_and_spawn_def distribute_accepted announced_def split: prod.splits sum.splits)
  have targets: "fan_targets (gw_subscriptions g) space (Some connection)
      = filter (\<lambda>x. x \<noteq> connection \<and> (case bt_get (gw_subscriptions g) x of None \<Rightarrow> False
            | Some spaces \<Rightarrow> bs_contains spaces space)) (bt_keys (gw_subscriptions g))"
  proof -
    have "fan_targets (gw_subscriptions g) space (Some connection)
        = map fst (filter (\<lambda>p. fst p \<noteq> connection \<and> (case bt_get (gw_subscriptions g) (fst p) of None \<Rightarrow> False
            | Some spaces \<Rightarrow> bs_contains spaces space)) (bt_iter (gw_subscriptions g)))"
      unfolding fan_targets_def by (intro arg_cong [where f = "map fst"] filter_cong) (auto simp: in_bt_iter)
    then show ?thesis by (simp add: bt_keys_def filter_map comp_def)
  qed
  have "concat (map (\<lambda>x. case f x of None \<Rightarrow> [] | Some r \<Rightarrow> [(lr_sender r, v)]) xs)
      = map (\<lambda>r. (lr_sender r, v)) (List.map_filter f xs)" for f :: "connection_id \<Rightarrow> nat lifecycle_recipient option" and v :: envelope and xs
    by (induction xs) (auto simp: map_filter_simps split: option.split)
  then show ?thesis by (simp add: g' announced_def targets)
qed


lemma demo_subscribe_again: "subscribe 2 demo_space_key demo_published = (Inr (), demo_published)"
  by (simp add: demo_published_eq demo_received_def demo_simps)

lemma subscriber_spawn_is_announced_witness:
  "gw_world (snd (worker_subscribe_and_spawn (log_ops (\<lambda>_ _. True)) demo_clock 2 demo_space_key 1 demo_gateway))
     = [(10, entity_entered_envelope demo_space_key 1 2)]"
proof -
  obtain c where p: "spawn_entity 2 demo_space_key 1 demo_published = (Inr 2, c)" using demo_spawn_again by blast
  obtain g where g: "worker_subscribe_and_spawn (log_ops (\<lambda>_ _. True)) demo_clock 2 demo_space_key 1 demo_gateway = (Inr 2, g)"
    using demo_subscribe_again p
    by (simp add: worker_subscribe_and_spawn_def demo_gateway_def gateway_new_def)
  have "bs_contains (bs_insert demo_space_key bt_new) demo_space_key" by simp
  then show ?thesis
    using subscriber_spawn_is_announced [OF g] g
    by (simp add: demo_gateway_def gateway_new_def bt_keys_def bt_iter_insert bt_get_insert map_filter_simps)
qed

end
