(* ===== verification/GatewayRefine.thy ===== *)
theory GatewayRefine
  imports GatewayProps
begin

text \<open>
  What the worker task of the gateway promises, as a specification that knows no send loop, no
  recursion and no order of the tables, and the proof that the code of \<open>Gateway\<close> refines it: a
  request runs its operation of the core and changes the two tables accordingly, and then some of
  the connections that had to be told about it, each registered, subscribed and with a channel that
  can refuse, are disconnected, which leaves others to be told about the entities they owned.
\<close>

section \<open>The specification\<close>

record 'c gateway_spec =
  gs_core :: core
  gs_recipients :: "connection_id \<Rightarrow> 'c lifecycle_recipient option"
  gs_spaces :: "connection_id \<Rightarrow> space_key set option"

text \<open>What is still to be done: to announce something in a space, or to disconnect somebody.\<close>

datatype duty =
    Announce space_key "connection_id option"
  | Disconnect connection_id

definition can_refuse :: "('c, 'w) channel_ops \<Rightarrow> 'c \<Rightarrow> bool" where
  "can_refuse ops c \<longleftrightarrow> (\<exists>e w. \<not> fst (op_try_send ops c e w))"

text \<open>The connections an announcement may lose.\<close>

definition may_lose ::
  "('c, 'w) channel_ops \<Rightarrow> space_key \<Rightarrow> connection_id option \<Rightarrow> 'c gateway_spec \<Rightarrow> connection_id set" where
  "may_lose ops space excluded a = {x. excluded \<noteq> Some x
     \<and> (\<exists>r. gs_recipients a x = Some r \<and> can_refuse ops (lr_sender r))
     \<and> (\<exists>spaces. gs_spaces a x = Some spaces \<and> space \<in> spaces)}"

definition removed_spaces :: "cleanup_summary \<Rightarrow> duty list" where
  "removed_spaces summary =
     map (\<lambda>r. Announce (SpaceKey (re_session r) (re_space r)) None) (cs_removed_entities summary)"

text \<open>A connection is forgotten by both tables, its queue is drained and the core loses it.\<close>

definition spec_disconnect :: "clock_reading \<Rightarrow> connection_id \<Rightarrow> 'c gateway_spec \<Rightarrow> duty list \<times> 'c gateway_spec" where
  "spec_disconnect k x a =
     (case handle k (C_TransportLost x) (snd (handle k (C_DrainOutbound x) (gs_core a))) of (outcome, c) \<Rightarrow>
        (case outcome of Inr (R_Disconnected summary) \<Rightarrow> removed_spaces summary | _ \<Rightarrow> [],
         \<lparr>gs_core = c, gs_recipients = (gs_recipients a)(x := None), gs_spaces = (gs_spaces a)(x := None)\<rparr>))"

inductive discharge ::
  "('c, 'w) channel_ops \<Rightarrow> clock_reading \<Rightarrow> duty list \<Rightarrow> 'c gateway_spec \<Rightarrow> 'c gateway_spec \<Rightarrow> bool"
  for ops k where
  discharge_done: "discharge ops k [] a a"
| discharge_announce:
    "sorted_wrt (<) lost \<Longrightarrow> set lost \<subseteq> may_lose ops space excluded a \<Longrightarrow>
     discharge ops k (map Disconnect lost @ duties) a a' \<Longrightarrow>
     discharge ops k (Announce space excluded # duties) a a'"
| discharge_disconnect:
    "spec_disconnect k x a = (owed, a1) \<Longrightarrow> discharge ops k (owed @ duties) a1 a' \<Longrightarrow>
     discharge ops k (Disconnect x # duties) a a'"

inductive_simps discharge_nil: "discharge ops k [] a a'"

text \<open>What a command that the core accepted changes in the tables, and whom it obliges to tell.\<close>

definition spec_effect :: "command \<Rightarrow> command_result \<Rightarrow> 'c gateway_spec \<Rightarrow> duty list \<times> 'c gateway_spec" where
  "spec_effect command r a = (case (command, r) of
     (C_Subscribe x space, R_Subscribed) \<Rightarrow>
       ([], a\<lparr>gs_spaces := (gs_spaces a)(x \<mapsto> insert space (case gs_spaces a x of None \<Rightarrow> {} | Some s \<Rightarrow> s))\<rparr>)
   | (C_Unsubscribe x space, R_Unsubscribed summary) \<Rightarrow>
       (removed_spaces summary, a\<lparr>gs_spaces := (gs_spaces a)(x := map_option (\<lambda>s. s - {space}) (gs_spaces a x))\<rparr>)
   | (C_LeaveSession x session, R_Left summary) \<Rightarrow>
       (removed_spaces summary, a\<lparr>gs_spaces := (gs_spaces a)(x :=
          map_option (\<lambda>s. {space \<in> s. spk_session space \<noteq> session}) (gs_spaces a x))\<rparr>)
   | (C_SpawnEntity _ space _, R_EntitySpawned _) \<Rightarrow> ([Announce space None], a)
   | (C_RemoveEntity _ _ _, R_EntityRemoved summary) \<Rightarrow> (removed_spaces summary, a)
   | (C_TransitionEntity _, R_EntityTransitioned t) \<Rightarrow>
       ([Announce (SpaceKey (et_session t) (et_source_space t)) None,
         Announce (SpaceKey (et_session t) (et_destination_space t)) None], a)
   | (C_TransportLost x, R_Disconnected summary) \<Rightarrow>
       (removed_spaces summary,
        a\<lparr>gs_recipients := (gs_recipients a)(x := None), gs_spaces := (gs_spaces a)(x := None)\<rparr>)
   | _ \<Rightarrow> ([], a))"

inductive spec_step ::
  "('c, 'w) channel_ops \<Rightarrow> clock_reading \<Rightarrow> 'c worker_request \<Rightarrow> 'c gateway_spec \<Rightarrow> worker_reply
   \<Rightarrow> 'c gateway_spec \<Rightarrow> bool"
  for ops k where
  spec_refused: "handle k command (gs_core a) = (Inl e, c) \<Longrightarrow>
     spec_step ops k (WR_Command command) a (WP_Command (Inl e)) (a\<lparr>gs_core := c\<rparr>)"
| spec_accepted: "handle k command (gs_core a) = (Inr r, c) \<Longrightarrow>
     spec_effect command r (a\<lparr>gs_core := c\<rparr>) = (duties, a1) \<Longrightarrow> discharge ops k duties a1 a' \<Longrightarrow>
     spec_step ops k (WR_Command command) a (WP_Command (Inr r)) a'"
| spec_counts: "spec_step ops k WR_LiveCounts a (WP_Counts \<lparr>lc_connections_active = connection_count (gs_core a),
     lc_sessions_active = session_count (gs_core a)\<rparr>) a"
| spec_registered: "spec_step ops k (WR_RegisterLifecycle x recipient) a WP_Unit
     (a\<lparr>gs_recipients := (gs_recipients a)(x \<mapsto> recipient),
        gs_spaces := (gs_spaces a)(x \<mapsto> (case gs_spaces a x of None \<Rightarrow> {} | Some s \<Rightarrow> s))\<rparr>)"
| spec_not_subscribed: "subscribe x space (gs_core a) = (Inl e, c) \<Longrightarrow>
     spec_step ops k (WR_SubscribeAndSpawn x space epoch) a (WP_Spawned (Inl e)) (a\<lparr>gs_core := c\<rparr>)"
| spec_not_spawned: "subscribe x space (gs_core a) = (Inr (), c) \<Longrightarrow> spawn_entity x space epoch c = (Inl e, d) \<Longrightarrow>
     spec_step ops k (WR_SubscribeAndSpawn x space epoch) a (WP_Spawned (Inl e)) (a\<lparr>gs_core := d\<rparr>)"
| spec_spawned: "subscribe x space (gs_core a) = (Inr (), c) \<Longrightarrow> spawn_entity x space epoch c = (Inr entity, d) \<Longrightarrow>
     discharge ops k [Announce space (Some x)] (a\<lparr>gs_core := d\<rparr>) a' \<Longrightarrow>
     spec_step ops k (WR_SubscribeAndSpawn x space epoch) a (WP_Spawned (Inr entity)) a'"
| spec_activated: "spec_step ops k (WR_ActivateSubscription x space) a WP_Unit
     (a\<lparr>gs_spaces := (gs_spaces a)(x \<mapsto> insert space (case gs_spaces a x of None \<Rightarrow> {} | Some s \<Rightarrow> s))\<rparr>)"
| spec_broadcast: "discharge ops k [Announce space excluded] a a' \<Longrightarrow>
     spec_step ops k (WR_BroadcastToSpace space envelope excluded) a WP_Unit a'"
| spec_no_recipient: "gs_recipients a x = None \<Longrightarrow>
     spec_step ops k (WR_SendToConnection x envelope) a (WP_Sent (Inl TE_UnknownConnection)) a"
| spec_sent: "gs_recipients a x \<noteq> None \<Longrightarrow> spec_step ops k (WR_SendToConnection x envelope) a (WP_Sent (Inr ())) a"
| spec_send_refused: "gs_recipients a x = Some r \<Longrightarrow> can_refuse ops (lr_sender r) \<Longrightarrow>
     discharge ops k [Disconnect x] a a' \<Longrightarrow>
     spec_step ops k (WR_SendToConnection x envelope) a (WP_Sent (Inl TE_UnknownConnection)) a'"

section \<open>The abstraction\<close>

definition abs_gateway :: "('c, 'w) gateway \<Rightarrow> 'c gateway_spec" where
  "abs_gateway g = \<lparr>gs_core = gw_core g, gs_recipients = bt_get (gw_recipients g),
     gs_spaces = (\<lambda>x. map_option (\<lambda>spaces. {space. bs_contains spaces space}) (bt_get (gw_subscriptions g) x))\<rparr>"

lemma abs_gateway_sel [simp]:
  "gs_core (abs_gateway g) = gw_core g" "gs_recipients (abs_gateway g) = bt_get (gw_recipients g)"
  "gs_spaces (abs_gateway g) x = map_option (\<lambda>spaces. {space. bs_contains spaces space}) (bt_get (gw_subscriptions g) x)"
  by (simp_all add: abs_gateway_def)

lemma abs_gateway_frame [simp]:
  "abs_gateway (g\<lparr>gw_world := w\<rparr>) = abs_gateway g" "abs_gateway (g\<lparr>gw_metrics := m\<rparr>) = abs_gateway g"
  "abs_gateway (g\<lparr>gw_core := c\<rparr>) = (abs_gateway g)\<lparr>gs_core := c\<rparr>"
  by (simp_all add: abs_gateway_def)

section \<open>The fan-out discharges its duties\<close>

lemma discharge_append:
  "discharge ops k ds a b \<Longrightarrow> discharge ops k es b c \<Longrightarrow> discharge ops k (ds @ es) a c"
proof (induction rule: discharge.induct)
  case (discharge_announce lost space excluded a duties a')
  then show ?case by (auto intro: discharge.discharge_announce)
next
  case (discharge_disconnect x a owed a1 duties a')
  then show ?case by (auto intro: discharge.discharge_disconnect)
qed simp

lemma discharge_Cons: "discharge ops k [d] a b \<Longrightarrow> discharge ops k ds b c \<Longrightarrow> discharge ops k (d # ds) a c"
  using discharge_append [of ops k "[d]"] by simp

lemma spec_disconnect_abs:
  "spec_disconnect k x (abs_gateway g) =
     (case fst (handle k (C_TransportLost x) (snd (handle k (C_DrainOutbound x) (gw_core g)))) of
        Inr (R_Disconnected summary) \<Rightarrow> removed_spaces summary | _ \<Rightarrow> [],
      abs_gateway (dropped k x g))"
  by (auto simp: spec_disconnect_def abs_gateway_def dropped_core split: prod.split)

lemma send_targets_lost:
  "send_targets ops envelope recipients targets w = (lost, w') \<Longrightarrow> sorted_wrt (<) targets \<Longrightarrow>
   sorted_wrt (<) lost \<and> set lost \<subseteq> {x \<in> set targets. \<exists>r. bt_get recipients x = Some r \<and> can_refuse ops (lr_sender r)}"
proof (induction targets arbitrary: w lost w')
  case (Cons x targets)
  show ?case
  proof (cases "bt_get recipients x")
    case None
    with Cons.prems show ?thesis using Cons.IH [of w lost w'] by auto
  next
    case (Some r)
    obtain ok w1 where t: "op_try_send ops (lr_sender r) envelope w = (ok, w1)" by force
    show ?thesis
    proof (cases ok)
      case True
      with Cons.prems Some t show ?thesis using Cons.IH [of w1 lost w'] by auto
    next
      case False
      then have "can_refuse ops (lr_sender r)" using t unfolding can_refuse_def by (metis fst_conv)
      moreover obtain lost1 where l: "lost = x # lost1"
        "send_targets ops envelope recipients targets (snd (op_try_shutdown ops (lr_shutdown r) w1)) = (lost1, w')"
        using Cons.prems(1) Some t False by (auto split: prod.splits)
      ultimately show ?thesis using Cons.IH [OF l(2)] Cons.prems(2) Some by auto
    qed
  qed
qed simp

lemma fan_targets_lost:
  assumes "send_targets ops envelope (gw_recipients g) (fan_targets (gw_subscriptions g) space excluded) w = (lost, w')"
  shows "sorted_wrt (<) lost" "set lost \<subseteq> may_lose ops space excluded (abs_gateway g)"
proof -
  have "sorted_wrt (<) (fan_targets (gw_subscriptions g) space excluded)"
    unfolding fan_targets_def by (rule sorted_map_filter) (rule bt_iter_sorted)
  from send_targets_lost [OF assms this] show "sorted_wrt (<) lost"
    "set lost \<subseteq> may_lose ops space excluded (abs_gateway g)"
    by (auto simp: may_lose_def fan_targets_def in_bt_iter)
qed

text \<open>\<open>tells n ops k f\<close>: disconnecting by \<open>f\<close> discharges that duty while fewer than \<open>n\<close> are connected.\<close>

definition disconnects ::
  "nat \<Rightarrow> ('c, 'w) channel_ops \<Rightarrow> clock_reading \<Rightarrow> (connection_id \<Rightarrow> ('c, 'w) gateway \<Rightarrow> ('c, 'w) gateway) \<Rightarrow> bool" where
  "disconnects n ops k f \<longleftrightarrow> (\<forall>x g. swept g (f x g)) \<and> (\<forall>x g. core_wf (gw_core g) \<longrightarrow>
     bt_len (co_connections (gw_core g)) < n \<longrightarrow> discharge ops k [Disconnect x] (abs_gateway g) (abs_gateway (f x g)))"

lemma discharge_fold:
  assumes "\<And>x g. x \<in> set xs \<Longrightarrow> core_wf (gw_core g) \<Longrightarrow> bt_len (co_connections (gw_core g)) < n \<Longrightarrow>
      discharge ops k (d x) (abs_gateway g) (abs_gateway (f x g))"
    and "\<And>x g. swept g (f x g)" "core_wf (gw_core g)" "bt_len (co_connections (gw_core g)) < n"
  shows "discharge ops k (concat (map d xs)) (abs_gateway g) (abs_gateway (fold f xs g))"
  using assms
proof (induction xs arbitrary: g)
  case (Cons x xs)
  have s: "swept g (f x g)" by (rule Cons.prems(2))
  then have "core_wf (gw_core (f x g))" "bt_len (co_connections (gw_core (f x g))) < n"
    using Cons.prems(3,4) by (auto simp: swept_def intro: core_reaches_wf)
  then have "discharge ops k (concat (map d xs)) (abs_gateway (f x g)) (abs_gateway (fold f xs (f x g)))"
    using Cons.prems(1,2) by (intro Cons.IH) auto
  moreover have "discharge ops k (d x) (abs_gateway g) (abs_gateway (f x g))" using Cons.prems by simp
  ultimately show ?case by (simp add: discharge_append)
qed (simp add: discharge_done)

lemma discharge_distribute_with:
  assumes f: "disconnects n ops k f" and "core_wf (gw_core g)" "bt_len (co_connections (gw_core g)) < n"
  shows "discharge ops k [Announce space excluded] (abs_gateway g)
    (abs_gateway (distribute_with f ops space envelope excluded g))"
proof -
  obtain lost w where s: "send_targets ops envelope (gw_recipients g)
      (fan_targets (gw_subscriptions g) space excluded) (gw_world g) = (lost, w)" by force
  have "discharge ops k (concat (map (\<lambda>x. [Disconnect x]) lost)) (abs_gateway (g\<lparr>gw_world := w\<rparr>))
      (abs_gateway (fold f lost (g\<lparr>gw_world := w\<rparr>)))"
    by (rule discharge_fold [where n = n]) (use f assms(2,3) in \<open>simp_all add: disconnects_def\<close>)
  moreover have "concat (map (\<lambda>x. [Disconnect x]) lost) = map Disconnect lost" by (induction lost) simp_all
  ultimately show ?thesis
    using discharge_announce [OF fan_targets_lost [OF s], of k "[]"] by (simp add: distribute_with_def s)
qed

lemma discharge_removed_with:
  assumes "disconnects n ops k f" "core_wf (gw_core g)" "bt_len (co_connections (gw_core g)) < n"
  shows "discharge ops k (removed_spaces summary) (abs_gateway g)
    (abs_gateway (distribute_removed_with f ops reason summary g))"
proof -
  have "swept g (distribute_with f ops space envelope excluded g)" for space envelope excluded g
    using assms(1) by (intro swept_distribute_with) (simp add: disconnects_def)
  then have "discharge ops k (concat (map (\<lambda>r. [Announce (SpaceKey (re_session r) (re_space r)) None])
      (cs_removed_entities summary))) (abs_gateway g) (abs_gateway (distribute_removed_with f ops reason summary g))"
    unfolding distribute_removed_with_def Let_def
    by (intro discharge_fold [where n = n] discharge_distribute_with) (use assms in simp_all)
  moreover have "concat (map (\<lambda>r. [h r]) rs) = map h rs" for h :: "removed_entity \<Rightarrow> duty" and rs
    by (induction rs) simp_all
  ultimately show ?thesis by (simp add: removed_spaces_def)
qed

lemma cleanup_disconnects: "disconnects n ops k (cleanup_dead_connection ops k n)"
proof (induction n)
  case (Suc n)
  have "discharge ops k [Disconnect x] (abs_gateway g) (abs_gateway (cleanup_dead_connection ops k (Suc n) x g))"
    if wf: "core_wf (gw_core g)" and len: "bt_len (co_connections (gw_core g)) < Suc n" for x g
  proof -
    let ?r = "fst (handle k (C_TransportLost x) (snd (handle k (C_DrainOutbound x) (gw_core g))))"
    let ?d = "dropped k x g"
    have wf': "core_wf (gw_core ?d)"
      using swept_dropped [of g k x] wf by (auto simp: swept_def intro: core_reaches_wf)
    have "discharge ops k (case ?r of Inr (R_Disconnected summary) \<Rightarrow> removed_spaces summary | _ \<Rightarrow> [])
        (abs_gateway ?d) (abs_gateway (cleanup_dead_connection ops k (Suc n) x g))"
    proof (cases "\<exists>summary. ?r = Inr (R_Disconnected summary)")
      case True
      then obtain summary where r: "?r = Inr (R_Disconnected summary)" by blast
      have "is_connected (gw_core g) x"
        using dropped_gone(3) [OF wf, of x k] r by auto
      then have "bt_len (co_connections (gw_core ?d)) < n"
        using dropped_gone(2) [OF wf, of x k] len by simp
      from discharge_removed_with [OF Suc.IH wf' this, of summary EL_Disconnected] r
      show ?thesis by (simp add: cleanup_unfold)
    qed (auto simp: cleanup_unfold discharge_done split: sum.split command_result.split)
    then show ?thesis
      using discharge_disconnect [OF spec_disconnect_abs, of ops k x g "[]"] by simp
  qed
  then show ?case using cleanup_swept by (auto simp: disconnects_def)
qed (simp add: disconnects_def)

lemma discharge_distribute:
  assumes "core_wf (gw_core g)"
  shows "discharge ops k [Announce space excluded] (abs_gateway g)
      (abs_gateway (distribute_to_space_excluding ops k space envelope excluded g))"
    and "discharge ops k [Announce space None] (abs_gateway g)
      (abs_gateway (distribute_to_space ops k space envelope g))"
    and "discharge ops k (removed_spaces summary) (abs_gateway g)
      (abs_gateway (distribute_removed_entities ops k summary reason g))"
  unfolding distribute_to_space_def distribute_to_space_excluding_def distribute_removed_entities_def
  by (rule discharge_distribute_with discharge_removed_with, rule cleanup_disconnects, rule assms,
      simp add: connections_fuel_def)+

lemma discharge_transition:
  assumes "core_wf (gw_core g)"
  shows "discharge ops k [Announce (SpaceKey (et_session t) (et_source_space t)) None,
      Announce (SpaceKey (et_session t) (et_destination_space t)) None] (abs_gateway g)
      (abs_gateway (distribute_transition ops k t g))"
proof -
  let ?g = "distribute_to_space ops k (SpaceKey (et_session t) (et_source_space t)) (entity_left_envelope
    (SpaceKey (et_session t) (et_source_space t)) (et_source_epoch t) (et_entity t) EL_Transitioned) g"
  have "core_wf (gw_core ?g)"
    using swept_distribute(2) [of g ops k] assms by (auto simp: swept_def intro: core_reaches_wf)
  from discharge_Cons [OF discharge_distribute(2) [OF assms] discharge_distribute(2) [OF this]]
  show ?thesis unfolding distribute_transition_def Let_def .
qed

section \<open>Every request refines its specification\<close>

lemma abs_gateway_tables [simp]:
  "abs_gateway (activate_subscription x space g) = (abs_gateway g)\<lparr>gs_spaces := (gs_spaces (abs_gateway g))
     (x \<mapsto> insert space (case gs_spaces (abs_gateway g) x of None \<Rightarrow> {} | Some s \<Rightarrow> s))\<rparr>"
  "abs_gateway (worker_register x recipient g) = (abs_gateway g)
     \<lparr>gs_recipients := (gs_recipients (abs_gateway g))(x \<mapsto> recipient),
      gs_spaces := (gs_spaces (abs_gateway g))
        (x \<mapsto> (case gs_spaces (abs_gateway g) x of None \<Rightarrow> {} | Some s \<Rightarrow> s))\<rparr>"
  "abs_gateway (g\<lparr>gw_subscriptions := bt_modify x (bs_remove space) (gw_subscriptions g)\<rparr>) = (abs_gateway g)
     \<lparr>gs_spaces := (gs_spaces (abs_gateway g))(x := map_option (\<lambda>s. s - {space}) (gs_spaces (abs_gateway g) x))\<rparr>"
  "abs_gateway (g\<lparr>gw_subscriptions := bt_modify x (bs_retain (\<lambda>space. spk_session space \<noteq> session)) (gw_subscriptions g)\<rparr>)
     = (abs_gateway g)\<lparr>gs_spaces := (gs_spaces (abs_gateway g))
       (x := map_option (\<lambda>s. {space \<in> s. spk_session space \<noteq> session}) (gs_spaces (abs_gateway g) x))\<rparr>"
  "abs_gateway (g\<lparr>gw_recipients := bt_remove x (gw_recipients g), gw_subscriptions := bt_remove x (gw_subscriptions g)\<rparr>)
     = (abs_gateway g)\<lparr>gs_recipients := (gs_recipients (abs_gateway g))(x := None),
       gs_spaces := (gs_spaces (abs_gateway g))(x := None)\<rparr>"
  by (auto simp: abs_gateway_def activate_subscription_def worker_register_def Let_def fun_eq_iff bt_get_insert
      bt_get_modify bt_contains_key_def option.map_comp comp_def intro!: option.map_cong split: option.split)

lemma lifecycle_refines:
  assumes wf: "core_wf (gw_core g)" and e: "spec_effect command r (abs_gateway g) = (duties, a)"
  shows "discharge ops k duties a (abs_gateway (apply_lifecycle_action ops k (lifecycle_action_of command) r g))"
proof -
  note unchanged = discharge_done [of ops k a]
  have removed: "discharge ops k (removed_spaces summary) (abs_gateway h)
      (abs_gateway (distribute_removed_entities ops k summary reason h))" if "gw_core h = gw_core g" for h summary reason
    using that wf by (intro discharge_distribute(3)) simp
  show ?thesis
  proof (cases command)
    case (C_Unsubscribe x space)
    then show ?thesis
      using e removed [of "g\<lparr>gw_subscriptions := bt_modify x (bs_remove space) (gw_subscriptions g)\<rparr>"]
      by (cases r) (auto simp: spec_effect_def apply_lifecycle_action_def discharge_done)
  next
    case (C_LeaveSession x session)
    then show ?thesis
      using e removed [of "g\<lparr>gw_subscriptions := bt_modify x (bs_retain (\<lambda>space. spk_session space \<noteq> session))
        (gw_subscriptions g)\<rparr>"]
      by (cases r) (auto simp: spec_effect_def apply_lifecycle_action_def discharge_done)
  next
    case (C_TransportLost x)
    then show ?thesis
      using e removed [of "g\<lparr>gw_recipients := bt_remove x (gw_recipients g),
        gw_subscriptions := bt_remove x (gw_subscriptions g)\<rparr>"]
      by (cases r) (auto simp: spec_effect_def apply_lifecycle_action_def discharge_done)
  next
    case (C_RemoveEntity x space entity)
    then show ?thesis
      using e removed [OF refl] by (cases r) (auto simp: spec_effect_def apply_lifecycle_action_def discharge_done)
  next
    case (C_SpawnEntity x space epoch)
    then show ?thesis
      using e discharge_distribute(2) [OF wf]
      by (cases r) (auto simp: spec_effect_def apply_lifecycle_action_def discharge_done)
  next
    case (C_TransitionEntity t)
    then show ?thesis
      using e discharge_transition [OF wf]
      by (cases r) (auto simp: spec_effect_def apply_lifecycle_action_def discharge_done)
  next
    case (C_Subscribe x space)
    then show ?thesis
      using e by (cases r) (auto simp: spec_effect_def apply_lifecycle_action_def discharge_done)
  qed (use e in \<open>cases r; auto simp: spec_effect_def apply_lifecycle_action_def discharge_done\<close>)+
qed

lemma command_refines:
  assumes wf: "core_wf (gw_core g)" and w: "worker_command ops k command g = (outcome, g')"
  shows "spec_step ops k (WR_Command command) (abs_gateway g) (WP_Command outcome) (abs_gateway g')"
proof -
  obtain r c where h: "handle k command (gw_core g) = (r, c)" by force
  define m where "m = observe_command (metrics_context_of command) r (gw_metrics g)"
  show ?thesis
  proof (cases r)
    case (Inl e)
    then have "outcome = Inl e" "g' = g\<lparr>gw_core := c, gw_metrics := m\<rparr>"
      using w h by (auto simp: worker_command_def gw_command_def m_def)
    then show ?thesis using spec_refused [of k command "abs_gateway g" e c ops] h Inl by simp
  next
    case (Inr v)
    let ?g = "g\<lparr>gw_core := c, gw_metrics := m\<rparr>"
    obtain duties a where e: "spec_effect command v (abs_gateway ?g) = (duties, a)" by force
    have "core_wf c" using core_reaches_wf [OF core_reaches_handle wf, of k command] h by simp
    then have "discharge ops k duties a (abs_gateway (apply_lifecycle_action ops k (lifecycle_action_of command) v ?g))"
      using e by (intro lifecycle_refines) simp_all
    moreover have "outcome = Inr v" "g' = apply_lifecycle_action ops k (lifecycle_action_of command) v ?g"
      using w h Inr by (auto simp: worker_command_def gw_command_def m_def)
    ultimately show ?thesis using spec_accepted [of k command "abs_gateway g" v c duties a ops] h Inr e by simp
  qed
qed

lemma subscribe_and_spawn_refines:
  assumes wf: "core_wf (gw_core g)" and w: "worker_subscribe_and_spawn ops k x space epoch g = (outcome, g')"
  shows "spec_step ops k (WR_SubscribeAndSpawn x space epoch) (abs_gateway g) (WP_Spawned outcome) (abs_gateway g')"
proof -
  obtain r1 c1 where s: "subscribe x space (gw_core g) = (r1, c1)" by force
  obtain r2 c2 where p: "spawn_entity x space epoch c1 = (r2, c2)" by force
  show ?thesis
  proof (cases r1)
    case (Inl e)
    then show ?thesis
      using w s spec_not_subscribed [of x space "abs_gateway g" e c1 ops k epoch]
      by (auto simp: worker_subscribe_and_spawn_def)
  next
    case r1: (Inr u)
    show ?thesis
    proof (cases r2)
      case (Inl e)
      then show ?thesis
        using w s p r1 spec_not_spawned [of x space "abs_gateway g" c1 epoch e c2 ops k]
        by (auto simp: worker_subscribe_and_spawn_def)
    next
      case (Inr entity)
      have "core_wf c2"
        using core_reaches_wf [OF core_reaches_spawn core_reaches_wf [OF core_reaches_subscribe wf]] s p
        by (metis snd_conv)
      then have "discharge ops k [Announce space (Some x)] (abs_gateway (g\<lparr>gw_core := c2\<rparr>)) (abs_gateway g')"
        using w s p r1 Inr discharge_distribute(1) [of "g\<lparr>gw_core := c2\<rparr>" ops k space "Some x"]
        by (auto simp: worker_subscribe_and_spawn_def)
      then show ?thesis
        using w s p r1 Inr spec_spawned [of x space "abs_gateway g" c1 epoch entity c2 ops k "abs_gateway g'"]
        by (auto simp: worker_subscribe_and_spawn_def)
    qed
  qed
qed

lemma deliver_refines:
  assumes wf: "core_wf (gw_core g)" and w: "deliver_to_connection ops k x envelope g = (outcome, g')"
  shows "spec_step ops k (WR_SendToConnection x envelope) (abs_gateway g) (WP_Sent outcome) (abs_gateway g')"
proof (cases "bt_get (gw_recipients g) x")
  case None
  then show ?thesis using w spec_no_recipient [of "abs_gateway g" x ops k envelope]
    by (auto simp: deliver_to_connection_def)
next
  case (Some r)
  obtain ok w1 where t: "op_try_send ops (lr_sender r) envelope (gw_world g) = (ok, w1)" by force
  show ?thesis
  proof (cases ok)
    case True
    then show ?thesis using w Some t spec_sent [of "abs_gateway g" x ops k envelope]
      by (auto simp: deliver_to_connection_def)
  next
    case False
    then have can: "can_refuse ops (lr_sender r)" using t unfolding can_refuse_def by (metis fst_conv)
    let ?g = "g\<lparr>gw_world := snd (op_try_shutdown ops (lr_shutdown r) w1)\<rparr>"
    have "discharge ops k [Disconnect x] (abs_gateway ?g)
        (abs_gateway (cleanup_dead_connection ops k (connections_fuel ?g) x ?g))"
      using cleanup_disconnects [of "connections_fuel ?g" ops k] wf unfolding disconnects_def
      by (simp add: connections_fuel_def del: abs_gateway_frame)
    then show ?thesis
      using w Some t False spec_send_refused [of "abs_gateway g" x r ops k "abs_gateway g'" envelope] can
      by (auto simp: deliver_to_connection_def Let_def)
  qed
qed

lemma request_refines:
  assumes wf: "core_wf (gw_core g)" and h: "gw_handle ops k request g = (reply, g')"
  shows "spec_step ops k request (abs_gateway g) reply (abs_gateway g')"
proof (cases request)
  case (WR_Command command)
  then show ?thesis using h command_refines [OF wf] by (auto simp: map_prod_def split: prod.splits)
next
  case (WR_SubscribeAndSpawn x space epoch)
  then show ?thesis using h subscribe_and_spawn_refines [OF wf] by (auto simp: map_prod_def split: prod.splits)
next
  case (WR_SendToConnection x envelope)
  then show ?thesis using h deliver_refines [OF wf] by (auto simp: map_prod_def split: prod.splits)
next
  case (WR_RegisterLifecycle x recipient)
  then show ?thesis using h spec_registered [of ops k x recipient "abs_gateway g"] by auto
next
  case (WR_ActivateSubscription x space)
  then show ?thesis using h spec_activated [of ops k x space "abs_gateway g"] by auto
next
  case (WR_BroadcastToSpace space envelope excluded)
  then show ?thesis using h discharge_distribute(1) [OF wf] by (auto intro: spec_broadcast)
next
  case WR_LiveCounts
  then show ?thesis using h spec_counts [of ops k "abs_gateway g"] by auto
qed

section \<open>The loop of the worker task\<close>

fun worker_loop ::
  "('c, 'w) channel_ops \<Rightarrow> (clock_reading \<times> 'c worker_request) list \<Rightarrow> ('c, 'w) gateway
   \<Rightarrow> worker_reply list \<times> ('c, 'w) gateway" where
  "worker_loop ops [] g = ([], g)"
| "worker_loop ops ((k, request) # requests) g =
     (case gw_handle ops k request g of
        (reply, g1) \<Rightarrow> (case worker_loop ops requests g1 of (replies, g2) \<Rightarrow> (reply # replies, g2)))"

inductive spec_run ::
  "('c, 'w) channel_ops \<Rightarrow> (clock_reading \<times> 'c worker_request) list \<Rightarrow> 'c gateway_spec \<Rightarrow> worker_reply list
   \<Rightarrow> 'c gateway_spec \<Rightarrow> bool" for ops where
  spec_run_done: "spec_run ops [] a [] a"
| spec_run_step: "spec_step ops k request a reply a1 \<Longrightarrow> spec_run ops requests a1 replies a' \<Longrightarrow>
     spec_run ops ((k, request) # requests) a (reply # replies) a'"

text \<open>
  C29. Refinement. The worker task implements its specification: from a reachable core and for every
  sequence of requests the replies and the resulting core and tables are those of a run of the specification. A command
  leaves exactly the core, reply and table entries the specification gives it, and beyond that a
  request only disconnects registered connections it had to tell something, subscribed to the space
  concerned (or addressed by a send) and with a channel that can refuse; each of them is drained,
  leaves the core and both tables, and its removed entities are announced in turn.
\<close>

theorem worker_loop_refines_specification:
  assumes "reachable_core (gw_core g)" and "worker_loop ops requests g = (replies, g')"
  shows "spec_run ops requests (abs_gateway g) replies (abs_gateway g')"
  using assms
proof (induction requests arbitrary: g replies)
  case Nil
  then show ?case by (simp add: spec_run_done)
next
  case (Cons item requests)
  obtain k request where item: "item = (k, request)" by force
  obtain reply g1 where h: "gw_handle ops k request g = (reply, g1)" by force
  obtain rest where r: "worker_loop ops requests g1 = (rest, g')" "replies = reply # rest"
    using Cons.prems(2) by (auto simp: item h split: prod.splits)
  have "reachable_core (gw_core g1)"
    using core_reaches_reachable [OF core_reaches_gw_handle Cons.prems(1), of ops k request] h by simp
  from Cons.IH [OF this r(1)] request_refines [OF reachable_wf [OF Cons.prems(1)] h]
  show ?case by (simp add: item r(2) spec_run_step)
qed

lemma worker_loop_refines_specification_witness:
  "spec_run (log_ops (\<lambda>s _. s = 10)) [(demo_clock, WR_BroadcastToSpace demo_space_key demo_announcement None)]
     (abs_gateway demo_gateway) [WP_Unit] (abs_gateway (distribute_to_space_excluding (log_ops (\<lambda>s _. s = 10))
        demo_clock demo_space_key demo_announcement None demo_gateway))"
  by (rule worker_loop_refines_specification [OF demo_gateway_reachable]) simp

end
