(* ===== verification/RelayProps.thy ===== *)
theory RelayProps
  imports GatewayProps
begin

text \<open>
  What the bridge relays and replies is valid in the protocol: a publish envelope comes out of the
  gateway as it went in, up to the fields the server owns, and passes the checks of the codec.
\<close>

section \<open>A publish and its relay\<close>

text \<open>
  What a subscriber sees of a publish envelope: the server's version, tick and correlation, and of
  a reliable event not the type id.
\<close>

definition relayed :: "envelope \<Rightarrow> envelope" where
  "relayed e = e\<lparr>ev_protocol_version := PROTOCOL_VERSION, ev_server_tick := 0, ev_correlation_id := None,
     ev_message := (case ev_message e of
         ReliableEvent p \<Rightarrow> ReliableEvent (p\<lparr>ok_type_id := 1\<rparr>)
       | m \<Rightarrow> m)\<rparr>"

lemma protocol_delivery_core: "core_delivery d = Some d' \<Longrightarrow> protocol_delivery d' = d"
  by (cases d) auto

lemma delivery_fits_publish:
  "delivery_fits MK_EntityState d \<longleftrightarrow> d = PD_LatestValue \<or> d = PD_UnreliableSequenced"
  "delivery_fits MK_ReliableEvent d \<longleftrightarrow> d = PD_ReliableOrdered \<or> d = PD_ReliableUnordered"
  by (simp_all add: delivery_fits_def)

lemma kinds [simp]:
  "ev_message e = EntityState p \<Longrightarrow> ev_message_kind e = MK_EntityState"
  "ev_message e = ReliableEvent p \<Longrightarrow> ev_message_kind e = MK_ReliableEvent"
  by (simp_all add: ev_message_kind_def)

lemma core_delivery_eq: "core_delivery d = Some d' \<longleftrightarrow> d = protocol_delivery d'"
  by (cases d; cases d') auto

lemma routed_publish:
  assumes "route connection e = Routed (C_Publish r)"
  obtains p d ch where "ev_delivery_class e = protocol_delivery d" "ev_channel_id e = Some ch"
    "ev_message e = EntityState p \<and> publish_command connection e Stateful p = Routed (C_Publish r)
     \<or> ev_message e = ReliableEvent p \<and> publish_command connection e Ephemeral p = Routed (C_Publish r)"
proof -
  obtain p where "ev_message e = EntityState p \<and> publish_command connection e Stateful p = Routed (C_Publish r)
     \<or> ev_message e = ReliableEvent p \<and> publish_command connection e Ephemeral p = Routed (C_Publish r)"
    using assms by (auto simp: route_def split: message_payload.splits control_payload.splits option.splits)
  moreover have "\<exists>d ch. ev_delivery_class e = protocol_delivery d \<and> ev_channel_id e = Some ch"
    if "publish_command connection e q p = Routed (C_Publish r)" for q
    using that by (auto simp: publish_command_def core_delivery_eq split: option.splits)
  ultimately show ?thesis using that by blast
qed

lemma relayed_publish:
  assumes "route connection e = Routed (C_Publish r)" "validate_envelope e = Inr ()"
  shows "outbound_envelope (am_to_outbound (pq_session r) (am_from_request r)) = relayed e"
proof -
  have fits: "delivery_fits (ev_message_kind e) (ev_delivery_class e)"
    using assms(2) by (simp add: validate_envelope_ok validate_delivery_ok)
  from assms(1) show ?thesis
  proof (rule routed_publish)
    fix p d ch
    assume d: "ev_delivery_class e = protocol_delivery d" and ch: "ev_channel_id e = Some ch"
    assume m: "ev_message e = EntityState p \<and> publish_command connection e Stateful p = Routed (C_Publish r)
      \<or> ev_message e = ReliableEvent p \<and> publish_command connection e Ephemeral p = Routed (C_Publish r)"
    show ?thesis
      using m fits d ch
      by (cases d; cases e) (auto simp: publish_command_def outbound_envelope_def am_to_outbound_def
          am_from_request_def session_of_envelope_def relayed_def delivery_fits_publish)
  qed
qed

lemma relayed_valid:
  assumes "ev_message e = EntityState p \<or> ev_message e = ReliableEvent p" "validate_envelope e = Inr ()"
  shows "validate_envelope (relayed e) = Inr ()"
  using assms
  by (auto simp: validate_envelope_ok relayed_def scope_ok validate_payload_type_def and_then_eq_Inr ev_message_kind_def)

section \<open>Replies\<close>

text \<open>Every error reply of the bridge passes the checks; a best-effort message of a policy never does.\<close>

lemma transport_error_code_known: "transport_error_code e \<noteq> PE_Unknown"
proof (cases e)
  case (TE_Core c)
  then show ?thesis by (cases c) (simp_all add: transport_error_code_def)
qed (simp_all add: transport_error_code_def)

lemma error_envelope_valid: "code \<noteq> PE_Unknown \<Longrightarrow> validate_envelope (error_envelope related code message) = Inr ()"
  by (simp add: error_envelope_def envelope_control_def envelope_new_def validate_envelope_ok scope_ok ev_message_kind_def
      delivery_fits_def validate_control_def validate_protocol_error_def validate_optional_scope_def)

lemma best_effort_not_encodable:
  "om_delivery m = BestEffortEvent \<Longrightarrow> validate_envelope (outbound_envelope m) \<noteq> Inr ()"
  by (simp add: outbound_envelope_def Let_def validate_envelope_ok scope_ok ev_message_kind_def delivery_fits_publish)

end
