(* ===== verification/Delivery.thy ===== *)
theory Delivery
  imports Replay RelayProps
begin

text \<open>
  What a publish leaves in the outbound queues, exactly, when the policy of its channel passes
  messages on as they are, and what a subscriber therefore drains: the envelope that was sent.
\<close>

section \<open>Policies that pass messages on\<close>

definition passes :: "authority_policy \<Rightarrow> bool" where
  "passes policy \<longleftrightarrow> (\<forall>context proposed. policy context proposed = AO_Accept
     \<or> (\<exists>reason. policy context proposed = AO_Reject reason))"

lemma relay_passes: "passes relay_owned_evaluate"
  by (auto simp: passes_def relay_owned_evaluate_def)

lemma passes_authorized:
  assumes "authorize_publish c r = Inr (messages, planned)"
    and "bt_get (co_channels c) (pq_channel r) = Some channel" "passes (cd_authority channel)"
  shows "messages = [am_from_request r]"
proof -
  from assms(1,2) obtain p s planned0 where "authority_messages (co_config c) (pq_connection r) (am_from_request r)
      (cd_authority channel (context_of r p s) (proposed_of r)) = Inr (messages, planned0)"
    by (elim authorize_publishE) auto
  moreover have "cd_authority channel (context_of r p s) (proposed_of r) = AO_Accept
      \<or> (\<exists>reason. cd_authority channel (context_of r p s) (proposed_of r) = AO_Reject reason)"
    using assms(3) unfolding passes_def by blast
  ultimately show ?thesis by auto
qed

section \<open>Draining\<close>

text \<open>The messages that wait for a connection.\<close>

definition waiting_for :: "core \<Rightarrow> connection_id \<Rightarrow> outbound_message list" where
  "waiting_for c y = (case bt_get (co_connections c) y of None \<Rightarrow> [] | Some cn \<Rightarrow> oq_view (cn_outbound cn))"

lemma connection_queue_wf: "core_wf c \<Longrightarrow> bt_get (co_connections c) y = Some cn \<Longrightarrow> oq_wf (cn_outbound cn) \<and> y \<noteq> 0"
  using core_connection(1) by (fastforce simp: connection_wf_def)

lemma drains:
  assumes "core_wf c" "bt_get (co_connections c) y = Some cn"
  shows "\<exists>d. drain_outbound y c = (Inr (oq_view (cn_outbound cn)), d)"
proof -
  obtain ms q where d: "oq_drain (cn_outbound cn) = (ms, q)" by force
  then have "ms = oq_view (cn_outbound cn)" using oq_drain_wf connection_queue_wf [OF assms] by blast
  then show ?thesis
    using assms(2) d connection_queue_wf [OF assms]
    by (simp add: drain_outbound_def checked_def validate_connection_id_def require_nonzero_def get_connection_def and_then_def)
qed

lemma drained:
  assumes "core_wf c" "drain_outbound y c = (Inr ms, d)"
  shows "ms = waiting_for c y"
proof -
  obtain cn where cn: "bt_get (co_connections c) y = Some cn"
    using assms(2) by (auto simp: drain_outbound_def checked_ok and_then_eq_Inr get_connection_def split: option.splits)
  then show ?thesis using drains [OF assms(1) cn] assms(2) by (simp add: waiting_for_def)
qed

section \<open>What a delivery does to each queue\<close>

lemma deliver_to_exact:
  assumes "deliver_to key m cids (o0, disc0) c = (Inr (o1, disc1), c')" "distinct cids"
  shows "bt_get (co_connections c') x = (case receiving_connection c key m x of
      Some cn \<Rightarrow> if x \<in> set cids \<and> \<not> bs_contains disc0 x
        then Some (cn\<lparr>cn_outbound := snd (oq_push m (cn_outbound cn))\<rparr>) else bt_get (co_connections c) x
    | None \<Rightarrow> bt_get (co_connections c) x)"
  using assms
proof (induction cids arbitrary: c o0 disc0)
  case Nil
  then show ?case by (auto split: option.split)
next
  case (Cons y cids)
  show ?case
  proof (cases "bs_contains disc0 y \<or> receiving_connection c key m y = None")
    case True
    then have "deliver_to key m cids (o0, disc0) c = (Inr (o1, disc1), c')" using Cons.prems(1) True by (auto split: if_splits)
    from Cons.IH [OF this] Cons.prems(2) True show ?thesis by (auto split: option.split)
  next
    case False
    then obtain cn where cn: "receiving_connection c key m y = Some cn" and nd: "\<not> bs_contains disc0 y" by blast
    then have get: "bt_get (co_connections c) y = Some cn" by (simp add: receiving_connection_Some)
    obtain r q where p: "oq_push m (cn_outbound cn) = (r, q)" by force
    obtain result where r: "r = Inr result" using Cons.prems(1) cn nd p by (cases r) (auto simp: Let_def)
    let ?c = "map_connection y (\<lambda>cn. cn\<lparr>cn_outbound := q\<rparr>) c"
    let ?disc = "if result = CriticalCapacityExhausted then bs_insert y disc0 else disc0"
    obtain o2 where rest: "deliver_to key m cids (o2, ?disc) ?c = (Inr (o1, disc1), c')"
      using Cons.prems(1) cn nd p r by (auto simp: Let_def)
    note ih = Cons.IH [OF rest]
    have other: "receiving_connection ?c key m x = receiving_connection c key m x"
      "bt_get (co_connections ?c) x = bt_get (co_connections c) x" if "x \<noteq> y"
      using that by (simp_all add: receiving_connection_def bt_get_modify)
    have here: "bt_get (co_connections ?c) y = Some (cn\<lparr>cn_outbound := q\<rparr>)" using get by simp
    show ?thesis
    proof (cases "x = y")
      case True
      then show ?thesis using ih Cons.prems(2) cn nd p here by (auto split: option.splits)
    next
      case False
      then show ?thesis using ih Cons.prems(2) other [OF False] by (auto split: option.split)
    qed
  qed
qed

lemma deliver_to_marks:
  assumes "deliver_to key m cids (o0, disc0) c = (Inr (o1, disc1), c')" "\<not> is_critical (om_delivery m)"
  shows "disc1 = disc0"
  using assms(1)
proof (induction cids arbitrary: c o0 disc0)
  case (Cons y cids)
  show ?case
  proof (cases "bs_contains disc0 y \<or> receiving_connection c key m y = None")
    case True
    then have "deliver_to key m cids (o0, disc0) c = (Inr (o1, disc1), c')" using Cons.prems(1) True by (auto split: if_splits)
    then show ?thesis by (rule Cons.IH)
  next
    case False
    then obtain cn where cn: "receiving_connection c key m y = Some cn" and nd: "\<not> bs_contains disc0 y" by blast
    obtain r q where p: "oq_push m (cn_outbound cn) = (r, q)" by force
    obtain result where r: "r = Inr result" using Cons.prems(1) cn nd p by (cases r) (auto simp: Let_def)
    have "result \<noteq> CriticalCapacityExhausted" using push_exhausted_critical p r assms(2) by blast
    then obtain o2 where "deliver_to key m cids (o2, disc0) (map_connection y (\<lambda>cn. cn\<lparr>cn_outbound := q\<rparr>) c)
        = (Inr (o1, disc1), c')"
      using Cons.prems(1) cn nd p r by (auto simp: Let_def)
    then show ?thesis by (rule Cons.IH)
  qed
qed simp

lemma routing_committed: "routing_recipients (commit_session planned messages s) m = routing_recipients s m"
proof -
  note f = store_all_fields [of "s\<lparr>sn_sequences := commit_sequences planned (sn_sequences s)\<rparr>" "stateful messages",
      folded commit_session_alt]
  have "candidate_in_range (commit_session planned messages s) = candidate_in_range s"
    by (simp add: fun_eq_iff candidate_in_range_def f)
  moreover have same: "sn_entity_map (commit_session planned messages s) = sn_entity_map s"
    "sn_entity_cells (commit_session planned messages s) = sn_entity_cells s"
    "sn_cell_entities (commit_session planned messages s) = sn_cell_entities s"
    by (simp_all add: f)
  moreover have "sn_space_map (commit_session planned messages s) = sn_space_map s"
    "subscribers_of (commit_session planned messages s) = subscribers_of s"
    by (simp_all add: f subscribers_of_def fun_eq_iff)
  moreover from calculation have "spatial_recipients (commit_session planned messages s) = spatial_recipients s"
    by (intro ext, unfold spatial_recipients_def, simp only:)
  ultimately show ?thesis by (unfold routing_recipients_def, simp only:)
qed

text \<open>
  A publish through a policy that passes messages on pushes its one message onto the queue of every
  recipient that may receive it and touches no other queue; then slow consumers are disconnected.
\<close>

definition receives :: "core \<Rightarrow> session_key \<Rightarrow> outbound_message \<Rightarrow> connection_id \<Rightarrow> bool" where
  "receives c key m y \<longleftrightarrow> y \<in> set (recipients_of c key m) \<and> receiving_connection c key m y \<noteq> None"

lemma publish_pushes:
  assumes wf: "core_wf c" and p: "publish_at clock r now c = (Inr outcome, c')"
    and ch: "bt_get (co_channels c) (pq_channel r) = Some channel" "passes (cd_authority channel)"
    and m: "m = am_to_outbound (pq_session r) (am_from_request r)"
  obtains c3 where "core_wf c3" "core_pruned c3 c'"
    "\<And>y. map_option cn_outbound (bt_get (co_connections c3) y) = map_option (\<lambda>cn.
       if receives c (pq_session r) m y then snd (oq_push m (cn_outbound cn)) else cn_outbound cn)
       (bt_get (co_connections c) y)"
    "po_disconnected_slow_consumers outcome = [] \<Longrightarrow> c' = c3"
    "\<not> is_critical (om_delivery m) \<Longrightarrow> po_disconnected_slow_consumers outcome = []"
    "\<And>y yn. is_critical (om_delivery m) \<Longrightarrow> po_disconnected_slow_consumers outcome = [] \<Longrightarrow>
       bt_get (co_connections c) y = Some yn \<Longrightarrow> entitled yn m \<Longrightarrow> m \<in> set (waiting_for c3 y)"
proof -
  let ?key = "pq_session r"
  obtain messages planned cn limiter s j o0 o1 disc c3 where auth: "authorize_publish c r = Inr (messages, planned)"
    and f: "fan_out (committed_core ?key messages planned s j
        (map_connection (pq_connection r) (\<lambda>cn. cn\<lparr>cn_rate_limiter := limiter\<rparr>) c)) bt_new c3 disc"
    and d: "disconnect_slow clock (bt_keys disc) o1 c3 = (Inr outcome, c')" "po_disconnected_slow_consumers o1 = []"
    and dk: "\<And>x. bs_contains disc x \<Longrightarrow> bt_contains_key (co_connections c3) x"
    and reach: "\<And>m x xn. m \<in> am_to_outbound ?key ` set messages \<Longrightarrow> is_critical (om_delivery m) \<Longrightarrow>
       bt_get (co_connections c) x = Some xn \<Longrightarrow> entitled xn m \<Longrightarrow> reached c3 disc m x"
    and s: "bt_get (co_sessions c) ?key = Some s"
    and all: "deliver_all ?key (map (am_to_outbound ?key) messages) (o0, bt_new) (committed_core ?key messages planned s j
        (map_connection (pq_connection r) (\<lambda>cn. cn\<lparr>cn_rate_limiter := limiter\<rparr>) c)) = (Inr (o1, disc), c3)"
    by (rule publish_delivers [OF wf p]) blast
  let ?c2 = "committed_core ?key messages planned s j
        (map_connection (pq_connection r) (\<lambda>cn. cn\<lparr>cn_rate_limiter := limiter\<rparr>) c)"
  have single: "map (am_to_outbound ?key) messages = [m]" using passes_authorized [OF auth ch] m by simp
  then have to: "deliver_to ?key m (recipients_of ?c2 ?key m) (o0, bt_new) ?c2 = (Inr (o1, disc), c3)"
    using all by (auto split: prod.splits sum.splits)
  have rec: "recipients_of ?c2 ?key m = recipients_of c ?key m"
    using s by (simp add: recipients_of_def committed_core_def routing_committed)
  have dist: "distinct (recipients_of ?c2 ?key m)" by (simp add: recipients_of_def split: option.split)
  have get: "bt_get (co_connections ?c2) y = (if y = pq_connection r
      then map_option (\<lambda>cn. cn\<lparr>cn_rate_limiter := limiter\<rparr>) (bt_get (co_connections c) y)
      else bt_get (co_connections c) y)" for y
    by (simp add: committed_core_def bt_get_modify)
  have queues: "map_option cn_outbound (bt_get (co_connections c3) y) = map_option (\<lambda>cn.
       if receives c ?key m y then snd (oq_push m (cn_outbound cn)) else cn_outbound cn)
       (bt_get (co_connections c) y)" for y
    unfolding deliver_to_exact [OF to dist] rec
    by (cases "bt_get (co_connections c) y")
      (auto simp: receives_def receiving_connection_def get split: option.split)
  have c3: "core_wf c3" using f by (simp add: fan_out_def)
  have pruned: "core_pruned c3 c'" using disconnect_slow_pruned [OF c3, of clock "bt_keys disc" o1] d by simp
  have list: "set (po_disconnected_slow_consumers outcome) = {x. bs_contains disc x}"
    using disconnect_slow_ok [OF c3, of clock "bt_keys disc" o1] d dk by (auto simp: bs_contains_keys)
  have same: "c' = c3" if "po_disconnected_slow_consumers outcome = []"
  proof -
    have "bt_keys disc = []" using list that by (auto simp: bs_contains_keys)
    then show ?thesis using d(1) by simp
  qed
  have "po_disconnected_slow_consumers outcome = []" if "\<not> is_critical (om_delivery m)"
    using deliver_to_marks [OF to that] list by auto
  moreover have "m \<in> set (waiting_for c3 y)" if "is_critical (om_delivery m)"
    "po_disconnected_slow_consumers outcome = []" "bt_get (co_connections c) y = Some yn" "entitled yn m" for y yn
  proof -
    have "m \<in> am_to_outbound ?key ` set messages"
      using arg_cong [OF single, of set] by simp
    from reach [OF this that(1,3,4)] list that(2) show ?thesis
      by (auto simp: reached_def waiting_for_def oq_view_def)
  qed
  ultimately show ?thesis using that [OF c3 pruned queues same] by blast
qed

lemma publish_waiting:
  assumes wf: "core_wf c" and p: "publish_at clock r now c = (Inr outcome, c')"
    and ch: "bt_get (co_channels c) (pq_channel r) = Some channel" "passes (cd_authority channel)"
    and m: "m = am_to_outbound (pq_session r) (am_from_request r)"
  shows "set (waiting_for c' y) \<subseteq> insert m (set (waiting_for c y))"
    and "po_disconnected_slow_consumers outcome = [] \<Longrightarrow> bt_get (co_connections c) y = Some cn \<Longrightarrow>
      \<exists>d. drain_outbound y c' = (Inr (oq_view (if receives c (pq_session r) m y
        then snd (oq_push m (cn_outbound cn)) else cn_outbound cn)), d)"
    and "po_disconnected_slow_consumers outcome = [] \<Longrightarrow> bt_get (co_connections c) y = Some cn \<Longrightarrow>
      is_critical (om_delivery m) \<Longrightarrow> entitled cn m \<Longrightarrow> m \<in> set (waiting_for c' y)"
    and "\<not> is_critical (om_delivery m) \<Longrightarrow> po_disconnected_slow_consumers outcome = []"
proof -
  obtain c3 where c3: "core_wf c3" "core_pruned c3 c'"
    and q: "\<And>y. map_option cn_outbound (bt_get (co_connections c3) y) = map_option (\<lambda>cn.
       if receives c (pq_session r) m y then snd (oq_push m (cn_outbound cn)) else cn_outbound cn)
       (bt_get (co_connections c) y)"
    and same: "po_disconnected_slow_consumers outcome = [] \<Longrightarrow> c' = c3"
    and none: "\<not> is_critical (om_delivery m) \<Longrightarrow> po_disconnected_slow_consumers outcome = []"
    and crit: "\<And>y yn. is_critical (om_delivery m) \<Longrightarrow> po_disconnected_slow_consumers outcome = [] \<Longrightarrow>
       bt_get (co_connections c) y = Some yn \<Longrightarrow> entitled yn m \<Longrightarrow> m \<in> set (waiting_for c3 y)"
    by (rule publish_pushes [OF wf p ch m]) blast
  have "set (waiting_for c' y) \<subseteq> set (waiting_for c3 y)"
  proof (cases "bt_get (co_connections c') y")
    case (Some cn')
    then obtain cn3 where cn3: "bt_get (co_connections c3) y = Some cn3" "connection_pruned c' cn3 cn'"
      using c3(2) unfolding core_pruned_def by blast
    then show ?thesis
      using connection_queue_wf [OF c3(1) cn3(1)] Some by (simp add: waiting_for_def connection_pruned_def)
  qed (simp add: waiting_for_def)
  also have "set (waiting_for c3 y) \<subseteq> insert m (set (waiting_for c y))"
  proof (cases "bt_get (co_connections c) y")
    case None
    then show ?thesis using q [of y] by (simp add: waiting_for_def)
  next
    case (Some cn)
    obtain rr q' where "oq_push m (cn_outbound cn) = (rr, q')" by force
    then have "set (oq_view (snd (oq_push m (cn_outbound cn)))) \<subseteq> insert m (set (oq_view (cn_outbound cn)))"
      using oq_push_wf [of "cn_outbound cn" m rr q'] connection_queue_wf [OF wf Some] by simp
    then show ?thesis using q [of y] Some by (auto simp: waiting_for_def split: if_splits)
  qed
  finally show "set (waiting_for c' y) \<subseteq> insert m (set (waiting_for c y))" .
  show "\<exists>d. drain_outbound y c' = (Inr (oq_view (if receives c (pq_session r) m y
        then snd (oq_push m (cn_outbound cn)) else cn_outbound cn)), d)"
    if h: "po_disconnected_slow_consumers outcome = []" "bt_get (co_connections c) y = Some cn"
  proof -
    obtain cn3 where cn3: "bt_get (co_connections c3) y = Some cn3"
      "cn_outbound cn3 = (if receives c (pq_session r) m y then snd (oq_push m (cn_outbound cn)) else cn_outbound cn)"
      using q [of y] h(2) by auto
    from drains [OF c3(1) cn3(1)] show ?thesis by (simp add: cn3(2) same [OF h(1)])
  qed
  show "m \<in> set (waiting_for c' y)" if "po_disconnected_slow_consumers outcome = []"
    "bt_get (co_connections c) y = Some cn" "is_critical (om_delivery m)" "entitled cn m"
    using crit [OF that(3,1,2,4)] same [OF that(1)] by simp
  show "\<not> is_critical (om_delivery m) \<Longrightarrow> po_disconnected_slow_consumers outcome = []" by (rule none)
qed

section \<open>A replaceable message finds its place\<close>

lemma push_latest_kept:
  assumes wf: "oq_wf q" and rep: "is_replaceable (om_delivery m)" and key: "om_scoped_coalesce_key m = Some key"
    and room: "qc_latest_capacity (oq_config q) \<noteq> 0" "length (oq_critical q) < qc_total_capacity (oq_config q)"
    and p: "oq_push m q = (r, q')"
  shows "bt_get (oq_latest q') key = Some m"
proof (rule ccontr)
  assume no: "bt_get (oq_latest q') key \<noteq> Some m"
  have "\<not> is_critical (om_delivery m)" using rep critical_not_replaceable by blast
  then have k: "oq_push_latest_keyed key m q = (r, q')"
    using p rep key by (simp add: oq_push_def oq_push_latest_def)
  have "r = Inr DroppedLatest" using oq_push_latest_outcome [OF wf rep key p] no by blast
  with k room(1) have "oq_latest_order q = [] \<and> oq_best_effort q = [] \<and> oq_len q = qc_total_capacity (oq_config q)"
    by (auto simp: oq_push_latest_keyed_def oq_evict_oldest_latest_def oq_pop_best_effort_def
        split: if_splits list.splits prod.splits)
  then show False using oq_wf_order_len [OF wf] room(2) by (auto simp: oq_len_def)
qed

lemma only_under_its_key:
  assumes wf: "oq_wf q" and g: "bt_get (oq_latest q) key = Some m"
  shows "filter (\<lambda>x. is_replaceable (om_delivery x) \<and> om_scoped_coalesce_key x = Some key) (oq_view q) = [m]"
proof -
  let ?P = "\<lambda>x. is_replaceable (om_delivery x) \<and> om_scoped_coalesce_key x = Some key"
  have mem: "m \<in> set (oq_latest_view q)" and m: "om_scoped_coalesce_key m = Some key" "is_replaceable (om_delivery m)"
    using g oq_wf_order [OF wf, of key] oq_wf_latest [OF wf g] by (force simp: oq_latest_view_def image_iff)+
  have inj: "inj_on om_scoped_coalesce_key (set (oq_latest_view q))" and d: "distinct (oq_latest_view q)"
    using oq_latest_view_distinct [OF wf] by (simp_all add: distinct_map)
  have only: "x = m" if "x \<in> set (oq_latest_view q)" "om_scoped_coalesce_key x = Some key" for x
    by (rule inj_onD [OF inj]) (use that mem m in simp_all)
  have "set (filter ?P (oq_latest_view q)) = {m}" using mem m by (auto dest: only)
  moreover have "distinct (filter ?P (oq_latest_view q))" using d by simp
  ultimately have "filter ?P (oq_latest_view q) = [m]" by (simp add: distinct_singleton)
  moreover have "filter ?P (oq_critical q) = []" "filter ?P (oq_best_effort q) = []"
    using wf critical_not_replaceable by (auto simp: oq_wf_def filter_empty_conv)
  ultimately show ?thesis by (simp add: oq_view_def)
qed

section \<open>An authorised publish goes through\<close>

lemma publish_succeeds:
  assumes wf: "core_wf c" and cn: "bt_get (co_connections c) (pq_connection r) = Some cn" "pq_connection r \<noteq> 0"
    and admitted: "rl_admit (cc_publish_rate_limit (co_config c)) now (cn_rate_limiter cn) = (Inr (), limiter)"
    and auth: "authorize_publish c r = Inr (messages, planned)"
  shows "\<exists>outcome c'. publish_at clock r now c = (Inr outcome, c')"
proof -
  let ?c = "map_connection (pq_connection r) (\<lambda>cn. cn\<lparr>cn_rate_limiter := limiter\<rparr>) c"
  have "map_connection (pq_connection r) (\<lambda>cn. cn\<lparr>cn_rate_limiter :=
      snd (rl_admit (cc_publish_rate_limit (co_config c)) now (cn_rate_limiter cn))\<rparr>) c = ?c"
    using admitted by (simp add: map_connection_insert [OF cn(1)])
  then have wf1: "core_wf ?c" using limited_wf [OF wf cn(1), of now] by simp
  have limited: "authorize_publish ?c r = Inr (messages, planned)" using auth by (simp add: authorize_limited)
  obtain outcome c' where "commit_publish clock (pq_session r) messages planned ?c = (Inr outcome, c')"
    using commit_publish_wf [OF wf1 authorize_publish_ok [OF limited], of clock] by blast
  then show ?thesis
    using cn admitted limited
    by (simp add: publish_at_def Let_def validate_connection_id_def get_connection_def result_ok checked_def and_then_def
        require_nonzero_def)
qed

end
