(* ===== verification/Text.thy ===== *)
theory Text
  imports Bridge
begin

text \<open>
  Texts the program puts into messages: decimal numbers, the \<^verbatim>\<open>Debug\<close> names of message kinds, the
  \<^verbatim>\<open>Display\<close> of a codec error and \<^verbatim>\<open>String::from_utf8\<close>. A string is its UTF-8 bytes.
\<close>

section \<open>Codec errors\<close>

definition message_kind_names :: "(message_kind \<times> string) list" where
  "message_kind_names = [
     (MK_Unknown, ''Unknown''), (MK_Hello, ''Hello''), (MK_Capabilities, ''Capabilities''),
     (MK_Authenticate, ''Authenticate''), (MK_Authenticated, ''Authenticated''),
     (MK_JoinSession, ''JoinSession''), (MK_LeaveSession, ''LeaveSession''),
     (MK_SubscribeSpace, ''SubscribeSpace''), (MK_UnsubscribeSpace, ''UnsubscribeSpace''),
     (MK_SubscriptionAccepted, ''SubscriptionAccepted''),
     (MK_SubscriptionRejected, ''SubscriptionRejected''), (MK_EntityEntered, ''EntityEntered''),
     (MK_EntityLeft, ''EntityLeft''), (MK_EntityState, ''EntityState''),
     (MK_ReliableEvent, ''ReliableEvent''), (MK_SnapshotRequest, ''SnapshotRequest''),
     (MK_Snapshot, ''Snapshot''), (MK_SpaceTransition, ''SpaceTransition''), (MK_Ping, ''Ping''),
     (MK_Pong, ''Pong''), (MK_ProtocolError, ''ProtocolError''),
     (MK_InferenceRequested, ''InferenceRequested''), (MK_InferenceAccepted, ''InferenceAccepted''),
     (MK_InferenceProgress, ''InferenceProgress''), (MK_InferenceStreamChunk, ''InferenceStreamChunk''),
     (MK_InferenceCompleted, ''InferenceCompleted''), (MK_InferenceFailed, ''InferenceFailed''),
     (MK_InferenceCancelled, ''InferenceCancelled''), (MK_InferenceExpired, ''InferenceExpired''),
     (MK_ToolCallProposed, ''ToolCallProposed''), (MK_ToolCallAccepted, ''ToolCallAccepted''),
     (MK_ToolCallRejected, ''ToolCallRejected''), (MK_ToolCallCompleted, ''ToolCallCompleted'')]"

definition message_kind_name :: "message_kind \<Rightarrow> string" where
  "message_kind_name kind = (case map_of message_kind_names kind of None \<Rightarrow> [] | Some name \<Rightarrow> name)"

fun codec_error_string :: "codec_error \<Rightarrow> string" where
  "codec_error_string (InvalidLimits frame payload) =
     ''invalid codec limits: frame='' @ show_nat frame @ '', payload='' @ show_nat payload"
| "codec_error_string (FrameTooLarge actual maximum) =
     ''frame length '' @ show_nat actual @ '' exceeds limit '' @ show_nat maximum"
| "codec_error_string (PayloadTooLarge actual maximum) =
     ''payload length '' @ show_nat actual @ '' exceeds limit '' @ show_nat maximum"
| "codec_error_string (TruncatedFrame expected actual) =
     ''truncated frame: expected '' @ show_nat expected @ '' bytes, received '' @ show_nat actual"
| "codec_error_string (TrailingBytes expected actual) =
     ''frame has trailing bytes: expected '' @ show_nat expected @ '' bytes, received '' @ show_nat actual"
| "codec_error_string (InvalidSizePrefix prefix) =
     ''invalid FlatBuffers size prefix '' @ show_nat (unat prefix)"
| "codec_error_string InvalidFileIdentifier = ''frame does not have the WVN1 identifier''"
| "codec_error_string (InvalidFlatbuffer error) = ''FlatBuffers verification failed: '' @ error"
| "codec_error_string (UnsupportedProtocolVersion version) =
     ''unsupported protocol version '' @ show_nat (unat version)"
| "codec_error_string (UnknownMessageKind v) = ''unknown message kind '' @ show_nat (unat v)"
| "codec_error_string (UnknownDeliveryClass v) = ''unknown delivery class '' @ show_nat (unat v)"
| "codec_error_string (UnsupportedEnumValue name v) =
     ''unsupported '' @ name @ '' value '' @ show_nat (unat v)"
| "codec_error_string (MessageControlMismatch message_kind control_kind) =
     ''message kind '' @ show_nat (unat message_kind) @ '' does not match control union kind ''
       @ show_nat (unat control_kind)"
| "codec_error_string (MissingPayloadType kind) =
     message_kind_name kind @ '' requires a non-zero payload type ID''"
| "codec_error_string (UnexpectedDomainPayload kind) =
     ''control message '' @ message_kind_name kind @ '' carries domain payload fields''"
| "codec_error_string (InvalidSemantics kind reason) =
     ''invalid '' @ message_kind_name kind @ '' semantics: '' @ reason"

section \<open>UTF-8\<close>

definition utf8_tail :: "u8 \<Rightarrow> bool" where
  "utf8_tail b \<longleftrightarrow> 0x80 \<le> b \<and> b \<le> 0xBF"

text \<open>The well-formed sequences of the Unicode standard: no overlong forms, no surrogates, at most U+10FFFF.\<close>

fun utf8_valid :: "u8 list \<Rightarrow> bool" where
  "utf8_valid [] \<longleftrightarrow> True"
| "utf8_valid (b # bs) \<longleftrightarrow>
     (if b < 0x80 then utf8_valid bs
      else (case bs of [] \<Rightarrow> False | c # cs \<Rightarrow>
        if 0xC2 \<le> b \<and> b \<le> 0xDF then utf8_tail c \<and> utf8_valid cs
        else (case cs of [] \<Rightarrow> False | d # ds \<Rightarrow>
          if 0xE0 \<le> b \<and> b \<le> 0xEF
          then utf8_tail c \<and> utf8_tail d \<and> (b = 0xE0 \<longrightarrow> 0xA0 \<le> c) \<and> (b = 0xED \<longrightarrow> c \<le> 0x9F) \<and> utf8_valid ds
          else (case ds of [] \<Rightarrow> False | f # fs \<Rightarrow>
            0xF0 \<le> b \<and> b \<le> 0xF4 \<and> utf8_tail c \<and> utf8_tail d \<and> utf8_tail f
              \<and> (b = 0xF0 \<longrightarrow> 0x90 \<le> c) \<and> (b = 0xF4 \<longrightarrow> c \<le> 0x8F) \<and> utf8_valid fs))))"

definition string_of_bytes :: "u8 list \<Rightarrow> string" where
  "string_of_bytes = map (\<lambda>b. char_of (unat b))"

definition bytes_of_string :: "string \<Rightarrow> u8 list" where
  "bytes_of_string = map (\<lambda>c. of_nat (of_char c))"

definition string_from_utf8 :: "u8 list \<Rightarrow> string option" where
  "string_from_utf8 bytes = (if utf8_valid bytes then Some (string_of_bytes bytes) else None)"

lemma byte_below [simp]: "unat (b :: u8) mod 256 = unat b"
proof -
  have "unat b < 2 ^ LENGTH(8)" by (rule unsigned_less)
  then show ?thesis by simp
qed

lemma bytes_of_string_of_bytes [simp]: "bytes_of_string (string_of_bytes bytes) = bytes"
  by (simp add: bytes_of_string_def string_of_bytes_def comp_def)

lemma string_of_bytes_of_string [simp]: "string_of_bytes (bytes_of_string s) = s"
  by (simp add: bytes_of_string_def string_of_bytes_def comp_def unat_of_nat)

lemma string_from_utf8_exact: "string_from_utf8 bytes = Some s \<Longrightarrow> bytes_of_string s = bytes"
  by (auto simp: string_from_utf8_def split: if_splits)

section \<open>Unsigned numbers\<close>

text \<open>
  \<^verbatim>\<open>str::parse\<close> at an unsigned type with the given largest value: an optional plus sign and at least
  one digit, without overflow.
\<close>

definition is_digit :: "char \<Rightarrow> bool" where
  "is_digit c \<longleftrightarrow> 48 \<le> (of_char c :: nat) \<and> (of_char c :: nat) \<le> 57"

definition digits_value :: "string \<Rightarrow> nat" where
  "digits_value = foldl (\<lambda>v c. 10 * v + (of_char c - 48)) 0"

definition parse_unsigned :: "nat \<Rightarrow> string \<Rightarrow> nat option" where
  "parse_unsigned largest s =
     (let digits = (case s of c # ds \<Rightarrow> if c = CHR ''+'' then ds else s | [] \<Rightarrow> [])
      in if digits = [] \<or> \<not> list_all is_digit digits \<or> largest < digits_value digits then None
         else Some (digits_value digits))"

lemma show_nat_digits: "list_all is_digit (show_nat n) \<and> digits_value (show_nat n) = n \<and> show_nat n \<noteq> []"
proof (induction n rule: show_nat.induct)
  case (1 n)
  show ?case
  proof (cases "n < 10")
    case True
    then have "(of_char (char_of (48 + n) :: char) :: nat) = 48 + n" by simp
    then show ?thesis using True by (simp add: show_nat.simps [of n] is_digit_def digits_value_def)
  next
    case False
    have "(of_char (char_of (48 + n mod 10) :: char) :: nat) = 48 + n mod 10" by simp
    then show ?thesis
      using False 1 by (simp add: show_nat.simps [of n] is_digit_def digits_value_def)
  qed
qed

text \<open>What the program prints, it reads back.\<close>

lemma parse_show_nat:
  assumes "n \<le> largest"
  shows "parse_unsigned largest (show_nat n) = Some n"
proof -
  obtain c ds where s: "show_nat n = c # ds" using show_nat_digits [of n] by (cases "show_nat n") auto
  then have "is_digit c" using show_nat_digits [of n] by simp
  then have "c \<noteq> CHR ''+''" by (auto simp: is_digit_def)
  then show ?thesis using assms show_nat_digits [of n] s by (simp add: parse_unsigned_def)
qed

end
