(* ===== verification/Session.thy ===== *)
theory Session
  imports Text
begin

text \<open>
  \<^verbatim>\<open>woven-transport-quic/src/lib.rs\<close>: one connection of a client, from the accepted QUIC connection to
  its end. \<^verbatim>\<open>webtransport.rs\<close> has the same text over another library, so that the model takes the kind
  of transport as an argument.

  The connection's three tasks are separate functions: \<open>session_step\<close> is one turn of the \<^verbatim>\<open>select!\<close>
  loop, \<open>writer_step\<close> sends one envelope of the write channel and \<open>drain_tick\<close> is one tick of the
  periodic drain. The loop runs over the list of events it selects, so that every order is an
  instance; what the other tasks do in between is part of the interference \<open>be_others\<close>.

  The QUIC library is third-party code: the stream is the list of bytes the client will have
  written when it ends, and datagrams, writes and the close act on the world.
\<close>

definition CLOSE_PROTOCOL :: u32 where "CLOSE_PROTOCOL = 0x100"
definition CLOSE_TRANSPORT :: u32 where "CLOSE_TRANSPORT = 0x101"

datatype transport_kind = T_Quic | T_WebTransport

record ('c, 'w) session_env =
  sx_bridge :: "('c, 'w) bridge_env"
  sx_server_name :: string
  sx_server_version :: string
  sx_finish :: "wire_envelope \<Rightarrow> u8 list"
  sx_has_identifier :: "u8 list \<Rightarrow> bool"
  sx_root :: "u8 list \<Rightarrow> string + wire_envelope"
  sx_read_error :: string
  sx_max_datagram_size :: "'w \<Rightarrow> usize option"
  sx_send_datagram :: "u8 list \<Rightarrow> 'w \<Rightarrow> 'w"
  sx_write_all :: "u8 list \<Rightarrow> 'w \<Rightarrow> bool \<times> 'w"
  sx_finish_stream :: "'w \<Rightarrow> 'w"
  sx_close :: "u32 \<Rightarrow> string \<Rightarrow> 'w \<Rightarrow> 'w"

text \<open>The bridge from its \<open>n\<close>-th call of the worker on.\<close>

definition bridge_from :: "nat \<Rightarrow> ('c, 'w) session_env \<Rightarrow> ('c, 'w) bridge_env" where
  "bridge_from n sx = (sx_bridge sx)\<lparr>be_clock := (\<lambda>i. be_clock (sx_bridge sx) (n + i)),
     be_others := (\<lambda>i. be_others (sx_bridge sx) (n + i))\<rparr>"

definition session_encode :: "('c, 'w) session_env \<Rightarrow> envelope \<Rightarrow> codec_error + u8 list" where
  "session_encode sx = encode (sx_finish sx) codec_limits_default"

definition session_decode :: "('c, 'w) session_env \<Rightarrow> u8 list \<Rightarrow> codec_error + envelope" where
  "session_decode sx = decode (sx_has_identifier sx) (sx_root sx) codec_limits_default"

definition close_connection ::
  "('c, 'w) session_env \<Rightarrow> u32 \<Rightarrow> string \<Rightarrow> ('c, 'w) gateway \<Rightarrow> ('c, 'w) gateway" where
  "close_connection sx code reason g = g\<lparr>gw_world := sx_close sx code reason (gw_world g)\<rparr>"

definition try_shutdown :: "('c, 'w) session_env \<Rightarrow> 'c \<Rightarrow> ('c, 'w) gateway \<Rightarrow> ('c, 'w) gateway" where
  "try_shutdown sx shutdown g =
     g\<lparr>gw_world := snd (op_try_shutdown (be_ops (sx_bridge sx)) shutdown (gw_world g))\<rparr>"

section \<open>Frames of the stream\<close>

text \<open>
  One envelope of the stream and what is left of the stream. The first \<^verbatim>\<open>read_exact\<close> that finds the
  stream ended reports it.
\<close>

definition read_envelope :: "('c, 'w) session_env \<Rightarrow> u8 list \<Rightarrow> (string + envelope) \<times> u8 list" where
  "read_envelope sx stream =
     (if length stream < SIZE_PREFIX_LEN then (Inl (''failed to read frame prefix: '' @ sx_read_error sx), [])
      else case expected_frame_len codec_limits_default (take SIZE_PREFIX_LEN stream) of
          Inl e \<Rightarrow> (Inl (codec_error_string e), drop SIZE_PREFIX_LEN stream)
        | Inr None \<Rightarrow> (Inl ''incomplete size prefix'', drop SIZE_PREFIX_LEN stream)
        | Inr (Some frame_len) \<Rightarrow>
            if length stream < frame_len then (Inl (''failed to read frame: '' @ sx_read_error sx), [])
            else (map_err codec_error_string (session_decode sx (take frame_len stream)), drop frame_len stream))"

text \<open>The bytes a read takes from the stream.\<close>

definition read_len :: "('c, 'w) session_env \<Rightarrow> u8 list \<Rightarrow> nat" where
  "read_len sx stream = length stream - length (snd (read_envelope sx stream))"

section \<open>Outgoing messages\<close>

definition send_datagram_envelope ::
  "('c, 'w) session_env \<Rightarrow> envelope \<Rightarrow> ('c, 'w) gateway \<Rightarrow> ('c, 'w) gateway" where
  "send_datagram_envelope sx envelope g = (case session_encode sx envelope of
     Inl _ \<Rightarrow> g
   | Inr frame \<Rightarrow>
       (case sx_max_datagram_size sx (gw_world g) of
          None \<Rightarrow> g
        | Some limit \<Rightarrow>
            if length frame \<le> limit then g\<lparr>gw_world := sx_send_datagram sx frame (gw_world g)\<rparr> else g))"

fun send_drained ::
  "('c, 'w) session_env \<Rightarrow> 'c \<Rightarrow> outbound_message list \<Rightarrow> ('c, 'w) gateway \<Rightarrow> (unit + unit) \<times> ('c, 'w) gateway" where
  "send_drained sx sender [] g = (Inr (), g)"
| "send_drained sx sender (m # ms) g =
     (let envelope = outbound_envelope m in
      if is_unreliable (ev_delivery_class envelope)
      then send_drained sx sender ms (send_datagram_envelope sx envelope g)
      else case send_envelope (sx_bridge sx) sender envelope g of
          (Inl _, g') \<Rightarrow> (Inl (), g')
        | (Inr _, g') \<Rightarrow> send_drained sx sender ms g')"

definition flush_outbound_quic ::
  "('c, 'w) session_env \<Rightarrow> nat \<Rightarrow> connection_id \<Rightarrow> 'c \<Rightarrow> ('c, 'w) gateway \<Rightarrow> (unit + unit) \<times> ('c, 'w) gateway" where
  "flush_outbound_quic sx n connection sender g =
     (case execute (bridge_from n sx) 0 (C_DrainOutbound connection) g of
        (Inr (R_Outbound messages), g') \<Rightarrow> send_drained sx sender messages g'
      | (_, g') \<Rightarrow> (Inr (), g'))"

text \<open>Whether the drain task goes on.\<close>

definition drain_tick ::
  "('c, 'w) session_env \<Rightarrow> nat \<Rightarrow> connection_id \<Rightarrow> 'c lifecycle_recipient \<Rightarrow> ('c, 'w) gateway
   \<Rightarrow> bool \<times> ('c, 'w) gateway" where
  "drain_tick sx n connection recipient g =
     (case flush_outbound_quic sx n connection (lr_sender recipient) g of
        (Inr _, g') \<Rightarrow> (True, g')
      | (Inl _, g') \<Rightarrow>
          (False, discard_and_disconnect (bridge_from n sx) 1 connection
             (try_shutdown sx (lr_shutdown recipient) g')))"

definition stream_write_failed :: "transport_kind \<Rightarrow> string" where
  "stream_write_failed t = (case t of T_Quic \<Rightarrow> ''QUIC stream write failed''
     | T_WebTransport \<Rightarrow> ''WebTransport stream write failed'')"

text \<open>One envelope of the write channel; whether the writer goes on.\<close>

definition writer_step ::
  "transport_kind \<Rightarrow> ('c, 'w) session_env \<Rightarrow> nat \<Rightarrow> connection_id \<Rightarrow> 'c \<Rightarrow> envelope \<Rightarrow> ('c, 'w) gateway
   \<Rightarrow> bool \<times> ('c, 'w) gateway" where
  "writer_step t sx n connection shutdown envelope g =
     (let failed = (\<lambda>reason g'. (False, close_connection sx CLOSE_TRANSPORT reason
        (discard_and_disconnect (bridge_from n sx) 0 connection (try_shutdown sx shutdown g')))) in
      case session_encode sx envelope of
        Inl _ \<Rightarrow> failed ''failed to encode protocol envelope'' g
      | Inr frame \<Rightarrow>
          (case sx_write_all sx frame (gw_world g) of
             (True, w) \<Rightarrow> (True, g\<lparr>gw_world := w\<rparr>)
           | (False, w) \<Rightarrow> failed (stream_write_failed t) (g\<lparr>gw_world := w\<rparr>)))"

text \<open>The whole task over what it receives until the channel is closed.\<close>

fun writer_loop ::
  "transport_kind \<Rightarrow> ('c, 'w) session_env \<Rightarrow> nat \<Rightarrow> connection_id \<Rightarrow> 'c \<Rightarrow> envelope list \<Rightarrow> ('c, 'w) gateway
   \<Rightarrow> ('c, 'w) gateway" where
  "writer_loop t sx n connection shutdown [] g = g\<lparr>gw_world := sx_finish_stream sx (gw_world g)\<rparr>"
| "writer_loop t sx n connection shutdown (e # es) g =
     (case writer_step t sx n connection shutdown e g of
        (True, g') \<Rightarrow> writer_loop t sx (n + 2) connection shutdown es g'
      | (False, g') \<Rightarrow> g')"

section \<open>Greeting and authentication\<close>

definition capabilities_envelope :: "('c, 'w) session_env \<Rightarrow> envelope" where
  "capabilities_envelope sx = envelope_control PD_ReliableOrdered (Capabilities
     \<lparr>ca_selected_protocol_version = PROTOCOL_VERSION, ca_server_name = sx_server_name sx,
       ca_server_version = sx_server_version sx, ca_capability_bits = 0,
       ca_max_frame_size = MAX_FRAME_BYTES, ca_max_payload_size = MAX_PAYLOAD_BYTES\<rparr>)"

definition handle_hello ::
  "('c, 'w) session_env \<Rightarrow> 'c \<Rightarrow> envelope \<Rightarrow> ('c, 'w) gateway \<Rightarrow> (unit + unit) \<times> ('c, 'w) gateway" where
  "handle_hello sx sender e g = (case ev_message e of
     Control (Hello _) \<Rightarrow> send_envelope (sx_bridge sx) sender (capabilities_envelope sx) g
   | _ \<Rightarrow> (Inl (), send_error (sx_bridge sx) sender (ev_message_kind e) PE_UnsupportedMessage ''expected Hello'' g))"

definition authenticated_envelope :: "principal_id \<Rightarrow> envelope" where
  "authenticated_envelope who = envelope_control PD_ReliableOrdered (Authenticated
     \<lparr>ad_principal_id = who, ad_assigned_entity_id = None\<rparr>)"

definition handle_authenticate ::
  "('c, 'w) session_env \<Rightarrow> nat \<Rightarrow> connection_id \<Rightarrow> 'c \<Rightarrow> envelope \<Rightarrow> ('c, 'w) gateway
   \<Rightarrow> (unit + unit) \<times> ('c, 'w) gateway" where
  "handle_authenticate sx n connection sender e g =
     (let refuse = (\<lambda>related code message g'. (Inl (), send_error (sx_bridge sx) sender related code message g')) in
      case ev_message e of
        Control (Authenticate auth) \<Rightarrow>
          (case string_from_utf8 (au_credentials auth) of
             None \<Rightarrow> refuse MK_Authenticate PE_AuthenticationRequired ''credentials must be UTF-8'' g
           | Some token \<Rightarrow>
               (case execute (bridge_from n sx) 0 (C_Authenticate connection \<lparr>cr_token = token\<rparr>) g of
                  (Inr (R_Authenticated who), g') \<Rightarrow>
                    send_envelope (sx_bridge sx) sender (authenticated_envelope who) g'
                | (_, g') \<Rightarrow> refuse MK_Authenticate PE_Unauthorized ''authentication failed'' g'))
      | _ \<Rightarrow> refuse (ev_message_kind e) PE_AuthenticationRequired ''expected Authenticate'' g)"

section \<open>The session\<close>

record session_progress =
  sg_greeted :: bool
  sg_authenticated :: bool
  sg_stream :: "u8 list"

text \<open>
  What the loop selects. A datagram comes while the read of the stream is waiting: the read is
  dropped, with the bytes it has taken so far (\<^verbatim>\<open>read_exact\<close> is not cancel safe). How many those are
  depends on what has arrived; the event names a number, and \<open>drop_read\<close> lets it be anything up to
  the whole frame, which covers every number the code can lose. \<^verbatim>\<open>None\<close> is the error of a lost
  connection.
\<close>

datatype session_event =
    SE_Shutdown
  | SE_ExtraStream bool
  | SE_Datagram nat "u8 list option"
  | SE_Received

definition drop_read :: "('c, 'w) session_env \<Rightarrow> nat \<Rightarrow> session_progress \<Rightarrow> session_progress" where
  "drop_read sx taken s = s\<lparr>sg_stream := drop (min taken (read_len sx (sg_stream s))) (sg_stream s)\<rparr>"

definition session_datagram ::
  "('c, 'w) session_env \<Rightarrow> nat \<Rightarrow> connection_id \<Rightarrow> 'c \<Rightarrow> u8 list option \<Rightarrow> session_progress \<Rightarrow> ('c, 'w) gateway
   \<Rightarrow> bool \<times> ('c, 'w) gateway" where
  "session_datagram sx n connection sender datagram s g = (case datagram of
     None \<Rightarrow> (False, g)
   | Some bytes \<Rightarrow>
       if \<not> sg_authenticated s then (True, g)
       else (case session_decode sx bytes of
           Inl _ \<Rightarrow> (True, g)
         | Inr envelope \<Rightarrow>
             map_prod is_ok id (handle_authenticated (bridge_from n sx) connection envelope sender g)))"

definition session_envelope ::
  "('c, 'w) session_env \<Rightarrow> nat \<Rightarrow> connection_id \<Rightarrow> 'c \<Rightarrow> envelope \<Rightarrow> session_progress \<Rightarrow> ('c, 'w) gateway
   \<Rightarrow> bool \<times> session_progress \<times> ('c, 'w) gateway" where
  "session_envelope sx n connection sender e s g =
     (if \<not> sg_greeted s
      then (case handle_hello sx sender e g of
          (Inr _, g') \<Rightarrow> (True, s\<lparr>sg_greeted := True\<rparr>, g')
        | (Inl _, g') \<Rightarrow> (False, s, g'))
      else if \<not> sg_authenticated s
      then (case handle_authenticate sx n connection sender e g of
          (Inr _, g') \<Rightarrow> (True, s\<lparr>sg_authenticated := True\<rparr>, g')
        | (Inl _, g') \<Rightarrow> (False, s, g'))
      else (case handle_authenticated (bridge_from n sx) connection e sender g of
          (Inr _, g') \<Rightarrow> (True, s, g')
        | (Inl _, g') \<Rightarrow> (False, s, g')))"

text \<open>One turn of the loop; the first component says whether it goes on.\<close>

fun session_step ::
  "('c, 'w) session_env \<Rightarrow> nat \<Rightarrow> connection_id \<Rightarrow> 'c \<Rightarrow> session_event \<Rightarrow> session_progress \<Rightarrow> ('c, 'w) gateway
   \<Rightarrow> bool \<times> session_progress \<times> ('c, 'w) gateway" where
  "session_step sx n connection sender SE_Shutdown s g = (False, s, g)"
| "session_step sx n connection sender (SE_ExtraStream opened) s g =
     (False, s, if opened
        then send_error (sx_bridge sx) sender MK_Unknown PE_UnsupportedMessage
          ''only one client bidirectional stream is supported'' g
        else g)"
| "session_step sx n connection sender (SE_Datagram taken datagram) s g =
     (case session_datagram sx n connection sender datagram s g of
        (continue, g') \<Rightarrow> (continue, drop_read sx taken s, g'))"
| "session_step sx n connection sender SE_Received s g =
     (case read_envelope sx (sg_stream s) of
        (Inl message, rest) \<Rightarrow>
          (False, s\<lparr>sg_stream := rest\<rparr>, send_error (sx_bridge sx) sender MK_Unknown PE_MalformedFrame message g)
      | (Inr envelope, rest) \<Rightarrow> session_envelope sx n connection sender envelope (s\<lparr>sg_stream := rest\<rparr>) g)"

text \<open>Each turn calls the worker at most three times; the loop may still be running when the events end.\<close>

fun session_loop ::
  "('c, 'w) session_env \<Rightarrow> nat \<Rightarrow> connection_id \<Rightarrow> 'c \<Rightarrow> session_event list \<Rightarrow> session_progress \<Rightarrow> ('c, 'w) gateway
   \<Rightarrow> bool \<times> session_progress \<times> ('c, 'w) gateway" where
  "session_loop sx n connection sender [] s g = (True, s, g)"
| "session_loop sx n connection sender (e # es) s g =
     (case session_step sx n connection sender e s g of
        (True, s', g') \<Rightarrow> session_loop sx (n + 3) connection sender es s' g'
      | (False, s', g') \<Rightarrow> (False, s', g'))"

definition session_start :: "u8 list \<Rightarrow> session_progress" where
  "session_start stream = \<lparr>sg_greeted = False, sg_authenticated = False, sg_stream = stream\<rparr>"

datatype session_end = Refused | NoStream connection_id | Serving connection_id session_progress | Closed connection_id

definition closed_reason :: "transport_kind \<Rightarrow> string" where
  "closed_reason t = (case t of T_Quic \<Rightarrow> ''Woven QUIC connection closed''
     | T_WebTransport \<Rightarrow> ''Woven WebTransport session closed'')"

text \<open>
  \<open>stream\<close> is what the client writes on the stream it opens in time, if it does. The recipient is the
  pair of channels the connection makes.
\<close>

definition serve_connection ::
  "transport_kind \<Rightarrow> ('c, 'w) session_env \<Rightarrow> 'c lifecycle_recipient \<Rightarrow> u8 list option \<Rightarrow> session_event list
   \<Rightarrow> ('c, 'w) gateway \<Rightarrow> session_end \<times> ('c, 'w) gateway" where
  "serve_connection t sx recipient stream events g =
     (case execute (bridge_from 0 sx) 0 C_TransportConnected g of
        (Inr (R_Connected connection), g1) \<Rightarrow>
          (case stream of
             None \<Rightarrow> (NoStream connection, close_connection sx CLOSE_PROTOCOL ''expected a client bidirectional stream''
                (discard_and_disconnect (bridge_from 1 sx) 0 connection g1))
           | Some bytes \<Rightarrow>
               (let g2 = snd (ask (bridge_from 1 sx) 0 (WR_RegisterLifecycle connection recipient) g1) in
                case session_loop sx 2 connection (lr_sender recipient) events (session_start bytes) g2 of
                  (True, s, g3) \<Rightarrow> (Serving connection s, g3)
                | (False, s, g3) \<Rightarrow>
                    (Closed connection, close_connection sx CLOSE_PROTOCOL (closed_reason t)
                       (discard_and_disconnect (bridge_from (2 + 3 * length events) sx) 0 connection g3))))
      | (_, g1) \<Rightarrow> (Refused, close_connection sx CLOSE_TRANSPORT ''core worker unavailable'' g1))"

end
