(* ===== verification/SessionProps.thy ===== *)
theory SessionProps
  imports Session RelayProps
begin

text \<open>
  Properties of a client's connection: what it can do before it has authenticated, what is left when
  it ends, and what the stream loses to a datagram.
\<close>

section \<open>Calls\<close>

lemma bridge_from_simps [simp]:
  "be_ops (bridge_from n sx) = be_ops (sx_bridge sx)"
  "be_others (bridge_from n sx) i = be_others (sx_bridge sx) (n + i)"
  "be_clock (bridge_from n sx) i = be_clock (sx_bridge sx) (n + i)"
  by (simp_all add: bridge_from_def)

lemma send_tables [simp]:
  "gw_recipients (snd (send_envelope env sender e g)) = gw_recipients g"
  "gw_subscriptions (snd (send_envelope env sender e g)) = gw_subscriptions g"
  "gw_recipients (send_error env sender kind code message g) = gw_recipients g"
  "gw_subscriptions (send_error env sender kind code message g) = gw_subscriptions g"
  by (simp_all add: send_envelope_def send_error_def split: prod.split)

lemma send_envelope_frame:
  "send_envelope env sender e g = (r, g') \<Longrightarrow> gw_core g' = gw_core g \<and> gw_recipients g' = gw_recipients g
     \<and> gw_subscriptions g' = gw_subscriptions g"
  by (auto simp: send_envelope_def split: prod.splits)

lemma lifecycle_none [simp]: "apply_lifecycle_action ops k LA_None outcome g = g"
  by (cases outcome) (simp_all add: apply_lifecycle_action_def)

text \<open>
  A command without a lifecycle action is a call of the core and a count, in the state the others
  have left.
\<close>

lemma execute_command:
  assumes "lifecycle_action_of command = LA_None"
  shows "execute env n command g = (let h = be_others env n g in
    (map_err TE_Core (fst (handle (be_clock env n) command (gw_core h))),
     h\<lparr>gw_core := snd (handle (be_clock env n) command (gw_core h)),
       gw_metrics := observe_command (metrics_context_of command)
         (fst (handle (be_clock env n) command (gw_core h))) (gw_metrics h)\<rparr>))"
proof -
  obtain r c where h: "handle (be_clock env n) command (gw_core (be_others env n g)) = (r, c)" by force
  then show ?thesis
    using assms by (simp add: execute_def ask_def worker_command_def gw_command_def Let_def split: sum.split)
qed

lemma execute_quiet:
  assumes "\<And>n g. be_others env n g = g" "lifecycle_action_of command = LA_None"
  shows "execute env n command g = (map_err TE_Core (fst (handle (be_clock env n) command (gw_core g))),
    g\<lparr>gw_core := snd (handle (be_clock env n) command (gw_core g)),
      gw_metrics := observe_command (metrics_context_of command)
        (fst (handle (be_clock env n) command (gw_core g))) (gw_metrics g)\<rparr>)"
  using execute_command [OF assms(2), of env n g] assms(1) by (simp add: Let_def)

lemma authenticate_error: "authenticate x credentials c = (Inl e, c') \<Longrightarrow> c' = c"
  by (auto simp: authenticate_def checked_def split: sum.splits)

section \<open>Before authentication\<close>

lemma session_step_monotone:
  assumes "session_step sx n x sender e s g = (continue, s', g')"
  shows "(sg_authenticated s \<longrightarrow> sg_authenticated s') \<and> (sg_greeted s \<longrightarrow> sg_greeted s')"
  using assms
  by (cases e) (auto simp: drop_read_def session_envelope_def split: prod.splits sum.splits if_splits)

lemma session_loop_monotone:
  "session_loop sx n x sender es s g = (continue, s', g') \<Longrightarrow>
     (sg_authenticated s \<longrightarrow> sg_authenticated s') \<and> (sg_greeted s \<longrightarrow> sg_greeted s')"
proof (induction es arbitrary: n s g)
  case (Cons e es)
  obtain c1 s1 g1 where s: "session_step sx n x sender e s g = (c1, s1, g1)" by (metis prod_cases3)
  with Cons session_step_monotone [OF s] show ?case by (cases c1) auto
qed simp

lemma handle_hello_frame:
  "gw_core (snd (handle_hello sx sender e g)) = gw_core g"
  "gw_recipients (snd (handle_hello sx sender e g)) = gw_recipients g"
  "gw_subscriptions (snd (handle_hello sx sender e g)) = gw_subscriptions g"
  by (simp_all add: handle_hello_def split: message_payload.split control_payload.split)

text \<open>
  \<open>others_only sx g g'\<close>: from \<open>g\<close> to \<open>g'\<close> the core and the tables have changed only by what the other
  users of the worker did; the session itself sent envelopes and counted.
\<close>

definition same_state :: "('c, 'w) gateway \<Rightarrow> ('c, 'w) gateway \<Rightarrow> bool" where
  "same_state g g' \<longleftrightarrow> gw_core g' = gw_core g \<and> gw_recipients g' = gw_recipients g
     \<and> gw_subscriptions g' = gw_subscriptions g"

inductive others_only :: "('c, 'w) session_env \<Rightarrow> ('c, 'w) gateway \<Rightarrow> ('c, 'w) gateway \<Rightarrow> bool" for sx where
  others_start: "others_only sx g g"
| others_act: "others_only sx g g' \<Longrightarrow> others_only sx g (be_others (sx_bridge sx) n g')"
| others_send: "others_only sx g g' \<Longrightarrow> same_state g' g'' \<Longrightarrow> others_only sx g g''"

lemma others_only_trans [trans]: "others_only sx a b \<Longrightarrow> others_only sx b c \<Longrightarrow> others_only sx a c"
  by (rotate_tac, induction rule: others_only.induct) (auto intro: others_only.intros)

lemma same_state_others: "same_state g g' \<Longrightarrow> others_only sx g g'"
  by (rule others_send [OF others_start])

lemma others_only_quiet:
  assumes "others_only sx g g'" "\<And>n g. be_others (sx_bridge sx) n g = g"
  shows "same_state g g'"
  using assms(1) by induction (simp_all add: assms(2), simp_all add: same_state_def)

text \<open>
  The core accepted the credentials of an authentication that was decoded at some point of the
  stream; up to that call only the others had changed anything.
\<close>

definition stream_credentials :: "('c, 'w) session_env \<Rightarrow> u8 list \<Rightarrow> string \<Rightarrow> bool" where
  "stream_credentials sx stream token \<longleftrightarrow> (\<exists>k e rest auth. read_envelope sx (drop k stream) = (Inr e, rest)
     \<and> ev_message e = Control (Authenticate auth) \<and> string_from_utf8 (au_credentials auth) = Some token)"

definition accepted :: "('c, 'w) session_env \<Rightarrow> connection_id \<Rightarrow> u8 list \<Rightarrow> ('c, 'w) gateway \<Rightarrow> ('c, 'w) gateway \<Rightarrow> bool" where
  "accepted sx x stream g g' \<longleftrightarrow> (\<exists>g1 token who. others_only sx g g1 \<and> stream_credentials sx stream token
     \<and> authenticate x \<lparr>cr_token = token\<rparr> (gw_core g1) = (Inr who, gw_core g')
     \<and> gw_recipients g' = gw_recipients g1 \<and> gw_subscriptions g' = gw_subscriptions g1)"

lemma accepted_later: "others_only sx g g1 \<Longrightarrow> accepted sx x stream g1 g' \<Longrightarrow> accepted sx x stream g g'"
  unfolding accepted_def using others_only_trans by blast

lemma send_same_state:
  "same_state g (snd (send_envelope env sender e g))" "same_state g (send_error env sender kind code message g)"
  by (simp_all add: same_state_def)

lemma handle_authenticate_effect:
  assumes a: "handle_authenticate sx n x sender e g = (r, g')"
    and e: "read_envelope sx (drop k stream) = (Inr e, rest)"
  shows "accepted sx x stream g g' \<or> r = Inl () \<and> others_only sx g g'"
proof (cases "\<exists>auth token. ev_message e = Control (Authenticate auth) \<and> string_from_utf8 (au_credentials auth) = Some token")
  case False
  then have "r = Inl () \<and> same_state g g'"
    using a send_same_state(2) [of g "sx_bridge sx" sender]
    by (auto simp: handle_authenticate_def Let_def split: message_payload.splits control_payload.splits option.splits)
  then show ?thesis using same_state_others by blast
next
  case True
  then obtain auth token where m: "ev_message e = Control (Authenticate auth)"
    "string_from_utf8 (au_credentials auth) = Some token" by blast
  let ?h = "be_others (sx_bridge sx) n g"
  have o: "others_only sx g ?h" by (intro others_act others_start)
  obtain r1 c where c: "authenticate x \<lparr>cr_token = token\<rparr> (gw_core ?h) = (r1, c)" by force
  have q: "execute (bridge_from n sx) 0 (C_Authenticate x \<lparr>cr_token = token\<rparr>) g
      = (map_err TE_Core (map_sum id R_Authenticated r1), ?h\<lparr>gw_core := c,
          gw_metrics := observe_command (MC_Authenticate x) (map_sum id R_Authenticated r1) (gw_metrics ?h)\<rparr>)"
    using c by (subst execute_command) (simp_all add: Let_def map_op_def)
  show ?thesis
  proof (cases r1)
    case (Inl err)
    then have "c = gw_core ?h" using c authenticate_error by metis
    then have "r = Inl () \<and> same_state ?h g'"
      using a m q Inl by (auto simp: handle_authenticate_def Let_def map_err_def same_state_def)
    then show ?thesis using o others_send by blast
  next
    case (Inr who)
    let ?g = "?h\<lparr>gw_core := c, gw_metrics := observe_command (MC_Authenticate x) (Inr (R_Authenticated who)) (gw_metrics ?h)\<rparr>"
    have "g' = snd (send_envelope (sx_bridge sx) sender (authenticated_envelope who) ?g)"
      using a m q Inr by (simp add: handle_authenticate_def Let_def map_err_def)
    then have "gw_core g' = c \<and> gw_recipients g' = gw_recipients ?h \<and> gw_subscriptions g' = gw_subscriptions ?h"
      by simp
    moreover have "stream_credentials sx stream token" using e m unfolding stream_credentials_def by blast
    ultimately have "accepted sx x stream g g'"
      using o c Inr unfolding accepted_def by metis
    then show ?thesis ..
  qed
qed

text \<open>What is left of the stream is always an end of it.\<close>

lemma read_envelope_rest: "\<exists>k. snd (read_envelope sx stream) = drop k stream"
proof -
  have "[] = drop (length stream) stream" by simp
  then show ?thesis
    unfolding read_envelope_def
    by (auto split: sum.split option.split intro: exI [of _ "length stream"])
qed

lemma session_step_stream:
  assumes "session_step sx n x sender e s g = (continue, s', g')" "sg_stream s = drop k stream"
  shows "\<exists>k. sg_stream s' = drop k stream"
proof (cases e)
  case SE_Received
  obtain r rest where rd: "read_envelope sx (sg_stream s) = (r, rest)" by force
  then have "\<exists>k. rest = drop k stream"
    using read_envelope_rest [of sx "sg_stream s"] assms(2) by auto
  moreover have "sg_stream s' = rest"
    using assms(1) SE_Received rd
    by (cases r) (auto simp: session_envelope_def split: prod.splits sum.splits if_splits)
  ultimately show ?thesis by simp
qed (use assms in \<open>auto simp: drop_read_def split: prod.splits\<close>)

lemma session_step_unauthenticated:
  assumes st: "session_step sx n x sender e s g = (continue, s', g')"
    and s: "\<not> sg_authenticated s" "sg_stream s = drop k stream"
  shows "if sg_authenticated s' then accepted sx x stream g g'
    else others_only sx g g' \<or> \<not> continue \<and> accepted sx x stream g g'"
proof (cases e)
  case SE_Received
  obtain r rest where rd: "read_envelope sx (sg_stream s) = (r, rest)" by force
  show ?thesis
  proof (cases r)
    case (Inl message)
    then show ?thesis
      using st s SE_Received rd same_state_others [OF send_same_state(2)] by auto
  next
    case (Inr envelope)
    show ?thesis
    proof (cases "sg_greeted s")
      case False
      then have "\<not> sg_authenticated s' \<and> g' = snd (handle_hello sx sender envelope g)"
        using st s SE_Received rd Inr by (auto simp: session_envelope_def split: prod.splits sum.splits)
      moreover have "same_state g (snd (handle_hello sx sender envelope g))"
        by (simp add: same_state_def handle_hello_frame)
      ultimately show ?thesis using same_state_others by auto
    next
      case True
      obtain ra ga where ha: "handle_authenticate sx n x sender envelope g = (ra, ga)" by force
      have "read_envelope sx (drop k stream) = (Inr envelope, rest)" using rd Inr s(2) by simp
      from handle_authenticate_effect [OF ha this] show ?thesis
        using st s SE_Received rd Inr True ha
        by (auto simp: session_envelope_def split: sum.splits)
    qed
  qed
qed (use st s in \<open>auto simp: session_datagram_def drop_read_def others_start
    intro: same_state_others [OF send_same_state(2)] split: option.splits if_splits\<close>)

lemma session_loop_unauthenticated:
  assumes "session_loop sx n x sender es s g = (continue, s', g')" "\<not> sg_authenticated s"
    and "sg_stream s = drop k stream"
  shows "if sg_authenticated s' then \<exists>g2. accepted sx x stream g g2
    else others_only sx g g' \<or> \<not> continue \<and> accepted sx x stream g g'"
  using assms
proof (induction es arbitrary: n s g k)
  case Nil
  then show ?case by (auto intro: others_start)
next
  case (Cons e es)
  obtain c1 s1 g1 where st: "session_step sx n x sender e s g = (c1, s1, g1)" by (metis prod_cases3)
  note one = session_step_unauthenticated [OF st Cons.prems(2,3)]
  show ?case
  proof (cases c1)
    case False
    then show ?thesis using Cons.prems st one by auto
  next
    case True
    then have l: "session_loop sx (n + 3) x sender es s1 g1 = (continue, s', g')" using Cons.prems st by simp
    show ?thesis
    proof (cases "sg_authenticated s1")
      case True
      then show ?thesis using one session_loop_monotone [OF l] by auto
    next
      case False
      then have o: "others_only sx g g1" using one \<open>c1\<close> by simp
      obtain k' where "sg_stream s1 = drop k' stream" using session_step_stream [OF st Cons.prems(3)] by blast
      from Cons.IH [OF l False this] show ?thesis
        using accepted_later [OF o] others_only_trans [OF o] by (auto split: if_splits)
    qed
  qed
qed

text \<open>
  C34. Before authentication. Whatever frames, datagrams and streams a client sends, in any order, and
  whatever the other users of the worker do in between: as long as its session has not authenticated,
  the core and the tables of the gateway have changed only by what those others did. The one exception
  is an authentication that the core accepted and whose answer could not be sent, which ends the
  session. A session is only authenticated after the core has accepted, for this connection, the
  credentials of an authentication envelope decoded from the client's own stream.
\<close>

theorem unauthenticated_session_changes_nothing:
  assumes "session_loop sx n x sender events (session_start stream) g = (continue, s, g')"
  shows "if sg_authenticated s
    then \<exists>g1 token who c. others_only sx g g1 \<and> stream_credentials sx stream token
      \<and> authenticate x \<lparr>cr_token = token\<rparr> (gw_core g1) = (Inr who, c)
    else others_only sx g g' \<or> \<not> continue
      \<and> (\<exists>g1 token who. others_only sx g g1 \<and> stream_credentials sx stream token
          \<and> authenticate x \<lparr>cr_token = token\<rparr> (gw_core g1) = (Inr who, gw_core g')
          \<and> gw_recipients g' = gw_recipients g1 \<and> gw_subscriptions g' = gw_subscriptions g1)"
proof -
  have "\<not> sg_authenticated (session_start stream)" "sg_stream (session_start stream) = drop 0 stream"
    by (simp_all add: session_start_def)
  from session_loop_unauthenticated [OF assms this] show ?thesis
    unfolding accepted_def by (auto split: if_splits)
qed

text \<open>A greeting in the 12-byte frame of the codec's example, and an environment whose library reads it.\<close>

definition demo_hello :: envelope where
  "demo_hello = envelope_control PD_ReliableOrdered (Hello
     \<lparr>he_min_protocol_version = 1, he_max_protocol_version = 1, he_client_name = ''c'', he_client_version = ''1'',
       he_capability_bits = 0, he_max_frame_size = 65536, he_max_payload_size = 65536\<rparr>)"

definition demo_session_env :: "(nat, (nat \<times> envelope) list) session_env" where
  "demo_session_env = \<lparr>sx_bridge = demo_env, sx_server_name = ''woven'', sx_server_version = ''0'',
     sx_finish = (\<lambda>_. demo_frame), sx_has_identifier = (\<lambda>_. True), sx_root = (\<lambda>_. Inr (encode_wire demo_hello)),
     sx_read_error = [], sx_max_datagram_size = (\<lambda>_. None), sx_send_datagram = (\<lambda>_ w. w),
     sx_write_all = (\<lambda>_ w. (True, w)), sx_finish_stream = (\<lambda>w. w), sx_close = (\<lambda>_ _ w. w)\<rparr>"

lemma demo_hello_valid: "validate_outbound codec_limits_default demo_hello = Inr ()"
  by (simp add: validate_outbound_def demo_hello_def envelope_control_def envelope_new_def
      validate_envelope_def reject_zero_optional_ids_def reject_zero_option_def validate_delivery_def
      delivery_fits_def ev_message_kind_def validate_control_def require_unscoped_def validate_hello_def
      validate_advertised_limits_def PROTOCOL_VERSION_def
      enforce_payload_limit_def enforce_frame_limit_def codec_limits_default_def Let_def
      usize_saturating_add_def usize_max_def)

lemma demo_frame_length: "length demo_frame = 12"
  by (simp add: demo_frame_def)

lemma demo_frame_expected: "expected_frame_len codec_limits_default (take SIZE_PREFIX_LEN demo_frame) = Inr (Some 12)"
  by (simp add: demo_frame_def expected_frame_len_def SIZE_PREFIX_LEN_def MIN_ENCODED_LEN_def
      codec_limits_default_def enforce_frame_limit_def usize_saturating_add_def usize_max_def)

lemma demo_hello_decoded: "session_decode demo_session_env demo_frame = Inr demo_hello"
proof -
  have "expected_frame_len codec_limits_default demo_frame = Inr (Some (length demo_frame))"
    by (rule expected_len_of_frame)
      (simp_all add: demo_frame_def SIZE_PREFIX_LEN_def MIN_FRAME_LEN_def codec_limits_default_def)
  then show ?thesis
    using decode_encode_wire [OF limits_default_valid demo_hello_valid]
    by (simp add: session_decode_def demo_session_env_def decode_def ok_or_def map_err_def)
qed

lemma demo_read: "read_envelope demo_session_env demo_frame = (Inr demo_hello, [])"
  using demo_frame_expected demo_hello_decoded demo_frame_length
  by (simp add: read_envelope_def map_err_def) (simp add: SIZE_PREFIX_LEN_def)

lemma demo_others: "be_others (sx_bridge demo_session_env) n g = g"
  by (simp add: demo_session_env_def demo_env_def)

lemma demo_greeted:
  "session_loop demo_session_env 0 1 10 [SE_Datagram 0 (Some [1, 2]), SE_Received] (session_start demo_frame) demo_gateway
   = (True, \<lparr>sg_greeted = True, sg_authenticated = False, sg_stream = []\<rparr>,
       demo_gateway\<lparr>gw_world := [(10, capabilities_envelope demo_session_env)]\<rparr>)"
proof -
  have "handle_hello demo_session_env 10 demo_hello demo_gateway
      = (Inr (), demo_gateway\<lparr>gw_world := [(10, capabilities_envelope demo_session_env)]\<rparr>)"
    by (simp add: handle_hello_def demo_hello_def envelope_control_def envelope_new_def send_envelope_def
        demo_session_env_def demo_env_def log_ops_def demo_gateway_def gateway_new_def)
  then show ?thesis
    by (simp add: session_start_def session_datagram_def drop_read_def demo_read session_envelope_def)
qed

lemma unauthenticated_session_changes_nothing_witness:
  "gw_core (snd (snd (session_loop demo_session_env 0 1 10 [SE_Datagram 0 (Some [1, 2]), SE_Received]
     (session_start demo_frame) demo_gateway))) = gw_core demo_gateway"
  using unauthenticated_session_changes_nothing [OF demo_greeted] demo_greeted
    others_only_quiet [OF _ demo_others, of demo_gateway]
  by (simp add: same_state_def)

section \<open>The end of a session\<close>

lemma core_reaches_execute:
  assumes "\<And>n g. core_reaches (gw_core g) (gw_core (be_others env n g))"
  shows "core_reaches (gw_core g) (gw_core (snd (execute env n command g)))"
  using core_reaches_ask [OF assms, of g n "WR_Command command"] by (simp add: execute_ask)

text \<open>
  A connection that is discarded is not in the core afterwards, whatever the others did in between.
  Its entries in the tables go when this call was the one that disconnected it; when the core had
  lost it already they stay.
\<close>

lemma execute_lost:
  assumes "core_wf (gw_core (be_others env n g))"
  shows "\<not> is_connected (gw_core (snd (execute env n (C_TransportLost x) g))) x"
    "is_connected (gw_core (be_others env n g)) x \<Longrightarrow>
       bt_get (gw_recipients (snd (execute env n (C_TransportLost x) g))) x = None
       \<and> bt_get (gw_subscriptions (snd (execute env n (C_TransportLost x) g))) x = None"
    "\<not> is_connected (gw_core (be_others env n g)) x \<Longrightarrow>
       gw_recipients (snd (execute env n (C_TransportLost x) g)) = gw_recipients (be_others env n g)
       \<and> gw_subscriptions (snd (execute env n (C_TransportLost x) g)) = gw_subscriptions (be_others env n g)"
proof -
  let ?g = "be_others env n g" and ?k = "be_clock env n" and ?g' = "snd (execute env n (C_TransportLost x) g)"
  obtain r c where h: "handle ?k (C_TransportLost x) (gw_core ?g) = (r, c)" by force
  note l = handle_lost [OF assms h]
  let ?m = "observe_command (MC_TransportLost x) r (gw_metrics ?g)"
  have e: "?g' = (case r of Inl _ \<Rightarrow> ?g\<lparr>gw_core := c, gw_metrics := ?m\<rparr>
      | Inr out \<Rightarrow> apply_lifecycle_action (be_ops env) ?k (LA_TransportLost x) out (?g\<lparr>gw_core := c, gw_metrics := ?m\<rparr>))"
    using h by (simp add: execute_ask ask_def worker_command_def gw_command_def Let_def split: sum.split)
  have "\<not> is_connected (gw_core ?g') x
    \<and> (is_connected (gw_core ?g) x \<longrightarrow> bt_get (gw_recipients ?g') x = None \<and> bt_get (gw_subscriptions ?g') x = None)
    \<and> (\<not> is_connected (gw_core ?g) x \<longrightarrow> gw_recipients ?g' = gw_recipients ?g \<and> gw_subscriptions ?g' = gw_subscriptions ?g)"
  proof (cases "is_connected (gw_core ?g) x")
    case False
    then obtain err where "r = Inl err" "c = gw_core ?g" using l by auto
    then show ?thesis using e l False by simp
  next
    case True
    then obtain summary where r: "r = Inr (R_Disconnected summary)" using l by auto
    let ?h = "?g\<lparr>gw_core := c, gw_metrics := ?m, gw_recipients := bt_remove x (gw_recipients ?g),
      gw_subscriptions := bt_remove x (gw_subscriptions ?g)\<rparr>"
    have g': "?g' = distribute_removed_entities (be_ops env) ?k summary EL_Disconnected ?h"
      using e r by (simp add: apply_lifecycle_action_def)
    have "core_wf c"
      using core_reaches_wf [OF core_reaches_handle assms, of ?k "C_TransportLost x"] h by simp
    then have "gone_everywhere x ?h" using l by (simp add: gone_everywhere_def)
    then have "gone_everywhere x ?g'"
      unfolding g' by (rule gone_everywhere_swept) (rule swept_distribute)
    then show ?thesis using True by (simp add: gone_everywhere_def)
  qed
  then show "\<not> is_connected (gw_core ?g') x"
    "is_connected (gw_core ?g) x \<Longrightarrow> bt_get (gw_recipients ?g') x = None \<and> bt_get (gw_subscriptions ?g') x = None"
    "\<not> is_connected (gw_core ?g) x \<Longrightarrow> gw_recipients ?g' = gw_recipients ?g \<and> gw_subscriptions ?g' = gw_subscriptions ?g"
    by blast+
qed

lemma core_reaches_discard:
  assumes "\<And>n g. core_reaches (gw_core g) (gw_core (be_others env n g))"
  shows "core_reaches (gw_core g) (gw_core (discard_and_disconnect env n x g))"
  unfolding discard_and_disconnect_def
  by (rule core_reaches_trans [OF core_reaches_execute [OF assms] core_reaches_execute [OF assms]])

lemma discarded:
  assumes "\<And>n g. core_reaches (gw_core g) (gw_core (be_others env n g))" "core_wf (gw_core g)"
  shows "\<not> is_connected (gw_core (discard_and_disconnect env n x g)) x"
proof -
  have "core_wf (gw_core (be_others env (n + 1) (snd (execute env n (C_DrainOutbound x) g))))"
    using assms(2) by (rule core_reaches_wf [OF core_reaches_trans [OF core_reaches_execute [OF assms(1)] assms(1)]])
  then show ?thesis unfolding discard_and_disconnect_def by (rule execute_lost)
qed

lemma core_reaches_session_step:
  assumes others: "\<And>n g. core_reaches (gw_core g) (gw_core (be_others (sx_bridge sx) n g))"
    and step: "session_step sx n x sender e s g = (continue, s', g')"
  shows "core_reaches (gw_core g) (gw_core g')"
proof -
  have o: "core_reaches (gw_core h) (gw_core (be_others (bridge_from n sx) i h))" for n i h
    using others by simp
  have auth: "core_reaches (gw_core h) (gw_core h')"
    if "handle_authenticated (bridge_from n sx) x m sender h = (r, h')" for m h r h'
    using core_reaches_handle_authenticated [where env = "bridge_from n sx", OF o, of h x m sender] that by simp
  have first: "core_reaches (gw_core h) (gw_core h')"
    if "handle_authenticate sx n x sender m h = (r, h')" for m h r h'
  proof -
    have "core_reaches (gw_core h) (gw_core h2)" if "execute (bridge_from n sx) 0 c h = (r2, h2)" for c r2 h2
      using core_reaches_execute [where env = "bridge_from n sx", OF o, of h 0 c] that by simp
    then show ?thesis
      using that
      by (auto simp: handle_authenticate_def Let_def dest!: send_envelope_frame
          split: message_payload.splits control_payload.splits option.splits prod.splits sum.splits command_result.splits)
  qed
  have hello: "gw_core h' = gw_core h" if "handle_hello sx sender m h = (r, h')" for m h r h'
    using handle_hello_frame(1) [of sx sender m h] that by simp
  show ?thesis
  proof (cases e)
    case (SE_Datagram taken datagram)
    then show ?thesis
      using step auth
      by (auto simp: session_datagram_def map_prod_def split: option.splits if_splits sum.splits prod.splits)
  next
    case SE_Received
    then show ?thesis
      using step auth first
      by (auto simp: session_envelope_def dest!: hello split: prod.splits sum.splits if_splits)
  qed (use step in auto)
qed

lemma core_reaches_session_loop:
  assumes "\<And>n g. core_reaches (gw_core g) (gw_core (be_others (sx_bridge sx) n g))"
    and "session_loop sx n x sender es s g = (continue, s', g')"
  shows "core_reaches (gw_core g) (gw_core g')"
  using assms(2)
proof (induction es arbitrary: n s g)
  case (Cons e es)
  obtain c1 s1 g1 where st: "session_step sx n x sender e s g = (c1, s1, g1)" by (metis prod_cases3)
  have "core_reaches (gw_core g) (gw_core g1)" by (rule core_reaches_session_step [OF assms(1) st])
  then show ?case using Cons st core_reaches_trans by (cases c1) auto
qed simp

lemma close_core [simp]: "gw_core (close_connection sx code reason g) = gw_core g"
  by (simp add: close_connection_def)

text \<open>
  C35. The end of a session. However the client behaves, in whatever order its frames, datagrams and
  the other connections' requests come, and whichever way its session ends, the core has no trace of
  the connection when it has ended, and stays reachable throughout.
\<close>

theorem ended_session_leaves_no_connection:
  assumes "\<And>n g. \<exists>actions. gw_core (be_others (sx_bridge sx) n g) = core_run (gw_core g) actions"
    and "reachable_core (gw_core g)" "serve_connection t sx recipient stream events g = (ending, g')"
  shows "reachable_core (gw_core g')
    \<and> (case ending of Closed x \<Rightarrow> \<not> is_connected (gw_core g') x
        | NoStream x \<Rightarrow> \<not> is_connected (gw_core g') x
        | _ \<Rightarrow> True)"
proof -
  have o: "core_reaches (gw_core h) (gw_core (be_others (sx_bridge sx) n h))" for n h
    using assms(1) by (simp add: core_reaches_def)
  then have o': "core_reaches (gw_core h) (gw_core (be_others (bridge_from n sx) i h))" for n i h
    by simp
  obtain r g1 where e: "execute (bridge_from 0 sx) 0 C_TransportConnected g = (r, g1)" by force
  then have r1: "core_reaches (gw_core g) (gw_core g1)"
    using core_reaches_execute [where env = "bridge_from 0 sx", OF o', of g 0 C_TransportConnected] by simp
  have gone: "core_reaches (gw_core g) (gw_core h) \<Longrightarrow>
      core_reaches (gw_core g) (gw_core (discard_and_disconnect (bridge_from n sx) 0 x h))
      \<and> \<not> is_connected (gw_core (discard_and_disconnect (bridge_from n sx) 0 x h)) x" for n x h
    using core_reaches_trans [OF _ core_reaches_discard [where env = "bridge_from n sx", OF o']]
      discarded [where env = "bridge_from n sx", OF o'] core_reaches_wf reachable_wf [OF assms(2)] by metis
  have "core_reaches (gw_core g) (gw_core g')
    \<and> (case ending of Closed x \<Rightarrow> \<not> is_connected (gw_core g') x
        | NoStream x \<Rightarrow> \<not> is_connected (gw_core g') x
        | _ \<Rightarrow> True)"
  proof (cases "\<exists>x. r = Inr (R_Connected x)")
    case False
    then show ?thesis
      using assms(3) e r1
      by (auto simp: serve_connection_def split: sum.splits command_result.splits)
  next
    case True
    then obtain x where r: "r = Inr (R_Connected x)" by blast
    show ?thesis
    proof (cases stream)
      case None
      then show ?thesis using assms(3) e r gone [OF r1, of 1 x] by (auto simp: serve_connection_def)
    next
      case (Some bytes)
      define g2 where "g2 = snd (ask (bridge_from 1 sx) 0 (WR_RegisterLifecycle x recipient) g1)"
      obtain c s g3 where l: "session_loop sx 2 x (lr_sender recipient) events (session_start bytes) g2 = (c, s, g3)"
        by (metis prod_cases3)
      have r3: "core_reaches (gw_core g) (gw_core g3)"
        using r1 core_reaches_ask [where env = "bridge_from 1 sx", OF o'] core_reaches_session_loop [OF o l]
        unfolding g2_def by (blast intro: core_reaches_trans)
      have "serve_connection t sx recipient stream events g = (if c then (Serving x s, g3)
          else (Closed x, close_connection sx CLOSE_PROTOCOL (closed_reason t)
             (discard_and_disconnect (bridge_from (2 + 3 * length events) sx) 0 x g3)))"
        using e r Some l [unfolded g2_def] by (cases c) (simp_all add: serve_connection_def)
      then show ?thesis using assms(3) gone [OF r3, of _ x] r3 by (auto split: if_splits)
    qed
  qed
  then show ?thesis using core_reaches_reachable [OF _ assms(2)] by blast
qed

lemma demo_connected: "\<exists>c. transport_connected demo_published = (Inr 3, c)"
  by (simp add: demo_published_eq demo_received_def demo_simps u64_checked_succ_def)

lemma demo_accepted:
  "\<exists>g. execute (bridge_from 0 demo_session_env) 0 C_TransportConnected demo_gateway = (Inr (R_Connected 3), g)"
proof -
  obtain c where "transport_connected demo_published = (Inr 3, c)" using demo_connected by blast
  then show ?thesis
    using demo_others
    by (subst execute_quiet) (simp_all add: demo_gateway_def gateway_new_def map_op_def map_err_def)
qed

lemma ended_session_leaves_no_connection_witness:
  "\<exists>g. serve_connection T_Quic demo_session_env \<lparr>lr_sender = 30, lr_shutdown = 31\<rparr> (Some demo_frame)
       [SE_Received, SE_Shutdown] demo_gateway = (Closed 3, g) \<and> \<not> is_connected (gw_core g) 3"
proof -
  obtain g1 where "execute (bridge_from 0 demo_session_env) 0 C_TransportConnected demo_gateway = (Inr (R_Connected 3), g1)"
    using demo_accepted by blast
  moreover have "\<exists>h. handle_hello demo_session_env 30 demo_hello g = (Inr (), h)" for g
    by (simp add: handle_hello_def demo_hello_def envelope_control_def envelope_new_def send_envelope_def
        demo_session_env_def demo_env_def log_ops_def)
  then obtain h where "\<And>g. handle_hello demo_session_env 30 demo_hello g = (Inr (), h g)" by metis
  ultimately obtain g where s: "serve_connection T_Quic demo_session_env \<lparr>lr_sender = 30, lr_shutdown = 31\<rparr>
      (Some demo_frame) [SE_Received, SE_Shutdown] demo_gateway = (Closed 3, g)"
    by (simp add: serve_connection_def session_start_def demo_read session_envelope_def)
  have "\<exists>actions. gw_core (be_others (sx_bridge demo_session_env) n g) = core_run (gw_core g) actions" for n g
    by (rule exI [of _ "[]"]) (simp add: demo_others core_run_def)
  from ended_session_leaves_no_connection [OF this demo_gateway_reachable s] s show ?thesis by simp
qed

section \<open>The stream\<close>

text \<open>
  The frame of an envelope that the codec encodes and the FlatBuffers library reads back, and what a
  read of the stream makes of it and of a beginning of it.
\<close>

definition writes :: "('c, 'w) session_env \<Rightarrow> envelope \<Rightarrow> bool" where
  "writes sx e \<longleftrightarrow> is_ok (session_encode sx e)
     \<and> flatbuffer_reads_back (sx_finish sx) (sx_has_identifier sx) (sx_root sx) (encode_wire e)"

definition frame_of :: "('c, 'w) session_env \<Rightarrow> envelope \<Rightarrow> u8 list" where
  "frame_of sx e = (case session_encode sx e of Inl _ \<Rightarrow> [] | Inr frame \<Rightarrow> frame)"

lemma read_envelope_frame:
  assumes "writes sx e"
  shows "read_envelope sx (frame_of sx e @ rest) = (Inr e, rest)"
    and "k < length (frame_of sx e) \<Longrightarrow> \<exists>message. read_envelope sx (take k (frame_of sx e)) = (Inl message, [])"
proof -
  define frame where "frame = frame_of sx e"
  have enc: "session_encode sx e = Inr frame"
    and lib: "flatbuffer_reads_back (sx_finish sx) (sx_has_identifier sx) (sx_root sx) (encode_wire e)"
    using assms by (auto simp: writes_def frame_def frame_of_def is_ok_def split: sum.splits)
  have v: "validate_outbound codec_limits_default e = Inr ()" and b: "frame = sx_finish sx (encode_wire e)"
    and f: "length frame \<le> cl_max_frame_len codec_limits_default"
    using enc by (auto simp: session_encode_def encode_def and_then_eq_Inr Let_def enforce_frame_limit_def split: if_splits)
  have len: "expected_frame_len codec_limits_default frame = Inr (Some (length frame))"
    using lib f unfolding b flatbuffer_reads_back_def by (intro expected_len_of_frame) simp_all
  moreover have "decode_verified codec_limits_default (encode_wire e) = Inr e"
    by (rule decode_encode_wire [OF limits_default_valid v])
  ultimately have d: "session_decode sx frame = Inr e"
    using lib by (simp add: session_decode_def decode_def b flatbuffer_reads_back_def ok_or_def map_err_def)
  have "SIZE_PREFIX_LEN \<le> length frame"
    using lib by (simp add: b flatbuffer_reads_back_def MIN_FRAME_LEN_def SIZE_PREFIX_LEN_def)
  moreover from this have "expected_frame_len codec_limits_default (take SIZE_PREFIX_LEN frame) = Inr (Some (length frame))"
    using len by (simp add: expected_frame_len_def)
  ultimately show "read_envelope sx (frame_of sx e @ rest) = (Inr e, rest)"
    and "k < length (frame_of sx e) \<Longrightarrow> \<exists>message. read_envelope sx (take k (frame_of sx e)) = (Inl message, [])"
    using d by (auto simp: frame_def [symmetric] read_envelope_def map_err_def min_def)
qed

text \<open>
  The session over envelopes instead of bytes: an input is the next envelope of the stream or a
  datagram.
\<close>

fun turns :: "('c, 'w) session_env \<Rightarrow> nat \<Rightarrow> connection_id \<Rightarrow> 'c \<Rightarrow> (envelope + u8 list option) list
  \<Rightarrow> session_progress \<Rightarrow> ('c, 'w) gateway \<Rightarrow> bool \<times> session_progress \<times> ('c, 'w) gateway" where
  "turns sx n x sender [] s g = (True, s, g)"
| "turns sx n x sender (Inl e # inputs) s g = (case session_envelope sx n x sender e s g of
     (True, s', g') \<Rightarrow> turns sx (n + 3) x sender inputs s' g'
   | (False, s', g') \<Rightarrow> (False, s', g'))"
| "turns sx n x sender (Inr datagram # inputs) s g = (case session_datagram sx n x sender datagram s g of
     (True, g') \<Rightarrow> turns sx (n + 3) x sender inputs s g'
   | (False, g') \<Rightarrow> (False, s, g'))"

text \<open>The bytes and the events of the inputs; no datagram comes while a frame is being received.\<close>

fun bytes_written :: "('c, 'w) session_env \<Rightarrow> (envelope + u8 list option) list \<Rightarrow> u8 list" where
  "bytes_written sx [] = []"
| "bytes_written sx (Inl e # inputs) = frame_of sx e @ bytes_written sx inputs"
| "bytes_written sx (Inr _ # inputs) = bytes_written sx inputs"

fun event_of :: "envelope + u8 list option \<Rightarrow> session_event" where
  "event_of (Inl _) = SE_Received"
| "event_of (Inr datagram) = SE_Datagram 0 datagram"

lemma session_envelope_keeps_stream:
  "session_envelope sx n x sender e (s\<lparr>sg_stream := bytes\<rparr>) g
     = map_prod id (map_prod (\<lambda>s'. s'\<lparr>sg_stream := bytes\<rparr>) id) (session_envelope sx n x sender e s g)"
  by (simp add: session_envelope_def split: prod.split sum.split)

lemma session_datagram_ignores_stream:
  "session_datagram sx n x sender d (s\<lparr>sg_stream := bytes\<rparr>) g = session_datagram sx n x sender d s g"
  by (simp add: session_datagram_def split: option.split)

lemma session_loop_turns:
  assumes "\<forall>e. Inl e \<in> set inputs \<longrightarrow> writes sx e" "turns sx n x sender inputs s g = (continue, s', g')"
  shows "\<exists>left. session_loop sx n x sender (map event_of inputs) (s\<lparr>sg_stream := bytes_written sx inputs @ rest\<rparr>) g
      = (continue, s'\<lparr>sg_stream := left\<rparr>, g') \<and> (continue \<longrightarrow> left = rest)"
  using assms
proof (induction inputs arbitrary: n s g)
  case (Cons i inputs)
  show ?case
  proof (cases i)
    case (Inl e)
    obtain c1 s1 g1 where st: "session_envelope sx n x sender e s g = (c1, s1, g1)" by (metis prod_cases3)
    have rd: "read_envelope sx (frame_of sx e @ bytes_written sx inputs @ rest) = (Inr e, bytes_written sx inputs @ rest)"
      using Cons.prems(1) Inl by (intro read_envelope_frame) simp
    have keeps: "session_envelope sx n x sender e (s\<lparr>sg_stream := bytes\<rparr>) g = (c1, s1\<lparr>sg_stream := bytes\<rparr>, g1)" for bytes
      by (simp add: session_envelope_keeps_stream st)
    show ?thesis
      using Cons.prems Cons.IH [of "n + 3" s1 g1] Inl rd st keeps by (cases c1) auto
  next
    case (Inr d)
    obtain c1 g1 where st: "session_datagram sx n x sender d s g = (c1, g1)" by force
    then show ?thesis
      using Cons.prems Cons.IH [of "n + 3" s g1] Inr
      by (cases c1) (auto simp: session_datagram_ignores_stream drop_read_def)
  qed
qed auto

text \<open>
  C36. The stream. Over a stream of frames that the codec wrote and the library reads back, with any
  datagrams between the frames, a session does exactly what it would do for the envelopes themselves,
  one after the other, until one of them ends it: the same replies, gateway and state, up to the unread
  rest of the stream. If the stream then breaks off inside a frame, the session ends with a malformed frame, and the envelope of that
  frame has no effect.
\<close>

theorem session_handles_the_envelopes_written:
  assumes "\<forall>e. Inl e \<in> set inputs \<longrightarrow> writes sx e" "writes sx torn" "k < length (frame_of sx torn)"
    and "turns sx n x sender inputs s g = (continue, s', g')"
  shows "\<exists>left. session_loop sx n x sender (map event_of inputs)
        (s\<lparr>sg_stream := bytes_written sx inputs @ take k (frame_of sx torn)\<rparr>) g = (continue, s'\<lparr>sg_stream := left\<rparr>, g')
      \<and> (continue \<longrightarrow> left = take k (frame_of sx torn)
        \<and> (\<exists>message. session_step sx m x sender SE_Received (s'\<lparr>sg_stream := left\<rparr>) g'
            = (False, s'\<lparr>sg_stream := []\<rparr>, send_error (sx_bridge sx) sender MK_Unknown PE_MalformedFrame message g')))"
proof -
  obtain message where "read_envelope sx (take k (frame_of sx torn)) = (Inl message, [])"
    using read_envelope_frame(2) [OF assms(2,3)] by blast
  moreover obtain left where left: "session_loop sx n x sender (map event_of inputs)
        (s\<lparr>sg_stream := bytes_written sx inputs @ take k (frame_of sx torn)\<rparr>) g = (continue, s'\<lparr>sg_stream := left\<rparr>, g')"
      "continue \<longrightarrow> left = take k (frame_of sx torn)"
    using session_loop_turns [OF assms(1,4), of "take k (frame_of sx torn)"] by blast
  ultimately show ?thesis by (intro exI [of _ left] conjI impI) auto
qed

lemma demo_writes: "writes demo_session_env demo_hello" and demo_frame_of: "frame_of demo_session_env demo_hello = demo_frame"
proof -
  have "session_encode demo_session_env demo_hello = Inr demo_frame"
    using demo_hello_valid
    by (simp add: session_encode_def encode_def demo_session_env_def enforce_frame_limit_def codec_limits_default_def demo_frame_def)
  moreover have "flatbuffer_reads_back (sx_finish demo_session_env) (sx_has_identifier demo_session_env)
      (sx_root demo_session_env) (encode_wire demo_hello)"
    by (simp add: flatbuffer_reads_back_def demo_session_env_def demo_frame_def MIN_FRAME_LEN_def SIZE_PREFIX_LEN_def)
  ultimately show "writes demo_session_env demo_hello" "frame_of demo_session_env demo_hello = demo_frame"
    by (simp_all add: writes_def frame_of_def is_ok_def)
qed

lemma session_handles_the_envelopes_written_witness:
  "\<exists>g'. session_loop demo_session_env 0 1 10 [SE_Datagram 0 (Some [1, 2]), SE_Received]
       (session_start (demo_frame @ take 5 demo_frame)) demo_gateway
     = (True, \<lparr>sg_greeted = True, sg_authenticated = False, sg_stream = take 5 demo_frame\<rparr>, g')"
proof -
  let ?inputs = "[Inr (Some [1, 2]), Inl demo_hello] :: (envelope + u8 list option) list"
  have "\<exists>h. handle_hello demo_session_env 10 demo_hello demo_gateway = (Inr (), h)"
    by (simp add: handle_hello_def demo_hello_def envelope_control_def envelope_new_def send_envelope_def
        demo_session_env_def demo_env_def log_ops_def)
  then obtain g' where t: "turns demo_session_env 0 1 10 ?inputs (session_start []) demo_gateway
      = (True, (session_start [])\<lparr>sg_greeted := True\<rparr>, g')"
    by (auto simp: session_datagram_def session_envelope_def session_start_def)
  have "\<forall>e. Inl e \<in> set ?inputs \<longrightarrow> writes demo_session_env e" by (simp add: demo_writes)
  from session_handles_the_envelopes_written [OF this demo_writes _ t, of 5] show ?thesis
    by (simp add: demo_frame_of demo_frame_length) (simp add: session_start_def)
qed

text \<open>
  A datagram can cost the stream: the loop drops the pending read when a datagram comes first, and
  what the read had taken is gone. An example, in the demonstration environment whose library reads
  the greeting from every frame: with a datagram before the first byte the greeting is answered; with
  the same datagram after its first four bytes the rest is refused as a malformed frame.
\<close>

lemma datagram_during_a_frame_breaks_the_stream:
  "\<exists>(sx :: (nat, (nat \<times> envelope) list) session_env) stream g.
     fst (session_loop sx 0 1 10 [SE_Datagram 0 (Some []), SE_Received] (session_start stream) g)
     \<and> gw_world (snd (snd (session_loop sx 0 1 10 [SE_Datagram 0 (Some []), SE_Received] (session_start stream) g)))
         = [(10, capabilities_envelope sx)]
     \<and> \<not> fst (session_loop sx 0 1 10 [SE_Datagram 4 (Some []), SE_Received] (session_start stream) g)
     \<and> gw_world (snd (snd (session_loop sx 0 1 10 [SE_Datagram 4 (Some []), SE_Received] (session_start stream) g)))
         = [(10, error_envelope MK_Unknown PE_MalformedFrame ''frame length 67305989 exceeds limit 1048576'')]"
proof -
  have "read_len demo_session_env demo_frame = 12" by (simp add: read_len_def demo_read demo_frame_length)
  moreover have "drop 4 demo_frame = [1, 2, 3, 4, 5, 6, 7, 8]" by (simp add: demo_frame_def)
  moreover have "read_envelope demo_session_env [1, 2, 3, 4, 5, 6, 7, 8]
      = (Inl ''frame length 67305989 exceeds limit 1048576'', [5, 6, 7, 8])"
    by (simp add: read_envelope_def SIZE_PREFIX_LEN_def expected_frame_len_def MIN_ENCODED_LEN_def
        codec_limits_default_def enforce_frame_limit_def usize_saturating_add_def usize_max_def show_nat.simps char_of_def bit_0)
  moreover have "handle_hello demo_session_env 10 demo_hello demo_gateway
      = (Inr (), demo_gateway\<lparr>gw_world := [(10, capabilities_envelope demo_session_env)]\<rparr>)"
    by (simp add: handle_hello_def demo_hello_def envelope_control_def envelope_new_def send_envelope_def
        demo_session_env_def demo_env_def log_ops_def demo_gateway_def gateway_new_def)
  moreover have "send_error (sx_bridge demo_session_env) 10 kind code message demo_gateway
      = demo_gateway\<lparr>gw_world := [(10, error_envelope kind code message)]\<rparr>" for kind code message
    by (simp add: send_error_def send_envelope_def
        demo_session_env_def demo_env_def log_ops_def demo_gateway_def gateway_new_def)
  ultimately have "session_loop demo_session_env 0 1 10 [SE_Datagram 0 (Some []), SE_Received] (session_start demo_frame) demo_gateway
      = (True, \<lparr>sg_greeted = True, sg_authenticated = False, sg_stream = []\<rparr>,
          demo_gateway\<lparr>gw_world := [(10, capabilities_envelope demo_session_env)]\<rparr>)"
    "session_loop demo_session_env 0 1 10 [SE_Datagram 4 (Some []), SE_Received] (session_start demo_frame) demo_gateway
      = (False, \<lparr>sg_greeted = False, sg_authenticated = False, sg_stream = [5, 6, 7, 8]\<rparr>,
          demo_gateway\<lparr>gw_world := [(10, error_envelope MK_Unknown PE_MalformedFrame
             ''frame length 67305989 exceeds limit 1048576'')]\<rparr>)"
    by (simp_all add: session_start_def session_datagram_def drop_read_def demo_read session_envelope_def)
  then show ?thesis
    by (intro exI [of _ demo_session_env] exI [of _ demo_frame] exI [of _ demo_gateway]) simp
qed

section \<open>A consumer the core has dropped\<close>

text \<open>
  A publish disconnects slow consumers inside the core. The tasks of such a connection do not notice:
  its drain goes on, and when the session ends its entries stay in the tables, with the channel that
  keeps the writer waiting.
\<close>

lemma drain_of_lost_connection_goes_on:
  assumes "\<And>n g. be_others (sx_bridge sx) n g = g" "\<not> is_connected (gw_core g) x"
  shows "fst (drain_tick sx n x recipient g)"
proof -
  have "get_connection (gw_core g) x = Inl (CE_UnknownConnection x)"
    using assms(2) by (auto simp: get_connection_def ok_or_def is_connected_def bt_contains_key_def split: option.split)
  then obtain e where "drain_outbound x (gw_core g) = (Inl e, gw_core g)"
    by (cases "validate_connection_id x") (simp_all add: drain_outbound_def checked_def)
  then have "\<exists>e g'. execute (bridge_from n sx) 0 (C_DrainOutbound x) g = (Inl e, g')"
    using assms(1) by (subst execute_quiet) (simp_all add: map_op_def map_err_def)
  then show ?thesis by (auto simp: drain_tick_def flush_outbound_quic_def)
qed

lemma lost_connection_stays_registered:
  assumes "\<And>n g. be_others env n g = g" "core_wf (gw_core g)" "\<not> is_connected (gw_core g) x"
  shows "gw_recipients (discard_and_disconnect env n x g) = gw_recipients g
    \<and> gw_subscriptions (discard_and_disconnect env n x g) = gw_subscriptions g"
proof -
  let ?h = "snd (execute env n (C_DrainOutbound x) g)"
  have h: "?h = g\<lparr>gw_core := snd (handle (be_clock env n) (C_DrainOutbound x) (gw_core g)), gw_metrics := gw_metrics ?h\<rparr>"
    using assms(1) by (simp add: execute_quiet)
  have "core_wf (gw_core ?h)" "\<not> is_connected (gw_core ?h) x"
    using core_reaches_wf [OF core_reaches_handle assms(2), of "be_clock env n" "C_DrainOutbound x"]
      handle_drain_connected [of "be_clock env n" x "gw_core g" x] assms(3)
    by (subst h, simp)+
  then have "gw_recipients (discard_and_disconnect env n x g) = gw_recipients ?h
      \<and> gw_subscriptions (discard_and_disconnect env n x g) = gw_subscriptions ?h"
    unfolding discard_and_disconnect_def
    using execute_lost(3) [of env "n + 1" ?h x] assms(1) by simp
  moreover have "gw_recipients ?h = gw_recipients g" "gw_subscriptions ?h = gw_subscriptions g"
    by (subst h, simp)+
  ultimately show ?thesis by simp
qed

end
