(* ===== verification/WebTransport.thy ===== *)
theory WebTransport
  imports Session
begin

text \<open>
  \<^verbatim>\<open>woven-transport-quic/src/webtransport.rs\<close>: which session requests are accepted, and the session
  itself, whose functions are those of the QUIC connection with other texts in two places.
\<close>

definition MAX_ALLOWED_ORIGINS :: usize where "MAX_ALLOWED_ORIGINS = 64"

record origin_policy =
  og_allowed_origins :: "string list"
  og_allow_missing_origin :: bool

datatype origin_policy_error = TooManyOrigins

definition origin_policy_allowlisted :: "string list \<Rightarrow> bool \<Rightarrow> origin_policy_error + origin_policy" where
  "origin_policy_allowlisted allowed_origins allow_missing_origin =
     (if MAX_ALLOWED_ORIGINS < length allowed_origins then Inl TooManyOrigins
      else Inr \<lparr>og_allowed_origins = allowed_origins, og_allow_missing_origin = allow_missing_origin\<rparr>)"

definition origin_policy_allows :: "origin_policy \<Rightarrow> string option \<Rightarrow> bool" where
  "origin_policy_allows p origin = (case origin of
     Some value \<Rightarrow> list_ex (\<lambda>allowed. allowed = value) (og_allowed_origins p)
   | None \<Rightarrow> og_allow_missing_origin p)"

definition origin_policy_default :: origin_policy where
  "origin_policy_default = \<lparr>og_allowed_origins = [], og_allow_missing_origin = True\<rparr>"

record webtransport_config =
  wc_path :: string
  wc_origin_policy :: origin_policy

definition webtransport_config_new :: webtransport_config where
  "webtransport_config_new = \<lparr>wc_path = ''/webtransport'', wc_origin_policy = origin_policy_default\<rparr>"

text \<open>A client's request for a session: its path, its origin and whether it lives until it is accepted.\<close>

record session_request =
  rq_path :: string
  rq_origin :: "string option"
  rq_alive :: bool

definition wt_serve_connection ::
  "('c, 'w) session_env \<Rightarrow> 'c lifecycle_recipient \<Rightarrow> u8 list option \<Rightarrow> session_event list
   \<Rightarrow> ('c, 'w) gateway \<Rightarrow> session_end \<times> ('c, 'w) gateway" where
  "wt_serve_connection = serve_connection T_WebTransport"

definition wt_drain_tick ::
  "('c, 'w) session_env \<Rightarrow> nat \<Rightarrow> connection_id \<Rightarrow> 'c lifecycle_recipient \<Rightarrow> ('c, 'w) gateway
   \<Rightarrow> bool \<times> ('c, 'w) gateway" where
  "wt_drain_tick = drain_tick"

definition wt_writer_loop ::
  "('c, 'w) session_env \<Rightarrow> nat \<Rightarrow> connection_id \<Rightarrow> 'c \<Rightarrow> envelope list \<Rightarrow> ('c, 'w) gateway \<Rightarrow> ('c, 'w) gateway" where
  "wt_writer_loop = writer_loop T_WebTransport"

definition wt_flush_outbound ::
  "('c, 'w) session_env \<Rightarrow> nat \<Rightarrow> connection_id \<Rightarrow> 'c \<Rightarrow> ('c, 'w) gateway \<Rightarrow> (unit + unit) \<times> ('c, 'w) gateway" where
  "wt_flush_outbound = flush_outbound_quic"

definition wt_send_datagram_envelope ::
  "('c, 'w) session_env \<Rightarrow> envelope \<Rightarrow> ('c, 'w) gateway \<Rightarrow> ('c, 'w) gateway" where
  "wt_send_datagram_envelope = send_datagram_envelope"

definition wt_read_envelope :: "('c, 'w) session_env \<Rightarrow> u8 list \<Rightarrow> (string + envelope) \<times> u8 list" where
  "wt_read_envelope = read_envelope"

definition wt_handle_hello ::
  "('c, 'w) session_env \<Rightarrow> 'c \<Rightarrow> envelope \<Rightarrow> ('c, 'w) gateway \<Rightarrow> (unit + unit) \<times> ('c, 'w) gateway" where
  "wt_handle_hello = handle_hello"

definition wt_handle_authenticate ::
  "('c, 'w) session_env \<Rightarrow> nat \<Rightarrow> connection_id \<Rightarrow> 'c \<Rightarrow> envelope \<Rightarrow> ('c, 'w) gateway
   \<Rightarrow> (unit + unit) \<times> ('c, 'w) gateway" where
  "wt_handle_authenticate = handle_authenticate"

datatype request_end = Not_Found | Forbidden | Abandoned | Served session_end

definition serve_request ::
  "webtransport_config \<Rightarrow> ('c, 'w) session_env \<Rightarrow> session_request \<Rightarrow> 'c lifecycle_recipient \<Rightarrow> u8 list option
   \<Rightarrow> session_event list \<Rightarrow> ('c, 'w) gateway \<Rightarrow> request_end \<times> ('c, 'w) gateway" where
  "serve_request config sx request recipient stream events g =
     (if rq_path request \<noteq> wc_path config then (Not_Found, g)
      else if \<not> origin_policy_allows (wc_origin_policy config) (rq_origin request) then (Forbidden, g)
      else if \<not> rq_alive request then (Abandoned, g)
      else map_prod Served id (wt_serve_connection sx recipient stream events g))"

section \<open>Who is served\<close>

lemma allowlist_bounded:
  "origin_policy_allowlisted origins missing = Inr p \<Longrightarrow> length (og_allowed_origins p) \<le> MAX_ALLOWED_ORIGINS"
  by (auto simp: origin_policy_allowlisted_def split: if_splits)

lemma allowlist_exact:
  "origin_policy_allowlisted origins missing = Inr p \<Longrightarrow>
     origin_policy_allows p origin \<longleftrightarrow> (case origin of None \<Rightarrow> missing | Some v \<Rightarrow> v \<in> set origins)"
  by (auto simp: origin_policy_allowlisted_def origin_policy_allows_def list_ex_iff split: if_splits option.split)

text \<open>A browser without a listed origin gets no session and changes nothing.\<close>

lemma unlisted_origin_is_not_served:
  assumes "rq_origin request = Some v" "v \<notin> set (og_allowed_origins (wc_origin_policy config))"
  shows "serve_request config sx request recipient stream events g \<in> {(Not_Found, g), (Forbidden, g)}"
  using assms by (auto simp: serve_request_def origin_policy_allows_def list_ex_iff)

end
