(* ===== verification/InferenceTools.thy ===== *)
theory InferenceTools
  imports Text
begin

text \<open>
  \<^verbatim>\<open>woven-inference-core/src/lib.rs\<close> and \<^verbatim>\<open>woven-inference-tools/src/lib.rs\<close>: the vocabulary of
  inference and the registry that evaluates the tool calls a model proposes.

  The traits \<^verbatim>\<open>Provider\<close> and \<^verbatim>\<open>ToolHandler\<close> are open: a provider is a function from a request to its
  events and a handler is a value of any type with the operations \<open>tool_ops\<close>. A handler acts on a
  state of type \<open>'s\<close>, which holds the worker it calls and what it keeps itself.
\<close>

section \<open>Vocabulary\<close>

type_synonym capability = string

datatype provider_locality = LocalProvider | HostedProvider
datatype privacy_class = PublicData | RestrictedData | ConfidentialData
datatype latency_class = Interactive | Background
datatype cost_class = FreeCost | LowCost | MediumCost | HighCost
datatype quality_tier = BasicQuality | StandardQuality | HighQuality

record provider_descriptor =
  pd_capability :: capability
  pd_locality :: provider_locality
  pd_privacy :: privacy_class
  pd_modalities :: "string list"
  pd_supports_streaming :: bool
  pd_max_context_items :: usize
  pd_max_concurrency :: usize
  pd_latency_class :: latency_class
  pd_cost_class :: cost_class
  pd_quality_tier :: quality_tier

record context_item =
  cx_source :: string
  cx_bytes :: "u8 list"

text \<open>The cancellation flag of a request, shared between its owner and its provider.\<close>

definition cancellation_new :: bool where "cancellation_new = False"
definition cancellation_cancel :: "bool \<Rightarrow> bool" where "cancellation_cancel _ = True"

record inference_request =
  iv_capability :: capability
  iv_principal :: principal_id
  iv_acting_entity :: entity_id
  iv_deadline :: instant
  iv_cancelled :: bool
  iv_context :: "context_item list"
  iv_input :: "u8 list"
  iv_streaming :: bool

record tool_call_proposal =
  pp_tool_id :: string
  pp_tool_version :: u32
  pp_arguments :: "u8 list"
  pp_expected_revision :: u64

datatype inference_event =
    IE_Progress u8
  | IE_StreamChunk u32 "u8 list" bool
  | IE_ToolCallProposed tool_call_proposal
  | IE_Completed "u8 list"
  | IE_Failed string

type_synonym provider = "inference_request \<Rightarrow> inference_event list"

section \<open>The registry\<close>

definition MAX_REGISTERED_TOOLS :: usize where "MAX_REGISTERED_TOOLS = 64"

datatype side_effect = ReadOnly | StateChanging

record tool_definition =
  td_id :: string
  td_version :: u32
  td_side_effect :: side_effect

datatype tool_rejection_reason = UnknownTool | StaleRevision | PolicyDenied

datatype tool_outcome =
    TO_Completed u64 "u8 list"
  | TO_Rejected tool_rejection_reason string

record tool_context =
  tx_connection :: connection_id
  tx_entity :: entity_id
  tx_space :: space_key
  tx_space_epoch :: space_epoch

record ('h, 's) tool_ops =
  to_definition :: "'h \<Rightarrow> tool_definition"
  to_invoke :: "'h \<Rightarrow> tool_context \<Rightarrow> tool_call_proposal \<Rightarrow> 's \<Rightarrow> tool_outcome \<times> 's"

datatype tool_registry_error = CapacityReached

type_synonym 'h tool_registry = "(string \<times> u32, 'h) btmap"

definition tool_register ::
  "('h, 's) tool_ops \<Rightarrow> 'h \<Rightarrow> 'h tool_registry \<Rightarrow> (tool_registry_error + unit) \<times> 'h tool_registry" where
  "tool_register ops handler tools =
     (if MAX_REGISTERED_TOOLS \<le> bt_len tools then (Inl CapacityReached, tools)
      else (Inr (), bt_insert (td_id (to_definition ops handler), td_version (to_definition ops handler))
        handler tools))"

definition tool_evaluate ::
  "('h, 's) tool_ops \<Rightarrow> 'h tool_registry \<Rightarrow> tool_context \<Rightarrow> tool_call_proposal \<Rightarrow> 's \<Rightarrow> tool_outcome \<times> 's" where
  "tool_evaluate ops tools ctx proposal s =
     (case bt_get tools (pp_tool_id proposal, pp_tool_version proposal) of
        None \<Rightarrow> (TO_Rejected UnknownTool (''no tool registered for '' @ pp_tool_id proposal @ ''@v''
          @ show_nat (unat (pp_tool_version proposal))), s)
      | Some handler \<Rightarrow> to_invoke ops handler ctx proposal s)"

section \<open>The demonstration tools\<close>

text \<open>The worker and the revision the status tool keeps.\<close>

record ('c, 'w) tool_state =
  ts_gateway :: "('c, 'w) gateway"
  ts_revision :: u64

definition publish_latest_value ::
  "('c, 'w) bridge_env \<Rightarrow> nat \<Rightarrow> tool_context \<Rightarrow> channel_id \<Rightarrow> u64 \<Rightarrow> u64 \<Rightarrow> u8 list \<Rightarrow> ('c, 'w) gateway
   \<Rightarrow> (string + unit) \<times> ('c, 'w) gateway" where
  "publish_latest_value env n ctx channel component seq payload_bytes g =
     (case execute env n (C_Publish \<lparr>pq_connection = tx_connection ctx,
        pq_session = spk_session (tx_space ctx), pq_space = spk_space (tx_space ctx),
        pq_space_epoch = tx_space_epoch ctx, pq_entity = Some (tx_entity ctx),
        pq_channel = channel, pq_sequence = seq, pq_delivery = LatestValue, pq_persistence = Stateful,
        pq_coalesce_key = Some (CoalesceKey channel (Some (tx_entity ctx)) component),
        pq_payload = payload_bytes\<rparr>) g of
        (Inr _, g') \<Rightarrow> (Inr (), g')
      | (Inl error, g') \<Rightarrow> (Inl (transport_error_string env error), g'))"

definition STATUS_COMPONENT :: u64 where "STATUS_COMPONENT = 1"

datatype demo_tool = DiagnosticTool | StatusUpdateTool channel_id

definition demo_tool_definition :: "demo_tool \<Rightarrow> tool_definition" where
  "demo_tool_definition tool = (case tool of
     DiagnosticTool \<Rightarrow> \<lparr>td_id = ''diagnostics.report'', td_version = 1, td_side_effect = ReadOnly\<rparr>
   | StatusUpdateTool _ \<Rightarrow> \<lparr>td_id = ''status.set'', td_version = 1, td_side_effect = StateChanging\<rparr>)"

text \<open>
  An invocation of the status tool checks the expected revision, publishes, and stores the new
  revision. Other invocations may come between the check and the rest.
\<close>

definition status_check :: "tool_call_proposal \<Rightarrow> ('c, 'w) tool_state \<Rightarrow> tool_outcome + u64" where
  "status_check proposal s =
     (let current = ts_revision s in
      if pp_expected_revision proposal \<noteq> current
      then Inl (TO_Rejected StaleRevision (''expected_revision '' @ show_nat (unat (pp_expected_revision proposal))
          @ '' does not match current revision '' @ show_nat (unat current)))
      else Inr (current + 1))"

definition status_apply ::
  "('c, 'w) bridge_env \<Rightarrow> nat \<Rightarrow> channel_id \<Rightarrow> tool_context \<Rightarrow> tool_call_proposal \<Rightarrow> u64 \<Rightarrow> ('c, 'w) tool_state
   \<Rightarrow> tool_outcome \<times> ('c, 'w) tool_state" where
  "status_apply env n channel ctx proposal new_revision s =
     (case publish_latest_value env n ctx channel STATUS_COMPONENT new_revision
             (pp_arguments proposal) (ts_gateway s) of
        (Inr _, g) \<Rightarrow> (TO_Completed new_revision (bytes_of_string ''status updated''),
           s\<lparr>ts_gateway := g, ts_revision := new_revision\<rparr>)
      | (Inl error, g) \<Rightarrow> (TO_Rejected PolicyDenied error, s\<lparr>ts_gateway := g\<rparr>))"

definition status_invoke ::
  "('c, 'w) bridge_env \<Rightarrow> nat \<Rightarrow> channel_id \<Rightarrow> tool_context \<Rightarrow> tool_call_proposal \<Rightarrow> ('c, 'w) tool_state
   \<Rightarrow> tool_outcome \<times> ('c, 'w) tool_state" where
  "status_invoke env n channel ctx proposal s = (case status_check proposal s of
     Inl outcome \<Rightarrow> (outcome, s)
   | Inr new_revision \<Rightarrow> status_apply env n channel ctx proposal new_revision s)"

definition demo_tool_invoke ::
  "('c, 'w) bridge_env \<Rightarrow> nat \<Rightarrow> demo_tool \<Rightarrow> tool_context \<Rightarrow> tool_call_proposal \<Rightarrow> ('c, 'w) tool_state
   \<Rightarrow> tool_outcome \<times> ('c, 'w) tool_state" where
  "demo_tool_invoke env n tool ctx proposal s = (case tool of
     DiagnosticTool \<Rightarrow> (TO_Completed 0 (bytes_of_string ''all systems nominal''), s)
   | StatusUpdateTool channel \<Rightarrow> status_invoke env n channel ctx proposal s)"

definition demo_tool_ops :: "('c, 'w) bridge_env \<Rightarrow> nat \<Rightarrow> (demo_tool, ('c, 'w) tool_state) tool_ops" where
  "demo_tool_ops env n = \<lparr>to_definition = demo_tool_definition, to_invoke = demo_tool_invoke env n\<rparr>"

section \<open>What a proposal can do\<close>

text \<open>A proposal for a tool that is not registered changes nothing.\<close>

lemma unknown_tool_changes_nothing:
  "bt_get tools (pp_tool_id p, pp_tool_version p) = None \<Longrightarrow>
     \<exists>reason. tool_evaluate ops tools x p s = (TO_Rejected UnknownTool reason, s)"
  by (simp add: tool_evaluate_def)

lemma registry_bounded:
  assumes "bt_len tools \<le> MAX_REGISTERED_TOOLS"
  shows "bt_len (snd (tool_register ops h tools)) \<le> MAX_REGISTERED_TOOLS"
  using assms by (simp add: tool_register_def bt_len_insert)

lemma registered_tool_is_found:
  assumes "tool_register ops h tools = (Inr (), tools')"
  shows "bt_get tools' k = (if k = (td_id (to_definition ops h), td_version (to_definition ops h))
    then Some h else bt_get tools k)"
  using assms by (auto simp: tool_register_def bt_get_insert split: if_splits)

end
