(* ===== verification/Inference.thy ===== *)
theory Inference
  imports InferenceTools
begin

text \<open>
  \<^verbatim>\<open>woven-inference-coordinator/src/lib.rs\<close>: the plane that holds one connection for an AI identity,
  accepts inference requests up to a bound and plays a provider's events back to the requester.

  A request in flight is a task of its own. Its turns are the function \<open>run_events\<close>; what other tasks
  and connections do between its calls of the worker is the interference of the bridge. The reading
  of the clock before the \<open>i\<close>-th event is \<open>now i\<close>.
\<close>

record ai_identity =
  ai_token :: string
  ai_namespace :: namespace_id
  ai_session :: session_id
  ai_space :: space_id
  ai_space_epoch :: space_epoch
  ai_status_channel :: channel_id

definition ai_session_key :: "ai_identity \<Rightarrow> session_key" where
  "ai_session_key identity = SessionKey (ai_namespace identity) (ai_session identity)"

definition ai_space_key :: "ai_identity \<Rightarrow> space_key" where
  "ai_space_key identity = SpaceKey (ai_session_key identity) (ai_space identity)"

datatype coordinator_error = SetupFailed

definition DEFAULT_DEADLINE :: duration where "DEFAULT_DEADLINE = duration_from_secs 10"

section \<open>The identity's connection\<close>

definition establish_identity ::
  "('c, 'w) bridge_env \<Rightarrow> ai_identity \<Rightarrow> ('c, 'w) gateway
   \<Rightarrow> (coordinator_error + connection_id \<times> entity_id) \<times> ('c, 'w) gateway" where
  "establish_identity env identity g =
     (case execute env 0 C_TransportConnected g of
        (Inr (R_Connected connection), g1) \<Rightarrow>
          (case execute env 1 (C_Authenticate connection \<lparr>cr_token = ai_token identity\<rparr>) g1 of
             (Inr (R_Authenticated _), g2) \<Rightarrow>
               (case execute env 2 (C_JoinSession connection (ai_session_key identity)) g2 of
                  (Inr R_Joined, g3) \<Rightarrow>
                    (case subscribe_and_spawn env 3 connection (ai_space_key identity) (ai_space_epoch identity) g3 of
                       (Inr entity, g4) \<Rightarrow> (Inr (connection, entity), g4)
                     | (Inl _, g4) \<Rightarrow> (Inl SetupFailed, g4))
                | (_, g3) \<Rightarrow> (Inl SetupFailed, g3))
           | (_, g2) \<Rightarrow> (Inl SetupFailed, g2))
      | (_, g1) \<Rightarrow> (Inl SetupFailed, g1))"

text \<open>One tick of the identity's drain; the messages are dropped. Whether the task goes on.\<close>

definition ai_drain_tick ::
  "('c, 'w) bridge_env \<Rightarrow> nat \<Rightarrow> connection_id \<Rightarrow> ('c, 'w) gateway \<Rightarrow> bool \<times> ('c, 'w) gateway" where
  "ai_drain_tick env n connection g =
     map_prod is_ok id (execute env n (C_DrainOutbound connection) g)"

section \<open>Replies\<close>

definition delivery_class_for :: "control_payload \<Rightarrow> wire_delivery" where
  "delivery_class_for payload = (case payload of
     InferenceProgress _ \<Rightarrow> PD_BestEffortEvent
   | InferenceStreamChunk _ \<Rightarrow> PD_BestEffortEvent
   | _ \<Rightarrow> PD_ReliableOrdered)"

definition reply_envelope :: "envelope \<Rightarrow> entity_id \<Rightarrow> control_payload \<Rightarrow> envelope" where
  "reply_envelope source ai_entity payload =
     \<lparr>ev_protocol_version = PROTOCOL_VERSION, ev_delivery_class = delivery_class_for payload,
      ev_namespace_id = ev_namespace_id source, ev_session_id = ev_session_id source,
      ev_space_id = ev_space_id source, ev_channel_id = None, ev_entity_id = Some ai_entity,
      ev_space_epoch = ev_space_epoch source, ev_server_tick = 0, ev_sender_sequence = 0,
      ev_correlation_id = ev_correlation_id source, ev_message = Control payload\<rparr>"

definition map_rejection_code :: "tool_rejection_reason \<Rightarrow> tool_call_rejection_code" where
  "map_rejection_code reason = (case reason of
     UnknownTool \<Rightarrow> TR_InvalidArguments
   | StaleRevision \<Rightarrow> TR_Stale
   | PolicyDenied \<Rightarrow> TR_PolicyDenied)"

definition send_to_connection ::
  "('c, 'w) bridge_env \<Rightarrow> nat \<Rightarrow> connection_id \<Rightarrow> envelope \<Rightarrow> ('c, 'w) gateway \<Rightarrow> ('c, 'w) gateway" where
  "send_to_connection env n connection e g = snd (ask env n (WR_SendToConnection connection e) g)"

definition broadcast_to_space ::
  "('c, 'w) bridge_env \<Rightarrow> nat \<Rightarrow> space_key \<Rightarrow> envelope \<Rightarrow> connection_id option \<Rightarrow> ('c, 'w) gateway \<Rightarrow> ('c, 'w) gateway"
where
  "broadcast_to_space env n space e excluded g = snd (ask env n (WR_BroadcastToSpace space e excluded) g)"

section \<open>Tool calls\<close>

text \<open>
  \<open>evaluate\<close> is the registry's evaluation in the state of the worker and the tools; the broadcasts
  act on the worker in it.
\<close>

definition handle_tool_call ::
  "('c, 'w) bridge_env \<Rightarrow> nat \<Rightarrow> (tool_context \<Rightarrow> tool_call_proposal \<Rightarrow> ('c, 'w) tool_state \<Rightarrow> tool_outcome \<times> ('c, 'w) tool_state)
   \<Rightarrow> ai_identity \<Rightarrow> connection_id \<Rightarrow> entity_id \<Rightarrow> envelope \<Rightarrow> tool_call_proposal
   \<Rightarrow> ('c, 'w) tool_state \<Rightarrow> ('c, 'w) tool_state" where
  "handle_tool_call env n evaluate identity ai_connection ai_entity source proposal s =
     (let space = ai_space_key identity;
          say = (\<lambda>i payload s'. s'\<lparr>ts_gateway := broadcast_to_space env (n + i) space
            (reply_envelope source ai_entity payload) None (ts_gateway s')\<rparr>);
          s1 = say 0 (ToolCallProposed \<lparr>tp_tool_id = pp_tool_id proposal, tp_tool_version = pp_tool_version proposal,
            tp_arguments = pp_arguments proposal, tp_expected_revision = pp_expected_revision proposal\<rparr>) s;
          ctx = \<lparr>tx_connection = ai_connection, tx_entity = ai_entity, tx_space = space,
            tx_space_epoch = ai_space_epoch identity\<rparr>
      in case evaluate ctx proposal s1 of
           (TO_Completed new_revision result, s2) \<Rightarrow>
             say 3 (ToolCallCompleted \<lparr>tc_new_revision = new_revision, tc_result = result\<rparr>)
               (say 2 (ToolCallAccepted (pp_tool_id proposal)) s2)
         | (TO_Rejected code reason, s2) \<Rightarrow>
             say 2 (ToolCallRejected \<lparr>tj_code = map_rejection_code code, tj_reason = reason\<rparr>) s2)"

section \<open>A request\<close>

definition inference_deadline :: "instant \<Rightarrow> u64 \<Rightarrow> instant" where
  "inference_deadline start deadline_ms =
     start + (if deadline_ms = 0 then DEFAULT_DEADLINE else unat deadline_ms * 1000000)"

definition inference_request_of :: "inference_requested \<Rightarrow> entity_id \<Rightarrow> instant \<Rightarrow> inference_request" where
  "inference_request_of request ai_entity due =
     \<lparr>iv_capability = iq_capability request, iv_principal = 1, iv_acting_entity = ai_entity,
      iv_deadline = due, iv_cancelled = cancellation_new, iv_context = [],
      iv_input = iq_input request, iv_streaming = True\<rparr>"

text \<open>What an event is answered with, but for tool calls.\<close>

fun event_reply :: "inference_event \<Rightarrow> control_payload option" where
  "event_reply (IE_Progress percent) = Some (InferenceProgress percent)"
| "event_reply (IE_StreamChunk seq chunk is_final) =
     Some (InferenceStreamChunk \<lparr>ic_sequence = seq, ic_chunk = chunk, ic_is_final = is_final\<rparr>)"
| "event_reply (IE_ToolCallProposed _) = None"
| "event_reply (IE_Completed result) = Some (InferenceCompleted result)"
| "event_reply (IE_Failed reason) = Some (InferenceFailed reason)"

text \<open>An event calls the worker at most four times.\<close>

fun run_events ::
  "('c, 'w) bridge_env \<Rightarrow> nat \<Rightarrow> (nat \<Rightarrow> instant)
   \<Rightarrow> (nat \<Rightarrow> tool_context \<Rightarrow> tool_call_proposal \<Rightarrow> ('c, 'w) tool_state \<Rightarrow> tool_outcome \<times> ('c, 'w) tool_state)
   \<Rightarrow> ai_identity \<Rightarrow> connection_id \<Rightarrow> entity_id \<Rightarrow> connection_id \<Rightarrow> envelope \<Rightarrow> instant \<Rightarrow> inference_event list
   \<Rightarrow> ('c, 'w) tool_state \<Rightarrow> ('c, 'w) tool_state" where
  "run_events env n now evaluate identity ai_connection ai_entity requester source due [] s = s"
| "run_events env n now evaluate identity ai_connection ai_entity requester source due (event # events) s =
     (let reply = (\<lambda>payload s'. s'\<lparr>ts_gateway := send_to_connection env n requester
            (reply_envelope source ai_entity payload) (ts_gateway s')\<rparr>) in
      if due < now n
      then reply (InferenceExpired ''deadline passed before delivery'') s
      else run_events env (n + 4) now evaluate identity ai_connection ai_entity requester source due events
        (case event of
           IE_ToolCallProposed proposal \<Rightarrow>
             handle_tool_call env n (evaluate (n + 1)) identity ai_connection ai_entity source proposal s
         | _ \<Rightarrow> (case event_reply event of None \<Rightarrow> s | Some payload \<Rightarrow> reply payload s)))"

definition run_inference ::
  "('c, 'w) bridge_env \<Rightarrow> nat \<Rightarrow> (nat \<Rightarrow> instant)
   \<Rightarrow> (nat \<Rightarrow> tool_context \<Rightarrow> tool_call_proposal \<Rightarrow> ('c, 'w) tool_state \<Rightarrow> tool_outcome \<times> ('c, 'w) tool_state)
   \<Rightarrow> provider \<Rightarrow> ai_identity \<Rightarrow> connection_id \<Rightarrow> entity_id \<Rightarrow> connection_id \<Rightarrow> envelope \<Rightarrow> inference_requested
   \<Rightarrow> ('c, 'w) tool_state \<Rightarrow> ('c, 'w) tool_state" where
  "run_inference env n now evaluate run identity ai_connection ai_entity requester source request s =
     (let due = inference_deadline (now n) (iq_deadline_ms request) in
      run_events env (n + 1) now evaluate identity ai_connection ai_entity requester source due
        (run (inference_request_of request ai_entity due)) s)"

section \<open>The loop\<close>

text \<open>The permits of the semaphore that are out.\<close>

record coordinator =
  ic_queue_capacity :: usize
  ic_in_flight :: usize

definition coordinator_new :: "usize \<Rightarrow> coordinator" where
  "coordinator_new queue_capacity = \<lparr>ic_queue_capacity = max queue_capacity 1, ic_in_flight = 0\<rparr>"

text \<open>One unrouted envelope; the task it starts, if it is accepted.\<close>

definition accept_or_reject ::
  "('c, 'w) bridge_env \<Rightarrow> nat \<Rightarrow> entity_id \<Rightarrow> connection_id \<Rightarrow> envelope \<Rightarrow> coordinator \<Rightarrow> ('c, 'w) gateway
   \<Rightarrow> inference_requested option \<times> coordinator \<times> ('c, 'w) gateway" where
  "accept_or_reject env n ai_entity requester e c g = (case ev_message e of
     Control (InferenceRequested request) \<Rightarrow>
       if ic_in_flight c < ic_queue_capacity c
       then (Some request, c\<lparr>ic_in_flight := ic_in_flight c + 1\<rparr>,
         send_to_connection env n requester (reply_envelope e ai_entity (InferenceAccepted 0)) g)
       else (None, c, send_to_connection env n requester
         (reply_envelope e ai_entity (InferenceFailed ''inference provider queue is full'')) g)
   | _ \<Rightarrow> (None, c, g))"

definition task_ended :: "coordinator \<Rightarrow> coordinator" where
  "task_ended c = c\<lparr>ic_in_flight := ic_in_flight c - 1\<rparr>"

text \<open>\<^verbatim>\<open>run_loop\<close> passes only requests on: a cancellation is received and ignored.\<close>

definition coordinator_receive ::
  "('c, 'w) bridge_env \<Rightarrow> nat \<Rightarrow> entity_id \<Rightarrow> connection_id \<Rightarrow> envelope \<Rightarrow> coordinator \<Rightarrow> ('c, 'w) gateway
   \<Rightarrow> inference_requested option \<times> coordinator \<times> ('c, 'w) gateway" where
  "coordinator_receive env n ai_entity requester e c g = (case ev_message e of
     Control (InferenceRequested _) \<Rightarrow> accept_or_reject env n ai_entity requester e c g
   | _ \<Rightarrow> (None, c, g))"

end
