(* ===== verification/TestProvider.thy ===== *)
theory TestProvider
  imports Inference
begin

text \<open>
  \<^verbatim>\<open>woven-inference-test-provider/src/lib.rs\<close>: the scripted provider of the development server, with
  \<^verbatim>\<open>String::from_utf8_lossy\<close> and \<^verbatim>\<open>str::trim\<close> of the standard library.
\<close>

section \<open>Lossy UTF-8\<close>

definition replacement :: "u8 list" where "replacement = [0xEF, 0xBF, 0xBD]"

text \<open>The second bytes that may follow a first byte of three or four.\<close>

definition utf8_second3 :: "u8 \<Rightarrow> u8 \<Rightarrow> bool" where
  "utf8_second3 b c \<longleftrightarrow> utf8_tail c \<and> (b = 0xE0 \<longrightarrow> 0xA0 \<le> c) \<and> (b = 0xED \<longrightarrow> c \<le> 0x9F)"

definition utf8_second4 :: "u8 \<Rightarrow> u8 \<Rightarrow> bool" where
  "utf8_second4 b c \<longleftrightarrow> utf8_tail c \<and> (b = 0xF0 \<longrightarrow> 0x90 \<le> c) \<and> (b = 0xF4 \<longrightarrow> c \<le> 0x8F)"

text \<open>
  How many bytes the next character takes, or the longest beginning of a character that the next
  byte breaks off, which is replaced as a whole.
\<close>

definition utf8_next :: "u8 \<Rightarrow> u8 list \<Rightarrow> bool \<times> nat" where
  "utf8_next b bs =
     (let at = (\<lambda>i P. i < length bs \<and> P (bs ! i)) in
      if b < 0x80 then (True, 1)
      else if 0xC2 \<le> b \<and> b \<le> 0xDF then (if at 0 utf8_tail then (True, 2) else (False, 1))
      else if 0xE0 \<le> b \<and> b \<le> 0xEF
      then (if \<not> at 0 (utf8_second3 b) then (False, 1) else if at 1 utf8_tail then (True, 3) else (False, 2))
      else if 0xF0 \<le> b \<and> b \<le> 0xF4
      then (if \<not> at 0 (utf8_second4 b) then (False, 1) else if \<not> at 1 utf8_tail then (False, 2)
        else if at 2 utf8_tail then (True, 4) else (False, 3))
      else (False, 1))"

lemma utf8_next_pos: "utf8_next b bs = (ok, n) \<Longrightarrow> 0 < n"
  by (auto simp: utf8_next_def Let_def split: if_splits)

function from_utf8_lossy :: "u8 list \<Rightarrow> u8 list" where
  "from_utf8_lossy [] = []"
| "from_utf8_lossy (b # bs) = (case utf8_next b bs of
     (True, n) \<Rightarrow> take n (b # bs) @ from_utf8_lossy (drop n (b # bs))
   | (False, n) \<Rightarrow> replacement @ from_utf8_lossy (drop n (b # bs)))"
  by pat_completeness auto
termination
proof (relation "measure length")
  show "\<And>b bs x n. (x, n) = utf8_next b bs \<Longrightarrow> x = True \<Longrightarrow> (drop n (b # bs), b # bs) \<in> measure length"
    using utf8_next_pos by (metis diff_less in_measure length_drop length_greater_0_conv list.distinct(1))
  show "\<And>b bs x n. (x, n) = utf8_next b bs \<Longrightarrow> x = False \<Longrightarrow> (drop n (b # bs), b # bs) \<in> measure length"
    using utf8_next_pos by (metis diff_less in_measure length_drop length_greater_0_conv list.distinct(1))
qed simp

section \<open>Trimming\<close>

text \<open>The UTF-8 forms of the characters with the property \<^verbatim>\<open>White_Space\<close>.\<close>

definition white_space :: "u8 list list" where
  "white_space = [[9], [10], [11], [12], [13], [32], [0xC2, 0x85], [0xC2, 0xA0], [0xE1, 0x9A, 0x80]]
     @ map (\<lambda>b. [0xE2, 0x80, b]) [0x80, 0x81, 0x82, 0x83, 0x84, 0x85, 0x86, 0x87, 0x88, 0x89, 0x8A, 0xA8, 0xA9, 0xAF]
     @ [[0xE2, 0x81, 0x9F], [0xE3, 0x80, 0x80]]"

definition is_prefix :: "'a list \<Rightarrow> 'a list \<Rightarrow> bool" where
  "is_prefix xs ys \<longleftrightarrow> take (length xs) ys = xs"

function trim_from :: "u8 list list \<Rightarrow> u8 list \<Rightarrow> u8 list" where
  "trim_from ws bs = (case find (\<lambda>w. w \<noteq> [] \<and> is_prefix w bs) ws of
     None \<Rightarrow> bs
   | Some w \<Rightarrow> trim_from ws (drop (length w) bs))"
  by pat_completeness auto
termination
proof (relation "measure (length \<circ> snd)")
  fix ws :: "u8 list list" and bs w
  assume "find (\<lambda>w. w \<noteq> [] \<and> is_prefix w bs) ws = Some w"
  then have "w \<noteq> []" "take (length w) bs = w" by (auto simp: find_Some_iff is_prefix_def)
  then have "0 < length w" "0 < length bs" by (cases bs, auto)
  then show "((ws, drop (length w) bs), ws, bs) \<in> measure (length \<circ> snd)" by simp
qed simp

declare trim_from.simps [simp del]

definition trim_bytes :: "u8 list \<Rightarrow> u8 list" where
  "trim_bytes bs = rev (trim_from (map rev white_space) (rev (trim_from white_space bs)))"

section \<open>The script\<close>

definition TRIGGER_DIAGNOSTIC :: string where "TRIGGER_DIAGNOSTIC = ''diagnostics''"
definition TRIGGER_STALE_STATUS_UPDATE :: string where "TRIGGER_STALE_STATUS_UPDATE = ''stale-status-update''"
definition TRIGGER_STATUS_UPDATE :: string where "TRIGGER_STATUS_UPDATE = ''status-update''"

definition deterministic_descriptor :: provider_descriptor where
  "deterministic_descriptor = \<lparr>pd_capability = ''language.dialogue'', pd_locality = LocalProvider,
     pd_privacy = PublicData, pd_modalities = [''text''], pd_supports_streaming = True,
     pd_max_context_items = 16, pd_max_concurrency = 4, pd_latency_class = Interactive,
     pd_cost_class = FreeCost, pd_quality_tier = BasicQuality\<rparr>"

definition deterministic_run :: provider where
  "deterministic_run request =
     (let input = string_of_bytes (trim_bytes (from_utf8_lossy (iv_input request))) in
      if input = TRIGGER_DIAGNOSTIC
      then [IE_StreamChunk 1 (bytes_of_string ''checking systems...'') True,
        IE_ToolCallProposed \<lparr>pp_tool_id = ''diagnostics.report'', pp_tool_version = 1,
          pp_arguments = bytes_of_string ''{}'', pp_expected_revision = 0\<rparr>,
        IE_Completed (bytes_of_string ''all systems nominal'')]
      else if input = TRIGGER_STALE_STATUS_UPDATE
      then [IE_ToolCallProposed \<lparr>pp_tool_id = ''status.set'', pp_tool_version = 1,
          pp_arguments = bytes_of_string ''{\"level\":\"critical\"}'', pp_expected_revision = 0\<rparr>,
        IE_Completed (bytes_of_string ''attempted status update'')]
      else if input = TRIGGER_STATUS_UPDATE
      then [IE_ToolCallProposed \<lparr>pp_tool_id = ''status.set'', pp_tool_version = 1,
          pp_arguments = bytes_of_string ''{\"level\":\"nominal\"}'', pp_expected_revision = 1\<rparr>,
        IE_Completed (bytes_of_string ''status updated'')]
      else [IE_Completed (bytes_of_string (''heard: '' @ input))])"

end
