(* ===== verification/InferenceProps.thy ===== *)
theory InferenceProps
  imports TestProvider SessionProps
begin

text \<open>
  Properties of the inference plane: it acts on the core only as its connection may, and what it
  sends is valid in the protocol as long as its provider keeps to the ranges of the protocol.
\<close>

section \<open>The interfaces\<close>

text \<open>What the plane relies on in a tool handler, or in the evaluation of a registry: it acts on the worker by requests.\<close>

locale tool_handler =
  fixes invoke :: "('c, 'w) bridge_env \<Rightarrow> nat \<Rightarrow> tool_context \<Rightarrow> tool_call_proposal \<Rightarrow> ('c, 'w) tool_state
    \<Rightarrow> tool_outcome \<times> ('c, 'w) tool_state"
  assumes invoke_reaches: "(\<And>n g. core_reaches (gw_core g) (gw_core (be_others env n g))) \<Longrightarrow>
    core_reaches (gw_core (ts_gateway s)) (gw_core (ts_gateway (snd (invoke env n x p s))))"
begin

lemma handle_tool_call_reaches:
  fixes env :: "('c, 'w) bridge_env"
  assumes "\<And>n g. core_reaches (gw_core g) (gw_core (be_others env n g))"
  shows "core_reaches (gw_core (ts_gateway s))
    (gw_core (ts_gateway (handle_tool_call env n (invoke env m) identity aic aie source p s)))"
proof -
  have say: "core_reaches (gw_core (ts_gateway s)) (gw_core (broadcast_to_space env i space e excluded (ts_gateway s)))"
    for i space e excluded and s :: "('c, 'w) tool_state"
    using core_reaches_ask [where env = env, OF assms] by (simp add: broadcast_to_space_def)
  show ?thesis
    unfolding handle_tool_call_def Let_def
    using say invoke_reaches [where env = env, OF assms]
    by (auto split: prod.split tool_outcome.split)
      (metis (no_types, lifting) core_reaches_trans say snd_conv tool_state.select_convs(1) tool_state.surjective
        tool_state.update_convs(1))+
qed

lemma run_events_reaches:
  fixes env :: "('c, 'w) bridge_env"
  assumes "\<And>n g. core_reaches (gw_core g) (gw_core (be_others env n g))"
  shows "core_reaches (gw_core (ts_gateway s))
    (gw_core (ts_gateway (run_events env n now (invoke env) identity aic aie requester source due events s)))"
proof (induction events arbitrary: n s)
  case (Cons event events)
  have reply: "core_reaches (gw_core g) (gw_core (send_to_connection env n requester e g))" for e and g :: "('c, 'w) gateway"
    using core_reaches_ask [where env = env, OF assms] by (simp add: send_to_connection_def)
  show ?case
    using reply core_reaches_trans [OF _ Cons.IH] handle_tool_call_reaches [where env = env, OF assms]
    by (cases event) (simp_all add: Let_def)
qed simp

end

text \<open>
  What the documentation of \<^verbatim>\<open>Provider\<close> promises of a response, the ranges of the protocol, and the
  payload limit of the codec. The margin of a tool call is for the text of a rejection, which names
  the tool.
\<close>

definition payload_limit :: usize where
  "payload_limit = cl_max_payload_len codec_limits_default"

lemma payload_limit_eq: "payload_limit = 262144"
  by (simp add: payload_limit_def codec_limits_default_def)

fun event_in_range :: "inference_event \<Rightarrow> bool" where
  "event_in_range (IE_Progress percent) \<longleftrightarrow> percent \<le> 100"
| "event_in_range (IE_StreamChunk _ chunk _) \<longleftrightarrow> length chunk \<le> payload_limit"
| "event_in_range (IE_ToolCallProposed p) \<longleftrightarrow> pp_tool_id p \<noteq> [] \<and> pp_tool_version p \<noteq> 0
     \<and> length (pp_tool_id p) + length (pp_arguments p) + 64 \<le> payload_limit"
| "event_in_range (IE_Completed result) \<longleftrightarrow> length result \<le> payload_limit"
| "event_in_range (IE_Failed reason) \<longleftrightarrow> reason \<noteq> [] \<and> length reason \<le> payload_limit"

fun is_terminal :: "inference_event \<Rightarrow> bool" where
  "is_terminal (IE_Completed _) \<longleftrightarrow> True"
| "is_terminal (IE_Failed _) \<longleftrightarrow> True"
| "is_terminal _ \<longleftrightarrow> False"

text \<open>A provider that keeps to them for every input up to a size.\<close>

locale ranged_provider =
  fixes run :: provider and bound :: usize
  assumes run_in_range: "length (iv_input request) \<le> bound \<Longrightarrow> event \<in> set (run request) \<Longrightarrow> event_in_range event"
    and run_terminates: "\<exists>events last. run request = events @ [last] \<and> is_terminal last
      \<and> (\<forall>event\<in>set events. \<not> is_terminal event)"

text \<open>
  A handler that leaves the channels alone (what it does reaches clients through the core only) and
  whose answer to a call in range fits a payload, as long as the texts of the core's errors do.
\<close>

definition short_errors :: "('c, 'w) bridge_env \<Rightarrow> bool" where
  "short_errors env \<longleftrightarrow> (\<forall>error. length (be_render_error env error) + 64 \<le> payload_limit)"

fun outcome_fits :: "tool_outcome \<Rightarrow> bool" where
  "outcome_fits (TO_Completed _ result) \<longleftrightarrow> length result \<le> payload_limit"
| "outcome_fits (TO_Rejected _ reason) \<longleftrightarrow> length reason \<le> payload_limit"

locale silent_tool_handler = tool_handler +
  assumes invoke_silent: "(\<And>n g. be_others env n g = g) \<Longrightarrow>
    gw_world (ts_gateway (snd (invoke env n x p s))) = gw_world (ts_gateway s)"
    and invoke_fits: "short_errors env \<Longrightarrow> event_in_range (IE_ToolCallProposed p) \<Longrightarrow>
      outcome_fits (fst (invoke env n x p s))"

section \<open>What is sent\<close>

definition sends_valid :: "(nat, (nat \<times> envelope) list) gateway \<Rightarrow> (nat, (nat \<times> envelope) list) gateway \<Rightarrow> bool" where
  "sends_valid g g' \<longleftrightarrow> (\<exists>sent. gw_world g' = gw_world g @ sent \<and> (\<forall>p\<in>set sent. validate_outbound codec_limits_default (snd p) = Inr ()))"

lemma sends_valid_refl [simp]: "sends_valid g g"
  by (simp add: sends_valid_def)

lemma sends_valid_world: "gw_world g' = gw_world g \<Longrightarrow> sends_valid g g'"
  by (simp add: sends_valid_def)

lemma sends_valid_trans [trans]: "sends_valid a b \<Longrightarrow> sends_valid b c \<Longrightarrow> sends_valid a c"
  by (auto simp: sends_valid_def)

definition accepting :: "(nat, (nat \<times> envelope) list) bridge_env \<Rightarrow> bool" where
  "accepting env \<longleftrightarrow> be_ops env = log_ops (\<lambda>_ _. True) \<and> (\<forall>n g. be_others env n g = g)"

lemma send_to_connection_valid:
  "accepting env \<Longrightarrow> validate_outbound codec_limits_default e = Inr () \<Longrightarrow> sends_valid g (send_to_connection env n x e g)"
  by (cases "bt_get (gw_recipients g) x")
    (auto simp: accepting_def send_to_connection_def ask_def deliver_to_connection_def log_ops_def sends_valid_def)

lemma broadcast_valid:
  assumes "accepting env" "validate_outbound codec_limits_default e = Inr ()"
  shows "sends_valid g (broadcast_to_space env n space e excluded g)"
proof -
  have "broadcast_to_space env n space e excluded g = g\<lparr>gw_world := gw_world g @ announced space e excluded g\<rparr>"
    using assms(1) by (simp add: accepting_def broadcast_to_space_def ask_def distribute_accepted)
  moreover have "\<forall>p\<in>set (announced space e excluded g). snd p = e"
    by (auto simp: announced_def split: option.splits)
  ultimately show ?thesis using assms(2) by (auto simp: sends_valid_def)
qed

text \<open>A reply to a valid request is valid when its payload is in range.\<close>

fun payload_in_range :: "control_payload \<Rightarrow> bool" where
  "payload_in_range (InferenceAccepted _) \<longleftrightarrow> True"
| "payload_in_range (InferenceProgress percent) \<longleftrightarrow> percent \<le> 100"
| "payload_in_range (InferenceStreamChunk _) \<longleftrightarrow> True"
| "payload_in_range (InferenceCompleted _) \<longleftrightarrow> True"
| "payload_in_range (InferenceFailed reason) \<longleftrightarrow> reason \<noteq> []"
| "payload_in_range (InferenceExpired _) \<longleftrightarrow> True"
| "payload_in_range (ToolCallProposed p) \<longleftrightarrow> tp_tool_id p \<noteq> [] \<and> tp_tool_version p \<noteq> 0"
| "payload_in_range (ToolCallAccepted tool_id) \<longleftrightarrow> tool_id \<noteq> []"
| "payload_in_range (ToolCallRejected r) \<longleftrightarrow> tj_code r \<noteq> TR_Unknown"
| "payload_in_range (ToolCallCompleted _) \<longleftrightarrow> True"
| "payload_in_range _ \<longleftrightarrow> False"

definition inference_source :: "envelope \<Rightarrow> bool" where
  "inference_source e \<longleftrightarrow> validate_envelope e = Inr () \<and> (\<exists>request. ev_message e = Control (InferenceRequested request))"

lemma inference_source_scope:
  assumes "inference_source e"
  shows "ev_namespace_id e \<noteq> 0 \<and> ev_session_id e \<noteq> 0 \<and> ev_space_id e \<noteq> 0 \<and> ev_space_epoch e \<noteq> 0
    \<and> ev_correlation_id e \<noteq> Some 0"
  using assms
  by (auto simp: inference_source_def validate_envelope_ok validate_control_def validate_inference_control_def
      and_then_eq_Inr scope_ok)

lemma reply_valid:
  assumes "inference_source e" "entity \<noteq> 0" "payload_in_range payload" "variable_len payload \<le> payload_limit"
  shows "validate_outbound codec_limits_default (reply_envelope e entity payload) = Inr ()"
  using assms(2-4) inference_source_scope [OF assms(1)]
  by (cases payload)
    (auto simp: validate_outbound_ok payload_limit_def validate_envelope_ok reply_envelope_def scope_ok ev_message_kind_def delivery_class_for_def
      delivery_fits_def validate_control_def validate_inference_control_def and_then_eq_Inr
      validate_tool_call_proposed_def)

lemma map_rejection_code_known [simp]: "map_rejection_code r \<noteq> TR_Unknown"
  by (cases r) (simp_all add: map_rejection_code_def)

locale logged_tool_handler = silent_tool_handler invoke
  for invoke :: "(nat, (nat \<times> envelope) list) bridge_env \<Rightarrow> nat \<Rightarrow> tool_context \<Rightarrow> tool_call_proposal
    \<Rightarrow> (nat, (nat \<times> envelope) list) tool_state \<Rightarrow> tool_outcome \<times> (nat, (nat \<times> envelope) list) tool_state"
begin

lemma handle_tool_call_valid:
  assumes "accepting env" "inference_source e" "entity \<noteq> 0" "short_errors env" "event_in_range (IE_ToolCallProposed p)"
  shows "sends_valid (ts_gateway s) (ts_gateway (handle_tool_call env n (invoke env m) identity aic entity e p s))"
proof -
  let ?say = "\<lambda>i payload s'. s'\<lparr>ts_gateway := broadcast_to_space env (n + i) (ai_space_key identity)
    (reply_envelope e entity payload) None (ts_gateway s')\<rparr>"
  have say: "sends_valid g (ts_gateway s') \<Longrightarrow> payload_in_range payload \<Longrightarrow> variable_len payload \<le> payload_limit \<Longrightarrow> sends_valid g (ts_gateway (?say i payload s'))"
    for g i payload and s' :: "(nat, (nat \<times> envelope) list) tool_state"
    using broadcast_valid [OF assms(1) reply_valid [OF assms(2,3)]] sends_valid_trans by simp
  have inv: "sends_valid g (ts_gateway s') \<Longrightarrow> sends_valid g (ts_gateway (snd (invoke env m x p s')))"
    for g x and s' :: "(nat, (nat \<times> envelope) list) tool_state"
    using assms(1) sends_valid_trans [OF _ sends_valid_world [OF invoke_silent]] by (simp add: accepting_def)
  define s1 where "s1 = ?say 0 (ToolCallProposed \<lparr>tp_tool_id = pp_tool_id p, tp_tool_version = pp_tool_version p,
    tp_arguments = pp_arguments p, tp_expected_revision = pp_expected_revision p\<rparr>) s"
  define x where "x = \<lparr>tx_connection = aic, tx_entity = entity, tx_space = ai_space_key identity,
    tx_space_epoch = ai_space_epoch identity\<rparr>"
  obtain outcome s2 where o: "invoke env m x p s1 = (outcome, s2)" by force
  have p: "pp_tool_id p \<noteq> []" "pp_tool_version p \<noteq> 0" "length (pp_tool_id p) \<le> payload_limit"
    "usize_saturating_add (length (pp_tool_id p)) (length (pp_arguments p)) \<le> payload_limit"
    using assms(5) by (auto simp: usize_saturating_add_def)
  have fits: "outcome_fits outcome" using invoke_fits [OF assms(4,5), of m x s1] o by simp
  have "sends_valid (ts_gateway s) (ts_gateway s1)" unfolding s1_def by (rule say) (simp_all add: p)
  then have 2: "sends_valid (ts_gateway s) (ts_gateway s2)" using inv [of _ s1 x] o by simp
  have "handle_tool_call env n (invoke env m) identity aic entity e p s = (case outcome of
      TO_Completed v result \<Rightarrow> ?say 3 (ToolCallCompleted \<lparr>tc_new_revision = v, tc_result = result\<rparr>)
        (?say 2 (ToolCallAccepted (pp_tool_id p)) s2)
    | TO_Rejected code reason \<Rightarrow> ?say 2 (ToolCallRejected \<lparr>tj_code = map_rejection_code code, tj_reason = reason\<rparr>) s2)"
    using o by (simp add: handle_tool_call_def Let_def s1_def x_def)
  moreover have "sends_valid (ts_gateway s) (ts_gateway (?say 3 (ToolCallCompleted c) (?say 2 (ToolCallAccepted (pp_tool_id p)) s2)))"
    if "length (tc_result c) \<le> payload_limit" for c
    by (rule say, rule say, rule 2) (simp_all add: p that)
  moreover have "sends_valid (ts_gateway s) (ts_gateway (?say 2 (ToolCallRejected \<lparr>tj_code = map_rejection_code code, tj_reason = reason\<rparr>) s2))"
    if "length reason \<le> payload_limit" for code reason by (rule say, rule 2) (simp_all add: that)
  ultimately show ?thesis using fits by (cases outcome) (simp_all del: tool_state.simps)
qed

lemma run_events_valid:
  assumes "accepting env" "inference_source e" "entity \<noteq> 0" "short_errors env" "\<forall>event\<in>set events. event_in_range event"
  shows "sends_valid (ts_gateway s)
    (ts_gateway (run_events env n now (invoke env) identity aic entity requester e due events s))"
  using assms(5)
proof (induction events arbitrary: n s)
  case (Cons event events)
  have reply: "payload_in_range payload \<Longrightarrow> variable_len payload \<le> payload_limit \<Longrightarrow>
      sends_valid g (send_to_connection env n requester (reply_envelope e entity payload) g)" for payload g n
    by (rule send_to_connection_valid [OF assms(1) reply_valid [OF assms(2,3)]])
  show ?case
    using Cons.prems reply handle_tool_call_valid [OF assms(1-4)] sends_valid_trans [OF _ Cons.IH]
    by (cases event) (simp_all add: Let_def payload_limit_eq)
qed simp

end

section \<open>The program's own tools and provider\<close>

lemma execute_publish_world:
  "(\<And>n g. be_others env n g = g) \<Longrightarrow> gw_world (snd (execute env n (C_Publish r) g)) = gw_world g"
  by (simp add: execute_quiet)

lemma status_apply_gateway:
  "ts_gateway (snd (status_apply env n channel x p v s))
     = snd (publish_latest_value env n x channel STATUS_COMPONENT v (pp_arguments p) (ts_gateway s))"
  by (simp add: status_apply_def split: prod.split sum.split)

lemma publish_latest_value_gateway:
  "\<exists>r. snd (publish_latest_value env n x channel component v bytes g) = snd (execute env n (C_Publish r) g)"
proof -
  have case_snd: "snd (case q of (Inr _, g') \<Rightarrow> (Inr (), g') | (Inl e, g') \<Rightarrow> (Inl (f e), g')) = snd q"
    for q :: "(transport_error + command_result) \<times> ('a, 'b) gateway" and f :: "transport_error \<Rightarrow> string"
    by (simp split: prod.split sum.split)
  show ?thesis unfolding publish_latest_value_def by (rule exI, rule case_snd)
qed

lemma demo_tool_gateway:
  "ts_gateway (snd (demo_tool_invoke env n tool x p s)) = ts_gateway s
   \<or> (\<exists>r. ts_gateway (snd (demo_tool_invoke env n tool x p s)) = snd (execute env n (C_Publish r) (ts_gateway s)))"
proof (cases tool)
  case (StatusUpdateTool channel)
  show ?thesis
  proof (cases "status_check p s")
    case (Inr v)
    then show ?thesis
      using StatusUpdateTool status_apply_gateway [of env n channel x p v s]
        publish_latest_value_gateway [of env n x channel STATUS_COMPONENT v "pp_arguments p" "ts_gateway s"]
      by (simp add: demo_tool_invoke_def status_invoke_def)
  qed (simp add: StatusUpdateTool demo_tool_invoke_def status_invoke_def)
qed (simp add: demo_tool_invoke_def)

lemma evaluate_gateway:
  "ts_gateway (snd (tool_evaluate (demo_tool_ops env n) tools x p s)) = ts_gateway s
   \<or> (\<exists>r. ts_gateway (snd (tool_evaluate (demo_tool_ops env n) tools x p s)) = snd (execute env n (C_Publish r) (ts_gateway s)))"
  using demo_tool_gateway [of env n _ x p s]
  by (cases "bt_get tools (pp_tool_id p, pp_tool_version p)") (simp_all add: tool_evaluate_def demo_tool_ops_def)

text \<open>Decimal numbers are short, so the texts of the rejections are.\<close>

lemma show_nat_length: "n < 10 ^ k \<Longrightarrow> 0 < k \<Longrightarrow> length (show_nat n) \<le> k"
proof (induction n arbitrary: k rule: show_nat.induct)
  case (1 n)
  show ?case
  proof (cases "n < 10")
    case False
    then obtain j where k: "k = Suc j" "0 < j" using "1.prems" by (cases k; cases "k - 1") auto
    then have "n div 10 < 10 ^ j" using "1.prems"(1) by (simp add: div_less_iff_less_mult mult.commute)
    from "1.IH" [OF False this k(2)] show ?thesis using False k(1) by (simp add: show_nat.simps [of n])
  qed (use "1.prems" in \<open>simp add: show_nat.simps [of n]\<close>)
qed

lemma show_u32_length: "length (show_nat (unat (v :: u32))) \<le> 10"
  using unsigned_less [of v, where ?'a = nat] by (intro show_nat_length) simp_all

lemma show_u64_length: "length (show_nat (unat (v :: u64))) \<le> 20"
  using unsigned_less [of v, where ?'a = nat] by (intro show_nat_length) simp_all

lemma publish_latest_value_text:
  assumes "short_errors env"
  shows "case fst (publish_latest_value env n x channel component v bytes g) of
    Inl text \<Rightarrow> length text \<le> payload_limit | Inr _ \<Rightarrow> True"
proof -
  have errors: "length (be_render_error env c) \<le> 262080" for c
    using assms by (simp add: short_errors_def payload_limit_eq)
  have "length (transport_error_string env e) \<le> payload_limit" for e
    by (cases e) (simp_all add: transport_error_string_def payload_limit_eq order_trans [OF errors])
  then show ?thesis unfolding publish_latest_value_def by (simp split: prod.split sum.split)
qed

lemma status_check_rejection:
  "status_check p s = Inl outcome \<Longrightarrow> outcome_fits outcome"
  using show_u64_length [of "pp_expected_revision p"] show_u64_length [of "ts_revision s"]
  by (auto simp: status_check_def Let_def payload_limit_eq split: if_splits)

lemma demo_tool_fits:
  assumes "short_errors env"
  shows "outcome_fits (fst (demo_tool_invoke env n tool x p s))"
proof (cases tool)
  case (StatusUpdateTool channel)
  have "outcome_fits (fst (status_apply env n channel x p v s))" for v
    using publish_latest_value_text [OF assms, of n x channel STATUS_COMPONENT v "pp_arguments p" "ts_gateway s"]
    by (auto simp: status_apply_def bytes_of_string_def payload_limit_eq split: prod.splits sum.splits)
  then show ?thesis
    using StatusUpdateTool status_check_rejection [of p s]
    by (simp add: demo_tool_invoke_def status_invoke_def split: sum.split)
qed (simp add: demo_tool_invoke_def bytes_of_string_def payload_limit_eq)

lemma evaluate_fits:
  assumes "short_errors env" "event_in_range (IE_ToolCallProposed p)"
  shows "outcome_fits (fst (tool_evaluate (demo_tool_ops env n) tools x p s))"
  using assms(2) demo_tool_fits [OF assms(1), of n _ x p s] show_u32_length [of "pp_tool_version p"]
  by (simp add: tool_evaluate_def demo_tool_ops_def payload_limit_eq split: option.split)

interpretation registry: silent_tool_handler "\<lambda>env n. tool_evaluate (demo_tool_ops env n) tools" for tools
proof
  fix env :: "('a, 'b) bridge_env" and n x p and s :: "('a, 'b) tool_state"
  let ?e = "ts_gateway (snd (tool_evaluate (demo_tool_ops env n) tools x p s))"
  show "core_reaches (gw_core (ts_gateway s)) (gw_core ?e)"
    if "\<And>n g. core_reaches (gw_core g) (gw_core (be_others env n g))"
    using evaluate_gateway [of env n tools x p s] core_reaches_execute [where env = env, OF that] by auto
  show "outcome_fits (fst (tool_evaluate (demo_tool_ops env n) tools x p s))"
    if "short_errors env" "event_in_range (IE_ToolCallProposed p)" using that by (rule evaluate_fits)
  show "gw_world ?e = gw_world (ts_gateway s)" if "\<And>n g. be_others env n g = g"
    using evaluate_gateway [of env n tools x p s] execute_publish_world [where env = env, OF that] by auto
qed

interpretation logged: logged_tool_handler "\<lambda>env n. tool_evaluate (demo_tool_ops env n) tools" for tools
  by unfold_locales

text \<open>
  The scripted provider echoes the text of its input. An invalid byte becomes three, so an input of
  up to a third of the limit is in range.
\<close>

lemma lossy_length: "length (from_utf8_lossy bs) \<le> 3 * length bs"
proof (induction bs rule: from_utf8_lossy.induct)
  case (2 b bs)
  obtain ok n where u: "utf8_next b bs = (ok, n)" by force
  then have n: "0 < n" by (rule utf8_next_pos)
  show ?case
  proof (cases ok)
    case True
    then show ?thesis using "2.IH"(1) [of ok n] u n by simp
  next
    case False
    then show ?thesis using "2.IH"(2) [of ok n] u n by (simp add: replacement_def)
  qed
qed simp

lemma trim_from_length: "length (trim_from ws bs) \<le> length bs"
proof (induction ws bs rule: trim_from.induct)
  case (1 ws bs)
  then show ?case
    by (cases "find (\<lambda>w. w \<noteq> [] \<and> is_prefix w bs) ws") (fastforce simp: trim_from.simps [of ws bs])+
qed

lemma trim_length: "length (trim_bytes bs) \<le> length bs"
  using trim_from_length [of "map rev white_space" "rev (trim_from white_space bs)"] trim_from_length [of white_space bs]
  by (simp add: trim_bytes_def)

lemma string_lengths [simp]: "length (string_of_bytes bs) = length bs" "length (bytes_of_string t) = length t"
  by (simp_all add: string_of_bytes_def bytes_of_string_def)

interpretation scripted: ranged_provider deterministic_run 87379
proof
  show "event_in_range event" if b: "length (iv_input request) \<le> 87379" and e: "event \<in> set (deterministic_run request)"
    for event request
  proof -
    have "length (trim_bytes (from_utf8_lossy (iv_input request))) \<le> 262137"
      using trim_length [of "from_utf8_lossy (iv_input request)"] lossy_length [of "iv_input request"] b by simp
    then show ?thesis using e by (auto simp: deterministic_run_def Let_def payload_limit_eq split: if_splits)
  qed
  show "\<exists>events last. deterministic_run request = events @ [last] \<and> is_terminal last
      \<and> (\<forall>event\<in>set events. \<not> is_terminal event)" for request
    unfolding deterministic_run_def Let_def
    by (auto split: if_split intro: exI [of _ "[]"] exI [of _ "[_]"] exI [of _ "[_, _]"])
qed

text \<open>The bound is sharp: one invalid byte more, which the codec lets a client send, and the echo exceeds the limit.\<close>

lemma lossy_invalid: "from_utf8_lossy (replicate n 0xFF) = concat (replicate n replacement)"
  by (induction n) (simp_all add: utf8_next_def)

lemma trim_invalid: "trim_bytes (concat (replicate n replacement)) = concat (replicate n replacement)"
proof (cases n)
  case (Suc k)
  have "trim_from white_space (0xEF # bs) = 0xEF # bs" for bs
    by (subst trim_from.simps) (simp add: white_space_def is_prefix_def)
  moreover have "trim_from (map rev white_space) (0xBD # bs) = 0xBD # bs" for bs
    by (subst trim_from.simps) (simp add: white_space_def is_prefix_def)
  moreover have "\<exists>bs. concat (replicate n replacement) = 0xEF # bs" by (simp add: Suc replacement_def)
  moreover have "concat (replicate n replacement) = concat (replicate k replacement) @ replacement"
    unfolding Suc replicate_Suc replicate_append_same [symmetric] by simp
  then have "\<exists>bs. rev (concat (replicate n replacement)) = 0xBD # bs" by (simp add: replacement_def)
  ultimately show ?thesis unfolding trim_bytes_def by (metis rev_rev_ident)
qed (simp add: trim_bytes_def trim_from.simps [of _ "[]"] white_space_def is_prefix_def)

lemma scripted_echo_out_of_range:
  assumes "iv_input request = replicate 87380 0xFF"
  shows "\<exists>event\<in>set (deterministic_run request). \<not> event_in_range event"
proof -
  let ?t = "string_of_bytes (trim_bytes (from_utf8_lossy (iv_input request)))"
  have "trim_bytes (from_utf8_lossy (iv_input request)) = concat (replicate 87380 replacement)"
    unfolding assms lossy_invalid trim_invalid ..
  then have len: "length ?t = 262140"
    by (simp add: length_concat sum_list_replicate replacement_def)
  then have other: "?t \<noteq> w" if "length w < 262140" for w using that by (metis less_irrefl)
  have "?t \<noteq> TRIGGER_DIAGNOSTIC" "?t \<noteq> TRIGGER_STALE_STATUS_UPDATE" "?t \<noteq> TRIGGER_STATUS_UPDATE"
    by (rule other, simp add: TRIGGER_DIAGNOSTIC_def TRIGGER_STALE_STATUS_UPDATE_def TRIGGER_STATUS_UPDATE_def)+
  then have "deterministic_run request = [IE_Completed (bytes_of_string (''heard: '' @ ?t))]"
    by (simp add: deterministic_run_def)
  then show ?thesis using len by (simp add: payload_limit_eq)
qed

text \<open>
  C37. What the inference plane says can be encoded. Serve a valid request for an entity with a non-zero
  id while nobody else uses the worker and the channels take everything, with a provider whose response
  to this request keeps to the ranges of the protocol and to the payload limit, a tool call with 64
  bytes to spare (the scripted provider does, for an input of at most 87379 bytes), with any registry
  of the program's tools in any state, and with texts of the core's errors that also leave 64 bytes of
  the limit. Then each envelope put on a channel, replies and tool-call announcements alike, passes
  everything the codec checks before it hands an envelope to the FlatBuffers library: the version, the
  ids, the ranges and the delivery class of its kind, and the payload limit.
\<close>

theorem inference_plane_sends_valid_envelopes:
  assumes "be_ops env = log_ops (\<lambda>_ _. True)" "\<And>n g. be_others env n g = g" "short_errors env"
    and "validate_envelope e = Inr ()" "ev_message e = Control (InferenceRequested request)" "ai_entity \<noteq> 0"
    and "\<And>event. event \<in> set (run (inference_request_of request ai_entity
      (inference_deadline (now n) (iq_deadline_ms request)))) \<Longrightarrow> event_in_range event"
  shows "\<exists>sent. gw_world (ts_gateway (run_inference env n now (\<lambda>i. tool_evaluate (demo_tool_ops env i) tools) run
        identity ai_connection ai_entity requester e request s)) = gw_world (ts_gateway s) @ sent
      \<and> (\<forall>p\<in>set sent. validate_outbound codec_limits_default (snd p) = Inr ())"
proof -
  have "accepting env" using assms(1,2) by (simp add: accepting_def)
  moreover have "inference_source e" using assms(4,5) by (simp add: inference_source_def)
  ultimately have "sends_valid (ts_gateway s) (ts_gateway (run_inference env n now
      (\<lambda>i. tool_evaluate (demo_tool_ops env i) tools) run identity ai_connection ai_entity requester e request s))"
    unfolding run_inference_def Let_def using assms(3,6,7) by (intro logged.run_events_valid) auto
  then show ?thesis by (simp add: sends_valid_def)
qed

definition demo_inference :: "inference_requested" where
  "demo_inference = \<lparr>iq_capability = ''language.dialogue'', iq_deadline_ms = 0, iq_input = [104, 105]\<rparr>"

definition demo_inference_envelope :: envelope where
  "demo_inference_envelope = \<lparr>ev_protocol_version = PROTOCOL_VERSION, ev_delivery_class = PD_ReliableOrdered,
     ev_namespace_id = 1, ev_session_id = 1, ev_space_id = 1, ev_channel_id = None, ev_entity_id = Some 1,
     ev_space_epoch = 1, ev_server_tick = 0, ev_sender_sequence = 0, ev_correlation_id = Some 4,
     ev_message = Control (InferenceRequested demo_inference)\<rparr>"

definition demo_identity :: ai_identity where
  "demo_identity = \<lparr>ai_token = ''token'', ai_namespace = 1, ai_session = 1, ai_space = 1, ai_space_epoch = 1,
     ai_status_channel = 1\<rparr>"

lemma inference_plane_sends_valid_envelopes_witness:
  "\<exists>sent. gw_world (ts_gateway (run_inference demo_env 0 (\<lambda>_. 0) (\<lambda>i. tool_evaluate (demo_tool_ops demo_env i) bt_new)
      deterministic_run demo_identity 1 1 2 demo_inference_envelope demo_inference
      \<lparr>ts_gateway = demo_gateway, ts_revision = 1\<rparr>)) = sent
    \<and> (\<forall>p\<in>set sent. validate_outbound codec_limits_default (snd p) = Inr ())"
proof -
  have e: "validate_envelope demo_inference_envelope = Inr ()"
    "ev_message demo_inference_envelope = Control (InferenceRequested demo_inference)"
    by (simp_all add: demo_inference_envelope_def demo_inference_def validate_envelope_ok scope_ok ev_message_kind_def
        delivery_fits_def validate_control_def validate_inference_control_def validate_inference_requested_def and_then_eq_Inr)
  have "be_ops demo_env = log_ops (\<lambda>_ _. True)" "\<And>n g. be_others demo_env n g = g"
    by (simp_all add: demo_env_def)
  moreover have "(1 :: entity_id) \<noteq> 0" by simp
  moreover have "short_errors demo_env" by (simp add: short_errors_def demo_env_def payload_limit_eq)
  moreover have "event_in_range event" if "event \<in> set (deterministic_run (inference_request_of demo_inference 1 due))"
    for event due
    by (rule scripted.run_in_range [OF _ that]) (simp add: inference_request_of_def demo_inference_def)
  ultimately have "\<exists>sent. gw_world (ts_gateway (run_inference demo_env 0 (\<lambda>_. 0)
      (\<lambda>i. tool_evaluate (demo_tool_ops demo_env i) bt_new) deterministic_run demo_identity 1 1 2
      demo_inference_envelope demo_inference \<lparr>ts_gateway = demo_gateway, ts_revision = 1\<rparr>))
      = gw_world (ts_gateway \<lparr>ts_gateway = demo_gateway, ts_revision = 1\<rparr>) @ sent
    \<and> (\<forall>p\<in>set sent. validate_outbound codec_limits_default (snd p) = Inr ())"
    by (intro inference_plane_sends_valid_envelopes e) simp_all
  then show ?thesis by (simp add: demo_gateway_def gateway_new_def)
qed

text \<open>A provider that leaves the ranges ends the requester's connection: the writer cannot encode the reply.\<close>

lemma session_encode_valid: "session_encode sx e = Inr bytes \<Longrightarrow> validate_envelope e = Inr ()"
  by (auto simp: session_encode_def encode_def and_then_eq_Inr validate_outbound_ok)

lemma progress_out_of_range:
  assumes "100 < percent"
  shows "validate_envelope (reply_envelope e entity (InferenceProgress percent)) \<noteq> Inr ()"
    and "fst (writer_step t sx n x shutdown (reply_envelope e entity (InferenceProgress percent)) g) = False"
proof -
  show v: "validate_envelope (reply_envelope e entity (InferenceProgress percent)) \<noteq> Inr ()"
    using assms by (auto simp: validate_envelope_ok reply_envelope_def validate_control_def
        validate_inference_control_def and_then_eq_Inr)
  then show "fst (writer_step t sx n x shutdown (reply_envelope e entity (InferenceProgress percent)) g) = False"
    using session_encode_valid [of sx "reply_envelope e entity (InferenceProgress percent)"]
    by (cases "session_encode sx (reply_envelope e entity (InferenceProgress percent))")
      (auto simp: writer_step_def Let_def)
qed

text \<open>The bound on requests in flight.\<close>

lemma in_flight_bounded:
  assumes "ic_in_flight c \<le> ic_queue_capacity c" "accept_or_reject env n entity requester e c g = (task, c', g')"
  shows "ic_in_flight c' \<le> ic_queue_capacity c' \<and> (task \<noteq> None \<longleftrightarrow> ic_in_flight c' = ic_in_flight c + 1)"
  using assms by (auto simp: accept_or_reject_def split: message_payload.splits control_payload.splits if_splits)

end
