(* ===== verification/Client.thy ===== *)
theory Client
  imports Session
begin

text \<open>
  \<^verbatim>\<open>woven-client-rust\<close>: the reference client. \<^verbatim>\<open>transform.rs\<close>, the payload of a transform; \<^verbatim>\<open>lib.rs\<close>,
  the parsing of the connection URL, the handshake and the envelope each method sends.

  The transports are third-party code: what the server writes on the stream is a list of bytes, and
  a write acts on the world.
\<close>

section \<open>Transforms\<close>

text \<open>An \<^verbatim>\<open>f32\<close> is its bits.\<close>

type_synonym f32 = u32

record transform =
  tf_translation :: "f32 \<times> f32 \<times> f32"
  tf_rotation :: "f32 \<times> f32 \<times> f32 \<times> f32"
  tf_scale :: "f32 \<times> f32 \<times> f32"

definition ENCODED_LEN :: usize where "ENCODED_LEN = 40"

definition f32_to_le_bytes :: "f32 \<Rightarrow> u8 list" where
  "f32_to_le_bytes v = [ucast v, ucast (drop_bit 8 v), ucast (drop_bit 16 v), ucast (drop_bit 24 v)]"

definition f32_from_le_bytes :: "u8 list \<Rightarrow> f32" where
  "f32_from_le_bytes bs = of_nat (le_bytes bs)"

fun transform_values :: "transform \<Rightarrow> f32 list" where
  "transform_values \<lparr>tf_translation = (tx, ty, tz), tf_rotation = (rx, ry, rz, rw), tf_scale = (sx, sy, sz)\<rparr> =
     [tx, ty, tz, rx, ry, rz, rw, sx, sy, sz]"

definition transform_encode :: "transform \<Rightarrow> u8 list" where
  "transform_encode t = concat (map f32_to_le_bytes (transform_values t))"

definition transform_decode :: "u8 list \<Rightarrow> transform option" where
  "transform_decode bytes =
     (if length bytes \<noteq> ENCODED_LEN then None
      else let v = (\<lambda>i. f32_from_le_bytes (take 4 (drop (4 * i) bytes)))
        in Some \<lparr>tf_translation = (v 0, v 1, v 2), tf_rotation = (v 3, v 4, v 5, v 6), tf_scale = (v 7, v 8, v 9)\<rparr>)"

section \<open>The connection URL\<close>

datatype url_scheme = Scheme_Quic | Scheme_WebTransport

datatype client_error =
    CX_Transport string
  | CX_Protocol codec_error
  | CX_ServerError protocol_error
  | CX_HandshakeFailed string
  | CX_Closed
  | CX_UnsupportedScheme string

definition to_ascii_lowercase :: "string \<Rightarrow> string" where
  "to_ascii_lowercase = map (\<lambda>c. if 65 \<le> (of_char c :: nat) \<and> (of_char c :: nat) \<le> 90
     then char_of (of_char c + 32 :: nat) else c)"

definition starts_with :: "string \<Rightarrow> string \<Rightarrow> bool" where
  "starts_with s p \<longleftrightarrow> take (length p) s = p"

definition parse_u16 :: "string \<Rightarrow> u16 option" where
  "parse_u16 s = map_option of_nat (parse_unsigned 65535 s)"

text \<open>Before and after the last colon.\<close>

definition rsplit_colon :: "string \<Rightarrow> (string \<times> string) option" where
  "rsplit_colon s = (if CHR '':'' \<in> set s
     then Some (rev (tl (dropWhile (\<lambda>c. c \<noteq> CHR '':'') (rev s))), rev (takeWhile (\<lambda>c. c \<noteq> CHR '':'') (rev s)))
     else None)"

definition parse_host_port :: "string \<Rightarrow> u16 \<Rightarrow> client_error + string \<times> u16" where
  "parse_host_port host_port default_port = (case rsplit_colon host_port of
     None \<Rightarrow> Inr (host_port, default_port)
   | Some (host, port_text) \<Rightarrow>
       (case parse_u16 port_text of
          None \<Rightarrow> Inl (CX_Transport (''invalid port in '' @ host_port))
        | Some port \<Rightarrow> Inr (host, port)))"

definition split_path :: "string \<Rightarrow> string \<times> string" where
  "split_path s = (if CHR ''/'' \<in> set s
     then (takeWhile (\<lambda>c. c \<noteq> CHR ''/'') s, dropWhile (\<lambda>c. c \<noteq> CHR ''/'') s) else (s, ''/''))"

definition parse_url :: "string \<Rightarrow> client_error + url_scheme \<times> string \<times> u16 \<times> string" where
  "parse_url url =
     (let lower = to_ascii_lowercase url;
          parse = (\<lambda>scheme prefix. case split_path (drop (length prefix) url) of (host_port, path) \<Rightarrow>
            and_then (parse_host_port host_port 4433) (\<lambda>(host, port). Inr (scheme, host, port, path)))
      in if starts_with lower ''quic://'' then parse Scheme_Quic ''quic://''
         else if starts_with lower ''wtransport://'' then parse Scheme_WebTransport ''wtransport://''
         else Inl (CX_UnsupportedScheme url))"

section \<open>The stream\<close>

record 'w client_env =
  cx_finish :: "wire_envelope \<Rightarrow> u8 list"
  cx_has_identifier :: "u8 list \<Rightarrow> bool"
  cx_root :: "u8 list \<Rightarrow> string + wire_envelope"
  cx_read_error :: string
  cx_write_all :: "u8 list \<Rightarrow> 'w \<Rightarrow> (string + unit) \<times> 'w"
  cx_version :: string

record 'w client =
  cs_incoming :: "u8 list"
  cs_world :: 'w

definition client_recv :: "'w client_env \<Rightarrow> 'w client \<Rightarrow> (client_error + envelope) \<times> 'w client" where
  "client_recv cx c =
     (let stream = cs_incoming c; rest = (\<lambda>n. c\<lparr>cs_incoming := drop n stream\<rparr>) in
      if length stream < SIZE_PREFIX_LEN then (Inl (CX_Transport (cx_read_error cx)), rest (length stream))
      else case expected_frame_len codec_limits_default (take SIZE_PREFIX_LEN stream) of
          Inl e \<Rightarrow> (Inl (CX_Protocol e), rest SIZE_PREFIX_LEN)
        | Inr None \<Rightarrow> (Inl (CX_Transport ''incomplete size prefix''), rest SIZE_PREFIX_LEN)
        | Inr (Some frame_len) \<Rightarrow>
            if length stream < frame_len then (Inl (CX_Transport (cx_read_error cx)), rest (length stream))
            else (map_err CX_Protocol
                (decode (cx_has_identifier cx) (cx_root cx) codec_limits_default (take frame_len stream)), rest frame_len))"

definition client_send :: "'w client_env \<Rightarrow> envelope \<Rightarrow> 'w client \<Rightarrow> (client_error + unit) \<times> 'w client" where
  "client_send cx e c = (case encode (cx_finish cx) codec_limits_default e of
     Inl error \<Rightarrow> (Inl (CX_Protocol error), c)
   | Inr bytes \<Rightarrow>
       (case cx_write_all cx bytes (cs_world c) of
          (r, w) \<Rightarrow> (map_err CX_Transport r, c\<lparr>cs_world := w\<rparr>)))"

section \<open>Envelopes\<close>

text \<open>The fields every method of the client leaves at the same value.\<close>

definition client_envelope ::
  "wire_delivery \<Rightarrow> u64 \<Rightarrow> u64 \<Rightarrow> u64 \<Rightarrow> u64 option \<Rightarrow> u64 option \<Rightarrow> u64 \<Rightarrow> u64 \<Rightarrow> message_payload \<Rightarrow> envelope" where
  "client_envelope delivery namespace session space channel entity epoch seq message =
     \<lparr>ev_protocol_version = PROTOCOL_VERSION, ev_delivery_class = delivery, ev_namespace_id = namespace,
      ev_session_id = session, ev_space_id = space, ev_channel_id = channel, ev_entity_id = entity,
      ev_space_epoch = epoch, ev_server_tick = 0, ev_sender_sequence = seq, ev_correlation_id = None,
      ev_message = message\<rparr>"

record client_config =
  cg_url :: string
  cg_token :: string
  cg_max_frame_bytes :: u32
  cg_max_payload_bytes :: u32

definition client_config_default :: client_config where
  "client_config_default = \<lparr>cg_url = [], cg_token = [], cg_max_frame_bytes = 65536, cg_max_payload_bytes = 65536\<rparr>"

definition client_hello :: "'w client_env \<Rightarrow> client_config \<Rightarrow> envelope" where
  "client_hello cx config = client_envelope PD_ReliableOrdered 0 0 0 None None 0 0 (Control (Hello
     \<lparr>he_min_protocol_version = 1, he_max_protocol_version = 1, he_client_name = ''woven-client'',
       he_client_version = cx_version cx, he_capability_bits = 0,
       he_max_frame_size = cg_max_frame_bytes config, he_max_payload_size = cg_max_payload_bytes config\<rparr>))"

definition client_authenticate :: "client_config \<Rightarrow> envelope" where
  "client_authenticate config = client_envelope PD_ReliableOrdered 0 0 0 None None 0 0 (Control (Authenticate
     \<lparr>au_scheme = AS_Development, au_credentials = bytes_of_string (cg_token config)\<rparr>))"

definition join_session_envelope :: "u64 \<Rightarrow> u64 \<Rightarrow> envelope" where
  "join_session_envelope namespace session =
     client_envelope PD_ReliableOrdered namespace session 0 None None 0 0 (Control (JoinSession []))"

definition subscribe_space_envelope :: "u64 \<Rightarrow> u64 \<Rightarrow> u64 \<Rightarrow> u64 \<Rightarrow> u64 \<Rightarrow> envelope" where
  "subscribe_space_envelope namespace session space epoch channel =
     client_envelope PD_ReliableOrdered namespace session space (Some channel) None epoch 0 (Control SubscribeSpace)"

definition transition_entity_envelope :: "u64 \<Rightarrow> u64 \<Rightarrow> u64 \<Rightarrow> u64 \<Rightarrow> u64 \<Rightarrow> u64 \<Rightarrow> u64 \<Rightarrow> envelope" where
  "transition_entity_envelope namespace session source source_epoch destination destination_epoch entity =
     client_envelope PD_ReliableOrdered namespace session source None (Some entity) source_epoch 0
       (Control (SpaceTransition \<lparr>st_from_space_id = source, st_to_space_id = destination,
          st_to_space_epoch = destination_epoch\<rparr>))"

definition request_snapshot_envelope :: "u64 \<Rightarrow> u64 \<Rightarrow> u64 \<Rightarrow> u64 \<Rightarrow> u64 \<Rightarrow> envelope" where
  "request_snapshot_envelope namespace session space epoch channel =
     client_envelope PD_ReliableOrdered namespace session space (Some channel) None epoch 0
       (Control (SnapshotRequest None))"

definition publish_event_envelope ::
  "u64 \<Rightarrow> u64 \<Rightarrow> u64 \<Rightarrow> u64 \<Rightarrow> u64 \<Rightarrow> u64 \<Rightarrow> u64 \<Rightarrow> u64 \<Rightarrow> u8 list \<Rightarrow> envelope" where
  "publish_event_envelope namespace session space epoch channel entity seq type_id bytes =
     client_envelope PD_ReliableOrdered namespace session space (Some channel) (Some entity) epoch seq
       (ReliableEvent \<lparr>ok_type_id = type_id, ok_bytes = bytes\<rparr>)"

definition publish_state_envelope ::
  "u64 \<Rightarrow> u64 \<Rightarrow> u64 \<Rightarrow> u64 \<Rightarrow> u64 \<Rightarrow> u64 \<Rightarrow> u64 \<Rightarrow> u64 \<Rightarrow> u8 list \<Rightarrow> envelope" where
  "publish_state_envelope namespace session space epoch channel entity seq type_id bytes =
     client_envelope PD_LatestValue namespace session space (Some channel) (Some entity) epoch seq
       (EntityState \<lparr>ok_type_id = type_id, ok_bytes = bytes\<rparr>)"

definition request_inference_envelope ::
  "u64 \<Rightarrow> u64 \<Rightarrow> u64 \<Rightarrow> u64 \<Rightarrow> u64 \<Rightarrow> string \<Rightarrow> u64 \<Rightarrow> u8 list \<Rightarrow> envelope" where
  "request_inference_envelope namespace session space epoch ai_entity capability deadline_ms input =
     client_envelope PD_ReliableOrdered namespace session space None (Some ai_entity) epoch 0
       (Control (InferenceRequested \<lparr>iq_capability = capability, iq_deadline_ms = deadline_ms, iq_input = input\<rparr>))"

section \<open>The handshake\<close>

definition expect_control ::
  "string \<Rightarrow> (control_payload \<Rightarrow> bool) \<Rightarrow> envelope \<Rightarrow> client_error + unit" where
  "expect_control name wanted e = (case ev_message e of
     Control payload \<Rightarrow>
       if wanted payload then Inr ()
       else (case payload of
           ProtocolErrorPayload error \<Rightarrow> Inl (CX_ServerError error)
         | _ \<Rightarrow> Inl (CX_HandshakeFailed (''expected '' @ name @ '', got '' @ message_kind_name (ev_message_kind e))))
   | _ \<Rightarrow> Inl (CX_HandshakeFailed (''expected '' @ name @ '', got '' @ message_kind_name (ev_message_kind e))))"

definition is_capabilities :: "control_payload \<Rightarrow> bool" where
  "is_capabilities p = (case p of Capabilities _ \<Rightarrow> True | _ \<Rightarrow> False)"

definition is_authenticated :: "control_payload \<Rightarrow> bool" where
  "is_authenticated p = (case p of Authenticated _ \<Rightarrow> True | _ \<Rightarrow> False)"

text \<open>One exchange: send an envelope and expect an answer of a kind.\<close>

definition client_exchange ::
  "'w client_env \<Rightarrow> envelope \<Rightarrow> string \<Rightarrow> (control_payload \<Rightarrow> bool) \<Rightarrow> 'w client \<Rightarrow> (client_error + unit) \<times> 'w client" where
  "client_exchange cx e name wanted c = (case client_send cx e c of
     (Inl error, c1) \<Rightarrow> (Inl error, c1)
   | (Inr _, c1) \<Rightarrow>
       (case client_recv cx c1 of
          (Inl error, c2) \<Rightarrow> (Inl error, c2)
        | (Inr answer, c2) \<Rightarrow> (expect_control name wanted answer, c2)))"

definition client_handshake ::
  "'w client_env \<Rightarrow> client_config \<Rightarrow> 'w client \<Rightarrow> (client_error + unit) \<times> 'w client" where
  "client_handshake cx config c =
     (case client_exchange cx (client_hello cx config) ''Capabilities'' is_capabilities c of
        (Inl error, c1) \<Rightarrow> (Inl error, c1)
      | (Inr _, c1) \<Rightarrow> client_exchange cx (client_authenticate config) ''Authenticated'' is_authenticated c1)"

text \<open>\<open>open\<close> is what the transport's library makes of the parsed address.\<close>

definition client_connect ::
  "'w client_env \<Rightarrow> (url_scheme \<Rightarrow> string \<Rightarrow> u16 \<Rightarrow> string \<Rightarrow> string + 'w client) \<Rightarrow> client_config
   \<Rightarrow> client_error + 'w client" where
  "client_connect cx opened config =
     and_then (parse_url (cg_url config)) (\<lambda>(scheme, host, port, path).
     and_then (map_err CX_Transport (opened scheme host port path)) (\<lambda>c.
     case client_handshake cx config c of
       (Inl error, _) \<Rightarrow> Inl error
     | (Inr _, c') \<Rightarrow> Inr c'))"

end
