(* ===== verification/AdmissionHttp.thy ===== *)
theory AdmissionHttp
  imports AdmissionProps
begin

text \<open>
  \<^verbatim>\<open>woven-server/src/admission.rs\<close>: the HTTP routes in front of one admission controller. A request is
  handled under the controller's lock, so that it is one function on the controller; \<^verbatim>\<open>axum\<close> parses
  paths and bodies and serialises responses.
\<close>

definition development_metadata :: admission_metadata where
  "development_metadata = \<lparr>am_node_id = 1, am_session = SessionKey 1 1\<rparr>"

definition development_state :: admission_controller where
  "development_state = ad_new development_metadata qp_default \<lparr>cu_allocated_ccu = 0, cu_revision = 1\<rparr>
     (uc_new development_metadata)"

record join_request_body =
  jb_principal_id :: u64
  jb_idempotency_key :: string

datatype admission_route =
    AR_Join join_request_body
  | AR_QueueStatus u64
  | AR_Heartbeat u64
  | AR_Claim u64
  | AR_Cancel u64
  | AR_Snapshot

datatype admission_response =
    AP_Join join_decision
  | AP_QueueStatus queue_ticket_id queue_status u64
  | AP_Lease admission_lease
  | AP_Snapshot admission_snapshot
  | AP_Rejection rejection_reason string
  | AP_BadRequest
  | AP_Conflict
  | AP_NoContent

definition bad_request :: "string \<Rightarrow> admission_response" where
  "bad_request message = AP_Rejection InvalidIdempotencyKey message"

definition http_join ::
  "join_request_body \<Rightarrow> instant \<Rightarrow> admission_controller \<Rightarrow> admission_response \<times> admission_controller" where
  "http_join body now c = (case idempotency_key_new (jb_idempotency_key body) of
     None \<Rightarrow> (bad_request ''idempotency key exceeds maximum length'', c)
   | Some key \<Rightarrow>
       if jb_principal_id body = 0 then (bad_request ''principal_id must be non-zero'', c)
       else map_prod AP_Join id (ad_request_join_at (join_request_new (jb_principal_id body) key) now c))"

definition http_queue_status ::
  "u64 \<Rightarrow> instant \<Rightarrow> admission_controller \<Rightarrow> admission_response \<times> admission_controller" where
  "http_queue_status ticket now c =
     (if ticket = 0 then (AP_BadRequest, c)
      else map_prod (\<lambda>state. AP_QueueStatus ticket state 3000) id (ad_queue_status_at ticket now c))"

definition http_heartbeat ::
  "u64 \<Rightarrow> instant \<Rightarrow> admission_controller \<Rightarrow> admission_response \<times> admission_controller" where
  "http_heartbeat ticket now c =
     (if ticket = 0 then (AP_BadRequest, c)
      else map_prod (\<lambda>state. AP_QueueStatus ticket state 3000) id (ad_heartbeat_at ticket now c))"

definition http_claim ::
  "u64 \<Rightarrow> instant \<Rightarrow> admission_controller \<Rightarrow> admission_response \<times> admission_controller" where
  "http_claim ticket now c =
     (if ticket = 0 then (AP_BadRequest, c)
      else (case ad_claim_offer_at ticket now c of
          (Inr lease, c') \<Rightarrow> (AP_Lease lease, c')
        | (Inl _, c') \<Rightarrow> (AP_Conflict, c')))"

definition http_cancel ::
  "u64 \<Rightarrow> instant \<Rightarrow> admission_controller \<Rightarrow> admission_response \<times> admission_controller" where
  "http_cancel ticket now c =
     (if ticket = 0 then (AP_BadRequest, c) else (AP_NoContent, snd (ad_cancel_at ticket now c)))"

definition http_snapshot :: "admission_controller \<Rightarrow> admission_response \<times> admission_controller" where
  "http_snapshot c = (AP_Snapshot (ad_snapshot c), c)"

fun http_route ::
  "admission_route \<Rightarrow> instant \<Rightarrow> admission_controller \<Rightarrow> admission_response \<times> admission_controller" where
  "http_route (AR_Join body) now c = http_join body now c"
| "http_route (AR_QueueStatus ticket) now c = http_queue_status ticket now c"
| "http_route (AR_Heartbeat ticket) now c = http_heartbeat ticket now c"
| "http_route (AR_Claim ticket) now c = http_claim ticket now c"
| "http_route (AR_Cancel ticket) now c = http_cancel ticket now c"
| "http_route AR_Snapshot now c = http_snapshot c"

section \<open>Routes and commands\<close>

text \<open>
  A request is at most one command of the controller and never a capacity update, so that the
  controller's runs cover the routes.
\<close>

lemma http_route_step:
  "snd (http_route route now c) = c
   \<or> (\<exists>command. snd (http_route route now c) = ad_step c command \<and> contract_step a command = a)"
proof (cases route)
  case (AR_Join body)
  then show ?thesis
    by (cases "idempotency_key_new (jb_idempotency_key body)")
      (auto simp: http_join_def intro: exI [of _ "AC_Join _ now"])
next
  case (AR_QueueStatus t)
  then show ?thesis by (auto simp: http_queue_status_def intro: exI [of _ "AC_Status t now"])
next
  case (AR_Heartbeat t)
  then show ?thesis by (auto simp: http_heartbeat_def intro: exI [of _ "AC_Heartbeat t now"])
next
  case (AR_Claim t)
  then show ?thesis
    by (cases "ad_claim_offer_at t now c")
      (auto simp: http_claim_def split: sum.split intro: exI [of _ "AC_Claim t now"])
next
  case (AR_Cancel t)
  then show ?thesis by (auto simp: http_cancel_def intro: exI [of _ "AC_Cancel t now"])
next
  case AR_Snapshot
  then show ?thesis by (simp add: http_snapshot_def)
qed

text \<open>
  A request, unlike a command, never changes capacity: the pair of revision and limit in force stays
  what it was, through any sequence of requests.
\<close>

lemma http_route_contract:
  assumes "ad_capacity_inv c"
  shows "ad_capacity_inv (snd (http_route route now c))
    \<and> ad_contract (snd (http_route route now c)) = ad_contract c"
proof -
  consider "snd (http_route route now c) = c"
    | command where "snd (http_route route now c) = ad_step c command"
        "contract_step (ad_contract c) command = ad_contract c"
    using http_route_step [of route now c "ad_contract c"] by blast
  then show ?thesis
    by cases (use assms in \<open>simp_all add: ad_step_capacity ad_step_contract\<close>)
qed

definition serve_requests ::
  "(admission_route \<times> instant) list \<Rightarrow> admission_controller \<Rightarrow> admission_controller" where
  "serve_requests requests c = foldl (\<lambda>c (route, now). snd (http_route route now c)) c requests"

lemma serve_requests_contract:
  "ad_capacity_inv c \<Longrightarrow> ad_capacity_inv (serve_requests requests c)
    \<and> ad_contract (serve_requests requests c) = ad_contract c"
proof (induction requests arbitrary: c)
  case (Cons r rs)
  obtain route now where "r = (route, now)" by (cases r)
  then show ?case
    using Cons.IH [of "snd (http_route route now c)"] http_route_contract [OF Cons.prems, of route now]
    by (simp add: serve_requests_def)
qed (simp add: serve_requests_def)

lemma join_without_capacity:
  assumes "ad_capacity_inv c" "snd (ad_contract c) = 0" "jq_idempotency_key request \<noteq> None"
  shows "fst (ad_request_join_at request now c) = Paused"
proof -
  have "ad_contract (ad_expire_at now (ad_count increment_join_attempts c)) = ad_contract c"
    using assms(1) by (simp add: ad_contract_expire ad_contract_frame)
  then have "ad_admission_limit (ad_expire_at now (ad_count increment_join_attempts c)) = 0"
    using assms(2) by (simp add: ad_contract_def)
  then show ?thesis using assms(3) by (auto simp: ad_request_join_at_def)
qed

text \<open>
  The development routes admit nobody. The controller they serve starts with no capacity and no
  route raises it: whatever requests were handled before, a well-formed request to join is told that
  admission is paused.
\<close>

theorem development_routes_admit_nobody:
  assumes "jb_principal_id body \<noteq> 0" "length (jb_idempotency_key body) \<le> idempotency_key_max_len"
  shows "fst (http_join body now (serve_requests requests development_state)) = AP_Join Paused"
proof -
  let ?c = "serve_requests requests development_state"
  have "ad_capacity_inv development_state" by (simp add: development_state_def ad_new_capacity)
  moreover have "ad_contract development_state = (1, 0)"
    by (simp add: development_state_def ad_new_def ad_contract_def ad_admission_limit_def)
  ultimately have "ad_capacity_inv ?c \<and> ad_contract ?c = (1, 0)"
    using serve_requests_contract [of development_state requests] by simp
  then show ?thesis
    using assms join_without_capacity [of ?c]
    by (simp add: http_join_def idempotency_key_new_def join_request_new_def)
qed

lemma development_routes_admit_nobody_witness:
  "fst (http_join \<lparr>jb_principal_id = 7, jb_idempotency_key = ''k''\<rparr> now
     (serve_requests [(AR_Snapshot, now), (AR_Claim 1, now)] development_state)) = AP_Join Paused"
  by (rule development_routes_admit_nobody) (simp_all add: idempotency_key_max_len_def)

end
