(* ===== verification/Server.thy ===== *)
theory Server
  imports AdmissionHttp Inference TestProvider CoreDemo
begin

text \<open>
  \<^verbatim>\<open>woven-server/src/lib.rs\<close> and the argument parser of \<^verbatim>\<open>main.rs\<close>: the development core, the
  identity the coordinator takes in it, and the HTTP control plane. Binding the endpoints, the
  certificates and the banner are left out; a coordinator's tasks are those of the theory
  \<^verbatim>\<open>Inference\<close>, with the worker's state passed explicitly.
\<close>

section \<open>Configuration\<close>

definition AI_DEV_TOKEN :: string where "AI_DEV_TOKEN = ''ai-companion-dev-token''"
definition AI_PRINCIPAL_ID :: u64 where "AI_PRINCIPAL_ID = 2"
definition AI_STATUS_CHANNEL_ID :: u64 where "AI_STATUS_CHANNEL_ID = 3"
definition INFERENCE_INBOUND_CAPACITY :: usize where "INFERENCE_INBOUND_CAPACITY = 64"
definition INFERENCE_QUEUE_CAPACITY :: usize where "INFERENCE_QUEUE_CAPACITY = 16"

record socket_addr =
  so_octets :: "u8 list"
  so_port :: u16

record server_config =
  sf_bind_address :: socket_addr
  sf_quic_bind_address :: socket_addr
  sf_webtransport_bind_address :: socket_addr
  sf_webtransport_path :: string
  sf_inference_enabled :: bool

definition server_config_default :: server_config where
  "server_config_default = \<lparr>sf_bind_address = \<lparr>so_octets = [127, 0, 0, 1], so_port = 8080\<rparr>,
     sf_quic_bind_address = \<lparr>so_octets = [127, 0, 0, 1], so_port = 8081\<rparr>,
     sf_webtransport_bind_address = \<lparr>so_octets = [127, 0, 0, 1], so_port = 8082\<rparr>,
     sf_webtransport_path = ''/webtransport'', sf_inference_enabled = False\<rparr>"

datatype server_error =
    SE_Core core_error
  | SE_Inference tool_registry_error
  | SE_InferenceSetup coordinator_error

section \<open>The development core\<close>

definition development_session :: session_key where
  "development_session = SessionKey 1 1"

definition development_grants :: authorization_grants where
  "development_grants = grant_channel (ChannelScope development_session 2) Grant_ReadWrite
     (grant_channel (ChannelScope development_session 1) Grant_ReadWrite
     (grant_space (SpaceKey development_session 2) Grant_ReadWrite
     (grant_space (SpaceKey development_session 1) Grant_ReadWrite
     (grant_session development_session Grant_ReadWrite (grant_namespace 1 Grant_ReadWrite grants_new)))))"

definition ai_grants :: authorization_grants where
  "ai_grants = grant_channel (ChannelScope development_session AI_STATUS_CHANNEL_ID) Grant_ReadWrite
     (grant_space (SpaceKey development_session 1) Grant_ReadWrite
     (grant_session development_session Grant_ReadWrite (grant_namespace 1 Grant_ReadWrite grants_new)))"

definition insert_identity :: "string \<Rightarrow> authenticated_principal \<Rightarrow> dev_authenticator \<Rightarrow> dev_authenticator" where
  "insert_identity token p a = (case da_insert token p a of Inl _ \<Rightarrow> a | Inr (_, a') \<Rightarrow> a')"

definition development_authenticator :: dev_authenticator where
  "development_authenticator = insert_identity AI_DEV_TOKEN
     \<lparr>ap_principal_id = AI_PRINCIPAL_ID, ap_grants = ai_grants\<rparr>
     (insert_identity ''dev-token'' \<lparr>ap_principal_id = 1, ap_grants = development_grants\<rparr> da_new)"

definition development_descriptor :: "space_id \<Rightarrow> space_descriptor" where
  "development_descriptor sp = \<lparr>sd_id = sp, sd_local_frame = CF_Logical, sd_parent = None, sd_epoch = 1,
     sd_routing = BroadcastAll\<rparr>"

text \<open>Calls on one core in order; the first error ends the setup and drops the core.\<close>

fun run_setup :: "unit core_op list \<Rightarrow> core \<Rightarrow> core_error + core" where
  "run_setup [] c = Inr c"
| "run_setup (op # ops) c = (case op c of (Inl e, _) \<Rightarrow> Inl e | (Inr _, c') \<Rightarrow> run_setup ops c')"

definition development_setup :: "unit core_op list" where
  "development_setup =
     [register_channel (channel_relay_owned 1 ReliableOrdered Ephemeral (64 * 1024)),
      register_channel (channel_relay_owned 2 LatestValue Stateful (64 * 1024)),
      register_channel (channel_relay_owned AI_STATUS_CHANNEL_ID LatestValue Stateful (64 * 1024)),
      provision_session development_session,
      install_space development_session (development_descriptor 1),
      install_space development_session (development_descriptor 2)]"

definition development_core :: "core_error + core" where
  "development_core =
     and_then (core_new (da_authenticate development_authenticator) cc_default) (run_setup development_setup)"

section \<open>The coordinator's identity\<close>

definition ai_identity_config :: ai_identity where
  "ai_identity_config = \<lparr>ai_token = AI_DEV_TOKEN, ai_namespace = 1, ai_session = 1, ai_space = 1,
     ai_space_epoch = 1, ai_status_channel = AI_STATUS_CHANNEL_ID\<rparr>"

definition development_tools ::
  "('c, 'w) bridge_env \<Rightarrow> nat \<Rightarrow> tool_registry_error + demo_tool tool_registry" where
  "development_tools env n =
     (case tool_register (demo_tool_ops env n) DiagnosticTool bt_new of
        (Inl e, _) \<Rightarrow> Inl e
      | (Inr _, tools) \<Rightarrow>
          (case tool_register (demo_tool_ops env n) (StatusUpdateTool AI_STATUS_CHANNEL_ID) tools of
             (Inl e, _) \<Rightarrow> Inl e
           | (Inr _, tools') \<Rightarrow> Inr tools'))"

definition spawn_inference_coordinator ::
  "('c, 'w) bridge_env \<Rightarrow> ('c, 'w) gateway
   \<Rightarrow> (server_error + connection_id \<times> entity_id \<times> coordinator \<times> demo_tool tool_registry) \<times> ('c, 'w) gateway"
where
  "spawn_inference_coordinator env g =
     (case development_tools env 0 of
        Inl e \<Rightarrow> (Inl (SE_Inference e), g)
      | Inr tools \<Rightarrow>
          (case establish_identity env ai_identity_config g of
             (Inl e, g') \<Rightarrow> (Inl (SE_InferenceSetup e), g')
           | (Inr (connection, entity), g') \<Rightarrow>
               (Inr (connection, entity, coordinator_new INFERENCE_QUEUE_CAPACITY, tools), g')))"

section \<open>The control plane\<close>

record app_state =
  st_quic_enabled :: bool
  st_webtransport_enabled :: bool
  st_webtransport_endpoint :: "string option"
  st_inference_enabled :: bool
  st_max_connections :: usize
  st_max_sessions :: usize

definition app_state_of :: "bool \<Rightarrow> bool \<Rightarrow> string option \<Rightarrow> bool \<Rightarrow> app_state" where
  "app_state_of quic wt endpoint inference =
     \<lparr>st_quic_enabled = quic, st_webtransport_enabled = wt, st_webtransport_endpoint = endpoint,
      st_inference_enabled = inference, st_max_connections = cc_max_connections cc_default,
      st_max_sessions = cc_max_sessions cc_default\<rparr>"

datatype layer_health = LH_Active | LH_Degraded | LH_Disabled

record health_response =
  hr_status :: layer_health
  hr_core :: layer_health
  hr_transport_worker :: layer_health
  hr_http_control_plane :: layer_health
  hr_quic :: layer_health
  hr_webtransport :: layer_health
  hr_inference :: layer_health

definition layer_health_of :: "bool \<Rightarrow> layer_health" where
  "layer_health_of enabled = (if enabled then LH_Active else LH_Disabled)"

definition overall_health :: "bool \<Rightarrow> layer_health" where
  "overall_health quic_enabled = (if quic_enabled then LH_Active else LH_Degraded)"

definition health :: "app_state \<Rightarrow> health_response" where
  "health state = \<lparr>hr_status = overall_health (st_quic_enabled state), hr_core = LH_Active,
     hr_transport_worker = LH_Active, hr_http_control_plane = LH_Active,
     hr_quic = layer_health_of (st_quic_enabled state),
     hr_webtransport = layer_health_of (st_webtransport_enabled state),
     hr_inference = layer_health_of (st_inference_enabled state)\<rparr>"

definition ready :: "app_state \<Rightarrow> u16" where
  "ready state = (if st_quic_enabled state then 200 else 503)"

record capabilities_response =
  cq_protocol_version :: u16
  cq_transports :: "string list"
  cq_features :: "string list"
  cq_max_frame_bytes :: u32
  cq_max_payload_bytes :: u32
  cq_webtransport :: "string option"

definition capabilities_of :: "app_state \<Rightarrow> capabilities_response" where
  "capabilities_of state = \<lparr>cq_protocol_version = PROTOCOL_VERSION,
     cq_transports = (if st_quic_enabled state then [''quic''] else [])
       @ (if st_webtransport_enabled state then [''webtransport''] else []),
     cq_features = (if st_inference_enabled state then [''inference''] else []),
     cq_max_frame_bytes = 1048576, cq_max_payload_bytes = 262144,
     cq_webtransport = st_webtransport_endpoint state\<rparr>"

definition writeln :: "string \<Rightarrow> string" where
  "writeln line = line @ [CHR 0x0A]"

definition write_metric :: "string \<Rightarrow> string \<Rightarrow> string \<Rightarrow> u64 \<Rightarrow> string" where
  "write_metric type name help v =
     writeln (''# HELP '' @ name @ '' '' @ help) @ writeln (''# TYPE '' @ name @ '' '' @ type)
     @ writeln (name @ '' '' @ show_nat (unat v))"

definition write_gauge :: "string \<Rightarrow> string \<Rightarrow> u64 \<Rightarrow> string" where
  "write_gauge = write_metric ''gauge''"

definition write_counter :: "string \<Rightarrow> string \<Rightarrow> u64 \<Rightarrow> string" where
  "write_counter = write_metric ''counter''"

text \<open>The live counts are asked of the worker; a worker that is gone counts as zero.\<close>

definition metrics :: "app_state \<Rightarrow> ('c, 'w) bridge_env \<Rightarrow> nat \<Rightarrow> ('c, 'w) gateway \<Rightarrow> string \<times> ('c, 'w) gateway" where
  "metrics state env n g =
     (case ask env n WR_LiveCounts g of (reply, g') \<Rightarrow>
        let live = (case reply of WP_Counts counts \<Rightarrow> counts
              | _ \<Rightarrow> \<lparr>lc_connections_active = 0, lc_sessions_active = 0\<rparr>);
            counters = gw_metrics g'
        in (concat
          [write_gauge ''woven_connections_active'' ''Currently connected clients.''
             (of_nat (lc_connections_active live)),
           write_gauge ''woven_connections_max'' ''Configured maximum concurrent connections.''
             (of_nat (st_max_connections state)),
           write_gauge ''woven_sessions_active'' ''Currently provisioned sessions.''
             (of_nat (lc_sessions_active live)),
           write_gauge ''woven_sessions_max'' ''Configured maximum concurrent sessions.''
             (of_nat (st_max_sessions state)),
           write_counter ''woven_connections_total'' ''Connections accepted since process start.''
             (sm_connections_total counters),
           write_counter ''woven_authenticate_rejected_total''
             ''Authentication attempts rejected since process start.'' (sm_authenticate_rejected_total counters),
           write_counter ''woven_join_rejected_total'' ''Session join attempts rejected since process start.''
             (sm_join_rejected_total counters),
           write_counter ''woven_publishes_total'' ''Publish commands processed since process start.''
             (sm_publishes_total counters),
           write_counter ''woven_transform_publishes_total''
             ''Of woven_publishes_total, those carrying an entity transform.''
             (sm_transform_publishes_total counters),
           write_counter ''woven_publish_bytes_received_total''
             ''Publish payload bytes received since process start.'' (sm_publish_bytes_received_total counters),
           write_counter ''woven_publish_bytes_delivered_total''
             ''Publish payload bytes fanned out to recipients since process start.''
             (sm_publish_bytes_delivered_total counters),
           write_counter ''woven_events_delivered_total'' ''Recipient delivery attempts since process start.''
             (sm_events_delivered_total counters),
           write_counter ''woven_queue_dropped_total''
             ''Outbound messages dropped for capacity since process start.'' (sm_queue_dropped_total counters),
           write_counter ''woven_queue_evicted_total''
             ''Outbound messages evicted or coalesced since process start.'' (sm_queue_evicted_total counters)],
         g'))"

datatype http_response =
    HR_Health health_response
  | HR_Status u16
  | HR_Metrics string
  | HR_Capabilities capabilities_response

text \<open>The router over \<^verbatim>\<open>GET\<close> paths; the library answers any other path.\<close>

definition router_with_transports ::
  "app_state \<Rightarrow> ('c, 'w) bridge_env \<Rightarrow> nat \<Rightarrow> string \<Rightarrow> ('c, 'w) gateway \<Rightarrow> http_response option \<times> ('c, 'w) gateway"
where
  "router_with_transports state env n path g =
     (if path = ''/healthz'' then (Some (HR_Health (health state)), g)
      else if path = ''/readyz'' then (Some (HR_Status (ready state)), g)
      else if path = ''/metrics'' then map_prod (Some \<circ> HR_Metrics) id (metrics state env n g)
      else if path = ''/v1/capabilities'' then (Some (HR_Capabilities (capabilities_of state)), g)
      else (None, g))"

section \<open>Arguments\<close>

datatype activity_log_mode = LM_None | LM_All | LM_Transform

datatype argument_error = AE_Usage | AE_Unknown string | AE_Several

fun parse_arguments :: "bool \<Rightarrow> activity_log_mode \<Rightarrow> string list \<Rightarrow> argument_error + activity_log_mode" where
  "parse_arguments selected mode [] = Inr mode"
| "parse_arguments selected mode (argument # arguments) =
     and_then (if argument = ''--log-none'' then Inr LM_None
         else if argument = ''--log-all'' then Inr LM_All
         else if argument = ''--log-transform'' then Inr LM_Transform
         else if argument = ''--help'' \<or> argument = ''-h'' then Inl AE_Usage
         else Inl (AE_Unknown argument))
       (\<lambda>parsed. if selected then Inl AE_Several else parse_arguments True parsed arguments)"

definition activity_log_mode_parse :: "string list \<Rightarrow> argument_error + activity_log_mode" where
  "activity_log_mode_parse = parse_arguments False LM_None"

definition activity_logging_supported :: "bool \<Rightarrow> activity_log_mode \<Rightarrow> bool" where
  "activity_logging_supported debug_assertions mode = (debug_assertions \<or> mode = LM_None)"

end
