(* ===== verification/ServerProps.thy ===== *)
theory ServerProps
  imports Server
begin

text \<open>
  The development composition, evaluated: its core is set up without an error, and the coordinator
  finds its place in it.
\<close>

section \<open>The core in stages\<close>

definition development_principal :: authenticated_principal where
  "development_principal = \<lparr>ap_principal_id = 1, ap_grants = development_grants\<rparr>"

definition ai_principal :: authenticated_principal where
  "ai_principal = \<lparr>ap_principal_id = AI_PRINCIPAL_ID, ap_grants = ai_grants\<rparr>"

definition development_start :: core where
  "development_start = demo_core\<lparr>co_authenticator := da_authenticate development_authenticator\<rparr>"

definition development_state_of ::
  "connection_id \<Rightarrow> entity_id \<Rightarrow> (connection_id, connection_state) btmap \<Rightarrow> connection_id btset
   \<Rightarrow> connection_id btset \<Rightarrow> (entity_id, entity_record) btmap \<Rightarrow> core" where
  "development_state_of nc ne conns members subs entities = development_start\<lparr>
     co_next_connection_id := nc, co_next_entity_id := ne, co_connections := conns,
     co_channels :=
       bt_insert 1 (channel_relay_owned 1 ReliableOrdered Ephemeral (64 * 1024))
       (bt_insert 2 (channel_relay_owned 2 LatestValue Stateful (64 * 1024))
       (bt_insert 3 (channel_relay_owned 3 LatestValue Stateful (64 * 1024)) bt_new)),
     co_sessions := bt_insert development_session (session_new\<lparr>sn_members := members,
       sn_space_map := bt_insert 1 (development_descriptor 1) (bt_insert 2 (development_descriptor 2) bt_new),
       sn_subscribers := bt_insert 1 subs (bt_insert 2 bt_new bt_new), sn_entity_map := entities\<rparr>) bt_new\<rparr>"

definition development_ready :: core where
  "development_ready = development_state_of 1 1 bt_new bt_new bt_new bt_new"

lemmas development_defs = development_state_of_def development_start_def development_session_def
  development_descriptor_def ai_identity_config_def ai_session_key_def ai_space_key_def
  AI_DEV_TOKEN_def AI_PRINCIPAL_ID_def AI_STATUS_CHANNEL_ID_def demo_core_def

lemma development_authenticator_eq:
  "da_identities development_authenticator
     = bt_insert ''ai-companion-dev-token'' ai_principal (bt_insert ''dev-token'' development_principal bt_new)"
  by (simp add: development_authenticator_def insert_identity_def da_insert_def da_new_def
      AI_DEV_TOKEN_def ai_principal_def development_principal_def bt_contains_key_def bt_len_insert da_default_max_identities_def)

lemma development_core_new:
  "core_new (da_authenticate development_authenticator) cc_default = Inr development_start"
  using demo_core_new by (simp add: core_new_def development_start_def demo_core_def result_ok)

lemma development_core_setup: "development_core = run_setup development_setup development_start"
  by (simp add: development_core_def development_core_new and_then_def)

lemma development_core_ready: "development_core = Inr development_ready"
  unfolding development_core_setup
  by (simp add: development_setup_def development_ready_def development_defs
      ground_maps eval core_op_defs cc_default_def qc_default_def)

lemma development_ready_reachable: "reachable_core development_ready"
proof -
  let ?actions = "[A_RegisterChannel (channel_relay_owned 1 ReliableOrdered Ephemeral (64 * 1024)),
    A_RegisterChannel (channel_relay_owned 2 LatestValue Stateful (64 * 1024)),
    A_RegisterChannel (channel_relay_owned AI_STATUS_CHANNEL_ID LatestValue Stateful (64 * 1024)),
    A_ProvisionSession development_session,
    A_InstallSpace development_session (development_descriptor 1),
    A_InstallSpace development_session (development_descriptor 2)]"
  have "core_run development_start ?actions = development_ready"
    using development_core_ready unfolding development_core_setup
    by (simp add: core_run_def development_setup_def split: prod.splits sum.splits)
  then show ?thesis
    unfolding reachable_core_def using demo_config_ok development_core_new by metis
qed

section \<open>The coordinator's connection\<close>

definition ai_connection_of ::
  "authenticated_principal option \<Rightarrow> session_key btset \<Rightarrow> space_key btset \<Rightarrow> usize \<Rightarrow> connection_state" where
  "ai_connection_of p memberships subscriptions owned = demo_connection p memberships subscriptions owned"

definition ai_home_space :: space_key where
  "ai_home_space = SpaceKey development_session 1"

definition ai_entity_record :: entity_record where
  "ai_entity_record = \<lparr>er_id = 1, er_owner_connection = 1, er_owner_principal = AI_PRINCIPAL_ID,
     er_space = 1, er_space_epoch = 1, er_position = None\<rparr>"

lemmas connection_defs = ai_connection_of_def demo_connection_def demo_queue0_def ai_home_space_def ai_entity_record_def

lemmas development_simps = ground_maps eval core_op_defs development_defs connection_defs cc_default_def qc_default_def

lemma ai_connects:
  "transport_connected development_ready
     = (Inr 1, development_state_of 2 1 (bt_insert 1 (ai_connection_of None bt_new bt_new 0) bt_new) bt_new bt_new bt_new)"
  by (simp add: development_ready_def development_simps u64_checked_succ_def)

lemma ai_authenticates:
  "authenticate 1 \<lparr>cr_token = AI_DEV_TOKEN\<rparr>
     (development_state_of 2 1 (bt_insert 1 (ai_connection_of None bt_new bt_new 0) bt_new) members subs entities)
   = (Inr 2, development_state_of 2 1 (bt_insert 1 (ai_connection_of (Some ai_principal) bt_new bt_new 0) bt_new)
       members subs entities)"
  by (simp add: development_simps development_authenticator_eq ai_principal_def)

lemma ai_joins:
  "join_session 1 development_session
     (development_state_of 2 1 (bt_insert 1 (ai_connection_of (Some ai_principal) bt_new bt_new 0) bt_new) bt_new subs entities)
   = (Inr (), development_state_of 2 1
       (bt_insert 1 (ai_connection_of (Some ai_principal) (bs_insert development_session bt_new) bt_new 0) bt_new)
       (bs_insert 1 bt_new) subs entities)"
  by (simp add: development_simps ai_principal_def ai_grants_def)

lemma ai_subscribes:
  "subscribe 1 ai_home_space (development_state_of 2 1
       (bt_insert 1 (ai_connection_of (Some ai_principal) (bs_insert development_session bt_new) bt_new 0) bt_new)
       members bt_new entities)
   = (Inr (), development_state_of 2 1
       (bt_insert 1 (ai_connection_of (Some ai_principal) (bs_insert development_session bt_new) (bs_insert ai_home_space bt_new) 0) bt_new)
       members (bs_insert 1 bt_new) entities)"
  by (simp add: development_simps ai_principal_def ai_grants_def)

lemma ai_spawns:
  "spawn_entity 1 ai_home_space 1 (development_state_of 2 1
       (bt_insert 1 (ai_connection_of (Some ai_principal) (bs_insert development_session bt_new) (bs_insert ai_home_space bt_new) 0) bt_new)
       members subs bt_new)
   = (Inr 1, development_state_of 2 2
       (bt_insert 1 (ai_connection_of (Some ai_principal) (bs_insert development_session bt_new) (bs_insert ai_home_space bt_new) 1) bt_new)
       members subs (bt_insert 1 ai_entity_record bt_new))"
  by (simp add: development_simps ai_principal_def ai_grants_def u64_checked_succ_def)

section \<open>Starting the server\<close>

text \<open>A command without a lifecycle action, asked of a worker that nobody else uses.\<close>

lemma execute_silent:
  assumes "be_others env n g = g" "lifecycle_action_of command = LA_None"
    "handle (be_clock env n) command (gw_core g) = (Inr r, c)"
  shows "\<exists>m. execute env n command g = (Inr r, g\<lparr>gw_core := c, gw_metrics := m\<rparr>)"
  using assms by (intro exI [of _ "observe_command (metrics_context_of command) (Inr r) (gw_metrics g)"])
    (simp add: execute_def ask_def worker_command_def gw_command_def apply_lifecycle_action_def map_err_def)

lemma spawn_unobserved:
  assumes "be_others env n g = g" "bt_iter (gw_subscriptions g) = []"
    "subscribe connection space (gw_core g) = (Inr (), c1)" "spawn_entity connection space epoch c1 = (Inr entity, c2)"
  shows "subscribe_and_spawn env n connection space epoch g = (Inr entity, g\<lparr>gw_core := c2\<rparr>)"
  using assms by (simp add: subscribe_and_spawn_def ask_def worker_subscribe_and_spawn_def
      distribute_to_space_excluding_def distribute_with_def fan_targets_def map_err_def)

lemma development_tools_found:
  "\<exists>tools. development_tools env n = Inr tools
     \<and> bt_get tools (''diagnostics.report'', 1) = Some DiagnosticTool
     \<and> bt_get tools (''status.set'', 1) = Some (StatusUpdateTool 3)"
  by (simp add: development_tools_def tool_register_def demo_tool_ops_def demo_tool_definition_def
      MAX_REGISTERED_TOOLS_def bt_len_insert bt_get_insert AI_STATUS_CHANNEL_ID_def)

definition development_with_ai :: core where
  "development_with_ai = development_state_of 2 2
     (bt_insert 1 (ai_connection_of (Some ai_principal) (bs_insert development_session bt_new) (bs_insert ai_home_space bt_new) 1) bt_new)
     (bs_insert 1 bt_new) (bs_insert 1 bt_new) (bt_insert 1 ai_entity_record bt_new)"

lemma development_with_ai_reachable: "reachable_core development_with_ai"
proof -
  have command: "reachable_core (snd (handle demo_clock command c))" if "reachable_core c" for command c
    using reachable_step [OF that, of "A_Command demo_clock command"] by simp
  note connected = command [OF development_ready_reachable, of C_TransportConnected, simplified, unfolded ai_connects map_op_def, simplified]
  note authenticated = command [OF connected, of "C_Authenticate 1 \<lparr>cr_token = AI_DEV_TOKEN\<rparr>", simplified, unfolded ai_authenticates map_op_def, simplified]
  note joined = command [OF authenticated, of "C_JoinSession 1 development_session", simplified, unfolded ai_joins map_op_def, simplified]
  note subscribed = command [OF joined, of "C_Subscribe 1 ai_home_space", simplified, unfolded ai_subscribes map_op_def, simplified]
  note spawned = command [OF subscribed, of "C_SpawnEntity 1 ai_home_space 1", simplified, unfolded ai_spawns map_op_def, simplified]
  show ?thesis using spawned by (simp add: development_with_ai_def)
qed

lemma ai_identity_established:
  assumes "\<And>n g. be_others env n g = g"
  shows "\<exists>m. establish_identity env ai_identity_config (gateway_new development_ready world)
     = (Inr (1, 1), (gateway_new development_ready world)\<lparr>gw_core := development_with_ai, gw_metrics := m\<rparr>)"
proof -
  let ?g = "gateway_new development_ready world"
  note quiet = execute_silent [OF assms]
  have core: "gw_core (gateway_new development_ready world) = development_ready" for world :: 'w
    by (simp add: gateway_new_def)
  obtain c1 where c1: "transport_connected development_ready = (Inr 1, c1)"
      "c1 = development_state_of 2 1 (bt_insert 1 (ai_connection_of None bt_new bt_new 0) bt_new) bt_new bt_new bt_new"
    using ai_connects by simp
  obtain m1 where m1: "execute env 0 C_TransportConnected ?g = (Inr (R_Connected 1), ?g\<lparr>gw_core := c1, gw_metrics := m1\<rparr>)"
    using quiet [of C_TransportConnected 0 ?g "R_Connected 1" c1] by (auto simp: map_op_def c1(1) core)
  obtain c2 where c2: "authenticate 1 \<lparr>cr_token = AI_DEV_TOKEN\<rparr> c1 = (Inr 2, c2)"
      "c2 = development_state_of 2 1 (bt_insert 1 (ai_connection_of (Some ai_principal) bt_new bt_new 0) bt_new) bt_new bt_new bt_new"
    using ai_authenticates c1(2) by simp
  obtain m2 where m2: "execute env 1 (C_Authenticate 1 \<lparr>cr_token = AI_DEV_TOKEN\<rparr>) (?g\<lparr>gw_core := c1, gw_metrics := m1\<rparr>)
      = (Inr (R_Authenticated 2), ?g\<lparr>gw_core := c2, gw_metrics := m2\<rparr>)"
    using quiet [of "C_Authenticate 1 \<lparr>cr_token = AI_DEV_TOKEN\<rparr>" 1 "?g\<lparr>gw_core := c1, gw_metrics := m1\<rparr>"
        "R_Authenticated 2" c2] by (auto simp: map_op_def c2(1))
  obtain c3 where c3: "join_session 1 development_session c2 = (Inr (), c3)"
      "c3 = development_state_of 2 1
       (bt_insert 1 (ai_connection_of (Some ai_principal) (bs_insert development_session bt_new) bt_new 0) bt_new)
       (bs_insert 1 bt_new) bt_new bt_new"
    using ai_joins c2(2) by simp
  obtain m3 where m3: "execute env 2 (C_JoinSession 1 development_session) (?g\<lparr>gw_core := c2, gw_metrics := m2\<rparr>)
      = (Inr R_Joined, ?g\<lparr>gw_core := c3, gw_metrics := m3\<rparr>)"
    using quiet [of "C_JoinSession 1 development_session" 2 "?g\<lparr>gw_core := c2, gw_metrics := m2\<rparr>" R_Joined c3]
    by (auto simp: map_op_def c3(1))
  have "subscribe_and_spawn env 3 1 ai_home_space 1 (?g\<lparr>gw_core := c3, gw_metrics := m3\<rparr>)
      = (Inr 1, ?g\<lparr>gw_core := development_with_ai, gw_metrics := m3\<rparr>)"
    using spawn_unobserved [OF assms, of "?g\<lparr>gw_core := c3, gw_metrics := m3\<rparr>" 1 ai_home_space] ai_subscribes ai_spawns
    by (simp add: c3(2) gateway_new_def development_with_ai_def)
  moreover have "ai_session_key ai_identity_config = development_session" "ai_space_key ai_identity_config = ai_home_space"
    "ai_token ai_identity_config = AI_DEV_TOKEN" "ai_space_epoch ai_identity_config = 1"
    by (simp_all add: ai_space_key_def ai_session_key_def ai_identity_config_def ai_home_space_def development_session_def)
  ultimately show ?thesis by (intro exI [of _ m3]) (simp add: establish_identity_def m1 m2 m3 del: One_nat_def)
qed

text \<open>
  C40. The development server starts, with the inference plane on. Its core is set up without an
  error and is one the core's invariants hold of. As long as no client has been let in yet, the
  coordinator registers both of its tools and takes its identity: connection 1 owns entity 1 in the
  first space, is the session's only member, and nothing was sent to anyone.
\<close>

theorem development_server_starts:
  assumes "\<And>n g. be_others env n g = g"
  shows "\<exists>c tools g. development_core = Inr c \<and> reachable_core c \<and> session_count c = 1
     \<and> spawn_inference_coordinator env (gateway_new c world) = (Inr (1, 1, coordinator_new 16, tools), g)
     \<and> bt_get tools (''diagnostics.report'', 1) = Some DiagnosticTool
     \<and> bt_get tools (''status.set'', 1) = Some (StatusUpdateTool 3)
     \<and> connection_count (gw_core g) = 1
     \<and> map_option sn_members (bt_get (co_sessions (gw_core g)) (SessionKey 1 1)) = Some (bs_insert 1 bt_new)
     \<and> Option.bind (bt_get (co_sessions (gw_core g)) (SessionKey 1 1)) (\<lambda>s. bt_get (sn_entity_map s) 1)
         = Some \<lparr>er_id = 1, er_owner_connection = 1, er_owner_principal = 2, er_space = 1, er_space_epoch = 1,
             er_position = None\<rparr>
     \<and> gw_world g = world"
proof -
  obtain tools where tools: "development_tools env 0 = Inr tools"
      "bt_get tools (''diagnostics.report'', 1) = Some DiagnosticTool"
      "bt_get tools (''status.set'', 1) = Some (StatusUpdateTool 3)"
    using development_tools_found [of env 0] by blast
  obtain m where m: "establish_identity env ai_identity_config (gateway_new development_ready world)
      = (Inr (1, 1), (gateway_new development_ready world)\<lparr>gw_core := development_with_ai, gw_metrics := m\<rparr>)"
    using ai_identity_established [OF assms, of world] by blast
  have "session_count development_ready = 1"
    by (simp add: session_count_def development_ready_def development_state_of_def bt_len_insert)
  moreover have "spawn_inference_coordinator env (gateway_new development_ready world)
      = (Inr (1, 1, coordinator_new 16, tools),
         (gateway_new development_ready world)\<lparr>gw_core := development_with_ai, gw_metrics := m\<rparr>)"
    by (simp add: spawn_inference_coordinator_def tools(1) m INFERENCE_QUEUE_CAPACITY_def)
  ultimately show ?thesis
    using development_core_ready development_ready_reachable tools(2,3)
    by (intro exI [of _ development_ready] exI [of _ tools]
        exI [of _ "(gateway_new development_ready world)\<lparr>gw_core := development_with_ai, gw_metrics := m\<rparr>"])
      (simp add: gateway_new_def development_with_ai_def development_state_of_def
        connection_count_def bt_len_insert development_session_def ai_entity_record_def AI_PRINCIPAL_ID_def)
qed

lemma development_server_starts_witness:
  "\<exists>c tools g. development_core = Inr c
     \<and> spawn_inference_coordinator
         \<lparr>be_ops = \<lparr>op_try_send = \<lambda>sender e w. (True, w), op_try_shutdown = \<lambda>x w. (True, w)\<rparr>,
          be_clock = (\<lambda>_. demo_clock), be_others = (\<lambda>_ g. g), be_render_error = (\<lambda>_. []),
          be_render_snapshot = (\<lambda>_. []), be_inference_sink = None\<rparr> (gateway_new c ())
       = (Inr (1, 1, coordinator_new 16, tools), g)"
proof -
  let ?env = "\<lparr>be_ops = \<lparr>op_try_send = \<lambda>sender e w. (True, w), op_try_shutdown = \<lambda>x w. (True, w)\<rparr>,
          be_clock = (\<lambda>_. demo_clock), be_others = (\<lambda>_ g. g), be_render_error = (\<lambda>_. []),
          be_render_snapshot = (\<lambda>_. []), be_inference_sink = None\<rparr>"
  have "be_others ?env n g = g" for n g by simp
  then show ?thesis using development_server_starts [of ?env "()"] by blast
qed

text \<open>
  Who holds the development token may not read the status channel, so that the coordinator is alone
  in receiving its status updates.
\<close>

lemma status_updates_are_not_for_clients:
  "\<not> can_receive development_principal development_session sp AI_STATUS_CHANNEL_ID"
  "can_receive ai_principal development_session 1 AI_STATUS_CHANNEL_ID"
  by (simp_all add: can_receive_def development_principal_def ai_principal_def development_grants_def ai_grants_def
      can_read_channel_def grant_channel_def grant_space_def grant_session_def grant_namespace_def grants_new_def
      AI_STATUS_CHANNEL_ID_def bt_get_insert can_read_namespace_def can_read_session_def can_read_space_def
      opt_is_some_and_def development_session_def)

end
