(* ===== verification/UsageSinks.thy ===== *)
theory UsageSinks
  imports Usage "HOL-Library.Sublist"
begin

text \<open>
  What the sinks of \<^verbatim>\<open>woven-core/src/usage.rs\<close> promise: the contract of a sink as a locale, the sinks
  of the code as its instances, and the sink that appends JSON lines to a file. The file and the
  serialisation are parameters.
\<close>

section \<open>The file sink\<close>

record 'f file_ops =
  fo_write_all :: "u8 list \<Rightarrow> 'f \<Rightarrow> (string + unit) \<times> 'f"
  fo_flush :: "'f \<Rightarrow> (string + unit) \<times> 'f"

record 'f jsonl_file_sink =
  jf_path :: string
  jf_writer :: 'f

definition jsonl_new ::
  "(string \<Rightarrow> string + 'f) \<Rightarrow> string \<Rightarrow> string + 'f jsonl_file_sink" where
  "jsonl_new open_append path =
     and_then (open_append path) (\<lambda>file. Inr \<lparr>jf_path = path, jf_writer = file\<rparr>)"

definition jsonl_append ::
  "'f file_ops \<Rightarrow> (usage_window \<Rightarrow> string + u8 list) \<Rightarrow> 'f jsonl_file_sink usage_sink" where
  "jsonl_append ops to_vec s window =
     (let retry = (\<lambda>message. \<lparr>se_message = message, se_retryable = True\<rparr>) in
      case to_vec window of
        Inl message \<Rightarrow> (Inl \<lparr>se_message = message, se_retryable = False\<rparr>, s)
      | Inr bytes \<Rightarrow>
          (case fo_write_all ops bytes (jf_writer s) of
             (Inl message, f) \<Rightarrow> (Inl (retry message), s\<lparr>jf_writer := f\<rparr>)
           | (Inr _, f) \<Rightarrow>
               (case fo_write_all ops [10] f of
                  (Inl message, f1) \<Rightarrow> (Inl (retry message), s\<lparr>jf_writer := f1\<rparr>)
                | (Inr _, f1) \<Rightarrow>
                    (case fo_flush ops f1 of
                       (r, f2) \<Rightarrow> (map_err retry r, s\<lparr>jf_writer := f2\<rparr>)))))"

section \<open>The contract\<close>

definition sink_run :: "'s usage_sink \<Rightarrow> 's \<Rightarrow> usage_window list \<Rightarrow> 's" where
  "sink_run sink = foldl (\<lambda>s w. snd (sink s w))"

text \<open>
  A sink may refuse or forget a window, but it never repeats, reorders or invents one: what it holds
  after an append is part of what it held, followed by the new window; and a sink that asks for a
  retry has not kept the window.
\<close>

locale ordered_sink =
  fixes sink :: "'s usage_sink" and held :: "'s \<Rightarrow> usage_window list"
  assumes append_ordered: "subseq (held (snd (sink s w))) (held s @ [w])"
    and retry_unkept: "fst (sink s w) = Inl e \<Longrightarrow> se_retryable e \<Longrightarrow> subseq (held (snd (sink s w))) (held s)"
begin

lemma append_extends: "subseq (held s) ws \<Longrightarrow> subseq (held (snd (sink s w))) (ws @ [w])"
  using append_ordered by (rule subseq_order.order_trans) (simp add: list_emb_append_mono)

lemma run_ordered: "subseq (held s) ws \<Longrightarrow> subseq (held (sink_run sink s vs)) (ws @ vs)"
proof (induction vs arbitrary: s ws)
  case (Cons v vs)
  then show ?case using append_extends [of s ws v] Cons.IH [of "snd (sink s v)" "ws @ [v]"]
    by (simp add: sink_run_def)
qed (simp add: sink_run_def)

end

text \<open>The spool in front of a sink, over what the sink holds.\<close>

definition spool_held :: "('s \<Rightarrow> usage_window list) \<Rightarrow> 's spooling_sink \<Rightarrow> usage_window list" where
  "spool_held held s = held (sp_inner s) @ sp_spool s"

lemma subseq_tl: "subseq (tl xs) xs"
  by (cases xs) (simp_all add: subseq_Cons')

lemma push_to_spool_inner [simp]: "sp_inner (push_to_spool w s) = sp_inner s"
  by (simp add: push_to_spool_def Let_def)

lemma push_to_spool_subseq: "subseq (sp_spool (push_to_spool w s)) (sp_spool s @ [w])"
  by (simp add: push_to_spool_def Let_def list_emb_append_mono subseq_tl)

context ordered_sink
begin

lemma drain_ordered:
  "sp_drain_spool sink spool w s = (r, s') \<Longrightarrow>
     (case r of Inl _ \<Rightarrow> subseq (spool_held held s') (held (sp_inner s) @ spool @ [w])
      | Inr _ \<Rightarrow> sp_spool s' = [] \<and> subseq (held (sp_inner s')) (held (sp_inner s) @ spool))"
proof (induction spool arbitrary: s)
  case (Cons p spool)
  obtain r1 inner where step: "sink (sp_inner s) p = (r1, inner)" by force
  have longer: "subseq (held inner @ xs) (held (sp_inner s) @ p # xs)" for xs
    using list_emb_append_mono [OF append_ordered [of "sp_inner s" p] subseq_order.order_refl [of xs]] step by simp
  have further: ?case if "sp_drain_spool sink spool w s1 = (r, s')" "sp_inner s1 = inner" for s1
    using Cons.IH [OF that(1)] that(2) subseq_order.order_trans [OF _ longer]
    by (cases r) simp_all
  show ?case
  proof (cases "\<exists>e. r1 = Inl e \<and> se_retryable e")
    case True
    then have r: "r = r1" "s' = push_to_spool w (s\<lparr>sp_inner := inner, sp_spool := spool\<rparr>)"
      using Cons.prems step by auto
    have "subseq (spool_held held s') (held inner @ spool @ [w])"
      using push_to_spool_subseq [of w "s\<lparr>sp_inner := inner, sp_spool := spool\<rparr>"]
      by (simp add: r(2) spool_held_def list_emb_append_mono)
    then have "subseq (spool_held held s') (held (sp_inner s) @ p # spool @ [w])"
      using subseq_order.order_trans longer by blast
    then show ?thesis using True r(1) by auto
  next
    case False
    then show ?thesis using Cons.prems step further by (cases r1) auto
  qed
qed auto

lemma spool_append_ordered:
  "subseq (spool_held held (snd (sp_append sink s w))) (spool_held held s @ [w])"
proof -
  obtain r s1 where d: "sp_drain_spool sink (sp_spool s) w s = (r, s1)" by force
  note drained = drain_ordered [OF d]
  show ?thesis
  proof (cases r)
    case (Inl e)
    then show ?thesis using d drained by (simp add: sp_append_def spool_held_def)
  next
    case (Inr u)
    obtain r2 inner where step: "sink (sp_inner s1) w = (r2, inner)" by force
    have empty: "sp_spool s1 = []" and before: "subseq (held (sp_inner s1)) (spool_held held s)"
      using drained Inr by (simp_all add: spool_held_def)
    have base: "subseq (held (sp_inner s1) @ [w]) (spool_held held s @ [w])"
      using before by (rule list_emb_append_mono) simp
    have unkept: "subseq (held inner) (held (sp_inner s1))" if "r2 = Inl e" "se_retryable e" for e
      using retry_unkept [of "sp_inner s1" w] step that by simp
    have pushed: "subseq (sp_spool (push_to_spool w (s1\<lparr>sp_inner := inner\<rparr>))) [w]"
      using push_to_spool_subseq [of w "s1\<lparr>sp_inner := inner\<rparr>"] empty by simp
    have kept: "subseq (held inner) (held (sp_inner s1) @ [w])"
      using append_ordered [of "sp_inner s1" w] step by simp
    have "subseq (spool_held held (snd (sp_append sink s w))) (held (sp_inner s1) @ [w])"
    proof (cases "\<exists>e. r2 = Inl e \<and> se_retryable e")
      case True
      then have "snd (sp_append sink s w) = push_to_spool w (s1\<lparr>sp_inner := inner\<rparr>)"
        using d Inr step by (auto simp: sp_append_def)
      moreover have "subseq (held inner) (held (sp_inner s1))" using True unkept by blast
      ultimately show ?thesis using list_emb_append_mono [OF _ pushed] by (simp add: spool_held_def)
    next
      case False
      then have "sp_inner (snd (sp_append sink s w)) = inner \<and> sp_spool (snd (sp_append sink s w)) = []"
        using d Inr step empty by (cases r2) (simp_all add: sp_append_def)
      then show ?thesis using kept by (simp add: spool_held_def)
    qed
    then show ?thesis using base subseq_order.order_trans by blast
  qed
qed

end

lemma spool_run_held:
  assumes "ordered_sink sink held" "subseq (spool_held held s) vs"
  shows "subseq (spool_held held (sink_run (sp_append sink) s ws)) (vs @ ws)"
  using assms(2)
proof (induction ws arbitrary: s vs)
  case (Cons w ws)
  have "subseq (spool_held held (snd (sp_append sink s w))) (vs @ [w])"
    using ordered_sink.spool_append_ordered [OF assms(1), of s w]
      list_emb_append_mono [OF Cons.prems subseq_order.order_refl [of "[w]"]]
    by (rule subseq_order.order_trans)
  then show ?case using Cons.IH [of "snd (sp_append sink s w)" "vs @ [w]"] by (simp add: sink_run_def)
qed (simp add: sink_run_def)

section \<open>The sinks of the code\<close>

interpretation memory: ordered_sink ms_append ms_windows
  by unfold_locales (auto simp: ms_append_def Let_def list_emb_append_mono subseq_tl)

interpretation noop: ordered_sink noop_append "\<lambda>_. []"
  by unfold_locales (auto simp: noop_append_def)

text \<open>On a file that takes every write, the file sink adds one line for each window, in order.\<close>

lemma jsonl_log:
  assumes "\<And>bytes f. fo_write_all ops bytes f = (Inr (), f @ bytes)" "\<And>f. fo_flush ops f = (Inr (), f)"
    "\<And>w. to_vec w = Inr (line w)"
  shows "jf_writer (sink_run (jsonl_append ops to_vec) s ws)
    = jf_writer s @ concat (map (\<lambda>w. line w @ [10]) ws)"
  by (induction ws arbitrary: s) (simp_all add: sink_run_def jsonl_append_def assms map_err_def)

section \<open>The spool\<close>

lemma push_to_spool_length:
  "0 < sp_capacity s \<Longrightarrow> length (sp_spool s) \<le> sp_capacity s \<Longrightarrow>
     length (sp_spool (push_to_spool w s)) \<le> sp_capacity s \<and> sp_capacity (push_to_spool w s) = sp_capacity s"
  by (auto simp: push_to_spool_def Let_def)

lemma spool_drain_bounded:
  "sp_drain_spool sink spool w s = (r, s') \<Longrightarrow> 0 < sp_capacity s \<Longrightarrow> length spool \<le> sp_capacity s \<Longrightarrow>
     sp_capacity s' = sp_capacity s \<and> length (sp_spool s') \<le> sp_capacity s"
proof (induction spool arbitrary: s)
  case (Cons p spool)
  then show ?case
    using push_to_spool_length [of "s\<lparr>sp_inner := snd (sink (sp_inner s) p), sp_spool := spool\<rparr>" w]
    by (auto split: prod.splits sum.splits if_splits dest!: Cons.IH)
qed auto

lemma spool_append_bounded:
  assumes "0 < sp_capacity s" "length (sp_spool s) \<le> sp_capacity s"
  shows "sp_capacity (snd (sp_append sink s w)) = sp_capacity s
    \<and> length (sp_spool (snd (sp_append sink s w))) \<le> sp_capacity s"
proof -
  obtain r s1 where d: "sp_drain_spool sink (sp_spool s) w s = (r, s1)" by force
  note b = spool_drain_bounded [OF d assms]
  show ?thesis
    using d b assms push_to_spool_length [of "s1\<lparr>sp_inner := snd (sink (sp_inner s1) w)\<rparr>" w]
    by (auto simp: sp_append_def split: sum.split prod.split)
qed

lemma spool_run_bounded:
  "0 < sp_capacity s \<Longrightarrow> length (sp_spool s) \<le> sp_capacity s \<Longrightarrow>
     length (sp_spool (sink_run (sp_append sink) s ws)) \<le> sp_capacity s"
proof (induction ws arbitrary: s)
  case (Cons w ws)
  then show ?case using spool_append_bounded [OF Cons.prems, of sink w] Cons.IH [of "snd (sp_append sink s w)"]
    by (simp add: sink_run_def)
qed (simp add: sink_run_def)

text \<open>
  C25. The spool keeps usage windows in order. Whatever windows are appended to a new spool in front
  of a sink that keeps its own order and does not keep what it asks to retry, what the sink holds
  followed by what waits in the spool is a subsequence of the windows appended: none is repeated,
  invented or overtaken by a later one. The spool never outgrows its capacity, unless that is zero.
\<close>

theorem spooling_keeps_windows_in_order:
  assumes "\<And>s w. subseq (held (snd (sink s w))) (held s @ [w])"
    and "\<And>s w e. fst (sink s w) = Inl e \<Longrightarrow> se_retryable e \<Longrightarrow> subseq (held (snd (sink s w))) (held s)"
    and "held inner = []"
  shows "let s = sink_run (sp_append sink) (sp_new inner capacity) ws in
    subseq (held (sp_inner s) @ sp_spool s) ws \<and> (0 < capacity \<longrightarrow> length (sp_spool s) \<le> capacity)"
proof -
  have "ordered_sink sink held" using assms(1,2) by unfold_locales
  then have "subseq (spool_held held (sink_run (sp_append sink) (sp_new inner capacity) ws)) ([] @ ws)"
    by (rule spool_run_held) (simp add: spool_held_def sp_new_def assms(3))
  then show ?thesis
    using spool_run_bounded [of "sp_new inner capacity" sink ws] by (simp add: Let_def spool_held_def sp_new_def)
qed

text \<open>A memory sink that is full for one call in two.\<close>

definition flaky_append :: "(bool \<times> memory_usage_sink) usage_sink" where
  "flaky_append s w = (if fst s then (Inl \<lparr>se_message = ''busy'', se_retryable = True\<rparr>, (False, snd s))
     else (Inr (), (True, snd (ms_append (snd s) w))))"

definition demo_window :: "u64 \<Rightarrow> usage_window" where
  "demo_window n = \<lparr>uw_schema_version = 1, uw_node_id = 1, uw_session = SessionKey 1 1, uw_window_start = 0,
     uw_window_end = 0, uw_sequence = n, uw_capacity_revision = 0, uw_allocated_ccu = 0, uw_metrics = metrics_default\<rparr>"

lemma spooling_keeps_windows_in_order_witness:
  "subseq (ms_windows (snd (sp_inner (sink_run (sp_append flaky_append) (sp_new (True, ms_new 4) 4)
       [demo_window 1, demo_window 2])))
     @ sp_spool (sink_run (sp_append flaky_append) (sp_new (True, ms_new 4) 4) [demo_window 1, demo_window 2]))
     [demo_window 1, demo_window 2]"
proof -
  have "ms_windows (snd (True, ms_new 4)) = []" by (simp add: ms_new_def)
  moreover have "subseq (ms_windows (snd (snd (flaky_append s w)))) (ms_windows (snd s) @ [w])" for s w
    using memory.append_ordered [of "snd s" w] list_emb_append_mono [of "(=)" "ms_windows (snd s)" "ms_windows (snd s)" "[]" "[w]"]
    by (simp add: flaky_append_def)
  moreover have "subseq (ms_windows (snd (snd (flaky_append s w)))) (ms_windows (snd s))"
    if "fst (flaky_append s w) = Inl e" for s w e
    using that by (simp add: flaky_append_def split: if_splits)
  ultimately show ?thesis
    using spooling_keeps_windows_in_order [where sink = flaky_append and held = "\<lambda>s. ms_windows (snd s)"
        and inner = "(True, ms_new 4)" and capacity = 4 and ws = "[demo_window 1, demo_window 2]"]
    by (simp add: Let_def)
qed

text \<open>
  Order is all that is kept: of two windows appended while the sink asks for retries, the first is
  gone without being counted as dropped.
\<close>

lemma retried_window_is_lost:
  assumes "\<And>s w. sink s w = (Inl \<lparr>se_message = m, se_retryable = True\<rparr>, s)" "2 \<le> capacity"
  shows "let s = sink_run (sp_append sink) (sp_new inner capacity) [w1, w2] in
    sp_spool s = [w2] \<and> sp_dropped_windows s = 0"
  using assms by (simp add: sink_run_def sp_append_def sp_new_def push_to_spool_def Let_def)

end
