(* ===== verification/Loadtest.thy ===== *)
theory Loadtest
  imports Text CoreRun
begin

text \<open>
  \<^verbatim>\<open>woven-loadtest\<close>: the local load scenarios, driven against a core of their own, and the parser of
  their arguments. The clock is a function of the number of readings so far; the printing of the
  result is left out.
\<close>

section \<open>Configuration\<close>

definition LOAD_SESSION :: session_key where "LOAD_SESSION = SessionKey 1 1"
definition LOAD_SPACE_ID :: space_id where "LOAD_SPACE_ID = 1"
definition LOAD_EPOCH :: space_epoch where "LOAD_EPOCH = 1"
definition STATE_CHANNEL :: channel_id where "STATE_CHANNEL = 1"
definition LOAD_PAYLOAD :: "u8 list" where "LOAD_PAYLOAD = bytes_of_string ''woven-load-state''"

datatype scenario = SN_BroadcastAll | SN_TopicOnly | SN_SpatialGrid2D | SN_SpatialGrid3D

definition scenario_parse :: "string \<Rightarrow> scenario option" where
  "scenario_parse v =
     (if v = ''broadcast'' then Some SN_BroadcastAll else if v = ''topic'' then Some SN_TopicOnly
      else if v = ''grid2d'' then Some SN_SpatialGrid2D else if v = ''grid3d'' then Some SN_SpatialGrid3D
      else None)"

fun scenario_name :: "scenario \<Rightarrow> string" where
  "scenario_name SN_BroadcastAll = ''broadcast''"
| "scenario_name SN_TopicOnly = ''topic''"
| "scenario_name SN_SpatialGrid2D = ''grid2d''"
| "scenario_name SN_SpatialGrid3D = ''grid3d''"

record load_config =
  lf_scenario :: scenario
  lf_participants :: usize
  lf_rounds :: usize
  lf_max_latency_samples :: usize

definition load_config_default :: load_config where
  "load_config_default = \<lparr>lf_scenario = SN_BroadcastAll, lf_participants = 8, lf_rounds = 100,
     lf_max_latency_samples = 8192\<rparr>"

record measurement =
  me_scenario :: scenario
  me_participants :: usize
  me_attempted_publishes :: usize
  me_delivered_messages :: usize
  me_elapsed :: duration
  me_p50_publish_latency :: "duration option"
  me_p95_publish_latency :: "duration option"
  me_p99_publish_latency :: "duration option"
  me_peak_pending_messages :: usize
  me_latest_replacements :: usize
  me_latest_drops :: usize
  me_best_effort_drops :: usize

definition as_secs_f64 :: "duration \<Rightarrow> f64" where
  "as_secs_f64 d = f64_add (f64_of_int (int (d div nanos_per_sec)))
     (f64_div (f64_of_int (int (d mod nanos_per_sec))) (f64_of_int 1000000000))"

definition publishes_per_second :: "measurement \<Rightarrow> f64" where
  "publishes_per_second m =
     (let seconds = as_secs_f64 (me_elapsed m) in
      if f64_fix seconds = 0 then 0 else f64_div (f64_of_int (int (me_attempted_publishes m))) seconds)"

datatype load_error = LE_InvalidConfiguration string | LE_Core core_error | LE_IdRange

definition load_validate_config :: "load_config \<Rightarrow> load_error + unit" where
  "load_validate_config config =
     (if lf_participants config = 0 then Inl (LE_InvalidConfiguration ''participants must be non-zero'')
      else if lf_rounds config = 0 then Inl (LE_InvalidConfiguration ''rounds must be non-zero'')
      else if lf_max_latency_samples config = 0
      then Inl (LE_InvalidConfiguration ''max latency samples must be non-zero'')
      else Inr ())"

definition load_grants :: "session_key \<Rightarrow> authorization_grants" where
  "load_grants session = grant_channel (ChannelScope session STATE_CHANNEL) Grant_ReadWrite
     (grant_space (SpaceKey session LOAD_SPACE_ID) Grant_ReadWrite
     (grant_session session Grant_ReadWrite (grant_namespace (sk_namespace session) Grant_ReadWrite grants_new)))"

definition load_descriptor :: "scenario \<Rightarrow> space_descriptor" where
  "load_descriptor scenario =
     (case (case scenario of
         SN_BroadcastAll \<Rightarrow> (CF_Logical, BroadcastAll)
       | SN_TopicOnly \<Rightarrow> (CF_Logical, TopicOnly)
       | SN_SpatialGrid2D \<Rightarrow> (CF_Cartesian2D (f64_of_int 1), SpatialGrid2D (f64_of_int 10) (f64_of_int 15) True)
       | SN_SpatialGrid3D \<Rightarrow> (CF_Cartesian3D (f64_of_int 1), SpatialGrid3D (f64_of_int 10) (f64_of_int 15) True)) of
       (frame, routing) \<Rightarrow> \<lparr>sd_id = LOAD_SPACE_ID, sd_local_frame = frame, sd_parent = None,
         sd_epoch = LOAD_EPOCH, sd_routing = routing\<rparr>)"

definition load_position :: "scenario \<Rightarrow> usize \<Rightarrow> load_error + entity_position option" where
  "load_position scenario index =
     (if u32_max < index then Inl LE_IdRange
      else
        let x = f64_mul (f64_of_int (int index)) (f64_of_int 3)
        in Inr (case scenario of
             SN_BroadcastAll \<Rightarrow> None
           | SN_TopicOnly \<Rightarrow> None
           | SN_SpatialGrid2D \<Rightarrow> Some (EP_Cartesian2D x 0)
           | SN_SpatialGrid3D \<Rightarrow> Some (EP_Cartesian3D x 0 0)))"

definition percentile :: "duration list \<Rightarrow> usize \<Rightarrow> duration option" where
  "percentile samples p =
     (if samples = [] then None
      else let index = (length samples - 1) * p div 100
        in if index < length samples then Some (samples ! index) else None)"

definition load_token :: "usize \<Rightarrow> string" where
  "load_token index = ''participant-'' @ show_nat index"

section \<open>The run\<close>

text \<open>A call on the core that ends the run when it fails.\<close>

definition on_core :: "'a core_op \<Rightarrow> core \<Rightarrow> load_error + 'a \<times> core" where
  "on_core op c = (case op c of (Inl e, _) \<Rightarrow> Inl (LE_Core e) | (Inr a, c') \<Rightarrow> Inr (a, c'))"

fun load_identities :: "nat list \<Rightarrow> dev_authenticator \<Rightarrow> load_error + dev_authenticator" where
  "load_identities [] a = Inr a"
| "load_identities (index # indices) a =
     (if 2 ^ 64 \<le> index + 1 then Inl LE_IdRange
      else case da_insert (load_token index)
             \<lparr>ap_principal_id = of_nat (index + 1), ap_grants = load_grants LOAD_SESSION\<rparr> a of
          Inl _ \<Rightarrow> Inl (LE_InvalidConfiguration ''participant count exceeds authenticator capacity'')
        | Inr (_, a') \<Rightarrow> load_identities indices a')"

definition load_core :: "load_config \<Rightarrow> load_error + core" where
  "load_core config =
     and_then (map_err (\<lambda>_. LE_InvalidConfiguration ''participant count must be non-zero'')
       (da_with_capacity (lf_participants config))) (\<lambda>a0.
     and_then (load_identities [0..<lf_participants config] a0) (\<lambda>a.
     and_then (map_err LE_Core (core_new (da_authenticate a)
       (cc_default\<lparr>cc_max_connections := lf_participants config,
          cc_publish_rate_limit := \<lparr>pr_max_publishes = lf_rounds config, pr_window = duration_from_secs 60\<rparr>\<rparr>)))
       (\<lambda>c0.
     and_then (on_core (register_channel
       (channel_relay_owned STATE_CHANNEL LatestValue Stateful (length LOAD_PAYLOAD))) c0) (\<lambda>(_, c1).
     and_then (on_core (provision_session LOAD_SESSION) c1) (\<lambda>(_, c2).
     and_then (on_core (install_space LOAD_SESSION (load_descriptor (lf_scenario config))) c2) (\<lambda>(_, c3).
     Inr c3))))))"

record participant =
  pt_connection :: connection_id
  pt_entity :: entity_id

definition load_participant :: "scenario \<Rightarrow> usize \<Rightarrow> core \<Rightarrow> load_error + participant \<times> core" where
  "load_participant scenario index c0 =
     (let space = SpaceKey LOAD_SESSION LOAD_SPACE_ID in
      and_then (on_core transport_connected c0) (\<lambda>(connection, c1).
      and_then (on_core (authenticate connection \<lparr>cr_token = load_token index\<rparr>) c1) (\<lambda>(_, c2).
      and_then (on_core (join_session connection LOAD_SESSION) c2) (\<lambda>(_, c3).
      and_then (on_core (subscribe connection space) c3) (\<lambda>(_, c4).
      and_then (on_core (spawn_entity connection space LOAD_EPOCH) c4) (\<lambda>(entity, c5).
      and_then (load_position scenario index) (\<lambda>pos.
      and_then (case pos of
          None \<Rightarrow> Inr ((), c5)
        | Some p \<Rightarrow> on_core (update_entity_position connection LOAD_SESSION entity p) c5) (\<lambda>(_, c6).
      Inr (\<lparr>pt_connection = connection, pt_entity = entity\<rparr>, c6)))))))))"

fun load_participants :: "scenario \<Rightarrow> nat list \<Rightarrow> core \<Rightarrow> load_error + participant list \<times> core" where
  "load_participants scenario [] c = Inr ([], c)"
| "load_participants scenario (index # indices) c =
     and_then (load_participant scenario index c) (\<lambda>(p, c1).
     and_then (load_participants scenario indices c1) (\<lambda>(ps, c2). Inr (p # ps, c2)))"

text \<open>What the rounds count; \<open>lr_readings\<close> is how often the clock has been read.\<close>

record load_progress =
  lr_core :: core
  lr_readings :: nat
  lr_samples :: "duration list"
  lr_delivered :: usize
  lr_peak_pending :: usize
  lr_replacements :: usize
  lr_latest_drops :: usize
  lr_best_effort_drops :: usize
  lr_attempted :: usize

definition load_request :: "usize \<Rightarrow> participant \<Rightarrow> publish_request" where
  "load_request round p = \<lparr>pq_connection = pt_connection p, pq_session = LOAD_SESSION,
     pq_space = LOAD_SPACE_ID, pq_space_epoch = LOAD_EPOCH, pq_entity = Some (pt_entity p),
     pq_channel = STATE_CHANNEL, pq_sequence = of_nat round, pq_delivery = LatestValue,
     pq_persistence = Stateful,
     pq_coalesce_key = Some (CoalesceKey STATE_CHANNEL (Some (pt_entity p)) 1), pq_payload = LOAD_PAYLOAD\<rparr>"

definition load_publish ::
  "release_clock \<Rightarrow> (nat \<Rightarrow> instant) \<Rightarrow> load_config \<Rightarrow> usize \<Rightarrow> participant \<Rightarrow> load_progress
   \<Rightarrow> load_error + load_progress" where
  "load_publish rc now config round p s =
     (if 2 ^ 64 \<le> round then Inl LE_IdRange
      else let n = lr_readings s in
        and_then (on_core (publish_at rc (load_request round p) (now (n + 1))) (lr_core s)) (\<lambda>(outcome, c).
        Inr (s\<lparr>lr_core := c,
          lr_attempted := lr_attempted s + 1,
          lr_readings := (if length (lr_samples s) < lf_max_latency_samples config then n + 3 else n + 2),
          lr_samples := (if length (lr_samples s) < lf_max_latency_samples config
            then lr_samples s @ [saturating_duration_since (now (n + 2)) (now n)] else lr_samples s),
          lr_replacements := lr_replacements s + qa_replaced_latest (po_queues outcome),
          lr_latest_drops := lr_latest_drops s + qa_dropped_latest (po_queues outcome),
          lr_best_effort_drops := lr_best_effort_drops s + qa_dropped_best_effort (po_queues outcome)\<rparr>)))"

definition load_drain :: "participant \<Rightarrow> load_progress \<Rightarrow> load_error + load_progress" where
  "load_drain p s =
     and_then (on_core (drain_outbound (pt_connection p)) (lr_core s)) (\<lambda>(outbound, c).
     Inr (s\<lparr>lr_core := c, lr_peak_pending := max (lr_peak_pending s) (length outbound),
       lr_delivered := lr_delivered s + length outbound\<rparr>))"

fun load_each :: "('a \<Rightarrow> load_progress \<Rightarrow> load_error + load_progress) \<Rightarrow> 'a list \<Rightarrow> load_progress
   \<Rightarrow> load_error + load_progress" where
  "load_each f [] s = Inr s"
| "load_each f (x # xs) s = and_then (f x s) (load_each f xs)"

definition load_round ::
  "release_clock \<Rightarrow> (nat \<Rightarrow> instant) \<Rightarrow> load_config \<Rightarrow> participant list \<Rightarrow> usize \<Rightarrow> load_progress
   \<Rightarrow> load_error + load_progress" where
  "load_round rc now config ps round s =
     and_then (load_each (load_publish rc now config round) ps s) (load_each load_drain ps)"

definition load_measurement :: "(nat \<Rightarrow> instant) \<Rightarrow> load_config \<Rightarrow> load_progress \<Rightarrow> measurement" where
  "load_measurement now config s =
     (let samples = sort (lr_samples s) in
      \<lparr>me_scenario = lf_scenario config, me_participants = lf_participants config,
       me_attempted_publishes = lr_attempted s, me_delivered_messages = lr_delivered s,
       me_elapsed = saturating_duration_since (now (lr_readings s)) (now 0),
       me_p50_publish_latency = percentile samples 50, me_p95_publish_latency = percentile samples 95,
       me_p99_publish_latency = percentile samples 99, me_peak_pending_messages = lr_peak_pending s,
       me_latest_replacements = lr_replacements s, me_latest_drops = lr_latest_drops s,
       me_best_effort_drops = lr_best_effort_drops s\<rparr>)"

definition load_run ::
  "release_clock \<Rightarrow> (nat \<Rightarrow> instant) \<Rightarrow> load_config \<Rightarrow> load_error + measurement" where
  "load_run rc now config =
     and_then (load_validate_config config) (\<lambda>_.
     and_then (load_core config) (\<lambda>c0.
     and_then (load_participants (lf_scenario config) [0..<lf_participants config] c0) (\<lambda>(ps, c1).
     and_then (load_each (load_round rc now config ps) [1..<lf_rounds config + 1]
       \<lparr>lr_core = c1, lr_readings = 1, lr_samples = [], lr_delivered = 0, lr_peak_pending = 0,
        lr_replacements = 0, lr_latest_drops = 0, lr_best_effort_drops = 0, lr_attempted = 0\<rparr>) (\<lambda>s.
     Inr (load_measurement now config s)))))"

section \<open>Arguments\<close>

datatype load_argument_error =
    LA_MissingValue string | LA_UnknownScenario string | LA_InvalidNumber string string | LA_UnknownArgument string

fun load_parse :: "string list \<Rightarrow> load_config \<Rightarrow> load_argument_error + load_config" where
  "load_parse [] config = Inr config"
| "load_parse [name] config = Inl (LA_MissingValue name)"
| "load_parse (name # v # arguments) config =
     (let number = (\<lambda>what store. and_then (ok_or (LA_InvalidNumber what v) (parse_unsigned usize_max v)) store) in
      and_then
       (if name = ''--scenario''
        then and_then (ok_or (LA_UnknownScenario v) (scenario_parse v)) (\<lambda>s. Inr (config\<lparr>lf_scenario := s\<rparr>))
        else if name = ''--participants''
        then number ''participant count'' (\<lambda>n. Inr (config\<lparr>lf_participants := n\<rparr>))
        else if name = ''--rounds'' then number ''round count'' (\<lambda>n. Inr (config\<lparr>lf_rounds := n\<rparr>))
        else if name = ''--max-latency-samples''
        then number ''sample count'' (\<lambda>n. Inr (config\<lparr>lf_max_latency_samples := n\<rparr>))
        else Inl (LA_UnknownArgument name))
       (load_parse arguments))"

definition load_parse_config :: "string list \<Rightarrow> load_argument_error + load_config" where
  "load_parse_config arguments = load_parse arguments load_config_default"

definition micros :: "duration option \<Rightarrow> string" where
  "micros d = (case d of None \<Rightarrow> ''unavailable'' | Some v \<Rightarrow> show_nat (v div 1000))"

section \<open>What a measurement says\<close>

lemma scenario_parse_name: "scenario_parse (scenario_name s) = Some s"
  by (cases s) (simp_all add: scenario_parse_def)

lemma percentile_Some:
  assumes "samples \<noteq> []" "p \<le> 100"
  shows "percentile samples p = Some (samples ! ((length samples - 1) * p div 100))"
    and "(length samples - 1) * p div 100 < length samples"
proof -
  have "(length samples - 1) * p div 100 \<le> (length samples - 1) * 100 div 100"
    using assms(2) by (intro div_le_mono mult_le_mono2)
  moreover have "0 < length samples" using assms(1) by simp
  ultimately show "(length samples - 1) * p div 100 < length samples" by linarith
  then show "percentile samples p = Some (samples ! ((length samples - 1) * p div 100))"
    using assms(1) by (simp add: percentile_def Let_def)
qed

lemma percentile_mono:
  assumes "samples \<noteq> []" "sorted samples" "p \<le> q" "q \<le> 100"
  shows "the (percentile samples p) \<le> the (percentile samples q)"
proof -
  have "(length samples - 1) * p div 100 \<le> (length samples - 1) * q div 100"
    using assms(3) by (intro div_le_mono mult_le_mono2)
  then show ?thesis
    using assms percentile_Some(2) [OF assms(1,4)] percentile_Some(1) [OF assms(1), of p]
      percentile_Some(1) [OF assms(1,4)]
    by (simp add: sorted_nth_mono)
qed

text \<open>A step that adds \<open>k\<close> attempts and never removes a sample, over a list.\<close>

definition load_adds :: "nat \<Rightarrow> load_progress \<Rightarrow> load_error + load_progress \<Rightarrow> bool" where
  "load_adds k s r = (case r of Inl _ \<Rightarrow> True
     | Inr s' \<Rightarrow> lr_attempted s' = lr_attempted s + k \<and> (lr_samples s' = [] \<longrightarrow> lr_samples s = []))"

lemma load_adds_then:
  assumes "load_adds k s r" "\<And>s'. load_adds m s' (g s')"
  shows "load_adds (k + m) s (and_then r g)"
proof (cases r)
  case (Inr s')
  then show ?thesis using assms(1) assms(2) [of s'] by (auto simp: load_adds_def and_then_def split: sum.split)
qed (simp add: load_adds_def and_then_def)

lemma load_each_adds:
  assumes "\<And>x s. load_adds k s (f x s)"
  shows "load_adds (length xs * k) s (load_each f xs s)"
proof (induction xs arbitrary: s)
  case (Cons x xs)
  then show ?case using load_adds_then [OF assms, of "length xs * k"] by simp
qed (simp add: load_adds_def)

lemma load_publish_adds: "load_adds 1 s (load_publish rc now config round p s)"
  by (auto simp: load_adds_def load_publish_def and_then_def Let_def split: sum.splits prod.splits)

lemma load_drain_adds: "load_adds 0 s (load_drain p s)"
  by (auto simp: load_adds_def load_drain_def and_then_def split: sum.splits prod.splits)

lemma load_round_adds: "load_adds (length ps) s (load_round rc now config ps round s)"
proof -
  have publishes: "load_adds (length ps) s (load_each (load_publish rc now config round) ps s)"
    using load_each_adds [OF load_publish_adds, of ps s] by simp
  have "load_adds 0 s' (load_each load_drain ps s')" for s'
    using load_each_adds [OF load_drain_adds, of ps s'] by simp
  from load_adds_then [OF publishes this] show ?thesis by (simp add: load_round_def)
qed

lemma load_participants_length:
  "load_participants scenario indices c = Inr (ps, c') \<Longrightarrow> length ps = length indices"
  by (induction scenario indices c arbitrary: ps c' rule: load_participants.induct)
    (auto simp: and_then_eq_Inr split: prod.splits)

lemma load_run_attempts:
  assumes "load_run rc now config = Inr m"
  shows "me_attempted_publishes m = lf_participants config * lf_rounds config"
proof -
  from assms obtain c0 ps c1 s where
    ps: "load_participants (lf_scenario config) [0..<lf_participants config] c0 = Inr (ps, c1)" and
    s: "load_each (load_round rc now config ps) [1..<lf_rounds config + 1]
       \<lparr>lr_core = c1, lr_readings = 1, lr_samples = [], lr_delivered = 0, lr_peak_pending = 0,
        lr_replacements = 0, lr_latest_drops = 0, lr_best_effort_drops = 0, lr_attempted = 0\<rparr> = Inr s" and
    m: "m = load_measurement now config s"
    by (auto simp: load_run_def and_then_eq_Inr)
  have "load_adds (lf_rounds config * length ps) s0
      (load_each (load_round rc now config ps) [1..<lf_rounds config + 1] s0)" for s0
    using load_each_adds [where f = "load_round rc now config ps", OF load_round_adds,
        of "[1..<lf_rounds config + 1]" s0] by (simp del: upt_Suc)
  from this [of "\<lparr>lr_core = c1, lr_readings = 1, lr_samples = [], lr_delivered = 0, lr_peak_pending = 0,
        lr_replacements = 0, lr_latest_drops = 0, lr_best_effort_drops = 0, lr_attempted = 0\<rparr>"]
  show ?thesis
    using s load_participants_length [OF ps] by (simp add: load_adds_def m load_measurement_def Let_def)
qed

lemma load_percentiles_ordered:
  assumes "lr_samples s \<noteq> []"
  shows "\<exists>a b c. me_p50_publish_latency (load_measurement now config s) = Some a
    \<and> me_p95_publish_latency (load_measurement now config s) = Some b
    \<and> me_p99_publish_latency (load_measurement now config s) = Some c \<and> a \<le> b \<and> b \<le> c"
proof -
  have ne: "sort (lr_samples s) \<noteq> []" using assms by (metis length_0_conv length_sort)
  show ?thesis
    using percentile_Some(1) [OF ne, of 50] percentile_Some(1) [OF ne, of 95] percentile_Some(1) [OF ne, of 99]
      percentile_mono [OF ne sorted_sort, of 50 95] percentile_mono [OF ne sorted_sort, of 95 99]
    by (simp add: load_measurement_def Let_def)
qed

text \<open>Arguments that spell out a configuration are read as that configuration.\<close>

lemma load_parse_config_spelled:
  assumes "p \<le> usize_max" "r \<le> usize_max" "m \<le> usize_max"
  shows "load_parse_config [''--scenario'', scenario_name s, ''--participants'', show_nat p,
    ''--rounds'', show_nat r, ''--max-latency-samples'', show_nat m]
    = Inr \<lparr>lf_scenario = s, lf_participants = p, lf_rounds = r, lf_max_latency_samples = m\<rparr>"
  using assms by (simp add: load_parse_config_def load_config_default_def scenario_parse_name parse_show_nat
      ok_or_def and_then_def)

end
