(* ===== verification/Endpoint.thy ===== *)
theory Endpoint
  imports Prelude
begin

text \<open>
  The accept loops of \<^verbatim>\<open>woven-transport-quic\<close> (\<^verbatim>\<open>serve_endpoint\<close> of \<^verbatim>\<open>lib.rs\<close> and of
  \<^verbatim>\<open>webtransport.rs\<close>) as transition systems: where the loop is, and how many connection tasks hold a
  permit of the semaphore. A task is one run of \<open>serve_connection\<close> or \<open>serve_request\<close>; the endpoint,
  the handshakes and the end of a task are the environment's.
\<close>

definition MAX_CONNECTION_TASKS :: usize where "MAX_CONNECTION_TASKS = 4096"

datatype accept_phase = AL_Accept | AL_Handshake | AL_Permit | AL_Ended

text \<open>The loop and the number of permits that are out.\<close>

datatype accept_loop = Accept_Loop accept_phase nat

fun al_tasks :: "accept_loop \<Rightarrow> nat" where
  "al_tasks (Accept_Loop _ n) = n"

fun al_phase :: "accept_loop \<Rightarrow> accept_phase" where
  "al_phase (Accept_Loop phase _) = phase"

definition accept_start :: accept_loop where
  "accept_start = Accept_Loop AL_Accept 0"

section \<open>QUIC\<close>

text \<open>The handshake is awaited in the loop, before the permit.\<close>

inductive quic_accept_step :: "accept_loop \<Rightarrow> accept_loop \<Rightarrow> bool" where
  quic_incoming: "quic_accept_step (Accept_Loop AL_Accept n) (Accept_Loop AL_Handshake n)"
| quic_closed: "quic_accept_step (Accept_Loop AL_Accept n) (Accept_Loop AL_Ended n)"
| quic_handshake_failed: "quic_accept_step (Accept_Loop AL_Handshake n) (Accept_Loop AL_Accept n)"
| quic_connected: "quic_accept_step (Accept_Loop AL_Handshake n) (Accept_Loop AL_Permit n)"
| quic_spawned: "n < MAX_CONNECTION_TASKS \<Longrightarrow>
    quic_accept_step (Accept_Loop AL_Permit n) (Accept_Loop AL_Accept (Suc n))"
| quic_finished: "quic_accept_step (Accept_Loop phase (Suc n)) (Accept_Loop phase n)"

code_pred quic_accept_step .

inductive_cases quic_handshake_stepE: "quic_accept_step (Accept_Loop AL_Handshake n) s"
inductive_cases quic_permit_stepE: "quic_accept_step (Accept_Loop AL_Permit n) s"

section \<open>WebTransport\<close>

text \<open>The permit comes first, and the handshake belongs to the task.\<close>

inductive wt_accept_step :: "accept_loop \<Rightarrow> accept_loop \<Rightarrow> bool" where
  wt_incoming: "wt_accept_step (Accept_Loop AL_Accept n) (Accept_Loop AL_Permit n)"
| wt_spawned: "n < MAX_CONNECTION_TASKS \<Longrightarrow>
    wt_accept_step (Accept_Loop AL_Permit n) (Accept_Loop AL_Accept (Suc n))"
| wt_finished: "wt_accept_step (Accept_Loop phase (Suc n)) (Accept_Loop phase n)"

code_pred wt_accept_step .

inductive_simps wt_accept_simps: "wt_accept_step (Accept_Loop AL_Accept n) s"
  "wt_accept_step (Accept_Loop AL_Permit n) s"

section \<open>What is reachable\<close>

text \<open>A bound kept by every step holds of every reachable loop.\<close>

locale accept_loop_system =
  fixes accepting :: "accept_loop \<Rightarrow> accept_loop \<Rightarrow> bool"
  assumes step_bounded: "accepting s s' \<Longrightarrow> al_tasks s \<le> MAX_CONNECTION_TASKS \<Longrightarrow> al_tasks s' \<le> MAX_CONNECTION_TASKS"
begin

lemma reachable_bounded:
  assumes "accepting\<^sup>*\<^sup>* accept_start s"
  shows "al_tasks s \<le> MAX_CONNECTION_TASKS"
  using assms by induction (auto simp: accept_start_def intro: step_bounded)

end

interpretation quic: accept_loop_system quic_accept_step
  by unfold_locales (auto elim!: quic_accept_step.cases)

interpretation wt: accept_loop_system wt_accept_step
  by unfold_locales (auto elim!: wt_accept_step.cases)

lemma quic_handshake_held:
  assumes "(\<lambda>s s'. quic_accept_step s s' \<and> al_phase s' = al_phase s)\<^sup>*\<^sup>* s s'" "al_phase s = AL_Handshake"
  shows "al_phase s' = AL_Handshake \<and> al_tasks s' \<le> al_tasks s"
  using assms
proof induction
  case (step y z)
  then obtain n where "y = Accept_Loop AL_Handshake n" by (cases y) auto
  with step show ?case by (auto elim: quic_handshake_stepE)
qed simp

lemma wt_never_ends: "wt_accept_step\<^sup>*\<^sup>* accept_start s \<Longrightarrow> al_phase s \<in> {AL_Accept, AL_Permit}"
  by (induction rule: rtranclp_induct) (auto simp: accept_start_def elim!: wt_accept_step.cases)

text \<open>
  The number of connections served at once is bounded, and the loops wait differently. Whatever
  clients and tasks do, either loop has at most 4096 tasks. The QUIC loop accepts nobody while a
  handshake it accepted is unfinished, for as long as that takes; the WebTransport loop can always
  take the next client in at most two steps of its own unless all permits are out.
\<close>

theorem accept_loops_are_bounded:
  "(quic_accept_step\<^sup>*\<^sup>* accept_start s \<longrightarrow> al_tasks s \<le> 4096)
   \<and> (wt_accept_step\<^sup>*\<^sup>* accept_start s \<longrightarrow> al_tasks s \<le> 4096)
   \<and> ((\<lambda>s s'. quic_accept_step s s' \<and> al_phase s' = al_phase s)\<^sup>*\<^sup>* (Accept_Loop AL_Handshake n) s'
        \<longrightarrow> al_tasks s' \<le> n)
   \<and> (wt_accept_step\<^sup>*\<^sup>* accept_start s \<longrightarrow> al_tasks s < 4096 \<longrightarrow>
        (\<exists>t. wt_accept_step\<^sup>*\<^sup>* s t \<and> al_tasks t = Suc (al_tasks s)))"
proof (intro conjI impI)
  show "al_tasks s \<le> 4096" if "quic_accept_step\<^sup>*\<^sup>* accept_start s"
    using quic.reachable_bounded [OF that] by (simp add: MAX_CONNECTION_TASKS_def)
  show "al_tasks s \<le> 4096" if "wt_accept_step\<^sup>*\<^sup>* accept_start s"
    using wt.reachable_bounded [OF that] by (simp add: MAX_CONNECTION_TASKS_def)
  show "al_tasks s' \<le> n"
    if "(\<lambda>s s'. quic_accept_step s s' \<and> al_phase s' = al_phase s)\<^sup>*\<^sup>* (Accept_Loop AL_Handshake n) s'"
    using quic_handshake_held [OF that] by simp
next
  assume r: "wt_accept_step\<^sup>*\<^sup>* accept_start s" "al_tasks s < 4096"
  obtain phase n where s: "s = Accept_Loop phase n" by (cases s)
  have permit: "wt_accept_step (Accept_Loop AL_Permit n) (Accept_Loop AL_Accept (Suc n))"
    using r(2) s by (simp add: wt_spawned MAX_CONNECTION_TASKS_def)
  then have "wt_accept_step\<^sup>*\<^sup>* (Accept_Loop AL_Accept n) (Accept_Loop AL_Accept (Suc n))"
    using wt_incoming [of n] by (meson rtranclp.simps)
  then show "\<exists>t. wt_accept_step\<^sup>*\<^sup>* s t \<and> al_tasks t = Suc (al_tasks s)"
    using wt_never_ends [OF r(1)] s permit by (auto intro!: exI [of _ "Accept_Loop AL_Accept (Suc n)"])
qed

end
