(* ===== verification/ActivityLog.thy ===== *)
theory ActivityLog
  imports Gateway Text
begin

text \<open>
  The development activity log of \<^verbatim>\<open>woven-transport\<close> (debug builds only): which event the worker task
  emits for each request and each result of a command. An event has a target, which the log filter
  of the server selects by, the name of the activity and a list of fields; where it is written is
  the logging library's business. The effect of a request is in \<open>Gateway.gw_handle\<close>.
\<close>

datatype activity_value = AV_Text string | AV_Number nat

record activity_event =
  ae_target :: string
  ae_activity :: string
  ae_fields :: "(string \<times> activity_value) list"

definition ACTIVITY :: string where "ACTIVITY = ''woven_activity''"
definition TRANSFORM_ACTIVITY :: string where "TRANSFORM_ACTIVITY = ''woven_activity::transform''"

definition activity :: "string \<Rightarrow> (string \<times> activity_value) list \<Rightarrow> activity_event" where
  "activity name values = \<lparr>ae_target = ACTIVITY, ae_activity = name, ae_fields = values\<rparr>"

definition transform_activity :: "string \<Rightarrow> (string \<times> activity_value) list \<Rightarrow> activity_event" where
  "transform_activity name values = \<lparr>ae_target = TRANSFORM_ACTIVITY, ae_activity = name, ae_fields = values\<rparr>"

definition id_field :: "string \<Rightarrow> u64 \<Rightarrow> string \<times> activity_value" where
  "id_field name n = (name, AV_Number (unat n))"

definition connection_fields :: "connection_id \<Rightarrow> (string \<times> activity_value) list" where
  "connection_fields cid = [id_field ''connection_id'' cid]"

definition session_fields :: "session_key \<Rightarrow> (string \<times> activity_value) list" where
  "session_fields s = [id_field ''namespace_id'' (sk_namespace s), id_field ''session_id'' (sk_session s)]"

definition space_fields :: "space_key \<Rightarrow> (string \<times> activity_value) list" where
  "space_fields s = session_fields (spk_session s) @ [id_field ''space_id'' (spk_space s)]"

definition publication_fields :: "publish_request \<Rightarrow> (string \<times> activity_value) list" where
  "publication_fields r = connection_fields (pq_connection r) @ session_fields (pq_session r)
     @ [id_field ''space_id'' (pq_space r), id_field ''channel_id'' (pq_channel r),
        (''payload_bytes'', AV_Number (length (pq_payload r)))]"

section \<open>Commands\<close>

fun log_development_activity :: "command \<Rightarrow> activity_event" where
  "log_development_activity C_TransportConnected = activity ''transport_connected'' []"
| "log_development_activity (C_Authenticate cid _) = activity ''authenticate'' (connection_fields cid)"
| "log_development_activity (C_JoinSession cid session) =
     activity ''join_session'' (connection_fields cid @ session_fields session)"
| "log_development_activity (C_JoinSessionWithAdmission cid session _) =
     activity ''join_session'' (connection_fields cid @ session_fields session)"
| "log_development_activity (C_RequestSessionAdmission cid session _) =
     activity ''request_admission'' (connection_fields cid @ session_fields session)"
| "log_development_activity (C_LeaveSession cid session) =
     activity ''leave_session'' (connection_fields cid @ session_fields session)"
| "log_development_activity (C_Subscribe cid space) =
     activity ''subscribe'' (connection_fields cid @ space_fields space)"
| "log_development_activity (C_Unsubscribe cid space) =
     activity ''unsubscribe'' (connection_fields cid @ space_fields space)"
| "log_development_activity (C_SpawnEntity cid space epoch) =
     activity ''spawn_entity'' (connection_fields cid @ space_fields space @ [id_field ''space_epoch'' epoch])"
| "log_development_activity (C_RemoveEntity cid session entity) =
     activity ''remove_entity'' (connection_fields cid @ session_fields session @ [id_field ''entity_id'' entity])"
| "log_development_activity (C_UpdateEntityPosition cid session entity _) =
     transform_activity ''update_entity_position''
       (connection_fields cid @ session_fields session @ [id_field ''entity_id'' entity])"
| "log_development_activity (C_TransitionEntity _) = activity ''transition_entity'' []"
| "log_development_activity (C_Publish r) =
     (if is_transform_publication r then transform_activity ''publish_transform'' (publication_fields r)
      else activity ''publish'' (publication_fields r))"
| "log_development_activity (C_Snapshot cid session) =
     activity ''snapshot'' (connection_fields cid @ session_fields session)"
| "log_development_activity (C_DrainOutbound cid) = activity ''drain_outbound'' (connection_fields cid)"
| "log_development_activity (C_TransportLost cid) = activity ''transport_lost'' (connection_fields cid)"

section \<open>Results\<close>

definition log_development_result :: "string \<Rightarrow> core_error + command_result \<Rightarrow> activity_event" where
  "log_development_result name result =
     \<lparr>ae_target = (if name = ''publish_transform'' \<or> name = ''update_entity_position''
        then TRANSFORM_ACTIVITY else ACTIVITY),
      ae_activity = name,
      ae_fields = (case result of
          Inr (R_Outbound messages) \<Rightarrow>
            [(''outcome'', AV_Text ''accepted''), (''outbound_messages'', AV_Number (length messages))]
        | Inr _ \<Rightarrow> [(''outcome'', AV_Text ''accepted'')]
        | Inl _ \<Rightarrow> [(''outcome'', AV_Text ''rejected'')])\<rparr>"

section \<open>Requests\<close>

definition envelope_fields :: "envelope \<Rightarrow> (string \<times> activity_value) list" where
  "envelope_fields e = [(''message_kind'', AV_Text (message_kind_name (payload_message_kind (ev_message e)))),
     (''payload_bytes'', AV_Number (length (ev_payload_bytes e)))]"

fun log_request :: "'c worker_request \<Rightarrow> activity_event option" where
  "log_request (WR_Command command) = Some (log_development_activity command)"
| "log_request (WR_RegisterLifecycle cid _) = Some (activity ''register_lifecycle'' (connection_fields cid))"
| "log_request (WR_SubscribeAndSpawn cid space epoch) =
     Some (activity ''subscribe_and_spawn''
       (connection_fields cid @ space_fields space @ [id_field ''space_epoch'' epoch]))"
| "log_request (WR_ActivateSubscription cid space) =
     Some (activity ''activate_subscription'' (connection_fields cid @ space_fields space))"
| "log_request (WR_BroadcastToSpace space e _) =
     Some (activity ''broadcast_to_space'' (space_fields space @ envelope_fields e))"
| "log_request (WR_SendToConnection cid e) =
     Some (activity ''send_to_connection'' (connection_fields cid @ envelope_fields e))"
| "log_request WR_LiveCounts = None"

section \<open>What the log tells\<close>

lemmas activity_defs = activity_def transform_activity_def log_development_result_def ACTIVITY_def
  TRANSFORM_ACTIVITY_def

text \<open>A filter that selects the event of a command selects the event of its result.\<close>

lemma result_has_the_target_of_its_command:
  "ae_target (log_development_result (ae_activity (log_development_activity command)) result)
     = ae_target (log_development_activity command)"
  by (cases command) (simp_all add: activity_defs)

text \<open>
  What the log must not tell: credentials, idempotency keys, leases, positions, and the bytes of a
  payload. Two requests that differ in nothing else leave the same event.
\<close>

definition blank :: "u8 list \<Rightarrow> u8 list" where
  "blank bytes = replicate (length bytes) 0"

fun redact :: "command \<Rightarrow> command" where
  "redact (C_Authenticate cid _) = C_Authenticate cid \<lparr>cr_token = ''''\<rparr>"
| "redact (C_RequestSessionAdmission cid session _) = C_RequestSessionAdmission cid session ''''"
| "redact (C_JoinSessionWithAdmission cid session _) = C_JoinSessionWithAdmission cid session
     \<lparr>al_id = 0, al_session = session, al_principal = 0, al_resume_token = 0\<rparr>"
| "redact (C_UpdateEntityPosition cid session entity _) =
     C_UpdateEntityPosition cid session entity (EP_Cartesian2D 0 0)"
| "redact (C_Publish r) = C_Publish (r\<lparr>pq_payload := blank (pq_payload r)\<rparr>)"
| "redact c = c"

lemma log_redacted: "log_development_activity (redact command) = log_development_activity command"
  by (cases command)
    (simp_all add: is_transform_publication_def publication_fields_def blank_def)

lemma log_excludes_secrets:
  "redact command = redact command' \<Longrightarrow> log_development_activity command = log_development_activity command'"
  by (metis log_redacted)

end
