(* ===== verification/Startup.thy ===== *)
theory Startup
  imports ServerProps Client WebTransport
begin

text \<open>
  The start of the development server (\<^verbatim>\<open>serve\<close> and \<^verbatim>\<open>serve_dev_ephemeral\<close> of
  \<^verbatim>\<open>woven-server/src/lib.rs\<close>) with the URLs it reports, and the client that is given them. Binding
  the endpoints is the environment's: it is assumed to succeed on the ports given.
\<close>

section \<open>Addresses\<close>

text \<open>\<^verbatim>\<open>Display\<close> of an IPv4 socket address.\<close>

fun show_octets :: "u8 list \<Rightarrow> string" where
  "show_octets [] = ''''"
| "show_octets [b] = show_nat (unat b)"
| "show_octets (b # bs) = show_nat (unat b) @ ''.'' @ show_octets bs"

definition show_socket_addr :: "socket_addr \<Rightarrow> string" where
  "show_socket_addr a = show_octets (so_octets a) @ '':'' @ show_nat (unat (so_port a))"

section \<open>Starting\<close>

record dev_serve_urls =
  du_http :: string
  du_quic :: string
  du_webtransport :: string
  du_ai_entity :: "entity_id option"

record bound_ports =
  bp_http :: u16
  bp_quic :: u16
  bp_webtransport :: u16

text \<open>The core and, when it is enabled, the coordinator in it: the entity of its identity.\<close>

definition start_core ::
  "('c, 'w) bridge_env \<Rightarrow> bool \<Rightarrow> 'w \<Rightarrow> server_error + entity_id option \<times> ('c, 'w) gateway" where
  "start_core env inference_enabled world =
     and_then (map_err SE_Core development_core) (\<lambda>c.
       if inference_enabled
       then (case spawn_inference_coordinator env (gateway_new c world) of
           (Inl e, _) \<Rightarrow> Inl e
         | (Inr (_, entity, _, _), g) \<Rightarrow> Inr (Some entity, g))
       else Inr (None, gateway_new c world))"

text \<open>
  What runs: the worker, the WebTransport endpoint, the state of the control plane, and whether the
  sessions of both endpoints pass control messages they do not handle to a coordinator.
\<close>

record ('c, 'w) started =
  sv_gateway :: "('c, 'w) gateway"
  sv_webtransport :: webtransport_config
  sv_state :: app_state
  sv_inference_sink :: bool

definition start_at ::
  "string \<Rightarrow> u16 \<Rightarrow> entity_id option \<Rightarrow> ('c, 'w) gateway \<Rightarrow> ('c, 'w) started" where
  "start_at path webtransport_port ai g =
     \<lparr>sv_gateway = g, sv_webtransport = webtransport_config_new\<lparr>wc_path := path\<rparr>,
      sv_state = app_state_of True True (Some (show_nat (unat webtransport_port) @ path)) (ai \<noteq> None),
      sv_inference_sink = (ai \<noteq> None)\<rparr>"

definition serve ::
  "('c, 'w) bridge_env \<Rightarrow> server_config \<Rightarrow> bound_ports \<Rightarrow> 'w \<Rightarrow> server_error + ('c, 'w) started" where
  "serve env config ports world =
     and_then (start_core env (sf_inference_enabled config) world) (\<lambda>(ai, g).
       Inr (start_at (sf_webtransport_path config) (bp_webtransport ports) ai g))"

definition serve_dev_ephemeral ::
  "('c, 'w) bridge_env \<Rightarrow> bool \<Rightarrow> bound_ports \<Rightarrow> 'w \<Rightarrow> server_error + dev_serve_urls \<times> ('c, 'w) started" where
  "serve_dev_ephemeral env inference_enabled ports world =
     and_then (start_core env inference_enabled world) (\<lambda>(ai, g).
       let local = (\<lambda>port. \<lparr>so_octets = [127, 0, 0, 1], so_port = port\<rparr>) in
       Inr (\<lparr>du_http = ''http://'' @ show_socket_addr (local (bp_http ports)),
             du_quic = ''quic://'' @ show_socket_addr (local (bp_quic ports)),
             du_webtransport = ''wtransport://127.0.0.1:'' @ show_nat (unat (bp_webtransport ports)) @ ''/webtransport'',
             du_ai_entity = ai\<rparr>,
            start_at ''/webtransport'' (bp_webtransport ports) ai g))"

section \<open>URLs\<close>

lemma parse_u16_show_nat: "parse_u16 (show_nat (unat p)) = Some p" for p :: u16
  using parse_show_nat [of "unat p" 65535] unsigned_less [of p, where ?'a = nat] by (simp add: parse_u16_def)

lemma digits_are_not: "\<not> is_digit c \<Longrightarrow> c \<notin> set (show_nat n)"
  using show_nat_digits [of n] by (auto simp: list_all_iff)

lemma rsplit_colon_append:
  assumes "CHR '':'' \<notin> set t"
  shows "rsplit_colon (h @ CHR '':'' # t) = Some (h, t)"
proof -
  have t: "\<And>c. c \<in> set (rev t) \<Longrightarrow> c \<noteq> CHR '':''" using assms by auto
  have take: "takeWhile (\<lambda>c. c \<noteq> CHR '':'') (rev t @ CHR '':'' # rev h) = rev t"
    by (subst takeWhile_append2) (use t in auto)
  have drop: "dropWhile (\<lambda>c. c \<noteq> CHR '':'') (rev t @ CHR '':'' # rev h) = CHR '':'' # rev h"
    by (subst dropWhile_append2) (use t in auto)
  show ?thesis by (simp add: rsplit_colon_def take drop)
qed

lemma parse_host_port_shown: "parse_host_port (h @ '':'' @ show_nat (unat p)) d = Inr (h, p)"
proof -
  have "CHR '':'' \<notin> set (show_nat (unat p))" by (rule digits_are_not) (simp add: is_digit_def char_of_def bit_0)
  from rsplit_colon_append [OF this, of h] show ?thesis
    by (simp add: parse_host_port_def parse_u16_show_nat)
qed

text \<open>A host, a port and a path come back from the URL they make.\<close>

fun scheme_prefix :: "url_scheme \<Rightarrow> string" where
  "scheme_prefix Scheme_Quic = ''quic://''"
| "scheme_prefix Scheme_WebTransport = ''wtransport://''"

lemma split_path_shown:
  assumes "CHR ''/'' \<notin> set s" "path = [] \<or> hd path = CHR ''/''"
  shows "split_path (s @ path) = (s, if path = [] then ''/'' else path)"
proof -
  have s: "\<And>c. c \<in> set s \<Longrightarrow> c \<noteq> CHR ''/''" using assms(1) by auto
  have "takeWhile (\<lambda>c. c \<noteq> CHR ''/'') (s @ path) = s" "dropWhile (\<lambda>c. c \<noteq> CHR ''/'') (s @ path) = path"
    using assms(2) by (cases path; subst takeWhile_append2 dropWhile_append2; use s in auto)+
  then show ?thesis using assms by (cases path) (auto simp: split_path_def)
qed

lemma starts_with_prefix:
  "starts_with (to_ascii_lowercase (''quic://'' @ rest)) ''quic://''"
  "\<not> starts_with (to_ascii_lowercase (''wtransport://'' @ rest)) ''quic://''"
  "starts_with (to_ascii_lowercase (''wtransport://'' @ rest)) ''wtransport://''"
  by (simp_all add: starts_with_def to_ascii_lowercase_def)

lemma parse_url_shown:
  assumes "CHR ''/'' \<notin> set host" "path = [] \<or> hd path = CHR ''/''"
  shows "parse_url (scheme_prefix s @ host @ '':'' @ show_nat (unat port) @ path)
    = Inr (s, host, port, if path = [] then ''/'' else path)"
proof -
  have "CHR ''/'' \<notin> set (host @ '':'' @ show_nat (unat port))"
    using assms(1) digits_are_not [of "CHR ''/''" "unat port"] by (simp add: is_digit_def)
  from split_path_shown [OF this assms(2)]
  have path: "split_path (host @ '':'' @ show_nat (unat port) @ path)
      = (host @ '':'' @ show_nat (unat port), if path = [] then ''/'' else path)" by simp
  have host: "parse_host_port (host @ '':'' @ show_nat (unat port)) 4433 = Inr (host, port)"
    by (rule parse_host_port_shown)
  show ?thesis
    by (cases s) (simp_all add: parse_url_def Let_def path [simplified] host [simplified] and_then_def
        starts_with_prefix [simplified])
qed

section \<open>The development server and its client\<close>

lemma development_core_starts:
  assumes "\<And>n g. be_others env n g = g"
  shows "\<exists>g. start_core env inference_enabled world = Inr (if inference_enabled then Some 1 else None, g)"
proof (cases inference_enabled)
  case True
  obtain tools where tools: "development_tools env 0 = Inr tools"
    using development_tools_found [of env 0] by blast
  then show ?thesis
    using True ai_identity_established [OF assms, of world]
    by (auto simp: start_core_def development_core_ready map_err_def and_then_def spawn_inference_coordinator_def)
next
  case False
  then show ?thesis by (simp add: start_core_def development_core_ready map_err_def and_then_def)
qed

lemma local_address:
  "show_socket_addr \<lparr>so_octets = [127, 0, 0, 1], so_port = port\<rparr> = ''127.0.0.1'' @ '':'' @ show_nat (unat port)"
  by (simp add: show_socket_addr_def show_nat.simps char_of_def bit_0)

text \<open>
  The development server starts whether or not inference is enabled, and the client understands the
  URLs it reports: the QUIC URL leads to the port of the QUIC endpoint, the WebTransport URL to the
  port of the WebTransport endpoint and to the path for which that endpoint accepts sessions.
\<close>

theorem development_urls_reach_the_server:
  assumes "\<And>n g. be_others env n g = g"
  shows "\<exists>urls server. serve_dev_ephemeral env inference_enabled ports world = Inr (urls, server)
    \<and> parse_url (du_quic urls) = Inr (Scheme_Quic, ''127.0.0.1'', bp_quic ports, ''/'')
    \<and> parse_url (du_webtransport urls)
        = Inr (Scheme_WebTransport, ''127.0.0.1'', bp_webtransport ports, wc_path (sv_webtransport server))
    \<and> du_ai_entity urls = (if inference_enabled then Some 1 else None)
    \<and> ready (sv_state server) = 200"
proof -
  obtain g where g: "start_core env inference_enabled world = Inr (if inference_enabled then Some 1 else None, g)"
    using development_core_starts [OF assms] by blast
  have quic: "parse_url (''quic://'' @ ''127.0.0.1'' @ '':'' @ show_nat (unat (bp_quic ports)))
      = Inr (Scheme_Quic, ''127.0.0.1'', bp_quic ports, ''/'')"
    using parse_url_shown [of "''127.0.0.1''" "[]" Scheme_Quic "bp_quic ports"] by simp
  have wt: "parse_url (''wtransport://127.0.0.1:'' @ show_nat (unat (bp_webtransport ports)) @ ''/webtransport'')
      = Inr (Scheme_WebTransport, ''127.0.0.1'', bp_webtransport ports, ''/webtransport'')"
    using parse_url_shown [of "''127.0.0.1''" "''/webtransport''" Scheme_WebTransport "bp_webtransport ports"] by simp
  show ?thesis
    using quic wt by (simp add: serve_dev_ephemeral_def g and_then_def Let_def local_address start_at_def
        app_state_of_def ready_def)
qed

end
