(* ===== verification/ToolRace.thy ===== *)
theory ToolRace
  imports InferenceProps ServerProps Delivery
begin

text \<open>
  Two invocations of the status tool that race. The tool reads its revision, publishes with the next
  one as the sequence, and stores it; the coordinator runs calls concurrently, so a second
  invocation may have passed the check before the first stores. What decides is the core.
\<close>

definition status_request :: "tool_context \<Rightarrow> channel_id \<Rightarrow> u64 \<Rightarrow> u8 list \<Rightarrow> publish_request" where
  "status_request ctx channel revision bytes = \<lparr>pq_connection = tx_connection ctx,
     pq_session = spk_session (tx_space ctx), pq_space = spk_space (tx_space ctx),
     pq_space_epoch = tx_space_epoch ctx, pq_entity = Some (tx_entity ctx), pq_channel = channel,
     pq_sequence = revision, pq_delivery = LatestValue, pq_persistence = Stateful,
     pq_coalesce_key = Some (CoalesceKey channel (Some (tx_entity ctx)) STATUS_COMPONENT), pq_payload = bytes\<rparr>"

lemma status_request_stream:
  "stream_of (status_request ctx channel v bytes) = stream_of (status_request ctx channel v' bytes')"
  "pq_session (status_request ctx channel v bytes) = spk_session (tx_space ctx)"
  "pq_sequence (status_request ctx channel v bytes) = v" "pq_channel (status_request ctx channel v bytes) = channel"
  by (simp_all add: stream_of_def message_sequence_key_def am_from_request_def message_component_def status_request_def)

text \<open>Applying an update is one publish.\<close>

lemma status_apply_publishes:
  assumes "\<And>n g. be_others env n g = g"
    and "publish_at (ck_release (be_clock env n)) (status_request ctx channel v (pp_arguments p)) (ck_now (be_clock env n))
      (gw_core (ts_gateway s)) = (outcome, c)"
  shows "gw_core (ts_gateway (snd (status_apply env n channel ctx p v s))) = c"
    and "case outcome of
        Inl e \<Rightarrow> \<exists>reason. fst (status_apply env n channel ctx p v s) = TO_Rejected PolicyDenied reason
          \<and> ts_revision (snd (status_apply env n channel ctx p v s)) = ts_revision s
      | Inr _ \<Rightarrow> fst (status_apply env n channel ctx p v s) = TO_Completed v (bytes_of_string ''status updated'')
          \<and> ts_revision (snd (status_apply env n channel ctx p v s)) = v"
proof -
  let ?command = "C_Publish (status_request ctx channel v (pp_arguments p))"
  have "handle (be_clock env n) ?command (gw_core (ts_gateway s)) = (map_sum id R_Published outcome, c)"
    using assms(2) by (simp add: map_op_def)
  moreover have "lifecycle_action_of ?command = LA_None" by simp
  ultimately obtain m where "execute env n ?command (ts_gateway s)
      = (map_err TE_Core (map_sum id R_Published outcome), (ts_gateway s)\<lparr>gw_core := c, gw_metrics := m\<rparr>)"
    using execute_quiet [OF assms(1), of ?command n "ts_gateway s"] by simp
  then have "publish_latest_value env n ctx channel STATUS_COMPONENT v (pp_arguments p) (ts_gateway s)
      = (case outcome of Inl e \<Rightarrow> Inl (transport_error_string env (TE_Core e)) | Inr _ \<Rightarrow> Inr (),
         (ts_gateway s)\<lparr>gw_core := c, gw_metrics := m\<rparr>)"
    by (cases outcome) (simp_all add: publish_latest_value_def status_request_def [symmetric] map_err_def)
  then show "gw_core (ts_gateway (snd (status_apply env n channel ctx p v s))) = c"
    "case outcome of
        Inl e \<Rightarrow> \<exists>reason. fst (status_apply env n channel ctx p v s) = TO_Rejected PolicyDenied reason
          \<and> ts_revision (snd (status_apply env n channel ctx p v s)) = ts_revision s
      | Inr _ \<Rightarrow> fst (status_apply env n channel ctx p v s) = TO_Completed v (bytes_of_string ''status updated'')
          \<and> ts_revision (snd (status_apply env n channel ctx p v s)) = v"
    by (cases outcome; simp add: status_apply_def)+
qed

text \<open>
  C38. Of two invocations of the status tool that saw the same revision, at most one takes effect, on a
  channel whose policy does not rewrite messages and when nobody else uses the worker meanwhile: once
  the first has completed, the second is denied, and neither the retained status nor the revision moves.
\<close>

theorem racing_status_updates_apply_once:
  assumes "\<And>n g. be_others env n g = g" "reachable_core (gw_core (ts_gateway s))"
    and "bt_get (co_channels (gw_core (ts_gateway s))) channel = Some def" "never_rewrites (cd_authority def)"
    and "status_check p s = Inr v" "status_check p' s = Inr v'"
    and "status_apply env n channel ctx p v s = (TO_Completed w result, s1)"
  shows "\<exists>reason s2. status_apply env n' channel ctx p' v' s1 = (TO_Rejected PolicyDenied reason, s2)
    \<and> co_sessions (gw_core (ts_gateway s2)) = co_sessions (gw_core (ts_gateway s1))
    \<and> ts_revision s2 = ts_revision s1"
proof -
  let ?r = "status_request ctx channel v (pp_arguments p)"
  note wf = reachable_wf [OF assms(2)]
  have same: "v' = v" using assms(5,6) by (auto simp: status_check_def Let_def split: if_splits)
  obtain outcome c1 where p1: "publish_at (ck_release (be_clock env n)) ?r (ck_now (be_clock env n))
      (gw_core (ts_gateway s)) = (outcome, c1)" by force
  note one = status_apply_publishes [OF assms(1) p1]
  then obtain o1 where ok: "outcome = Inr o1" using assms(7) by (cases outcome) auto
  have c1: "gw_core (ts_gateway s1) = c1" using one(1) assms(7) by simp
  have wf1: "core_wf c1" using publish_at_wf [OF wf] p1 by (metis snd_conv)
  have used: "used_up v ?r c1"
    using publish_uses_up [OF wf, of "ck_release (be_clock env n)" ?r "ck_now (be_clock env n)" o1 c1] p1 ok assms(3,4)
    by (simp add: status_request_stream)
  obtain e c2 where p2: "publish_at (ck_release (be_clock env n')) (status_request ctx channel v' (pp_arguments p'))
      (ck_now (be_clock env n')) (gw_core (ts_gateway s1)) = (Inl e, c2)" "co_sessions c2 = co_sessions c1"
    using used_up_refuses [OF wf1 used, of "status_request ctx channel v' (pp_arguments p')"
        "ck_release (be_clock env n')" "ck_now (be_clock env n')"] c1 same
    by (auto simp: status_request_stream intro: status_request_stream)
  note two = status_apply_publishes [OF assms(1) p2(1)]
  show ?thesis
    using two p2(2) c1 by (cases "status_apply env n' channel ctx p' v' s1") auto
qed

section \<open>In the development server\<close>

definition ai_context :: tool_context where
  "ai_context = \<lparr>tx_connection = 1, tx_entity = 1, tx_space = ai_home_space, tx_space_epoch = 1\<rparr>"

definition ai_proposal :: "u8 list \<Rightarrow> tool_call_proposal" where
  "ai_proposal bytes = \<lparr>pp_tool_id = ''status.set'', pp_tool_version = 1, pp_arguments = bytes,
     pp_expected_revision = 0\<rparr>"

lemma ai_status_authorized:
  "\<exists>messages planned. authorize_publish development_with_ai (status_request ai_context 3 1 [7]) = Inr (messages, planned)"
  by (simp add: development_with_ai_def development_simps publish_defs Let_def status_request_def ai_context_def
      ai_principal_def ai_grants_def jo_new_def usize_max_def STATUS_COMPONENT_def channel_relay_owned_def)

definition ai_tool_state :: "(nat, unit) tool_state" where
  "ai_tool_state = \<lparr>ts_gateway = gateway_new development_with_ai (), ts_revision = 0\<rparr>"

definition ai_env :: "(nat, unit) bridge_env" where
  "ai_env = \<lparr>be_ops = \<lparr>op_try_send = \<lambda>sender e w. (True, w), op_try_shutdown = \<lambda>x w. (True, w)\<rparr>,
     be_clock = (\<lambda>_. demo_clock), be_others = (\<lambda>_ g. g), be_render_error = (\<lambda>_. []),
     be_render_snapshot = (\<lambda>_. []), be_inference_sink = None\<rparr>"

lemma ai_first_update: "\<exists>s1. status_apply ai_env 0 3 ai_context (ai_proposal [7]) 1 ai_tool_state
    = (TO_Completed 1 (bytes_of_string ''status updated''), s1)"
proof -
  let ?r = "status_request ai_context 3 1 [7]"
  obtain messages planned where auth: "authorize_publish development_with_ai ?r = Inr (messages, planned)"
    using ai_status_authorized by blast
  have cn: "bt_get (co_connections development_with_ai) (pq_connection ?r)
      = Some (ai_connection_of (Some ai_principal) (bs_insert development_session bt_new) (bs_insert ai_home_space bt_new) 1)"
    "pq_connection ?r \<noteq> 0"
    by (simp_all add: development_with_ai_def development_state_of_def status_request_def ai_context_def)
  have limiter: "rl_admit (cc_publish_rate_limit (co_config development_with_ai)) 0
      (cn_rate_limiter (ai_connection_of (Some ai_principal) (bs_insert development_session bt_new) (bs_insert ai_home_space bt_new) 1))
      = (Inr (), \<lparr>rl_window_started = Some 0, rl_publishes = 1\<rparr>)"
    by (simp add: development_with_ai_def development_simps rl_admit_def rl_default_def pr_default_def)
  have here: "gw_core (ts_gateway ai_tool_state) = development_with_ai" "ck_now (be_clock ai_env 0) = 0"
      "pp_arguments (ai_proposal [7]) = [7]"
    by (simp_all add: ai_env_def demo_clock_def ai_tool_state_def gateway_new_def ai_proposal_def)
  obtain outcome c where p: "publish_at (ck_release (be_clock ai_env 0)) (status_request ai_context 3 1 (pp_arguments (ai_proposal [7])))
      (ck_now (be_clock ai_env 0)) (gw_core (ts_gateway ai_tool_state)) = (Inr outcome, c)"
    using publish_succeeds [OF reachable_wf [OF development_with_ai_reachable] cn limiter auth] unfolding here by blast
  have others: "be_others ai_env n g = g" for n g by (simp add: ai_env_def)
  show ?thesis
    using status_apply_publishes(2) [OF others p]
    by (cases "status_apply ai_env 0 3 ai_context (ai_proposal [7]) 1 ai_tool_state") simp
qed

lemma racing_status_updates_apply_once_witness:
  "\<exists>s1 reason s2. status_apply ai_env 0 3 ai_context (ai_proposal [7]) 1 ai_tool_state
       = (TO_Completed 1 (bytes_of_string ''status updated''), s1)
     \<and> status_apply ai_env 1 3 ai_context (ai_proposal [8]) 1 s1 = (TO_Rejected PolicyDenied reason, s2)"
proof -
  obtain s1 where first: "status_apply ai_env 0 3 ai_context (ai_proposal [7]) 1 ai_tool_state
      = (TO_Completed 1 (bytes_of_string ''status updated''), s1)" using ai_first_update by blast
  have core: "gw_core (ts_gateway ai_tool_state) = development_with_ai"
    by (simp add: ai_tool_state_def gateway_new_def)
  have others: "be_others ai_env n g = g" for n g by (simp add: ai_env_def)
  have channel: "bt_get (co_channels (gw_core (ts_gateway ai_tool_state))) 3
      = Some (channel_relay_owned 3 LatestValue Stateful (64 * 1024))"
    by (simp add: core development_with_ai_def development_state_of_def)
  have policy: "never_rewrites (cd_authority (channel_relay_owned 3 LatestValue Stateful (64 * 1024)))"
    using relay_never_rewrites by (simp add: channel_relay_owned_def)
  have check: "status_check (ai_proposal bytes) ai_tool_state = Inr 1" for bytes
    by (simp add: status_check_def ai_proposal_def ai_tool_state_def)
  have "reachable_core (gw_core (ts_gateway ai_tool_state))"
    using core development_with_ai_reachable by simp
  from racing_status_updates_apply_once [OF others this channel policy check check first, of 1] first
  show ?thesis by blast
qed

end
