(* ===== verification/DeliveryProps.thy ===== *)
theory DeliveryProps
  imports Delivery ClientProps ServerProps
begin

text \<open>
  From the envelope a publisher sends to the envelope a subscriber drains: the relaying of every
  publish, and the transform of a client as the case of a replaceable value. The concrete case is a
  client of the development server.
\<close>

section \<open>A client in the development server\<close>

definition client_entity_record :: entity_record where
  "client_entity_record = \<lparr>er_id = 1, er_owner_connection = 1, er_owner_principal = 1,
     er_space = 1, er_space_epoch = 1, er_position = None\<rparr>"

definition development_with_client :: core where
  "development_with_client = development_state_of 2 2
     (bt_insert 1 (ai_connection_of (Some development_principal) (bs_insert development_session bt_new) (bs_insert ai_home_space bt_new) 1) bt_new)
     (bs_insert 1 bt_new) (bs_insert 1 bt_new) (bt_insert 1 client_entity_record bt_new)"

lemma client_authenticates:
  "authenticate 1 \<lparr>cr_token = ''dev-token''\<rparr>
     (development_state_of 2 1 (bt_insert 1 (ai_connection_of None bt_new bt_new 0) bt_new) members subs entities)
   = (Inr 1, development_state_of 2 1 (bt_insert 1 (ai_connection_of (Some development_principal) bt_new bt_new 0) bt_new)
       members subs entities)"
  by (simp add: development_simps development_authenticator_eq development_principal_def)

lemma client_joins:
  "join_session 1 development_session
     (development_state_of 2 1 (bt_insert 1 (ai_connection_of (Some development_principal) bt_new bt_new 0) bt_new) bt_new subs entities)
   = (Inr (), development_state_of 2 1
       (bt_insert 1 (ai_connection_of (Some development_principal) (bs_insert development_session bt_new) bt_new 0) bt_new)
       (bs_insert 1 bt_new) subs entities)"
  by (simp add: development_simps development_principal_def development_grants_def)

lemma client_subscribes:
  "subscribe 1 ai_home_space (development_state_of 2 1
       (bt_insert 1 (ai_connection_of (Some development_principal) (bs_insert development_session bt_new) bt_new 0) bt_new)
       members bt_new entities)
   = (Inr (), development_state_of 2 1
       (bt_insert 1 (ai_connection_of (Some development_principal) (bs_insert development_session bt_new) (bs_insert ai_home_space bt_new) 0) bt_new)
       members (bs_insert 1 bt_new) entities)"
  by (simp add: development_simps development_principal_def development_grants_def)

lemma client_spawns:
  "spawn_entity 1 ai_home_space 1 (development_state_of 2 1
       (bt_insert 1 (ai_connection_of (Some development_principal) (bs_insert development_session bt_new) (bs_insert ai_home_space bt_new) 0) bt_new)
       members subs bt_new)
   = (Inr 1, development_state_of 2 2
       (bt_insert 1 (ai_connection_of (Some development_principal) (bs_insert development_session bt_new) (bs_insert ai_home_space bt_new) 1) bt_new)
       members subs (bt_insert 1 client_entity_record bt_new))"
  by (simp add: development_simps development_principal_def development_grants_def u64_checked_succ_def client_entity_record_def)

lemma development_with_client_reachable: "reachable_core development_with_client"
proof -
  have command: "reachable_core (snd (handle demo_clock command c))" if "reachable_core c" for command c
    using reachable_step [OF that, of "A_Command demo_clock command"] by simp
  note connected = command [OF development_ready_reachable, of C_TransportConnected, simplified, unfolded ai_connects map_op_def, simplified]
  note authenticated = command [OF connected, of "C_Authenticate 1 \<lparr>cr_token = ''dev-token''\<rparr>", simplified, unfolded client_authenticates map_op_def, simplified]
  note joined = command [OF authenticated, of "C_JoinSession 1 development_session", simplified, unfolded client_joins map_op_def, simplified]
  note subscribed = command [OF joined, of "C_Subscribe 1 ai_home_space", simplified, unfolded client_subscribes map_op_def, simplified]
  note spawned = command [OF subscribed, of "C_SpawnEntity 1 ai_home_space 1", simplified, unfolded client_spawns map_op_def, simplified]
  show ?thesis using spawned by (simp add: development_with_client_def)
qed

lemma development_client:
  "bt_get (co_connections development_with_client) 1
     = Some (ai_connection_of (Some development_principal) (bs_insert development_session bt_new) (bs_insert ai_home_space bt_new) 1)"
  "rl_admit (cc_publish_rate_limit (co_config development_with_client)) 0
     (cn_rate_limiter (ai_connection_of p memberships subscriptions owned)) = (Inr (), \<lparr>rl_window_started = Some 0, rl_publishes = 1\<rparr>)"
  by (simp_all add: development_with_client_def development_simps rl_admit_def rl_default_def pr_default_def)

definition client_event :: envelope where
  "client_event = publish_event_envelope 1 1 1 1 1 1 5 9 [1, 2]"

definition client_event_request :: publish_request where
  "client_event_request = \<lparr>pq_connection = 1, pq_session = SessionKey 1 1, pq_space = 1, pq_space_epoch = 1,
     pq_entity = Some 1, pq_channel = 1, pq_sequence = 5, pq_delivery = ReliableOrdered, pq_persistence = Ephemeral,
     pq_coalesce_key = None, pq_payload = [1, 2]\<rparr>"

definition client_transform :: transform where
  "client_transform = \<lparr>tf_translation = (0x3F800000, 0, 0x7FC00000), tf_rotation = (0, 0, 0, 0x3F800000),
     tf_scale = (1, 2, 3)\<rparr>"

definition client_state_request :: publish_request where
  "client_state_request = \<lparr>pq_connection = 1, pq_session = SessionKey 1 1, pq_space = 1, pq_space_epoch = 1,
     pq_entity = Some 1, pq_channel = 2, pq_sequence = 7, pq_delivery = LatestValue, pq_persistence = Stateful,
     pq_coalesce_key = Some (CoalesceKey 2 (Some 1) 4), pq_payload = transform_encode client_transform\<rparr>"

lemma transform_length: "length (transform_encode t) = ENCODED_LEN"
  using transform_round_trip [of t] by (auto simp: transform_decode_def split: if_splits)

lemma client_request_connections: "pq_connection client_event_request = 1" "pq_connection client_state_request = 1"
  by (simp_all add: client_event_request_def client_state_request_def)

lemma client_authorized:
  "\<exists>messages planned. authorize_publish development_with_client client_event_request = Inr (messages, planned)"
  "\<exists>messages planned. authorize_publish development_with_client client_state_request = Inr (messages, planned)"
  by (simp_all add: development_with_client_def development_simps publish_defs Let_def client_event_request_def
      client_state_request_def client_entity_record_def transform_length ENCODED_LEN_def
      development_principal_def development_grants_def jo_new_def usize_max_def channel_relay_owned_def)

lemma client_publishes:
  assumes "\<exists>messages planned. authorize_publish development_with_client r = Inr (messages, planned)" "pq_connection r = 1"
  shows "\<exists>outcome c'. publish_at clock r 0 development_with_client = (Inr outcome, c')"
  using assms publish_succeeds [OF reachable_wf [OF development_with_client_reachable], of r _ 0]
    development_client by fastforce

text \<open>
  C33. Relaying. A valid publish envelope that a reachable core accepts, on a channel whose policy accepts or
  rejects messages but does not rewrite them, becomes one message, and the envelope of that message is
  the one that was sent, with the protocol version, the tick and the correlation of the server and,
  for a reliable event, the type id 1; it passes the checks of the codec again. Whatever anybody
  drains afterwards was waiting for him before or is that message. When no slow consumer had to be
  disconnected, everybody drains his queue with the message pushed onto it if the routing of the
  space chose him and his grants let him receive it, and unchanged otherwise; and a message of a
  critical class is drained by every subscriber that may receive it.
\<close>

theorem published_envelope_is_relayed:
  assumes "reachable_core c" "route x e = Routed (C_Publish r)" "validate_envelope e = Inr ()"
    and "bt_get (co_channels c) (pq_channel r) = Some channel" "passes (cd_authority channel)"
    and "publish_at clock r now c = (Inr outcome, c')"
  shows "\<exists>m. outbound_envelope m = e\<lparr>ev_protocol_version := PROTOCOL_VERSION, ev_server_tick := 0,
          ev_correlation_id := None,
          ev_message := (case ev_message e of ReliableEvent p \<Rightarrow> ReliableEvent (p\<lparr>ok_type_id := 1\<rparr>) | m \<Rightarrow> m)\<rparr>
    \<and> validate_envelope (outbound_envelope m) = Inr ()
    \<and> (\<forall>y ms d. drain_outbound y c' = (Inr ms, d) \<longrightarrow> set ms \<subseteq> insert m (set (waiting_for c y)))
    \<and> (po_disconnected_slow_consumers outcome = [] \<longrightarrow> (\<forall>y cn. bt_get (co_connections c) y = Some cn \<longrightarrow>
        (\<exists>ms d. drain_outbound y c' = (Inr ms, d)
          \<and> ms = oq_view (if y \<in> set (recipients_of c (pq_session r) m)
                \<and> receiving_connection c (pq_session r) m y \<noteq> None
              then snd (oq_push m (cn_outbound cn)) else cn_outbound cn)
          \<and> (is_critical (om_delivery m) \<and> entitled cn m \<longrightarrow> m \<in> set ms))))"
proof -
  define m where "m = am_to_outbound (pq_session r) (am_from_request r)"
  note wf = reachable_wf [OF assms(1)]
  note w = publish_waiting [OF wf assms(6,4,5) m_def]
  have wf': "core_wf c'" using publish_at_wf [OF wf, of clock r now] assms(6) by simp
  have "outbound_envelope m = relayed e" unfolding m_def by (rule relayed_publish [OF assms(2,3)])
  moreover have "validate_envelope (relayed e) = Inr ()"
    by (rule routed_publish [OF assms(2)]) (use relayed_valid assms(3) in blast)
  moreover have "set ms \<subseteq> insert m (set (waiting_for c y))" if "drain_outbound y c' = (Inr ms, d)" for y ms d
    using w(1) [of y] drained [OF wf' that] by simp
  moreover have "\<exists>ms d. drain_outbound y c' = (Inr ms, d)
      \<and> ms = oq_view (if y \<in> set (recipients_of c (pq_session r) m) \<and> receiving_connection c (pq_session r) m y \<noteq> None
          then snd (oq_push m (cn_outbound cn)) else cn_outbound cn)
      \<and> (is_critical (om_delivery m) \<and> entitled cn m \<longrightarrow> m \<in> set ms)"
    if h: "po_disconnected_slow_consumers outcome = []" "bt_get (co_connections c) y = Some cn" for y cn
  proof -
    obtain d where d: "drain_outbound y c' = (Inr (oq_view (if receives c (pq_session r) m y
        then snd (oq_push m (cn_outbound cn)) else cn_outbound cn)), d)" using w(2) [OF h] by blast
    then show ?thesis using w(3) [OF h] drained [OF wf' d] unfolding receives_def by auto
  qed
  ultimately show ?thesis by (intro exI [of _ m]) (simp add: relayed_def)
qed

lemma published_envelope_is_relayed_witness:
  "\<exists>m. ev_payload_type_id client_event = Some 9 \<and> ev_payload_type_id (outbound_envelope m) = Some 1
     \<and> (\<exists>outcome c'. publish_at (\<lambda>_ _ _. 0) client_event_request 0 development_with_client = (Inr outcome, c')
        \<and> (po_disconnected_slow_consumers outcome = [] \<longrightarrow>
            (\<exists>ms d. drain_outbound 1 c' = (Inr ms, d) \<and> set ms \<subseteq> insert m (set (waiting_for development_with_client 1)))))"
proof -
  obtain outcome c' where p: "publish_at (\<lambda>_ _ _. 0) client_event_request 0 development_with_client = (Inr outcome, c')"
    using client_publishes [OF client_authorized(1) client_request_connections(1)] by blast
  have e: "route 1 client_event = Routed (C_Publish client_event_request)"
    by (simp add: client_event_def client_event_request_def client_envelopes_routed)
  have v: "validate_envelope client_event = Inr ()"
    unfolding client_event_def by (rule client_envelopes_valid) simp_all
  have ch: "bt_get (co_channels development_with_client) (pq_channel client_event_request)
      = Some (channel_relay_owned 1 ReliableOrdered Ephemeral (64 * 1024))"
    by (simp add: development_with_client_def development_state_of_def client_event_request_def)
  have "passes (cd_authority (channel_relay_owned 1 ReliableOrdered Ephemeral (64 * 1024)))"
    using relay_passes by (simp add: channel_relay_owned_def)
  from published_envelope_is_relayed [OF development_with_client_reachable e v ch this p]
  obtain m where m: "outbound_envelope m = client_event\<lparr>ev_protocol_version := PROTOCOL_VERSION, ev_server_tick := 0,
        ev_correlation_id := None, ev_message := (case ev_message client_event of
          ReliableEvent p \<Rightarrow> ReliableEvent (p\<lparr>ok_type_id := 1\<rparr>) | m \<Rightarrow> m)\<rparr>"
    and sub: "\<And>y ms d. drain_outbound y c' = (Inr ms, d) \<Longrightarrow> set ms \<subseteq> insert m (set (waiting_for development_with_client y))"
    and dr: "\<And>y cn. po_disconnected_slow_consumers outcome = [] \<Longrightarrow>
        bt_get (co_connections development_with_client) y = Some cn \<Longrightarrow> \<exists>ms d. drain_outbound y c' = (Inr ms, d)"
    by blast
  have "ev_payload_type_id client_event = Some 9" "ev_payload_type_id (outbound_envelope m) = Some 1"
    by (simp_all add: m client_event_def client_envelopes ev_payload_type_id_def)
  then show ?thesis using p sub dr development_client(1) by blast
qed

text \<open>
  C39. A transform arrives. A client publishes a transform (any bits, NaNs included) with non-zero ids,
  on a channel whose policy accepts or rejects messages but does not rewrite them, and a reachable core
  accepts it. Then nobody is
  disconnected, and everybody the routing chooses and whose grants let him receive it, unless his queue
  has no place for replaceable values or is full of critical messages, drains the envelope the client
  sent, from which the transform is decoded bit for bit; every older value of the same entity and
  component that was waiting for him is gone. Nobody drains anything that was not waiting before or is
  that envelope.
\<close>

theorem published_transform_arrives:
  assumes "e = publish_state_envelope ns sid sp ep ch en sq ty (transform_encode t)"
    and "ns \<noteq> 0" "sid \<noteq> 0" "sp \<noteq> 0" "ep \<noteq> 0" "ch \<noteq> 0" "en \<noteq> 0" "ty \<noteq> 0"
    and "reachable_core c" "route x e = Routed (C_Publish r)"
    and "bt_get (co_channels c) (pq_channel r) = Some channel" "passes (cd_authority channel)"
    and "publish_at clock r now c = (Inr outcome, c')"
  shows "validate_envelope e = Inr () \<and> po_disconnected_slow_consumers outcome = []
    \<and> (\<exists>m. outbound_envelope m = e \<and> transform_decode (ev_payload_bytes (outbound_envelope m)) = Some t
      \<and> (\<forall>y ms d. drain_outbound y c' = (Inr ms, d) \<longrightarrow> set ms \<subseteq> insert m (set (waiting_for c y)))
      \<and> (\<forall>y cn. y \<in> set (recipients_of c (pq_session r) m) \<and> receiving_connection c (pq_session r) m y = Some cn
            \<and> qc_latest_capacity (oq_config (cn_outbound cn)) \<noteq> 0
            \<and> length (oq_critical (cn_outbound cn)) < qc_total_capacity (oq_config (cn_outbound cn)) \<longrightarrow>
          (\<exists>ms d. drain_outbound y c' = (Inr ms, d)
            \<and> filter (\<lambda>w. is_replaceable (om_delivery w) \<and> om_scoped_coalesce_key w = om_scoped_coalesce_key m) ms = [m])))"
proof -
  define m where "m = am_to_outbound (pq_session r) (am_from_request r)"
  note wf = reachable_wf [OF assms(9)]
  note w = publish_waiting [OF wf assms(13,11,12) m_def]
  have wf': "core_wf c'" using publish_at_wf [OF wf, of clock r now] assms(13) by simp
  have v: "validate_envelope e = Inr ()" unfolding assms(1) by (rule client_envelopes_valid) (use assms in auto)
  have r: "r = \<lparr>pq_connection = x, pq_session = SessionKey ns sid, pq_space = sp, pq_space_epoch = ep, pq_entity = Some en,
       pq_channel = ch, pq_sequence = sq, pq_delivery = LatestValue, pq_persistence = Stateful,
       pq_coalesce_key = Some (CoalesceKey ch (Some en) ty), pq_payload = transform_encode t\<rparr>"
    using assms(10) unfolding assms(1) client_envelopes_routed(4) by simp
  have "outbound_envelope m = relayed e" unfolding m_def by (rule relayed_publish [OF assms(10) v])
  then have out: "outbound_envelope m = e" by (simp add: relayed_def assms(1) client_envelopes)
  have t: "transform_decode (ev_payload_bytes e) = Some t"
    by (simp add: assms(1) client_envelopes ev_payload_bytes_def transform_round_trip)
  have rep: "is_replaceable (om_delivery m)" "\<not> is_critical (om_delivery m)"
    by (simp_all add: m_def r am_to_outbound_def am_from_request_def)
  obtain key where key: "om_scoped_coalesce_key m = Some key"
    by (simp add: m_def r am_to_outbound_def am_from_request_def om_scoped_coalesce_key_def)
  have none: "po_disconnected_slow_consumers outcome = []" by (rule w(4) [OF rep(2)])
  have "set ms \<subseteq> insert m (set (waiting_for c y))" if "drain_outbound y c' = (Inr ms, d)" for y ms d
    using w(1) [of y] drained [OF wf' that] by simp
  moreover have "\<exists>ms d. drain_outbound y c' = (Inr ms, d)
      \<and> filter (\<lambda>w. is_replaceable (om_delivery w) \<and> om_scoped_coalesce_key w = om_scoped_coalesce_key m) ms = [m]"
    if h: "y \<in> set (recipients_of c (pq_session r) m)" "receiving_connection c (pq_session r) m y = Some cn"
      "qc_latest_capacity (oq_config (cn_outbound cn)) \<noteq> 0"
      "length (oq_critical (cn_outbound cn)) < qc_total_capacity (oq_config (cn_outbound cn))" for y cn
  proof -
    have get: "bt_get (co_connections c) y = Some cn" using h(2) by (simp add: receiving_connection_Some)
    obtain rr q where p: "oq_push m (cn_outbound cn) = (rr, q)" by force
    have qwf: "oq_wf (cn_outbound cn)" using connection_queue_wf [OF wf get] ..
    have "receives c (pq_session r) m y" using h by (simp add: receives_def)
    then obtain d where "drain_outbound y c' = (Inr (oq_view q), d)" using w(2) [OF none get] p by auto
    moreover have "oq_wf q" using oq_push_wf [OF qwf p] by simp
    ultimately show ?thesis
      using only_under_its_key push_latest_kept [OF qwf rep(1) key h(3,4) p] key by auto
  qed
  ultimately show ?thesis using v none out t by blast
qed

lemma published_transform_arrives_witness:
  "\<exists>m outcome c' ms d. transform_decode (ev_payload_bytes (outbound_envelope m)) = Some client_transform
     \<and> publish_at (\<lambda>_ _ _. 0) client_state_request 0 development_with_client = (Inr outcome, c')
     \<and> drain_outbound 1 c' = (Inr ms, d) \<and> m \<in> set ms"
proof -
  let ?e = "publish_state_envelope 1 1 1 1 2 1 7 4 (transform_encode client_transform)"
  obtain outcome c' where p: "publish_at (\<lambda>_ _ _. 0) client_state_request 0 development_with_client = (Inr outcome, c')"
    using client_publishes [OF client_authorized(2) client_request_connections(2)] by blast
  have e: "route 1 ?e = Routed (C_Publish client_state_request)"
    by (simp add: client_state_request_def client_envelopes_routed)
  have ch: "bt_get (co_channels development_with_client) (pq_channel client_state_request)
      = Some (channel_relay_owned 2 LatestValue Stateful (64 * 1024))"
    by (simp add: development_with_client_def development_state_of_def client_state_request_def)
  have pass: "passes (cd_authority (channel_relay_owned 2 LatestValue Stateful (64 * 1024)))"
    using relay_passes by (simp add: channel_relay_owned_def)
  obtain m where m: "outbound_envelope m = ?e" "transform_decode (ev_payload_bytes (outbound_envelope m)) = Some client_transform"
    and dr: "\<And>y cn. y \<in> set (recipients_of development_with_client (pq_session client_state_request) m) \<Longrightarrow>
        receiving_connection development_with_client (pq_session client_state_request) m y = Some cn \<Longrightarrow>
        qc_latest_capacity (oq_config (cn_outbound cn)) \<noteq> 0 \<Longrightarrow>
        length (oq_critical (cn_outbound cn)) < qc_total_capacity (oq_config (cn_outbound cn)) \<Longrightarrow>
        \<exists>ms d. drain_outbound y c' = (Inr ms, d)
            \<and> filter (\<lambda>w. is_replaceable (om_delivery w) \<and> om_scoped_coalesce_key w = om_scoped_coalesce_key m) ms = [m]"
    using published_transform_arrives [OF refl _ _ _ _ _ _ _ development_with_client_reachable e ch pass p] by auto
  have scope: "om_space m = 1" "om_channel m = 2" using m(1) by (auto simp: outbound_envelope_def client_envelopes Let_def)
  have here: "1 \<in> set (recipients_of development_with_client (pq_session client_state_request) m)"
    and there: "receiving_connection development_with_client (pq_session client_state_request) m 1
       = Some (ai_connection_of (Some development_principal) (bs_insert development_session bt_new) (bs_insert ai_home_space bt_new) 1)"
    by (cases "is_critical (om_delivery m)") (simp_all add: scope Let_def recipients_of_def routing_recipients_def
        subscribers_of_def receiving_connection_def can_receive_def development_with_client_def development_simps
        client_state_request_def development_principal_def development_grants_def)
  from dr [OF here there] obtain ms d where "drain_outbound 1 c' = (Inr ms, d)"
    "filter (\<lambda>w. is_replaceable (om_delivery w) \<and> om_scoped_coalesce_key w = om_scoped_coalesce_key m) ms = [m]"
    by (auto simp: development_simps)
  moreover from this have "m \<in> set ms" by (auto dest!: arg_cong [of _ _ set])
  ultimately show ?thesis using m(2) p by blast
qed

end
