(* ===== verification/Spec2Isabelle.thy ===== *)
theory Spec2Isabelle
  imports Prelude Protocol Semantics Codec CodecProps Btree Ids F64 Model Auth Authority Queue Journal Usage Admission AdmissionQueue
    AdmissionProps Spatial CoreState CoreCleanup CoreOps CorePublish SessionInv CoreInv CoreInvOps
    CoreInvCleanup CoreInvPublish CoreRun CorePrune CoreEvolve CoreDemo CoreProps Replay SpatialGap RoutingProps
    Worker Gateway Bridge GatewayInv GatewayProps GatewayRefine RelayProps Delivery Text Session SessionProps WebTransport InferenceTools Inference TestProvider InferenceProps Client ClientProps AdmissionHttp Server ServerProps UsageSinks Loadtest Endpoint ActivityLog Startup ToolRace DeliveryProps
begin

text \<open>
  A verification development for the Rust workspace \<^verbatim>\<open>signalweave\<close> (the Woven real-time session
  server): \<^verbatim>\<open>woven-core\<close>, \<^verbatim>\<open>woven-protocol\<close>, \<^verbatim>\<open>woven-transport\<close>, \<^verbatim>\<open>woven-transport-quic\<close>, the four
  \<^verbatim>\<open>woven-inference\<close> crates, \<^verbatim>\<open>woven-client-rust\<close>, \<^verbatim>\<open>woven-server\<close> and \<^verbatim>\<open>woven-loadtest\<close>, all under
  \<^verbatim>\<open>src/crates\<close>.

  \<^bold>\<open>The program.\<close> \<^verbatim>\<open>woven-core\<close> is a transport-independent, single-threaded state machine. A
  \<^verbatim>\<open>WovenCore\<close> owns connections, sessions (spaces, entities, retained state, replay sequences),
  channels with an authority policy, one admission controller per capacity-managed session and a
  journal outbox. A transport calls its operations through \<^verbatim>\<open>TransportIndependentWorker::handle\<close>,
  one command at a time; a publish is rate limited, authorised, put to the channel's policy,
  validated, journalled, committed to the session, routed to the subscribers in reach and pushed
  on their bounded outbound queues; consumers whose critical class is exhausted are disconnected.

  Around it, \<^verbatim>\<open>woven-transport\<close> puts a worker task that owns the core and a bridge from protocol
  envelopes to its requests; \<^verbatim>\<open>woven-transport-quic\<close> serves one connection per task over QUIC or
  WebTransport; the inference coordinator is a connection like any other that answers the control
  messages the bridge does not handle; the server puts these together and the clients talk to it.

  \<^bold>\<open>Theories, in the order of the code.\<close>
  \<^item> \<^verbatim>\<open>Prelude\<close>: Rust's integer widths, \<^verbatim>\<open>Instant\<close> and \<^verbatim>\<open>Duration\<close> (nanoseconds as naturals with the
    checked operations), \<^verbatim>\<open>Result\<close> as a sum, and the locales \<open>transition_system\<close> and
    \<open>bounded_transition_system\<close> (runs of a total step function that preserves an invariant).
  \<^item> \<^verbatim>\<open>Protocol\<close>, \<^verbatim>\<open>Semantics\<close>, \<^verbatim>\<open>Codec\<close>, \<^verbatim>\<open>CodecProps\<close>: \<^verbatim>\<open>woven-protocol\<close>, the messages, their
    checks and the codec. FlatBuffers is a parameter of the codec: the wire tables are those of the
    schema, and the round trip rests on one hypothesis, that the library reads back the table that
    was built.
  \<^item> \<^verbatim>\<open>Btree\<close>: \<^verbatim>\<open>BTreeMap\<close> and \<^verbatim>\<open>BTreeSet\<close> as strictly sorted association lists.
  \<^item> \<^verbatim>\<open>Ids\<close>, \<^verbatim>\<open>F64\<close>, \<^verbatim>\<open>Model\<close>: \<^verbatim>\<open>ids.rs\<close>, IEEE 754 binary64 on bit patterns, \<^verbatim>\<open>model.rs\<close>.
  \<^item> \<^verbatim>\<open>Auth\<close>, \<^verbatim>\<open>Authority\<close>: \<^verbatim>\<open>auth.rs\<close> (grants, the development authenticator, locale
    \<open>authenticator\<close>) and \<^verbatim>\<open>authority.rs\<close> (policies are functions from a context and a proposed
    message to an outcome; the relay policy is the code's own).
  \<^item> \<^verbatim>\<open>Queue\<close>, \<^verbatim>\<open>Journal\<close>: \<^verbatim>\<open>queue.rs\<close> (locale \<open>delivery_queue\<close>) and \<^verbatim>\<open>journal.rs\<close> (locale
    \<open>bounded_fifo\<close>, also interpreted on the worker's harness).
  \<^item> \<^verbatim>\<open>Usage\<close>, \<^verbatim>\<open>UsageSinks\<close>: \<^verbatim>\<open>usage.rs\<close>, the counters with their atomics at width, sinks and
    aggregator; the contract of a sink (locale \<open>ordered_sink\<close>), and what the spool keeps of it.
  \<^item> \<^verbatim>\<open>Admission\<close>, \<^verbatim>\<open>AdmissionQueue\<close>, \<^verbatim>\<open>AdmissionProps\<close>: \<^verbatim>\<open>admission.rs\<close>, one function per operation;
    the capacity invariant, the queue invariant and the properties of a controller's runs.
  \<^item> \<^verbatim>\<open>Spatial\<close>, \<^verbatim>\<open>CoreState\<close>, \<^verbatim>\<open>CoreCleanup\<close>, \<^verbatim>\<open>CoreOps\<close>, \<^verbatim>\<open>CorePublish\<close>: \<^verbatim>\<open>core.rs\<close>. The state is the
    record \<open>core\<close>; a fallible operation is \<open>'a core_op\<close>, a function from a core to a result and the
    core afterwards, so that what an operation has changed when it fails is visible. \<open>checked\<close> runs
    the checks that precede a change. The unbounded loop of the cascade removal is a recursion with
    a termination proof, shown equal to an inductively defined closure.
  \<^item> \<^verbatim>\<open>SessionInv\<close>: the invariant of one session, kept by each change the operations make to it.
  \<^item> \<^verbatim>\<open>CoreInv\<close>, \<^verbatim>\<open>CoreInvOps\<close>, \<^verbatim>\<open>CoreInvCleanup\<close>, \<^verbatim>\<open>CoreInvPublish\<close>: \<open>core_wf\<close>, the invariant of the
    whole core (links of connections and sessions, entitlement of queued messages, quotas,
    admissions, limits), and its preservation by every operation.
  \<^item> \<^verbatim>\<open>CoreRun\<close>: \<open>core_step\<close>, one action a transport can take (a worker command, a direct call), as
    a total function; it interprets \<open>transition_system\<close>, so that every reachable core satisfies
    \<open>core_wf\<close>. A core is reachable when it comes from \<^verbatim>\<open>WovenCore::new\<close> with a valid
    configuration by any list of actions.
  \<^item> \<^verbatim>\<open>CorePrune\<close>, \<^verbatim>\<open>CoreEvolve\<close>: what a cleanup may take away, and what no action takes away
    (recorded sequences, id counters).
  \<^item> \<^verbatim>\<open>CoreDemo\<close>: a run with two clients and a publish, evaluated, for the witnesses.
  \<^item> \<^verbatim>\<open>CoreProps\<close>, \<^verbatim>\<open>Replay\<close>, \<^verbatim>\<open>RoutingProps\<close>: the properties of the core; \<^verbatim>\<open>Replay\<close> follows the
    sequence of one stream over a run. \<^verbatim>\<open>SpatialGap\<close>: binary64 values worked
    out by hand, for the example where the grid prefilter misses an entity within the radius.
  \<^item> \<^verbatim>\<open>Worker\<close>: \<^verbatim>\<open>worker.rs\<close>, the command dispatch and the bounded harness.

  \<^item> \<^verbatim>\<open>Gateway\<close>, \<^verbatim>\<open>Bridge\<close>: \<^verbatim>\<open>woven-transport\<close>, the task that owns the core with its tables of
    recipients and subscriptions, its counters and its fan-out; and the handler that turns one
    envelope of an authenticated connection into requests of that task. The \<^verbatim>\<open>tokio\<close> channels are an
    operation of the record \<open>channel_ops\<close> on a world of any type, and \<open>be_others\<close> is whatever the other
    connections do between two requests. A failed delivery disconnects its receiver, which announces
    the entities it owned, which may fail in turn: this recursion has fuel, one more than the core
    has connections, and every nested call has disconnected one connection more.
  \<^item> \<^verbatim>\<open>GatewayInv\<close>, \<^verbatim>\<open>GatewayProps\<close>: a request is a run of the core, what a fan-out may take away,
    and the properties of the gateway. \<^verbatim>\<open>GatewayRefine\<close>: a specification of the worker task without
    send loops, recursion or table order, and the refinement of every run of its loop.
  \<^item> \<^verbatim>\<open>RelayProps\<close>, \<^verbatim>\<open>Delivery\<close>, \<^verbatim>\<open>DeliveryProps\<close>: the envelope of a routed publish, what a publish
    pushes on which queue when its channel's policy does not rewrite messages, and so the envelope a
    subscriber drains, for every publish and for a client's transform.
  \<^item> \<^verbatim>\<open>ActivityLog\<close>: the events of the development log, and what they may not contain.
  \<^item> \<^verbatim>\<open>Text\<close>: UTF-8, numbers in decimal and the texts of the codec's errors.
  \<^item> \<^verbatim>\<open>Session\<close>, \<^verbatim>\<open>WebTransport\<close>, \<^verbatim>\<open>Endpoint\<close>, \<^verbatim>\<open>SessionProps\<close>: \<^verbatim>\<open>woven-transport-quic\<close>. A connection
    is the function \<open>serve_connection\<close> over the list of events its select loop takes (a frame read,
    a datagram, a further stream, a shutdown), ended by the first that ends it; the bytes of the stream that have not been read are part of its state, since
    a cancelled read loses what it has read. \<^verbatim>\<open>Endpoint\<close> has the two accept loops as step relations
    (locale \<open>accept_loop_system\<close>). \<^verbatim>\<open>SessionProps\<close> also has the session over envelopes instead of bytes,
    which the session over a well-formed stream refines.
  \<^item> \<^verbatim>\<open>InferenceTools\<close>, \<^verbatim>\<open>Inference\<close>, \<^verbatim>\<open>TestProvider\<close>, \<^verbatim>\<open>InferenceProps\<close>, \<^verbatim>\<open>ToolRace\<close>: the inference crates.
    A provider is a function from a request to its events; a tool handler a value with operations;
    the coordinator handles one event after the other, with the other tasks of the process in
    between. \<^verbatim>\<open>ToolRace\<close> splits an invocation of the status tool at its await.
  \<^item> \<^verbatim>\<open>Client\<close>, \<^verbatim>\<open>ClientProps\<close>: \<^verbatim>\<open>woven-client-rust\<close>, transforms, URLs, handshake and envelopes.
  \<^item> \<^verbatim>\<open>AdmissionHttp\<close>, \<^verbatim>\<open>Server\<close>, \<^verbatim>\<open>ServerProps\<close>, \<^verbatim>\<open>Startup\<close>: \<^verbatim>\<open>woven-server\<close>, the admission routes over a
    controller of \<^verbatim>\<open>Admission\<close>, the development core and the start of the coordinator, evaluated,
    the control plane, and the URLs a development server reports, read by the client.
  \<^item> \<^verbatim>\<open>Loadtest\<close>: \<^verbatim>\<open>woven-loadtest\<close>, the scenarios as runs of a core of their own, and its arguments.

  \<^bold>\<open>Time and floating point.\<close> Operations that read the clock take the reading as an argument.
  Binary64 arithmetic is written on bit patterns with exact integer arithmetic and rounding to
  nearest even.

  \<^bold>\<open>Panics.\<close> Where the source can panic (\<^verbatim>\<open>expect\<close> in the queue, division by a window below one
  second in the aggregator) the model has an explicit value for it.

  \<^bold>\<open>Parameters.\<close> Code that is not in the repository is an argument: the FlatBuffers builder and
  verifier, the \<^verbatim>\<open>tokio\<close> channels, the streams and datagrams of \<^verbatim>\<open>quinn\<close> and \<^verbatim>\<open>wtransport\<close>, the HTTP
  framework, the JSON serialisation, the file of the file sink, and an authority policy, a provider
  or a tool that an embedding supplies.

  \<^bold>\<open>What the properties show.\<close> The invariants of the core hold in every reachable state and give
  isolation of receivers, exact quotas, limits, agreement of links and complete cleanup; publishing is
  atomic, journalled in order, delivered to every entitled subscriber or followed by its
  disconnection, and a sequence is accepted at most once; admission never exceeds its capacity, is
  first come first served and follows the newest capacity; queues are bounded and ordered; the codec
  round-trips and accepts only checked envelopes; the worker task of the gateway refines its
  specification and its fan-out ends; a session changes nothing before authentication, handles the
  envelopes written to its stream in order and leaves nothing behind; with a provider that keeps to
  the ranges and limits of the protocol the inference plane sends only envelopes the codec encodes;
  what a client publishes is what its subscribers drain.

  \<^bold>\<open>Not modelled.\<close> Building and binding endpoints with their certificates and TLS verifiers; the
  banner, the log output and its filters; the layers of the HTTP framework; opening and closing a
  client's connection and its time limits; printing the result of a load test; \<^verbatim>\<open>woven-client-ts\<close>,
  which is another language. All of it calls libraries and has no state of its own.
\<close>

end
